(* ===== verification/Prelude.thy ===== *)
theory Prelude
  imports Main "HOL-Library.Char_ord" "HOL-Library.List_Lexorder"
begin

text \<open>
  The shared vocabulary of the development: Go's values as the model has them, the
  relational tables the owner services write, and the lemmas every component proof rests on.

  A Go \<open>string\<close> is the list of its bytes, so \<open>length\<close> is Go's \<open>len\<close> and the order on
  strings is the bytewise one. A \<open>time.Time\<close> is an integer number of nanoseconds with the
  zero value at 0; every reading of a clock (\<open>time.Now\<close>, SQL \<open>now()\<close>) is an argument of
  the operation that reads it. A function that returns \<open>(T, error)\<close> returns a value of
  \<open>'e + 'a\<close>, with \<open>Inl\<close> for the error.
\<close>

named_theorems row_simps \<open>rewriting of table lookups after inserts and updates\<close>
named_theorems keeps \<open>what an operation leaves unchanged\<close>

type_synonym time = int

abbreviation is_zero :: "time \<Rightarrow> bool" where
  "is_zero t \<equiv> t = 0"

section \<open>Strings\<close>

text \<open>
  \<open>strings.TrimSpace\<close> removes the Unicode white space at both ends. The byte sequences are
  the UTF-8 encodings of the code points with the \<open>White_Space\<close> property.
\<close>

definition go_spaces :: "string list" where
  "go_spaces =
     [[CHR 0x09], [CHR 0x0A], [CHR 0x0B], [CHR 0x0C], [CHR 0x0D], [CHR 0x20],
      [CHR 0xC2, CHR 0x85], [CHR 0xC2, CHR 0xA0], [CHR 0xE1, CHR 0x9A, CHR 0x80],
      [CHR 0xE2, CHR 0x80, CHR 0x80], [CHR 0xE2, CHR 0x80, CHR 0x81],
      [CHR 0xE2, CHR 0x80, CHR 0x82], [CHR 0xE2, CHR 0x80, CHR 0x83],
      [CHR 0xE2, CHR 0x80, CHR 0x84], [CHR 0xE2, CHR 0x80, CHR 0x85],
      [CHR 0xE2, CHR 0x80, CHR 0x86], [CHR 0xE2, CHR 0x80, CHR 0x87],
      [CHR 0xE2, CHR 0x80, CHR 0x88], [CHR 0xE2, CHR 0x80, CHR 0x89],
      [CHR 0xE2, CHR 0x80, CHR 0x8A], [CHR 0xE2, CHR 0x80, CHR 0xA8],
      [CHR 0xE2, CHR 0x80, CHR 0xA9], [CHR 0xE2, CHR 0x80, CHR 0xAF],
      [CHR 0xE2, CHR 0x81, CHR 0x9F], [CHR 0xE3, CHR 0x80, CHR 0x80]]"

fun strip_prefix :: "'a list \<Rightarrow> 'a list \<Rightarrow> 'a list option" where
  "strip_prefix [] s = Some s"
| "strip_prefix (p # ps) [] = None"
| "strip_prefix (p # ps) (c # cs) = (if p = c then strip_prefix ps cs else None)"

fun strip_any :: "'a list list \<Rightarrow> 'a list \<Rightarrow> 'a list option" where
  "strip_any [] s = None"
| "strip_any (p # ps) s =
     (case strip_prefix p s of Some r \<Rightarrow> Some r | None \<Rightarrow> strip_any ps s)"

function trim_front :: "'a list list \<Rightarrow> 'a list \<Rightarrow> 'a list" where
  "trim_front ps s =
     (case strip_any ps s of
        Some r \<Rightarrow> if length r < length s then trim_front ps r else s
      | None \<Rightarrow> s)"
  by pat_completeness auto
termination
  by (relation "measure (\<lambda>(ps, s). length s)") auto

declare trim_front.simps [simp del]

definition trim_space :: "string \<Rightarrow> string" where
  "trim_space s = rev (trim_front (map rev go_spaces) (rev (trim_front go_spaces s)))"

definition has_prefix :: "string \<Rightarrow> string \<Rightarrow> bool" where
  "has_prefix s p \<longleftrightarrow> strip_prefix p s \<noteq> None"

definition has_suffix :: "string \<Rightarrow> string \<Rightarrow> bool" where
  "has_suffix s p \<longleftrightarrow> strip_prefix (rev p) (rev s) \<noteq> None"

definition trim_suffix :: "string \<Rightarrow> string \<Rightarrow> string" where
  "trim_suffix s p =
     (case strip_prefix (rev p) (rev s) of Some r \<Rightarrow> rev r | None \<Rightarrow> s)"

definition lower_char :: "char \<Rightarrow> char" where
  "lower_char c = (if 65 \<le> (of_char c :: nat) \<and> (of_char c :: nat) \<le> 90
                   then char_of ((of_char c :: nat) + 32) else c)"

definition non_empty_or :: "string \<Rightarrow> string \<Rightarrow> string" where
  \<comment> \<open>the recurring \<open>if len(x) == 0 { x = default }\<close>\<close>
  "non_empty_or s d = (if s = [] then d else s)"

definition null_if_blank :: "string \<Rightarrow> string option" where
  \<comment> \<open>the recurring \<open>var v any; if strings.TrimSpace(x) != "" { v = x }\<close>: SQL \<open>NULL\<close> for a blank\<close>
  "null_if_blank s = (if trim_space s = [] then None else Some s)"

definition coalesce_str :: "string option \<Rightarrow> string" where
  \<comment> \<open>\<open>COALESCE(column, '')\<close> and the \<open>String\<close> field of a \<open>sql.NullString\<close>\<close>
  "coalesce_str v = (case v of None \<Rightarrow> [] | Some s \<Rightarrow> s)"

definition coalesce_time :: "time option \<Rightarrow> time" where
  "coalesce_time v = (case v of None \<Rightarrow> 0 | Some t \<Rightarrow> t)"

section \<open>Tables\<close>

datatype db_error = UniqueViolation | CheckViolation | ForeignKeyViolation

definition update_rows :: "('r \<Rightarrow> bool) \<Rightarrow> ('r \<Rightarrow> 'r) \<Rightarrow> 'r list \<Rightarrow> 'r list" where
  "update_rows p f rows = map (\<lambda>r. if p r then f r else r) rows"

definition sql_update ::
  "('r \<Rightarrow> bool) \<Rightarrow> ('r \<Rightarrow> bool) \<Rightarrow> ('r \<Rightarrow> 'r) \<Rightarrow> 'r list \<Rightarrow> db_error + (nat \<times> 'r list)" where
  \<comment> \<open>\<open>UPDATE t SET f WHERE p\<close> with the table's CHECK constraints: the rows affected and the table\<close>
  "sql_update chk p f rows =
     (if list_all (\<lambda>r. p r \<longrightarrow> chk (f r)) rows
      then Inr (length (filter p rows), update_rows p f rows)
      else Inl CheckViolation)"

definition sql_insert ::
  "('r \<Rightarrow> bool) \<Rightarrow> ('r \<Rightarrow> 'r \<Rightarrow> bool) \<Rightarrow> 'r \<Rightarrow> 'r list \<Rightarrow> db_error + 'r list" where
  \<comment> \<open>\<open>INSERT\<close> of one row: CHECK constraints first, then the unique indexes\<close>
  "sql_insert chk clash r rows =
     (if \<not> chk r then Inl CheckViolation
      else if list_ex (clash r) rows then Inl UniqueViolation
      else Inr (rows @ [r]))"

section \<open>Lemmas\<close>

lemma strip_prefix_eq: "strip_prefix p s = Some r \<longleftrightarrow> s = p @ r"
  by (induction p s rule: strip_prefix.induct) auto

lemma strip_prefix_append [simp]: "strip_prefix p (p @ r) = Some r"
  by (simp add: strip_prefix_eq)

lemma strip_prefix_None: "strip_prefix p s = None \<longleftrightarrow> (\<forall>r. s \<noteq> p @ r)"
  by (metis not_Some_eq strip_prefix_eq)

lemma has_prefix_iff: "has_prefix s p \<longleftrightarrow> (\<exists>r. s = p @ r)"
  by (auto simp: has_prefix_def strip_prefix_eq)

lemma has_suffix_iff: "has_suffix s p \<longleftrightarrow> (\<exists>r. s = r @ p)"
  by (auto simp: has_suffix_def strip_prefix_eq rev_swap)
     (metis rev_append rev_rev_ident)

lemma trim_front_Nil [simp]: "trim_front ps [] = []"
  by (simp add: trim_front.simps split: option.split)

lemma trim_space_Nil [simp]: "trim_space [] = []"
  by (simp add: trim_space_def)

lemma null_if_blank_Some: "null_if_blank s = Some t \<longleftrightarrow> s = t \<and> trim_space s \<noteq> []"
  by (auto simp: null_if_blank_def)

lemma coalesce_str_simps [simp]: "coalesce_str None = []" "coalesce_str (Some s) = s"
  by (simp_all add: coalesce_str_def)

lemma coalesce_time_simps [simp]: "coalesce_time None = 0" "coalesce_time (Some t) = t"
  by (simp_all add: coalesce_time_def)

lemma length_update_rows [simp, row_simps]: "length (update_rows p f rows) = length rows"
  by (simp add: update_rows_def)

lemma update_rows_none: "filter p rows = [] \<Longrightarrow> update_rows p f rows = rows"
  by (induction rows) (auto simp: update_rows_def split: if_splits)

lemma map_update_rows [row_simps]:
  "(\<And>r. k (f r) = k r) \<Longrightarrow> map k (update_rows p f rows) = map k rows"
  by (simp add: update_rows_def)

lemma set_update_rows: "set (update_rows p f rows) = (\<lambda>r. if p r then f r else r) ` set rows"
  by (simp add: update_rows_def)

lemma find_append [row_simps]:
  "List.find p (xs @ ys) = (case List.find p xs of None \<Rightarrow> List.find p ys | Some x \<Rightarrow> Some x)"
  by (induction xs) auto

lemma find_update_rows [row_simps]:
  assumes "\<And>r. q (f r) = q r"
  shows "List.find q (update_rows p f rows) =
           map_option (\<lambda>r. if p r then f r else r) (List.find q rows)"
  using assms by (induction rows) (auto simp: update_rows_def)

lemma find_SomeD: "List.find p xs = Some x \<Longrightarrow> x \<in> set xs \<and> p x"
  by (auto simp: find_Some_iff)

lemma find_key_unique:
  assumes "distinct (map k rows)" and "r \<in> set rows"
  shows "List.find (\<lambda>r'. k r' = k r) rows = Some r"
  using assms by (induction rows) auto

lemma filter_key_unique:
  assumes "distinct (map k rows)"
  shows "filter (\<lambda>r. k r = x \<and> p r) rows =
           (case List.find (\<lambda>r. k r = x) rows of
              None \<Rightarrow> [] | Some r \<Rightarrow> if p r then [r] else [])"
  using assms
proof (induction rows)
  case (Cons a rows)
  then show ?case
    by (cases "k a = x")
       (auto simp: image_iff split: option.split dest!: find_SomeD)
qed simp

lemma find_None_key: "List.find (\<lambda>r. k r = x) rows = None \<longleftrightarrow> x \<notin> k ` set rows"
  by (auto simp: find_None_iff)

lemma sql_update_InrD:
  assumes "sql_update chk p f rows = Inr (n, rows')"
  shows "n = length (filter p rows)" and "rows' = update_rows p f rows"
    and "\<And>r. r \<in> set rows \<Longrightarrow> p r \<Longrightarrow> chk (f r)"
  using assms by (auto simp: sql_update_def list_all_iff split: if_splits)

lemma sql_update_all_checked:
  assumes "sql_update chk p f rows = Inr (n, rows')" and "\<forall>r \<in> set rows. chk r"
  shows "\<forall>r \<in> set rows'. chk r"
  using assms by (auto simp: sql_update_def list_all_iff set_update_rows split: if_splits)

lemma sql_insert_InrD:
  assumes "sql_insert chk clash r rows = Inr rows'"
  shows "rows' = rows @ [r]" and "chk r" and "\<And>x. x \<in> set rows \<Longrightarrow> \<not> clash r x"
  using assms by (auto simp: sql_insert_def list_ex_iff split: if_splits)

end
