(* ===== verification/Interfaces.thy ===== *)
theory Interfaces
  imports Prelude "HOL-Library.Multiset"
begin

text \<open>
  The contracts that several components of the program share, each as a locale whose lemmas are
  proved once. A component that keeps the contract interprets the locale on its own operations:
  an idempotent recorder (a command that stores its result under a caller-chosen key), a store of
  records with final states, a lister that pages through a set of rows by key, and the same lister
  behind an interface that hands its client opaque cursors.
\<close>

section \<open>Idempotent recorders\<close>

text \<open>
  A command \<open>run\<close> that stores its result under a key the caller chooses, among other commands
  \<open>step\<close> of the same store. \<open>recorded\<close> reads what is stored under a key: the fingerprint of the
  request and the identity of its result. \<open>fits\<close> says which results the store is able to keep.
\<close>

locale keyed_recorder =
  fixes run :: "'i \<Rightarrow> 's \<Rightarrow> ('e + 'r) \<times> 's"
    and step :: "'c \<Rightarrow> 's \<Rightarrow> 's"
    and key :: "'i \<Rightarrow> 'k"
    and fingerprint :: "'i \<Rightarrow> 'h"
    and admissible :: "'i \<Rightarrow> bool"
    and recorded :: "'s \<Rightarrow> 'k \<Rightarrow> ('h \<times> 'q) option"
    and ident :: "'r \<Rightarrow> 'q"
    and conflict :: 'e
    and inv :: "'s \<Rightarrow> bool"
    and fits :: "'r \<Rightarrow> bool"
  assumes inv_run: "inv s \<Longrightarrow> inv (snd (run i s))"
    and inv_step: "inv s \<Longrightarrow> inv (step c s)"
    and records: "inv s \<Longrightarrow> run i s = (Inr r, s') \<Longrightarrow> fits r \<Longrightarrow>
          admissible i \<and> recorded s' (key i) = Some (fingerprint i, ident r)"
    and replays: "inv s \<Longrightarrow> recorded s (key i) = Some (fingerprint i, q) \<Longrightarrow> admissible i \<Longrightarrow>
          \<exists>r. run i s = (Inr r, s) \<and> ident r = q"
    and refuses: "inv s \<Longrightarrow> recorded s (key i) = Some (h, q) \<Longrightarrow> h \<noteq> fingerprint i \<Longrightarrow>
          admissible i \<Longrightarrow> run i s = (Inl conflict, s)"
    and keeps_recorded: "inv s \<Longrightarrow> recorded s k = Some x \<Longrightarrow> recorded (step c s) k = Some x"
begin

lemma recorded_fold:
  "inv s \<Longrightarrow> recorded s k = Some x \<Longrightarrow>
     inv (fold step cs s) \<and> recorded (fold step cs s) k = Some x"
  by (induction cs arbitrary: s) (simp_all add: inv_step keeps_recorded)

lemma success_recorded:
  assumes "inv s" and "run i s = (Inr r, s')" and "fits r"
  shows "inv (fold step cs s')"
    and "recorded (fold step cs s') (key i) = Some (fingerprint i, ident r)"
proof -
  from assms have inv': "inv s'" using inv_run [of s i] by simp
  from assms have "recorded s' (key i) = Some (fingerprint i, ident r)" using records by blast
  from recorded_fold [OF inv' this] show "inv (fold step cs s')"
    and "recorded (fold step cs s') (key i) = Some (fingerprint i, ident r)" by blast+
qed

text \<open>A retry after any later history returns the recorded identity and changes nothing.\<close>

lemma retry_replays:
  assumes "inv s" and "run i s = (Inr r, s')" and "fits r"
    and "key j = key i" and "fingerprint j = fingerprint i" and "admissible j"
  shows "\<exists>r'. run j (fold step cs s') = (Inr r', fold step cs s') \<and> ident r' = ident r"
  using success_recorded [OF assms(1-3), of cs] assms(4-6) replays by metis

lemma reuse_refused:
  assumes "inv s" and "run i s = (Inr r, s')" and "fits r"
    and "key j = key i" and "fingerprint j \<noteq> fingerprint i" and "admissible j"
  shows "run j (fold step cs s') = (Inl conflict, fold step cs s')"
  using success_recorded [OF assms(1-3), of cs] assms(4-6) refuses by metis

text \<open>Both cases at once: what a key answers once a command has succeeded under it.\<close>

lemma key_bound:
  assumes "inv s" and "run i s = (Inr r, s')" and "fits r" and "key j = key i" and "admissible j"
  shows "if fingerprint j = fingerprint i
         then \<exists>r'. run j (fold step cs s') = (Inr r', fold step cs s') \<and> ident r' = ident r
         else run j (fold step cs s') = (Inl conflict, fold step cs s')"
  using retry_replays [OF assms(1-4) _ assms(5), of cs] reuse_refused [OF assms(1-4) _ assms(5), of cs]
  by auto

end

text \<open>A recorder that can keep every result it returns.\<close>

locale idempotent_recorder =
  fixes run :: "'i \<Rightarrow> 's \<Rightarrow> ('e + 'r) \<times> 's"
    and step :: "'c \<Rightarrow> 's \<Rightarrow> 's"
    and key :: "'i \<Rightarrow> 'k"
    and fingerprint :: "'i \<Rightarrow> 'h"
    and admissible :: "'i \<Rightarrow> bool"
    and recorded :: "'s \<Rightarrow> 'k \<Rightarrow> ('h \<times> 'q) option"
    and ident :: "'r \<Rightarrow> 'q"
    and conflict :: 'e
    and inv :: "'s \<Rightarrow> bool"
  assumes inv_run: "inv s \<Longrightarrow> inv (snd (run i s))"
    and inv_step: "inv s \<Longrightarrow> inv (step c s)"
    and records: "inv s \<Longrightarrow> run i s = (Inr r, s') \<Longrightarrow>
          admissible i \<and> recorded s' (key i) = Some (fingerprint i, ident r)"
    and replays: "inv s \<Longrightarrow> recorded s (key i) = Some (fingerprint i, q) \<Longrightarrow> admissible i \<Longrightarrow>
          \<exists>r. run i s = (Inr r, s) \<and> ident r = q"
    and refuses: "inv s \<Longrightarrow> recorded s (key i) = Some (h, q) \<Longrightarrow> h \<noteq> fingerprint i \<Longrightarrow>
          admissible i \<Longrightarrow> run i s = (Inl conflict, s)"
    and keeps_recorded: "inv s \<Longrightarrow> recorded s k = Some x \<Longrightarrow> recorded (step c s) k = Some x"

sublocale idempotent_recorder \<subseteq> keyed: keyed_recorder run step key fingerprint admissible recorded ident conflict
  inv "\<lambda>_. True"
  by unfold_locales (auto simp: inv_run inv_step replays refuses keeps_recorded dest: records)

section \<open>Records with final states\<close>

locale final_store =
  fixes step :: "'op \<Rightarrow> 's \<Rightarrow> 's"
    and view :: "'s \<Rightarrow> 'k \<Rightarrow> 'v option"
    and final :: "'v \<Rightarrow> bool"
    and inv :: "'s \<Rightarrow> bool"
  assumes inv_step: "inv s \<Longrightarrow> inv (step a s)"
    and final_step: "inv s \<Longrightarrow> view s k = Some v \<Longrightarrow> final v \<Longrightarrow> view (step a s) k = Some v"
begin

lemma inv_fold: "inv s \<Longrightarrow> inv (fold step as s)"
  by (induction as arbitrary: s) (simp_all add: inv_step)

lemma final_fold: "inv s \<Longrightarrow> view s k = Some v \<Longrightarrow> final v \<Longrightarrow> view (fold step as s) k = Some v"
  by (induction as arbitrary: s) (simp_all add: inv_step final_step)

end

section \<open>Paging by key\<close>

definition desc_by :: "('a \<Rightarrow> 'k::linorder) \<Rightarrow> 'a list \<Rightarrow> 'a list" where
  "desc_by key xs = rev (sort_key key xs)"

definition below :: "('a \<Rightarrow> 'k::linorder) \<Rightarrow> 'k option \<Rightarrow> 'a list \<Rightarrow> 'a list" where
  "below key c xs = (case c of None \<Rightarrow> xs | Some k \<Rightarrow> filter (\<lambda>x. key x < k) xs)"

text \<open>A client that follows the cursors: each page starts below the last key of the one before.\<close>

fun walk :: "('k option \<Rightarrow> 'a list \<times> bool) \<Rightarrow> ('a \<Rightarrow> 'k) \<Rightarrow> nat \<Rightarrow> 'k option \<Rightarrow> 'a list option" where
  "walk page key 0 c = None"
| "walk page key (Suc f) c =
     (case page c of (xs, more) \<Rightarrow>
        if more then map_option (\<lambda>ys. xs @ ys) (walk page key f (Some (key (last xs)))) else Some xs)"

lemma length_desc_by [simp]: "length (desc_by key xs) = length xs"
  by (simp add: desc_by_def)

lemma desc_by_Nil [simp]: "desc_by key xs = [] \<longleftrightarrow> xs = []"
  by (metis length_desc_by length_0_conv)

lemma set_desc_by [simp]: "set (desc_by key xs) = set xs"
  by (simp add: desc_by_def)

lemma desc_by_strict:
  assumes "distinct (map key xs)" and "i < j" and "j < length xs"
  shows "key (desc_by key xs ! j) < key (desc_by key xs ! i)"
proof -
  let ?ys = "sort_key key xs"
  have "distinct (map key ?ys)" using assms(1) by (simp add: distinct_map)
  then have "sorted_wrt (<) (map key ?ys)" by (simp add: strict_sorted_iff)
  moreover have "desc_by key xs ! k = ?ys ! (length xs - Suc k)" if "k < length xs" for k
    using that by (simp add: desc_by_def rev_nth)
  moreover have "length xs - Suc j < length xs - Suc i" "length xs - Suc i < length xs"
    using assms by auto
  ultimately show ?thesis using assms by (simp add: sorted_wrt_iff_nth_less)
qed

lemma desc_by_props:
  assumes "distinct (map key xs)"
  shows "mset (desc_by key xs) = mset xs" and "distinct (desc_by key xs)"
    and "sorted_wrt (\<lambda>a b. key b < key a) (desc_by key xs)"
proof -
  show "mset (desc_by key xs) = mset xs" by (simp add: desc_by_def)
  show "distinct (desc_by key xs)" using assms by (simp add: desc_by_def distinct_map)
  show "sorted_wrt (\<lambda>a b. key b < key a) (desc_by key xs)"
    using desc_by_strict [OF assms] by (simp add: sorted_wrt_iff_nth_less)
qed

lemma desc_by_filter: "desc_by key (filter p xs) = filter p (desc_by key xs)"
  unfolding desc_by_def filter_sort [symmetric] by (rule rev_filter)

lemma filter_below_nth:
  assumes "distinct (map key xs)" and "0 < n" and "n \<le> length xs"
  shows "filter (\<lambda>x. key x < key (desc_by key xs ! (n - 1))) (desc_by key xs) = drop n (desc_by key xs)"
proof -
  let ?ys = "desc_by key xs" and ?k = "key (desc_by key xs ! (n - 1))"
  have "filter (\<lambda>x. key x < ?k) (take n ?ys) = []"
  proof -
    have "\<not> key (?ys ! i) < ?k" if "i < n" for i
      using desc_by_strict [OF assms(1), of i "n - 1"] that assms(2,3)
      by (cases "i = n - 1") (auto simp: not_less order.strict_implies_order)
    then show ?thesis using assms(3) by (auto simp: filter_empty_conv in_set_conv_nth)
  qed
  moreover have "filter (\<lambda>x. key x < ?k) (drop n ?ys) = drop n ?ys"
  proof -
    have "key (?ys ! (n + i)) < ?k" if "n + i < length xs" for i
      using desc_by_strict [OF assms(1), of "n - 1" "n + i"] that assms(2) by simp
    then show ?thesis by (auto simp: filter_id_conv in_set_conv_nth)
  qed
  ultimately show ?thesis by (metis append_take_drop_id filter_append append_Nil)
qed

locale keyset_pager =
  fixes rows :: "'s \<Rightarrow> 'a list"
    and key :: "'a \<Rightarrow> 'k::linorder"
    and n :: nat
    and page :: "'s \<Rightarrow> 'k option \<Rightarrow> 'a list \<times> bool"
    and valid :: "'k \<Rightarrow> bool"
    and ok :: "'s \<Rightarrow> bool"
  assumes page_size: "ok s \<Longrightarrow> 0 < n"
    and keys_distinct: "ok s \<Longrightarrow> distinct (map key (rows s))"
    and keys_valid: "ok s \<Longrightarrow> x \<in> set (rows s) \<Longrightarrow> valid (key x)"
    and page_rows: "ok s \<Longrightarrow> pred_option valid c \<Longrightarrow> page s c =
          (take n (desc_by key (below key c (rows s))), n < length (below key c (rows s)))"
begin

lemma next_page:
  assumes "ok s" and "n < length (below key c (rows s))"
  shows "desc_by key (below key (Some (key (last (take n (desc_by key (below key c (rows s))))))) (rows s)) =
           drop n (desc_by key (below key c (rows s)))"
proof -
  let ?xs = "below key c (rows s)"
  let ?k = "key (desc_by key ?xs ! (n - 1))"
  have n: "0 < n" using assms(1) by (rule page_size)
  have d: "distinct (map key ?xs)"
    using keys_distinct [OF assms(1)] by (auto simp: below_def distinct_map inj_on_def split: option.split)
  have last: "key (last (take n (desc_by key ?xs))) = ?k"
  proof -
    have "take n (desc_by key ?xs) \<noteq> []" using n assms(2) by (cases ?xs) auto
    then show ?thesis using n assms(2) by (simp add: last_conv_nth min_def)
  qed
  have "desc_by key ?xs ! (n - 1) \<in> set (desc_by key ?xs)" using assms(2) by (intro nth_mem) simp
  then have mem: "desc_by key ?xs ! (n - 1) \<in> set ?xs" by simp
  have "below key (Some k) (rows s) = filter (\<lambda>x. key x < k) (below key c (rows s))"
    if k: "case c of None \<Rightarrow> True | Some k' \<Rightarrow> k < k'" for k
    using k by (cases c) (auto simp: below_def intro!: filter_cong)
  moreover have "case c of None \<Rightarrow> True | Some k' \<Rightarrow> key x < k'" if "x \<in> set ?xs" for x
    using that by (auto simp: below_def split: option.split)
  ultimately have "below key (Some ?k) (rows s) = filter (\<lambda>x. key x < ?k) ?xs" using mem by blast
  then show ?thesis
    unfolding last using filter_below_nth [OF d n] assms(2) by (simp add: desc_by_filter)
qed

lemma next_cursor_valid:
  assumes "ok s" and "n < length (below key c (rows s))"
  shows "valid (key (last (take n (desc_by key (below key c (rows s))))))"
proof (rule keys_valid [OF assms(1)])
  have "take n (desc_by key (below key c (rows s))) \<noteq> []"
    using page_size [OF assms(1)] assms(2) by (cases "below key c (rows s)") auto
  from last_in_set [OF this] have "last (take n (desc_by key (below key c (rows s)))) \<in>
      set (desc_by key (below key c (rows s)))" by (rule in_set_takeD)
  then show "last (take n (desc_by key (below key c (rows s)))) \<in> set (rows s)"
    by (auto simp: below_def split: option.splits)
qed

text \<open>Following the cursors returns every row once, in descending key order.\<close>

lemma walk_enumerates:
  "ok s \<Longrightarrow> pred_option valid c \<Longrightarrow> length (below key c (rows s)) < f * n \<or> (f = Suc 0 \<and> length (below key c (rows s)) \<le> n) \<Longrightarrow>
     walk (page s) key f c = Some (desc_by key (below key c (rows s)))"
proof (induction f arbitrary: c)
  case (Suc f)
  let ?xs = "below key c (rows s)"
  show ?case
  proof (cases "n < length ?xs")
    case True
    let ?c = "Some (key (last (take n (desc_by key ?xs))))"
    from next_page [OF Suc.prems(1) True]
    have nx: "desc_by key (below key ?c (rows s)) = drop n (desc_by key ?xs)" .
    then have "length (below key ?c (rows s)) = length ?xs - n" by (metis length_desc_by length_drop)
    then have "length (below key ?c (rows s)) < f * n" using Suc.prems(3) True by auto
    moreover have "pred_option valid ?c" using next_cursor_valid [OF Suc.prems(1) True] by simp
    ultimately have "walk (page s) key f ?c = Some (drop n (desc_by key ?xs))"
      using Suc.IH Suc.prems(1) nx by auto
    then have "map_option (\<lambda>ys. take n (desc_by key ?xs) @ ys) (walk (page s) key f ?c) =
        Some (desc_by key ?xs)" by simp
    then show ?thesis using True page_rows [OF Suc.prems(1,2)] by simp
  next
    case False
    then show ?thesis by (simp add: page_rows [OF Suc.prems(1,2)])
  qed
qed simp

end

section \<open>Listers behind opaque cursors\<close>

text \<open>
  A client that repeats a request with the cursor of the last reply, until a reply says that nothing
  is left. \<open>None\<close>: the fuel did not suffice.
\<close>

fun follow :: "(string \<Rightarrow> 'e + ('a list \<times> string \<times> bool)) \<Rightarrow> nat \<Rightarrow> string \<Rightarrow> ('e + 'a list) option" where
  "follow request 0 tok = None"
| "follow request (Suc f) tok =
     (case request tok of
        Inl e \<Rightarrow> Some (Inl e)
      | Inr (xs, tok', more) \<Rightarrow>
          if more then map_option (map_sum id (\<lambda>ys. xs @ ys)) (follow request f tok') else Some (Inr xs))"

locale cursor_lister = keyset_pager rows key n page valid ok
  for rows :: "'s \<Rightarrow> 'a list"
    and key :: "'a \<Rightarrow> 'k::linorder"
    and n :: nat
    and page :: "'s \<Rightarrow> 'k option \<Rightarrow> 'a list \<times> bool"
    and valid :: "'k \<Rightarrow> bool"
    and ok :: "'s \<Rightarrow> bool" +
  fixes request :: "'s \<Rightarrow> string \<Rightarrow> 'e + ('a list \<times> string \<times> bool)"
    and token :: "'a \<Rightarrow> string"
  assumes first_request: "ok s \<Longrightarrow> page s None = (xs, more) \<Longrightarrow>
          request s [] = Inr (xs, if more then token (last xs) else [], more)"
    and later_request: "ok s \<Longrightarrow> x \<in> set (rows s) \<Longrightarrow> page s (Some (key x)) = (xs, more) \<Longrightarrow>
          request s (token x) = Inr (xs, if more then token (last xs) else [], more)"
begin

text \<open>The cursor text a client holds: none yet, or the one of a row it has seen.\<close>

definition names :: "'s \<Rightarrow> string \<Rightarrow> 'k option \<Rightarrow> bool" where
  "names s tok c \<longleftrightarrow> (tok = [] \<and> c = None) \<or> (\<exists>x \<in> set (rows s). tok = token x \<and> c = Some (key x))"

lemma request_page:
  assumes "ok s" and "names s tok c" and "page s c = (xs, more)"
  shows "request s tok = Inr (xs, if more then token (last xs) else [], more)"
  using assms first_request later_request by (auto simp: names_def)

lemma names_valid: "ok s \<Longrightarrow> names s tok c \<Longrightarrow> pred_option valid c"
  by (auto simp: names_def keys_valid)

text \<open>A reply: the first rows below the cursor, and whether more are left.\<close>

lemma reply:
  assumes "ok s" and "names s tok c"
  shows "request s tok = Inr (take n (desc_by key (below key c (rows s))),
           if n < length (below key c (rows s))
           then token (last (take n (desc_by key (below key c (rows s))))) else [],
           n < length (below key c (rows s)))"
  using request_page [OF assms page_rows [OF assms(1) names_valid [OF assms]]] .

lemma next_names:
  assumes "ok s" and "n < length (below key c (rows s))"
  shows "names s (token (last (take n (desc_by key (below key c (rows s))))))
           (Some (key (last (take n (desc_by key (below key c (rows s)))))))"
proof -
  have "take n (desc_by key (below key c (rows s))) \<noteq> []"
    using page_size [OF assms(1)] assms(2) by (cases "below key c (rows s)") auto
  from last_in_set [OF this] have "last (take n (desc_by key (below key c (rows s)))) \<in>
      set (desc_by key (below key c (rows s)))" by (rule in_set_takeD)
  then show ?thesis by (auto simp: names_def below_def split: option.splits)
qed

lemma follow_walk:
  assumes "ok s"
  shows "names s tok c \<Longrightarrow> follow (request s) f tok = map_option Inr (walk (page s) key f c)"
proof (induction f arbitrary: tok c)
  case (Suc f)
  let ?xs = "take n (desc_by key (below key c (rows s)))"
  note pg = page_rows [OF assms names_valid [OF assms Suc.prems]]
  show ?case
  proof (cases "n < length (below key c (rows s))")
    case True
    from Suc.IH [OF next_names [OF assms True]] show ?thesis
      by (cases "walk (page s) key f (Some (key (last ?xs)))")
         (simp_all add: reply [OF assms Suc.prems] pg True)
  qed (simp add: reply [OF assms Suc.prems] pg)
qed simp

lemma follow_enumerates:
  assumes "ok s" and "length (rows s) < f * n"
  shows "follow (request s) f [] = Some (Inr (desc_by key (rows s)))"
  using follow_walk [OF assms(1), of "[]" None f] walk_enumerates [OF assms(1), of None f] assms(2)
  by (simp add: names_def below_def)

end

end
