(* ===== verification/Owner_Store.thy ===== *)
theory Owner_Store
  imports Interfaces
begin

text \<open>
  The state of one domain owner's database (\<open>services/internal/ownerstore\<close>): the tables every
  owner migration creates with the same DDL (operations, outbox events and deliveries, inbox
  events, idempotency records), the errors the package returns, the constructor that admits only
  the fixed owner schemas, and the reading of the embedded migration files.
\<close>

datatype store_error =
    ErrNotAnOwnerSchema string
  | ErrOperationNotFound
  | ErrOperationTerminal
  | ErrInvalidOperationInput string
  | ErrInvalidIdempotencyInput string
  | ErrIdempotencyConflict
  | ErrInvalidEvent string
  | ErrInvalidInboxEvent string
  | ErrDatabase db_error
  | ErrReadMigration string

section \<open>Rows\<close>

record operation_row =
  op_id :: string
  op_tenant_id :: "string option"
  op_actor_id :: string
  op_kind :: string
  op_resource_id :: string
  op_status :: string
  op_stage :: string
  op_error_code :: "string option"
  op_observation_result :: "string option"
  op_request_id :: string
  op_accepted_input :: string
  op_result :: "string option"
  op_worker_lease_token :: "string option"
  op_worker_lease_until :: "time option"
  op_started_at :: "time option"
  op_completed_at :: "time option"
  op_created_at :: time
  op_updated_at :: time

record outbox_row =
  ob_id :: string
  ob_event_type :: string
  ob_schema_version :: int
  ob_aggregate_type :: string
  ob_aggregate_id :: string
  ob_aggregate_revision :: int
  ob_tenant_id :: "string option"
  ob_correlation_id :: string
  ob_causation_id :: "string option"
  ob_payload :: string
  ob_payload_sha256 :: string
  ob_occurred_at :: time
  ob_created_at :: time

record delivery_row =
  dl_id :: string
  dl_event_id :: string
  dl_consumer_owner :: string
  dl_attempt_count :: int
  dl_next_attempt_at :: time
  dl_acknowledged_at :: "time option"
  dl_last_error_code :: "string option"
  dl_lease_token :: "string option"
  dl_lease_until :: "time option"
  dl_created_at :: time
  dl_updated_at :: time

record inbox_row =
  ib_id :: string
  ib_source_owner :: string
  ib_source_event_id :: string
  ib_event_type :: string
  ib_schema_version :: int
  ib_aggregate_type :: string
  ib_aggregate_id :: string
  ib_aggregate_revision :: int
  ib_payload_sha256 :: string
  ib_payload :: string
  ib_received_at :: time
  ib_processed_at :: "time option"
  ib_result_resource_id :: "string option"
  ib_error_code :: "string option"

record idempotency_row =
  id_id :: string
  id_tenant_scope :: string
  id_actor_scope :: string
  id_operation_name :: string
  id_idempotency_key :: string
  id_request_sha256 :: string
  id_resource_id :: string
  id_operation_id :: "string option"
  id_response_status :: int
  id_response_body :: string
  id_created_at :: time

record owner_store =
  st_schema :: string
  st_operations :: "operation_row list"
  st_outbox_events :: "outbox_row list"
  st_outbox_deliveries :: "delivery_row list"
  st_inbox_events :: "inbox_row list"
  st_idempotency_records :: "idempotency_row list"

section \<open>Table constraints of the owner migrations\<close>

definition is_hex_digit :: "char \<Rightarrow> bool" where
  "is_hex_digit c \<longleftrightarrow> (CHR ''0'' \<le> c \<and> c \<le> CHR ''9'') \<or> (CHR ''a'' \<le> c \<and> c \<le> CHR ''f'')"

definition hex_sha256 :: "string \<Rightarrow> bool" where
  \<comment> \<open>\<open>~ '^[0-9a-f]{64}$'\<close>\<close>
  "hex_sha256 s \<longleftrightarrow> length s = 64 \<and> list_all is_hex_digit s"

definition operation_statuses :: "string list" where
  "operation_statuses =
     [''accepted'', ''running'', ''awaiting_confirmation'', ''succeeded'', ''failed'',
      ''needs_attention'', ''cancelled'']"

definition observation_results :: "string list" where
  "observation_results = [''confirmed'', ''rejected'', ''unknown'']"

definition operations_check :: "operation_row \<Rightarrow> bool" where
  "operations_check r \<longleftrightarrow>
     op_status r \<in> set operation_statuses \<and>
     (case op_observation_result r of None \<Rightarrow> True | Some o' \<Rightarrow> o' \<in> set observation_results) \<and>
     (op_worker_lease_token r = None \<longleftrightarrow> op_worker_lease_until r = None) \<and>
     (op_status r = ''succeeded'' \<longrightarrow> op_completed_at r \<noteq> None)"

definition outbox_check :: "outbox_row \<Rightarrow> bool" where
  "outbox_check r \<longleftrightarrow>
     0 < ob_schema_version r \<and> 0 \<le> ob_aggregate_revision r \<and> hex_sha256 (ob_payload_sha256 r)"

definition outbox_clash :: "outbox_row \<Rightarrow> outbox_row \<Rightarrow> bool" where
  \<comment> \<open>primary key, and \<open>UNIQUE (aggregate_type, aggregate_id, aggregate_revision, event_type)\<close>\<close>
  "outbox_clash a b \<longleftrightarrow> ob_id a = ob_id b \<or>
     (ob_aggregate_type a, ob_aggregate_id a, ob_aggregate_revision a, ob_event_type a) =
     (ob_aggregate_type b, ob_aggregate_id b, ob_aggregate_revision b, ob_event_type b)"

definition delivery_check :: "delivery_row \<Rightarrow> bool" where
  "delivery_check r \<longleftrightarrow>
     0 \<le> dl_attempt_count r \<and> (dl_lease_token r = None \<longleftrightarrow> dl_lease_until r = None)"

definition delivery_clash :: "delivery_row \<Rightarrow> delivery_row \<Rightarrow> bool" where
  "delivery_clash a b \<longleftrightarrow> dl_id a = dl_id b \<or>
     (dl_event_id a, dl_consumer_owner a) = (dl_event_id b, dl_consumer_owner b)"

definition inbox_check :: "inbox_row \<Rightarrow> bool" where
  "inbox_check r \<longleftrightarrow>
     0 < ib_schema_version r \<and> 0 \<le> ib_aggregate_revision r \<and> hex_sha256 (ib_payload_sha256 r)"

definition inbox_key :: "inbox_row \<Rightarrow> string \<times> string" where
  "inbox_key r = (ib_source_owner r, ib_source_event_id r)"

definition inbox_clash :: "inbox_row \<Rightarrow> inbox_row \<Rightarrow> bool" where
  "inbox_clash a b \<longleftrightarrow> ib_id a = ib_id b \<or> inbox_key a = inbox_key b"

definition idempotency_check :: "idempotency_row \<Rightarrow> bool" where
  "idempotency_check r \<longleftrightarrow>
     hex_sha256 (id_request_sha256 r) \<and> 100 \<le> id_response_status r \<and> id_response_status r \<le> 599"

definition idempotency_scope :: "idempotency_row \<Rightarrow> string \<times> string \<times> string \<times> string" where
  "idempotency_scope r =
     (id_tenant_scope r, id_actor_scope r, id_operation_name r, id_idempotency_key r)"

definition idempotency_clash :: "idempotency_row \<Rightarrow> idempotency_row \<Rightarrow> bool" where
  "idempotency_clash a b \<longleftrightarrow> id_id a = id_id b \<or> idempotency_scope a = idempotency_scope b"

section \<open>Construction and migrations\<close>

definition ownerSchemas :: "string list" where
  "ownerSchemas =
     [''tenant'', ''capability'', ''build'', ''workspace'', ''runtime_control'', ''serve'',
      ''fabric'', ''gateway'', ''resource_catalog'', ''ledger'']"

definition New :: "string \<Rightarrow> store_error + string" where
  \<comment> \<open>the schema of the store; the connection carries the tables\<close>
  "New schema =
     (let schema = trim_space schema in
      if schema \<in> set ownerSchemas then Inr schema else Inl (ErrNotAnOwnerSchema schema))"

record migration =
  mig_version :: string
  mig_query :: string

record dir_entry =
  entry_name :: string
  entry_is_dir :: bool

record migration_source =
  src_read_dir :: "string \<Rightarrow> string + dir_entry list"
  src_read_file :: "string \<Rightarrow> string + string"

fun read_migration_files ::
  "(string \<Rightarrow> string + string) \<Rightarrow> dir_entry list \<Rightarrow> store_error + migration list" where
  "read_migration_files read [] = Inr []"
| "read_migration_files read (e # es) =
     (if entry_is_dir e \<or> \<not> has_suffix (entry_name e) ''.sql'' then read_migration_files read es
      else case read (entry_name e) of
        Inl err \<Rightarrow> Inl (ErrReadMigration err)
      | Inr d \<Rightarrow>
          (case read_migration_files read es of
             Inl err \<Rightarrow> Inl err
           | Inr ms \<Rightarrow>
               Inr (\<lparr>mig_version = trim_suffix (entry_name e) ''.sql'', mig_query = d\<rparr> # ms)))"

definition ReadMigrations :: "migration_source \<Rightarrow> store_error + migration list" where
  "ReadMigrations source =
     (case src_read_dir source ''.'' of
        Inl err \<Rightarrow> Inl (ErrReadMigration err)
      | Inr entries \<Rightarrow>
          (case read_migration_files (src_read_file source) entries of
             Inl err \<Rightarrow> Inl err
           | Inr ms \<Rightarrow> Inr (sort_key mig_version ms)))"

section \<open>The database invariant\<close>

text \<open>What the constraints promise of a database reached through the statements of the package.\<close>

definition operations_table_ok :: "operation_row list \<Rightarrow> bool" where
  "operations_table_ok rows \<longleftrightarrow>
     distinct (map op_id rows) \<and> (\<forall>r \<in> set rows. operations_check r)"

definition outbox_table_ok :: "outbox_row list \<Rightarrow> bool" where
  "outbox_table_ok rows \<longleftrightarrow> distinct (map ob_id rows) \<and> (\<forall>r \<in> set rows. outbox_check r)"

definition deliveries_table_ok :: "outbox_row list \<Rightarrow> delivery_row list \<Rightarrow> bool" where
  "deliveries_table_ok events rows \<longleftrightarrow>
     distinct (map dl_id rows) \<and>
     distinct (map (\<lambda>d. (dl_event_id d, dl_consumer_owner d)) rows) \<and>
     (\<forall>d \<in> set rows. delivery_check d) \<and>
     (\<forall>d \<in> set rows. dl_event_id d \<in> ob_id ` set events)"

definition inbox_table_ok :: "inbox_row list \<Rightarrow> bool" where
  "inbox_table_ok rows \<longleftrightarrow>
     distinct (map ib_id rows) \<and> distinct (map inbox_key rows) \<and> (\<forall>r \<in> set rows. inbox_check r)"

definition idempotency_table_ok :: "idempotency_row list \<Rightarrow> bool" where
  "idempotency_table_ok rows \<longleftrightarrow>
     distinct (map id_id rows) \<and> distinct (map idempotency_scope rows) \<and>
     (\<forall>r \<in> set rows. idempotency_check r)"

definition store_ok :: "owner_store \<Rightarrow> bool" where
  "store_ok s \<longleftrightarrow>
     operations_table_ok (st_operations s) \<and> outbox_table_ok (st_outbox_events s) \<and>
     deliveries_table_ok (st_outbox_events s) (st_outbox_deliveries s) \<and>
     inbox_table_ok (st_inbox_events s) \<and> idempotency_table_ok (st_idempotency_records s)"

definition empty_store :: "string \<Rightarrow> owner_store" where
  "empty_store schema =
     \<lparr>st_schema = schema, st_operations = [], st_outbox_events = [], st_outbox_deliveries = [],
      st_inbox_events = [], st_idempotency_records = []\<rparr>"

section \<open>Lemmas\<close>

lemmas table_ok_defs =
  operations_table_ok_def outbox_table_ok_def deliveries_table_ok_def inbox_table_ok_def
  idempotency_table_ok_def

lemma store_ok_empty [simp]: "store_ok (empty_store schema)"
  by (simp add: store_ok_def table_ok_defs empty_store_def)

lemma store_okD:
  assumes "store_ok s"
  shows "distinct (map op_id (st_operations s))"
    and "distinct (map ob_id (st_outbox_events s))"
    and "distinct (map dl_id (st_outbox_deliveries s))"
    and "distinct (map (\<lambda>d. (dl_event_id d, dl_consumer_owner d)) (st_outbox_deliveries s))"
    and "distinct (map inbox_key (st_inbox_events s))"
    and "distinct (map idempotency_scope (st_idempotency_records s))"
  using assms by (simp_all add: store_ok_def table_ok_defs)

lemma New_Inr_iff: "New schema = Inr s \<longleftrightarrow> s = trim_space schema \<and> s \<in> set ownerSchemas"
  by (auto simp: New_def Let_def)

lemma read_migration_files_versions:
  "read_migration_files read es = Inr ms \<Longrightarrow>
     map mig_version ms =
       map (\<lambda>e. trim_suffix (entry_name e) ''.sql'')
         (filter (\<lambda>e. \<not> entry_is_dir e \<and> has_suffix (entry_name e) ''.sql'') es)"
  by (induction es arbitrary: ms) (auto split: if_splits sum.splits)

lemma read_migration_files_content:
  "read_migration_files read es = Inr ms \<Longrightarrow> m \<in> set ms \<Longrightarrow>
     \<exists>e \<in> set es. \<not> entry_is_dir e \<and> has_suffix (entry_name e) ''.sql'' \<and>
       read (entry_name e) = Inr (mig_query m) \<and> mig_version m = trim_suffix (entry_name e) ''.sql''"
  by (induction es arbitrary: ms) (fastforce split: if_splits sum.splits)+

end
