(* ===== verification/Owner_Operations.thy ===== *)
theory Owner_Operations
  imports Owner_Store
begin

text \<open>
  Owner operations (\<open>services/internal/ownerstore/operation.go\<close>): the durable record of one
  asynchronous command, created with the command, started, advanced, completed once, and read
  back. Every statement is modelled on the operations table, with the guard
  \<open>status NOT IN ('succeeded','failed','cancelled')\<close> of its \<open>WHERE\<close> clause and the
  re-reading that decides the error when no row was affected.
\<close>

section \<open>Data\<close>

record operation =
  o_ID :: string
  o_TenantID :: string
  o_ActorID :: string
  o_Kind :: string
  o_ResourceID :: string
  o_Status :: string
  o_Stage :: string
  o_ErrorCode :: string
  o_Observation :: string
  o_RequestID :: string
  o_AcceptedInput :: string
  o_Result :: string
  o_WorkerLeaseToken :: string
  o_WorkerLeaseUntil :: time
  o_StartedAt :: time
  o_CompletedAt :: time
  o_CreatedAt :: time
  o_UpdatedAt :: time

record operation_input =
  oi_ID :: string
  oi_TenantID :: string
  oi_ActorID :: string
  oi_Kind :: string
  oi_ResourceID :: string
  oi_Stage :: string
  oi_RequestID :: string
  oi_AcceptedInput :: string

definition terminal_status :: "string \<Rightarrow> bool" where
  \<comment> \<open>the \<open>Terminal\<close> method, and the complement of \<open>status NOT IN (...)\<close> in the statements\<close>
  "terminal_status st \<longleftrightarrow> st = ''succeeded'' \<or> st = ''failed'' \<or> st = ''cancelled''"

definition Terminal :: "operation \<Rightarrow> bool" where
  "Terminal o' = terminal_status (o_Status o')"

section \<open>Operations\<close>

definition validateOperationInput :: "operation_input \<Rightarrow> store_error option" where
  "validateOperationInput i =
     (if trim_space (oi_ID i) = [] then Some (ErrInvalidOperationInput ''id is required'')
      else if trim_space (oi_ActorID i) = [] then Some (ErrInvalidOperationInput ''actor is required'')
      else if trim_space (oi_Kind i) = [] then Some (ErrInvalidOperationInput ''kind is required'')
      else if trim_space (oi_ResourceID i) = []
        then Some (ErrInvalidOperationInput ''resource is required'')
      else if trim_space (oi_Stage i) = [] then Some (ErrInvalidOperationInput ''stage is required'')
      else if trim_space (oi_RequestID i) = []
        then Some (ErrInvalidOperationInput ''request id is required'')
      else None)"

definition new_operation_row :: "time \<Rightarrow> operation_input \<Rightarrow> operation_row" where
  "new_operation_row now i =
     \<lparr>op_id = oi_ID i, op_tenant_id = null_if_blank (oi_TenantID i), op_actor_id = oi_ActorID i,
      op_kind = oi_Kind i, op_resource_id = oi_ResourceID i, op_status = ''accepted'',
      op_stage = oi_Stage i, op_error_code = None, op_observation_result = None,
      op_request_id = oi_RequestID i, op_accepted_input = non_empty_or (oi_AcceptedInput i) ''{}'',
      op_result = None, op_worker_lease_token = None, op_worker_lease_until = None,
      op_started_at = None, op_completed_at = None, op_created_at = now, op_updated_at = now\<rparr>"

definition scan_created :: "operation_row \<Rightarrow> operation" where
  \<comment> \<open>the \<open>RETURNING\<close> columns of the insert; the lease and progress fields keep their zero values\<close>
  "scan_created r =
     \<lparr>o_ID = op_id r, o_TenantID = coalesce_str (op_tenant_id r), o_ActorID = op_actor_id r,
      o_Kind = op_kind r, o_ResourceID = op_resource_id r, o_Status = op_status r,
      o_Stage = op_stage r, o_ErrorCode = coalesce_str (op_error_code r),
      o_Observation = coalesce_str (op_observation_result r), o_RequestID = op_request_id r,
      o_AcceptedInput = op_accepted_input r,
      o_Result = (case op_result r of None \<Rightarrow> ''{}'' | Some x \<Rightarrow> x),
      o_WorkerLeaseToken = [], o_WorkerLeaseUntil = 0, o_StartedAt = 0, o_CompletedAt = 0,
      o_CreatedAt = op_created_at r, o_UpdatedAt = op_updated_at r\<rparr>"

definition CreateOperation ::
  "time \<Rightarrow> operation_input \<Rightarrow> owner_store \<Rightarrow> store_error + (operation \<times> owner_store)" where
  \<comment> \<open>runs in the caller's transaction: an error leaves nothing behind\<close>
  "CreateOperation now i s =
     (case validateOperationInput i of
        Some e \<Rightarrow> Inl e
      | None \<Rightarrow>
          (let r = new_operation_row now i in
           case sql_insert operations_check (\<lambda>a b. op_id a = op_id b) r (st_operations s) of
             Inl e \<Rightarrow> Inl (ErrDatabase e)
           | Inr rows \<Rightarrow> Inr (scan_created r, s\<lparr>st_operations := rows\<rparr>)))"

definition scan_operation :: "operation_row \<Rightarrow> operation" where
  "scan_operation r =
     \<lparr>o_ID = op_id r, o_TenantID = coalesce_str (op_tenant_id r), o_ActorID = op_actor_id r,
      o_Kind = op_kind r, o_ResourceID = op_resource_id r, o_Status = op_status r,
      o_Stage = op_stage r, o_ErrorCode = coalesce_str (op_error_code r),
      o_Observation = coalesce_str (op_observation_result r), o_RequestID = op_request_id r,
      o_AcceptedInput = op_accepted_input r,
      o_Result = non_empty_or (coalesce_str (op_result r)) ''{}'',
      o_WorkerLeaseToken = coalesce_str (op_worker_lease_token r),
      o_WorkerLeaseUntil = coalesce_time (op_worker_lease_until r),
      o_StartedAt = coalesce_time (op_started_at r),
      o_CompletedAt = coalesce_time (op_completed_at r),
      o_CreatedAt = op_created_at r, o_UpdatedAt = op_updated_at r\<rparr>"

definition find_operation :: "owner_store \<Rightarrow> string \<Rightarrow> operation_row option" where
  "find_operation s oid = List.find (\<lambda>r. op_id r = oid) (st_operations s)"

definition ReadOperation :: "owner_store \<Rightarrow> string \<Rightarrow> store_error + operation" where
  "ReadOperation s operationID =
     (let operationID = trim_space operationID in
      if operationID = [] then Inl (ErrInvalidOperationInput ''operation id is required'')
      else case find_operation s operationID of
        None \<Rightarrow> Inl ErrOperationNotFound
      | Some r \<Rightarrow> Inr (scan_operation r))"

record reconcile_result =
  rr_Operation :: operation
  rr_Changed :: bool
  rr_StillUnknown :: bool

definition ReconcileOperation :: "owner_store \<Rightarrow> string \<Rightarrow> store_error + reconcile_result" where
  "ReconcileOperation s operationID =
     (case ReadOperation s operationID of
        Inl e \<Rightarrow> Inl e
      | Inr o' \<Rightarrow>
          if Terminal o'
          then Inr \<lparr>rr_Operation = o', rr_Changed = False, rr_StillUnknown = False\<rparr>
          else Inr \<lparr>rr_Operation = o', rr_Changed = False,
                    rr_StillUnknown = (o_Observation o' = ''unknown'' \<or> o_Observation o' = [])\<rparr>)"

definition guarded_update ::
  "string \<Rightarrow> (operation_row \<Rightarrow> operation_row) \<Rightarrow> owner_store \<Rightarrow>
     (store_error + operation) \<times> owner_store" where
  \<comment> \<open>the common shape of the three updates: the statement with its terminal guard, the error when
     no row was affected, and the read back\<close>
  "guarded_update operationID f s =
     (case sql_update operations_check
             (\<lambda>r. op_id r = operationID \<and> \<not> terminal_status (op_status r)) f (st_operations s) of
        Inl e \<Rightarrow> (Inl (ErrDatabase e), s)
      | Inr (n, rows) \<Rightarrow>
          (let s' = s\<lparr>st_operations := rows\<rparr> in
           if n = 0
           then (if ReadOperation s' operationID = Inl ErrOperationNotFound
                 then (Inl ErrOperationNotFound, s') else (Inl ErrOperationTerminal, s'))
           else (ReadOperation s' operationID, s')))"

definition StartOperation ::
  "time \<Rightarrow> string \<Rightarrow> string \<Rightarrow> owner_store \<Rightarrow> (store_error + operation) \<times> owner_store" where
  "StartOperation now operationID stage s =
     (if trim_space stage = [] then (Inl (ErrInvalidOperationInput ''stage is required''), s)
      else guarded_update operationID
        (\<lambda>r. r\<lparr>op_status := ''running'', op_stage := stage,
               op_started_at := (case op_started_at r of None \<Rightarrow> Some now | Some t \<Rightarrow> Some t),
               op_updated_at := now\<rparr>) s)"

definition CompleteOperation ::
  "time \<Rightarrow> string \<Rightarrow> string \<Rightarrow> string \<Rightarrow> string \<Rightarrow> string \<Rightarrow> string \<Rightarrow> time \<Rightarrow> owner_store \<Rightarrow>
     (store_error + operation) \<times> owner_store" where
  "CompleteOperation now operationID status stage errorCode observation result completedAt s =
     (if \<not> terminal_status status
      then (Inl (ErrInvalidOperationInput ''not a terminal status''), s)
      else if status = ''succeeded'' \<and> is_zero completedAt
      then (Inl (ErrInvalidOperationInput ''a succeeded operation needs a completion time''), s)
      else guarded_update operationID
        (\<lambda>r. r\<lparr>op_status := status, op_stage := stage, op_error_code := null_if_blank errorCode,
               op_observation_result := null_if_blank observation,
               op_result := Some (non_empty_or result ''{}''),
               op_completed_at := (if is_zero completedAt then None else Some completedAt),
               op_updated_at := now\<rparr>) s)"

definition AdvanceOperationStage ::
  "time \<Rightarrow> string \<Rightarrow> string \<Rightarrow> string \<Rightarrow> owner_store \<Rightarrow> (store_error + operation) \<times> owner_store" where
  "AdvanceOperationStage now operationID stage observation s =
     (if trim_space stage = [] then (Inl (ErrInvalidOperationInput ''stage is required''), s)
      else guarded_update operationID
        (\<lambda>r. r\<lparr>op_stage := stage,
               op_observation_result :=
                 (case null_if_blank observation of
                    None \<Rightarrow> op_observation_result r | Some o' \<Rightarrow> Some o'),
               op_updated_at := now\<rparr>) s)"

text \<open>The package's statements on operations as the commands of one machine.\<close>

datatype op_command =
    OpCreate time operation_input
  | OpStart time string string
  | OpComplete time string string string string string string time
  | OpAdvance time string string string

fun op_step :: "op_command \<Rightarrow> owner_store \<Rightarrow> owner_store" where
  "op_step (OpCreate now i) s = (case CreateOperation now i s of Inl _ \<Rightarrow> s | Inr (_, s') \<Rightarrow> s')"
| "op_step (OpStart now oid stage) s = snd (StartOperation now oid stage s)"
| "op_step (OpComplete now oid st stage err obs res at) s =
     snd (CompleteOperation now oid st stage err obs res at s)"
| "op_step (OpAdvance now oid stage obs) s = snd (AdvanceOperationStage now oid stage obs s)"

text \<open>The abstract life cycle: what one statement may do to the status of one operation.\<close>

inductive lifecycle :: "string option \<Rightarrow> string option \<Rightarrow> bool" where
  accept: "lifecycle None (Some ''accepted'')"
| start: "\<not> terminal_status st \<Longrightarrow> lifecycle (Some st) (Some ''running'')"
| complete: "\<not> terminal_status st \<Longrightarrow> terminal_status st' \<Longrightarrow> lifecycle (Some st) (Some st')"
| stay: "lifecycle v v"

inductive_simps lifecycle_None: "lifecycle None v"
inductive_simps lifecycle_Some: "lifecycle (Some st) v"

definition status_of :: "owner_store \<Rightarrow> string \<Rightarrow> string option" where
  "status_of s oid = map_option op_status (find_operation s oid)"

section \<open>The guarded update\<close>

definition hits :: "string \<Rightarrow> operation_row \<Rightarrow> bool" where
  "hits oid r \<longleftrightarrow> op_id r = oid \<and> \<not> terminal_status (op_status r)"

definition passes :: "string \<Rightarrow> (operation_row \<Rightarrow> operation_row) \<Rightarrow> owner_store \<Rightarrow> bool" where
  "passes oid f s \<longleftrightarrow> (\<forall>r \<in> set (st_operations s). hits oid r \<longrightarrow> operations_check (f r))"

definition touch ::
  "string \<Rightarrow> (operation_row \<Rightarrow> operation_row) \<Rightarrow> owner_store \<Rightarrow> owner_store" where
  "touch oid f s = s\<lparr>st_operations := update_rows (hits oid) f (st_operations s)\<rparr>"

lemma guarded_update_eq:
  "guarded_update oid f s =
     (if \<not> passes oid f s then (Inl (ErrDatabase CheckViolation), s)
      else if filter (hits oid) (st_operations s) = []
      then (Inl (if ReadOperation s oid = Inl ErrOperationNotFound
                 then ErrOperationNotFound else ErrOperationTerminal), s)
      else (ReadOperation (touch oid f s) oid, touch oid f s))"
proof -
  have h: "(\<lambda>r. op_id r = oid \<and> \<not> terminal_status (op_status r)) = hits oid"
    by (simp add: hits_def fun_eq_iff)
  show ?thesis
    by (auto simp: guarded_update_def h sql_update_def list_all_iff passes_def touch_def
        update_rows_none Let_def)
qed

lemma snd_guarded_update:
  "snd (guarded_update oid f s) = (if passes oid f s then touch oid f s else s)"
  by (auto simp: guarded_update_eq touch_def update_rows_none)

lemma find_touch:
  assumes "\<And>r. op_id (f r) = op_id r"
  shows "find_operation (touch oid f s) k =
           map_option (\<lambda>r. if hits oid r then f r else r) (find_operation s k)"
  using assms by (simp add: find_operation_def touch_def find_update_rows)

lemma find_operation_id: "find_operation s k = Some r \<Longrightarrow> op_id r = k \<and> r \<in> set (st_operations s)"
  by (auto simp: find_operation_def dest: find_SomeD)

lemma filter_hits:
  assumes "store_ok s"
  shows "filter (hits oid) (st_operations s) = [] \<longleftrightarrow>
           (case find_operation s oid of None \<Rightarrow> True | Some r \<Rightarrow> terminal_status (op_status r))"
  using filter_key_unique [OF store_okD(1) [OF assms], of oid "\<lambda>r. \<not> terminal_status (op_status r)"]
  by (simp add: hits_def [abs_def] find_operation_def split: option.split)

lemma passes_single:
  assumes "store_ok s" and "find_operation s oid = Some r"
  shows "passes oid f s \<longleftrightarrow> (terminal_status (op_status r) \<or> operations_check (f r))"
proof -
  have "x = r" if "x \<in> set (st_operations s)" "op_id x = oid" for x
    using find_key_unique [OF store_okD(1) [OF assms(1)] that(1)] that(2) assms(2)
    by (simp add: find_operation_def)
  with find_operation_id [OF assms(2)] show ?thesis by (auto simp: passes_def hits_def)
qed

lemma store_ok_touch:
  assumes "store_ok s" and "passes oid f s" and "\<And>r. op_id (f r) = op_id r"
  shows "store_ok (touch oid f s)"
  using assms
  by (auto simp: store_ok_def operations_table_ok_def touch_def passes_def map_update_rows set_update_rows)

lemma guarded_update_store_ok [keeps]:
  assumes "store_ok s" and "\<And>r. op_id (f r) = op_id r"
  shows "store_ok (snd (guarded_update oid f s))"
  using assms by (simp add: snd_guarded_update store_ok_touch)

section \<open>The statements one by one\<close>

lemma CreateOperation_InrD:
  assumes "CreateOperation now i s = Inr (o', s')"
  shows "s' = s\<lparr>st_operations := st_operations s @ [new_operation_row now i]\<rparr>"
    and "o' = scan_created (new_operation_row now i)"
    and "find_operation s (oi_ID i) = None" and "validateOperationInput i = None"
  using assms
  by (auto simp: CreateOperation_def Let_def find_operation_def find_None_iff new_operation_row_def
      sql_insert_def list_ex_iff split: option.splits if_splits)

lemma new_operation_row_check [simp]: "operations_check (new_operation_row now i)"
  by (simp add: operations_check_def new_operation_row_def operation_statuses_def)

lemma CreateOperation_store_ok [keeps]:
  assumes "store_ok s" and "CreateOperation now i s = Inr (o', s')"
  shows "store_ok s'"
proof -
  note D = CreateOperation_InrD [OF assms(2)]
  have "oi_ID i \<notin> op_id ` set (st_operations s)"
    using D(3) by (simp add: find_operation_def find_None_key)
  with assms(1) show ?thesis
    by (auto simp: D(1) store_ok_def operations_table_ok_def new_operation_row_def [THEN arg_cong, of op_id])
qed

lemma find_CreateOperation:
  assumes "CreateOperation now i s = Inr (o', s')"
  shows "find_operation s' k =
           (if k = oi_ID i then Some (new_operation_row now i) else find_operation s k)"
  using CreateOperation_InrD [OF assms]
  by (auto simp: find_operation_def find_append new_operation_row_def split: option.split)

lemma snd_Start:
  "snd (StartOperation now oid stage s) =
     (if trim_space stage = [] then s
      else snd (guarded_update oid
        (\<lambda>r. r\<lparr>op_status := ''running'', op_stage := stage,
               op_started_at := (case op_started_at r of None \<Rightarrow> Some now | Some t \<Rightarrow> Some t),
               op_updated_at := now\<rparr>) s))"
  by (simp add: StartOperation_def)

lemma op_step_store_ok: "store_ok s \<Longrightarrow> store_ok (op_step c s)"
  by (cases c)
     (auto simp: StartOperation_def CompleteOperation_def AdvanceOperationStage_def
       intro!: guarded_update_store_ok split: sum.splits dest: CreateOperation_store_ok)

lemma find_guarded_final:
  assumes "\<And>r. op_id (f r) = op_id r" and "find_operation s k = Some r"
    and "terminal_status (op_status r)"
  shows "find_operation (snd (guarded_update oid f s)) k = Some r"
  using assms by (simp add: snd_guarded_update find_touch hits_def)

lemma op_step_final:
  assumes "find_operation s k = Some r" and "terminal_status (op_status r)"
  shows "find_operation (op_step c s) k = Some r"
  using assms
  by (cases c)
     (auto simp: StartOperation_def CompleteOperation_def AdvanceOperationStage_def
       find_guarded_final find_CreateOperation split: sum.splits dest: CreateOperation_InrD(3))

interpretation ops: final_store op_step find_operation "\<lambda>r. terminal_status (op_status r)" store_ok
  by unfold_locales (auto intro: op_step_store_ok op_step_final)

lemma status_guarded:
  assumes "\<And>r. op_id (f r) = op_id r"
    and "\<And>r. op_status (f r) = op_status r \<or> op_status (f r) = ''running'' \<or>
               terminal_status (op_status (f r))"
  shows "lifecycle (status_of s k) (status_of (snd (guarded_update oid f s)) k)"
proof (cases "find_operation s k")
  case None
  then show ?thesis using assms(1)
    by (simp add: status_of_def snd_guarded_update find_touch lifecycle.stay)
next
  case (Some r)
  with assms(1) assms(2) [of r] show ?thesis
    by (auto simp: status_of_def snd_guarded_update find_touch hits_def lifecycle_Some)
qed

lemma op_step_lifecycle: "lifecycle (status_of s k) (status_of (op_step c s) k)"
proof (cases c)
  case (OpCreate now i)
  then show ?thesis
    by (auto simp: status_of_def find_CreateOperation new_operation_row_def lifecycle.intros
        split: sum.split dest: CreateOperation_InrD(3))
qed (auto simp: StartOperation_def CompleteOperation_def AdvanceOperationStage_def
      intro!: status_guarded lifecycle.stay)

section \<open>Properties\<close>

text \<open>
  C11: A terminal operation is immutable. Once an operation is succeeded, failed or cancelled, no
  sequence of creates, starts, advances and completions changes any column of its row.
\<close>

theorem terminal_operation_immutable:
  assumes "store_ok s" and "find_operation s k = Some r" and "terminal_status (op_status r)"
  shows "find_operation (fold op_step cs s) k = Some r"
  using assms by (rule ops.final_fold)

definition sample_input :: operation_input where
  "sample_input =
     \<lparr>oi_ID = ''op_1'', oi_TenantID = ''t_1'', oi_ActorID = ''u_1'', oi_Kind = ''create_workspace'',
      oi_ResourceID = ''ws_1'', oi_Stage = ''accepted'', oi_RequestID = ''req_1'',
      oi_AcceptedInput = []\<rparr>"

definition sample_store :: owner_store where
  "sample_store = op_step (OpCreate 10 sample_input) (empty_store ''workspace'')"

definition sample_done :: owner_store where
  "sample_done =
     op_step (OpComplete 20 ''op_1'' ''succeeded'' ''done'' [] ''confirmed'' [] 19) sample_store"

lemma sample_store_ok: "store_ok sample_store" "store_ok sample_done"
  by (simp_all add: sample_store_def sample_done_def op_step_store_ok del: op_step.simps)

theorem terminal_operation_immutable_witness:
  "map_option op_status (find_operation (fold op_step
       [OpStart 30 ''op_1'' ''again'', OpComplete 31 ''op_1'' ''failed'' ''x'' [] [] [] 0] sample_done)
     ''op_1'') = Some ''succeeded''"
proof -
  obtain r where r: "find_operation sample_done ''op_1'' = Some r" "op_status r = ''succeeded''"
  proof -
    have "map_option op_status (find_operation sample_done ''op_1'') = Some ''succeeded''"
      by code_simp
    then show ?thesis using that by (cases "find_operation sample_done ''op_1''") auto
  qed
  then have t: "terminal_status (op_status r)" by (simp add: terminal_status_def)
  show ?thesis
    by (simp only: terminal_operation_immutable [OF sample_store_ok(2) r(1) t] r(2) option.map)
qed

text \<open>
  C13: The statements implement the abstract life cycle. Whatever statement runs, the status of
  every operation either stays, appears as accepted, moves from a non-terminal status to running,
  or moves from a non-terminal status to a terminal one.
\<close>

theorem operation_lifecycle_refinement:
  "lifecycle (status_of s k) (status_of (op_step c s) k)"
  by (rule op_step_lifecycle)

text \<open>
  Completion takes effect exactly once. On a non-terminal operation with a legal outcome,
  CompleteOperation returns the operation with that outcome, keeps the table constraints and every
  other operation, and every later completion attempt with legal arguments is refused as terminal
  without changing the database.
\<close>

theorem complete_operation_once:
  assumes ok: "store_ok s" and r: "find_operation s oid = Some r"
    and open_op: "\<not> terminal_status (op_status r)"
    and oid: "trim_space oid = oid" "oid \<noteq> []"
    and st: "terminal_status status" "status = ''succeeded'' \<longrightarrow> completedAt \<noteq> 0"
    and obs: "trim_space observation = [] \<or> observation \<in> set observation_results"
  shows "\<exists>o' s'. CompleteOperation now oid status stage err observation result completedAt s =
             (Inr o', s') \<and> store_ok s' \<and> o_ID o' = oid \<and> o_Status o' = status \<and> o_Stage o' = stage \<and>
             o_Result o' = non_empty_or result ''{}'' \<and> o_CompletedAt o' = completedAt \<and>
             (\<forall>k. k \<noteq> oid \<longrightarrow> find_operation s' k = find_operation s k) \<and>
             (\<forall>now' st' stage' err' obs' res' at'. terminal_status st' \<and>
                (st' = ''succeeded'' \<longrightarrow> at' \<noteq> 0) \<longrightarrow>
                CompleteOperation now' oid st' stage' err' obs' res' at' s' =
                  (Inl ErrOperationTerminal, s'))"
proof -
  define f :: "operation_row \<Rightarrow> operation_row"
    where "f = (\<lambda>r. r\<lparr>op_status := status, op_stage := stage,
      op_error_code := null_if_blank err, op_observation_result := null_if_blank observation,
      op_result := Some (non_empty_or result ''{}''),
      op_completed_at := (if is_zero completedAt then None else Some completedAt),
      op_updated_at := now\<rparr>)"
  have id: "op_id (f x) = op_id x" for x by (simp add: f_def)
  have chk: "operations_check (f r)"
    using ok find_operation_id [OF r] st obs
    by (auto simp: f_def operations_check_def null_if_blank_def store_ok_def operations_table_ok_def terminal_status_def
        operation_statuses_def)
  have pass: "passes oid f s" using passes_single [OF ok r] chk by simp
  have fnd: "find_operation (touch oid f s) oid = Some (f r)"
    using r open_op find_operation_id [OF r] by (simp add: find_touch id hits_def)
  have ok': "store_ok (touch oid f s)" using ok pass id by (rule store_ok_touch)
  have run: "CompleteOperation now oid status stage err observation result completedAt s =
      (Inr (scan_operation (f r)), touch oid f s)"
    using st pass fnd oid open_op filter_hits [OF ok, of oid] r
    by (simp add: CompleteOperation_def guarded_update_eq f_def [symmetric] ReadOperation_def Let_def)
  have other: "find_operation (touch oid f s) k = find_operation s k" if "k \<noteq> oid" for k
    using that
    by (cases "find_operation s k") (auto simp: find_touch id hits_def dest: find_operation_id)
  have again: "CompleteOperation now' oid st' stage' err' obs' res' at' (touch oid f s) =
      (Inl ErrOperationTerminal, touch oid f s)"
    if "terminal_status st'" "st' = ''succeeded'' \<longrightarrow> at' \<noteq> 0" for now' st' stage' err' obs' res' at'
    using that fnd oid st(1) filter_hits [OF ok', of oid] passes_single [OF ok' fnd]
    by (simp add: CompleteOperation_def guarded_update_eq ReadOperation_def Let_def f_def)
  have res: "non_empty_or (non_empty_or result ''{}'') ''{}'' = non_empty_or result ''{}''"
    by (simp add: non_empty_or_def)
  show ?thesis
    using run ok' other again find_operation_id [OF r]
    by (auto simp: scan_operation_def f_def res)
qed

theorem complete_operation_once_witness:
  "\<exists>o' s'. CompleteOperation 20 ''op_1'' ''failed'' ''stage'' ''provider_down'' [] [] 0 sample_store =
      (Inr o', s') \<and> o_Status o' = ''failed'' \<and>
      CompleteOperation 21 ''op_1'' ''succeeded'' ''stage'' [] [] [] 21 s' =
        (Inl ErrOperationTerminal, s')"
proof -
  obtain r where r: "find_operation sample_store ''op_1'' = Some r" "op_status r = ''accepted''"
  proof -
    have "map_option op_status (find_operation sample_store ''op_1'') = Some ''accepted''"
      by code_simp
    then show ?thesis using that by (cases "find_operation sample_store ''op_1''") auto
  qed
  have "trim_space ''op_1'' = ''op_1''" by code_simp
  with complete_operation_once [OF sample_store_ok(1) r(1), of "''failed''" 0 "[]" 20 "''stage''"
      "''provider_down''" "[]"] r(2)
  show ?thesis by (fastforce simp: terminal_status_def)
qed

text \<open>
  An operation identifier with white space around it is reported as terminal. The statement
  compares the identifier as given while the read back trims it, so starting a live operation under
  a padded identifier returns ErrOperationTerminal and changes nothing, whatever its status.
\<close>

theorem padded_identifier_reported_terminal:
  assumes "find_operation s (trim_space oid) = Some r" and "trim_space oid \<noteq> []"
    and "find_operation s oid = None" and "trim_space stage \<noteq> []"
  shows "StartOperation now oid stage s = (Inl ErrOperationTerminal, s)"
proof -
  have none: "\<not> hits oid x" if "x \<in> set (st_operations s)" for x
    using assms(3) that by (auto simp: find_operation_def find_None_iff hits_def)
  then have "filter (hits oid) (st_operations s) = []" by (simp add: filter_empty_conv)
  moreover have "passes oid f s" for f using none by (simp add: passes_def)
  ultimately show ?thesis using assms
    by (simp add: StartOperation_def guarded_update_eq ReadOperation_def Let_def)
qed

theorem padded_identifier_reported_terminal_witness:
  "StartOperation 30 '' op_1'' ''boot'' sample_store = (Inl ErrOperationTerminal, sample_store) \<and>
   status_of sample_store ''op_1'' = Some ''accepted''"
proof
  have f: "find_operation sample_store (trim_space '' op_1'') \<noteq> None"
    "find_operation sample_store '' op_1'' = None"
    "trim_space '' op_1'' \<noteq> []" "trim_space ''boot'' \<noteq> []"
    by code_simp+
  from f(1) obtain r where r: "find_operation sample_store (trim_space '' op_1'') = Some r" by auto
  show "StartOperation 30 '' op_1'' ''boot'' sample_store = (Inl ErrOperationTerminal, sample_store)"
    by (rule padded_identifier_reported_terminal [OF r f(3) f(2) f(4)])
  show "status_of sample_store ''op_1'' = Some ''accepted''" by code_simp
qed

end
