(* ===== verification/Event_Identity.thy ===== *)
theory Event_Identity
  imports Owner_Store
begin

text \<open>
  The contract of owner events (\<open>packages/contracts/go/event_identity.go\<close>): the producing owner
  and the consumer set of every event version, and the lookup the Outbox and the Inbox validate
  against.
\<close>

record event_identity =
  ei_EventType :: string
  ei_SchemaVersion :: int
  ei_Owner :: string
  ei_Consumers :: "string list"

abbreviation ev1 :: "string \<Rightarrow> string \<Rightarrow> string list \<Rightarrow> event_identity" where
  "ev1 t owner cs \<equiv> \<lparr>ei_EventType = t, ei_SchemaVersion = 1, ei_Owner = owner, ei_Consumers = cs\<rparr>"

definition EventIdentities :: "event_identity list" where
  "EventIdentities =
     [ev1 ''build.artifact_confirmed.v1'' ''build'' [''capability'', ''ledger''],
      ev1 ''build.failed.v1'' ''build'' [''ledger''],
      ev1 ''capability.version_registered.v1'' ''capability'' [''build'', ''ledger''],
      ev1 ''catalog.policy_changed.v1'' ''resource_catalog'' [''ledger'', ''workspace''],
      ev1 ''fabric.resources_observed.v1'' ''serve'' [''ledger'', ''runtime_control'', ''workspace''],
      ev1 ''ledger.receipt_recorded.v1'' ''ledger'' [''workspace''],
      ev1 ''package.uploaded.v1'' ''capability'' [''ledger''],
      ev1 ''serve.access_observed.v1'' ''serve'' [''ledger'', ''workspace''],
      ev1 ''serve.agent_readiness_observed.v1'' ''serve'' [''ledger'', ''workspace''],
      ev1 ''subscription.renewal_settings_changed.v1'' ''workspace''
        [''gateway'', ''ledger'', ''tenant''],
      ev1 ''tenant.access_revoked.v1'' ''tenant''
        [''build'', ''capability'', ''gateway'', ''ledger'', ''workspace''],
      ev1 ''tenant.reenabled.v1'' ''tenant'' [''gateway'', ''ledger'', ''workspace''],
      ev1 ''tenant.restored.v1'' ''tenant'' [''build'', ''capability'', ''gateway'', ''ledger''],
      ev1 ''wallet.operation_observed.v1'' ''gateway'' [''ledger'', ''workspace''],
      ev1 ''workspace.deletion_confirmed.v1'' ''workspace'' [''ledger'', ''tenant''],
      ev1 ''workspace.period_obligation_changed.v1'' ''workspace'' [''gateway'', ''ledger''],
      ev1 ''workspace.plan_change_state_changed.v1'' ''workspace'' [''ledger''],
      ev1 ''workspace.state_changed.v1'' ''workspace'' [''ledger'']]"

definition identity_key :: "event_identity \<Rightarrow> string \<times> int" where
  "identity_key i = (ei_EventType i, ei_SchemaVersion i)"

definition eventIdentityIndex :: "string \<times> int \<Rightarrow> event_identity option" where
  "eventIdentityIndex = fold (\<lambda>i m. m(identity_key i \<mapsto> i)) EventIdentities Map.empty"

definition LookupEventIdentity :: "string \<Rightarrow> int \<Rightarrow> event_identity option" where
  "LookupEventIdentity eventType schemaVersion = eventIdentityIndex (eventType, schemaVersion)"

definition Subscribed :: "event_identity \<Rightarrow> string \<Rightarrow> bool" where
  "Subscribed i owner = list_ex (\<lambda>consumer. consumer = owner) (ei_Consumers i)"

section \<open>Lemmas\<close>

lemma fold_index:
  "fold (\<lambda>i m. m(identity_key i \<mapsto> i)) is m k = Some i \<Longrightarrow>
     (i \<in> set is \<and> identity_key i = k) \<or> m k = Some i"
proof (induction "is" arbitrary: m)
  case (Cons a "is")
  from Cons.IH [OF Cons.prems [simplified fold.simps comp_apply]] show ?case
    by (auto split: if_splits)
qed simp

lemma LookupEventIdentity_SomeD:
  assumes "LookupEventIdentity t v = Some i"
  shows "i \<in> set EventIdentities" and "ei_EventType i = t" and "ei_SchemaVersion i = v"
  using fold_index [of EventIdentities Map.empty "(t, v)" i] assms
  by (auto simp: LookupEventIdentity_def eventIdentityIndex_def identity_key_def)

lemma Subscribed_iff: "Subscribed i c \<longleftrightarrow> c \<in> set (ei_Consumers i)"
  by (auto simp: Subscribed_def list_ex_iff)

definition identity_ok :: "event_identity \<Rightarrow> bool" where
  "identity_ok i \<longleftrightarrow>
     ei_Owner i \<in> set ownerSchemas \<and> ei_Consumers i \<noteq> [] \<and> distinct (ei_Consumers i) \<and>
     list_all (\<lambda>c. c \<in> set ownerSchemas \<and> trim_space c = c \<and> c \<noteq> []) (ei_Consumers i) \<and>
     ei_Owner i \<notin> set (ei_Consumers i)"

lemma all_identities_ok: "list_all identity_ok EventIdentities"
  by code_simp

lemma identity_okD:
  assumes "LookupEventIdentity t v = Some i"
  shows "identity_ok i"
  using all_identities_ok LookupEventIdentity_SomeD(1) [OF assms] by (simp add: list_all_iff)

end
