(* ===== verification/Go_Basics.thy ===== *)
theory Go_Basics
  imports Prelude
begin

text \<open>
  Go's 64-bit integers, durations, time values with a zone offset, decimal numbers and letter case.

  An \<open>int64\<close> is an integer in the range \<open>int64_range\<close>; the results of \<open>+\<close>, \<open>-\<close> and \<open>*\<close> are
  wrapped by \<open>wrap64\<close> where the source does not check for overflow. \<open>quot\<close> is Go's division, which
  truncates toward zero.
\<close>

section \<open>64-bit integers\<close>

definition MaxInt64 :: int where
  "MaxInt64 = 9223372036854775807"

definition MinInt64 :: int where
  "MinInt64 = - 9223372036854775808"

definition int64_range :: "int \<Rightarrow> bool" where
  "int64_range x \<longleftrightarrow> MinInt64 \<le> x \<and> x \<le> MaxInt64"

definition wrap64 :: "int \<Rightarrow> int" where
  "wrap64 x = (x + 9223372036854775808) mod 18446744073709551616 - 9223372036854775808"

definition quot :: "int \<Rightarrow> int \<Rightarrow> int" where
  "quot a b = sgn a * sgn b * (abs a div abs b)"

lemma wrap64_id [simp]: "int64_range x \<Longrightarrow> wrap64 x = x"
  by (simp add: wrap64_def int64_range_def MinInt64_def MaxInt64_def)

lemma wrap64_range [simp]: "int64_range (wrap64 x)"
proof -
  have "0 \<le> (x + 9223372036854775808) mod 18446744073709551616"
    "(x + 9223372036854775808) mod 18446744073709551616 < 18446744073709551616" by simp_all
  then show ?thesis unfolding wrap64_def int64_range_def MinInt64_def MaxInt64_def by linarith
qed

lemma wrap64_bounds: "MinInt64 \<le> wrap64 x" "wrap64 x \<le> MaxInt64"
  using wrap64_range [of x] by (auto simp: int64_range_def)

lemma quot_nonneg: "0 \<le> a \<Longrightarrow> 0 < b \<Longrightarrow> quot a b = a div b"
  by (cases "a = 0") (auto simp: quot_def)

lemma quot_neg: "a < 0 \<Longrightarrow> 0 < b \<Longrightarrow> quot a b = - ((- a) div b)"
  by (auto simp: quot_def)

lemma ceil_div_eq:
  assumes "0 < (b::int)"
  shows "a div b + (if a mod b \<noteq> 0 then 1 else 0) = (a + b - 1) div b"
proof -
  define q r where "q = a div b" and "r = a mod b"
  have a: "a = b * q + r" and r: "0 \<le> r" "r < b" using assms by (simp_all add: q_def r_def)
  have "(a + b - 1) div b = q + (if r \<noteq> 0 then 1 else 0)"
    by (rule int_div_pos_eq [of _ _ _ "if r \<noteq> 0 then r - 1 else b - 1"])
       (use assms r in \<open>auto simp: a algebra_simps\<close>)
  then show ?thesis by (simp add: q_def r_def)
qed

lemma div_less_of_less_mult:
  assumes "a < c * b" and "0 < (b::int)"
  shows "a div b < c"
proof (rule ccontr)
  assume "\<not> a div b < c"
  then have "c * b \<le> a div b * b" using assms(2) by (intro mult_right_mono) auto
  also have "\<dots> \<le> a" using assms(2) div_mult_mod_eq [of a b] pos_mod_sign [of b a] by linarith
  finally show False using assms(1) by simp
qed

section \<open>Times and durations\<close>

text \<open>
  A \<open>time.Time\<close> that came in with its own zone: the instant in nanoseconds since the zero time, and
  the zone's offset in seconds. Comparison uses the instant only.
\<close>

record gotime =
  gt_inst :: time
  gt_off :: int

definition zero_time :: gotime where
  "zero_time = \<lparr>gt_inst = 0, gt_off = 0\<rparr>"

abbreviation hour_ns :: int where
  "hour_ns \<equiv> 3600000000000"

abbreviation day_ns :: int where
  "day_ns \<equiv> 86400000000000"

definition time_sub :: "time \<Rightarrow> time \<Rightarrow> int" where
  \<comment> \<open>\<open>Time.Sub\<close> saturates at the extreme durations\<close>
  "time_sub a b = max MinInt64 (min MaxInt64 (a - b))"

definition days_before_year :: "int \<Rightarrow> int" where
  \<comment> \<open>days from 0001-01-01 to the first of January of the year\<close>
  "days_before_year y =
     365 * (y - 1) + (y - 1) div 4 - (y - 1) div 100 + (y - 1) div 400"

definition year_of_day :: "int \<Rightarrow> int" where
  "year_of_day d =
     (let y = (400 * d) div 146097 + 1 in
      if d < days_before_year y then y - 1
      else if days_before_year (y + 1) \<le> d then y + 1 else y)"

definition go_year :: "gotime \<Rightarrow> int" where
  "go_year t = year_of_day ((gt_inst t + gt_off t * 1000000000) div day_ns)"

section \<open>Decimal numbers\<close>

definition is_digit :: "char \<Rightarrow> bool" where
  "is_digit c \<longleftrightarrow> CHR ''0'' \<le> c \<and> c \<le> CHR ''9''"

definition digit_value :: "char \<Rightarrow> int" where
  "digit_value c = int (of_char c :: nat) - 48"

definition decimal_value :: "string \<Rightarrow> int" where
  "decimal_value s = fold (\<lambda>c v. v * 10 + digit_value c) s 0"

definition parse_digits :: "string \<Rightarrow> int option" where
  "parse_digits s = (if s \<noteq> [] \<and> list_all is_digit s then Some (decimal_value s) else None)"

definition parse_int64 :: "string \<Rightarrow> int option" where
  \<comment> \<open>\<open>strconv.ParseInt(s, 10, 64)\<close>\<close>
  "parse_int64 s =
     (let v = (case s of
                 [] \<Rightarrow> None
               | c # cs \<Rightarrow>
                   if c = CHR ''-'' then map_option uminus (parse_digits cs)
                   else if c = CHR ''+'' then parse_digits cs
                   else parse_digits s) in
      case v of None \<Rightarrow> None | Some n \<Rightarrow> if int64_range n then Some n else None)"

fun nat_digits :: "nat \<Rightarrow> string" where
  "nat_digits n =
     (if n < 10 then [char_of (48 + n)] else nat_digits (n div 10) @ [char_of (48 + n mod 10)])"

declare nat_digits.simps [simp del]

definition format_int :: "int \<Rightarrow> string" where
  \<comment> \<open>\<open>strconv.FormatInt(v, 10)\<close>\<close>
  "format_int v = (if v < 0 then CHR ''-'' # nat_digits (nat (- v)) else nat_digits (nat v))"

definition pad_left :: "nat \<Rightarrow> string \<Rightarrow> string" where
  "pad_left n s = replicate (n - length s) CHR ''0'' @ s"

lemma digit_char: "n < 10 \<Longrightarrow> is_digit (char_of (48 + n)) \<and> digit_value (char_of (48 + n)) = int n"
  for n :: nat
proof -
  assume "n < 10"
  then have "n \<in> {0,1,2,3,4,5,6,7,8,9}" by auto
  then show ?thesis by (auto simp: is_digit_def digit_value_def less_eq_char_def)
qed

lemma decimal_value_snoc [simp]: "decimal_value (s @ [c]) = decimal_value s * 10 + digit_value c"
  by (simp add: decimal_value_def)

lemma nat_digits_value: "decimal_value (nat_digits n) = int n"
proof (induction n rule: nat_digits.induct)
  case (1 n)
  show ?case
  proof (cases "n < 10")
    case True
    then show ?thesis
      using digit_char [OF True] by (simp add: nat_digits.simps [of n] decimal_value_def)
  next
    case False
    then show ?thesis
      using 1 digit_char [of "n mod 10"]
      by (subst nat_digits.simps) (simp, metis div_mult_mod_eq of_nat_add of_nat_mult of_nat_numeral)
  qed
qed

lemma nat_digits_digits: "list_all is_digit (nat_digits n) \<and> nat_digits n \<noteq> []"
proof (induction n rule: nat_digits.induct)
  case (1 n)
  then show ?case
    using digit_char [of n] digit_char [of "n mod 10"]
    by (subst (1 2) nat_digits.simps) auto
qed

lemma nat_digits_inj: "nat_digits m = nat_digits n \<Longrightarrow> m = n"
  by (metis nat_digits_value of_nat_eq_iff)

lemma decimal_value_pad: "decimal_value (pad_left n s) = decimal_value s"
proof -
  have "fold (\<lambda>c v. v * 10 + digit_value c) (replicate k CHR ''0'') 0 = 0" for k
    by (induction k) (simp_all add: digit_value_def)
  then show ?thesis by (simp add: decimal_value_def pad_left_def)
qed

lemma parse_format_int: "int64_range v \<Longrightarrow> parse_int64 (format_int v) = Some v"
proof -
  assume r: "int64_range v"
  have p: "parse_digits (nat_digits n) = Some (int n)" for n
    using nat_digits_digits nat_digits_value by (simp add: parse_digits_def)
  obtain c cs where c: "nat_digits (nat v) = c # cs" "is_digit c"
    using nat_digits_digits [of "nat v"] by (cases "nat_digits (nat v)") auto
  then have "c \<noteq> CHR ''-''" "c \<noteq> CHR ''+''" by (auto simp: is_digit_def)
  with c p [of "nat v"] p [of "nat (- v)"] r show ?thesis
    by (simp add: format_int_def parse_int64_def)
qed

section \<open>Letter case\<close>

text \<open>
  \<open>strings.ToLower\<close>, \<open>strings.ToUpper\<close> and the key folding of \<open>encoding/json\<close>, as far as their
  ASCII results are concerned: besides the ASCII letters, the Kelvin sign and the dotted capital I
  lower to ASCII, the dotless i and the long s raise to ASCII, and the Kelvin sign and the long s
  fold to ASCII. Every other character keeps its bytes here, which is enough because the source
  compares the results with ASCII texts only.
\<close>

definition upper_char :: "char \<Rightarrow> char" where
  "upper_char c = (if 97 \<le> (of_char c :: nat) \<and> (of_char c :: nat) \<le> 122
                   then char_of ((of_char c :: nat) - 32) else c)"

text \<open>The same function on the bits of the byte, for evaluation.\<close>

lemma upper_char_bits [code]:
  "upper_char (Char b0 b1 b2 b3 b4 b5 b6 b7) =
     Char b0 b1 b2 b3 b4 (b5 \<and> \<not> (\<not> b7 \<and> b6 \<and> (b0 \<or> b1 \<or> b2 \<or> b3 \<or> b4) \<and> \<not> (b4 \<and> b3 \<and> (b2 \<or> b1 \<and> b0)))) b6 b7"
  by (cases b0; cases b1; cases b2; cases b3; cases b4; cases b5; cases b6; cases b7;
      simp add: upper_char_def char_of_def of_char_def bit_iff_odd horner_sum_simps)

lemma lower_char_bits [code]:
  "lower_char (Char b0 b1 b2 b3 b4 b5 b6 b7) =
     Char b0 b1 b2 b3 b4 (b5 \<or> (\<not> b7 \<and> b6 \<and> (b0 \<or> b1 \<or> b2 \<or> b3 \<or> b4) \<and> \<not> (b4 \<and> b3 \<and> (b2 \<or> b1 \<and> b0)))) b6 b7"
  by (cases b0; cases b1; cases b2; cases b3; cases b4; cases b5; cases b6; cases b7;
      simp add: lower_char_def char_of_def of_char_def bit_iff_odd horner_sum_simps)



fun to_lower :: "string \<Rightarrow> string" where
  "to_lower [] = []"
| "to_lower (c # cs) =
     (case strip_prefix [CHR 0xE2, CHR 0x84, CHR 0xAA] (c # cs) of
        Some r \<Rightarrow> CHR ''k'' # to_lower (drop 2 cs)
      | None \<Rightarrow>
          (case strip_prefix [CHR 0xC4, CHR 0xB0] (c # cs) of
             Some r \<Rightarrow> CHR ''i'' # to_lower (drop 1 cs)
           | None \<Rightarrow> lower_char c # to_lower cs))"

fun to_upper :: "string \<Rightarrow> string" where
  "to_upper [] = []"
| "to_upper (c # cs) =
     (case strip_prefix [CHR 0xC4, CHR 0xB1] (c # cs) of
        Some r \<Rightarrow> CHR ''I'' # to_upper (drop 1 cs)
      | None \<Rightarrow>
          (case strip_prefix [CHR 0xC5, CHR 0xBF] (c # cs) of
             Some r \<Rightarrow> CHR ''S'' # to_upper (drop 1 cs)
           | None \<Rightarrow> upper_char c # to_upper cs))"

fun fold_key :: "string \<Rightarrow> string" where
  "fold_key [] = []"
| "fold_key (c # cs) =
     (case strip_prefix [CHR 0xE2, CHR 0x84, CHR 0xAA] (c # cs) of
        Some r \<Rightarrow> CHR ''k'' # fold_key (drop 2 cs)
      | None \<Rightarrow>
          (case strip_prefix [CHR 0xC5, CHR 0xBF] (c # cs) of
             Some r \<Rightarrow> CHR ''s'' # fold_key (drop 1 cs)
           | None \<Rightarrow> lower_char c # fold_key cs))"

section \<open>Blank strings\<close>

lemma trim_front_stop: "strip_any ps s = None \<Longrightarrow> trim_front ps s = s"
  by (simp add: trim_front.simps)

lemma strip_any_None: "strip_any ps s = None \<longleftrightarrow> (\<forall>p \<in> set ps. \<forall>r. s \<noteq> p @ r)"
  by (induction ps) (auto simp: strip_prefix_None strip_prefix_eq split: option.split)

lemma trim_front_suffix: "\<exists>ws. s = ws @ trim_front ps s \<and> set ws \<subseteq> \<Union> (set ` set ps)"
proof (induction ps s rule: trim_front.induct)
  case (1 ps s)
  show ?case
  proof (cases "strip_any ps s")
    case (Some r)
    then obtain p where p: "p \<in> set ps" "s = p @ r"
      by (induction ps) (auto simp: strip_prefix_eq split: option.splits)
    show ?thesis
    proof (cases "length r < length s")
      case True
      with 1 [OF Some] obtain ws where "r = ws @ trim_front ps r" "set ws \<subseteq> \<Union> (set ` set ps)"
        by blast
      moreover from True Some have "trim_front ps s = trim_front ps r" by (simp add: trim_front.simps)
      ultimately show ?thesis using p by (intro exI [of _ "p @ ws"]) auto
    next
      case False
      with Some have "trim_front ps s = s" by (simp add: trim_front.simps)
      then show ?thesis by simp
    qed
  qed (simp add: trim_front_stop)
qed

lemma trim_front_keeps:
  assumes "c \<in> set s" and "c \<notin> \<Union> (set ` set ps)"
  shows "c \<in> set (trim_front ps s)"
proof -
  define t where "t = trim_front ps s"
  obtain ws where "s = ws @ t" "set ws \<subseteq> \<Union> (set ` set ps)"
    using trim_front_suffix [of s ps] unfolding t_def [symmetric] by blast
  then have "c \<in> set t" using assms by auto
  then show ?thesis by (simp add: t_def)
qed

lemma trim_space_nonblank:
  assumes "c \<in> set s" and "c \<notin> \<Union> (set ` set go_spaces)"
  shows "trim_space s \<noteq> []"
proof -
  have eq: "\<Union> (set ` set (map rev go_spaces)) = \<Union> (set ` set go_spaces)"
    unfolding set_map image_image by simp
  have "c \<in> set (rev (trim_front go_spaces s))"
    unfolding set_rev by (rule trim_front_keeps [OF assms])
  then have "c \<in> set (trim_front (map rev go_spaces) (rev (trim_front go_spaces s)))"
    by (rule trim_front_keeps) (simp only: eq assms(2) not_False_eq_True)
  then show ?thesis by (auto simp: trim_space_def)
qed

end
