(* ===== verification/Go_Json.thy ===== *)
theory Go_Json
  imports Go_Basics
begin

text \<open>
  Go's dynamic JSON values and the library functions the owners call on bytes. A JSON text is
  represented by its value tree once it is decoded; numbers keep their literal text, as
  \<open>json.Number\<close> does, and an object keeps its members in order, the last occurrence of a key
  being the one a decoded Go map holds.

  SHA-256, the JSON parser and printer, RFC 3339 times, the opaque page cursors (unpadded URL
  base64 over a JSON pair of a time and an identifier) and URL parsing are arguments (\<open>golib\<close>) of
  the definitions that call them, so every theorem holds for any such functions. What a theorem
  needs of them is a named hypothesis: \<open>sha256_hex\<close> says a digest is 64 lower-case hexadecimal
  digits, \<open>cursor_roundtrip\<close> that a cursor decodes to what was encoded.
\<close>

datatype json =
    JNull
  | JBool bool
  | JNum string
  | JStr string
  | JArr "json list"
  | JObj "(string \<times> json) list"

record golib =
  lib_sha256 :: "string \<Rightarrow> string"
  lib_json :: "string \<Rightarrow> json option"
  lib_marshal :: "json \<Rightarrow> string"
  lib_parse_time :: "string \<Rightarrow> gotime option"
  lib_time_text :: "gotime \<Rightarrow> string"
  lib_cursor_encode :: "gotime \<times> string \<Rightarrow> string"
  lib_cursor_decode :: "string \<Rightarrow> (gotime \<times> string) option"
  lib_url_parse :: "string \<Rightarrow> (bool \<times> string \<times> string) option"

definition obj_keys :: "(string \<times> json) list \<Rightarrow> string list" where
  "obj_keys kvs = remdups (map fst kvs)"

definition obj_get :: "(string \<times> json) list \<Rightarrow> string \<Rightarrow> json option" where
  \<comment> \<open>the last occurrence of a key wins, as in a decoded Go map\<close>
  "obj_get kvs k = map_of (rev kvs) k"

definition unmarshal_map :: "golib \<Rightarrow> string \<Rightarrow> (string \<times> json) list option" where
  \<comment> \<open>\<open>json.Unmarshal\<close> into a \<open>map[string]json.RawMessage\<close>: an object, or null for a nil map\<close>
  "unmarshal_map lib bytes =
     (case lib_json lib bytes of
        Some (JObj kvs) \<Rightarrow> Some kvs
      | Some JNull \<Rightarrow> Some []
      | _ \<Rightarrow> None)"

definition unmarshal_string :: "json \<Rightarrow> string option" where
  \<comment> \<open>\<open>json.Unmarshal\<close> into a \<open>string\<close>: null leaves the empty string\<close>
  "unmarshal_string j = (case j of JStr s \<Rightarrow> Some s | JNull \<Rightarrow> Some [] | _ \<Rightarrow> None)"

lemma obj_get_SomeD: "obj_get kvs k = Some v \<Longrightarrow> (k, v) \<in> set kvs \<and> k \<in> set (obj_keys kvs)"
  by (force simp: obj_get_def obj_keys_def dest: map_of_SomeD)

section \<open>Decoded maps\<close>

type_synonym gomap = "(string \<times> json) list"

definition map_len :: "gomap \<Rightarrow> nat" where
  "map_len m = length (obj_keys m)"

definition map_has :: "gomap \<Rightarrow> string \<Rightarrow> bool" where
  "map_has m k \<longleftrightarrow> obj_get m k \<noteq> None"

definition get_str :: "gomap \<Rightarrow> string \<Rightarrow> string option" where
  \<comment> \<open>\<open>v, ok := m[k].(string)\<close>\<close>
  "get_str m k = (case obj_get m k of Some (JStr s) \<Rightarrow> Some s | _ \<Rightarrow> None)"

definition get_map :: "gomap \<Rightarrow> string \<Rightarrow> gomap option" where
  "get_map m k = (case obj_get m k of Some (JObj o') \<Rightarrow> Some o' | _ \<Rightarrow> None)"

definition get_arr :: "gomap \<Rightarrow> string \<Rightarrow> json list option" where
  "get_arr m k = (case obj_get m k of Some (JArr a) \<Rightarrow> Some a | _ \<Rightarrow> None)"

definition is_str :: "gomap \<Rightarrow> string \<Rightarrow> string \<Rightarrow> bool" where
  \<comment> \<open>\<open>m[k] == "text"\<close> on dynamic values\<close>
  "is_str m k s \<longleftrightarrow> obj_get m k = Some (JStr s)"

text \<open>
  The value \<open>json.Marshal\<close> prints for a Go value built of maps: members sorted by key, each key
  once.
\<close>

definition sort_members :: "gomap \<Rightarrow> gomap" where
  "sort_members m = map (\<lambda>k. (k, the (obj_get m k))) (sort (obj_keys m))"

fun json_canon :: "json \<Rightarrow> json"
  and canon_list :: "json list \<Rightarrow> json list"
  and canon_members :: "(string \<times> json) list \<Rightarrow> (string \<times> json) list" where
  "json_canon (JArr xs) = JArr (canon_list xs)"
| "json_canon (JObj m) = JObj (sort_members (canon_members m))"
| "json_canon JNull = JNull"
| "json_canon (JBool b) = JBool b"
| "json_canon (JNum n) = JNum n"
| "json_canon (JStr s) = JStr s"
| "canon_list [] = []"
| "canon_list (x # xs) = json_canon x # canon_list xs"
| "canon_members [] = []"
| "canon_members ((k, v) # m) = (k, json_canon v) # canon_members m"

lemma map_has_keys: "map_has m k \<longleftrightarrow> k \<in> set (obj_keys m)"
  by (auto simp: map_has_def obj_get_def obj_keys_def map_of_eq_None_iff image_iff)

lemma get_str_Some: "get_str m k = Some s \<longleftrightarrow> is_str m k s"
  by (auto simp: get_str_def is_str_def split: option.splits json.splits)

section \<open>The canonical form\<close>

lemma obj_get_Nil [simp]: "obj_get [] k = None"
  by (simp add: obj_get_def)

lemma canon_members_map: "canon_members m = map (\<lambda>(k, v). (k, json_canon v)) m"
  by (induction m) auto

lemma obj_get_canon_members: "obj_get (canon_members m) k = map_option json_canon (obj_get m k)"
proof -
  have "map_of (map (\<lambda>(k, v). (k, json_canon v)) xs) k = map_option json_canon (map_of xs k)" for xs
    by (induction xs) auto
  from this [of "rev m"] show ?thesis by (simp add: obj_get_def canon_members_map rev_map)
qed

lemma obj_keys_canon_members [simp]: "obj_keys (canon_members m) = obj_keys m"
  by (simp add: obj_keys_def canon_members_map comp_def case_prod_unfold)

lemma obj_get_None_iff: "obj_get m k = None \<longleftrightarrow> k \<notin> set (obj_keys m)"
  by (auto simp: obj_get_def obj_keys_def map_of_eq_None_iff image_iff)

lemma map_of_rev: "distinct (map fst xs) \<Longrightarrow> map_of (rev xs) = map_of xs"
  by (induction xs) (auto simp: fun_eq_iff map_add_def split: option.split dest!: map_of_SomeD intro: rev_image_eqI)

lemma obj_get_sort_members [simp]: "obj_get (sort_members m) k = obj_get m k"
proof -
  have d: "distinct (sort (obj_keys m))" by (simp add: obj_keys_def)
  then have "distinct (map fst (map (\<lambda>k. (k, the (obj_get m k))) (sort (obj_keys m))))" by (simp add: comp_def)
  then have "obj_get (sort_members m) k = map_of (map (\<lambda>k. (k, the (obj_get m k))) (sort (obj_keys m))) k"
    unfolding obj_get_def [of "sort_members m"] by (simp add: sort_members_def map_of_rev)
  also have "\<dots> = (if k \<in> set (obj_keys m) then Some (the (obj_get m k)) else None)"
    by (simp add: map_of_map_restrict restrict_map_def)
  also have "\<dots> = obj_get m k" using obj_get_None_iff [of m k] by auto
  finally show ?thesis .
qed

lemma obj_keys_sort_members [simp]: "obj_keys (sort_members m) = sort (obj_keys m)"
proof -
  have "map fst (sort_members m) = sort (obj_keys m)" by (simp add: sort_members_def comp_def)
  moreover have "distinct (sort (obj_keys m))" by (simp add: obj_keys_def)
  ultimately show ?thesis unfolding obj_keys_def [of "sort_members m"] by (simp add: distinct_remdups_id)
qed

lemma sort_members_idem [simp]: "sort_members (sort_members m) = sort_members m"
  unfolding sort_members_def [of "sort_members m"] by (simp add: sorted_sort_id) (simp add: sort_members_def)

lemma canon_sort_members: "canon_members (sort_members m) = sort_members (canon_members m)"
proof -
  have "json_canon (the (obj_get m k)) = the (obj_get (canon_members m) k)" if "k \<in> set (obj_keys m)" for k
    using that obj_get_None_iff [of m k] by (auto simp: obj_get_canon_members)
  then show ?thesis by (simp add: sort_members_def canon_members_map [of "map _ _"] comp_def)
qed

lemma json_canon_idem [simp]:
  "json_canon (json_canon j) = json_canon j"
  "canon_list (canon_list js) = canon_list js"
  "canon_members (canon_members m) = canon_members m"
  by (induction j and js and m rule: json_canon_canon_list_canon_members.induct)
     (simp_all add: canon_sort_members)

end
