(* ===== verification/Owner_Outbox.thy ===== *)
theory Owner_Outbox
  imports Event_Identity Go_Json "HOL-Library.Product_Lexorder"
begin

text \<open>
  The transactional Outbox (\<open>services/internal/ownerstore/outbox.go\<close>): an event is validated
  against the contract, written once with one delivery row per subscribed consumer, listed per
  consumer while unacknowledged and due, acknowledged per consumer, and deferred after a failure.
\<close>

definition owner_sha256 :: "golib \<Rightarrow> string \<Rightarrow> string" where
  \<comment> \<open>\<open>hex.EncodeToString(sha256.Sum256(payload))\<close>\<close>
  "owner_sha256 lib payload = lib_sha256 lib payload"

definition sha256_hex :: "golib \<Rightarrow> bool" where
  "sha256_hex lib \<longleftrightarrow> (\<forall>b. hex_sha256 (lib_sha256 lib b))"

record event =
  e_ID :: string
  e_EventType :: string
  e_SchemaVersion :: int
  e_AggregateType :: string
  e_AggregateID :: string
  e_AggregateRevision :: int
  e_TenantID :: string
  e_CorrelationID :: string
  e_CausationID :: string
  e_Payload :: string
  e_OccurredAt :: time

section \<open>Validation\<close>

definition payload_carries :: "(string \<times> json) list \<Rightarrow> string \<Rightarrow> bool" where
  "payload_carries kvs aggregateID =
     list_ex (\<lambda>k. case obj_get kvs k of
                    None \<Rightarrow> False
                  | Some raw \<Rightarrow> unmarshal_string raw = Some aggregateID) (obj_keys kvs)"

definition ValidateAggregateIdentity ::
  "golib \<Rightarrow> string \<Rightarrow> int \<Rightarrow> string \<Rightarrow> string \<Rightarrow> string \<Rightarrow> store_error option" where
  "ValidateAggregateIdentity lib eventType schemaVersion aggregateType aggregateID payload =
     (if LookupEventIdentity eventType schemaVersion = None
      then Some (ErrInvalidEvent ''not a specified event version'')
      else if trim_space aggregateType = []
      then Some (ErrInvalidEvent ''aggregate type is required'')
      else let aggregateID = trim_space aggregateID in
      if aggregateID = [] then Some (ErrInvalidEvent ''aggregate id is required'')
      else if payload = [] then Some (ErrInvalidEvent ''payload is required'')
      else case unmarshal_map lib payload of
        None \<Rightarrow> Some (ErrInvalidEvent ''payload is not a JSON object'')
      | Some decoded \<Rightarrow>
          if payload_carries decoded aggregateID then None
          else Some (ErrInvalidEvent ''no top-level payload field carries the aggregate id''))"

definition validate_event :: "golib \<Rightarrow> string \<Rightarrow> event \<Rightarrow> store_error option" where
  "validate_event lib owner e =
     (if trim_space (e_ID e) = [] then Some (ErrInvalidEvent ''id is required'')
      else if trim_space (e_EventType e) = [] then Some (ErrInvalidEvent ''event type is required'')
      else if e_SchemaVersion e \<le> 0 then Some (ErrInvalidEvent ''schema version must be positive'')
      else if e_AggregateRevision e \<le> 0
        then Some (ErrInvalidEvent ''aggregate revision must be positive'')
      else if trim_space (e_CorrelationID e) = []
        then Some (ErrInvalidEvent ''correlation id is required'')
      else if e_Payload e = [] then Some (ErrInvalidEvent ''payload is required'')
      else if is_zero (e_OccurredAt e) then Some (ErrInvalidEvent ''occurrence time is required'')
      else case LookupEventIdentity (e_EventType e) (e_SchemaVersion e) of
        None \<Rightarrow> Some (ErrInvalidEvent ''not a specified event version'')
      | Some identity \<Rightarrow>
          if ei_Owner identity \<noteq> owner then Some (ErrInvalidEvent ''produced by another owner'')
          else ValidateAggregateIdentity lib (e_EventType e) (e_SchemaVersion e)
                 (e_AggregateType e) (e_AggregateID e) (e_Payload e))"

fun check_consumers ::
  "event_identity \<Rightarrow> string list \<Rightarrow> string list \<Rightarrow> store_error + string list" where
  \<comment> \<open>the first loop of \<open>validateEventConsumers\<close>; \<open>got\<close> is the set of trimmed consumers so far\<close>
  "check_consumers identity [] got = Inr got"
| "check_consumers identity (c # cs) got =
     (let consumer = trim_space c in
      if consumer = [] \<or> \<not> Subscribed identity consumer
      then Inl (ErrInvalidEvent ''owner is not subscribed'')
      else if consumer \<in> set got then Inl (ErrInvalidEvent ''duplicate delivery for consumer'')
      else check_consumers identity cs (consumer # got))"

definition validateEventConsumers :: "string \<Rightarrow> int \<Rightarrow> string list \<Rightarrow> store_error option" where
  "validateEventConsumers eventType schemaVersion consumers =
     (case LookupEventIdentity eventType schemaVersion of
        None \<Rightarrow> Some (ErrInvalidEvent ''not a specified event version'')
      | Some identity \<Rightarrow>
          (case check_consumers identity consumers [] of
             Inl e \<Rightarrow> Some e
           | Inr got \<Rightarrow>
               if list_all (\<lambda>c. c \<in> set got) (ei_Consumers identity) then None
               else Some (ErrInvalidEvent ''missing delivery for subscribed owner'')))"

section \<open>Writing\<close>

definition deliveryID :: "string \<Rightarrow> string \<Rightarrow> string" where
  "deliveryID eventID consumer = ''dlv_'' @ eventID @ ''_'' @ consumer"

definition new_outbox_row :: "golib \<Rightarrow> time \<Rightarrow> event \<Rightarrow> outbox_row" where
  "new_outbox_row lib now e =
     \<lparr>ob_id = e_ID e, ob_event_type = e_EventType e, ob_schema_version = e_SchemaVersion e,
      ob_aggregate_type = e_AggregateType e, ob_aggregate_id = e_AggregateID e,
      ob_aggregate_revision = e_AggregateRevision e, ob_tenant_id = null_if_blank (e_TenantID e),
      ob_correlation_id = e_CorrelationID e, ob_causation_id = null_if_blank (e_CausationID e),
      ob_payload = e_Payload e, ob_payload_sha256 = owner_sha256 lib (e_Payload e),
      ob_occurred_at = e_OccurredAt e, ob_created_at = now\<rparr>"

definition new_delivery_row :: "time \<Rightarrow> string \<Rightarrow> string \<Rightarrow> delivery_row" where
  "new_delivery_row now eventID consumer =
     \<lparr>dl_id = deliveryID eventID consumer, dl_event_id = eventID, dl_consumer_owner = consumer,
      dl_attempt_count = 0, dl_next_attempt_at = now, dl_acknowledged_at = None,
      dl_last_error_code = None, dl_lease_token = None, dl_lease_until = None,
      dl_created_at = now, dl_updated_at = now\<rparr>"

fun insert_deliveries ::
  "time \<Rightarrow> string \<Rightarrow> string list \<Rightarrow> delivery_row list \<Rightarrow> store_error + delivery_row list" where
  "insert_deliveries now eventID [] rows = Inr rows"
| "insert_deliveries now eventID (c # cs) rows =
     (case sql_insert delivery_check delivery_clash (new_delivery_row now eventID c) rows of
        Inl e \<Rightarrow> Inl (ErrDatabase e)
      | Inr rows' \<Rightarrow> insert_deliveries now eventID cs rows')"

definition AppendEvent ::
  "golib \<Rightarrow> time \<Rightarrow> event \<Rightarrow> owner_store \<Rightarrow> store_error + owner_store" where
  "AppendEvent lib now e s =
     (case validate_event lib (st_schema s) e of
        Some err \<Rightarrow> Inl err
      | None \<Rightarrow>
          (let consumers =
             (case LookupEventIdentity (e_EventType e) (e_SchemaVersion e) of
                None \<Rightarrow> [] | Some identity \<Rightarrow> ei_Consumers identity) in
           case validateEventConsumers (e_EventType e) (e_SchemaVersion e) consumers of
             Some err \<Rightarrow> Inl err
           | None \<Rightarrow>
               (case sql_insert outbox_check outbox_clash (new_outbox_row lib now e)
                       (st_outbox_events s) of
                  Inl err \<Rightarrow> Inl (ErrDatabase err)
                | Inr rows \<Rightarrow>
                    (case insert_deliveries now (e_ID e) consumers (st_outbox_deliveries s) of
                       Inl err \<Rightarrow> Inl err
                     | Inr deliveries \<Rightarrow>
                         Inr (s\<lparr>st_outbox_events := rows, st_outbox_deliveries := deliveries\<rparr>)))))"

section \<open>Delivering\<close>

record pending_delivery =
  pd_DeliveryID :: string
  pd_EventID :: string
  pd_AttemptCount :: int
  pd_Event :: event

definition scan_event :: "outbox_row \<Rightarrow> event" where
  "scan_event r =
     \<lparr>e_ID = ob_id r, e_EventType = ob_event_type r, e_SchemaVersion = ob_schema_version r,
      e_AggregateType = ob_aggregate_type r, e_AggregateID = ob_aggregate_id r,
      e_AggregateRevision = ob_aggregate_revision r, e_TenantID = coalesce_str (ob_tenant_id r),
      e_CorrelationID = ob_correlation_id r, e_CausationID = coalesce_str (ob_causation_id r),
      e_Payload = ob_payload r, e_OccurredAt = ob_occurred_at r\<rparr>"

definition due :: "time \<Rightarrow> string \<Rightarrow> delivery_row \<Rightarrow> bool" where
  "due now consumer d \<longleftrightarrow>
     dl_consumer_owner d = consumer \<and> dl_acknowledged_at d = None \<and> dl_next_attempt_at d \<le> now"

definition join_event :: "owner_store \<Rightarrow> delivery_row \<Rightarrow> pending_delivery option" where
  "join_event s d =
     map_option (\<lambda>r. \<lparr>pd_DeliveryID = dl_id d, pd_EventID = dl_event_id d,
                      pd_AttemptCount = dl_attempt_count d, pd_Event = scan_event r\<rparr>)
       (List.find (\<lambda>r. ob_id r = dl_event_id d) (st_outbox_events s))"

definition PendingDeliveries ::
  "time \<Rightarrow> string \<Rightarrow> int \<Rightarrow> owner_store \<Rightarrow> store_error + pending_delivery list" where
  "PendingDeliveries now consumer limit s =
     (let consumer = trim_space consumer in
      if consumer = [] then Inl (ErrInvalidEvent ''consumer owner is required'')
      else let limit = (if limit \<le> 0 then 50 else limit) in
      Inr (take (nat limit)
        (List.map_filter (join_event s)
          (sort_key (\<lambda>d. (dl_next_attempt_at d, dl_id d))
            (filter (due now consumer) (st_outbox_deliveries s))))))"

definition AcknowledgeDelivery ::
  "time \<Rightarrow> string \<Rightarrow> string \<Rightarrow> owner_store \<Rightarrow> store_error + owner_store" where
  "AcknowledgeDelivery now consumer eventID s =
     (let consumer = trim_space consumer; eventID = trim_space eventID in
      if consumer = [] \<or> eventID = []
      then Inl (ErrInvalidEvent ''consumer owner and event id are required'')
      else case sql_update delivery_check
          (\<lambda>d. dl_event_id d = eventID \<and> dl_consumer_owner d = consumer \<and> dl_acknowledged_at d = None)
          (\<lambda>d. d\<lparr>dl_acknowledged_at := Some now, dl_updated_at := now,
                 dl_lease_token := None, dl_lease_until := None\<rparr>)
          (st_outbox_deliveries s) of
        Inl e \<Rightarrow> Inl (ErrDatabase e)
      | Inr (n, rows) \<Rightarrow> Inr (s\<lparr>st_outbox_deliveries := rows\<rparr>))"

definition RecordDeliveryFailure ::
  "time \<Rightarrow> string \<Rightarrow> string \<Rightarrow> time \<Rightarrow> owner_store \<Rightarrow> store_error + owner_store" where
  "RecordDeliveryFailure now dlvID errorCode retryAt s =
     (let retryAt = (if is_zero retryAt then now + 1000000000 else retryAt) in
      case sql_update delivery_check
          (\<lambda>d. dl_id d = dlvID \<and> dl_acknowledged_at d = None)
          (\<lambda>d. d\<lparr>dl_attempt_count := dl_attempt_count d + 1,
                 dl_last_error_code := null_if_blank errorCode, dl_next_attempt_at := retryAt,
                 dl_updated_at := now, dl_lease_token := None, dl_lease_until := None\<rparr>)
          (st_outbox_deliveries s) of
        Inl e \<Rightarrow> Inl (ErrDatabase e)
      | Inr (n, rows) \<Rightarrow> Inr (s\<lparr>st_outbox_deliveries := rows\<rparr>))"

text \<open>The statements on the Outbox as the commands of one machine; a failed statement is rolled back.\<close>

datatype ob_command =
    ObAppend time event
  | ObAcknowledge time string string
  | ObFailure time string string time

fun ob_step :: "golib \<Rightarrow> ob_command \<Rightarrow> owner_store \<Rightarrow> owner_store" where
  "ob_step lib (ObAppend now e) s = (case AppendEvent lib now e s of Inl _ \<Rightarrow> s | Inr s' \<Rightarrow> s')"
| "ob_step lib (ObAcknowledge now c eid) s =
     (case AcknowledgeDelivery now c eid s of Inl _ \<Rightarrow> s | Inr s' \<Rightarrow> s')"
| "ob_step lib (ObFailure now did code at) s =
     (case RecordDeliveryFailure now did code at s of Inl _ \<Rightarrow> s | Inr s' \<Rightarrow> s')"

definition find_delivery :: "owner_store \<Rightarrow> string \<Rightarrow> delivery_row option" where
  "find_delivery s did = List.find (\<lambda>d. dl_id d = did) (st_outbox_deliveries s)"

text \<open>
  The Outbox invariant: the table constraints, delivery identities of the expected form, and for
  every event exactly the consumers the contract names, under the schema that produces it.
\<close>

definition consumers_of :: "owner_store \<Rightarrow> string \<Rightarrow> string set" where
  "consumers_of s eid =
     {dl_consumer_owner d | d. d \<in> set (st_outbox_deliveries s) \<and> dl_event_id d = eid}"

definition outbox_ok :: "owner_store \<Rightarrow> bool" where
  "outbox_ok s \<longleftrightarrow> store_ok s \<and>
     (\<forall>d \<in> set (st_outbox_deliveries s).
        dl_id d = deliveryID (dl_event_id d) (dl_consumer_owner d) \<and>
        dl_consumer_owner d \<in> set ownerSchemas) \<and>
     (\<forall>r \<in> set (st_outbox_events s). \<exists>i.
        LookupEventIdentity (ob_event_type r) (ob_schema_version r) = Some i \<and>
        ei_Owner i = st_schema s \<and> consumers_of s (ob_id r) = set (ei_Consumers i))"

section \<open>Lemmas\<close>

lemma new_delivery_row_simps [simp]:
  "dl_id (new_delivery_row now eid c) = deliveryID eid c"
  "dl_event_id (new_delivery_row now eid c) = eid"
  "dl_consumer_owner (new_delivery_row now eid c) = c"
  "dl_acknowledged_at (new_delivery_row now eid c) = None"
  "delivery_check (new_delivery_row now eid c)"
  by (simp_all add: new_delivery_row_def delivery_check_def)

lemma new_outbox_row_simps [simp]:
  "ob_id (new_outbox_row lib now e) = e_ID e"
  "ob_event_type (new_outbox_row lib now e) = e_EventType e"
  "ob_schema_version (new_outbox_row lib now e) = e_SchemaVersion e"
  by (simp_all add: new_outbox_row_def)

lemma owner_names_no_suffix:
  "list_all (\<lambda>c. list_all (\<lambda>c'. \<not> has_suffix c' (CHR ''_'' # c)) ownerSchemas) ownerSchemas"
  by code_simp

lemma deliveryID_inj:
  assumes "deliveryID e c = deliveryID e' c'" and "c \<in> set ownerSchemas" "c' \<in> set ownerSchemas"
  shows "e = e' \<and> c = c'"
proof -
  from assms(1) have eq: "e @ CHR ''_'' # c = e' @ CHR ''_'' # c'" by (simp add: deliveryID_def)
  have no: "\<nexists>vs. vs @ CHR ''_'' # x = y" if "x \<in> set ownerSchemas" "y \<in> set ownerSchemas" for x y
    using owner_names_no_suffix that by (auto simp: list_all_iff has_suffix_iff)
  from eq obtain us where
    "(e = e' @ us \<and> us @ CHR ''_'' # c = CHR ''_'' # c') \<or>
     (e' = e @ us \<and> us @ CHR ''_'' # c' = CHR ''_'' # c)"
    unfolding append_eq_append_conv2 by metis
  then show ?thesis using no assms(2,3) by (cases us) auto
qed

lemma check_consumers_ok:
  assumes "distinct cs" and "\<And>c. c \<in> set cs \<Longrightarrow> Subscribed i c \<and> trim_space c = c \<and> c \<noteq> []"
    and "set cs \<inter> set got = {}"
  shows "check_consumers i cs got = Inr (rev cs @ got)"
  using assms by (induction cs arbitrary: got) (auto simp: Let_def)

lemma contract_consumers_valid:
  assumes "LookupEventIdentity t v = Some i"
  shows "validateEventConsumers t v (ei_Consumers i) = None"
proof -
  have "check_consumers i (ei_Consumers i) [] = Inr (rev (ei_Consumers i) @ [])"
    by (rule check_consumers_ok)
       (use identity_okD [OF assms] in \<open>auto simp: identity_ok_def list_all_iff Subscribed_iff\<close>)
  then show ?thesis using assms by (simp add: validateEventConsumers_def list_all_iff)
qed

lemma insert_deliveries_InrD:
  "insert_deliveries now eid cs rows = Inr rows' \<Longrightarrow>
     rows' = rows @ map (new_delivery_row now eid) cs \<and>
     (\<forall>c \<in> set cs. \<forall>d \<in> set rows. \<not> delivery_clash (new_delivery_row now eid c) d) \<and> distinct cs"
proof (induction cs arbitrary: rows)
  case (Cons c cs)
  then obtain rows1 where r1:
    "sql_insert delivery_check delivery_clash (new_delivery_row now eid c) rows = Inr rows1"
    "insert_deliveries now eid cs rows1 = Inr rows'"
    by (auto split: sum.splits)
  from sql_insert_InrD [OF r1(1)] have "rows1 = rows @ [new_delivery_row now eid c]"
    "\<And>x. x \<in> set rows \<Longrightarrow> \<not> delivery_clash (new_delivery_row now eid c) x" by auto
  moreover note Cons.IH [OF r1(2)]
  ultimately show ?case by (auto simp: delivery_clash_def)
qed simp

lemma insert_deliveries_succeeds:
  assumes "distinct cs" and "set cs \<subseteq> set ownerSchemas"
    and "\<And>d. d \<in> set rows \<Longrightarrow> dl_event_id d \<noteq> eid \<or> dl_consumer_owner d \<notin> set cs"
    and "\<And>d. d \<in> set rows \<Longrightarrow> dl_id d = deliveryID (dl_event_id d) (dl_consumer_owner d) \<and>
           dl_consumer_owner d \<in> set ownerSchemas"
  shows "insert_deliveries now eid cs rows = Inr (rows @ map (new_delivery_row now eid) cs)"
  using assms
proof (induction cs arbitrary: rows)
  case (Cons c cs)
  have "\<not> delivery_clash (new_delivery_row now eid c) d" if "d \<in> set rows" for d
    using Cons.prems(2,3,4) that
    by (auto simp: delivery_clash_def dest: deliveryID_inj)
  then have "sql_insert delivery_check delivery_clash (new_delivery_row now eid c) rows =
      Inr (rows @ [new_delivery_row now eid c])"
    by (auto simp: sql_insert_def list_ex_iff)
  moreover have "insert_deliveries now eid cs (rows @ [new_delivery_row now eid c]) =
      Inr ((rows @ [new_delivery_row now eid c]) @ map (new_delivery_row now eid) cs)"
  proof (intro Cons.IH)
    fix d assume "d \<in> set (rows @ [new_delivery_row now eid c])"
    then have "d \<in> set rows \<or> d = new_delivery_row now eid c" by auto
    then show "dl_event_id d \<noteq> eid \<or> dl_consumer_owner d \<notin> set cs"
      and "dl_id d = deliveryID (dl_event_id d) (dl_consumer_owner d) \<and>
           dl_consumer_owner d \<in> set ownerSchemas"
      using Cons.prems(1,2) Cons.prems(3,4) [of d] by (elim disjE; simp)+
  qed (use Cons.prems in auto)
  ultimately show ?case by simp
qed simp

lemma validate_event_None:
  assumes "validate_event lib owner e = None"
  obtains i where "LookupEventIdentity (e_EventType e) (e_SchemaVersion e) = Some i"
    and "ei_Owner i = owner" and "0 < e_SchemaVersion e" and "0 < e_AggregateRevision e"
  using assms by (auto simp: validate_event_def split: if_splits option.splits)

lemma AppendEvent_InrD:
  assumes "AppendEvent lib now e s = Inr s'"
  obtains i where "LookupEventIdentity (e_EventType e) (e_SchemaVersion e) = Some i"
    and "ei_Owner i = st_schema s" and "validate_event lib (st_schema s) e = None"
    and "s' = s\<lparr>st_outbox_events := st_outbox_events s @ [new_outbox_row lib now e],
               st_outbox_deliveries := st_outbox_deliveries s @
                 map (new_delivery_row now (e_ID e)) (ei_Consumers i)\<rparr>"
    and "outbox_check (new_outbox_row lib now e)"
    and "\<forall>r \<in> set (st_outbox_events s). \<not> outbox_clash (new_outbox_row lib now e) r"
    and "\<forall>c \<in> set (ei_Consumers i). \<forall>d \<in> set (st_outbox_deliveries s).
           \<not> delivery_clash (new_delivery_row now (e_ID e) c) d"
proof -
  from assms have v: "validate_event lib (st_schema s) e = None"
    by (auto simp: AppendEvent_def split: option.splits)
  obtain i where i: "LookupEventIdentity (e_EventType e) (e_SchemaVersion e) = Some i"
    "ei_Owner i = st_schema s" using v by (rule validate_event_None)
  from assms v i obtain rows ds where
    "sql_insert outbox_check outbox_clash (new_outbox_row lib now e) (st_outbox_events s) = Inr rows"
    "insert_deliveries now (e_ID e) (ei_Consumers i) (st_outbox_deliveries s) = Inr ds"
    "s' = s\<lparr>st_outbox_events := rows, st_outbox_deliveries := ds\<rparr>"
    by (auto simp: AppendEvent_def Let_def contract_consumers_valid split: sum.splits)
  with sql_insert_InrD insert_deliveries_InrD show ?thesis
    by (intro that [OF i v]) fastforce+
qed

lemma AppendEvent_store_ok [keeps]:
  assumes "store_ok s" and "AppendEvent lib now e s = Inr s'"
  shows "store_ok s'"
proof -
  from assms(2) obtain i where i:
    "LookupEventIdentity (e_EventType e) (e_SchemaVersion e) = Some i"
    "s' = s\<lparr>st_outbox_events := st_outbox_events s @ [new_outbox_row lib now e],
           st_outbox_deliveries := st_outbox_deliveries s @
             map (new_delivery_row now (e_ID e)) (ei_Consumers i)\<rparr>"
    "outbox_check (new_outbox_row lib now e)"
    "\<forall>r \<in> set (st_outbox_events s). \<not> outbox_clash (new_outbox_row lib now e) r"
    "\<forall>c \<in> set (ei_Consumers i). \<forall>d \<in> set (st_outbox_deliveries s).
       \<not> delivery_clash (new_delivery_row now (e_ID e) c) d"
    by (rule AppendEvent_InrD)
  have cs: "distinct (ei_Consumers i)" "set (ei_Consumers i) \<subseteq> set ownerSchemas"
    using identity_okD [OF i(1)] by (auto simp: identity_ok_def list_all_iff)
  have inj: "inj_on (deliveryID (e_ID e)) (set (ei_Consumers i))"
    using cs(2) by (auto simp: inj_on_def dest: deliveryID_inj)
  have fresh: "e_ID e \<notin> ob_id ` set (st_outbox_events s)"
    using i(4) by (auto simp: outbox_clash_def)
  have fd: "dl_id d \<noteq> deliveryID (e_ID e) c" if "d \<in> set (st_outbox_deliveries s)"
    "c \<in> set (ei_Consumers i)" for c d
    using i(5) that by (fastforce simp: delivery_clash_def)
  have fe: "dl_event_id d \<noteq> e_ID e" if "d \<in> set (st_outbox_deliveries s)" for d
    using assms(1) fresh that by (metis store_ok_def deliveries_table_ok_def)
  have "outbox_table_ok (st_outbox_events s')"
    using assms(1) i(3) fresh by (auto simp: i(2) store_ok_def outbox_table_ok_def)
  moreover have "deliveries_table_ok (st_outbox_events s') (st_outbox_deliveries s')"
    using assms(1) cs(1) inj fd fe
    by (auto simp: i(2) store_ok_def deliveries_table_ok_def comp_def distinct_map inj_on_def)
  ultimately show ?thesis using assms(1) by (simp add: i(2) store_ok_def)
qed

lemma outbox_fresh:
  assumes "store_ok s" and "eid \<notin> ob_id ` set (st_outbox_events s)"
    and "d \<in> set (st_outbox_deliveries s)"
  shows "dl_event_id d \<noteq> eid"
  using assms by (metis store_ok_def deliveries_table_ok_def)

lemma consumers_of_pairs:
  "consumers_of s eid =
     {c. (eid, c) \<in> set (map (\<lambda>d. (dl_event_id d, dl_consumer_owner d)) (st_outbox_deliveries s))}"
  by (auto simp: consumers_of_def)

lemma AppendEvent_outbox_ok [keeps]:
  assumes ok: "outbox_ok s" and run: "AppendEvent lib now e s = Inr s'"
  shows "outbox_ok s'"
proof -
  from run obtain i where i:
    "LookupEventIdentity (e_EventType e) (e_SchemaVersion e) = Some i"
    "ei_Owner i = st_schema s"
    "s' = s\<lparr>st_outbox_events := st_outbox_events s @ [new_outbox_row lib now e],
           st_outbox_deliveries := st_outbox_deliveries s @
             map (new_delivery_row now (e_ID e)) (ei_Consumers i)\<rparr>"
    "\<forall>r \<in> set (st_outbox_events s). \<not> outbox_clash (new_outbox_row lib now e) r"
    by (rule AppendEvent_InrD)
  have sok: "store_ok s" using ok by (simp add: outbox_ok_def)
  have fresh: "e_ID e \<notin> ob_id ` set (st_outbox_events s)"
    using i(4) by (auto simp: outbox_clash_def)
  note fe = outbox_fresh [OF sok fresh]
  have new: "consumers_of s' (e_ID e) = set (ei_Consumers i)"
    using fe by (force simp: i(3) consumers_of_pairs)
  have old: "consumers_of s' eid = consumers_of s eid" if "eid \<noteq> e_ID e" for eid
    using that by (auto simp: i(3) consumers_of_def)
  have "set (ei_Consumers i) \<subseteq> set ownerSchemas"
    using identity_okD [OF i(1)] by (auto simp: identity_ok_def list_all_iff)
  then have "\<forall>d \<in> set (st_outbox_deliveries s').
      dl_id d = deliveryID (dl_event_id d) (dl_consumer_owner d) \<and>
      dl_consumer_owner d \<in> set ownerSchemas"
    using ok by (auto simp: i(3) outbox_ok_def)
  moreover have "\<exists>i. LookupEventIdentity (ob_event_type r) (ob_schema_version r) = Some i \<and>
      ei_Owner i = st_schema s' \<and> consumers_of s' (ob_id r) = set (ei_Consumers i)"
    if "r \<in> set (st_outbox_events s')" for r
  proof (cases "r \<in> set (st_outbox_events s)")
    case True
    then have "ob_id r \<noteq> e_ID e" using fresh by (metis imageI)
    with old ok True show ?thesis by (simp add: outbox_ok_def i(3))
  next
    case False
    with that have "r = new_outbox_row lib now e" by (simp add: i(3))
    with i(1,2) new show ?thesis by (simp add: i(3))
  qed
  moreover have "store_ok s'" using sok run by (rule AppendEvent_store_ok)
  ultimately show ?thesis by (simp add: outbox_ok_def)
qed

lemma delivery_update_ok:
  assumes "outbox_ok s" and "sql_update delivery_check p f (st_outbox_deliveries s) = Inr (n, rows)"
    and id: "\<And>d. dl_id (f d) = dl_id d" and ev: "\<And>d. dl_event_id (f d) = dl_event_id d"
    and co: "\<And>d. dl_consumer_owner (f d) = dl_consumer_owner d"
  shows "outbox_ok (s\<lparr>st_outbox_deliveries := rows\<rparr>)"
proof -
  note R = sql_update_InrD(2) [OF assms(2)]
  have pairs: "map (\<lambda>d. (dl_event_id d, dl_consumer_owner d)) rows =
      map (\<lambda>d. (dl_event_id d, dl_consumer_owner d)) (st_outbox_deliveries s)"
    unfolding R by (rule map_update_rows) (simp add: ev co)
  have ids: "map dl_id rows = map dl_id (st_outbox_deliveries s)"
    unfolding R by (rule map_update_rows) (rule id)
  have chk: "\<forall>d \<in> set rows. delivery_check d"
    using assms(1) by (intro sql_update_all_checked [OF assms(2)])
      (simp add: outbox_ok_def store_ok_def deliveries_table_ok_def)
  have rows: "\<exists>d0 \<in> set (st_outbox_deliveries s). dl_id d = dl_id d0 \<and> dl_event_id d = dl_event_id d0 \<and>
      dl_consumer_owner d = dl_consumer_owner d0" if "d \<in> set rows" for d
    using that by (auto simp: R set_update_rows id ev co)
  have fk: "\<forall>d \<in> set rows. dl_event_id d \<in> ob_id ` set (st_outbox_events s)"
    using assms(1) rows by (metis outbox_ok_def store_ok_def deliveries_table_ok_def)
  have form: "\<forall>d \<in> set rows. dl_id d = deliveryID (dl_event_id d) (dl_consumer_owner d) \<and>
      dl_consumer_owner d \<in> set ownerSchemas"
    using assms(1) rows by (metis outbox_ok_def)
  show ?thesis using assms(1) pairs ids chk fk form
    by (simp add: outbox_ok_def store_ok_def deliveries_table_ok_def consumers_of_pairs)
qed

lemma AcknowledgeDelivery_outbox_ok [keeps]:
  assumes "outbox_ok s" and "AcknowledgeDelivery now c eid s = Inr s'"
  shows "outbox_ok s'"
  using assms
  by (auto simp: AcknowledgeDelivery_def Let_def split: if_splits sum.splits
      intro!: delivery_update_ok [OF assms(1)])

lemma RecordDeliveryFailure_outbox_ok [keeps]:
  assumes "outbox_ok s" and "RecordDeliveryFailure now did code at s = Inr s'"
  shows "outbox_ok s'"
  using assms
  by (auto simp: RecordDeliveryFailure_def Let_def split: if_splits sum.splits
      intro!: delivery_update_ok [OF assms(1)])

lemma ob_step_outbox_ok: "outbox_ok s \<Longrightarrow> outbox_ok (ob_step lib c s)"
  by (cases c) (auto split: sum.split dest: keeps)

lemma find_delivery_updated:
  assumes "sql_update delivery_check p f (st_outbox_deliveries s) = Inr (n, rows)"
    and "\<And>d. dl_id (f d) = dl_id d"
  shows "find_delivery (s\<lparr>st_outbox_deliveries := rows\<rparr>) k =
           map_option (\<lambda>d. if p d then f d else d) (find_delivery s k)"
  using sql_update_InrD(2) [OF assms(1)] assms(2) by (simp add: find_delivery_def find_update_rows)

lemma find_delivery_append:
  assumes "AppendEvent lib now e s = Inr s'" and "find_delivery s k = Some d"
  shows "find_delivery s' k = Some d"
  using assms(1) by (rule AppendEvent_InrD) (use assms(2) in \<open>simp add: find_delivery_def find_append\<close>)

lemma ob_step_acknowledged:
  assumes "find_delivery s k = Some d" and "dl_acknowledged_at d \<noteq> None"
  shows "find_delivery (ob_step lib c s) k = Some d"
proof (cases c)
  case (ObAppend now e)
  with assms(1) show ?thesis by (auto split: sum.split dest: find_delivery_append)
next
  case (ObAcknowledge now c' eid)
  with assms show ?thesis
    by (auto simp: AcknowledgeDelivery_def Let_def find_delivery_updated split: sum.split)
next
  case (ObFailure now did code at)
  with assms show ?thesis
    by (auto simp: RecordDeliveryFailure_def Let_def find_delivery_updated split: sum.split)
qed

interpretation deliveries: final_store "ob_step lib" find_delivery
  "\<lambda>d. dl_acknowledged_at d \<noteq> None" outbox_ok
  by unfold_locales (auto intro: ob_step_outbox_ok ob_step_acknowledged)

section \<open>Properties\<close>

text \<open>
  C12: The Outbox fans every event out to exactly the subscribed consumers. From any database that
  satisfies the Outbox invariant, in particular a fresh one, no sequence of appends,
  acknowledgements and failures breaks it: each recorded event belongs to this owner by contract
  and has a delivery row for each consumer the contract names and for no other.
\<close>

theorem outbox_fanout_invariant:
  assumes "outbox_ok s" and "r \<in> set (st_outbox_events (fold (ob_step lib) cs s))"
  shows "\<exists>i. LookupEventIdentity (ob_event_type r) (ob_schema_version r) = Some i \<and>
           ei_Owner i = st_schema (fold (ob_step lib) cs s) \<and>
           consumers_of (fold (ob_step lib) cs s) (ob_id r) = set (ei_Consumers i)"
  using deliveries.inv_fold [OF assms(1), of lib cs] assms(2) by (simp add: outbox_ok_def)

definition sample_lib :: golib where
  "sample_lib =
     \<lparr>lib_sha256 = (\<lambda>b. replicate 63 CHR ''0'' @ [if length b = 3 then CHR ''1'' else CHR ''2'']),
      lib_json = (\<lambda>b. Some (JObj [(''policyVersionId'', JStr ''price_1'')])),
      lib_marshal = (\<lambda>j. []), lib_parse_time = (\<lambda>s. None), lib_time_text = (\<lambda>t. []),
      lib_cursor_encode = snd, lib_cursor_decode = (\<lambda>s. None), lib_url_parse = (\<lambda>s. None)\<rparr>"

definition sample_event :: event where
  "sample_event =
     \<lparr>e_ID = ''evt_1'', e_EventType = ''catalog.policy_changed.v1'', e_SchemaVersion = 1,
      e_AggregateType = ''price_policy_version'', e_AggregateID = ''price_1'',
      e_AggregateRevision = 1, e_TenantID = [], e_CorrelationID = ''req_1'', e_CausationID = [],
      e_Payload = ''{}'', e_OccurredAt = 7\<rparr>"

lemma outbox_ok_empty [simp]: "outbox_ok (empty_store schema)"
  by (simp add: outbox_ok_def) (simp add: empty_store_def)

definition sample_outbox :: owner_store where
  "sample_outbox = fold (ob_step sample_lib) [ObAppend 8 sample_event] (empty_store ''resource_catalog'')"

theorem outbox_fanout_invariant_witness:
  "\<exists>r. st_outbox_events sample_outbox = [r] \<and> consumers_of sample_outbox ''evt_1'' =
     {''ledger'', ''workspace''}"
proof -
  have rows: "map ob_id (st_outbox_events sample_outbox) = [''evt_1'']"
    "map ob_event_type (st_outbox_events sample_outbox) = [''catalog.policy_changed.v1'']"
    "map ob_schema_version (st_outbox_events sample_outbox) = [1]"
    by code_simp+
  then obtain r where r: "st_outbox_events sample_outbox = [r]" "ob_id r = ''evt_1''"
    "ob_event_type r = ''catalog.policy_changed.v1''" "ob_schema_version r = 1"
    by auto
  have "map_option ei_Consumers (LookupEventIdentity ''catalog.policy_changed.v1'' 1) =
      Some [''ledger'', ''workspace'']"
    by code_simp
  then have c: "i = the (LookupEventIdentity ''catalog.policy_changed.v1'' 1) \<Longrightarrow>
      ei_Consumers i = [''ledger'', ''workspace'']" for i
    by (cases "LookupEventIdentity ''catalog.policy_changed.v1'' 1") auto
  from outbox_fanout_invariant [of "empty_store ''resource_catalog''" r sample_lib
      "[ObAppend 8 sample_event]"] r c
  show ?thesis by (fastforce simp: sample_outbox_def [symmetric] simp del: fold.simps)
qed



text \<open>
  An acknowledgement is final. Once a delivery is acknowledged, no later append, acknowledgement
  or failure record changes its row, so a late failure report never revives a delivered event.
\<close>

theorem acknowledged_delivery_immutable:
  assumes "outbox_ok s" and "find_delivery s k = Some d" and "dl_acknowledged_at d \<noteq> None"
  shows "find_delivery (fold (ob_step lib) cs s) k = Some d"
  using assms by (rule deliveries.final_fold)

definition sample_acked :: owner_store where
  "sample_acked = fold (ob_step sample_lib)
     [ObAppend 8 sample_event, ObAcknowledge 9 ''ledger'' ''evt_1''] (empty_store ''resource_catalog'')"

theorem acknowledged_delivery_immutable_witness:
  "map_option dl_attempt_count (find_delivery (fold (ob_step sample_lib)
      [ObFailure 10 ''dlv_evt_1_ledger'' ''late'' 11] sample_acked) ''dlv_evt_1_ledger'') = Some 0"
proof -
  have ok: "outbox_ok sample_acked"
    unfolding sample_acked_def by (rule deliveries.inv_fold) simp
  have f: "map_option (\<lambda>d. (dl_acknowledged_at d, dl_attempt_count d))
      (find_delivery sample_acked ''dlv_evt_1_ledger'') = Some (Some 9, 0)"
    by code_simp
  then obtain d where d: "find_delivery sample_acked ''dlv_evt_1_ledger'' = Some d"
    "dl_acknowledged_at d \<noteq> None" "dl_attempt_count d = 0" by auto
  show ?thesis
    by (simp only: acknowledged_delivery_immutable [OF ok d(1,2)] option.map d(3))
qed

end
