(* ===== verification/Owner_Inbox.thy ===== *)
theory Owner_Inbox
  imports Owner_Outbox
begin

text \<open>
  The deduplicating Inbox (\<open>services/internal/ownerstore/inbox.go\<close>): an inbound event is validated
  against the contract, recorded once per (source owner, source event), answered with
  \<open>duplicate\<close> or \<open>conflict\<close> afterwards, and marked processed with its outcome.
\<close>

datatype InboxDecision = InboxCommit | InboxDuplicate | InboxConflict

record RecordedIdentity =
  ri_EventType :: string
  ri_SchemaVersion :: int
  ri_AggregateType :: string
  ri_AggregateID :: string
  ri_AggregateRevision :: int
  ri_PayloadSHA256 :: string

record InboundEvent =
  in_ID :: string
  in_SourceOwner :: string
  in_SourceEventID :: string
  in_EventType :: string
  in_SchemaVersion :: int
  in_AggregateType :: string
  in_AggregateID :: string
  in_AggregateRevision :: int
  in_Payload :: string

record InboxResult =
  ir_Decision :: InboxDecision
  ir_Applied :: bool
  ir_Reason :: string

section \<open>Deciding\<close>

definition PayloadSHA256 :: "golib \<Rightarrow> InboundEvent \<Rightarrow> string" where
  "PayloadSHA256 lib e = lib_sha256 lib (in_Payload e)"

definition IdentityOf :: "golib \<Rightarrow> InboundEvent \<Rightarrow> RecordedIdentity" where
  "IdentityOf lib e =
     \<lparr>ri_EventType = in_EventType e, ri_SchemaVersion = in_SchemaVersion e,
      ri_AggregateType = in_AggregateType e, ri_AggregateID = in_AggregateID e,
      ri_AggregateRevision = in_AggregateRevision e, ri_PayloadSHA256 = PayloadSHA256 lib e\<rparr>"

definition DecideInbox :: "RecordedIdentity option \<Rightarrow> RecordedIdentity \<Rightarrow> InboxDecision" where
  \<comment> \<open>\<open>existing\<close> and \<open>found\<close> as one option\<close>
  "DecideInbox existing incoming =
     (case existing of
        None \<Rightarrow> InboxCommit
      | Some old \<Rightarrow> if old = incoming then InboxDuplicate else InboxConflict)"

definition validate_inbound :: "golib \<Rightarrow> string \<Rightarrow> InboundEvent \<Rightarrow> store_error option" where
  "validate_inbound lib consumer e =
     (if trim_space (in_ID e) = [] then Some (ErrInvalidInboxEvent ''id is required'')
      else if trim_space (in_SourceOwner e) = []
        then Some (ErrInvalidInboxEvent ''source owner is required'')
      else if trim_space (in_SourceEventID e) = []
        then Some (ErrInvalidInboxEvent ''source event id is required'')
      else if trim_space (in_EventType e) = []
        then Some (ErrInvalidInboxEvent ''event type is required'')
      else if in_SchemaVersion e \<le> 0
        then Some (ErrInvalidInboxEvent ''schema version must be positive'')
      else if in_AggregateRevision e \<le> 0
        then Some (ErrInvalidInboxEvent ''aggregate revision must be positive'')
      else if in_Payload e = [] then Some (ErrInvalidInboxEvent ''payload is required'')
      else case LookupEventIdentity (in_EventType e) (in_SchemaVersion e) of
        None \<Rightarrow> Some (ErrInvalidInboxEvent ''not a specified event version'')
      | Some identity \<Rightarrow>
          if ei_Owner identity \<noteq> in_SourceOwner e
          then Some (ErrInvalidInboxEvent ''produced by another owner'')
          else if \<not> Subscribed identity consumer
          then Some (ErrInvalidInboxEvent ''this owner is not subscribed'')
          else ValidateAggregateIdentity lib (in_EventType e) (in_SchemaVersion e)
                 (in_AggregateType e) (in_AggregateID e) (in_Payload e))"

section \<open>Statements\<close>

definition recorded_identity :: "inbox_row \<Rightarrow> RecordedIdentity" where
  "recorded_identity r =
     \<lparr>ri_EventType = ib_event_type r, ri_SchemaVersion = ib_schema_version r,
      ri_AggregateType = ib_aggregate_type r, ri_AggregateID = ib_aggregate_id r,
      ri_AggregateRevision = ib_aggregate_revision r, ri_PayloadSHA256 = ib_payload_sha256 r\<rparr>"

definition find_inbox :: "owner_store \<Rightarrow> string \<times> string \<Rightarrow> inbox_row option" where
  "find_inbox s k = List.find (\<lambda>r. inbox_key r = k) (st_inbox_events s)"

definition event_key :: "InboundEvent \<Rightarrow> string \<times> string" where
  "event_key e = (in_SourceOwner e, in_SourceEventID e)"

definition ReadCommittedInbox ::
  "golib \<Rightarrow> InboundEvent \<Rightarrow> owner_store \<Rightarrow> store_error + InboxDecision" where
  "ReadCommittedInbox lib e s =
     (case validate_inbound lib (st_schema s) e of
        Some err \<Rightarrow> Inl err
      | None \<Rightarrow>
          (case List.find (\<lambda>r. inbox_key r = event_key e \<and> ib_processed_at r \<noteq> None)
                  (st_inbox_events s) of
             None \<Rightarrow> Inr InboxCommit
           | Some r \<Rightarrow> Inr (DecideInbox (Some (recorded_identity r)) (IdentityOf lib e))))"

definition new_inbox_row :: "golib \<Rightarrow> InboundEvent \<Rightarrow> time \<Rightarrow> inbox_row" where
  "new_inbox_row lib e receivedAt =
     \<lparr>ib_id = in_ID e, ib_source_owner = in_SourceOwner e, ib_source_event_id = in_SourceEventID e,
      ib_event_type = in_EventType e, ib_schema_version = in_SchemaVersion e,
      ib_aggregate_type = in_AggregateType e, ib_aggregate_id = in_AggregateID e,
      ib_aggregate_revision = in_AggregateRevision e, ib_payload_sha256 = PayloadSHA256 lib e,
      ib_payload = in_Payload e, ib_received_at = receivedAt, ib_processed_at = None,
      ib_result_resource_id = None, ib_error_code = None\<rparr>"

definition DeliverInbox ::
  "golib \<Rightarrow> time \<Rightarrow> InboundEvent \<Rightarrow> time \<Rightarrow> owner_store \<Rightarrow> store_error + (InboxResult \<times> owner_store)"
where
  "DeliverInbox lib now e receivedAt s =
     (case validate_inbound lib (st_schema s) e of
        Some err \<Rightarrow> Inl err
      | None \<Rightarrow>
          (let receivedAt = (if is_zero receivedAt then now else receivedAt);
               existing = map_option recorded_identity (find_inbox s (event_key e)) in
           case DecideInbox existing (IdentityOf lib e) of
             InboxDuplicate \<Rightarrow>
               Inr (\<lparr>ir_Decision = InboxDuplicate, ir_Applied = False,
                     ir_Reason = ''already applied''\<rparr>, s)
           | InboxConflict \<Rightarrow>
               Inr (\<lparr>ir_Decision = InboxConflict, ir_Applied = False, ir_Reason =
                     ''source owner and event id already recorded with a different immutable identity or payload''\<rparr>, s)
           | InboxCommit \<Rightarrow>
               (case sql_insert inbox_check inbox_clash (new_inbox_row lib e receivedAt)
                       (st_inbox_events s) of
                  Inl err \<Rightarrow> Inl (ErrDatabase err)
                | Inr rows \<Rightarrow>
                    Inr (\<lparr>ir_Decision = InboxCommit, ir_Applied = True, ir_Reason = []\<rparr>,
                         s\<lparr>st_inbox_events := rows\<rparr>))))"

definition MarkInboxProcessed ::
  "time \<Rightarrow> string \<Rightarrow> string \<Rightarrow> string \<Rightarrow> string \<Rightarrow> time \<Rightarrow> owner_store \<Rightarrow> store_error + owner_store"
where
  "MarkInboxProcessed now sourceOwner sourceEventID resultResourceID errorCode processedAt s =
     (let processedAt = (if is_zero processedAt then now else processedAt) in
      case sql_update inbox_check
          (\<lambda>r. ib_source_owner r = sourceOwner \<and> ib_source_event_id r = sourceEventID \<and>
               ib_processed_at r = None)
          (\<lambda>r. r\<lparr>ib_processed_at := Some processedAt,
                 ib_result_resource_id := null_if_blank resultResourceID,
                 ib_error_code := null_if_blank errorCode\<rparr>)
          (st_inbox_events s) of
        Inl err \<Rightarrow> Inl (ErrDatabase err)
      | Inr (n, rows) \<Rightarrow> Inr (s\<lparr>st_inbox_events := rows\<rparr>))"

definition LatestAggregateRevision :: "string \<Rightarrow> string \<Rightarrow> owner_store \<Rightarrow> int" where
  \<comment> \<open>\<open>COALESCE(MAX(aggregate_revision), 0)\<close>\<close>
  "LatestAggregateRevision aggregateType aggregateID s =
     (case map ib_aggregate_revision
             (filter (\<lambda>r. ib_aggregate_type r = aggregateType \<and> ib_aggregate_id r = aggregateID)
                (st_inbox_events s)) of
        [] \<Rightarrow> 0
      | v # vs \<Rightarrow> fold max vs v)"

text \<open>The Inbox as a machine: a failed statement is rolled back.\<close>

datatype ib_command =
    IbDeliver time InboundEvent time
  | IbMark time string string string string time

fun ib_step :: "golib \<Rightarrow> ib_command \<Rightarrow> owner_store \<Rightarrow> owner_store" where
  "ib_step lib (IbDeliver now e at) s =
     (case DeliverInbox lib now e at s of Inl _ \<Rightarrow> s | Inr (_, s') \<Rightarrow> s')"
| "ib_step lib (IbMark now own eid res code at) s =
     (case MarkInboxProcessed now own eid res code at s of Inl _ \<Rightarrow> s | Inr s' \<Rightarrow> s')"

section \<open>Lemmas\<close>

lemma new_inbox_row_simps [simp]:
  "ib_id (new_inbox_row lib e t) = in_ID e"
  "inbox_key (new_inbox_row lib e t) = event_key e"
  "ib_processed_at (new_inbox_row lib e t) = None"
  "ib_aggregate_revision (new_inbox_row lib e t) = in_AggregateRevision e"
  "recorded_identity (new_inbox_row lib e t) = IdentityOf lib e"
  by (simp_all add: new_inbox_row_def inbox_key_def event_key_def recorded_identity_def IdentityOf_def)

lemma DeliverInbox_cases:
  assumes "DeliverInbox lib now e at s = Inr (res, s')"
  obtains (commit) t where "find_inbox s (event_key e) = None" "ir_Decision res = InboxCommit"
      "ir_Applied res" "inbox_check (new_inbox_row lib e t)"
      "\<forall>r \<in> set (st_inbox_events s). \<not> inbox_clash (new_inbox_row lib e t) r"
      "s' = s\<lparr>st_inbox_events := st_inbox_events s @ [new_inbox_row lib e t]\<rparr>"
  | (known) r where "find_inbox s (event_key e) = Some r" "s' = s" "\<not> ir_Applied res"
      "ir_Decision res = DecideInbox (Some (recorded_identity r)) (IdentityOf lib e)"
proof (cases "find_inbox s (event_key e)")
  case None
  with assms show ?thesis
    by (auto simp: DeliverInbox_def DecideInbox_def Let_def sql_insert_def list_ex_iff
        split: option.splits if_splits intro!: commit)
next
  case (Some r)
  with assms show ?thesis
    by (intro known [OF Some])
       (auto simp: DeliverInbox_def DecideInbox_def Let_def split: option.splits if_splits)
qed

lemma DeliverInbox_known:
  assumes "validate_inbound lib (st_schema s) e = None" and "find_inbox s (event_key e) = Some r"
  shows "\<exists>res. DeliverInbox lib now e at s = Inr (res, s) \<and> \<not> ir_Applied res \<and>
           ir_Decision res = DecideInbox (Some (recorded_identity r)) (IdentityOf lib e)"
  using assms by (auto simp: DeliverInbox_def DecideInbox_def Let_def)

lemma MarkInboxProcessed_InrD:
  assumes "MarkInboxProcessed now own eid res code at s = Inr s'"
  obtains p f n rows where "sql_update inbox_check p f (st_inbox_events s) = Inr (n, rows)"
    "s' = s\<lparr>st_inbox_events := rows\<rparr>" "\<And>r. inbox_key (f r) = inbox_key r" "\<And>r. ib_id (f r) = ib_id r"
    "\<And>r. recorded_identity (f r) = recorded_identity r" "\<And>r. p r \<Longrightarrow> ib_processed_at r = None"
  using assms
  by (auto simp: MarkInboxProcessed_def Let_def inbox_key_def recorded_identity_def
      split: sum.splits prod.splits intro!: that)

lemma DeliverInbox_store_ok [keeps]:
  assumes "store_ok s" and "DeliverInbox lib now e at s = Inr (res, s')"
  shows "store_ok s'"
  using assms(2)
proof (cases rule: DeliverInbox_cases)
  case (commit t)
  then have "inbox_table_ok (st_inbox_events s')"
    using assms(1) by (auto simp: store_ok_def inbox_table_ok_def inbox_clash_def)
  with commit(6) assms(1) show ?thesis by (simp add: store_ok_def)
qed (use assms(1) in simp)

lemma MarkInboxProcessed_store_ok [keeps]:
  assumes "store_ok s" and "MarkInboxProcessed now own eid res code at s = Inr s'"
  shows "store_ok s'"
  using assms(2)
proof (rule MarkInboxProcessed_InrD)
  fix p f n rows
  assume u: "sql_update inbox_check p f (st_inbox_events s) = Inr (n, rows)"
    and s': "s' = s\<lparr>st_inbox_events := rows\<rparr>"
    and k: "\<And>r. inbox_key (f r) = inbox_key r" "\<And>r. ib_id (f r) = ib_id r"
  have "inbox_table_ok rows"
    using assms(1) sql_update_all_checked [OF u] sql_update_InrD(2) [OF u] k
    by (simp add: store_ok_def inbox_table_ok_def map_update_rows)
  with s' assms(1) show ?thesis by (simp add: store_ok_def)
qed

lemma ib_step_store_ok: "store_ok s \<Longrightarrow> store_ok (ib_step lib c s)"
  by (cases c) (auto split: sum.split dest: keeps)

lemma find_inbox_mark:
  assumes "sql_update inbox_check p f (st_inbox_events s) = Inr (n, rows)"
    and "\<And>r. inbox_key (f r) = inbox_key r"
  shows "find_inbox (s\<lparr>st_inbox_events := rows\<rparr>) k =
           map_option (\<lambda>r. if p r then f r else r) (find_inbox s k)"
  using sql_update_InrD(2) [OF assms(1)] assms(2) by (simp add: find_inbox_def find_update_rows)

lemma ib_step_schema [simp]: "st_schema (ib_step lib c s) = st_schema s"
  by (cases c) (auto split: sum.split elim: DeliverInbox_cases MarkInboxProcessed_InrD)

lemma fold_ib_step_schema [simp]: "st_schema (fold (ib_step lib) cs s) = st_schema s"
  by (induction cs arbitrary: s) auto

lemma ib_step_identity:
  assumes "find_inbox s k = Some r"
  shows "\<exists>r'. find_inbox (ib_step lib c s) k = Some r' \<and> recorded_identity r' = recorded_identity r \<and>
           (ib_processed_at r \<noteq> None \<longrightarrow> r' = r)"
proof (cases c)
  case (IbDeliver now e at)
  with assms show ?thesis
    by (auto split: sum.split elim!: DeliverInbox_cases simp: find_inbox_def find_append)
next
  case (IbMark now own eid res code at)
  show ?thesis
  proof (cases "MarkInboxProcessed now own eid res code at s")
    case (Inr s')
    then show ?thesis
      by (rule MarkInboxProcessed_InrD) (use IbMark assms Inr in \<open>auto simp: find_inbox_mark\<close>)
  qed (use IbMark assms in simp)
qed

lemma fold_ib_step_identity:
  "find_inbox s k = Some r \<Longrightarrow>
     \<exists>r'. find_inbox (fold (ib_step lib) cs s) k = Some r' \<and> recorded_identity r' = recorded_identity r"
proof (induction cs arbitrary: s r)
  case (Cons c cs)
  then show ?case using ib_step_identity [OF Cons.prems, of lib c] by fastforce
qed simp

interpretation inbox: final_store "ib_step lib" find_inbox "\<lambda>r. ib_processed_at r \<noteq> None" store_ok
  by unfold_locales (auto intro: ib_step_store_ok dest: ib_step_identity)

lemma fold_max_ge: "(v::int) \<le> fold max vs v \<and> (\<forall>x \<in> set vs. x \<le> fold max vs v)"
  by (induction vs arbitrary: v) (auto, (meson max.boundedE)+)

lemma fold_max_in: "fold max vs (v::int) \<in> insert v (set vs)"
proof (induction vs arbitrary: v)
  case (Cons a vs)
  then show ?case using Cons.IH [of "max a v"] by (auto simp: max_def split: if_splits)
qed simp

lemma LatestAggregateRevision_ge:
  assumes "r \<in> set (st_inbox_events s)"
  shows "ib_aggregate_revision r \<le> LatestAggregateRevision (ib_aggregate_type r) (ib_aggregate_id r) s"
proof -
  have "ib_aggregate_revision r \<in> set (map ib_aggregate_revision
      (filter (\<lambda>r'. ib_aggregate_type r' = ib_aggregate_type r \<and> ib_aggregate_id r' = ib_aggregate_id r)
        (st_inbox_events s)))"
    using assms by auto
  moreover have "x \<le> (case vs of [] \<Rightarrow> 0 | v # vs \<Rightarrow> fold max vs v)" if "x \<in> set vs" for x :: int and vs
    using that fold_max_ge by (cases vs) auto
  ultimately show ?thesis unfolding LatestAggregateRevision_def by blast
qed

lemma LatestAggregateRevision_in:
  "LatestAggregateRevision t a s = 0 \<or>
     (\<exists>r \<in> set (st_inbox_events s). ib_aggregate_type r = t \<and> ib_aggregate_id r = a \<and>
        ib_aggregate_revision r = LatestAggregateRevision t a s)"
proof (cases "map ib_aggregate_revision (filter (\<lambda>r. ib_aggregate_type r = t \<and> ib_aggregate_id r = a)
          (st_inbox_events s))")
  case Nil
  then show ?thesis by (simp add: LatestAggregateRevision_def)
next
  case (Cons v vs)
  then have "LatestAggregateRevision t a s \<in> set (map ib_aggregate_revision
      (filter (\<lambda>r. ib_aggregate_type r = t \<and> ib_aggregate_id r = a) (st_inbox_events s)))"
    using fold_max_in [of vs v] by (simp add: LatestAggregateRevision_def)
  then show ?thesis by auto
qed

lemma LatestAggregateRevision_mono_step:
  "LatestAggregateRevision t a s \<le> LatestAggregateRevision t a (ib_step lib c s) \<or>
     \<not> store_ok s"
proof (cases "store_ok s \<and> LatestAggregateRevision t a s \<noteq> 0")
  case True
  then obtain r where r: "r \<in> set (st_inbox_events s)" "ib_aggregate_type r = t"
    "ib_aggregate_id r = a" "ib_aggregate_revision r = LatestAggregateRevision t a s"
    using LatestAggregateRevision_in by blast
  have "find_inbox s (inbox_key r) = Some r"
    unfolding find_inbox_def using True r(1) by (intro find_key_unique) (auto dest: store_okD)
  from ib_step_identity [OF this] obtain r' where
    "find_inbox (ib_step lib c s) (inbox_key r) = Some r'" "recorded_identity r' = recorded_identity r"
    by blast
  then have "r' \<in> set (st_inbox_events (ib_step lib c s))" "ib_aggregate_type r' = t"
    "ib_aggregate_id r' = a" "ib_aggregate_revision r' = LatestAggregateRevision t a s"
    using r(2-4) by (auto simp: find_inbox_def recorded_identity_def dest: find_SomeD)
  then show ?thesis using LatestAggregateRevision_ge by metis
next
  case False
  have "0 \<le> LatestAggregateRevision t a (ib_step lib c s)" if "store_ok s"
    using LatestAggregateRevision_in [of t a "ib_step lib c s"] ib_step_store_ok [OF that, of lib c]
    by (auto simp: store_ok_def inbox_table_ok_def inbox_check_def)
  with False show ?thesis by auto
qed

lemma LatestAggregateRevision_mono:
  "store_ok s \<Longrightarrow> LatestAggregateRevision t a s \<le> LatestAggregateRevision t a (fold (ib_step lib) cs s)"
proof (induction cs arbitrary: s)
  case (Cons c cs)
  then show ?case
    using Cons.IH [OF ib_step_store_ok [OF Cons.prems, of lib c]]
      LatestAggregateRevision_mono_step [of t a s lib c] by simp
qed simp

section \<open>Properties\<close>

definition sample_inbound :: InboundEvent where
  "sample_inbound =
     \<lparr>in_ID = ''inb_1'', in_SourceOwner = ''resource_catalog'', in_SourceEventID = ''evt_1'',
      in_EventType = ''catalog.policy_changed.v1'', in_SchemaVersion = 1,
      in_AggregateType = ''price_policy_version'', in_AggregateID = ''price_1'',
      in_AggregateRevision = 4, in_Payload = ''{}''\<rparr>"

definition sample_inbox :: owner_store where
  "sample_inbox = ib_step sample_lib (IbDeliver 5 sample_inbound 6) (empty_store ''ledger'')"

text \<open>
  C10: An inbound event is applied exactly once. When DeliverInbox has told the consumer to apply an
  event, then after any later deliveries and processing marks every further delivery of the same
  (source owner, source event) leaves the database as it is and is not applied: it is a duplicate
  when its type, version, aggregate, revision and payload hash are the recorded ones and a conflict
  otherwise.
\<close>

theorem inbox_applies_once:
  assumes "DeliverInbox lib now e at s = Inr (res, s1)" and "ir_Applied res"
    and "event_key e' = event_key e" and "validate_inbound lib (st_schema s) e' = None"
  shows "\<exists>res'. DeliverInbox lib now' e' at' (fold (ib_step lib) cs s1) =
             Inr (res', fold (ib_step lib) cs s1) \<and> \<not> ir_Applied res' \<and>
             ir_Decision res' =
               (if IdentityOf lib e' = IdentityOf lib e then InboxDuplicate else InboxConflict)"
  using assms(1)
proof (cases rule: DeliverInbox_cases)
  case (commit t)
  then have "find_inbox s1 (event_key e) = Some (new_inbox_row lib e t)"
    by (simp add: find_inbox_def find_append)
  from fold_ib_step_identity [OF this] obtain r where
    "find_inbox (fold (ib_step lib) cs s1) (event_key e') = Some r"
    "recorded_identity r = IdentityOf lib e"
    using assms(3) by auto
  then show ?thesis
    using DeliverInbox_known [of lib "fold (ib_step lib) cs s1" e' r now' at'] assms(4) commit(6)
    by (auto simp: DecideInbox_def)
qed (use assms(2) in simp)

theorem inbox_applies_once_witness:
  "\<exists>res. DeliverInbox sample_lib 7 sample_inbound 8 sample_inbox = Inr (res, sample_inbox) \<and>
     ir_Decision res = InboxDuplicate"
proof -
  have r: "case DeliverInbox sample_lib 5 sample_inbound 6 (empty_store ''ledger'') of
      Inl _ \<Rightarrow> False | Inr (res, s1) \<Rightarrow> ir_Applied res \<and> s1 = sample_inbox" by code_simp
  then obtain res where res: "DeliverInbox sample_lib 5 sample_inbound 6 (empty_store ''ledger'') =
      Inr (res, sample_inbox)" "ir_Applied res" by (auto split: sum.splits)
  have v: "validate_inbound sample_lib (st_schema (empty_store ''ledger'')) sample_inbound = None"
    by code_simp
  from inbox_applies_once [OF res refl v, of 7 8 "[]"] show ?thesis by auto
qed

text \<open>
  C16: The lock-free pre-check is sound. If ReadCommittedInbox reports a duplicate or a conflict, the
  DeliverInbox that the business transaction runs after any further Inbox activity gives the same
  decision and changes nothing.
\<close>

theorem committed_readback_sound:
  assumes "store_ok s" and "ReadCommittedInbox lib e s = Inr d" and "d \<noteq> InboxCommit"
  shows "\<exists>res. DeliverInbox lib now e at (fold (ib_step lib) cs s) =
             Inr (res, fold (ib_step lib) cs s) \<and> ir_Decision res = d \<and> \<not> ir_Applied res"
proof -
  have v: "validate_inbound lib (st_schema s) e = None"
    using assms(2) by (auto simp: ReadCommittedInbox_def split: option.splits)
  then obtain r where r: "r \<in> set (st_inbox_events s)" "inbox_key r = event_key e"
    "d = DecideInbox (Some (recorded_identity r)) (IdentityOf lib e)"
    using assms(2,3) by (auto simp: ReadCommittedInbox_def split: option.splits dest!: find_SomeD)
  have "find_inbox s (event_key e) = Some r"
    unfolding find_inbox_def r(2) [symmetric]
    using assms(1) r(1) by (intro find_key_unique) (auto dest: store_okD)
  from fold_ib_step_identity [OF this, of lib cs] show ?thesis
    using DeliverInbox_known [of lib "fold (ib_step lib) cs s" e] v r(3) by fastforce
qed

definition sample_processed :: owner_store where
  "sample_processed = fold (ib_step sample_lib)
     [IbDeliver 5 sample_inbound 6, IbMark 7 ''resource_catalog'' ''evt_1'' ''price_1'' [] 0]
     (empty_store ''ledger'')"

lemma sample_processed_ok: "store_ok sample_processed"
  unfolding sample_processed_def by (rule inbox.inv_fold) simp

theorem committed_readback_sound_witness:
  "\<exists>res. DeliverInbox sample_lib 9 (sample_inbound\<lparr>in_Payload := ''[1]''\<rparr>) 9 sample_processed =
     Inr (res, sample_processed) \<and> ir_Decision res = InboxConflict"
proof -
  have "ReadCommittedInbox sample_lib (sample_inbound\<lparr>in_Payload := ''[1]''\<rparr>) sample_processed =
      Inr InboxConflict" by code_simp
  from committed_readback_sound [OF sample_processed_ok this, of 9 9 "[]"] show ?thesis by auto
qed

text \<open>
  A processing outcome is final: once an inbound event has a processing time, no later delivery
  or mark changes its row.
\<close>

theorem processed_inbox_immutable:
  assumes "store_ok s" and "find_inbox s k = Some r" and "ib_processed_at r \<noteq> None"
  shows "find_inbox (fold (ib_step lib) cs s) k = Some r"
  using assms by (rule inbox.final_fold)

theorem processed_inbox_immutable_witness:
  "map_option ib_error_code (find_inbox (fold (ib_step sample_lib)
      [IbMark 9 ''resource_catalog'' ''evt_1'' [] ''late'' 0] sample_processed)
      (''resource_catalog'', ''evt_1'')) = Some None"
proof -
  have "map_option (\<lambda>r. (ib_processed_at r, ib_error_code r))
      (find_inbox sample_processed (''resource_catalog'', ''evt_1'')) = Some (Some 7, None)"
    by code_simp
  then obtain r where r: "find_inbox sample_processed (''resource_catalog'', ''evt_1'') = Some r"
    "ib_processed_at r \<noteq> None" "ib_error_code r = None" by auto
  show ?thesis
    by (simp only: processed_inbox_immutable [OF sample_processed_ok r(1,2)] option.map r(3))
qed



text \<open>
  The revision that guards a projection against stale events is the greatest recorded one of the
  aggregate: it bounds every recorded event, it is 0 or one of them, and no Inbox activity lowers it.
\<close>

theorem latest_revision_monotone:
  assumes "store_ok s"
  shows "(\<forall>r \<in> set (st_inbox_events s). ib_aggregate_type r = t \<and> ib_aggregate_id r = a \<longrightarrow>
            ib_aggregate_revision r \<le> LatestAggregateRevision t a s) \<and>
         (LatestAggregateRevision t a s = 0 \<or> (\<exists>r \<in> set (st_inbox_events s).
            ib_aggregate_type r = t \<and> ib_aggregate_id r = a \<and>
            ib_aggregate_revision r = LatestAggregateRevision t a s)) \<and>
         LatestAggregateRevision t a s \<le> LatestAggregateRevision t a (fold (ib_step lib) cs s)"
proof (intro conjI ballI impI)
  fix r assume "r \<in> set (st_inbox_events s)" "ib_aggregate_type r = t \<and> ib_aggregate_id r = a"
  then show "ib_aggregate_revision r \<le> LatestAggregateRevision t a s"
    using LatestAggregateRevision_ge by blast
qed (rule LatestAggregateRevision_in LatestAggregateRevision_mono [OF assms])+

theorem latest_revision_monotone_witness:
  "4 \<le> LatestAggregateRevision ''price_policy_version'' ''price_1'' (fold (ib_step sample_lib)
     [IbDeliver 9 (sample_inbound\<lparr>in_ID := ''inb_2'', in_SourceEventID := ''evt_2'',
        in_AggregateRevision := 3\<rparr>) 9] sample_processed)"
proof -
  have "LatestAggregateRevision ''price_policy_version'' ''price_1'' sample_processed = 4" by code_simp
  then show ?thesis
    using latest_revision_monotone [OF sample_processed_ok, THEN conjunct2, THEN conjunct2,
      of "''price_policy_version''" "''price_1''" sample_lib "[IbDeliver 9 (sample_inbound\<lparr>in_ID := ''inb_2'', in_SourceEventID := ''evt_2'',
        in_AggregateRevision := 3\<rparr>) 9]"]
    by (simp only:)
qed

end
