(* ===== verification/Ledger_Types.thy ===== *)
theory Ledger_Types
  imports Go_Json
begin

text \<open>
  The data of the Ledger (\<open>services/ledger/internal/ledger/types.go\<close>, \<open>evidence_index.go\<close>): errors,
  receipts and their retention, queries, pages and cursors, reconciliation results, and the
  normalisation of queries. A nil Go map is \<open>None\<close>; indexing it finds nothing.
\<close>

datatype ledger_error =
    ErrLedgerIdempotencyConflict
  | ErrReceiptNotFound
  | ErrInvalidReceiptInput
  | ErrInvalidReceiptQuery
  | ErrInvalidReceiptRetentionInput
  | ErrReceiptRetentionShortening
  | ErrReceiptRetentionActive
  | ErrReceiptLegalHold
  | ErrInvalidReconciliationInput
  | ErrInvalidEvidenceIndexInput
  | ErrInvalidEvidenceIndexQuery
  | ErrEvidenceIndexExportTooLarge
  | PanicTypeAssertion

section \<open>Receipts\<close>

record ReceiptInput =
  r_Type :: string
  r_Status :: string
  r_Surface :: string
  r_AccountID :: string
  r_OrganizationID :: string
  r_WorkspaceID :: string
  r_ProjectID :: string
  r_TaskID :: string
  r_RequestID :: string
  r_ApprovalID :: string
  r_JobID :: string
  r_ArtifactID :: string
  r_ReviewID :: string
  r_ContinuationID :: string
  r_Actor :: "gomap option"
  r_Plan :: "gomap option"
  r_Execution :: "gomap option"
  r_Environment :: "gomap option"
  r_InputRefs :: "gomap option"
  r_OutputRefs :: "gomap option"
  r_ReviewerChecks :: "gomap option"
  r_Cost :: "gomap option"
  r_Owner :: "gomap option"
  r_Continuation :: "gomap option"
  r_SupersedesReceiptID :: string
  r_IdempotencyKey :: string

definition ents :: "gomap option \<Rightarrow> gomap" where
  "ents m = (case m of None \<Rightarrow> [] | Some kvs \<Rightarrow> kvs)"

definition glen :: "gomap option \<Rightarrow> nat" where
  "glen m = map_len (ents m)"

definition map_json :: "gomap option \<Rightarrow> json" where
  "map_json m = (case m of None \<Rightarrow> JNull | Some kvs \<Rightarrow> json_canon (JObj kvs))"

definition receipt_input_json :: "ReceiptInput \<Rightarrow> json" where
  \<comment> \<open>\<open>json.Marshal\<close> of the struct: declaration order, \<open>accountId\<close> omitted when empty, no key\<close>
  "receipt_input_json i = JObj (
     [(''type'', JStr (r_Type i)), (''status'', JStr (r_Status i)), (''surface'', JStr (r_Surface i))] @
     (if r_AccountID i = [] then [] else [(''accountId'', JStr (r_AccountID i))]) @
     [(''organizationId'', JStr (r_OrganizationID i)), (''workspaceId'', JStr (r_WorkspaceID i)),
      (''projectId'', JStr (r_ProjectID i)), (''taskId'', JStr (r_TaskID i)),
      (''requestId'', JStr (r_RequestID i)), (''approvalId'', JStr (r_ApprovalID i)),
      (''jobId'', JStr (r_JobID i)), (''artifactId'', JStr (r_ArtifactID i)),
      (''reviewId'', JStr (r_ReviewID i)), (''continuationId'', JStr (r_ContinuationID i)),
      (''actor'', map_json (r_Actor i)), (''plan'', map_json (r_Plan i)),
      (''execution'', map_json (r_Execution i)), (''environment'', map_json (r_Environment i)),
      (''inputRefs'', map_json (r_InputRefs i)), (''outputRefs'', map_json (r_OutputRefs i)),
      (''reviewerChecks'', map_json (r_ReviewerChecks i)), (''cost'', map_json (r_Cost i)),
      (''owner'', map_json (r_Owner i)), (''continuation'', map_json (r_Continuation i)),
      (''supersedesReceiptId'', JStr (r_SupersedesReceiptID i))])"

record PrivacyRedactionEvidence =
  pr_AppliedAt :: time
  pr_Reason :: string
  pr_Eligible :: bool

record ReceiptRetention =
  rt_RetainUntil :: gotime
  rt_LegalHold :: bool
  rt_PrivacyRedaction :: "PrivacyRedactionEvidence option"

record ReceiptRetentionInput =
  ti_ReceiptID :: string
  ti_RetainUntil :: gotime
  ti_LegalHold :: bool
  ti_IdempotencyKey :: string

record ReceiptPrivacyDeleteInput =
  pi_ReceiptID :: string
  pi_Reason :: string
  pi_IdempotencyKey :: string

record ReceiptRetentionResult =
  tr_ReceiptID :: string
  tr_Retention :: ReceiptRetention
  tr_Replayed :: bool

record Receipt =
  rc_Input :: ReceiptInput
  rc_ReceiptID :: string
  rc_CreatedAt :: time
  rc_Retention :: ReceiptRetention
  rc_Replayed :: bool

definition no_retention :: ReceiptRetention where
  "no_retention = \<lparr>rt_RetainUntil = zero_time, rt_LegalHold = False, rt_PrivacyRedaction = None\<rparr>"

section \<open>Receipt queries\<close>

definition DefaultReceiptPageSize :: int where
  "DefaultReceiptPageSize = 50"

definition MaxReceiptPageSize :: int where
  "MaxReceiptPageSize = 100"

record ReceiptQuery =
  q_AccountID :: string
  q_OrganizationID :: string
  q_WorkspaceID :: string
  q_RequestID :: string
  q_ProjectID :: string
  q_TaskID :: string
  q_JobID :: string
  q_Type :: string
  q_TypePrefix :: string
  q_IncludeType :: string
  q_IncludeExecutionKind :: string
  q_Status :: string
  q_Cursor :: string
  q_Limit :: int

record ReceiptLookupScope =
  ls_AccountID :: string
  ls_WorkspaceID :: string
  ls_RequestID :: string
  ls_Type :: string
  ls_TypePrefix :: string
  ls_IncludeType :: string
  ls_IncludeExecutionKind :: string

record ReceiptPage =
  rp_Lookup :: "ReceiptLookupScope option"
  rp_Receipts :: "Receipt list"
  rp_NextCursor :: string
  rp_HasMore :: bool

type_synonym cursor = "gotime \<times> string"

definition zero_cursor :: cursor where
  "zero_cursor = (zero_time, [])"

definition decode_cursor :: "golib \<Rightarrow> string \<Rightarrow> cursor option" where
  \<comment> \<open>a decoded cursor must carry a time and an identifier\<close>
  "decode_cursor lib text =
     (case lib_cursor_decode lib text of
        None \<Rightarrow> None
      | Some (t, rid) \<Rightarrow> if is_zero (gt_inst t) \<or> rid = [] then None else Some (t, rid))"

definition normalizeReceiptQuery ::
  "golib \<Rightarrow> ReceiptQuery \<Rightarrow> ledger_error + (ReceiptQuery \<times> cursor)" where
  "normalizeReceiptQuery lib query =
     (let query = (if q_Limit query = 0 then query\<lparr>q_Limit := DefaultReceiptPageSize\<rparr> else query) in
      if q_Limit query < 1 \<or> MaxReceiptPageSize < q_Limit query then Inl ErrInvalidReceiptQuery
      else if q_Type query \<noteq> [] \<and> q_TypePrefix query \<noteq> [] then Inl ErrInvalidReceiptQuery
      else if q_RequestID query \<noteq> [] \<and> q_AccountID query = [] then Inl ErrInvalidReceiptQuery
      else if (q_IncludeExecutionKind query \<noteq> [] \<and> q_IncludeType query = []) \<or>
              (q_IncludeType query \<noteq> [] \<and> q_Type query = [] \<and> q_TypePrefix query = [])
      then Inl ErrInvalidReceiptQuery
      else if q_Cursor query = [] then Inr (query, zero_cursor)
      else case decode_cursor lib (q_Cursor query) of
        None \<Rightarrow> Inl ErrInvalidReceiptQuery
      | Some cursor \<Rightarrow> Inr (query, cursor))"

definition receiptLookupScope :: "ReceiptQuery \<Rightarrow> ReceiptLookupScope option" where
  "receiptLookupScope query =
     (if q_RequestID query = [] \<and> q_IncludeType query = [] then None
      else Some \<lparr>ls_AccountID = q_AccountID query, ls_WorkspaceID = q_WorkspaceID query,
                 ls_RequestID = q_RequestID query, ls_Type = q_Type query,
                 ls_TypePrefix = q_TypePrefix query, ls_IncludeType = q_IncludeType query,
                 ls_IncludeExecutionKind = q_IncludeExecutionKind query\<rparr>)"

definition encodeReceiptCursor :: "golib \<Rightarrow> Receipt \<Rightarrow> string" where
  "encodeReceiptCursor lib receipt =
     lib_cursor_encode lib (\<lparr>gt_inst = rc_CreatedAt receipt, gt_off = 0\<rparr>, rc_ReceiptID receipt)"

definition cursor_roundtrip :: "golib \<Rightarrow> cursor \<Rightarrow> bool" where
  \<comment> \<open>the text of a cursor is not empty and decodes to the same instant and identifier\<close>
  "cursor_roundtrip lib c \<longleftrightarrow>
     lib_cursor_encode lib c \<noteq> [] \<and>
     map_option (\<lambda>(t, rid). (gt_inst t, rid)) (lib_cursor_decode lib (lib_cursor_encode lib c)) =
       Some (gt_inst (fst c), snd c)"

section \<open>References and numbers\<close>

definition opaque_char :: "char \<Rightarrow> bool" where
  "opaque_char c \<longleftrightarrow>
     (CHR ''a'' \<le> c \<and> c \<le> CHR ''z'') \<or> (CHR ''A'' \<le> c \<and> c \<le> CHR ''Z'') \<or>
     (CHR ''0'' \<le> c \<and> c \<le> CHR ''9'') \<or> c \<in> set ''._:-''"

definition isOpaqueReference :: "string \<Rightarrow> bool" where
  "isOpaqueReference value \<longleftrightarrow> value \<noteq> [] \<and> length value \<le> 255 \<and> list_all opaque_char value"

definition evidenceID :: "golib \<Rightarrow> string \<Rightarrow> string \<Rightarrow> string" where
  \<comment> \<open>the first eight bytes of the digest are sixteen hexadecimal digits\<close>
  "evidenceID lib prefix key = prefix @ ''-'' @ take 16 (lib_sha256 lib key)"

definition integerValue :: "json \<Rightarrow> int option" where
  \<comment> \<open>the values reach the Ledger through decoders that keep numbers as \<open>json.Number\<close>\<close>
  "integerValue v = (case v of JNum t \<Rightarrow> parse_int64 t | _ \<Rightarrow> None)"

definition get_any :: "gomap \<Rightarrow> string \<Rightarrow> json" where
  \<comment> \<open>\<open>m[k]\<close>: nil when the key is absent, and nil for a JSON null\<close>
  "get_any m k = (case obj_get m k of None \<Rightarrow> JNull | Some v \<Rightarrow> v)"

definition get_int :: "gomap \<Rightarrow> string \<Rightarrow> int option" where
  "get_int m k = integerValue (get_any m k)"

definition opaque_field :: "gomap \<Rightarrow> string \<Rightarrow> bool" where
  \<comment> \<open>\<open>v, ok := m[k].(string); ok && isOpaqueReference(v)\<close>\<close>
  "opaque_field m k = (case get_str m k of None \<Rightarrow> False | Some v \<Rightarrow> isOpaqueReference v)"

section \<open>Reconciliation\<close>

record ReconciliationInput =
  ci_Report :: "gomap option"
  ci_IdempotencyKey :: string

record ReconciliationResult =
  cr_ID :: string
  cr_Status :: string
  cr_Report :: "gomap option"
  cr_BlockNewWorkspaces :: bool
  cr_Reason :: string
  cr_CreatedAt :: time
  cr_Replayed :: bool

section \<open>Evidence index\<close>

record EvidenceIndexInput =
  x_OperationID :: string
  x_CandidateSHA :: string
  x_CandidateTree :: string
  x_ImageDigest :: string
  x_ReceiptID :: string
  x_ReceiptType :: string
  x_Status :: string
  x_Actor :: string
  x_ObservedAt :: gotime
  x_IdentityDigest :: string
  x_RedactedLink :: string
  x_IdempotencyKey :: string

record EvidenceIndexEntry =
  xe_Input :: EvidenceIndexInput
  xe_EvidenceID :: string
  xe_CreatedAt :: time
  xe_Replayed :: bool

record EvidenceIndexQuery =
  xq_OperationID :: string
  xq_CandidateSHA :: string
  xq_CandidateTree :: string
  xq_ImageDigest :: string
  xq_ReceiptID :: string
  xq_ReceiptType :: string
  xq_Status :: string
  xq_Cursor :: string
  xq_Limit :: int

record EvidenceIndexPage =
  xp_Entries :: "EvidenceIndexEntry list"
  xp_NextCursor :: string
  xp_HasMore :: bool

record EvidenceIndexExport =
  xx_SchemaVersion :: int
  xx_Entries :: "EvidenceIndexEntry list"

definition DefaultEvidenceIndexPageSize :: int where
  "DefaultEvidenceIndexPageSize = 100"

definition MaxEvidenceIndexPageSize :: int where
  "MaxEvidenceIndexPageSize = 500"

definition MaxEvidenceIndexExportSize :: int where
  "MaxEvidenceIndexExportSize = 5000"

definition normalizeEvidenceIndexQuery ::
  "golib \<Rightarrow> EvidenceIndexQuery \<Rightarrow> ledger_error + (EvidenceIndexQuery \<times> cursor)" where
  "normalizeEvidenceIndexQuery lib query =
     (let query = (if xq_Limit query = 0 then query\<lparr>xq_Limit := DefaultEvidenceIndexPageSize\<rparr>
                   else query) in
      if xq_Limit query < 1 \<or> MaxEvidenceIndexPageSize < xq_Limit query
      then Inl ErrInvalidEvidenceIndexQuery
      else if xq_Cursor query = [] then Inr (query, zero_cursor)
      else case decode_cursor lib (xq_Cursor query) of
        None \<Rightarrow> Inl ErrInvalidEvidenceIndexQuery
      | Some cursor \<Rightarrow> Inr (query, cursor))"

definition encodeEvidenceIndexCursor :: "golib \<Rightarrow> EvidenceIndexEntry \<Rightarrow> string" where
  "encodeEvidenceIndexCursor lib entry =
     lib_cursor_encode lib (x_ObservedAt (xe_Input entry), xe_EvidenceID entry)"

definition contains_text :: "string \<Rightarrow> string \<Rightarrow> bool" where
  \<comment> \<open>\<open>strings.Contains\<close>\<close>
  "contains_text s p = list_ex (\<lambda>n. has_prefix (drop n s) p) [0..<Suc (length s)]"

definition isRedactedEvidenceLink :: "golib \<Rightarrow> string \<Rightarrow> bool" where
  "isRedactedEvidenceLink lib value =
     (if 2048 < length value \<or> list_ex (\<lambda>c. c \<in> {CHR 0x0D, CHR 0x0A}) value \<or>
         list_ex (\<lambda>c. c \<in> set ''?#'') value \<or> CHR 0x40 \<in> set value
      then False
      else if \<not> contains_text value ''://'' then isOpaqueReference value
      else case lib_url_parse lib value of
        None \<Rightarrow> False
      | Some (user, scheme, host) \<Rightarrow>
          if user then False
          else if scheme = [] then isOpaqueReference value
          else (scheme = ''https'' \<or> scheme = ''http'') \<and> host \<noteq> [])"

definition validateEvidenceIndexInput :: "golib \<Rightarrow> EvidenceIndexInput \<Rightarrow> ledger_error option" where
  "validateEvidenceIndexInput lib i =
     (if \<not> list_all isOpaqueReference
           [x_OperationID i, x_CandidateSHA i, x_CandidateTree i, x_ImageDigest i, x_ReceiptID i,
            x_ReceiptType i, x_Status i, x_Actor i, x_IdentityDigest i, x_IdempotencyKey i]
      then Some ErrInvalidEvidenceIndexInput
      else if is_zero (gt_inst (x_ObservedAt i)) \<or> go_year (x_ObservedAt i) < 2000 \<or>
              2100 < go_year (x_ObservedAt i)
      then Some ErrInvalidEvidenceIndexInput
      else if x_RedactedLink i \<noteq> [] \<and> \<not> isRedactedEvidenceLink lib (x_RedactedLink i)
      then Some ErrInvalidEvidenceIndexInput
      else None)"

definition evidence_input_json :: "golib \<Rightarrow> EvidenceIndexInput \<Rightarrow> json" where
  "evidence_input_json lib i = JObj (
     [(''operationId'', JStr (x_OperationID i)), (''candidateSha'', JStr (x_CandidateSHA i)),
      (''candidateTree'', JStr (x_CandidateTree i)), (''imageDigest'', JStr (x_ImageDigest i)),
      (''receiptId'', JStr (x_ReceiptID i)), (''receiptType'', JStr (x_ReceiptType i)),
      (''status'', JStr (x_Status i)), (''actor'', JStr (x_Actor i)),
      (''observedAt'', JStr (lib_time_text lib (x_ObservedAt i))),
      (''identityDigest'', JStr (x_IdentityDigest i))] @
     (if x_RedactedLink i = [] then [] else [(''redactedLink'', JStr (x_RedactedLink i))]))"

section \<open>Hashing\<close>

definition hashJSON :: "golib \<Rightarrow> json \<Rightarrow> string" where
  "hashJSON lib payload = lib_sha256 lib (lib_marshal lib payload)"

end
