(* ===== verification/Workspace_Delete.thy ===== *)
theory Workspace_Delete
  imports Go_Json
begin

text \<open>
  The deletion contract of a Workspace (\<open>packages/contracts/go/workspace_delete.go\<close>): the order of
  the deletion stages, the evidence each stage records, the digests a receipt carries, the
  classification of a provider readback, the fail-closed gate that admits a platform refund, and
  the refund amount.
\<close>

section \<open>Vocabulary\<close>

definition WorkspaceDeleteStageOrder :: "string list" where
  "WorkspaceDeleteStageOrder =
     [''runtime_absent'', ''attachment_absent'', ''storage_absent'', ''compute_absent'',
      ''workspace_absent'', ''receipt_recorded'']"

definition WorkspaceDeleteRequiredResourceKinds :: "string list" where
  "WorkspaceDeleteRequiredResourceKinds =
     [''runtime_controller'', ''deployment'', ''replicaset'', ''pod'', ''service'',
      ''network_policy'', ''environment_secret'', ''gateway_secret'', ''tke_attachment'',
      ''persistent_volume_claim'', ''persistent_volume'', ''cbs'', ''tke_machine'', ''cvm'']"

record WorkspaceDeleteIdentity =
  wi_DeleteOperationID :: string
  wi_LaunchOperationID :: string
  wi_AccountID :: string
  wi_WorkspaceID :: string
  wi_RuntimeID :: string
  wi_ComputeID :: string
  wi_StorageID :: string
  wi_AttachmentID :: string
  wi_StorageProviderResourceID :: string
  wi_ComputeMachineName :: string
  wi_ComputeInstanceID :: string
  wi_ResourceFulfilledAt :: string
  wi_WorkspaceDeletedAt :: string

record WorkspaceDeleteResourceFact =
  wf_Kind :: string
  wf_ResourceID :: string
  wf_Present :: bool
  wf_Observed :: bool
  wf_ProviderStatus :: string
  wf_ObservedAt :: string
  wf_ReadbackID :: string
  wf_MutationCount :: int

record WorkspaceDeleteReadback =
  wr_SchemaVersion :: int
  wr_Provider :: string
  wr_DeleteOperationID :: string
  wr_LaunchOperationID :: string
  wr_AccountID :: string
  wr_WorkspaceID :: string
  wr_ObservedAt :: string
  wr_ReadbackID :: string
  wr_Result :: string
  wr_ReasonCode :: string
  wr_MutationCount :: int
  wr_Facts :: "WorkspaceDeleteResourceFact list"

definition Fact :: "WorkspaceDeleteReadback \<Rightarrow> string \<Rightarrow> WorkspaceDeleteResourceFact option" where
  "Fact r kind = List.find (\<lambda>f. wf_Kind f = kind) (wr_Facts r)"

fun firstNonEmptyContractString :: "string list \<Rightarrow> string" where
  "firstNonEmptyContractString [] = []"
| "firstNonEmptyContractString (v # vs) =
     (if trim_space v \<noteq> [] then trim_space v else firstNonEmptyContractString vs)"

definition ExpectedResourceID :: "WorkspaceDeleteIdentity \<Rightarrow> string \<Rightarrow> string \<times> bool" where
  "ExpectedResourceID i kind =
     (if kind \<in> {''runtime_controller'', ''deployment'', ''replicaset'', ''pod'', ''service'',
                 ''network_policy'', ''environment_secret'', ''gateway_secret''}
      then (firstNonEmptyContractString [wi_RuntimeID i, wi_WorkspaceID i],
            wi_RuntimeID i \<noteq> [] \<or> wi_WorkspaceID i \<noteq> [])
      else if kind = ''tke_attachment'' then (wi_AttachmentID i, wi_AttachmentID i \<noteq> [])
      else if kind \<in> {''persistent_volume_claim'', ''persistent_volume''}
      then (wi_StorageProviderResourceID i, wi_StorageProviderResourceID i \<noteq> [])
      else if kind = ''cbs''
      then (wi_StorageProviderResourceID i, wi_StorageProviderResourceID i \<noteq> [])
      else if kind = ''tke_machine''
      then (firstNonEmptyContractString [wi_ComputeMachineName i, wi_ComputeID i],
            wi_ComputeMachineName i \<noteq> [] \<or> wi_ComputeID i \<noteq> [])
      else if kind = ''cvm''
      then (firstNonEmptyContractString [wi_ComputeInstanceID i, wi_ComputeID i],
            wi_ComputeInstanceID i \<noteq> [] \<or> wi_ComputeID i \<noteq> [])
      else ([], False))"

definition WorkspaceDeleteOutcomeRetryable :: "string \<Rightarrow> bool" where
  "WorkspaceDeleteOutcomeRetryable outcome \<longleftrightarrow>
     outcome = ''pending_retry'' \<or> outcome = ''unconfirmed_send''"

section \<open>Stage evidence\<close>

record WorkspaceDeleteStageEvidence =
  we_Stage :: string
  we_Result :: string
  we_ReasonCode :: string
  we_EvidenceKind :: string
  we_ResourceID :: string
  we_ProviderResourceID :: string
  we_ObservedAt :: string
  we_ReadbackID :: string
  we_ReadAttempts :: int
  we_MutationAttempts :: int

definition WorkspaceDeleteStageEvidenceExpected :: "string \<Rightarrow> (string \<times> string) option" where
  "WorkspaceDeleteStageEvidenceExpected stage =
     (if stage = ''runtime_absent'' then Some (''absent'', ''provider_readback'')
      else if stage = ''attachment_absent'' then Some (''released'', ''local_transition'')
      else if stage = ''storage_absent'' then Some (''absent'', ''provider_readback'')
      else if stage = ''compute_absent'' then Some (''absent'', ''provider_readback'')
      else if stage = ''workspace_absent'' then Some (''removed'', ''local_transition'')
      else if stage = ''receipt_recorded'' then Some (''recorded'', ''ledger_receipt'')
      else None)"

definition Confirmed :: "WorkspaceDeleteStageEvidence \<Rightarrow> bool" where
  "Confirmed e \<longleftrightarrow>
     (case WorkspaceDeleteStageEvidenceExpected (we_Stage e) of
        None \<Rightarrow> False | Some (result, _) \<Rightarrow> we_Result e = result)"

definition ValidWorkspaceDeleteStageEvidence ::
  "golib \<Rightarrow> WorkspaceDeleteStageEvidence \<Rightarrow> bool" where
  "ValidWorkspaceDeleteStageEvidence lib e \<longleftrightarrow>
     (case WorkspaceDeleteStageEvidenceExpected (we_Stage e) of
        None \<Rightarrow> False
      | Some (result, kind) \<Rightarrow>
          if we_Result e \<noteq> result \<and> we_Result e \<noteq> ''waiting'' \<and> we_Result e \<noteq> ''failed'' then False
          else if trim_space (we_ResourceID e) = [] \<or> we_ReadAttempts e < 0 \<or> we_MutationAttempts e < 0
          then False
          else if lib_parse_time lib (we_ObservedAt e) = None then False
          else if we_ReasonCode e \<noteq> trim_space (we_ReasonCode e) then False
          else if we_EvidenceKind e = kind
          then kind = ''local_transition'' \<or> trim_space (we_ReadbackID e) \<noteq> []
          else if we_EvidenceKind e = ''unavailable''
          then we_Result e \<noteq> result \<and> trim_space (we_ReadbackID e) = []
          else False)"

definition evidence_matches :: "golib \<Rightarrow> WorkspaceDeleteStageEvidence list \<Rightarrow> string list \<Rightarrow> bool" where
  "evidence_matches lib evidence order =
     list_all2 (\<lambda>e stage. we_Stage e = stage \<and> ValidWorkspaceDeleteStageEvidence lib e \<and> Confirmed e)
       evidence order"

definition WorkspaceDeleteStageEvidenceComplete ::
  "golib \<Rightarrow> WorkspaceDeleteStageEvidence list \<Rightarrow> bool" where
  "WorkspaceDeleteStageEvidenceComplete lib evidence =
     (if length evidence \<noteq> length WorkspaceDeleteStageOrder then False
      else evidence_matches lib evidence WorkspaceDeleteStageOrder)"

definition WorkspaceDeleteStageEvidenceLatest ::
  "WorkspaceDeleteStageEvidence list \<Rightarrow> string \<Rightarrow> WorkspaceDeleteStageEvidence option" where
  "WorkspaceDeleteStageEvidenceLatest evidence stage = List.find (\<lambda>e. we_Stage e = stage) evidence"

definition WorkspaceDeleteReceiptEvidenceComplete ::
  "golib \<Rightarrow> WorkspaceDeleteStageEvidence list \<Rightarrow> bool" where
  "WorkspaceDeleteReceiptEvidenceComplete lib evidence =
     (if length evidence \<noteq> length WorkspaceDeleteStageOrder - 1 then False
      else evidence_matches lib evidence (take (length evidence) WorkspaceDeleteStageOrder))"

record WorkspaceDeleteStageEvidenceDigest =
  wd_Stage :: string
  wd_Result :: string
  wd_EvidenceKind :: string
  wd_ObservedAt :: string
  wd_ReasonCode :: string
  wd_EvidenceRef :: string

fun join_strings :: "string \<Rightarrow> string list \<Rightarrow> string" where
  \<comment> \<open>\<open>strings.Join\<close>\<close>
  "join_strings sep [] = []"
| "join_strings sep [s] = s"
| "join_strings sep (s # t # ts) = s @ sep @ join_strings sep (t # ts)"

definition workspaceDeleteEvidenceDigest :: "golib \<Rightarrow> string list \<Rightarrow> string" where
  "workspaceDeleteEvidenceDigest lib values = lib_sha256 lib (join_strings [CHR 0x00] values)"

definition WorkspaceDeleteStageEvidenceReference ::
  "golib \<Rightarrow> WorkspaceDeleteStageEvidence \<Rightarrow> string" where
  "WorkspaceDeleteStageEvidenceReference lib e =
     ''deletion-evidence:'' @ workspaceDeleteEvidenceDigest lib
       [we_Stage e, we_ResourceID e, we_ProviderResourceID e, we_ReadbackID e, we_ObservedAt e]"

definition WorkspaceDeleteStageEvidenceDigests ::
  "golib \<Rightarrow> WorkspaceDeleteStageEvidence list \<Rightarrow> WorkspaceDeleteStageEvidenceDigest list" where
  "WorkspaceDeleteStageEvidenceDigests lib evidence =
     map (\<lambda>e. \<lparr>wd_Stage = we_Stage e, wd_Result = we_Result e, wd_EvidenceKind = we_EvidenceKind e,
               wd_ObservedAt = we_ObservedAt e, wd_ReasonCode = we_ReasonCode e,
               wd_EvidenceRef = WorkspaceDeleteStageEvidenceReference lib e\<rparr>) evidence"

definition digest_ok :: "golib \<Rightarrow> WorkspaceDeleteStageEvidenceDigest \<Rightarrow> string \<Rightarrow> bool" where
  "digest_ok lib d stage =
     (case WorkspaceDeleteStageEvidenceExpected stage of
        None \<Rightarrow> False
      | Some (result, kind) \<Rightarrow>
          wd_Stage d = stage \<and> wd_Result d = result \<and> wd_EvidenceKind d = kind \<and>
          wd_ReasonCode d = trim_space (wd_ReasonCode d) \<and> trim_space (wd_EvidenceRef d) \<noteq> [] \<and>
          lib_parse_time lib (wd_ObservedAt d) \<noteq> None)"

definition ValidWorkspaceDeleteStageEvidenceDigests ::
  "golib \<Rightarrow> WorkspaceDeleteStageEvidenceDigest list \<Rightarrow> bool" where
  "ValidWorkspaceDeleteStageEvidenceDigests lib digests =
     (if WorkspaceDeleteStageOrder = [] \<or> length digests \<noteq> length WorkspaceDeleteStageOrder - 1
      then False
      else list_all2 (digest_ok lib) digests (take (length digests) WorkspaceDeleteStageOrder))"

section \<open>The refund gate\<close>

record WorkspaceDeleteRefundGateInput =
  wg_Identity :: WorkspaceDeleteIdentity
  wg_Readback :: WorkspaceDeleteReadback
  wg_DeleteReceiptRecorded :: bool
  wg_Now :: time
  wg_MaxReadbackAge :: int

definition workspaceDeleteProviderStatusProvesAbsence :: "string \<Rightarrow> bool" where
  "workspaceDeleteProviderStatusProvesAbsence status \<longleftrightarrow>
     to_upper (trim_space status) = ''NOT_FOUND'' \<or> to_upper (trim_space status) = ''ABSENT''"

definition WorkspaceDeleteFactProvesAbsence :: "WorkspaceDeleteResourceFact \<Rightarrow> bool" where
  "WorkspaceDeleteFactProvesAbsence f \<longleftrightarrow>
     wf_Observed f \<and> \<not> wf_Present f \<and> workspaceDeleteProviderStatusProvesAbsence (wf_ProviderStatus f)"

definition gate_fact ::
  "WorkspaceDeleteIdentity \<Rightarrow> WorkspaceDeleteReadback \<Rightarrow> string \<Rightarrow> string option" where
  \<comment> \<open>the body of the loop over the required kinds: the reason of a refusal\<close>
  "gate_fact identity readback kind =
     (case Fact readback kind of
        None \<Rightarrow> Some ''provider_readback_unavailable''
      | Some f \<Rightarrow>
          if \<not> wf_Observed f \<or> trim_space (wf_ObservedAt f) = [] \<or>
             wf_ReadbackID f \<noteq> wr_ReadbackID readback \<or> wf_MutationCount f \<noteq> 0
          then Some ''provider_readback_unavailable''
          else if wf_ObservedAt f \<noteq> wr_ObservedAt readback then Some ''provider_readback_stale''
          else let (expected, ok) = ExpectedResourceID identity kind in
          if \<not> ok \<or> expected = [] \<or> wf_ResourceID f \<noteq> expected
          then Some ''provider_identity_mismatch''
          else if wf_Present f then Some ''provider_resource_present''
          else if \<not> WorkspaceDeleteFactProvesAbsence f then Some ''provider_status_unconfirmed''
          else None)"

fun gate_facts ::
  "WorkspaceDeleteIdentity \<Rightarrow> WorkspaceDeleteReadback \<Rightarrow> string list \<Rightarrow> bool \<times> string" where
  "gate_facts identity readback [] = (True, [])"
| "gate_facts identity readback (k # ks) =
     (case gate_fact identity readback k of
        Some reason \<Rightarrow> (False, reason)
      | None \<Rightarrow> gate_facts identity readback ks)"

definition PlatformRefundDispatchAllowed ::
  "golib \<Rightarrow> time \<Rightarrow> WorkspaceDeleteRefundGateInput \<Rightarrow> bool \<times> string" where
  \<comment> \<open>\<open>clock\<close> is the reading of \<open>time.Now\<close>, used when the input carries no time\<close>
  "PlatformRefundDispatchAllowed lib clock input =
     (let identity = wg_Identity input; readback = wg_Readback input in
      if wi_WorkspaceID identity = [] \<or> wi_DeleteOperationID identity = [] \<or>
         wi_AccountID identity = [] \<or> wi_LaunchOperationID identity = [] \<or>
         wi_StorageProviderResourceID identity = []
      then (False, ''workspace_delete_scope_invalid'')
      else if \<not> wg_DeleteReceiptRecorded input then (False, ''workspace_delete_receipt_missing'')
      else if lib_parse_time lib (wi_WorkspaceDeletedAt identity) = None
      then (False, ''workspace_delete_operation_incomplete'')
      else if wr_SchemaVersion readback \<noteq> 1 \<or> wr_MutationCount readback \<noteq> 0 \<or>
              wr_Result readback \<noteq> ''completed'' \<or> trim_space (wr_ReadbackID readback) = [] \<or>
              wr_Provider readback = []
      then (False, ''provider_readback_unavailable'')
      else if wr_DeleteOperationID readback \<noteq> wi_DeleteOperationID identity \<or>
              wr_WorkspaceID readback \<noteq> wi_WorkspaceID identity \<or>
              wr_AccountID readback \<noteq> wi_AccountID identity \<or>
              wr_LaunchOperationID readback \<noteq> wi_LaunchOperationID identity
      then (False, ''provider_identity_mismatch'')
      else case lib_parse_time lib (wr_ObservedAt readback) of
        None \<Rightarrow> (False, ''provider_readback_unavailable'')
      | Some observedAt \<Rightarrow>
          (case lib_parse_time lib (wi_WorkspaceDeletedAt identity) of
             None \<Rightarrow> (False, ''workspace_delete_operation_incomplete'')
           | Some deletedAt \<Rightarrow>
               let now = (if is_zero (wg_Now input) then clock else wg_Now input) in
               if gt_inst observedAt < gt_inst deletedAt then (False, ''provider_readback_stale'')
               else if 0 < wg_MaxReadbackAge input \<and>
                       wg_MaxReadbackAge input < time_sub now (gt_inst observedAt)
               then (False, ''provider_readback_stale'')
               else if now < gt_inst observedAt then (False, ''provider_readback_stale'')
               else if length (wr_Facts readback) \<noteq> length WorkspaceDeleteRequiredResourceKinds
               then (False, ''provider_readback_unavailable'')
               else gate_facts identity readback WorkspaceDeleteRequiredResourceKinds))"

section \<open>Readback classification\<close>

fun classify_facts :: "WorkspaceDeleteResourceFact list \<Rightarrow> (string \<times> string) option" where
  "classify_facts [] = None"
| "classify_facts (f # fs) =
     (if wf_Present f then Some (''waiting'', ''provider_resource_present'')
      else if \<not> wf_Observed f then Some (''retryable_readback'', ''provider_readback_unavailable'')
      else classify_facts fs)"

definition ClassifyWorkspaceDeleteReadback ::
  "golib \<Rightarrow> WorkspaceDeleteIdentity \<Rightarrow> WorkspaceDeleteReadback \<Rightarrow> time \<Rightarrow> int \<Rightarrow> string \<times> string" where
  "ClassifyWorkspaceDeleteReadback lib identity readback now maxAge =
     (if wr_SchemaVersion readback \<noteq> 1 \<or> wr_ReadbackID readback = [] \<or> wr_Provider readback = []
      then (''unknown'', ''provider_readback_unavailable'')
      else if wr_DeleteOperationID readback \<noteq> wi_DeleteOperationID identity \<or>
              wr_WorkspaceID readback \<noteq> wi_WorkspaceID identity \<or>
              wr_AccountID readback \<noteq> wi_AccountID identity
      then (''blocked_identity'', ''provider_identity_mismatch'')
      else case lib_parse_time lib (wr_ObservedAt readback) of
        None \<Rightarrow> (''unknown'', ''provider_readback_unavailable'')
      | Some observedAt \<Rightarrow>
          if 0 < maxAge \<and> maxAge < time_sub now (gt_inst observedAt)
          then (''unknown'', ''provider_readback_stale'')
          else case classify_facts (wr_Facts readback) of
            Some r \<Rightarrow> r
          | None \<Rightarrow>
              if wr_Result readback = ''completed'' \<and> wr_ReasonCode readback = [] \<and>
                 length (wr_Facts readback) = length WorkspaceDeleteRequiredResourceKinds
              then (''completed'', [])
              else if wr_Result readback = ''blocked_identity''
              then (''blocked_identity'', wr_ReasonCode readback)
              else (''retryable_readback'', ''provider_readback_unavailable''))"

section \<open>The refund amount\<close>

definition WorkspaceRefundMonthlyHours :: int where
  "WorkspaceRefundMonthlyHours = 720"

definition PlatformWorkspaceDeleteRefundMicros :: "int \<Rightarrow> time \<Rightarrow> time \<Rightarrow> string + int" where
  "PlatformWorkspaceDeleteRefundMicros originalChargeUSDMicros resourceFulfilledAt workspaceDeletedAt =
     (if originalChargeUSDMicros \<le> 0 then Inl ''workspace_refund_original_charge_required''
      else if is_zero resourceFulfilledAt \<or> is_zero workspaceDeletedAt \<or>
              \<not> resourceFulfilledAt < workspaceDeletedAt
      then Inl ''workspace_refund_period_invalid''
      else let used = time_sub workspaceDeletedAt resourceFulfilledAt;
               usedHours = used div hour_ns + (if used mod hour_ns \<noteq> 0 then 1 else 0);
               refundHours = WorkspaceRefundMonthlyHours - usedHours in
      if refundHours \<le> 0 then Inr 0
      else let refundHours = (if WorkspaceRefundMonthlyHours < refundHours
                              then WorkspaceRefundMonthlyHours else refundHours);
               refund = quot (wrap64 (originalChargeUSDMicros * refundHours)) WorkspaceRefundMonthlyHours in
      if refund < 0 then Inl ''workspace_refund_amount_invalid'' else Inr refund)"

definition WorkspaceDeleteRefundIdempotencyKey :: "string \<Rightarrow> string \<Rightarrow> string" where
  "WorkspaceDeleteRefundIdempotencyKey deleteOperationID policyVersion =
     trim_space deleteOperationID @ '':refund:'' @ trim_space policyVersion"

definition SortedWorkspaceDeleteResourceKinds :: "string list \<Rightarrow> string list" where
  "SortedWorkspaceDeleteResourceKinds kinds = sort kinds"

section \<open>Lemmas\<close>

text \<open>
  What the gate demands, as a specification over the whole list of facts: the identity is complete
  and recorded, the readback is of this deletion, taken after it and not in the future, and its
  facts are exactly one per required kind, each proving the absence of the resource this identity
  owned.
\<close>

definition fact_proves ::
  "WorkspaceDeleteIdentity \<Rightarrow> WorkspaceDeleteReadback \<Rightarrow> WorkspaceDeleteResourceFact \<Rightarrow> bool" where
  "fact_proves i r f \<longleftrightarrow>
     WorkspaceDeleteFactProvesAbsence f \<and> wf_MutationCount f = 0 \<and>
     wf_ReadbackID f = wr_ReadbackID r \<and> wf_ObservedAt f = wr_ObservedAt r \<and>
     trim_space (wf_ObservedAt f) \<noteq> [] \<and> snd (ExpectedResourceID i (wf_Kind f)) \<and>
     wf_ResourceID f \<noteq> [] \<and> wf_ResourceID f = fst (ExpectedResourceID i (wf_Kind f))"

definition readback_bound :: "WorkspaceDeleteIdentity \<Rightarrow> WorkspaceDeleteReadback \<Rightarrow> bool" where
  "readback_bound i r \<longleftrightarrow>
     wi_WorkspaceID i \<noteq> [] \<and> wi_DeleteOperationID i \<noteq> [] \<and> wi_AccountID i \<noteq> [] \<and>
     wi_LaunchOperationID i \<noteq> [] \<and> wi_StorageProviderResourceID i \<noteq> [] \<and>
     wr_SchemaVersion r = 1 \<and> wr_MutationCount r = 0 \<and> wr_Result r = ''completed'' \<and>
     trim_space (wr_ReadbackID r) \<noteq> [] \<and> wr_Provider r \<noteq> [] \<and>
     wr_DeleteOperationID r = wi_DeleteOperationID i \<and> wr_WorkspaceID r = wi_WorkspaceID i \<and>
     wr_AccountID r = wi_AccountID i \<and> wr_LaunchOperationID r = wi_LaunchOperationID i"

definition readback_fresh :: "golib \<Rightarrow> time \<Rightarrow> int \<Rightarrow> string \<Rightarrow> string \<Rightarrow> bool" where
  "readback_fresh lib now age deleted observed \<longleftrightarrow>
     (case (lib_parse_time lib deleted, lib_parse_time lib observed) of
        (Some d, Some o') \<Rightarrow> gt_inst d \<le> gt_inst o' \<and> gt_inst o' \<le> now \<and>
          (0 < age \<longrightarrow> time_sub now (gt_inst o') \<le> age)
      | _ \<Rightarrow> False)"

definition deletion_proven :: "golib \<Rightarrow> time \<Rightarrow> WorkspaceDeleteRefundGateInput \<Rightarrow> bool" where
  "deletion_proven lib clock input \<longleftrightarrow>
     (let i = wg_Identity input; r = wg_Readback input in
      readback_bound i r \<and> wg_DeleteReceiptRecorded input \<and>
      readback_fresh lib (if is_zero (wg_Now input) then clock else wg_Now input)
        (wg_MaxReadbackAge input) (wi_WorkspaceDeletedAt i) (wr_ObservedAt r) \<and>
      distinct (map wf_Kind (wr_Facts r)) \<and>
      set (map wf_Kind (wr_Facts r)) = set WorkspaceDeleteRequiredResourceKinds \<and>
      (\<forall>f \<in> set (wr_Facts r). fact_proves i r f))"

lemma required_distinct: "distinct WorkspaceDeleteRequiredResourceKinds"
  by (simp add: WorkspaceDeleteRequiredResourceKinds_def)

lemma gate_fact_None:
  "gate_fact i r k = None \<longleftrightarrow> (\<exists>f. Fact r k = Some f \<and> fact_proves i r f)"
proof (cases "Fact r k")
  case (Some f)
  then have "wf_Kind f = k" by (auto simp: Fact_def dest: find_SomeD)
  with Some show ?thesis
    by (auto simp: gate_fact_def fact_proves_def WorkspaceDeleteFactProvesAbsence_def
        split: prod.splits)
qed (simp add: gate_fact_def)

lemma gate_facts_True:
  "fst (gate_facts i r ks) \<longleftrightarrow> (\<forall>k \<in> set ks. \<exists>f. Fact r k = Some f \<and> fact_proves i r f)"
proof (induction ks)
  case (Cons k ks)
  then show ?case using gate_fact_None [of i r k] by (auto split: option.split)
qed simp

lemma gate_facts_reason: "fst (gate_facts i r ks) \<Longrightarrow> snd (gate_facts i r ks) = []"
  by (induction ks) (auto split: option.splits)

lemma same_length_cover:
  assumes "distinct ks" and "length xs = length ks" and "set ks \<subseteq> set xs"
  shows "distinct xs \<and> set xs = set ks"
proof -
  have c: "card (set ks) = length xs" using assms(1,2) distinct_card by metis
  have "card (set ks) \<le> card (set xs)" using assms(3) by (simp add: card_mono)
  with c have len: "card (set xs) = length xs" using card_length [of xs] by linarith
  then have "set ks = set xs" using assms(3) c by (metis card_subset_eq List.finite_set)
  with len show ?thesis by (simp add: card_distinct)
qed

lemma gate_facts_cover:
  assumes "distinct ks" and "length (wr_Facts r) = length ks"
  shows "fst (gate_facts i r ks) \<longleftrightarrow>
    distinct (map wf_Kind (wr_Facts r)) \<and> set (map wf_Kind (wr_Facts r)) = set ks \<and>
    (\<forall>f \<in> set (wr_Facts r). fact_proves i r f)"
proof
  assume A: "fst (gate_facts i r ks)"
  then have "set ks \<subseteq> set (map wf_Kind (wr_Facts r))"
    by (fastforce simp: gate_facts_True Fact_def dest: find_SomeD)
  with assms have C: "distinct (map wf_Kind (wr_Facts r)) \<and> set (map wf_Kind (wr_Facts r)) = set ks"
    by (intro same_length_cover) auto
  moreover have "fact_proves i r f" if "f \<in> set (wr_Facts r)" for f
  proof -
    have "Fact r (wf_Kind f) = Some f"
      unfolding Fact_def using C that by (intro find_key_unique) auto
    moreover have "wf_Kind f \<in> set ks" using C that by auto
    ultimately show ?thesis using A by (auto simp: gate_facts_True)
  qed
  ultimately show "distinct (map wf_Kind (wr_Facts r)) \<and> set (map wf_Kind (wr_Facts r)) = set ks \<and>
    (\<forall>f \<in> set (wr_Facts r). fact_proves i r f)" by blast
next
  assume A: "distinct (map wf_Kind (wr_Facts r)) \<and> set (map wf_Kind (wr_Facts r)) = set ks \<and>
    (\<forall>f \<in> set (wr_Facts r). fact_proves i r f)"
  show "fst (gate_facts i r ks)"
    unfolding gate_facts_True
  proof
    fix k assume "k \<in> set ks"
    with A have "k \<in> wf_Kind ` set (wr_Facts r)" by simp
    then obtain f where f: "f \<in> set (wr_Facts r)" "wf_Kind f = k" by blast
    then have "Fact r k = Some f"
      using A find_key_unique [of wf_Kind "wr_Facts r" f] by (simp add: Fact_def)
    with A f show "\<exists>f. Fact r k = Some f \<and> fact_proves i r f" by blast
  qed
qed

lemma classify_facts_None:
  "classify_facts fs = None \<longleftrightarrow> (\<forall>f \<in> set fs. wf_Observed f \<and> \<not> wf_Present f)"
  by (induction fs) auto

lemma classify_facts_not_completed: "classify_facts fs = Some (''completed'', c) \<Longrightarrow> False"
  by (induction fs) (auto split: if_splits)

lemma evidence_reference_nonblank: "trim_space (WorkspaceDeleteStageEvidenceReference lib e) \<noteq> []"
  by (rule trim_space_nonblank [of "CHR ''d''"])
     (simp_all add: WorkspaceDeleteStageEvidenceReference_def go_spaces_def)

lemma digest_of_confirmed:
  assumes "we_Stage e = stage" and "ValidWorkspaceDeleteStageEvidence lib e" and "Confirmed e"
  shows "digest_ok lib (hd (WorkspaceDeleteStageEvidenceDigests lib [e])) stage"
  using assms
  by (auto simp: digest_ok_def ValidWorkspaceDeleteStageEvidence_def Confirmed_def
      WorkspaceDeleteStageEvidenceDigests_def evidence_reference_nonblank
      split: option.splits if_splits)

section \<open>Properties\<close>

text \<open>
  C18: The refund gate is fail-closed and exact. It admits a refund exactly when the deletion is
  proven: the identity is complete, the deletion receipt is recorded, the readback is completed,
  mutation-free, bound to this deletion and taken between the deletion and now within the allowed
  age, and its facts are exactly one per required resource kind, each an observed, explicit absence
  of the very resource the identity names, from the same readback. Nothing weaker passes.
\<close>

theorem refund_gate_exact:
  "PlatformRefundDispatchAllowed lib clock input = (True, reason) \<longleftrightarrow>
     reason = [] \<and> deletion_proven lib clock input"
proof -
  let ?i = "wg_Identity input" and ?r = "wg_Readback input"
  let ?now = "if is_zero (wg_Now input) then clock else wg_Now input"
  let ?ks = WorkspaceDeleteRequiredResourceKinds
  have len: "length (wr_Facts ?r) = length ?ks"
    if "distinct (map wf_Kind (wr_Facts ?r))" "set (map wf_Kind (wr_Facts ?r)) = set ?ks"
    using that required_distinct by (metis distinct_card length_map)
  have step: "PlatformRefundDispatchAllowed lib clock input = (True, reason) \<longleftrightarrow>
      readback_bound ?i ?r \<and> wg_DeleteReceiptRecorded input \<and>
      readback_fresh lib ?now (wg_MaxReadbackAge input) (wi_WorkspaceDeletedAt ?i) (wr_ObservedAt ?r) \<and>
      length (wr_Facts ?r) = length ?ks \<and> gate_facts ?i ?r ?ks = (True, reason)"
    by (auto simp: PlatformRefundDispatchAllowed_def readback_bound_def readback_fresh_def Let_def
        not_less split: option.splits)
  have gf: "gate_facts ?i ?r ?ks = (True, reason) \<longleftrightarrow> fst (gate_facts ?i ?r ?ks) \<and> reason = []"
    using gate_facts_reason [of ?i ?r ?ks] by (cases "gate_facts ?i ?r ?ks") auto
  have cover: "length (wr_Facts ?r) = length ?ks \<and> fst (gate_facts ?i ?r ?ks) \<longleftrightarrow>
      distinct (map wf_Kind (wr_Facts ?r)) \<and> set (map wf_Kind (wr_Facts ?r)) = set ?ks \<and>
      (\<forall>f \<in> set (wr_Facts ?r). fact_proves ?i ?r f)"
    using gate_facts_cover [OF required_distinct, of ?r ?i] len by blast
  show ?thesis unfolding step gf deletion_proven_def Let_def using cover by blast
qed


lemma complete_evidence_digests_valid:
  assumes "WorkspaceDeleteReceiptEvidenceComplete lib evidence"
  shows "ValidWorkspaceDeleteStageEvidenceDigests lib (WorkspaceDeleteStageEvidenceDigests lib evidence)"
proof -
  from assms have len: "length evidence = length WorkspaceDeleteStageOrder - 1"
    and m: "evidence_matches lib evidence (take (length evidence) WorkspaceDeleteStageOrder)"
    by (auto simp: WorkspaceDeleteReceiptEvidenceComplete_def split: if_splits)
  from m have "list_all2 (digest_ok lib) (WorkspaceDeleteStageEvidenceDigests lib evidence)
      (take (length evidence) WorkspaceDeleteStageOrder)"
    unfolding evidence_matches_def WorkspaceDeleteStageEvidenceDigests_def list_all2_map1
    by (rule list_all2_mono)
       (use digest_of_confirmed in \<open>auto simp: WorkspaceDeleteStageEvidenceDigests_def\<close>)
  with len show ?thesis
    by (simp add: ValidWorkspaceDeleteStageEvidenceDigests_def WorkspaceDeleteStageEvidenceDigests_def
        WorkspaceDeleteStageOrder_def)
qed

definition sample_delete_identity :: WorkspaceDeleteIdentity where
  "sample_delete_identity =
     \<lparr>wi_DeleteOperationID = ''del_1'', wi_LaunchOperationID = ''launch_1'', wi_AccountID = ''acct_1'',
      wi_WorkspaceID = ''ws_1'', wi_RuntimeID = ''rt_1'', wi_ComputeID = ''cmp_1'', wi_StorageID = ''sto_1'',
      wi_AttachmentID = ''att_1'', wi_StorageProviderResourceID = ''disk_1'', wi_ComputeMachineName = ''np_1'',
      wi_ComputeInstanceID = ''ins_1'', wi_ResourceFulfilledAt = ''t1'', wi_WorkspaceDeletedAt = ''t2''\<rparr>"

definition sample_clock_lib :: golib where
  "sample_clock_lib =
     \<lparr>lib_sha256 = (\<lambda>b. replicate 64 CHR ''0''), lib_json = (\<lambda>b. None), lib_marshal = (\<lambda>j. []),
      lib_parse_time = (\<lambda>s. if s = ''t1'' then Some \<lparr>gt_inst = 10, gt_off = 0\<rparr>
                            else if s = ''t2'' then Some \<lparr>gt_inst = 20, gt_off = 0\<rparr>
                            else if s = ''t3'' then Some \<lparr>gt_inst = 30, gt_off = 0\<rparr> else None),
      lib_time_text = (\<lambda>t. []), lib_cursor_encode = snd, lib_cursor_decode = (\<lambda>s. None),
      lib_url_parse = (\<lambda>s. None)\<rparr>"

definition sample_evidence :: "string \<Rightarrow> WorkspaceDeleteStageEvidence" where
  "sample_evidence stage =
     (case WorkspaceDeleteStageEvidenceExpected stage of
        None \<Rightarrow> undefined
      | Some (result, kind) \<Rightarrow>
          \<lparr>we_Stage = stage, we_Result = result, we_ReasonCode = [], we_EvidenceKind = kind,
           we_ResourceID = ''res_1'', we_ProviderResourceID = ''ins_1'', we_ObservedAt = ''t3'',
           we_ReadbackID = ''rb_1'', we_ReadAttempts = 1, we_MutationAttempts = 0\<rparr>)"

definition sample_readback :: WorkspaceDeleteReadback where
  "sample_readback =
     \<lparr>wr_SchemaVersion = 1, wr_Provider = ''tencent'', wr_DeleteOperationID = ''del_1'',
      wr_LaunchOperationID = ''launch_1'', wr_AccountID = ''acct_1'', wr_WorkspaceID = ''ws_1'',
      wr_ObservedAt = ''t3'', wr_ReadbackID = ''rb_1'', wr_Result = ''completed'', wr_ReasonCode = [],
      wr_MutationCount = 0,
      wr_Facts = map (\<lambda>k. \<lparr>wf_Kind = k, wf_ResourceID = fst (ExpectedResourceID sample_delete_identity k),
        wf_Present = False, wf_Observed = True, wf_ProviderStatus = ''not_found'',
        wf_ObservedAt = ''t3'', wf_ReadbackID = ''rb_1'', wf_MutationCount = 0\<rparr>)
        WorkspaceDeleteRequiredResourceKinds\<rparr>"

lemma refund_product_bound:
  assumes "0 < charge" and "charge \<le> MaxInt64" and "0 < h" and "h \<le> 720"
  shows "quot (wrap64 (charge * h)) 720 \<le> charge"
proof (cases "charge * h \<le> MaxInt64")
  case True
  then have "int64_range (charge * h)"
    using assms mult_pos_pos [of charge h] unfolding int64_range_def MinInt64_def by linarith
  then have "quot (wrap64 (charge * h)) 720 = charge * h div 720"
    using assms by (simp add: quot_nonneg)
  also have "\<dots> \<le> charge * 720 div 720"
    using assms by (intro zdiv_mono1 mult_left_mono) auto
  finally show ?thesis by simp
next
  case False
  then have "MaxInt64 < charge * 720"
    using assms mult_left_mono [of h 720 charge] by linarith
  then have big: "MaxInt64 div 720 \<le> charge" by (simp add: MaxInt64_def)
  have "quot (wrap64 (charge * h)) 720 \<le> MaxInt64 div 720"
  proof (cases "0 \<le> wrap64 (charge * h)")
    case True
    then show ?thesis using wrap64_bounds by (simp add: quot_nonneg zdiv_mono1)
  next
    case neg: False
    then have "quot (wrap64 (charge * h)) 720 \<le> 0" by (simp add: quot_neg pos_imp_zdiv_nonneg_iff)
    then show ?thesis by (simp add: MaxInt64_def)
  qed
  with big show ?thesis by simp
qed

lemma refund_unfold:
  assumes "0 < charge" and "fulfilled \<noteq> 0" and "deleted \<noteq> 0" and "fulfilled < deleted"
    and h: "h = 720 - (time_sub deleted fulfilled + hour_ns - 1) div hour_ns"
  shows "PlatformWorkspaceDeleteRefundMicros charge fulfilled deleted =
           (if h \<le> 0 then Inr 0
            else if quot (wrap64 (charge * h)) 720 < 0 then Inl ''workspace_refund_amount_invalid''
            else Inr (quot (wrap64 (charge * h)) 720))"
    and "h \<le> 719"
proof -
  define used where "used = time_sub deleted fulfilled"
  have "0 < used" using assms(4) by (simp add: used_def time_sub_def MaxInt64_def)
  then show le: "h \<le> 719" by (simp add: h used_def [symmetric])
  have "used div hour_ns + (if used mod hour_ns \<noteq> 0 then 1 else 0) = (used + hour_ns - 1) div hour_ns"
    by (rule ceil_div_eq) simp
  then have eq: "WorkspaceRefundMonthlyHours -
      (used div hour_ns + (if used mod hour_ns \<noteq> 0 then 1 else 0)) = h"
    by (simp only: h used_def WorkspaceRefundMonthlyHours_def)
  show "PlatformWorkspaceDeleteRefundMicros charge fulfilled deleted =
           (if h \<le> 0 then Inr 0
            else if quot (wrap64 (charge * h)) 720 < 0 then Inl ''workspace_refund_amount_invalid''
            else Inr (quot (wrap64 (charge * h)) 720))"
    unfolding PlatformWorkspaceDeleteRefundMicros_def Let_def used_def [symmetric] eq
    using assms(1-4) le by (simp add: WorkspaceRefundMonthlyHours_def)
qed

text \<open>
  A platform refund is never negative and never exceeds the original charge, for every
  \<open>int64\<close> charge, even where the product of charge and hours overflows.
\<close>

theorem refund_within_charge:
  assumes "int64_range charge"
    and "PlatformWorkspaceDeleteRefundMicros charge fulfilled deleted = Inr refund"
  shows "0 \<le> refund \<and> refund \<le> charge"
proof -
  have pre: "0 < charge" "fulfilled \<noteq> 0" "deleted \<noteq> 0" "fulfilled < deleted"
    using assms(2) by (auto simp: PlatformWorkspaceDeleteRefundMicros_def split: if_splits)
  define h where "h = 720 - (time_sub deleted fulfilled + hour_ns - 1) div hour_ns"
  note R = refund_unfold [OF pre h_def]
  show ?thesis
  proof (cases "h \<le> 0")
    case False
    then have "quot (wrap64 (charge * h)) 720 \<le> charge"
      using R(2) pre(1) assms(1) by (intro refund_product_bound) (auto simp: int64_range_def)
    with False R(1) assms(2) show ?thesis by (auto split: if_splits)
  qed (use R(1) assms(2) pre(1) in simp)
qed

text \<open>
  C19: The refund is exact below the overflow bound: for a charge up to \<open>MaxInt64 div 720\<close> USD
  micros and a positive period, the refund is the charge times the unused part of the 720-hour
  month, with every started hour used, rounded down; it is 0 from 720 hours on and less than the
  charge always.
\<close>

theorem refund_exact:
  assumes "0 < charge" and "charge \<le> MaxInt64 div 720"
    and "fulfilled \<noteq> 0" and "deleted \<noteq> 0" and "fulfilled < deleted"
  shows "\<exists>refund. PlatformWorkspaceDeleteRefundMicros charge fulfilled deleted = Inr refund \<and>
           refund = charge * max 0 (720 - (deleted - fulfilled + hour_ns - 1) div hour_ns) div 720 \<and>
           refund < charge"
proof -
  define used where "used = time_sub deleted fulfilled"
  define h where "h = 720 - (used + hour_ns - 1) div hour_ns"
  define h' where "h' = 720 - (deleted - fulfilled + hour_ns - 1) div hour_ns"
  have u: "0 < used" "used \<le> deleted - fulfilled" "used \<noteq> deleted - fulfilled \<longrightarrow> used = MaxInt64"
    using assms(5) by (auto simp: used_def time_sub_def MaxInt64_def MinInt64_def)
  note R = refund_unfold [OF assms(1,3,4,5) h_def [unfolded used_def]]
  note h719 = R(2)
  have hh: "max 0 h = max 0 h'"
  proof (cases "used = deleted - fulfilled")
    case False
    then have "MaxInt64 \<le> deleted - fulfilled" "used = MaxInt64" using u by auto
    then have "h \<le> 0" "h' \<le> 0" by (simp_all add: h_def h'_def MaxInt64_def)
    then show ?thesis by simp
  qed (simp add: h_def h'_def)
  have exact: "quot (wrap64 (charge * h)) 720 = charge * h div 720" if "0 < h"
  proof -
    have "charge * h \<le> (MaxInt64 div 720) * 720"
      using assms(1,2) h719 that by (intro mult_mono) auto
    then have "int64_range (charge * h)"
      using assms(1) that by (simp add: int64_range_def MaxInt64_def MinInt64_def order.trans [of _ 0])
    then show ?thesis using assms(1) that by (simp add: quot_nonneg)
  qed
  have lt: "charge * max 0 h div 720 < charge"
  proof -
    have "charge * max 0 h < charge * 720" using assms(1) h719 by (simp add: max_def)
    then show ?thesis by (rule div_less_of_less_mult) simp
  qed
  have "PlatformWorkspaceDeleteRefundMicros charge fulfilled deleted = Inr (charge * max 0 h div 720)"
  proof (cases "0 < h")
    case True
    then have "0 \<le> charge * h div 720" using assms(1) by (simp add: pos_imp_zdiv_nonneg_iff)
    with True exact show ?thesis unfolding R(1) by simp
  qed (simp add: R(1))
  with hh lt show ?thesis by (auto simp: h'_def)
qed

theorem refund_within_charge_witness:
  "PlatformWorkspaceDeleteRefundMicros 30000000 1000 (1000 + 100 * hour_ns + 1) = Inr 25791666 \<and>
     0 \<le> (25791666 :: int) \<and> (25791666 :: int) \<le> 30000000"
proof -
  have "PlatformWorkspaceDeleteRefundMicros 30000000 1000 (1000 + 100 * hour_ns + 1) = Inr 25791666"
    by code_simp
  moreover have "int64_range 30000000" by code_simp
  ultimately show ?thesis using refund_within_charge by blast
qed

theorem refund_exact_witness:
  "\<exists>refund. PlatformWorkspaceDeleteRefundMicros 30000000 1000 (1000 + 100 * hour_ns + 1) = Inr refund \<and>
     refund < 30000000"
  using refund_exact [of 30000000 1000 "1000 + 100 * hour_ns + 1"] by (auto simp: MaxInt64_def)


text \<open>
  Above the bound the amount is wrong without an error: a charge of 25656111368163494 USD micros
  whose resource was deleted within the first hour is refunded nothing, where the unused part of the
  month is 25620477880152155 micros. The product of charge and hours wraps to a small positive number,
  which the check for a negative amount does not notice.
\<close>

theorem refund_overflow_unnoticed:
  "PlatformWorkspaceDeleteRefundMicros 25656111368163494 1 2 = Inr 0 \<and>
     (25656111368163494 * 719 div 720 :: int) = 25620477880152155"
  by code_simp

end
