(* ===== verification/Go_Decode.thy ===== *)
theory Go_Decode
  imports Go_Json
begin

text \<open>
  Decoding JSON into Go structs (\<open>encoding/json\<close>). A member selects the field of its name, or else a
  field whose name folds to the same key; null leaves a field as it is, and a value of another kind is
  an error. A strict decoder refuses a member that selects no field, a lax one skips it.
\<close>

definition resolve_field :: "string list \<Rightarrow> string \<Rightarrow> string option" where
  "resolve_field names k =
     (if k \<in> set names then Some k else List.find (\<lambda>n. fold_key n = fold_key k) names)"

fun decode_members ::
  "string list \<Rightarrow> (string \<Rightarrow> json \<Rightarrow> 'r \<Rightarrow> 'r option) \<Rightarrow> gomap \<Rightarrow> 'r \<Rightarrow> 'r option" where
  "decode_members names set_field [] r = Some r"
| "decode_members names set_field ((k, v) # m) r =
     (case resolve_field names k of
        None \<Rightarrow> None
      | Some n \<Rightarrow>
          (case set_field n v r of None \<Rightarrow> None | Some r' \<Rightarrow> decode_members names set_field m r'))"

definition decode_struct ::
  "string list \<Rightarrow> (string \<Rightarrow> json \<Rightarrow> 'r \<Rightarrow> 'r option) \<Rightarrow> json \<Rightarrow> 'r \<Rightarrow> 'r option" where
  "decode_struct names set_field v r =
     (case v of
        JObj m \<Rightarrow> decode_members names set_field (sort_members m) r
      | JNull \<Rightarrow> Some r
      | _ \<Rightarrow> None)"

definition decode_string :: "json \<Rightarrow> string \<Rightarrow> string option" where
  "decode_string v old = (case v of JStr s \<Rightarrow> Some s | JNull \<Rightarrow> Some old | _ \<Rightarrow> None)"

definition decode_int64 :: "json \<Rightarrow> int \<Rightarrow> int option" where
  "decode_int64 v old = (case v of JNum t \<Rightarrow> parse_int64 t | JNull \<Rightarrow> Some old | _ \<Rightarrow> None)"

fun decode_elements :: "(json \<Rightarrow> 'a option) \<Rightarrow> json list \<Rightarrow> 'a list option" where
  "decode_elements dec [] = Some []"
| "decode_elements dec (v # vs) =
     (case dec v of
        None \<Rightarrow> None
      | Some x \<Rightarrow> (case decode_elements dec vs of None \<Rightarrow> None | Some xs \<Rightarrow> Some (x # xs)))"

definition decode_slice :: "(json \<Rightarrow> 'a option) \<Rightarrow> json \<Rightarrow> 'a list option" where
  "decode_slice dec v = (case v of JArr vs \<Rightarrow> decode_elements dec vs | JNull \<Rightarrow> Some [] | _ \<Rightarrow> None)"

fun decode_lax ::
  "string list \<Rightarrow> (string \<Rightarrow> json \<Rightarrow> 'r \<Rightarrow> 'r option) \<Rightarrow> gomap \<Rightarrow> 'r \<Rightarrow> 'r option" where
  "decode_lax names set_field [] r = Some r"
| "decode_lax names set_field ((k, v) # m) r =
     (case resolve_field names k of
        None \<Rightarrow> decode_lax names set_field m r
      | Some n \<Rightarrow>
          (case set_field n v r of None \<Rightarrow> None | Some r' \<Rightarrow> decode_lax names set_field m r'))"

end
