(* ===== verification/Ledger_Decode.thy ===== *)
theory Ledger_Decode
  imports Ledger_Types Workspace_Delete Go_Decode
begin

text \<open>
  Strict decoding of the typed parts of a receipt: \<open>encoding/json\<close> into structs with unknown fields
  disallowed, for the closeout receipt, the application retirement and the deletion stage digests
  (\<open>packages/contracts/go\<close>, read by \<open>services/ledger/internal/ledger\<close>).
\<close>

section \<open>Closeout receipts\<close>

record WorkspaceLaunchCloseoutCharge =
  cc_Code :: string
  cc_UserID :: int
  cc_ChargeUSDMicros :: int
  cc_Status :: string

record WorkspaceLaunchCloseoutReceiptExecution =
  ce_OperationID :: string
  ce_AuthorizationID :: string
  ce_AuthorizedAt :: string
  ce_Reason :: string
  ce_Outcome :: string
  ce_ChargeConfirmation :: "WorkspaceLaunchCloseoutCharge option"
  ce_RefundedUSDMicros :: int
  ce_RefundOperationID :: string
  ce_FrozenAt :: string
  ce_KeyRevokedAt :: string
  ce_ResourcesAbsentAt :: string
  ce_CompletedAt :: string

record WorkspaceLaunchCloseoutReceiptCost =
  ck_Currency :: string
  ck_PriceVersion :: string
  ck_ChargeUSDMicros :: int
  ck_PeriodStart :: string
  ck_PaidThrough :: string

definition set_charge ::
  "string \<Rightarrow> json \<Rightarrow> WorkspaceLaunchCloseoutCharge \<Rightarrow> WorkspaceLaunchCloseoutCharge option" where
  "set_charge n v c =
     (if n = ''code'' then map_option (\<lambda>x. c\<lparr>cc_Code := x\<rparr>) (decode_string v (cc_Code c))
      else if n = ''userId'' then map_option (\<lambda>x. c\<lparr>cc_UserID := x\<rparr>) (decode_int64 v (cc_UserID c))
      else if n = ''chargeUsdMicros''
      then map_option (\<lambda>x. c\<lparr>cc_ChargeUSDMicros := x\<rparr>) (decode_int64 v (cc_ChargeUSDMicros c))
      else map_option (\<lambda>x. c\<lparr>cc_Status := x\<rparr>) (decode_string v (cc_Status c)))"

definition charge_fields :: "string list" where
  "charge_fields = [''code'', ''userId'', ''chargeUsdMicros'', ''status'']"

definition zero_charge :: WorkspaceLaunchCloseoutCharge where
  "zero_charge = \<lparr>cc_Code = [], cc_UserID = 0, cc_ChargeUSDMicros = 0, cc_Status = []\<rparr>"

definition decode_charge ::
  "json \<Rightarrow> WorkspaceLaunchCloseoutCharge option \<Rightarrow> WorkspaceLaunchCloseoutCharge option option" where
  \<comment> \<open>a pointer field: null is nil, an object is decoded into the value it points to\<close>
  "decode_charge v old =
     (case v of
        JNull \<Rightarrow> Some None
      | _ \<Rightarrow> map_option Some (decode_struct charge_fields set_charge v
               (case old of None \<Rightarrow> zero_charge | Some c \<Rightarrow> c)))"

definition execution_fields :: "string list" where
  "execution_fields =
     [''operationId'', ''authorizationId'', ''authorizedAt'', ''reason'', ''outcome'',
      ''chargeConfirmation'', ''refundedUsdMicros'', ''refundOperationId'', ''frozenAt'',
      ''keyRevokedAt'', ''resourcesAbsentAt'', ''completedAt'']"

definition set_execution ::
  "string \<Rightarrow> json \<Rightarrow> WorkspaceLaunchCloseoutReceiptExecution \<Rightarrow>
   WorkspaceLaunchCloseoutReceiptExecution option" where
  "set_execution n v e =
     (if n = ''operationId'' then map_option (\<lambda>x. e\<lparr>ce_OperationID := x\<rparr>) (decode_string v (ce_OperationID e))
      else if n = ''authorizationId''
      then map_option (\<lambda>x. e\<lparr>ce_AuthorizationID := x\<rparr>) (decode_string v (ce_AuthorizationID e))
      else if n = ''authorizedAt''
      then map_option (\<lambda>x. e\<lparr>ce_AuthorizedAt := x\<rparr>) (decode_string v (ce_AuthorizedAt e))
      else if n = ''reason'' then map_option (\<lambda>x. e\<lparr>ce_Reason := x\<rparr>) (decode_string v (ce_Reason e))
      else if n = ''outcome'' then map_option (\<lambda>x. e\<lparr>ce_Outcome := x\<rparr>) (decode_string v (ce_Outcome e))
      else if n = ''chargeConfirmation''
      then map_option (\<lambda>x. e\<lparr>ce_ChargeConfirmation := x\<rparr>) (decode_charge v (ce_ChargeConfirmation e))
      else if n = ''refundedUsdMicros''
      then map_option (\<lambda>x. e\<lparr>ce_RefundedUSDMicros := x\<rparr>) (decode_int64 v (ce_RefundedUSDMicros e))
      else if n = ''refundOperationId''
      then map_option (\<lambda>x. e\<lparr>ce_RefundOperationID := x\<rparr>) (decode_string v (ce_RefundOperationID e))
      else if n = ''frozenAt'' then map_option (\<lambda>x. e\<lparr>ce_FrozenAt := x\<rparr>) (decode_string v (ce_FrozenAt e))
      else if n = ''keyRevokedAt''
      then map_option (\<lambda>x. e\<lparr>ce_KeyRevokedAt := x\<rparr>) (decode_string v (ce_KeyRevokedAt e))
      else if n = ''resourcesAbsentAt''
      then map_option (\<lambda>x. e\<lparr>ce_ResourcesAbsentAt := x\<rparr>) (decode_string v (ce_ResourcesAbsentAt e))
      else map_option (\<lambda>x. e\<lparr>ce_CompletedAt := x\<rparr>) (decode_string v (ce_CompletedAt e)))"

definition zero_execution :: WorkspaceLaunchCloseoutReceiptExecution where
  "zero_execution =
     \<lparr>ce_OperationID = [], ce_AuthorizationID = [], ce_AuthorizedAt = [], ce_Reason = [],
      ce_Outcome = [], ce_ChargeConfirmation = None, ce_RefundedUSDMicros = 0,
      ce_RefundOperationID = [], ce_FrozenAt = [], ce_KeyRevokedAt = [], ce_ResourcesAbsentAt = [],
      ce_CompletedAt = []\<rparr>"

definition cost_fields :: "string list" where
  "cost_fields = [''currency'', ''priceVersion'', ''chargeUsdMicros'', ''periodStart'', ''paidThrough'']"

definition set_cost ::
  "string \<Rightarrow> json \<Rightarrow> WorkspaceLaunchCloseoutReceiptCost \<Rightarrow> WorkspaceLaunchCloseoutReceiptCost option"
where
  "set_cost n v c =
     (if n = ''currency'' then map_option (\<lambda>x. c\<lparr>ck_Currency := x\<rparr>) (decode_string v (ck_Currency c))
      else if n = ''priceVersion''
      then map_option (\<lambda>x. c\<lparr>ck_PriceVersion := x\<rparr>) (decode_string v (ck_PriceVersion c))
      else if n = ''chargeUsdMicros''
      then map_option (\<lambda>x. c\<lparr>ck_ChargeUSDMicros := x\<rparr>) (decode_int64 v (ck_ChargeUSDMicros c))
      else if n = ''periodStart''
      then map_option (\<lambda>x. c\<lparr>ck_PeriodStart := x\<rparr>) (decode_string v (ck_PeriodStart c))
      else map_option (\<lambda>x. c\<lparr>ck_PaidThrough := x\<rparr>) (decode_string v (ck_PaidThrough c)))"

definition zero_cost :: WorkspaceLaunchCloseoutReceiptCost where
  "zero_cost = \<lparr>ck_Currency = [], ck_PriceVersion = [], ck_ChargeUSDMicros = 0, ck_PeriodStart = [],
                ck_PaidThrough = []\<rparr>"

definition decodeCloseoutExecution :: "gomap option \<Rightarrow> WorkspaceLaunchCloseoutReceiptExecution option"
where
  "decodeCloseoutExecution m =
     decode_struct execution_fields set_execution (map_json m) zero_execution"

definition decodeCloseoutCost :: "gomap option \<Rightarrow> WorkspaceLaunchCloseoutReceiptCost option" where
  "decodeCloseoutCost m = decode_struct cost_fields set_cost (map_json m) zero_cost"

section \<open>Application retirement\<close>

record WorkspaceApplicationRuntimeImageRetirement =
  im_Image :: string
  im_State :: string

record WorkspaceApplicationRuntimeRetirementReceipt =
  rr_RuntimeID :: string
  rr_RuntimeOperationID :: string
  rr_State :: string
  rr_ImageRetirement :: "WorkspaceApplicationRuntimeImageRetirement list"

record WorkspaceApplicationSecretRetirementReceipt =
  sr_SecretRef :: string
  sr_Ownership :: string
  sr_State :: string

record WorkspaceApplicationRetirementReceipt =
  ar_CurrentDeploymentID :: string
  ar_Runtimes :: "WorkspaceApplicationRuntimeRetirementReceipt list"
  ar_Secrets :: "WorkspaceApplicationSecretRetirementReceipt list"
  ar_RetainedGatewayKeyIDs :: "int list"

definition decode_image :: "json \<Rightarrow> WorkspaceApplicationRuntimeImageRetirement option" where
  "decode_image v = decode_struct [''image'', ''state'']
     (\<lambda>n v r. if n = ''image'' then map_option (\<lambda>x. r\<lparr>im_Image := x\<rparr>) (decode_string v (im_Image r))
              else map_option (\<lambda>x. r\<lparr>im_State := x\<rparr>) (decode_string v (im_State r)))
     v \<lparr>im_Image = [], im_State = []\<rparr>"

definition decode_runtime :: "json \<Rightarrow> WorkspaceApplicationRuntimeRetirementReceipt option" where
  "decode_runtime v = decode_struct [''runtimeId'', ''runtimeOperationId'', ''state'', ''imageRetirement'']
     (\<lambda>n v r.
        if n = ''runtimeId'' then map_option (\<lambda>x. r\<lparr>rr_RuntimeID := x\<rparr>) (decode_string v (rr_RuntimeID r))
        else if n = ''runtimeOperationId''
        then map_option (\<lambda>x. r\<lparr>rr_RuntimeOperationID := x\<rparr>) (decode_string v (rr_RuntimeOperationID r))
        else if n = ''state'' then map_option (\<lambda>x. r\<lparr>rr_State := x\<rparr>) (decode_string v (rr_State r))
        else map_option (\<lambda>x. r\<lparr>rr_ImageRetirement := x\<rparr>) (decode_slice decode_image v))
     v \<lparr>rr_RuntimeID = [], rr_RuntimeOperationID = [], rr_State = [], rr_ImageRetirement = []\<rparr>"

definition decode_secret :: "json \<Rightarrow> WorkspaceApplicationSecretRetirementReceipt option" where
  "decode_secret v = decode_struct [''secretRef'', ''ownership'', ''state'']
     (\<lambda>n v r.
        if n = ''secretRef'' then map_option (\<lambda>x. r\<lparr>sr_SecretRef := x\<rparr>) (decode_string v (sr_SecretRef r))
        else if n = ''ownership''
        then map_option (\<lambda>x. r\<lparr>sr_Ownership := x\<rparr>) (decode_string v (sr_Ownership r))
        else map_option (\<lambda>x. r\<lparr>sr_State := x\<rparr>) (decode_string v (sr_State r)))
     v \<lparr>sr_SecretRef = [], sr_Ownership = [], sr_State = []\<rparr>"

definition decode_retirement :: "json \<Rightarrow> WorkspaceApplicationRetirementReceipt option" where
  "decode_retirement v =
     decode_struct [''currentDeploymentId'', ''runtimes'', ''secrets'', ''retainedGatewayKeyIds'']
     (\<lambda>n v r.
        if n = ''currentDeploymentId''
        then map_option (\<lambda>x. r\<lparr>ar_CurrentDeploymentID := x\<rparr>) (decode_string v (ar_CurrentDeploymentID r))
        else if n = ''runtimes''
        then map_option (\<lambda>x. r\<lparr>ar_Runtimes := x\<rparr>) (decode_slice decode_runtime v)
        else if n = ''secrets''
        then map_option (\<lambda>x. r\<lparr>ar_Secrets := x\<rparr>) (decode_slice decode_secret v)
        else map_option (\<lambda>x. r\<lparr>ar_RetainedGatewayKeyIDs := x\<rparr>)
               (decode_slice (\<lambda>v. decode_int64 v 0) v))
     v \<lparr>ar_CurrentDeploymentID = [], ar_Runtimes = [], ar_Secrets = [], ar_RetainedGatewayKeyIDs = []\<rparr>"

section \<open>Stage digests\<close>

definition decode_digest :: "json \<Rightarrow> WorkspaceDeleteStageEvidenceDigest option" where
  "decode_digest v = decode_struct
     [''stage'', ''result'', ''evidenceKind'', ''observedAt'', ''reasonCode'', ''evidenceRef'']
     (\<lambda>n v d.
        if n = ''stage'' then map_option (\<lambda>x. d\<lparr>wd_Stage := x\<rparr>) (decode_string v (wd_Stage d))
        else if n = ''result'' then map_option (\<lambda>x. d\<lparr>wd_Result := x\<rparr>) (decode_string v (wd_Result d))
        else if n = ''evidenceKind''
        then map_option (\<lambda>x. d\<lparr>wd_EvidenceKind := x\<rparr>) (decode_string v (wd_EvidenceKind d))
        else if n = ''observedAt''
        then map_option (\<lambda>x. d\<lparr>wd_ObservedAt := x\<rparr>) (decode_string v (wd_ObservedAt d))
        else if n = ''reasonCode''
        then map_option (\<lambda>x. d\<lparr>wd_ReasonCode := x\<rparr>) (decode_string v (wd_ReasonCode d))
        else map_option (\<lambda>x. d\<lparr>wd_EvidenceRef := x\<rparr>) (decode_string v (wd_EvidenceRef d)))
     v \<lparr>wd_Stage = [], wd_Result = [], wd_EvidenceKind = [], wd_ObservedAt = [], wd_ReasonCode = [],
        wd_EvidenceRef = []\<rparr>"

definition WorkspaceDeleteStageEvidenceDigestList ::
  "json \<Rightarrow> WorkspaceDeleteStageEvidenceDigest list option" where
  "WorkspaceDeleteStageEvidenceDigestList value =
     (if value = JNull then None else decode_slice decode_digest value)"

text \<open>\<open>json.Marshal\<close> of a digest list: declaration order, an empty reason omitted.\<close>

definition digest_json :: "WorkspaceDeleteStageEvidenceDigest \<Rightarrow> json" where
  "digest_json d = JObj (
     [(''stage'', JStr (wd_Stage d)), (''result'', JStr (wd_Result d)),
      (''evidenceKind'', JStr (wd_EvidenceKind d)), (''observedAt'', JStr (wd_ObservedAt d))] @
     (if wd_ReasonCode d = [] then [] else [(''reasonCode'', JStr (wd_ReasonCode d))]) @
     [(''evidenceRef'', JStr (wd_EvidenceRef d))])"

section \<open>Image references\<close>

fun cut_at :: "char \<Rightarrow> string \<Rightarrow> (string \<times> string) option" where
  \<comment> \<open>\<open>strings.Cut\<close> at one character\<close>
  "cut_at c [] = None"
| "cut_at c (x # xs) =
     (if x = c then Some ([], xs) else map_option (\<lambda>(a, b). (x # a, b)) (cut_at c xs))"

definition lower_hex :: "char \<Rightarrow> bool" where
  "lower_hex c \<longleftrightarrow> (CHR ''a'' \<le> c \<and> c \<le> CHR ''f'') \<or> (CHR ''0'' \<le> c \<and> c \<le> CHR ''9'')"

definition image_digest_pattern :: "string \<Rightarrow> bool" where
  \<comment> \<open>\<open>^sha256:[a-f0-9]{64}$\<close>\<close>
  "image_digest_pattern s =
     (case strip_prefix ''sha256:'' s of None \<Rightarrow> False | Some r \<Rightarrow> length r = 64 \<and> list_all lower_hex r)"

definition ValidWorkspaceImageReference :: "string \<Rightarrow> bool" where
  "ValidWorkspaceImageReference value =
     (case cut_at CHR 0x40 (trim_space value) of
        None \<Rightarrow> False
      | Some (repository, digest) \<Rightarrow>
          repository \<noteq> [] \<and> CHR 0x40 \<notin> set repository \<and> image_digest_pattern digest)"

section \<open>Lemmas\<close>

lemma decode_digest_json: "decode_digest (digest_json d) = Some d"
  by (cases "wd_ReasonCode d = []")
     (simp_all add: decode_digest_def digest_json_def decode_struct_def sort_members_def obj_keys_def
       obj_get_def resolve_field_def decode_string_def less_list_code)

lemma decode_digest_list:
  "WorkspaceDeleteStageEvidenceDigestList (JArr (map digest_json ds)) = Some ds"
proof -
  have "decode_elements decode_digest (map digest_json ds) = Some ds"
    by (induction ds) (simp_all add: decode_digest_json)
  then show ?thesis by (simp add: WorkspaceDeleteStageEvidenceDigestList_def decode_slice_def)
qed

end
