(* ===== verification/Ledger_Validation.thy ===== *)
theory Ledger_Validation
  imports Ledger_Decode
begin

text \<open>
  What the Ledger admits: the validators of \<open>services/ledger/internal/ledger/types.go\<close>,
  \<open>workspace_launch_closeout_receipt.go\<close> and \<open>workspace_application_receipt.go\<close> for receipts and
  reconciliation reports.
\<close>

section \<open>Forbidden keys\<close>

definition forbidden_keys :: "string list" where
  "forbidden_keys =
     [''apikey'', ''admintoken'', ''rawsub2apiresponse'', ''rawproviderresponse'', ''rawcredential'',
      ''credential'', ''password'', ''token'', ''secret'', ''signedurl'', ''presignedurl'',
      ''objectkey'', ''kubeconfig'']"

fun containsForbiddenJSONKey :: "json \<Rightarrow> bool"
  and forbidden_list :: "json list \<Rightarrow> bool"
  and forbidden_members :: "(string \<times> json) list \<Rightarrow> bool" where
  "containsForbiddenJSONKey (JObj m) = forbidden_members m"
| "containsForbiddenJSONKey (JArr xs) = forbidden_list xs"
| "containsForbiddenJSONKey JNull = False"
| "containsForbiddenJSONKey (JBool b) = False"
| "containsForbiddenJSONKey (JNum n) = False"
| "containsForbiddenJSONKey (JStr s) = False"
| "forbidden_list [] = False"
| "forbidden_list (x # xs) = (containsForbiddenJSONKey x \<or> forbidden_list xs)"
| "forbidden_members [] = False"
| "forbidden_members ((k, v) # m) =
     (to_lower k \<in> set forbidden_keys \<or> containsForbiddenJSONKey v \<or> forbidden_members m)"

text \<open>
  \<open>normalizedJSONValue\<close> marshals a Go value and decodes the text again; the result is the tree
  \<open>receipt_input_json\<close> or \<open>map_json\<close> gives, with the members of every map sorted and each key once.
\<close>

definition containsForbiddenReceiptKey :: "ReceiptInput \<Rightarrow> bool" where
  "containsForbiddenReceiptKey input =
     containsForbiddenJSONKey (receipt_input_json input)"

definition financial_prefixes :: "string list" where
  "financial_prefixes = [''cost'', ''refund'', ''debit'', ''wallet'', ''supersedes'']"

fun containsWorkspaceDeletionFinancialJSONField :: "json \<Rightarrow> bool"
  and financial_list :: "json list \<Rightarrow> bool"
  and financial_members :: "(string \<times> json) list \<Rightarrow> bool" where
  "containsWorkspaceDeletionFinancialJSONField (JObj m) = financial_members m"
| "containsWorkspaceDeletionFinancialJSONField (JArr xs) = financial_list xs"
| "containsWorkspaceDeletionFinancialJSONField JNull = False"
| "containsWorkspaceDeletionFinancialJSONField (JBool b) = False"
| "containsWorkspaceDeletionFinancialJSONField (JNum n) = False"
| "containsWorkspaceDeletionFinancialJSONField (JStr s) = False"
| "financial_list [] = False"
| "financial_list (x # xs) = (containsWorkspaceDeletionFinancialJSONField x \<or> financial_list xs)"
| "financial_members [] = False"
| "financial_members ((k, v) # m) =
     (list_ex (\<lambda>p. has_prefix (to_lower k) p) financial_prefixes \<or>
      containsWorkspaceDeletionFinancialJSONField v \<or> financial_members m)"

definition containsWorkspaceDeletionFinancialField :: "gomap option \<Rightarrow> bool" where
  "containsWorkspaceDeletionFinancialField value =
     containsWorkspaceDeletionFinancialJSONField (map_json value)"

section \<open>Billing costs\<close>

definition parsed_time :: "golib \<Rightarrow> gomap \<Rightarrow> string \<Rightarrow> gotime option" where
  "parsed_time lib m k = (case get_str m k of None \<Rightarrow> None | Some t \<Rightarrow> lib_parse_time lib t)"

definition validBillingCost :: "golib \<Rightarrow> gomap option \<Rightarrow> bool" where
  "validBillingCost lib c =
     (let cost = ents c in
      list_all (opaque_field cost)
        [''pricingVersion'', ''sub2apiRedeemCode'', ''resourceType'', ''resourceId''] \<and>
      list_all (\<lambda>k. parsed_time lib cost k \<noteq> None) [''periodStart'', ''paidThrough''] \<and>
      list_all (\<lambda>k. case get_int cost k of None \<Rightarrow> False | Some v \<Rightarrow> 0 \<le> v)
        [''monthlyPriceCnyCents'', ''chargeUsdMicros''] \<and>
      (case get_int cost ''sub2apiUserId'' of None \<Rightarrow> False | Some v \<Rightarrow> 0 < v))"

definition cost_field_count :: "string \<Rightarrow> nat" where
  "cost_field_count receiptType =
     (if receiptType = ''billing.workspace_purchased.v1'' then 11
      else if receiptType = ''billing.workspace_renewed.v1'' then 11
      else if receiptType = ''billing.workspace_expired.v1'' then 9
      else if receiptType = ''billing.workspace_refunded.v1'' then 13 else 0)"

definition cost_period_ok :: "golib \<Rightarrow> gomap \<Rightarrow> bool" where
  "cost_period_ok lib cost =
     (case parsed_time lib cost ''periodStart'' of
        None \<Rightarrow> False
      | Some periodStart \<Rightarrow>
          (case parsed_time lib cost ''paidThrough'' of
             None \<Rightarrow> False
           | Some paidThrough \<Rightarrow> gt_inst periodStart < gt_inst paidThrough))"

definition charges_ok :: "gomap \<Rightarrow> gomap \<Rightarrow> int \<Rightarrow> bool" where
  "charges_ok compute storage totalUsd =
     (case (get_int compute ''chargeUsdMicros'', get_int storage ''chargeUsdMicros'',
            get_int storage ''sizeGb'') of
        (Some computeCost, Some storageCost, Some storageGB) \<Rightarrow>
          0 < computeCost \<and> 0 < storageCost \<and> 0 < storageGB \<and>
          computeCost \<le> MaxInt64 - storageCost \<and> wrap64 (computeCost + storageCost) = totalUsd
      | _ \<Rightarrow> False)"

definition components_ok :: "gomap \<Rightarrow> int \<Rightarrow> bool" where
  "components_ok components totalUsd =
     (case (get_map components ''compute'', get_map components ''storage'') of
        (Some compute, Some storage) \<Rightarrow>
          map_len components = 2 \<and> map_len compute = 3 \<and> map_len storage = 4 \<and>
          is_str compute ''resourceType'' ''compute'' \<and> is_str storage ''resourceType'' ''storage'' \<and>
          opaque_field compute ''resourceId'' \<and> opaque_field storage ''resourceId'' \<and>
          charges_ok compute storage totalUsd
      | _ \<Rightarrow> False)"

definition settlement_ok :: "gomap \<Rightarrow> string \<Rightarrow> int \<Rightarrow> bool" where
  "settlement_ok cost receiptType totalUsd =
     (if receiptType = ''billing.workspace_expired.v1'' then True
      else case get_int cost ''sub2apiUserId'' of
        None \<Rightarrow> False
      | Some userID \<Rightarrow>
          if userID \<le> 0 \<or> \<not> opaque_field cost ''sub2apiRedeemCode'' then False
          else if receiptType = ''billing.workspace_purchased.v1'' \<or>
                  receiptType = ''billing.workspace_renewed.v1'' then True
          else get_int cost ''refundUsdMicros'' = Some totalUsd \<and> opaque_field cost ''sub2apiRefundCode'')"

definition validWorkspaceBillingCost :: "golib \<Rightarrow> gomap option \<Rightarrow> string \<Rightarrow> bool" where
  "validWorkspaceBillingCost lib c receiptType =
     (let cost = ents c;
          charged = (receiptType = ''billing.workspace_purchased.v1'' \<or>
                     receiptType = ''billing.workspace_renewed.v1'');
          balance = (if charged then obj_get cost ''postChargeBalanceUsdMicros'' else None);
          wantFields = cost_field_count receiptType + (if balance = None then 0 else 1) in
      if (case balance of None \<Rightarrow> False
          | Some b \<Rightarrow> (case integerValue b of None \<Rightarrow> True | Some v \<Rightarrow> v < 0))
      then False
      else if map_len cost \<noteq> wantFields \<or> \<not> is_str cost ''currency'' ''USD'' \<or>
              \<not> is_str cost ''billingUnit'' ''calendar_month'' \<or> \<not> is_str cost ''resourceType'' ''workspace''
      then False
      else if \<not> list_all (opaque_field cost) [''priceVersion'', ''resourceId''] then False
      else if \<not> cost_period_ok lib cost then False
      else case (get_int cost ''totalUsdMicros'', get_map cost ''components'') of
        (Some totalUsd, Some components) \<Rightarrow>
          if totalUsd \<le> 0 then False
          else if \<not> components_ok components totalUsd then False
          else settlement_ok cost receiptType totalUsd
      | _ \<Rightarrow> False)"

section \<open>Typed receipts\<close>

definition empty_maps :: "gomap option list \<Rightarrow> bool" where
  "empty_maps ms = list_all (\<lambda>m. glen m = 0) ms"

definition validWalletAdjustmentReceipt :: "ReceiptInput \<Rightarrow> bool" where
  "validWalletAdjustmentReceipt i =
     (if r_Status i \<noteq> ''completed'' \<or> r_Surface i \<noteq> ''control_plane'' \<or> r_AccountID i = [] \<or>
         r_WorkspaceID i \<noteq> [] \<or> r_OrganizationID i \<noteq> [] \<or> r_ProjectID i \<noteq> [] \<or> r_TaskID i \<noteq> [] \<or>
         r_ApprovalID i \<noteq> [] \<or> r_JobID i \<noteq> [] \<or> r_ArtifactID i \<noteq> [] \<or> r_ReviewID i \<noteq> [] \<or>
         r_ContinuationID i \<noteq> [] \<or> r_SupersedesReceiptID i \<noteq> [] \<or> r_RequestID i = [] \<or>
         glen (r_Actor i) \<noteq> 1 \<or> glen (r_Execution i) \<noteq> 3 \<or> glen (r_Owner i) \<noteq> 1 \<or>
         \<not> empty_maps [r_Plan i, r_Environment i, r_OutputRefs i, r_ReviewerChecks i, r_Cost i,
                        r_Continuation i]
      then False
      else case (get_str (ents (r_Execution i)) ''operationId'', get_str (ents (r_Execution i)) ''kind'',
                 get_int (ents (r_Execution i)) ''amountUsdMicros'',
                 get_str (ents (r_Owner i)) ''accountId'') of
        (Some operationID, Some kind, Some amount, Some owner) \<Rightarrow>
          if \<not> isOpaqueReference operationID \<or> r_RequestID i \<noteq> operationID \<or> amount \<le> 0 \<or>
             \<not> opaque_field (ents (r_Actor i)) ''userId'' \<or> owner \<noteq> r_AccountID i \<or>
             \<not> opaque_field (ents (r_InputRefs i)) ''balanceHistoryRef''
          then False
          else if kind = ''recharge'' \<or> kind = ''debit''
          then glen (r_InputRefs i) = 1 \<and> get_str (ents (r_InputRefs i)) ''relatedOperationId'' = None
          else if kind = ''business_refund''
          then glen (r_InputRefs i) = 2 \<and> opaque_field (ents (r_InputRefs i)) ''relatedOperationId''
          else False
      | _ \<Rightarrow> False)"

definition nonblank_field :: "gomap \<Rightarrow> string \<Rightarrow> bool" where
  "nonblank_field m k = (case get_str m k of None \<Rightarrow> False | Some v \<Rightarrow> trim_space v \<noteq> [])"

definition validWorkspaceGatewayKeyRotationReceipt :: "ReceiptInput \<Rightarrow> bool" where
  "validWorkspaceGatewayKeyRotationReceipt i =
     (if r_Status i \<noteq> ''completed'' \<or> r_Surface i \<noteq> ''control_plane'' \<or> r_AccountID i = [] \<or>
         glen (r_Execution i) \<noteq> 3 \<or> glen (r_OutputRefs i) \<noteq> 1 \<or> glen (r_Owner i) \<noteq> 1
      then False
      else case (get_int (ents (r_Execution i)) ''oldKeyId'', get_int (ents (r_Execution i)) ''newKeyId'') of
        (Some oldKeyID, Some newKeyID) \<Rightarrow>
          nonblank_field (ents (r_Execution i)) ''operationId'' \<and> 0 < oldKeyID \<and> 0 < newKeyID \<and>
          oldKeyID \<noteq> newKeyID \<and> nonblank_field (ents (r_OutputRefs i)) ''secretFingerprint'' \<and>
          nonblank_field (ents (r_Owner i)) ''userId''
      | _ \<Rightarrow> False)"

section \<open>Workspace resource receipts\<close>

definition validWorkspaceDeletionStageEvidenceSummary :: "golib \<Rightarrow> json \<Rightarrow> json \<Rightarrow> bool" where
  "validWorkspaceDeletionStageEvidenceSummary lib evidence version =
     (if evidence = JNull then version = JNull
      else if integerValue version \<noteq> Some 1 then False
      else case WorkspaceDeleteStageEvidenceDigestList evidence of
        None \<Rightarrow> False
      | Some digests \<Rightarrow> ValidWorkspaceDeleteStageEvidenceDigests lib digests)"

fun images_ok :: "WorkspaceApplicationRuntimeImageRetirement list \<Rightarrow> string list \<Rightarrow> bool" where
  "images_ok [] seen = True"
| "images_ok (im # ims) seen =
     (ValidWorkspaceImageReference (im_Image im) \<and> im_Image im \<notin> set seen \<and>
      im_State im \<in> {''removed'', ''retained_reference'', ''absent'', ''instance_required''} \<and>
      images_ok ims (im_Image im # seen))"

fun runtimes_ok :: "WorkspaceApplicationRuntimeRetirementReceipt list \<Rightarrow> string list \<Rightarrow> bool" where
  "runtimes_ok [] seen = True"
| "runtimes_ok (r # rs) seen =
     (isOpaqueReference (rr_RuntimeID r) \<and> isOpaqueReference (rr_RuntimeOperationID r) \<and>
      rr_RuntimeOperationID r \<notin> set seen \<and> rr_State r = ''absent'' \<and>
      images_ok (rr_ImageRetirement r) [] \<and> runtimes_ok rs (rr_RuntimeOperationID r # seen))"

fun secrets_ok :: "WorkspaceApplicationSecretRetirementReceipt list \<Rightarrow> string list \<Rightarrow> bool" where
  "secrets_ok [] seen = True"
| "secrets_ok (s # ss) seen =
     (isOpaqueReference (sr_SecretRef s) \<and> sr_SecretRef s \<notin> set seen \<and>
      ((sr_Ownership s = ''workspace_gateway'' \<and> sr_State s = ''absent'') \<or>
       (sr_Ownership s = ''external'' \<and> sr_State s = ''retained'')) \<and>
      secrets_ok ss (sr_SecretRef s # seen))"

fun keys_increase :: "int \<Rightarrow> int list \<Rightarrow> bool" where
  "keys_increase previous [] = True"
| "keys_increase previous (k # ks) = (previous < k \<and> keys_increase k ks)"

definition validWorkspaceApplicationRetirementReceipt :: "ReceiptInput \<Rightarrow> bool" where
  "validWorkspaceApplicationRetirementReceipt i =
     (case decode_retirement (json_canon (get_any (ents (r_Execution i)) ''applicationRetirement'')) of
        None \<Rightarrow> False
      | Some retirement \<Rightarrow>
          if length (ar_Runtimes retirement) + length (ar_Secrets retirement) +
             length (ar_RetainedGatewayKeyIDs retirement) = 0 then False
          else if ar_CurrentDeploymentID retirement \<noteq> [] \<and>
                  \<not> isOpaqueReference (ar_CurrentDeploymentID retirement) then False
          else if \<not> runtimes_ok (ar_Runtimes retirement) [] \<or> \<not> secrets_ok (ar_Secrets retirement) [] \<or>
                  \<not> keys_increase 0 (ar_RetainedGatewayKeyIDs retirement) then False
          else if ar_RetainedGatewayKeyIDs retirement \<noteq> []
          then is_str (ents (r_OutputRefs i)) ''applicationGatewayKeysStatus'' ''retained''
          else \<not> map_has (ents (r_OutputRefs i)) ''applicationGatewayKeysStatus'')"

definition validWorkspaceDeletionOutputShape :: "ReceiptInput \<Rightarrow> bool" where
  "validWorkspaceDeletionOutputShape i =
     (let out = ents (r_OutputRefs i);
          key = map_has out ''workspaceKeyStatus''; keys = map_has out ''applicationGatewayKeysStatus'' in
      if key \<and> \<not> is_str out ''workspaceKeyStatus'' ''absent'' then False
      else if keys \<and> \<not> is_str out ''applicationGatewayKeysStatus'' ''retained'' then False
      else if keys \<and> \<not> map_has (ents (r_Execution i)) ''applicationRetirement'' then False
      else map_len out = 6 + (if key then 1 else 0) + (if keys then 1 else 0))"

definition validCanonicalWorkspaceResourceReceiptIdentity :: "golib \<Rightarrow> ReceiptInput \<Rightarrow> bool" where
  "validCanonicalWorkspaceResourceReceiptIdentity lib i =
     (let ex = ents (r_Execution i); ow = ents (r_Owner i) in
      if r_Status i \<noteq> ''completed'' \<or> r_Surface i \<noteq> ''control_plane'' \<or>
         \<not> isOpaqueReference (r_AccountID i) \<or> \<not> isOpaqueReference (r_WorkspaceID i) \<or>
         \<not> isOpaqueReference (r_RequestID i) \<or> r_OrganizationID i \<noteq> [] \<or> r_ProjectID i \<noteq> [] \<or>
         r_TaskID i \<noteq> [] \<or> r_ApprovalID i \<noteq> [] \<or> r_JobID i \<noteq> [] \<or> r_ArtifactID i \<noteq> [] \<or>
         r_ReviewID i \<noteq> [] \<or> r_ContinuationID i \<noteq> [] \<or> glen (r_Owner i) \<noteq> 3
      then False
      else if \<not> is_str ow ''accountId'' (r_AccountID i) \<or> \<not> is_str ow ''workspaceId'' (r_WorkspaceID i) \<or>
              \<not> opaque_field ow ''ownerUserId''
      then False
      else if \<not> is_str ex ''operationId'' (r_RequestID i) \<or> \<not> is_str ex ''resourceType'' ''workspace'' \<or>
              \<not> is_str ex ''resourceId'' (r_WorkspaceID i)
      then False
      else
        let retired = map_has ex ''applicationRetirement'';
            evidence = get_any ex ''stageEvidence''; version = get_any ex ''stageEvidenceSchemaVersion'';
            summary = map_has ex ''stageEvidence'' \<or> map_has ex ''stageEvidenceSchemaVersion'';
            identityFields = int (glen (r_Execution i)) - (if retired then 1 else 0) -
                             (if summary then 2 else 0) in
        if retired \<and> (r_Type i \<noteq> ''workspace.deleted.v1'' \<or> \<not> validWorkspaceApplicationRetirementReceipt i)
        then False
        else if summary \<and> (r_Type i \<noteq> ''workspace.deleted.v1'' \<or>
                            \<not> validWorkspaceDeletionStageEvidenceSummary lib evidence version)
        then False
        else if map_has ex ''provisioningMode''
        then is_str ex ''provisioningMode'' ''resource_only'' \<and> identityFields = 7 \<and>
             list_all (opaque_field ex) [''computeAllocationId'', ''storageId'', ''attachmentId'']
        else if identityFields \<noteq> 11 then False
        else list_all (opaque_field ex)
               [''computeAllocationId'', ''storageId'', ''attachmentId'', ''runtimeId'',
                ''workspaceKeyFingerprint'', ''runtimeServiceName'', ''gatewaySecretRef''] \<and>
             (case get_int ex ''workspaceApiKeyId'' of None \<Rightarrow> False | Some keyID \<Rightarrow> 0 < keyID))"

definition validWorkspaceLaunchReceipt :: "golib \<Rightarrow> ReceiptInput \<Rightarrow> bool" where
  "validWorkspaceLaunchReceipt lib i =
     (if \<not> validCanonicalWorkspaceResourceReceiptIdentity lib i \<or>
         r_IdempotencyKey i \<noteq> r_RequestID i @ '':purchase-receipt'' \<or> r_SupersedesReceiptID i \<noteq> [] \<or>
         \<not> empty_maps [r_Actor i, r_Plan i, r_Environment i, r_InputRefs i, r_OutputRefs i,
                        r_ReviewerChecks i, r_Continuation i]
      then False
      else if r_Type i = ''workspace.created'' then glen (r_Cost i) = 0
      else r_Type i = ''billing.workspace_purchased.v1'')"

definition validWorkspaceDeletionReceipt :: "golib \<Rightarrow> ReceiptInput \<Rightarrow> bool" where
  "validWorkspaceDeletionReceipt lib i =
     (if \<not> validCanonicalWorkspaceResourceReceiptIdentity lib i \<or>
         r_IdempotencyKey i \<noteq> r_RequestID i @ '':deletion-receipt'' \<or> glen (r_InputRefs i) \<noteq> 1 \<or>
         \<not> validWorkspaceDeletionOutputShape i \<or> glen (r_Cost i) \<noteq> 0 \<or> r_SupersedesReceiptID i \<noteq> [] \<or>
         \<not> empty_maps [r_Actor i, r_Plan i, r_Environment i, r_ReviewerChecks i, r_Continuation i]
      then False
      else if \<not> opaque_field (ents (r_InputRefs i)) ''launchReceiptId'' then False
      else if \<not> list_all (\<lambda>f. is_str (ents (r_OutputRefs i)) f ''absent'')
                [''runtimeStatus'', ''gatewaySecretStatus'', ''attachmentStatus'', ''storageStatus'',
                 ''computeStatus'', ''workspaceStatus''] then False
      else if list_ex containsWorkspaceDeletionFinancialField
                [r_Actor i, r_Plan i, r_Execution i, r_Environment i, r_InputRefs i, r_OutputRefs i,
                 r_ReviewerChecks i, r_Cost i, r_Owner i, r_Continuation i] then False
      else validWorkspaceDeletionStageEvidenceSummary lib (get_any (ents (r_Execution i)) ''stageEvidence'')
             (get_any (ents (r_Execution i)) ''stageEvidenceSchemaVersion''))"

section \<open>Closeout receipts\<close>

fun stamps_ordered :: "golib \<Rightarrow> time \<Rightarrow> string list \<Rightarrow> bool" where
  "stamps_ordered lib previous [] = True"
| "stamps_ordered lib previous (s # ss) =
     (case lib_parse_time lib s of
        None \<Rightarrow> False
      | Some current \<Rightarrow>
          if gt_inst current < previous then False else stamps_ordered lib (gt_inst current) ss)"

definition validWorkspaceLaunchCloseoutReceipt :: "golib \<Rightarrow> ReceiptInput \<Rightarrow> bool" where
  "validWorkspaceLaunchCloseoutReceipt lib i =
     (if r_Status i \<noteq> ''completed'' \<or> r_Surface i \<noteq> ''control_plane'' \<or> r_AccountID i = [] \<or>
         r_WorkspaceID i = [] \<or> r_RequestID i = [] \<or>
         r_IdempotencyKey i \<noteq> r_RequestID i @ '':closeout:ledger'' \<or> r_SupersedesReceiptID i \<noteq> [] \<or>
         r_OrganizationID i \<noteq> [] \<or> r_ProjectID i \<noteq> [] \<or> r_TaskID i \<noteq> [] \<or> r_ApprovalID i \<noteq> [] \<or>
         r_JobID i \<noteq> [] \<or> r_ArtifactID i \<noteq> [] \<or> r_ReviewID i \<noteq> [] \<or> r_ContinuationID i \<noteq> [] \<or>
         glen (r_Actor i) \<noteq> 1 \<or>
         glen (r_Plan i) + glen (r_Environment i) + glen (r_InputRefs i) + glen (r_OutputRefs i) +
         glen (r_ReviewerChecks i) + glen (r_Owner i) + glen (r_Continuation i) \<noteq> 0
      then False
      else if \<not> opaque_field (ents (r_Actor i)) ''userId'' then False
      else case (decodeCloseoutExecution (r_Execution i), decodeCloseoutCost (r_Cost i)) of
        (Some execution, Some cost) \<Rightarrow>
          if ce_OperationID execution \<noteq> r_RequestID i \<or> \<not> isOpaqueReference (ce_AuthorizationID execution) \<or>
             ce_Reason execution = [] \<or> ck_Currency cost \<noteq> ''USD'' \<or> ck_PriceVersion cost = []
          then False
          else if \<not> stamps_ordered lib 0
                    ([ce_AuthorizedAt execution, ce_FrozenAt execution] @
                     (if ce_KeyRevokedAt execution = [] then [] else [ce_KeyRevokedAt execution]) @
                     [ce_ResourcesAbsentAt execution, ce_CompletedAt execution])
          then False
          else if ce_Outcome execution = ''failed''
          then ce_ChargeConfirmation execution = None \<and> ce_RefundedUSDMicros execution = 0 \<and>
               ce_RefundOperationID execution = [] \<and> ck_ChargeUSDMicros cost = 0 \<and>
               ck_PeriodStart cost = [] \<and> ck_PaidThrough cost = []
          else if ce_Outcome execution = ''refunded''
          then (case (ce_ChargeConfirmation execution, lib_parse_time lib (ck_PeriodStart cost),
                      lib_parse_time lib (ck_PaidThrough cost)) of
                  (Some charge, Some start, Some stop) \<Rightarrow>
                    cc_Status charge = ''used'' \<and> 0 < cc_UserID charge \<and> isOpaqueReference (cc_Code charge) \<and>
                    0 < cc_ChargeUSDMicros charge \<and> cc_ChargeUSDMicros charge = ck_ChargeUSDMicros cost \<and>
                    ce_RefundedUSDMicros execution = ck_ChargeUSDMicros cost \<and>
                    (ce_RefundOperationID execution = [] \<or>
                     isOpaqueReference (ce_RefundOperationID execution)) \<and>
                    gt_inst start < gt_inst stop
                | _ \<Rightarrow> False)
          else False
      | _ \<Rightarrow> False)"

section \<open>Receipt inputs\<close>

definition typed_owner_types :: "string list" where
  "typed_owner_types =
     [''workspace.local_no_charge.v1'', ''workspace.wallet_action.v1'', ''workspace.provider_action.v1'',
      ''package.uploaded.v1'', ''build.artifact_confirmed.v1'', ''build.failed.v1'',
      ''capability.version_registered.v1'', ''serve.agent_readiness_observed.v1'',
      ''catalog.policy_changed.v1'', ''serve.access_observed.v1'', ''fabric.resources_observed.v1'',
      ''wallet.operation_observed.v1'']"

definition allowed_statuses :: "string list" where
  "allowed_statuses =
     [''planned'', ''approved'', ''running'', ''completed'', ''failed'', ''timed_out'', ''cancelled'',
      ''review_required'', ''review_blocked'']"

definition billing_cost_valid :: "golib \<Rightarrow> ReceiptInput \<Rightarrow> bool" where
  "billing_cost_valid lib i =
     (if has_prefix (r_Type i) ''billing.'' \<and> has_suffix (r_Type i) ''.v1''
      then if r_Type i \<in> {''billing.resource_purchased.v1'', ''billing.resource_renewed.v1'',
                          ''billing.resource_expired.v1'', ''billing.resource_refunded.v1'',
                          ''billing.charge_review_required.v1''} then False
           else if r_Type i = ''billing.workspace_closed.v1'' then validWorkspaceLaunchCloseoutReceipt lib i
           else if r_Type i = ''billing.reconciliation.v1'' then validBillingCost lib (r_Cost i)
           else if r_Type i \<in> {''billing.workspace_purchased.v1'', ''billing.workspace_renewed.v1'',
                               ''billing.workspace_expired.v1'', ''billing.workspace_refunded.v1''}
           then r_Status i = ''completed'' \<and> validWorkspaceBillingCost lib (r_Cost i) (r_Type i) \<and>
                is_str (ents (r_Cost i)) ''resourceId'' (r_WorkspaceID i)
           else False
      else True)"

definition validateReceiptInput :: "golib \<Rightarrow> ReceiptInput \<Rightarrow> ledger_error option" where
  "validateReceiptInput lib i =
     (if r_Type i \<in> set typed_owner_types then Some ErrInvalidReceiptInput
      else if r_Type i = [] \<or> r_Status i = [] \<or> r_Surface i = [] \<or> r_IdempotencyKey i = [] \<or>
              (r_WorkspaceID i = [] \<and> r_Type i \<noteq> ''gateway.wallet_adjustment.v1'')
      then Some ErrInvalidReceiptInput
      else if r_Type i = ''artifact.manifest.v1'' \<or> r_Type i = ''review.result.v1''
      then Some ErrInvalidReceiptInput
      else if (r_ContinuationID i \<noteq> [] \<or> 0 < glen (r_Continuation i)) \<and>
              (r_OrganizationID i = [] \<or> r_WorkspaceID i = [] \<or> r_ProjectID i = [] \<or>
               r_TaskID i = [] \<or> r_JobID i = [])
      then Some ErrInvalidReceiptInput
      else let rotationEvidenceValid =
                 (r_Type i \<noteq> ''workspace.gateway_key_rotated.v1'' \<or> validWorkspaceGatewayKeyRotationReceipt i);
               walletAdjustmentValid =
                 (r_Type i \<noteq> ''gateway.wallet_adjustment.v1'' \<or> validWalletAdjustmentReceipt i);
               launchEvidenceValid =
                 ((r_Type i \<noteq> ''billing.workspace_purchased.v1'' \<and> r_Type i \<noteq> ''workspace.created'') \<or>
                  validWorkspaceLaunchReceipt lib i);
               deletionEvidenceValid =
                 (r_Type i \<noteq> ''workspace.deleted.v1'' \<or> validWorkspaceDeletionReceipt lib i) in
      if r_Status i \<notin> set allowed_statuses \<or> containsForbiddenReceiptKey i \<or>
         \<not> billing_cost_valid lib i \<or> \<not> rotationEvidenceValid \<or> \<not> walletAdjustmentValid \<or>
         \<not> launchEvidenceValid \<or> \<not> deletionEvidenceValid
      then Some ErrInvalidReceiptInput else None)"

end
