(* ===== verification/Ledger_Reconciliation.thy ===== *)
theory Ledger_Reconciliation
  imports Ledger_Validation
begin

text \<open>
  Reconciliation reports (\<open>services/ledger/internal/ledger/types.go\<close>): which reports the Ledger
  records, and when a recorded result may be replayed.
\<close>

definition reconciliationExceptionCodes :: "string list" where
  "reconciliationExceptionCodes =
     [''billing_operation_invalid'', ''sub2api_balance_history_unavailable'', ''sub2api_charge_missing'',
      ''sub2api_charge_mismatch'', ''sub2api_refund_missing'', ''sub2api_refund_mismatch'',
      ''billing_refund_source_invalid'', ''billing_refund_limit_exceeded'',
      ''billing_transaction_duplicate'', ''fabric_operations_unavailable'', ''fabric_operation_missing'',
      ''fabric_operation_mismatch'', ''ledger_receipts_unavailable'', ''ledger_receipt_missing'',
      ''ledger_receipt_mismatch'']"

definition exception_identity :: "json \<Rightarrow> string option" where
  \<comment> \<open>the body of the loop over the exceptions: the identity it marks, or a refusal\<close>
  "exception_identity v =
     (case v of
        JObj ex \<Rightarrow>
          (case (get_str ex ''resourceType'', get_str ex ''resourceId'', get_str ex ''code'') of
             (Some resourceType, Some resourceID, Some code) \<Rightarrow>
               if resourceType \<notin> {''compute'', ''storage'', ''workspace''} \<or>
                  \<not> isOpaqueReference resourceID \<or> code \<notin> set reconciliationExceptionCodes then None
               else if map_has ex ''operationId''
               then (case (get_str ex ''operationId'', get_str ex ''accountId'', get_str ex ''workspaceId'',
                           get_str ex ''kind'') of
                       (Some operation, Some account, Some workspace, Some kind) \<Rightarrow>
                         if \<not> isOpaqueReference operation \<or> \<not> isOpaqueReference account \<or>
                            (workspace \<noteq> [] \<and> \<not> isOpaqueReference workspace) \<or>
                            (resourceType = ''workspace'' \<and> workspace \<noteq> [] \<and> workspace \<noteq> resourceID) \<or>
                            kind \<notin> {''purchase'', ''renewal'', ''refund''}
                         then None
                         else Some (account @ [CHR 0x00] @ operation @ [CHR 0x00] @ kind)
                     | _ \<Rightarrow> None)
               else if list_ex (map_has ex) [''accountId'', ''workspaceId'', ''kind''] then None
               else Some (resourceType @ [CHR 0x00] @ resourceID)
           | _ \<Rightarrow> None)
      | _ \<Rightarrow> None)"

fun exception_identities :: "json list \<Rightarrow> string list \<Rightarrow> string list option" where
  \<comment> \<open>\<open>exceptionResources\<close> as the list of its keys\<close>
  "exception_identities [] seen = Some seen"
| "exception_identities (v # vs) seen =
     (case exception_identity v of
        None \<Rightarrow> None
      | Some identity \<Rightarrow> exception_identities vs (List.insert identity seen))"

definition validateReconciliationReport :: "gomap option \<Rightarrow> ledger_error option" where
  "validateReconciliationReport report =
     (case map_json report of
        JObj normalized \<Rightarrow>
          if containsForbiddenJSONKey (JObj normalized) then Some ErrInvalidReconciliationInput
          else (case (get_str normalized ''id'', get_str normalized ''status'',
                      get_map (ents report) ''counts'', get_arr normalized ''exceptions'') of
            (Some rid, Some status, Some counts, Some exceptions) \<Rightarrow>
              if trim_space rid = [] \<or> (status \<noteq> ''ok'' \<and> status \<noteq> ''mismatch'')
              then Some ErrInvalidReconciliationInput
              else (case (get_int counts ''billingOperations'', get_int counts ''matched'',
                          (if map_has counts ''pending'' then get_int counts ''pending'' else Some 0),
                          get_int counts ''exceptions'') of
                (Some checked, Some matched, Some pending, Some exceptionCount) \<Rightarrow>
                  if pending < 0 \<or> checked < 0 \<or> matched < 0 \<or> exceptionCount < 0 \<or> checked < matched \<or>
                     wrap64 (checked - matched) < pending \<or> exceptionCount \<noteq> int (length exceptions)
                  then Some ErrInvalidReconciliationInput
                  else if \<not> list_all (\<lambda>k. case get_int counts k of None \<Rightarrow> False | Some c \<Rightarrow> 0 \<le> c)
                              (obj_keys counts)
                  then Some ErrInvalidReconciliationInput
                  else (case exception_identities exceptions [] of
                    None \<Rightarrow> Some ErrInvalidReconciliationInput
                  | Some resources \<Rightarrow>
                      if wrap64 (wrap64 (checked - matched) - pending) \<noteq> int (length resources) \<or>
                         (status = ''ok'' \<and> exceptions \<noteq> []) \<or> (status = ''mismatch'' \<and> exceptions = [])
                      then Some ErrInvalidReconciliationInput else None)
              | _ \<Rightarrow> Some ErrInvalidReconciliationInput)
          | _ \<Rightarrow> Some ErrInvalidReconciliationInput)
      | _ \<Rightarrow> Some ErrInvalidReconciliationInput)"

definition validateReconciliationInput :: "ReconciliationInput \<Rightarrow> ledger_error option" where
  "validateReconciliationInput i =
     (if trim_space (ci_IdempotencyKey i) = [] \<or> validateReconciliationReport (ci_Report i) \<noteq> None
      then Some ErrInvalidReconciliationInput else None)"

definition stringFromAny :: "gomap option \<Rightarrow> string \<Rightarrow> string" where
  "stringFromAny m k = coalesce_str (get_str (ents m) k)"

definition validateReconciliationResult :: "ReconciliationResult \<Rightarrow> ledger_error option" where
  "validateReconciliationResult r =
     (if validateReconciliationReport (cr_Report r) \<noteq> None then Some ErrInvalidReconciliationInput
      else let rid = stringFromAny (cr_Report r) ''id''; status = stringFromAny (cr_Report r) ''status'' in
      if cr_ID r \<noteq> rid \<or> cr_Status r \<noteq> status \<or> cr_BlockNewWorkspaces r \<noteq> (status = ''mismatch'') \<or>
         cr_Reason r \<noteq> ''operator_reconciliation''
      then Some ErrInvalidReconciliationInput else None)"

section \<open>Lemmas\<close>

lemma obj_get_map_of: "distinct (map fst m) \<Longrightarrow> obj_get m k = map_of m k"
  unfolding obj_get_def
  by (metis distinct_rev map_of_inject_set rev_map set_rev)

lemma canon_list_map: "canon_list xs = map json_canon xs"
  by (induction xs) auto

lemma get_str_canon [simp]: "get_str (sort_members (canon_members m)) k = get_str m k"
  unfolding get_str_def obj_get_sort_members obj_get_canon_members
  by (cases "obj_get m k") (auto split: json.split)

lemma get_arr_canon [simp]:
  "get_arr (sort_members (canon_members m)) k = map_option canon_list (get_arr m k)"
  unfolding get_arr_def obj_get_sort_members obj_get_canon_members
  by (cases "obj_get m k") (auto split: json.split)

lemma normalized_report:
  assumes "map_json r = JObj m"
  shows "get_str m k = get_str (ents r) k"
    and "get_arr m k = map_option canon_list (get_arr (ents r) k)"
  using assms by (auto simp: map_json_def ents_def split: option.splits)

lemma exception_identities_Some:
  "exception_identities vs seen = Some ids \<Longrightarrow>
     (distinct seen \<longrightarrow> distinct ids) \<and> set ids = set seen \<union> the ` exception_identity ` set vs \<and>
     (\<forall>v \<in> set vs. exception_identity v \<noteq> None)"
  by (induction vs arbitrary: seen) (fastforce split: option.splits)+

lemma report_accepted:
  assumes "validateReconciliationReport report = None"
  obtains rid status counts xs checked matched pending ids where
    "get_arr (ents report) ''exceptions'' = Some xs"
    "get_str (ents report) ''id'' = Some rid" "get_str (ents report) ''status'' = Some status"
    "trim_space rid \<noteq> []" "status = ''ok'' \<or> status = ''mismatch''"
    "get_map (ents report) ''counts'' = Some counts"
    "get_int counts ''billingOperations'' = Some checked" "get_int counts ''matched'' = Some matched"
    "(if map_has counts ''pending'' then get_int counts ''pending'' else Some 0) = Some pending"
    "0 \<le> pending" "0 \<le> matched" "matched \<le> checked"
    "wrap64 (wrap64 (checked - matched) - pending) = int (length ids)"
    "exception_identities (canon_list xs) [] = Some ids"
    "status = ''ok'' \<longleftrightarrow> xs = []"
proof -
  from assms obtain m where m: "map_json report = JObj m"
    by (auto simp: validateReconciliationReport_def split: json.splits)
  note gs = normalized_report [OF m]
  from assms m obtain rid status counts exceptions where h:
    "get_str m ''id'' = Some rid" "get_str m ''status'' = Some status"
    "get_map (ents report) ''counts'' = Some counts" "get_arr m ''exceptions'' = Some exceptions"
    by (auto simp: validateReconciliationReport_def split: option.splits if_splits)
  with assms m obtain checked matched pending exceptionCount ids where n:
    "get_int counts ''billingOperations'' = Some checked" "get_int counts ''matched'' = Some matched"
    "(if map_has counts ''pending'' then get_int counts ''pending'' else Some 0) = Some pending"
    "get_int counts ''exceptions'' = Some exceptionCount"
    "exception_identities exceptions [] = Some ids"
    by (auto simp: validateReconciliationReport_def split: option.splits if_splits)
  from assms have "trim_space rid \<noteq> []" "status = ''ok'' \<or> status = ''mismatch''"
    "0 \<le> pending" "0 \<le> matched" "matched \<le> checked"
    "wrap64 (wrap64 (checked - matched) - pending) = int (length ids)"
    "status = ''ok'' \<longrightarrow> exceptions = []" "status = ''mismatch'' \<longrightarrow> exceptions \<noteq> []"
    by (simp_all add: validateReconciliationReport_def m h n split: if_splits)
  moreover from this have "status = ''ok'' \<longleftrightarrow> exceptions = []" by auto
  moreover obtain xs where "get_arr (ents report) ''exceptions'' = Some xs" "exceptions = canon_list xs"
    using h(4) gs(2) by auto
  ultimately show thesis using h n gs(1) by (intro that [of xs]) (auto simp: canon_list_map)
qed

lemma integerValue_range: "integerValue v = Some n \<Longrightarrow> int64_range n"
  by (auto simp: integerValue_def parse_int64_def Let_def split: json.splits option.splits if_splits)

lemma counts_no_wrap:
  assumes "int64_range checked" and "int64_range matched" and "int64_range pending"
    and "0 \<le> pending" and "0 \<le> matched" and "matched \<le> checked"
  shows "wrap64 (wrap64 (checked - matched) - pending) = checked - matched - pending"
  using assms by (simp add: int64_range_def MinInt64_def MaxInt64_def)

section \<open>Properties\<close>

text \<open>
  C39: A recorded reconciliation report balances. When a report is accepted, the billing operations
  it checked are exactly those that matched, those still pending and the distinct transactions or
  resources its exceptions name; its status is \<open>ok\<close> exactly when there is no exception.
\<close>

theorem reconciliation_report_balances:
  assumes "validateReconciliationReport report = None"
  shows "\<exists>counts xs ids checked matched pending.
           get_arr (ents report) ''exceptions'' = Some xs \<and> get_map (ents report) ''counts'' = Some counts \<and>
           get_int counts ''billingOperations'' = Some checked \<and>
           get_int counts ''matched'' = Some matched \<and>
           pending = (case get_int counts ''pending'' of None \<Rightarrow> 0 | Some p \<Rightarrow> p) \<and>
           exception_identities (canon_list xs) [] = Some ids \<and> distinct ids \<and>
           checked = matched + pending + int (length ids) \<and> 0 \<le> matched \<and> 0 \<le> pending \<and>
           (is_str (ents report) ''status'' ''ok'' \<longleftrightarrow> xs = [])"
  using assms
proof (rule report_accepted)
  fix rid status counts xs checked matched pending ids
  assume xs: "get_arr (ents report) ''exceptions'' = Some xs" and st: "get_str (ents report) ''status'' = Some status"
    and c: "get_map (ents report) ''counts'' = Some counts"
    and ch: "get_int counts ''billingOperations'' = Some checked"
    and m: "get_int counts ''matched'' = Some matched"
    and p: "(if map_has counts ''pending'' then get_int counts ''pending'' else Some 0) = Some pending"
    and nn: "0 \<le> pending" "0 \<le> matched" "matched \<le> checked"
    and eq: "wrap64 (wrap64 (checked - matched) - pending) = int (length ids)"
    and ids: "exception_identities (canon_list xs) [] = Some ids"
    and ok: "status = ''ok'' \<longleftrightarrow> xs = []"
  have p': "pending = (case get_int counts ''pending'' of None \<Rightarrow> 0 | Some p \<Rightarrow> p)"
    using p by (auto simp: map_has_def get_int_def get_any_def integerValue_def split: if_splits)
  have "int64_range checked" "int64_range matched"
    using ch m by (auto simp: get_int_def intro: integerValue_range)
  moreover have "int64_range pending"
    using p by (auto simp: get_int_def int64_range_def MinInt64_def MaxInt64_def split: if_splits
        dest!: integerValue_range)
  ultimately have "checked = matched + pending + int (length ids)"
    using eq counts_no_wrap [OF _ _ _ nn] by simp
  moreover have "distinct ids" using exception_identities_Some [OF ids] by simp
  moreover have "is_str (ents report) ''status'' ''ok'' \<longleftrightarrow> xs = []"
    using ok st get_str_Some [of "ents report" "''status''"] by (metis option.inject)
  ultimately show ?thesis using xs c ch m p' ids nn by blast
qed

definition sample_report :: "gomap option" where
  "sample_report = Some
     [(''id'', JStr ''recon-1''), (''status'', JStr ''mismatch''),
      (''counts'', JObj [(''billingOperations'', JNum ''3''), (''matched'', JNum ''1''),
         (''pending'', JNum ''1''), (''exceptions'', JNum ''2'')]),
      (''exceptions'', JArr
        [JObj [(''resourceType'', JStr ''compute''), (''resourceId'', JStr ''ins-1''),
               (''code'', JStr ''sub2api_charge_missing'')],
         JObj [(''resourceType'', JStr ''compute''), (''resourceId'', JStr ''ins-1''),
               (''code'', JStr ''ledger_receipt_missing'')]])]"

theorem reconciliation_report_balances_witness:
  "\<exists>counts. get_map (ents sample_report) ''counts'' = Some counts \<and>
     get_int counts ''billingOperations'' = Some 3"
proof -
  have "validateReconciliationReport sample_report = None" by code_simp
  from reconciliation_report_balances [OF this] show ?thesis
    by (auto simp: sample_report_def ents_def get_map_def obj_get_def get_int_def get_any_def
        integerValue_def parse_int64_def parse_digits_def decimal_value_def digit_value_def is_digit_def
        int64_range_def MinInt64_def MaxInt64_def less_eq_char_def)
qed

end
