(* ===== verification/Ledger_Admission.thy ===== *)
theory Ledger_Admission
  imports Ledger_Reconciliation
begin

text \<open>
  What admission to the Ledger guarantees of a receipt: no secret-named key at any depth, billing
  totals that add up, and deletion summaries that are exactly the recorded stage evidence.
\<close>

section \<open>Values inside a receipt\<close>

text \<open>\<open>reaches v w\<close>: \<open>w\<close> is \<open>v\<close> or is found in it through map members and array elements.\<close>

inductive reaches :: "json \<Rightarrow> json \<Rightarrow> bool" where
  reaches_self: "reaches v v"
| reaches_member: "reaches v (JObj m) \<Longrightarrow> obj_get m k = Some w \<Longrightarrow> reaches v w"
| reaches_element: "reaches v (JArr xs) \<Longrightarrow> x \<in> set xs \<Longrightarrow> reaches v x"

definition receipt_maps :: "ReceiptInput \<Rightarrow> gomap option list" where
  "receipt_maps i =
     [r_Actor i, r_Plan i, r_Execution i, r_Environment i, r_InputRefs i, r_OutputRefs i,
      r_ReviewerChecks i, r_Cost i, r_Owner i, r_Continuation i]"

lemma forbidden_members_iff:
  "forbidden_members m \<longleftrightarrow>
     (\<exists>(k, v) \<in> set m. to_lower k \<in> set forbidden_keys \<or> containsForbiddenJSONKey v)"
  by (induction m) auto

lemma forbidden_list_iff: "forbidden_list xs \<longleftrightarrow> (\<exists>x \<in> set xs. containsForbiddenJSONKey x)"
  by (induction xs) auto

lemma canon_member: "obj_get m k = Some w \<Longrightarrow> (k, json_canon w) \<in> set (sort_members (canon_members m))"
  by (rule conjunct1 [OF obj_get_SomeD]) (simp add: obj_get_sort_members obj_get_canon_members)

lemma reaches_clean:
  assumes "reaches v w" and "\<not> containsForbiddenJSONKey (json_canon v)"
  shows "\<not> containsForbiddenJSONKey (json_canon w)"
  using assms
proof (induction rule: reaches.induct)
  case (reaches_member v m k w)
  then show ?case using canon_member [of m k w] by (fastforce simp: forbidden_members_iff)
next
  case (reaches_element v xs x)
  then show ?case by (auto simp: forbidden_list_iff canon_list_map)
qed

lemma clean_key:
  assumes "\<not> containsForbiddenJSONKey (json_canon (JObj m))" and "map_has m k"
  shows "to_lower k \<notin> set forbidden_keys"
proof -
  from assms(2) obtain w where "obj_get m k = Some w" by (auto simp: map_has_def)
  from canon_member [OF this] assms(1) show ?thesis by (fastforce simp: forbidden_members_iff)
qed

lemma receipt_map_clean:
  assumes "validateReceiptInput lib i = None" and "Some m \<in> set (receipt_maps i)"
  shows "\<not> containsForbiddenJSONKey (json_canon (JObj m))"
proof -
  have "\<not> containsForbiddenReceiptKey i"
    using assms(1) by (auto simp: validateReceiptInput_def Let_def split: if_splits)
  then have "\<not> containsForbiddenJSONKey (map_json x)" if "x \<in> set (receipt_maps i)" for x
    using that
    by (auto simp: containsForbiddenReceiptKey_def receipt_input_json_def receipt_maps_def
        forbidden_members_iff split: if_splits)
  from this [OF assms(2)] show ?thesis by (simp add: map_json_def)
qed

section \<open>Properties\<close>

text \<open>
  C37: No secret enters a receipt by name. In every receipt the generic writer admits, no map at any
  depth of any of its ten fields, through nested maps and arrays, has a key that reads as one of the
  forbidden names (API key, token, password, credential, signed URL, kubeconfig and so on) in any
  letter case.
\<close>

theorem admitted_receipt_has_no_secret_key:
  assumes "validateReceiptInput lib i = None" and "Some m \<in> set (receipt_maps i)"
    and "reaches (JObj m) (JObj m')" and "map_has m' k"
  shows "to_lower k \<notin> set forbidden_keys"
  using clean_key [OF reaches_clean [OF assms(3) receipt_map_clean [OF assms(1,2)]] assms(4)] .

definition sample_receipt :: ReceiptInput where
  "sample_receipt =
     \<lparr>r_Type = ''task.completed.v1'', r_Status = ''completed'', r_Surface = ''cloud'', r_AccountID = [],
      r_OrganizationID = [], r_WorkspaceID = ''ws-1'', r_ProjectID = [], r_TaskID = [], r_RequestID = [],
      r_ApprovalID = [], r_JobID = [], r_ArtifactID = [], r_ReviewID = [], r_ContinuationID = [],
      r_Actor = Some [(''userId'', JStr ''u-1'')], r_Plan = None,
      r_Execution = Some [(''steps'', JArr [JObj [(''name'', JStr ''build'')]])], r_Environment = None,
      r_InputRefs = None, r_OutputRefs = None, r_ReviewerChecks = None, r_Cost = None, r_Owner = None,
      r_Continuation = None, r_SupersedesReceiptID = [], r_IdempotencyKey = ''key-1''\<rparr>"

theorem admitted_receipt_has_no_secret_key_witness:
  "to_lower ''name'' \<notin> set forbidden_keys"
proof -
  have v: "validateReceiptInput sample_clock_lib sample_receipt = None" by code_simp
  have m: "Some [(''steps'', JArr [JObj [(''name'', JStr ''build'')]])] \<in> set (receipt_maps sample_receipt)"
    by (simp add: receipt_maps_def sample_receipt_def)
  have "reaches (JObj [(''steps'', JArr [JObj [(''name'', JStr ''build'')]])])
      (JArr [JObj [(''name'', JStr ''build'')]])"
    by (rule reaches_member [OF reaches_self, of _ "''steps''"]) (simp add: obj_get_def)
  then have r: "reaches (JObj [(''steps'', JArr [JObj [(''name'', JStr ''build'')]])])
      (JObj [(''name'', JStr ''build'')])"
    by (rule reaches_element) simp
  show ?thesis
    by (rule admitted_receipt_has_no_secret_key [OF v m r]) (simp add: map_has_def obj_get_def)
qed

text \<open>
  The evidence a deletion records is the evidence its receipt accepts. When the recorded stage
  observations are complete for the receipt, the digest list projected from them and sent as JSON
  decodes to the same digests and passes the Ledger's validation under schema version 1.
\<close>

theorem deletion_summary_roundtrip:
  assumes "WorkspaceDeleteReceiptEvidenceComplete lib evidence"
  shows "WorkspaceDeleteStageEvidenceDigestList
           (JArr (map digest_json (WorkspaceDeleteStageEvidenceDigests lib evidence))) =
           Some (WorkspaceDeleteStageEvidenceDigests lib evidence) \<and>
         validWorkspaceDeletionStageEvidenceSummary lib
           (JArr (map digest_json (WorkspaceDeleteStageEvidenceDigests lib evidence))) (JNum ''1'')"
proof -
  have "integerValue (JNum ''1'') = Some 1" by code_simp
  then show ?thesis
    using complete_evidence_digests_valid [OF assms]
    by (simp add: decode_digest_list validWorkspaceDeletionStageEvidenceSummary_def)
qed

theorem deletion_summary_roundtrip_witness:
  "validWorkspaceDeletionStageEvidenceSummary sample_clock_lib
     (JArr (map digest_json (WorkspaceDeleteStageEvidenceDigests sample_clock_lib
       (map sample_evidence (take 5 WorkspaceDeleteStageOrder))))) (JNum ''1'')"
proof -
  have "WorkspaceDeleteReceiptEvidenceComplete sample_clock_lib
      (map sample_evidence (take 5 WorkspaceDeleteStageOrder))" by code_simp
  from deletion_summary_roundtrip [OF this] show ?thesis by blast
qed

lemma billing_cost_parts:
  assumes "validWorkspaceBillingCost lib cost t"
  obtains usd components where
    "cost_period_ok lib (ents cost)" "get_int (ents cost) ''totalUsdMicros'' = Some usd"
    "get_map (ents cost) ''components'' = Some components"
    "components_ok components usd" "settlement_ok (ents cost) t usd"
  using assms unfolding validWorkspaceBillingCost_def Let_def
  by (cases "get_int (ents cost) ''totalUsdMicros''"; cases "get_map (ents cost) ''components''")
     (simp_all split: if_splits)

lemma components_parts:
  assumes "components_ok components usd"
  obtains compute storage c s where
    "get_map components ''compute'' = Some compute" "get_map components ''storage'' = Some storage"
    "get_int compute ''chargeUsdMicros'' = Some c" "get_int storage ''chargeUsdMicros'' = Some s"
    "0 < c" "0 < s" "usd = c + s" "usd \<le> MaxInt64"
proof -
  from assms obtain compute storage where
    m: "get_map components ''compute'' = Some compute" "get_map components ''storage'' = Some storage"
    and ok: "charges_ok compute storage usd"
    by (auto simp: components_ok_def split: option.splits)
  from ok obtain c s where
    c: "get_int compute ''chargeUsdMicros'' = Some c" "get_int storage ''chargeUsdMicros'' = Some s"
    "0 < c" "0 < s" "c \<le> MaxInt64 - s" "wrap64 (c + s) = usd"
    by (auto simp: charges_ok_def split: option.splits)
  then have "int64_range (c + s)" by (simp add: int64_range_def MinInt64_def)
  with c(6) have eq: "usd = c + s" by simp
  with c(5) have "usd \<le> MaxInt64" by simp
  from m c(1-4) eq this show thesis by (rule that)
qed

text \<open>
  C38: A Workspace bill adds up. In every admitted purchase, renewal, expiry or refund receipt the
  total is exactly the sum of a positive compute charge and a positive storage charge, without
  overflow, for a period of positive length, billed to the receipt's own Workspace; a refund receipt
  refunds exactly that total.
\<close>

theorem workspace_bill_adds_up:
  assumes "validateReceiptInput lib i = None"
    and "r_Type i \<in> {''billing.workspace_purchased.v1'', ''billing.workspace_renewed.v1'',
                     ''billing.workspace_expired.v1'', ''billing.workspace_refunded.v1''}"
  shows "\<exists>usd components compute storage c s start stop.
           get_int (ents (r_Cost i)) ''totalUsdMicros'' = Some usd \<and>
           get_map (ents (r_Cost i)) ''components'' = Some components \<and>
           get_map components ''compute'' = Some compute \<and> get_map components ''storage'' = Some storage \<and>
           get_int compute ''chargeUsdMicros'' = Some c \<and> get_int storage ''chargeUsdMicros'' = Some s \<and>
           0 < c \<and> 0 < s \<and> usd = c + s \<and> usd \<le> MaxInt64 \<and>
           parsed_time lib (ents (r_Cost i)) ''periodStart'' = Some start \<and>
           parsed_time lib (ents (r_Cost i)) ''paidThrough'' = Some stop \<and> gt_inst start < gt_inst stop \<and>
           is_str (ents (r_Cost i)) ''resourceId'' (r_WorkspaceID i) \<and>
           (r_Type i = ''billing.workspace_refunded.v1'' \<longrightarrow>
              get_int (ents (r_Cost i)) ''refundUsdMicros'' = Some usd)"
proof -
  have pre: "has_prefix (r_Type i) ''billing.''" "has_suffix (r_Type i) ''.v1''"
    using assms(2) by (elim insertE emptyE; simp add: has_prefix_def has_suffix_def)+
  have "billing_cost_valid lib i"
    using assms(1) by (auto simp: validateReceiptInput_def Let_def split: if_splits)
  then have v: "validWorkspaceBillingCost lib (r_Cost i) (r_Type i)"
    and r: "is_str (ents (r_Cost i)) ''resourceId'' (r_WorkspaceID i)"
    using assms(2) pre by (auto simp: billing_cost_valid_def)
  obtain usd components where h: "cost_period_ok lib (ents (r_Cost i))"
    "get_int (ents (r_Cost i)) ''totalUsdMicros'' = Some usd"
    "get_map (ents (r_Cost i)) ''components'' = Some components"
    "components_ok components usd" "settlement_ok (ents (r_Cost i)) (r_Type i) usd"
    using v by (rule billing_cost_parts)
  obtain compute storage c s where k:
    "get_map components ''compute'' = Some compute" "get_map components ''storage'' = Some storage"
    "get_int compute ''chargeUsdMicros'' = Some c" "get_int storage ''chargeUsdMicros'' = Some s"
    "0 < c" "0 < s" "usd = c + s" "usd \<le> MaxInt64"
    using h(4) by (rule components_parts)
  obtain start stop where p: "parsed_time lib (ents (r_Cost i)) ''periodStart'' = Some start"
    "parsed_time lib (ents (r_Cost i)) ''paidThrough'' = Some stop" "gt_inst start < gt_inst stop"
    using h(1) by (auto simp: cost_period_ok_def split: option.splits)
  have refund: "r_Type i = ''billing.workspace_refunded.v1'' \<longrightarrow>
      get_int (ents (r_Cost i)) ''refundUsdMicros'' = Some usd"
    using h(5) by (auto simp: settlement_ok_def split: option.splits if_splits)
  from h(2,3) k p r refund show ?thesis by blast
qed

definition sample_renewal :: ReceiptInput where
  "sample_renewal = sample_receipt\<lparr>
     r_Type := ''billing.workspace_renewed.v1'', r_Execution := None,
     r_Cost := Some
       [(''currency'', JStr ''USD''), (''billingUnit'', JStr ''calendar_month''),
        (''resourceType'', JStr ''workspace''), (''priceVersion'', JStr ''price-1''),
        (''resourceId'', JStr ''ws-1''), (''periodStart'', JStr ''t1''), (''paidThrough'', JStr ''t2''),
        (''totalUsdMicros'', JNum ''30000000''),
        (''components'', JObj
          [(''compute'', JObj [(''resourceType'', JStr ''compute''), (''resourceId'', JStr ''ins-1''),
             (''chargeUsdMicros'', JNum ''25000000'')]),
           (''storage'', JObj [(''resourceType'', JStr ''storage''), (''resourceId'', JStr ''disk-1''),
             (''chargeUsdMicros'', JNum ''5000000''), (''sizeGb'', JNum ''100'')])]),
        (''sub2apiUserId'', JNum ''7''), (''sub2apiRedeemCode'', JStr ''code-1'')]\<rparr>"

theorem workspace_bill_adds_up_witness:
  "\<exists>usd. get_int (ents (r_Cost sample_renewal)) ''totalUsdMicros'' = Some usd \<and> usd \<le> MaxInt64"
proof -
  have v: "validateReceiptInput sample_clock_lib sample_renewal = None" by code_simp
  have t: "r_Type sample_renewal = ''billing.workspace_renewed.v1''" by (simp add: sample_renewal_def)
  from workspace_bill_adds_up [OF v] t show ?thesis by auto
qed

definition sample_deletion :: ReceiptInput where
  "sample_deletion = sample_receipt\<lparr>
     r_Type := ''workspace.deleted.v1'', r_Surface := ''control_plane'', r_AccountID := ''acct-1'',
     r_RequestID := ''del-1'', r_IdempotencyKey := ''del-1:deletion-receipt'', r_Actor := None,
     r_InputRefs := Some [(''launchReceiptId'', JStr ''receipt_000001'')],
     r_OutputRefs := Some
       [(''runtimeStatus'', JStr ''absent''), (''gatewaySecretStatus'', JStr ''absent''),
        (''attachmentStatus'', JStr ''absent''), (''storageStatus'', JStr ''absent''),
        (''computeStatus'', JStr ''absent''), (''workspaceStatus'', JStr ''absent'')],
     r_Owner := Some [(''accountId'', JStr ''acct-1''), (''workspaceId'', JStr ''ws-1''),
                      (''ownerUserId'', JStr ''u-1'')],
     r_Execution := Some
       [(''operationId'', JStr ''del-1''), (''resourceType'', JStr ''workspace''),
        (''resourceId'', JStr ''ws-1''), (''provisioningMode'', JStr ''resource_only''),
        (''computeAllocationId'', JStr ''cmp-1''), (''storageId'', JStr ''sto-1''),
        (''attachmentId'', JStr ''att-1'')]\<rparr>"

text \<open>
  A null stage summary opens one unvalidated field. The summary counts as two fields of the
  execution map even when only one of them is present and null, so a deletion receipt whose
  \<open>stageEvidence\<close> is null is admitted with one further execution field of any name and content.
\<close>

theorem null_summary_admits_unknown_field:
  "validateReceiptInput sample_clock_lib (sample_deletion\<lparr>r_Execution :=
     Some (ents (r_Execution sample_deletion) @ [(''operatorNote'', JStr ''anything'')])\<rparr>) =
     Some ErrInvalidReceiptInput \<and>
   validateReceiptInput sample_clock_lib (sample_deletion\<lparr>r_Execution :=
     Some (ents (r_Execution sample_deletion) @
       [(''operatorNote'', JStr ''anything''), (''stageEvidence'', JNull)])\<rparr>) = None"
  by (rule conjI; code_simp)

end
