(* ===== verification/Ledger_Memory.thy ===== *)
theory Ledger_Memory
  imports Ledger_Admission Interfaces "HOL-Library.AList" "HOL-Library.Product_Lexorder"
begin

text \<open>
  The Ledger's store (\<open>services/ledger/internal/ledger/memory_store.go\<close>): recording of receipts,
  retention and privacy redaction, the evidence index, reconciliation reports, and their listings.
  Each method holds the store's mutex for its whole run, so the store is a sequential machine. A Go
  map is an association list with one entry per key; \<open>cloneMemoryValue\<close>, a JSON round trip that
  isolates the caller from the stored value, is the identity on these immutable values. The counter
  of identifiers is an unbounded integer: it would have to be incremented \<open>2\<^sup>63\<close> times to wrap.
\<close>

datatype idempotency_result =
    ResultID string
  | ResultRetention ReceiptRetentionResult
  | ResultReconciliation ReconciliationResult

record idempotencyRecord =
  ik_payloadHash :: string
  ik_result :: idempotency_result

record MemoryStore =
  ms_idempotency :: "(string \<times> idempotencyRecord) list"
  ms_reconciliationIdempotency :: "(string \<times> idempotencyRecord) list"
  ms_receipts :: "(string \<times> Receipt) list"
  ms_evidenceIndex :: "(string \<times> EvidenceIndexEntry) list"
  ms_evidenceIndexIdempotency :: "(string \<times> idempotencyRecord) list"
  ms_nextID :: int

definition NewMemoryStore :: MemoryStore where
  "NewMemoryStore =
     \<lparr>ms_idempotency = [], ms_reconciliationIdempotency = [], ms_receipts = [], ms_evidenceIndex = [],
      ms_evidenceIndexIdempotency = [], ms_nextID = 0\<rparr>"

definition id_text :: "string \<Rightarrow> int \<Rightarrow> string" where
  \<comment> \<open>\<open>fmt.Sprintf("%s_%06d", prefix, n)\<close>\<close>
  "id_text prefix n = prefix @ ''_'' @ pad_left 6 (format_int n)"

definition newID :: "string \<Rightarrow> MemoryStore \<Rightarrow> string \<times> MemoryStore" where
  "newID prefix s = (let n = ms_nextID s + 1 in (id_text prefix n, s\<lparr>ms_nextID := n\<rparr>))"

section \<open>Recording\<close>

definition RecordEvidenceIndex ::
  "golib \<Rightarrow> time \<Rightarrow> EvidenceIndexInput \<Rightarrow> MemoryStore \<Rightarrow>
   (ledger_error + EvidenceIndexEntry) \<times> MemoryStore" where
  "RecordEvidenceIndex lib now input s =
     (case validateEvidenceIndexInput lib input of
        Some err \<Rightarrow> (Inl err, s)
      | None \<Rightarrow>
          let hashInput = input\<lparr>x_IdempotencyKey := []\<rparr>;
              payloadHash = hashJSON lib (evidence_input_json lib hashInput) in
          case map_of (ms_evidenceIndexIdempotency s) (x_IdempotencyKey input) of
            Some existing \<Rightarrow>
              if ik_payloadHash existing \<noteq> payloadHash then (Inl ErrLedgerIdempotencyConflict, s)
              else (case ik_result existing of
                ResultID eid \<Rightarrow>
                  (case map_of (ms_evidenceIndex s) eid of
                     None \<Rightarrow> (Inl ErrInvalidEvidenceIndexInput, s)
                   | Some entry \<Rightarrow> (Inr (entry\<lparr>xe_Replayed := True\<rparr>), s))
              | _ \<Rightarrow> (Inl ErrInvalidEvidenceIndexInput, s))
          | None \<Rightarrow>
              let (eid, s) = newID ''evidence'' s;
                  entry = \<lparr>xe_Input = hashInput, xe_EvidenceID = eid, xe_CreatedAt = now,
                           xe_Replayed = False\<rparr> in
              (Inr entry,
               s\<lparr>ms_evidenceIndex := AList.update eid entry (ms_evidenceIndex s),
                 ms_evidenceIndexIdempotency := AList.update (x_IdempotencyKey input)
                   \<lparr>ik_payloadHash = payloadHash, ik_result = ResultID eid\<rparr>
                   (ms_evidenceIndexIdempotency s)\<rparr>))"

definition RecordReceipt ::
  "golib \<Rightarrow> time \<Rightarrow> ReceiptInput \<Rightarrow> MemoryStore \<Rightarrow> (ledger_error + Receipt) \<times> MemoryStore" where
  "RecordReceipt lib now input s =
     (case validateReceiptInput lib input of
        Some err \<Rightarrow> (Inl err, s)
      | None \<Rightarrow>
          let hashInput = input\<lparr>r_IdempotencyKey := []\<rparr>;
              payloadHash = hashJSON lib (receipt_input_json hashInput) in
          case map_of (ms_idempotency s) (r_IdempotencyKey input) of
            Some existing \<Rightarrow>
              if ik_payloadHash existing \<noteq> payloadHash then (Inl ErrLedgerIdempotencyConflict, s)
              else (case ik_result existing of
                ResultID rid \<Rightarrow>
                  (case map_of (ms_receipts s) rid of
                     None \<Rightarrow> (Inl ErrReceiptNotFound, s)
                   | Some receipt \<Rightarrow> (Inr (receipt\<lparr>rc_Replayed := True\<rparr>), s))
              | _ \<Rightarrow> (Inl PanicTypeAssertion, s))
          | None \<Rightarrow>
              let (rid, s) = newID ''receipt'' s;
                  receipt = \<lparr>rc_Input = hashInput, rc_ReceiptID = rid, rc_CreatedAt = now,
                             rc_Retention = no_retention, rc_Replayed = False\<rparr> in
              (Inr receipt,
               s\<lparr>ms_receipts := AList.update rid receipt (ms_receipts s),
                 ms_idempotency := AList.update (r_IdempotencyKey input)
                   \<lparr>ik_payloadHash = payloadHash, ik_result = ResultID rid\<rparr> (ms_idempotency s)\<rparr>))"

definition ReadReceipt :: "MemoryStore \<Rightarrow> string \<Rightarrow> ledger_error + Receipt" where
  "ReadReceipt s receiptID =
     (case map_of (ms_receipts s) receiptID of
        None \<Rightarrow> Inl ErrReceiptNotFound | Some receipt \<Rightarrow> Inr receipt)"

definition retention_hash :: "golib \<Rightarrow> ReceiptRetentionInput \<Rightarrow> string" where
  "retention_hash lib input = hashJSON lib (JObj
     [(''receiptId'', JStr (ti_ReceiptID input)),
      (''retainUntil'', JStr (lib_time_text lib (ti_RetainUntil input))),
      (''legalHold'', JBool (ti_LegalHold input))])"

definition UpdateReceiptRetention ::
  "golib \<Rightarrow> ReceiptRetentionInput \<Rightarrow> MemoryStore \<Rightarrow>
   (ledger_error + ReceiptRetentionResult) \<times> MemoryStore" where
  "UpdateReceiptRetention lib input s =
     (if ti_ReceiptID input = [] \<or> ti_IdempotencyKey input = [] \<or>
         (is_zero (gt_inst (ti_RetainUntil input)) \<and> \<not> ti_LegalHold input)
      then (Inl ErrInvalidReceiptRetentionInput, s)
      else let payloadHash = retention_hash lib input;
               key = ''receipt-retention:'' @ ti_IdempotencyKey input in
      case map_of (ms_idempotency s) key of
        Some existing \<Rightarrow>
          if ik_payloadHash existing \<noteq> payloadHash then (Inl ErrLedgerIdempotencyConflict, s)
          else (case ik_result existing of
            ResultRetention result \<Rightarrow> (Inr (result\<lparr>tr_Replayed := True\<rparr>), s)
          | _ \<Rightarrow> (Inl PanicTypeAssertion, s))
      | None \<Rightarrow>
          (case map_of (ms_receipts s) (ti_ReceiptID input) of
             None \<Rightarrow> (Inl ErrReceiptNotFound, s)
           | Some receipt \<Rightarrow>
               let retention = rc_Retention receipt; old = gt_inst (rt_RetainUntil retention);
                   new = gt_inst (ti_RetainUntil input) in
               if \<not> is_zero new \<and> \<not> is_zero old \<and> new < old
               then (Inl ErrReceiptRetentionShortening, s)
               else
                 let retention = (if old < new then retention\<lparr>rt_RetainUntil := ti_RetainUntil input\<rparr>
                                  else retention);
                     retention = retention\<lparr>rt_LegalHold := rt_LegalHold retention \<or> ti_LegalHold input\<rparr>;
                     receipt = receipt\<lparr>rc_Retention := retention\<rparr>;
                     result = \<lparr>tr_ReceiptID = rc_ReceiptID receipt, tr_Retention = retention,
                               tr_Replayed = False\<rparr> in
                 (Inr result,
                  s\<lparr>ms_receipts := AList.update (ti_ReceiptID input) receipt (ms_receipts s),
                    ms_idempotency := AList.update key
                      \<lparr>ik_payloadHash = payloadHash, ik_result = ResultRetention result\<rparr>
                      (ms_idempotency s)\<rparr>)))"

definition privacy_hash :: "golib \<Rightarrow> ReceiptPrivacyDeleteInput \<Rightarrow> string" where
  "privacy_hash lib input = hashJSON lib (JObj
     [(''receiptId'', JStr (pi_ReceiptID input)), (''reason'', JStr (pi_Reason input))])"

definition redact :: "time \<Rightarrow> string \<Rightarrow> Receipt \<Rightarrow> Receipt" where
  "redact appliedAt reason receipt =
     (if rt_PrivacyRedaction (rc_Retention receipt) = None
      then receipt\<lparr>rc_Input := (rc_Input receipt)\<lparr>r_Actor := None, r_Owner := None, r_Continuation := None\<rparr>,
                   rc_Retention := (rc_Retention receipt)\<lparr>rt_PrivacyRedaction :=
                     Some \<lparr>pr_AppliedAt = appliedAt, pr_Reason = reason, pr_Eligible = True\<rparr>\<rparr>\<rparr>
      else receipt)"

definition PrivacyDeleteReceipt ::
  "golib \<Rightarrow> time \<Rightarrow> time \<Rightarrow> ReceiptPrivacyDeleteInput \<Rightarrow> MemoryStore \<Rightarrow>
   (ledger_error + ReceiptRetentionResult) \<times> MemoryStore" where
  \<comment> \<open>\<open>now\<close> and \<open>appliedAt\<close> are the two readings of the clock\<close>
  "PrivacyDeleteReceipt lib now appliedAt input s =
     (if pi_ReceiptID input = [] \<or> pi_Reason input = [] \<or> pi_IdempotencyKey input = []
      then (Inl ErrInvalidReceiptRetentionInput, s)
      else let payloadHash = privacy_hash lib input;
               key = ''receipt-privacy:'' @ pi_IdempotencyKey input in
      case map_of (ms_idempotency s) key of
        Some existing \<Rightarrow>
          if ik_payloadHash existing \<noteq> payloadHash then (Inl ErrLedgerIdempotencyConflict, s)
          else (case ik_result existing of
            ResultRetention result \<Rightarrow> (Inr (result\<lparr>tr_Replayed := True\<rparr>), s)
          | _ \<Rightarrow> (Inl PanicTypeAssertion, s))
      | None \<Rightarrow>
          (case map_of (ms_receipts s) (pi_ReceiptID input) of
             None \<Rightarrow> (Inl ErrReceiptNotFound, s)
           | Some receipt \<Rightarrow>
               if rt_LegalHold (rc_Retention receipt) then (Inl ErrReceiptLegalHold, s)
               else if now < gt_inst (rt_RetainUntil (rc_Retention receipt))
               then (Inl ErrReceiptRetentionActive, s)
               else
                 let receipt = redact appliedAt (pi_Reason input) receipt;
                     result = \<lparr>tr_ReceiptID = rc_ReceiptID receipt, tr_Retention = rc_Retention receipt,
                               tr_Replayed = False\<rparr> in
                 (Inr result,
                  s\<lparr>ms_receipts := AList.update (pi_ReceiptID input) receipt (ms_receipts s),
                    ms_idempotency := AList.update key
                      \<lparr>ik_payloadHash = payloadHash, ik_result = ResultRetention result\<rparr>
                      (ms_idempotency s)\<rparr>)))"

definition RecordReconciliation ::
  "golib \<Rightarrow> time \<Rightarrow> ReconciliationInput \<Rightarrow> MemoryStore \<Rightarrow>
   (ledger_error + ReconciliationResult) \<times> MemoryStore" where
  "RecordReconciliation lib now input s =
     (case validateReconciliationInput input of
        Some err \<Rightarrow> (Inl err, s)
      | None \<Rightarrow>
          let payloadHash = hashJSON lib (map_json (ci_Report input)) in
          case map_of (ms_reconciliationIdempotency s) (ci_IdempotencyKey input) of
            Some existing \<Rightarrow>
              if ik_payloadHash existing \<noteq> payloadHash then (Inl ErrLedgerIdempotencyConflict, s)
              else (case ik_result existing of
                ResultReconciliation result \<Rightarrow>
                  if validateReconciliationResult result \<noteq> None then (Inl ErrInvalidReconciliationInput, s)
                  else (Inr (result\<lparr>cr_Replayed := True\<rparr>), s)
              | _ \<Rightarrow> (Inl ErrInvalidReconciliationInput, s))
          | None \<Rightarrow>
              let status = stringFromAny (ci_Report input) ''status'';
                  result = \<lparr>cr_ID = stringFromAny (ci_Report input) ''id'', cr_Status = status,
                            cr_Report = ci_Report input, cr_BlockNewWorkspaces = (status = ''mismatch''),
                            cr_Reason = ''operator_reconciliation'', cr_CreatedAt = now,
                            cr_Replayed = False\<rparr> in
              (Inr result,
               s\<lparr>ms_reconciliationIdempotency := AList.update (ci_IdempotencyKey input)
                   \<lparr>ik_payloadHash = payloadHash, ik_result = ResultReconciliation result\<rparr>
                   (ms_reconciliationIdempotency s)\<rparr>))"

section \<open>Listing\<close>

definition filter_ok :: "string \<Rightarrow> string \<Rightarrow> bool" where
  \<comment> \<open>an empty filter admits everything\<close>
  "filter_ok want value \<longleftrightarrow> want = [] \<or> value = want"

definition receiptMatchesTypes :: "Receipt \<Rightarrow> ReceiptQuery \<Rightarrow> bool" where
  "receiptMatchesTypes receipt query =
     (let i = rc_Input receipt;
          primary = ((q_Type query = [] \<or> r_Type i = q_Type query) \<and>
                     (q_TypePrefix query = [] \<or> has_prefix (r_Type i) (q_TypePrefix query)));
          kind = coalesce_str (get_str (ents (r_Execution i)) ''kind'');
          included = (q_IncludeType query \<noteq> [] \<and> r_Type i = q_IncludeType query \<and>
                      (q_IncludeExecutionKind query = [] \<or> kind = q_IncludeExecutionKind query)) in
      primary \<or> included)"

definition receipt_matches :: "ReceiptQuery \<Rightarrow> Receipt \<Rightarrow> bool" where
  "receipt_matches query receipt =
     (let i = rc_Input receipt in
      filter_ok (q_AccountID query) (r_AccountID i) \<and>
      filter_ok (q_OrganizationID query) (r_OrganizationID i) \<and>
      filter_ok (q_WorkspaceID query) (r_WorkspaceID i) \<and>
      filter_ok (q_RequestID query) (r_RequestID i) \<and> filter_ok (q_ProjectID query) (r_ProjectID i) \<and>
      filter_ok (q_TaskID query) (r_TaskID i) \<and> filter_ok (q_JobID query) (r_JobID i) \<and>
      receiptMatchesTypes receipt query \<and> filter_ok (q_Status query) (r_Status i))"

definition before_cursor :: "cursor \<Rightarrow> time \<times> string \<Rightarrow> bool" where
  \<comment> \<open>not excluded by the cursor: the zero cursor excludes nothing\<close>
  "before_cursor c k =
     (is_zero (gt_inst (fst c)) \<or>
      \<not> (gt_inst (fst c) < fst k \<or> (fst k = gt_inst (fst c) \<and> snd c \<le> snd k)))"

definition receipt_key :: "Receipt \<Rightarrow> time \<times> string" where
  "receipt_key receipt = (rc_CreatedAt receipt, rc_ReceiptID receipt)"

definition ListReceipts :: "golib \<Rightarrow> ReceiptQuery \<Rightarrow> MemoryStore \<Rightarrow> ledger_error + ReceiptPage" where
  "ListReceipts lib query s =
     (case normalizeReceiptQuery lib query of
        Inl err \<Rightarrow> Inl err
      | Inr (query, cursor) \<Rightarrow>
          let receipts = filter (\<lambda>r. receipt_matches query r \<and> before_cursor cursor (receipt_key r))
                           (map snd (ms_receipts s));
              receipts = desc_by receipt_key receipts;
              hasMore = (nat (q_Limit query) < length receipts);
              receipts = (if hasMore then take (nat (q_Limit query)) receipts else receipts) in
          Inr \<lparr>rp_Lookup = receiptLookupScope query, rp_Receipts = receipts,
               rp_NextCursor = (if hasMore then encodeReceiptCursor lib (last receipts) else []),
               rp_HasMore = hasMore\<rparr>)"

definition entry_matches :: "EvidenceIndexQuery \<Rightarrow> EvidenceIndexEntry \<Rightarrow> bool" where
  "entry_matches query entry =
     (let i = xe_Input entry in
      filter_ok (xq_OperationID query) (x_OperationID i) \<and>
      filter_ok (xq_CandidateSHA query) (x_CandidateSHA i) \<and>
      filter_ok (xq_CandidateTree query) (x_CandidateTree i) \<and>
      filter_ok (xq_ImageDigest query) (x_ImageDigest i) \<and>
      filter_ok (xq_ReceiptID query) (x_ReceiptID i) \<and>
      filter_ok (xq_ReceiptType query) (x_ReceiptType i) \<and> filter_ok (xq_Status query) (x_Status i))"

definition entry_key :: "EvidenceIndexEntry \<Rightarrow> time \<times> string" where
  "entry_key entry = (gt_inst (x_ObservedAt (xe_Input entry)), xe_EvidenceID entry)"

definition ListEvidenceIndex ::
  "golib \<Rightarrow> EvidenceIndexQuery \<Rightarrow> MemoryStore \<Rightarrow> ledger_error + EvidenceIndexPage" where
  "ListEvidenceIndex lib query s =
     (case normalizeEvidenceIndexQuery lib query of
        Inl err \<Rightarrow> Inl err
      | Inr (query, cursor) \<Rightarrow>
          let entries = filter (\<lambda>e. entry_matches query e \<and> before_cursor cursor (entry_key e))
                          (map snd (ms_evidenceIndex s));
              entries = desc_by entry_key entries;
              hasMore = (nat (xq_Limit query) < length entries);
              entries = (if hasMore then take (nat (xq_Limit query)) entries else entries) in
          Inr \<lparr>xp_Entries = entries,
               xp_NextCursor = (if hasMore then encodeEvidenceIndexCursor lib (last entries) else []),
               xp_HasMore = hasMore\<rparr>)"

lemma normalize_evidence_limit:
  "normalizeEvidenceIndexQuery lib q = Inr (q', c) \<Longrightarrow>
     q' = (if xq_Limit q = 0 then q\<lparr>xq_Limit := DefaultEvidenceIndexPageSize\<rparr> else q) \<and>
     1 \<le> xq_Limit q' \<and> xq_Limit q' \<le> MaxEvidenceIndexPageSize"
  by (auto simp: normalizeEvidenceIndexQuery_def Let_def split: if_splits option.splits)

definition entry_rows :: "EvidenceIndexQuery \<Rightarrow> cursor \<Rightarrow> MemoryStore \<Rightarrow> EvidenceIndexEntry list" where
  "entry_rows q c s = desc_by entry_key
     (filter (\<lambda>e. entry_matches q e \<and> before_cursor c (entry_key e)) (map snd (ms_evidenceIndex s)))"

lemma ListEvidenceIndex_page:
  assumes "normalizeEvidenceIndexQuery lib q = Inr (q', c)"
  shows "ListEvidenceIndex lib q s = Inr
    \<lparr>xp_Entries = take (nat (xq_Limit q')) (entry_rows q' c s),
     xp_NextCursor = (if nat (xq_Limit q') < length (entry_rows q' c s)
       then encodeEvidenceIndexCursor lib (last (take (nat (xq_Limit q')) (entry_rows q' c s))) else []),
     xp_HasMore = (nat (xq_Limit q') < length (entry_rows q' c s))\<rparr>"
  unfolding ListEvidenceIndex_def assms sum.case prod.case Let_def entry_rows_def [symmetric] by simp

lemma ListEvidenceIndex_progress:
  assumes "ListEvidenceIndex lib q s = Inr page" and "xp_HasMore page"
  shows "xp_Entries page \<noteq> []"
proof -
  from assms(1) obtain q' c where n: "normalizeEvidenceIndexQuery lib q = Inr (q', c)"
    by (auto simp: ListEvidenceIndex_def split: sum.splits)
  have "0 < nat (xq_Limit q')"
    using normalize_evidence_limit [OF n, THEN conjunct2, THEN conjunct1] by linarith
  moreover have "nat (xq_Limit q') < length (entry_rows q' c s)"
    "xp_Entries page = take (nat (xq_Limit q')) (entry_rows q' c s)"
    using assms unfolding ListEvidenceIndex_page [OF n] by auto
  ultimately show ?thesis by auto
qed

function export_pages ::
  "golib \<Rightarrow> MemoryStore \<Rightarrow> EvidenceIndexQuery \<Rightarrow> EvidenceIndexEntry list \<Rightarrow>
   ledger_error + EvidenceIndexEntry list" where
  "export_pages lib s query entries =
     (case ListEvidenceIndex lib query s of
        Inl err \<Rightarrow> Inl err
      | Inr page \<Rightarrow>
          let entries' = entries @ xp_Entries page in
          if \<not> xp_HasMore page then Inr entries'
          else if MaxEvidenceIndexExportSize \<le> int (length entries') then Inl ErrEvidenceIndexExportTooLarge
          else export_pages lib s (query\<lparr>xq_Cursor := xp_NextCursor page\<rparr>) entries')"
  by pat_completeness auto
termination
  by (relation "measure (\<lambda>(lib, s, query, entries). nat (MaxEvidenceIndexExportSize) - length entries)")
     (auto dest!: ListEvidenceIndex_progress simp: MaxEvidenceIndexExportSize_def Let_def
       length_greater_0_conv [symmetric] simp del: length_greater_0_conv)

declare export_pages.simps [simp del]

definition ExportEvidenceIndex ::
  "golib \<Rightarrow> EvidenceIndexQuery \<Rightarrow> MemoryStore \<Rightarrow> ledger_error + EvidenceIndexExport" where
  "ExportEvidenceIndex lib query s =
     (case export_pages lib s (query\<lparr>xq_Cursor := [], xq_Limit := MaxEvidenceIndexPageSize\<rparr>) [] of
        Inl err \<Rightarrow> Inl err
      | Inr entries \<Rightarrow> Inr \<lparr>xx_SchemaVersion = 1, xx_Entries = entries\<rparr>)"

section \<open>The store as a machine\<close>

datatype mem_command =
    MemReceipt time ReceiptInput
  | MemRetention ReceiptRetentionInput
  | MemPrivacy time time ReceiptPrivacyDeleteInput
  | MemEvidence time EvidenceIndexInput
  | MemReconcile time ReconciliationInput

fun mem_step :: "golib \<Rightarrow> mem_command \<Rightarrow> MemoryStore \<Rightarrow> MemoryStore" where
  "mem_step lib (MemReceipt now i) s = snd (RecordReceipt lib now i s)"
| "mem_step lib (MemRetention i) s = snd (UpdateReceiptRetention lib i s)"
| "mem_step lib (MemPrivacy now at i) s = snd (PrivacyDeleteReceipt lib now at i s)"
| "mem_step lib (MemEvidence now i) s = snd (RecordEvidenceIndex lib now i s)"
| "mem_step lib (MemReconcile now i) s = snd (RecordReconciliation lib now i s)"

end
