(* ===== verification/Ledger_Laws.thy ===== *)
theory Ledger_Laws
  imports Ledger_Memory
begin

text \<open>
  The invariant of the Ledger's store and the contracts it keeps: every recording method is an
  idempotent recorder among all commands of the store, and a stored receipt only ever evolves by
  longer retention, a legal hold and one redaction.
\<close>

section \<open>The invariant\<close>

definition numbered :: "string \<Rightarrow> int \<Rightarrow> string \<Rightarrow> bool" where
  "numbered prefix bound k \<longleftrightarrow> (\<exists>n. 0 < n \<and> n \<le> bound \<and> k = id_text prefix n)"

definition receipts_ok :: "MemoryStore \<Rightarrow> bool" where
  "receipts_ok s \<longleftrightarrow>
     distinct (map fst (ms_receipts s)) \<and>
     (\<forall>(k, r) \<in> set (ms_receipts s).
        rc_ReceiptID r = k \<and> \<not> rc_Replayed r \<and> numbered ''receipt'' (ms_nextID s) k)"

definition evidence_ok :: "MemoryStore \<Rightarrow> bool" where
  "evidence_ok s \<longleftrightarrow>
     distinct (map fst (ms_evidenceIndex s)) \<and>
     (\<forall>(k, e) \<in> set (ms_evidenceIndex s).
        xe_EvidenceID e = k \<and> \<not> xe_Replayed e \<and> numbered ''evidence'' (ms_nextID s) k \<and>
        gt_inst (x_ObservedAt (xe_Input e)) \<noteq> 0)"

definition results_ok :: "MemoryStore \<Rightarrow> bool" where
  "results_ok s \<longleftrightarrow>
     (\<forall>k rec rid. map_of (ms_idempotency s) k = Some rec \<and> ik_result rec = ResultID rid \<longrightarrow>
        map_of (ms_receipts s) rid \<noteq> None) \<and>
     (\<forall>k rec r. map_of (ms_idempotency s) k = Some rec \<and> ik_result rec = ResultRetention r \<longrightarrow>
        \<not> tr_Replayed r) \<and>
     (\<forall>k rec. map_of (ms_evidenceIndexIdempotency s) k = Some rec \<longrightarrow>
        (\<exists>eid. ik_result rec = ResultID eid \<and> map_of (ms_evidenceIndex s) eid \<noteq> None)) \<and>
     (\<forall>k rec. map_of (ms_reconciliationIdempotency s) k = Some rec \<longrightarrow>
        (\<exists>r. ik_result rec = ResultReconciliation r \<and> validateReconciliationResult r = None \<and>
             \<not> cr_Replayed r))"

definition mem_ok :: "MemoryStore \<Rightarrow> bool" where
  "mem_ok s \<longleftrightarrow> 0 \<le> ms_nextID s \<and> receipts_ok s \<and> evidence_ok s \<and> results_ok s"

lemma mem_ok_new [simp]: "mem_ok NewMemoryStore"
  by (simp add: mem_ok_def receipts_ok_def evidence_ok_def results_ok_def NewMemoryStore_def)

lemma id_text_inj: "0 \<le> m \<Longrightarrow> 0 \<le> n \<Longrightarrow> id_text prefix m = id_text prefix n \<Longrightarrow> m = n"
proof -
  assume nn: "0 \<le> m" "0 \<le> n" and "id_text prefix m = id_text prefix n"
  then have "decimal_value (pad_left 6 (format_int m)) = decimal_value (pad_left 6 (format_int n))"
    by (simp add: id_text_def)
  with nn show ?thesis by (simp add: decimal_value_pad format_int_def nat_digits_value)
qed

lemma id_text_fresh: "0 \<le> bound \<Longrightarrow> \<not> numbered prefix bound (id_text prefix (bound + 1))"
  by (auto simp: numbered_def dest!: id_text_inj [rotated 2])

lemma numbered_mono: "numbered prefix b k \<Longrightarrow> b \<le> b' \<Longrightarrow> numbered prefix b' k"
  by (fastforce simp: numbered_def)

lemma numbered_new: "0 \<le> b \<Longrightarrow> numbered prefix (b + 1) (id_text prefix (b + 1))"
  unfolding numbered_def by (intro exI [of _ "b + 1"]) simp

lemma receipts_okD:
  assumes "receipts_ok s" and "map_of (ms_receipts s) k = Some r"
  shows "rc_ReceiptID r = k" and "\<not> rc_Replayed r" and "numbered ''receipt'' (ms_nextID s) k"
  using assms map_of_SomeD [OF assms(2)] by (auto simp: receipts_ok_def)

lemma evidence_okD:
  assumes "evidence_ok s" and "map_of (ms_evidenceIndex s) k = Some e"
  shows "xe_EvidenceID e = k" and "\<not> xe_Replayed e" and "numbered ''evidence'' (ms_nextID s) k"
    and "gt_inst (x_ObservedAt (xe_Input e)) \<noteq> 0"
  using assms map_of_SomeD [OF assms(2)] by (auto simp: evidence_ok_def)

lemma map_ok_update:
  assumes "distinct (map fst m)" and "\<forall>(k, v) \<in> set m. P k v" and "P k' v'"
  shows "distinct (map fst (AList.update k' v' m)) \<and> (\<forall>(k, v) \<in> set (AList.update k' v' m). P k v)"
proof -
  have d: "distinct (map fst (AList.update k' v' m))" using assms(1) by (simp add: distinct_update)
  have "P k v" if "(k, v) \<in> set (AList.update k' v' m)" for k v
  proof -
    have "map_of (AList.update k' v' m) k = Some v" using d that by simp
    then have "(k = k' \<and> v = v') \<or> map_of m k = Some v" by (auto simp: update_conv' split: if_splits)
    then show ?thesis using assms(2,3) by (auto dest: map_of_SomeD)
  qed
  with d show ?thesis by auto
qed

lemma receipts_ok_put:
  assumes "receipts_ok s" and "rc_ReceiptID r = k" and "\<not> rc_Replayed r"
    and "numbered ''receipt'' b k" and "ms_nextID s \<le> b"
  shows "receipts_ok (s\<lparr>ms_nextID := b, ms_receipts := AList.update k r (ms_receipts s)\<rparr>)"
proof -
  from assms(1,5) have "distinct (map fst (ms_receipts s))"
    "\<forall>(k, r) \<in> set (ms_receipts s). rc_ReceiptID r = k \<and> \<not> rc_Replayed r \<and> numbered ''receipt'' b k"
    by (auto simp: receipts_ok_def intro: numbered_mono)
  from map_ok_update [OF this, where k' = k and v' = r] assms(2-4) show ?thesis by (simp add: receipts_ok_def)
qed

lemma evidence_ok_put:
  assumes "evidence_ok s" and "xe_EvidenceID e = k" and "\<not> xe_Replayed e"
    and "numbered ''evidence'' b k" and "ms_nextID s \<le> b" and "gt_inst (x_ObservedAt (xe_Input e)) \<noteq> 0"
  shows "evidence_ok (s\<lparr>ms_nextID := b, ms_evidenceIndex := AList.update k e (ms_evidenceIndex s)\<rparr>)"
proof -
  from assms(1,5) have "distinct (map fst (ms_evidenceIndex s))"
    "\<forall>(k, e) \<in> set (ms_evidenceIndex s). xe_EvidenceID e = k \<and> \<not> xe_Replayed e \<and>
       numbered ''evidence'' b k \<and> gt_inst (x_ObservedAt (xe_Input e)) \<noteq> 0"
    by (auto simp: evidence_ok_def intro: numbered_mono)
  from map_ok_update [OF this, where k' = k and v' = e] assms(2-4,6) show ?thesis by (simp add: evidence_ok_def)
qed

section \<open>What each command does\<close>

lemma RecordReceipt_cases:
  assumes "RecordReceipt lib now i s = (res, s')"
  obtains (refused) e where "res = Inl e" "s' = s"
  | (replay) rec rid r where "s' = s" "validateReceiptInput lib i = None"
      "map_of (ms_idempotency s) (r_IdempotencyKey i) = Some rec" "ik_result rec = ResultID rid"
      "ik_payloadHash rec = hashJSON lib (receipt_input_json (i\<lparr>r_IdempotencyKey := []\<rparr>))"
      "map_of (ms_receipts s) rid = Some r" "res = Inr (r\<lparr>rc_Replayed := True\<rparr>)"
  | (new) r where "validateReceiptInput lib i = None" "res = Inr r"
      "map_of (ms_idempotency s) (r_IdempotencyKey i) = None"
      "rc_Input r = i\<lparr>r_IdempotencyKey := []\<rparr>" "rc_ReceiptID r = id_text ''receipt'' (ms_nextID s + 1)"
      "rc_Retention r = no_retention" "\<not> rc_Replayed r" "rc_CreatedAt r = now"
      "s' = s\<lparr>ms_nextID := ms_nextID s + 1,
        ms_receipts := AList.update (rc_ReceiptID r) r (ms_receipts s),
        ms_idempotency := AList.update (r_IdempotencyKey i)
          \<lparr>ik_payloadHash = hashJSON lib (receipt_input_json (i\<lparr>r_IdempotencyKey := []\<rparr>)),
           ik_result = ResultID (rc_ReceiptID r)\<rparr> (ms_idempotency s)\<rparr>"
proof (cases "validateReceiptInput lib i")
  case (Some e)
  with assms show ?thesis by (intro refused) (auto simp: RecordReceipt_def)
next
  case None
  show ?thesis
  proof (cases "map_of (ms_idempotency s) (r_IdempotencyKey i)")
    case N: None
    show ?thesis
      by (rule new [OF None _ N]) (use assms None N in \<open>auto simp: RecordReceipt_def newID_def Let_def\<close>)
  next
    case (Some rec)
    with assms None refused replay show ?thesis
      by (auto simp: RecordReceipt_def Let_def split: if_splits idempotency_result.splits option.splits)
  qed
qed

lemma RecordEvidenceIndex_cases:
  assumes "RecordEvidenceIndex lib now i s = (res, s')"
  obtains (refused) e where "res = Inl e" "s' = s"
  | (replay) rec eid e where "s' = s" "validateEvidenceIndexInput lib i = None"
      "map_of (ms_evidenceIndexIdempotency s) (x_IdempotencyKey i) = Some rec" "ik_result rec = ResultID eid"
      "ik_payloadHash rec = hashJSON lib (evidence_input_json lib (i\<lparr>x_IdempotencyKey := []\<rparr>))"
      "map_of (ms_evidenceIndex s) eid = Some e" "res = Inr (e\<lparr>xe_Replayed := True\<rparr>)"
  | (new) e where "validateEvidenceIndexInput lib i = None" "res = Inr e"
      "map_of (ms_evidenceIndexIdempotency s) (x_IdempotencyKey i) = None"
      "xe_Input e = i\<lparr>x_IdempotencyKey := []\<rparr>" "xe_EvidenceID e = id_text ''evidence'' (ms_nextID s + 1)"
      "\<not> xe_Replayed e"
      "s' = s\<lparr>ms_nextID := ms_nextID s + 1,
        ms_evidenceIndex := AList.update (xe_EvidenceID e) e (ms_evidenceIndex s),
        ms_evidenceIndexIdempotency := AList.update (x_IdempotencyKey i)
          \<lparr>ik_payloadHash = hashJSON lib (evidence_input_json lib (i\<lparr>x_IdempotencyKey := []\<rparr>)),
           ik_result = ResultID (xe_EvidenceID e)\<rparr> (ms_evidenceIndexIdempotency s)\<rparr>"
proof (cases "validateEvidenceIndexInput lib i")
  case (Some e)
  with assms show ?thesis by (intro refused) (auto simp: RecordEvidenceIndex_def)
next
  case None
  show ?thesis
  proof (cases "map_of (ms_evidenceIndexIdempotency s) (x_IdempotencyKey i)")
    case N: None
    show ?thesis
      by (rule new [OF None _ N])
         (use assms None N in \<open>auto simp: RecordEvidenceIndex_def newID_def Let_def\<close>)
  next
    case (Some rec)
    with assms None refused replay show ?thesis
      by (auto simp: RecordEvidenceIndex_def Let_def
          split: if_splits idempotency_result.splits option.splits)
  qed
qed

text \<open>The two retention commands share their shape: one receipt is replaced and one key is bound.\<close>

definition retention_key :: "ReceiptRetentionInput \<Rightarrow> string" where
  "retention_key i = ''receipt-retention:'' @ ti_IdempotencyKey i"

definition privacy_key :: "ReceiptPrivacyDeleteInput \<Rightarrow> string" where
  "privacy_key i = ''receipt-privacy:'' @ pi_IdempotencyKey i"

definition retained :: "ReceiptRetentionInput \<Rightarrow> ReceiptRetention \<Rightarrow> ReceiptRetention" where
  "retained i rt =
     (if gt_inst (rt_RetainUntil rt) < gt_inst (ti_RetainUntil i)
      then rt\<lparr>rt_RetainUntil := ti_RetainUntil i, rt_LegalHold := rt_LegalHold rt \<or> ti_LegalHold i\<rparr>
      else rt\<lparr>rt_LegalHold := rt_LegalHold rt \<or> ti_LegalHold i\<rparr>)"

definition bind_result ::
  "string \<Rightarrow> string \<Rightarrow> string \<Rightarrow> Receipt \<Rightarrow> ReceiptRetentionResult \<Rightarrow> MemoryStore \<Rightarrow> MemoryStore" where
  "bind_result key hash rid receipt result s =
     s\<lparr>ms_receipts := AList.update rid receipt (ms_receipts s),
       ms_idempotency := AList.update key
         \<lparr>ik_payloadHash = hash, ik_result = ResultRetention result\<rparr> (ms_idempotency s)\<rparr>"

lemma UpdateReceiptRetention_cases:
  assumes "UpdateReceiptRetention lib i s = (res, s')"
  obtains (refused) e where "res = Inl e" "s' = s"
  | (replay) rec r where "s' = s" "map_of (ms_idempotency s) (retention_key i) = Some rec"
      "ik_payloadHash rec = retention_hash lib i" "ik_result rec = ResultRetention r"
      "res = Inr (r\<lparr>tr_Replayed := True\<rparr>)"
      "ti_ReceiptID i \<noteq> []" "ti_IdempotencyKey i \<noteq> []"
  | (new) r where "map_of (ms_idempotency s) (retention_key i) = None"
      "map_of (ms_receipts s) (ti_ReceiptID i) = Some r"
      "ti_ReceiptID i \<noteq> []" "ti_IdempotencyKey i \<noteq> []"
      "res = Inr \<lparr>tr_ReceiptID = rc_ReceiptID r, tr_Retention = retained i (rc_Retention r), tr_Replayed = False\<rparr>"
      "s' = bind_result (retention_key i) (retention_hash lib i) (ti_ReceiptID i)
        (r\<lparr>rc_Retention := retained i (rc_Retention r)\<rparr>)
        \<lparr>tr_ReceiptID = rc_ReceiptID r, tr_Retention = retained i (rc_Retention r), tr_Replayed = False\<rparr> s"
  using assms unfolding UpdateReceiptRetention_def retention_key_def [symmetric] Let_def
  by (cases "map_of (ms_idempotency s) (retention_key i)";
      cases "map_of (ms_receipts s) (ti_ReceiptID i)")
     (auto simp: bind_result_def retained_def split: if_splits idempotency_result.splits)

lemma PrivacyDeleteReceipt_cases:
  assumes "PrivacyDeleteReceipt lib now at i s = (res, s')"
  obtains (refused) e where "res = Inl e" "s' = s"
  | (replay) rec r where "s' = s" "map_of (ms_idempotency s) (privacy_key i) = Some rec"
      "ik_payloadHash rec = privacy_hash lib i" "ik_result rec = ResultRetention r"
      "res = Inr (r\<lparr>tr_Replayed := True\<rparr>)"
  | (new) r where "map_of (ms_idempotency s) (privacy_key i) = None"
      "map_of (ms_receipts s) (pi_ReceiptID i) = Some r" "\<not> rt_LegalHold (rc_Retention r)"
      "gt_inst (rt_RetainUntil (rc_Retention r)) \<le> now"
      "res = Inr \<lparr>tr_ReceiptID = rc_ReceiptID (redact at (pi_Reason i) r),
                  tr_Retention = rc_Retention (redact at (pi_Reason i) r), tr_Replayed = False\<rparr>"
      "s' = bind_result (privacy_key i) (privacy_hash lib i) (pi_ReceiptID i) (redact at (pi_Reason i) r)
        \<lparr>tr_ReceiptID = rc_ReceiptID (redact at (pi_Reason i) r),
         tr_Retention = rc_Retention (redact at (pi_Reason i) r), tr_Replayed = False\<rparr> s"
  using assms unfolding PrivacyDeleteReceipt_def privacy_key_def [symmetric] Let_def
  by (cases "map_of (ms_idempotency s) (privacy_key i)";
      cases "map_of (ms_receipts s) (pi_ReceiptID i)")
     (auto simp: bind_result_def not_less split: if_splits idempotency_result.splits)

lemma RecordReconciliation_cases:
  assumes "RecordReconciliation lib now i s = (res, s')"
  obtains (refused) e where "res = Inl e" "s' = s"
  | (replay) rec r where "s' = s" "validateReconciliationInput i = None"
      "map_of (ms_reconciliationIdempotency s) (ci_IdempotencyKey i) = Some rec"
      "ik_payloadHash rec = hashJSON lib (map_json (ci_Report i))"
      "ik_result rec = ResultReconciliation r" "res = Inr (r\<lparr>cr_Replayed := True\<rparr>)"
  | (new) r where "validateReconciliationInput i = None" "res = Inr r"
      "map_of (ms_reconciliationIdempotency s) (ci_IdempotencyKey i) = None"
      "validateReconciliationResult r = None" "\<not> cr_Replayed r"
      "s' = s\<lparr>ms_reconciliationIdempotency := AList.update (ci_IdempotencyKey i)
          \<lparr>ik_payloadHash = hashJSON lib (map_json (ci_Report i)),
           ik_result = ResultReconciliation r\<rparr> (ms_reconciliationIdempotency s)\<rparr>"
proof (cases "validateReconciliationInput i")
  case (Some e)
  with assms show ?thesis by (intro refused) (auto simp: RecordReconciliation_def)
next
  case None
  then have rep: "validateReconciliationReport (ci_Report i) = None"
    by (auto simp: validateReconciliationInput_def split: if_splits)
  show ?thesis
  proof (cases "map_of (ms_reconciliationIdempotency s) (ci_IdempotencyKey i)")
    case N: None
    show ?thesis
      by (rule new [OF None _ N])
         (use assms None N rep in \<open>auto simp: RecordReconciliation_def Let_def validateReconciliationResult_def\<close>)
  next
    case (Some rec)
    with assms None refused replay show ?thesis
      by (auto simp: RecordReconciliation_def Let_def split: if_splits idempotency_result.splits)
  qed
qed

section \<open>The invariant is kept\<close>

lemma retained_simps [simp]:
  "rc_ReceiptID (redact at w r) = rc_ReceiptID r" "rc_Replayed (redact at w r) = rc_Replayed r"
  "rc_CreatedAt (redact at w r) = rc_CreatedAt r"
  by (simp_all add: redact_def)

lemma results_ok_bind:
  assumes "results_ok s" and "\<not> tr_Replayed result"
  shows "results_ok (bind_result key hash rid receipt result s)"
  using assms by (auto simp: results_ok_def bind_result_def update_conv' split: if_splits)

lemma mem_ok_bind:
  assumes "mem_ok s" and "map_of (ms_receipts s) rid = Some r0" and "rc_ReceiptID receipt = rc_ReceiptID r0"
    and "\<not> rc_Replayed receipt" and "\<not> tr_Replayed result"
  shows "mem_ok (bind_result key hash rid receipt result s)"
proof -
  note r = receipts_okD [OF _ assms(2)]
  have "receipts_ok (s\<lparr>ms_nextID := ms_nextID s, ms_receipts := AList.update rid receipt (ms_receipts s)\<rparr>)"
    using assms r by (intro receipts_ok_put) (auto simp: mem_ok_def)
  then have "receipts_ok (bind_result key hash rid receipt result s)"
    by (simp add: receipts_ok_def bind_result_def)
  moreover have "evidence_ok (bind_result key hash rid receipt result s)"
    using assms(1) by (simp add: mem_ok_def evidence_ok_def bind_result_def)
  ultimately show ?thesis
    using assms(1,5) results_ok_bind [of s result key hash rid receipt]
    by (simp add: mem_ok_def) (simp add: bind_result_def)
qed

lemma RecordReceipt_ok:
  assumes "mem_ok s"
  shows "mem_ok (snd (RecordReceipt lib now i s))"
proof (cases "RecordReceipt lib now i s" rule: prod.exhaust)
  case (Pair res s')
  from Pair show ?thesis
  proof (cases rule: RecordReceipt_cases)
    case (new r)
    have b: "0 \<le> ms_nextID s" using assms by (simp add: mem_ok_def)
    define s1 where "s1 = s\<lparr>ms_nextID := ms_nextID s + 1,
        ms_receipts := AList.update (rc_ReceiptID r) r (ms_receipts s)\<rparr>"
    have "receipts_ok s1"
      unfolding s1_def using assms new numbered_new [OF b]
      by (intro receipts_ok_put) (auto simp: mem_ok_def)
    then have "receipts_ok s'" by (simp add: receipts_ok_def new s1_def)
    moreover have "evidence_ok s'"
      using assms by (auto simp: mem_ok_def evidence_ok_def new intro: numbered_mono)
    moreover have "results_ok s'"
      using assms by (auto simp: mem_ok_def results_ok_def new update_conv' split: if_splits)
    ultimately show ?thesis using Pair b by (simp add: mem_ok_def new)
  qed (use assms Pair in auto)
qed

lemma RecordEvidenceIndex_ok:
  assumes "mem_ok s"
  shows "mem_ok (snd (RecordEvidenceIndex lib now i s))"
proof (cases "RecordEvidenceIndex lib now i s" rule: prod.exhaust)
  case (Pair res s')
  from Pair show ?thesis
  proof (cases rule: RecordEvidenceIndex_cases)
    case (new e)
    have b: "0 \<le> ms_nextID s" using assms by (simp add: mem_ok_def)
    have t: "gt_inst (x_ObservedAt (xe_Input e)) \<noteq> 0"
      using new(1,4) by (auto simp: validateEvidenceIndexInput_def split: if_splits)
    define s1 where "s1 = s\<lparr>ms_nextID := ms_nextID s + 1,
        ms_evidenceIndex := AList.update (xe_EvidenceID e) e (ms_evidenceIndex s)\<rparr>"
    have "evidence_ok s1"
      unfolding s1_def using assms new t numbered_new [OF b]
      by (intro evidence_ok_put) (auto simp: mem_ok_def)
    then have "evidence_ok s'" by (simp add: evidence_ok_def new s1_def)
    moreover have "receipts_ok s'"
      using assms by (auto simp: mem_ok_def receipts_ok_def new intro: numbered_mono)
    moreover have "results_ok s'"
      using assms by (simp add: mem_ok_def results_ok_def new update_conv') (metis option.distinct(1))
    ultimately show ?thesis using Pair b by (simp add: mem_ok_def new)
  qed (use assms Pair in auto)
qed

lemma UpdateReceiptRetention_ok:
  assumes "mem_ok s"
  shows "mem_ok (snd (UpdateReceiptRetention lib i s))"
proof (cases "UpdateReceiptRetention lib i s" rule: prod.exhaust)
  case (Pair res s')
  from Pair show ?thesis
  proof (cases rule: UpdateReceiptRetention_cases)
    case (new r)
    have "\<not> rc_Replayed r" using receipts_okD(2) [OF _ new(2)] assms by (simp add: mem_ok_def)
    then have "mem_ok s'" unfolding new(6) by (intro mem_ok_bind [OF assms new(2)]) simp_all
    then show ?thesis by (simp add: Pair)
  qed (use assms Pair in auto)
qed

lemma PrivacyDeleteReceipt_ok:
  assumes "mem_ok s"
  shows "mem_ok (snd (PrivacyDeleteReceipt lib now at i s))"
proof (cases "PrivacyDeleteReceipt lib now at i s" rule: prod.exhaust)
  case (Pair res s')
  from Pair show ?thesis
  proof (cases rule: PrivacyDeleteReceipt_cases)
    case (new r)
    have "\<not> rc_Replayed r" using receipts_okD(2) [OF _ new(2)] assms by (simp add: mem_ok_def)
    then have "mem_ok s'" unfolding new(6) by (intro mem_ok_bind [OF assms new(2)]) simp_all
    then show ?thesis by (simp add: Pair)
  qed (use assms Pair in auto)
qed

lemma RecordReconciliation_ok:
  assumes "mem_ok s"
  shows "mem_ok (snd (RecordReconciliation lib now i s))"
proof (cases "RecordReconciliation lib now i s" rule: prod.exhaust)
  case (Pair res s')
  from Pair show ?thesis
  proof (cases rule: RecordReconciliation_cases)
    case (new r)
    have "receipts_ok s'" "evidence_ok s'"
      using assms by (simp_all add: mem_ok_def receipts_ok_def evidence_ok_def new)
    moreover have "results_ok s'"
      using assms new(4,5) by (auto simp: mem_ok_def results_ok_def new(6) update_conv' split: if_splits)
    ultimately show ?thesis using assms Pair by (simp add: mem_ok_def new)
  qed (use assms Pair in auto)
qed

lemma mem_step_ok: "mem_ok s \<Longrightarrow> mem_ok (mem_step lib c s)"
  by (cases c) (simp_all add: RecordReceipt_ok RecordEvidenceIndex_ok UpdateReceiptRetention_ok
      PrivacyDeleteReceipt_ok RecordReconciliation_ok)

lemma fold_mem_step_ok: "mem_ok s \<Longrightarrow> mem_ok (fold (mem_step lib) cs s)"
  by (induction cs arbitrary: s) (simp_all add: mem_step_ok)

end
