(* ===== verification/Ledger_Recorders.thy ===== *)
theory Ledger_Recorders
  imports Ledger_Laws
begin

text \<open>
  The Ledger's recording methods as idempotent recorders among all commands of the store, and the
  evolution of a stored receipt.
\<close>

section \<open>Keys stay bound\<close>

lemma mem_step_keys:
  "(map_of (ms_idempotency s) k = Some rec \<longrightarrow> map_of (ms_idempotency (mem_step lib c s)) k = Some rec) \<and>
   (map_of (ms_evidenceIndexIdempotency s) k = Some rec \<longrightarrow>
      map_of (ms_evidenceIndexIdempotency (mem_step lib c s)) k = Some rec) \<and>
   (map_of (ms_reconciliationIdempotency s) k = Some rec \<longrightarrow>
      map_of (ms_reconciliationIdempotency (mem_step lib c s)) k = Some rec)"
proof (cases c)
  case (MemReceipt now i)
  obtain res s' where r: "RecordReceipt lib now i s = (res, s')" by fastforce
  then show ?thesis by (cases rule: RecordReceipt_cases) (auto simp: MemReceipt r update_conv')
next
  case (MemRetention i)
  obtain res s' where r: "UpdateReceiptRetention lib i s = (res, s')" by fastforce
  then show ?thesis
    by (cases rule: UpdateReceiptRetention_cases) (auto simp: MemRetention r bind_result_def update_conv')
next
  case (MemPrivacy now at i)
  obtain res s' where r: "PrivacyDeleteReceipt lib now at i s = (res, s')" by fastforce
  then show ?thesis
    by (cases rule: PrivacyDeleteReceipt_cases) (auto simp: MemPrivacy r bind_result_def update_conv')
next
  case (MemEvidence now i)
  obtain res s' where r: "RecordEvidenceIndex lib now i s = (res, s')" by fastforce
  then show ?thesis by (cases rule: RecordEvidenceIndex_cases) (auto simp: MemEvidence r update_conv')
next
  case (MemReconcile now i)
  obtain res s' where r: "RecordReconciliation lib now i s = (res, s')" by fastforce
  then show ?thesis by (cases rule: RecordReconciliation_cases) (auto simp: MemReconcile r update_conv')
qed

section \<open>Receipts\<close>

definition receipt_recorded :: "MemoryStore \<Rightarrow> string \<Rightarrow> (string \<times> string) option" where
  "receipt_recorded s k =
     (case map_of (ms_idempotency s) k of
        None \<Rightarrow> None
      | Some rec \<Rightarrow>
          (case ik_result rec of ResultID rid \<Rightarrow> Some (ik_payloadHash rec, rid) | _ \<Rightarrow> None))"

definition receipt_fingerprint :: "golib \<Rightarrow> ReceiptInput \<Rightarrow> string" where
  "receipt_fingerprint lib i = hashJSON lib (receipt_input_json (i\<lparr>r_IdempotencyKey := []\<rparr>))"

lemma receipt_recorded_Some:
  "receipt_recorded s k = Some (h, rid) \<longleftrightarrow>
     (\<exists>rec. map_of (ms_idempotency s) k = Some rec \<and> ik_payloadHash rec = h \<and> ik_result rec = ResultID rid)"
  by (auto simp: receipt_recorded_def split: option.splits idempotency_result.splits)

lemma RecordReceipt_bound:
  assumes "mem_ok s" and "receipt_recorded s (r_IdempotencyKey i) = Some (h, rid)"
    and "validateReceiptInput lib i = None"
  shows "if h = receipt_fingerprint lib i
         then \<exists>r. RecordReceipt lib now i s = (Inr r, s) \<and> rc_ReceiptID r = rid
         else RecordReceipt lib now i s = (Inl ErrLedgerIdempotencyConflict, s)"
proof -
  obtain rec where rec: "map_of (ms_idempotency s) (r_IdempotencyKey i) = Some rec"
    "ik_payloadHash rec = h" "ik_result rec = ResultID rid"
    using assms(2) by (auto simp: receipt_recorded_Some)
  then obtain r where r: "map_of (ms_receipts s) rid = Some r"
    using assms(1) by (fastforce simp: mem_ok_def results_ok_def)
  then have "rc_ReceiptID r = rid" using assms(1) receipts_okD(1) by (auto simp: mem_ok_def)
  with rec r assms(3) show ?thesis
    by (auto simp: RecordReceipt_def Let_def receipt_fingerprint_def)
qed

interpretation receipts: idempotent_recorder "\<lambda>(now, i). RecordReceipt lib now i" "mem_step lib"
  "\<lambda>(now, i). r_IdempotencyKey i" "\<lambda>(now, i). receipt_fingerprint lib i"
  "\<lambda>(now, i). validateReceiptInput lib i = None" receipt_recorded rc_ReceiptID
  ErrLedgerIdempotencyConflict mem_ok
proof (unfold_locales, goal_cases)
  case (1 s i)
  then show ?case by (cases i) (simp add: RecordReceipt_ok)
next
  case (2 s c)
  then show ?case by (rule mem_step_ok)
next
  case (3 s i r s')
  obtain now j where i: "i = (now, j)" by fastforce
  with 3 have "RecordReceipt lib now j s = (Inr r, s')" by simp
  then show ?case
  proof (cases rule: RecordReceipt_cases)
    case (replay rec rid r0)
    then have "rc_ReceiptID r0 = rid" using 3(1) receipts_okD(1) by (auto simp: mem_ok_def)
    with replay show ?thesis by (auto simp: i receipt_recorded_Some receipt_fingerprint_def)
  qed (auto simp: i receipt_recorded_Some receipt_fingerprint_def update_conv')
next
  case (4 s i q)
  then show ?case using RecordReceipt_bound by (cases i) (auto split: if_splits)
next
  case (5 s i h q)
  then show ?case using RecordReceipt_bound by (cases i) (auto split: if_splits)
next
  case (6 s k x c)
  obtain h rid where x: "x = (h, rid)" by fastforce
  with 6(2) obtain rec where "map_of (ms_idempotency s) k = Some rec" "ik_payloadHash rec = h"
    "ik_result rec = ResultID rid" by (auto simp: receipt_recorded_Some)
  then show ?case using mem_step_keys [of s k rec lib c] by (auto simp: x receipt_recorded_Some)
qed

section \<open>Evidence index\<close>

definition evidence_recorded :: "MemoryStore \<Rightarrow> string \<Rightarrow> (string \<times> string) option" where
  "evidence_recorded s k =
     (case map_of (ms_evidenceIndexIdempotency s) k of
        None \<Rightarrow> None
      | Some rec \<Rightarrow>
          (case ik_result rec of ResultID eid \<Rightarrow> Some (ik_payloadHash rec, eid) | _ \<Rightarrow> None))"

definition evidence_fingerprint :: "golib \<Rightarrow> EvidenceIndexInput \<Rightarrow> string" where
  "evidence_fingerprint lib i = hashJSON lib (evidence_input_json lib (i\<lparr>x_IdempotencyKey := []\<rparr>))"

lemma evidence_recorded_Some:
  "evidence_recorded s k = Some (h, eid) \<longleftrightarrow>
     (\<exists>rec. map_of (ms_evidenceIndexIdempotency s) k = Some rec \<and> ik_payloadHash rec = h \<and>
        ik_result rec = ResultID eid)"
  by (auto simp: evidence_recorded_def split: option.splits idempotency_result.splits)

lemma RecordEvidenceIndex_bound:
  assumes "mem_ok s" and "evidence_recorded s (x_IdempotencyKey i) = Some (h, eid)"
    and "validateEvidenceIndexInput lib i = None"
  shows "if h = evidence_fingerprint lib i
         then \<exists>e. RecordEvidenceIndex lib now i s = (Inr e, s) \<and> xe_EvidenceID e = eid
         else RecordEvidenceIndex lib now i s = (Inl ErrLedgerIdempotencyConflict, s)"
proof -
  obtain rec where rec: "map_of (ms_evidenceIndexIdempotency s) (x_IdempotencyKey i) = Some rec"
    "ik_payloadHash rec = h" "ik_result rec = ResultID eid"
    using assms(2) by (auto simp: evidence_recorded_Some)
  then obtain e where e: "map_of (ms_evidenceIndex s) eid = Some e"
    using assms(1) by (fastforce simp: mem_ok_def results_ok_def)
  then have "xe_EvidenceID e = eid" using assms(1) evidence_okD(1) by (auto simp: mem_ok_def)
  with rec e assms(3) show ?thesis
    by (auto simp: RecordEvidenceIndex_def Let_def evidence_fingerprint_def)
qed

interpretation evidence: idempotent_recorder "\<lambda>(now, i). RecordEvidenceIndex lib now i" "mem_step lib"
  "\<lambda>(now, i). x_IdempotencyKey i" "\<lambda>(now, i). evidence_fingerprint lib i"
  "\<lambda>(now, i). validateEvidenceIndexInput lib i = None" evidence_recorded xe_EvidenceID
  ErrLedgerIdempotencyConflict mem_ok
proof (unfold_locales, goal_cases)
  case (1 s i)
  then show ?case by (cases i) (simp add: RecordEvidenceIndex_ok)
next
  case (2 s c)
  then show ?case by (rule mem_step_ok)
next
  case (3 s i r s')
  obtain now j where i: "i = (now, j)" by fastforce
  with 3 have "RecordEvidenceIndex lib now j s = (Inr r, s')" by simp
  then show ?case
  proof (cases rule: RecordEvidenceIndex_cases)
    case (replay rec eid e0)
    then have "xe_EvidenceID e0 = eid" using 3(1) evidence_okD(1) by (auto simp: mem_ok_def)
    with replay show ?thesis by (auto simp: i evidence_recorded_Some evidence_fingerprint_def)
  qed (auto simp: i evidence_recorded_Some evidence_fingerprint_def update_conv')
next
  case (4 s i q)
  then show ?case using RecordEvidenceIndex_bound by (cases i) (auto split: if_splits)
next
  case (5 s i h q)
  then show ?case using RecordEvidenceIndex_bound by (cases i) (auto split: if_splits)
next
  case (6 s k x c)
  obtain h eid where x: "x = (h, eid)" by fastforce
  with 6(2) obtain rec where "map_of (ms_evidenceIndexIdempotency s) k = Some rec" "ik_payloadHash rec = h"
    "ik_result rec = ResultID eid" by (auto simp: evidence_recorded_Some)
  then show ?case using mem_step_keys [of s k rec lib c] by (auto simp: x evidence_recorded_Some)
qed

section \<open>Reconciliation\<close>

definition recon_recorded :: "MemoryStore \<Rightarrow> string \<Rightarrow> (string \<times> ReconciliationResult) option" where
  "recon_recorded s k =
     (case map_of (ms_reconciliationIdempotency s) k of
        None \<Rightarrow> None
      | Some rec \<Rightarrow>
          (case ik_result rec of ResultReconciliation r \<Rightarrow> Some (ik_payloadHash rec, r) | _ \<Rightarrow> None))"

definition recon_fingerprint :: "golib \<Rightarrow> ReconciliationInput \<Rightarrow> string" where
  "recon_fingerprint lib i = hashJSON lib (map_json (ci_Report i))"

lemma recon_recorded_Some:
  "recon_recorded s k = Some (h, r) \<longleftrightarrow>
     (\<exists>rec. map_of (ms_reconciliationIdempotency s) k = Some rec \<and> ik_payloadHash rec = h \<and>
        ik_result rec = ResultReconciliation r)"
  by (auto simp: recon_recorded_def split: option.splits idempotency_result.splits)

lemma RecordReconciliation_bound:
  assumes "mem_ok s" and "recon_recorded s (ci_IdempotencyKey i) = Some (h, q)"
    and "validateReconciliationInput i = None"
  shows "if h = recon_fingerprint lib i
         then \<exists>r. RecordReconciliation lib now i s = (Inr r, s) \<and> r\<lparr>cr_Replayed := False\<rparr> = q
         else RecordReconciliation lib now i s = (Inl ErrLedgerIdempotencyConflict, s)"
proof -
  obtain rec where rec: "map_of (ms_reconciliationIdempotency s) (ci_IdempotencyKey i) = Some rec"
    "ik_payloadHash rec = h" "ik_result rec = ResultReconciliation q"
    using assms(2) by (auto simp: recon_recorded_Some)
  then have "validateReconciliationResult q = None" "\<not> cr_Replayed q"
    using assms(1) by (fastforce simp: mem_ok_def results_ok_def)+
  with rec assms(3) show ?thesis
    by (auto simp: RecordReconciliation_def Let_def recon_fingerprint_def)
qed

interpretation reconciliations: idempotent_recorder "\<lambda>(now, i). RecordReconciliation lib now i"
  "mem_step lib" "\<lambda>(now, i). ci_IdempotencyKey i" "\<lambda>(now, i). recon_fingerprint lib i"
  "\<lambda>(now, i). validateReconciliationInput i = None" recon_recorded "\<lambda>r. r\<lparr>cr_Replayed := False\<rparr>"
  ErrLedgerIdempotencyConflict mem_ok
proof (unfold_locales, goal_cases)
  case (1 s i)
  then show ?case by (cases i) (simp add: RecordReconciliation_ok)
next
  case (2 s c)
  then show ?case by (rule mem_step_ok)
next
  case (3 s i r s')
  obtain now j where i: "i = (now, j)" by fastforce
  with 3 have "RecordReconciliation lib now j s = (Inr r, s')" by simp
  then show ?case
  proof (cases rule: RecordReconciliation_cases)
    case (replay rec r0)
    then have "\<not> cr_Replayed r0" using 3(1) by (fastforce simp: mem_ok_def results_ok_def)
    with replay show ?thesis by (auto simp: i recon_recorded_Some recon_fingerprint_def)
  next
    case (new r0)
    then show ?thesis by (auto simp: i recon_recorded_Some recon_fingerprint_def update_conv')
  qed auto
next
  case (4 s i q)
  then show ?case using RecordReconciliation_bound by (cases i) (auto split: if_splits)
next
  case (5 s i h q)
  then show ?case using RecordReconciliation_bound by (cases i) (auto split: if_splits)
next
  case (6 s k x c)
  obtain h r where x: "x = (h, r)" by fastforce
  with 6(2) obtain rec where "map_of (ms_reconciliationIdempotency s) k = Some rec"
    "ik_payloadHash rec = h" "ik_result rec = ResultReconciliation r" by (auto simp: recon_recorded_Some)
  then show ?case using mem_step_keys [of s k rec lib c] by (auto simp: x recon_recorded_Some)
qed

end
