(* ===== verification/Ledger_Retention.thy ===== *)
theory Ledger_Retention
  imports Ledger_Recorders
begin

text \<open>
  Properties of the Ledger's store: replay and conflict of its recording methods after any history,
  and what may ever happen to a stored receipt.
\<close>

section \<open>The retention commands as recorders\<close>

definition retention_recorded ::
  "MemoryStore \<Rightarrow> string \<Rightarrow> (string \<times> ReceiptRetentionResult) option" where
  "retention_recorded s k =
     (case map_of (ms_idempotency s) k of
        None \<Rightarrow> None
      | Some rec \<Rightarrow>
          (case ik_result rec of ResultRetention r \<Rightarrow> Some (ik_payloadHash rec, r) | _ \<Rightarrow> None))"

definition retention_admissible :: "ReceiptRetentionInput \<Rightarrow> bool" where
  "retention_admissible i \<longleftrightarrow>
     ti_ReceiptID i \<noteq> [] \<and> ti_IdempotencyKey i \<noteq> [] \<and>
     \<not> (is_zero (gt_inst (ti_RetainUntil i)) \<and> \<not> ti_LegalHold i)"

definition privacy_admissible :: "ReceiptPrivacyDeleteInput \<Rightarrow> bool" where
  "privacy_admissible i \<longleftrightarrow> pi_ReceiptID i \<noteq> [] \<and> pi_Reason i \<noteq> [] \<and> pi_IdempotencyKey i \<noteq> []"

abbreviation unreplayed :: "ReceiptRetentionResult \<Rightarrow> ReceiptRetentionResult" where
  "unreplayed r \<equiv> r\<lparr>tr_Replayed := False\<rparr>"

lemma retention_recorded_Some:
  "retention_recorded s k = Some (h, r) \<longleftrightarrow>
     (\<exists>rec. map_of (ms_idempotency s) k = Some rec \<and> ik_payloadHash rec = h \<and>
        ik_result rec = ResultRetention r)"
  by (auto simp: retention_recorded_def split: option.splits idempotency_result.splits)

lemma retention_unreplayed:
  assumes "mem_ok s" and "map_of (ms_idempotency s) k = Some rec" and "ik_result rec = ResultRetention r"
  shows "unreplayed (r\<lparr>tr_Replayed := b\<rparr>) = r"
proof -
  have "\<not> tr_Replayed r" using assms by (fastforce simp: mem_ok_def results_ok_def)
  then show ?thesis by simp
qed

lemma retention_kept:
  assumes "retention_recorded s k = Some x"
  shows "retention_recorded (mem_step lib c s) k = Some x"
proof -
  obtain h r where x: "x = (h, r)" by fastforce
  with assms obtain rec where "map_of (ms_idempotency s) k = Some rec" "ik_payloadHash rec = h"
    "ik_result rec = ResultRetention r" by (auto simp: retention_recorded_Some)
  then show ?thesis using mem_step_keys [of s k rec lib c] by (auto simp: x retention_recorded_Some)
qed

lemma retention_bound:
  assumes "mem_ok s" and "retention_recorded s (retention_key i) = Some (h, q)"
    and "retention_admissible i"
  shows "if h = retention_hash lib i
         then \<exists>r. UpdateReceiptRetention lib i s = (Inr r, s) \<and> unreplayed r = q
         else UpdateReceiptRetention lib i s = (Inl ErrLedgerIdempotencyConflict, s)"
  using assms(2,3) retention_unreplayed [OF assms(1)]
  by (auto simp: retention_recorded_Some retention_admissible_def UpdateReceiptRetention_def Let_def
      retention_key_def)

interpretation retentions: idempotent_recorder "UpdateReceiptRetention lib" "mem_step lib" retention_key
  "retention_hash lib" retention_admissible retention_recorded unreplayed
  ErrLedgerIdempotencyConflict mem_ok
proof (unfold_locales, goal_cases)
  case (3 s i r s')
  then have adm: "retention_admissible i"
    by (auto simp: retention_admissible_def UpdateReceiptRetention_def split: if_splits)
  from 3(2) show ?case
  proof (cases rule: UpdateReceiptRetention_cases)
    case (replay rec r0)
    then show ?thesis
      using adm retention_unreplayed [OF 3(1)] by (auto simp: retention_recorded_Some)
  next
    case (new r0)
    then show ?thesis using adm by (auto simp: retention_recorded_Some bind_result_def update_conv')
  qed auto
next
  case (4 s i q)
  then show ?case using retention_bound by (auto split: if_splits)
next
  case (5 s i h q)
  then show ?case using retention_bound by (auto split: if_splits)
qed (auto intro: UpdateReceiptRetention_ok mem_step_ok retention_kept)

lemma privacy_bound:
  assumes "mem_ok s" and "retention_recorded s (privacy_key i) = Some (h, q)"
    and "privacy_admissible i"
  shows "if h = privacy_hash lib i
         then \<exists>r. PrivacyDeleteReceipt lib now at i s = (Inr r, s) \<and> unreplayed r = q
         else PrivacyDeleteReceipt lib now at i s = (Inl ErrLedgerIdempotencyConflict, s)"
  using assms(2,3) retention_unreplayed [OF assms(1)]
  by (auto simp: retention_recorded_Some privacy_admissible_def PrivacyDeleteReceipt_def Let_def
      privacy_key_def)

interpretation redactions: idempotent_recorder "\<lambda>(now, at, i). PrivacyDeleteReceipt lib now at i"
  "mem_step lib" "\<lambda>(now, at, i). privacy_key i" "\<lambda>(now, at, i). privacy_hash lib i"
  "\<lambda>(now, at, i). privacy_admissible i" retention_recorded unreplayed
  ErrLedgerIdempotencyConflict mem_ok
proof (unfold_locales, goal_cases)
  case (1 s i)
  then show ?case by (cases i) (simp add: PrivacyDeleteReceipt_ok)
next
  case (3 s i r s')
  obtain now at j where i: "i = (now, at, j)" by (cases i) auto
  with 3(2) have run: "PrivacyDeleteReceipt lib now at j s = (Inr r, s')" by simp
  then have adm: "privacy_admissible j"
    by (auto simp: privacy_admissible_def PrivacyDeleteReceipt_def split: if_splits)
  from run show ?case
  proof (cases rule: PrivacyDeleteReceipt_cases)
    case (replay rec r0)
    then show ?thesis
      using adm retention_unreplayed [OF 3(1)] by (auto simp: i retention_recorded_Some)
  next
    case (new r0)
    then show ?thesis using adm by (auto simp: i retention_recorded_Some bind_result_def update_conv')
  qed auto
next
  case (4 s i q)
  then show ?case using privacy_bound by (cases i) (auto split: if_splits)
next
  case (5 s i h q)
  then show ?case using privacy_bound by (cases i) (auto split: if_splits)
qed (auto intro: mem_step_ok retention_kept)

section \<open>The evolution of a receipt\<close>

definition redacted_input :: "ReceiptInput \<Rightarrow> ReceiptInput" where
  "redacted_input i = i\<lparr>r_Actor := None, r_Owner := None, r_Continuation := None\<rparr>"

definition evolves :: "Receipt \<Rightarrow> Receipt \<Rightarrow> bool" where
  "evolves r r' \<longleftrightarrow>
     rc_ReceiptID r' = rc_ReceiptID r \<and> rc_CreatedAt r' = rc_CreatedAt r \<and>
     gt_inst (rt_RetainUntil (rc_Retention r)) \<le> gt_inst (rt_RetainUntil (rc_Retention r')) \<and>
     (rt_LegalHold (rc_Retention r) \<longrightarrow> rt_LegalHold (rc_Retention r')) \<and>
     (rt_PrivacyRedaction (rc_Retention r) \<noteq> None \<longrightarrow>
        rt_PrivacyRedaction (rc_Retention r') = rt_PrivacyRedaction (rc_Retention r)) \<and>
     (rc_Input r' = rc_Input r \<or>
      (rc_Input r' = redacted_input (rc_Input r) \<and> \<not> rt_LegalHold (rc_Retention r) \<and>
       rt_PrivacyRedaction (rc_Retention r) = None \<and> rt_PrivacyRedaction (rc_Retention r') \<noteq> None))"

lemma evolves_refl [simp]: "evolves r r"
  by (simp add: evolves_def)

lemma evolves_trans: "evolves r r' \<Longrightarrow> evolves r' r'' \<Longrightarrow> evolves r r''"
  by (auto simp: evolves_def)

lemma evolves_retained: "evolves r (r\<lparr>rc_Retention := retained i (rc_Retention r)\<rparr>)"
  by (auto simp: evolves_def retained_def)

lemma evolves_redact: "\<not> rt_LegalHold (rc_Retention r) \<Longrightarrow> evolves r (redact at w r)"
  by (auto simp: evolves_def redact_def redacted_input_def)

lemma mem_step_evolves:
  assumes "mem_ok s" and "map_of (ms_receipts s) k = Some r"
  shows "\<exists>r'. map_of (ms_receipts (mem_step lib c s)) k = Some r' \<and> evolves r r'"
proof (cases c)
  case (MemReceipt now i)
  obtain res s' where run: "RecordReceipt lib now i s = (res, s')" by fastforce
  then show ?thesis
  proof (cases rule: RecordReceipt_cases)
    case (new r0)
    have "numbered ''receipt'' (ms_nextID s) k" "0 \<le> ms_nextID s"
      using assms receipts_okD(3) by (auto simp: mem_ok_def)
    then have "k \<noteq> rc_ReceiptID r0" using id_text_fresh new(5) by auto
    with assms(2) show ?thesis by (auto simp: MemReceipt run new update_conv')
  qed (use assms in \<open>auto simp: MemReceipt run\<close>)
next
  case (MemRetention i)
  obtain res s' where run: "UpdateReceiptRetention lib i s = (res, s')" by fastforce
  then show ?thesis
    by (cases rule: UpdateReceiptRetention_cases)
       (use assms in \<open>auto simp: MemRetention run bind_result_def update_conv' evolves_retained\<close>)
next
  case (MemPrivacy now at i)
  obtain res s' where run: "PrivacyDeleteReceipt lib now at i s = (res, s')" by fastforce
  then show ?thesis
    by (cases rule: PrivacyDeleteReceipt_cases)
       (use assms in \<open>auto simp: MemPrivacy run bind_result_def update_conv' evolves_redact\<close>)
next
  case (MemEvidence now i)
  obtain res s' where run: "RecordEvidenceIndex lib now i s = (res, s')" by fastforce
  then show ?thesis
    by (cases rule: RecordEvidenceIndex_cases) (use assms in \<open>auto simp: MemEvidence run\<close>)
next
  case (MemReconcile now i)
  obtain res s' where run: "RecordReconciliation lib now i s = (res, s')" by fastforce
  then show ?thesis
    by (cases rule: RecordReconciliation_cases) (use assms in \<open>auto simp: MemReconcile run\<close>)
qed

lemma fold_evolves:
  "mem_ok s \<Longrightarrow> map_of (ms_receipts s) k = Some r \<Longrightarrow>
     \<exists>r'. map_of (ms_receipts (fold (mem_step lib) cs s)) k = Some r' \<and> evolves r r'"
proof (induction cs arbitrary: s r)
  case (Cons c cs)
  from mem_step_evolves [OF Cons.prems] obtain r1 where
    r1: "map_of (ms_receipts (mem_step lib c s)) k = Some r1" "evolves r r1" by blast
  from Cons.IH [OF mem_step_ok [OF Cons.prems(1)] r1(1)] r1(2) show ?case
    by (auto intro: evolves_trans)
qed auto

section \<open>Properties\<close>

text \<open>
  A receipt is recorded once per idempotency key. Once RecordReceipt has succeeded under a key,
  then after any commands whatever on the store a valid request with that key and the same content
  returns the receipt of the first one and changes nothing, and a valid request with that key and
  another content hash is refused with the idempotency conflict and changes nothing.
\<close>

theorem receipt_once_per_key:
  assumes "mem_ok s" and "RecordReceipt lib now i s = (Inr r, s')"
    and "r_IdempotencyKey j = r_IdempotencyKey i" and "validateReceiptInput lib j = None"
  shows "if receipt_fingerprint lib j = receipt_fingerprint lib i
         then \<exists>r'. RecordReceipt lib now' j (fold (mem_step lib) cs s') =
                (Inr r', fold (mem_step lib) cs s') \<and> rc_ReceiptID r' = rc_ReceiptID r
         else RecordReceipt lib now' j (fold (mem_step lib) cs s') =
                (Inl ErrLedgerIdempotencyConflict, fold (mem_step lib) cs s')"
  using receipts.keyed.key_bound [of s lib "(now, i)" r s' "(now', j)" cs, simplified prod.case] assms
  by (simp split: if_splits)

definition sample_ledger :: MemoryStore where
  "sample_ledger = snd (RecordReceipt sample_clock_lib 5 sample_receipt NewMemoryStore)"

lemma sample_ledger_facts:
  "RecordReceipt sample_clock_lib 5 sample_receipt NewMemoryStore =
     (Inr \<lparr>rc_Input = sample_receipt\<lparr>r_IdempotencyKey := []\<rparr>, rc_ReceiptID = ''receipt_000001'',
           rc_CreatedAt = 5, rc_Retention = no_retention, rc_Replayed = False\<rparr>, sample_ledger)"
  "mem_ok sample_ledger"
  "map_of (ms_receipts sample_ledger) ''receipt_000001'' =
     Some \<lparr>rc_Input = sample_receipt\<lparr>r_IdempotencyKey := []\<rparr>, rc_ReceiptID = ''receipt_000001'',
           rc_CreatedAt = 5, rc_Retention = no_retention, rc_Replayed = False\<rparr>"
proof -
  have v: "validateReceiptInput sample_clock_lib sample_receipt = None" by code_simp
  have d: "id_text ''receipt'' 1 = ''receipt_000001''" by code_simp
  show "RecordReceipt sample_clock_lib 5 sample_receipt NewMemoryStore =
     (Inr \<lparr>rc_Input = sample_receipt\<lparr>r_IdempotencyKey := []\<rparr>, rc_ReceiptID = ''receipt_000001'',
           rc_CreatedAt = 5, rc_Retention = no_retention, rc_Replayed = False\<rparr>, sample_ledger)"
    "map_of (ms_receipts sample_ledger) ''receipt_000001'' =
     Some \<lparr>rc_Input = sample_receipt\<lparr>r_IdempotencyKey := []\<rparr>, rc_ReceiptID = ''receipt_000001'',
           rc_CreatedAt = 5, rc_Retention = no_retention, rc_Replayed = False\<rparr>"
    by (simp_all add: sample_ledger_def RecordReceipt_def v newID_def NewMemoryStore_def d Let_def)
  show "mem_ok sample_ledger" unfolding sample_ledger_def by (rule RecordReceipt_ok) simp
qed

theorem receipt_once_per_key_witness:
  "\<exists>r'. RecordReceipt sample_clock_lib 9 sample_receipt sample_ledger = (Inr r', sample_ledger) \<and>
     rc_ReceiptID r' = ''receipt_000001''"
proof -
  have v: "validateReceiptInput sample_clock_lib sample_receipt = None" by code_simp
  from receipt_once_per_key [OF mem_ok_new sample_ledger_facts(1) refl v, of 9 "[]"]
  show ?thesis by simp
qed

text \<open>
  C33: A recorded receipt is immutable but for its retention and one privacy redaction. Whatever
  commands run, the receipt keeps its identifier, creation time and every recorded fact; its
  retention time never moves back, a legal hold is never lifted, a redaction is never replaced, and
  the only change of content ever made is that one redaction of a receipt without a hold, which
  clears exactly actor, owner and continuation.
\<close>

theorem receipt_evolution:
  assumes "mem_ok s" and "map_of (ms_receipts s) k = Some r"
  shows "\<exists>r'. ReadReceipt (fold (mem_step lib) cs s) k = Inr r' \<and>
           rc_ReceiptID r' = rc_ReceiptID r \<and> rc_CreatedAt r' = rc_CreatedAt r \<and>
           gt_inst (rt_RetainUntil (rc_Retention r)) \<le> gt_inst (rt_RetainUntil (rc_Retention r')) \<and>
           (rt_LegalHold (rc_Retention r) \<longrightarrow> rt_LegalHold (rc_Retention r')) \<and>
           (rt_PrivacyRedaction (rc_Retention r) \<noteq> None \<longrightarrow>
              rt_PrivacyRedaction (rc_Retention r') = rt_PrivacyRedaction (rc_Retention r)) \<and>
           (rc_Input r' = rc_Input r \<or>
            (rc_Input r' = (rc_Input r)\<lparr>r_Actor := None, r_Owner := None, r_Continuation := None\<rparr> \<and>
             \<not> rt_LegalHold (rc_Retention r) \<and> rt_PrivacyRedaction (rc_Retention r) = None \<and>
             rt_PrivacyRedaction (rc_Retention r') \<noteq> None))"
proof -
  define s' where "s' = fold (mem_step lib) cs s"
  from fold_evolves [OF assms, of lib cs] obtain r' where
    r': "map_of (ms_receipts s') k = Some r'" and ev: "evolves r r'" unfolding s'_def by blast
  from r' have "ReadReceipt s' k = Inr r'" by (simp add: ReadReceipt_def)
  moreover note ev [unfolded evolves_def redacted_input_def]
  ultimately show ?thesis unfolding s'_def [symmetric] by (intro exI [of _ r']) auto
qed

theorem receipt_evolution_witness:
  "\<exists>r'. ReadReceipt (fold (mem_step sample_clock_lib)
      [MemPrivacy 7 7 \<lparr>pi_ReceiptID = ''receipt_000001'', pi_Reason = ''gdpr'', pi_IdempotencyKey = ''p''\<rparr>]
      sample_ledger) ''receipt_000001'' = Inr r' \<and> rc_CreatedAt r' = 5"
proof -
  define cs where "cs = [MemPrivacy 7 7
    \<lparr>pi_ReceiptID = ''receipt_000001'', pi_Reason = ''gdpr'', pi_IdempotencyKey = ''p''\<rparr>]"
  from receipt_evolution [OF sample_ledger_facts(2,3), of sample_clock_lib cs]
  show ?thesis unfolding cs_def [symmetric] by (elim exE conjE, intro exI conjI) (assumption, simp)
qed

text \<open>
  C34: A legal hold protects the people named in a receipt's evidence. Once a receipt is under legal
  hold, its content never changes again, whatever commands run, and a request to redact it is refused
  with the legal-hold error unless its key already answers for an earlier command.
\<close>

theorem legal_hold_blocks_redaction:
  assumes "mem_ok s" and "map_of (ms_receipts s) k = Some r" and "rt_LegalHold (rc_Retention r)"
    and "k \<noteq> []" and "reason \<noteq> []" and "key \<noteq> []"
  shows "\<exists>r'. map_of (ms_receipts (fold (mem_step lib) cs s)) k = Some r' \<and> rc_Input r' = rc_Input r \<and>
           (map_of (ms_idempotency (fold (mem_step lib) cs s)) (''receipt-privacy:'' @ key) = None \<longrightarrow>
            PrivacyDeleteReceipt lib now at
              \<lparr>pi_ReceiptID = k, pi_Reason = reason, pi_IdempotencyKey = key\<rparr> (fold (mem_step lib) cs s) =
              (Inl ErrReceiptLegalHold, fold (mem_step lib) cs s))"
proof -
  from fold_evolves [OF assms(1,2)] obtain r' where
    r': "map_of (ms_receipts (fold (mem_step lib) cs s)) k = Some r'" "evolves r r'" by blast
  then show ?thesis
    using assms(3-6) by (auto simp: PrivacyDeleteReceipt_def evolves_def)
qed

definition sample_hold :: ReceiptRetentionInput where
  "sample_hold = \<lparr>ti_ReceiptID = ''receipt_000001'', ti_RetainUntil = zero_time, ti_LegalHold = True,
                  ti_IdempotencyKey = ''h''\<rparr>"

theorem legal_hold_blocks_redaction_witness:
  "\<exists>r'. map_of (ms_receipts (mem_step sample_clock_lib (MemRetention sample_hold) sample_ledger))
      ''receipt_000001'' = Some r' \<and> rc_Input r' = sample_receipt\<lparr>r_IdempotencyKey := []\<rparr>"
proof -
  let ?s = "mem_step sample_clock_lib (MemRetention sample_hold) sample_ledger"
  have ok: "mem_ok ?s" by (rule mem_step_ok) (rule sample_ledger_facts)
  have "map_of (ms_idempotency sample_ledger) ''receipt-retention:h'' = None"
  proof -
    have v: "validateReceiptInput sample_clock_lib sample_receipt = None" by code_simp
    have k: "r_IdempotencyKey sample_receipt \<noteq> ''receipt-retention:h''" by (simp add: sample_receipt_def)
    show ?thesis
      using k by (simp add: sample_ledger_def RecordReceipt_def v newID_def NewMemoryStore_def
          update_conv' Let_def)
  qed
  then have "\<exists>r. map_of (ms_receipts ?s) ''receipt_000001'' = Some r \<and> rt_LegalHold (rc_Retention r) \<and>
      rc_Input r = sample_receipt\<lparr>r_IdempotencyKey := []\<rparr>"
    using sample_ledger_facts(3)
    by (simp add: UpdateReceiptRetention_def sample_hold_def zero_time_def Let_def update_conv'
        no_retention_def)
  then obtain r where r: "map_of (ms_receipts ?s) ''receipt_000001'' = Some r"
    "rt_LegalHold (rc_Retention r)" "rc_Input r = sample_receipt\<lparr>r_IdempotencyKey := []\<rparr>" by blast
  from legal_hold_blocks_redaction [OF ok r(1,2), of "''why''" "''p''" sample_clock_lib "[]" 7 7] r(3)
  show ?thesis by auto
qed

text \<open>
  A replayed reconciliation is the recorded one. Once a report has been recorded under a key,
  then after any commands a valid request with the key and the same report returns exactly the result
  recorded first, including whether new Workspaces are blocked, and one with another report is
  refused.
\<close>

theorem reconciliation_once_per_key:
  assumes "mem_ok s" and "RecordReconciliation lib now i s = (Inr r, s')"
    and "ci_IdempotencyKey j = ci_IdempotencyKey i" and "validateReconciliationInput j = None"
  shows "if recon_fingerprint lib j = recon_fingerprint lib i
         then \<exists>r'. RecordReconciliation lib now' j (fold (mem_step lib) cs s') =
                (Inr r', fold (mem_step lib) cs s') \<and>
                r'\<lparr>cr_Replayed := False\<rparr> = r\<lparr>cr_Replayed := False\<rparr>
         else RecordReconciliation lib now' j (fold (mem_step lib) cs s') =
                (Inl ErrLedgerIdempotencyConflict, fold (mem_step lib) cs s')"
  using reconciliations.keyed.key_bound [of s lib "(now, i)" r s' "(now', j)" cs, simplified prod.case] assms
  by (simp split: if_splits)

definition sample_recon :: ReconciliationInput where
  "sample_recon = \<lparr>ci_Report = sample_report, ci_IdempotencyKey = ''k''\<rparr>"

theorem reconciliation_once_per_key_witness:
  "\<exists>r r' s'. RecordReconciliation sample_clock_lib 3 sample_recon NewMemoryStore = (Inr r, s') \<and>
     RecordReconciliation sample_clock_lib 4 sample_recon s' = (Inr r', s') \<and> cr_CreatedAt r' = cr_CreatedAt r"
proof -
  have v: "validateReconciliationInput sample_recon = None" by code_simp
  then obtain r s' where run: "RecordReconciliation sample_clock_lib 3 sample_recon NewMemoryStore = (Inr r, s')"
    by (simp add: RecordReconciliation_def NewMemoryStore_def Let_def)
  from reconciliation_once_per_key [OF mem_ok_new run refl v, of 4 "[]"]
  obtain r' where r': "RecordReconciliation sample_clock_lib 4 sample_recon s' = (Inr r', s')"
    "r'\<lparr>cr_Replayed := False\<rparr> = r\<lparr>cr_Replayed := False\<rparr>" by auto
  from r'(2) have "cr_CreatedAt (r'\<lparr>cr_Replayed := False\<rparr>) = cr_CreatedAt (r\<lparr>cr_Replayed := False\<rparr>)"
    by simp
  with run r'(1) show ?thesis by auto
qed

end
