(* ===== verification/Ledger_Paging.thy ===== *)
theory Ledger_Paging
  imports Ledger_Retention
begin

text \<open>
  Listing and exporting the Ledger's records: \<open>ListReceipts\<close> and \<open>ListEvidenceIndex\<close> are listers
  behind opaque cursors, so a client that follows the cursors reads every matching record once, and
  \<open>ExportEvidenceIndex\<close> is that client, with a bound. The hypothesis on the library is that the
  text of a cursor decodes to what was encoded.
\<close>

section \<open>Cursors as bounds\<close>

definition at_key :: "(time \<times> string) option \<Rightarrow> cursor" where
  "at_key c = (case c of None \<Rightarrow> zero_cursor | Some k \<Rightarrow> (\<lparr>gt_inst = fst k, gt_off = 0\<rparr>, snd k))"

definition key_ok :: "time \<times> string \<Rightarrow> bool" where
  "key_ok k \<longleftrightarrow> fst k \<noteq> 0 \<and> snd k \<noteq> []"

lemma before_cursor_at_key:
  "pred_option key_ok c \<Longrightarrow> before_cursor (at_key c) k \<longleftrightarrow> (case c of None \<Rightarrow> True | Some k' \<Rightarrow> k < k')"
  by (cases c; cases k)
     (auto simp: before_cursor_def at_key_def zero_cursor_def zero_time_def key_ok_def less_prod_simp)

lemma before_cursor_cong:
  "gt_inst (fst c) = gt_inst (fst c') \<Longrightarrow> snd c = snd c' \<Longrightarrow> before_cursor c = before_cursor c'"
  by (simp add: before_cursor_def fun_eq_iff)

lemma filter_before_cursor:
  "pred_option key_ok c \<Longrightarrow>
     filter (\<lambda>x. p x \<and> before_cursor (at_key c) (key x)) xs = below key c (filter p xs)"
  by (cases c) (auto simp: below_def before_cursor_at_key conj_commute intro: filter_cong)

lemma decode_cursor_roundtrip:
  assumes "cursor_roundtrip lib c" and "key_ok (gt_inst (fst c), snd c)"
  shows "\<exists>c'. decode_cursor lib (lib_cursor_encode lib c) = Some c' \<and>
           gt_inst (fst c') = gt_inst (fst c) \<and> snd c' = snd c"
  using assms by (auto simp: cursor_roundtrip_def decode_cursor_def key_ok_def)

lemma id_text_nonempty: "numbered prefix b k \<Longrightarrow> k \<noteq> []"
  by (auto simp: numbered_def id_text_def)

lemma distinct_snd_keys:
  assumes "distinct (map fst m)" and "\<And>k x. (k, x) \<in> set m \<Longrightarrow> snd (key x) = k"
  shows "distinct (map key (filter p (map snd m)))"
proof -
  have "inj_on (key \<circ> snd) (set m)"
    using assms by (auto simp: inj_on_def) (metis assms(2) snd_conv eq_key_imp_eq_value)+
  moreover have "distinct m" using assms(1) by (simp add: distinct_map)
  ultimately have "distinct (map key (map snd m))" by (simp add: distinct_map)
  then show ?thesis by (rule distinct_map_filter)
qed

section \<open>Receipts\<close>

definition receipt_limit :: "ReceiptQuery \<Rightarrow> nat" where
  "receipt_limit q = nat (if q_Limit q = 0 then DefaultReceiptPageSize else q_Limit q)"

definition receipt_rows :: "ReceiptQuery \<Rightarrow> MemoryStore \<Rightarrow> Receipt list" where
  "receipt_rows q s = filter (receipt_matches q) (map snd (ms_receipts s))"

definition receipt_page :: "ReceiptQuery \<Rightarrow> MemoryStore \<Rightarrow> (time \<times> string) option \<Rightarrow> Receipt list \<times> bool" where
  "receipt_page q s c =
     (let receipts = desc_by receipt_key (filter (\<lambda>r. receipt_matches q r \<and>
            before_cursor (at_key c) (receipt_key r)) (map snd (ms_receipts s))) in
      (take (receipt_limit q) receipts, receipt_limit q < length receipts))"

definition receipt_request ::
  "golib \<Rightarrow> ReceiptQuery \<Rightarrow> MemoryStore \<Rightarrow> string \<Rightarrow> ledger_error + (Receipt list \<times> string \<times> bool)" where
  "receipt_request lib q s tok =
     map_sum id (\<lambda>p. (rp_Receipts p, rp_NextCursor p, rp_HasMore p)) (ListReceipts lib (q\<lparr>q_Cursor := tok\<rparr>) s)"

definition receipts_listable :: "golib \<Rightarrow> ReceiptQuery \<Rightarrow> MemoryStore \<Rightarrow> bool" where
  "receipts_listable lib q s \<longleftrightarrow>
     mem_ok s \<and> isl (normalizeReceiptQuery lib (q\<lparr>q_Cursor := []\<rparr>)) = False \<and>
     list_all (\<lambda>r. rc_CreatedAt r \<noteq> 0 \<and>
         cursor_roundtrip lib (\<lparr>gt_inst = rc_CreatedAt r, gt_off = 0\<rparr>, rc_ReceiptID r)) (map snd (ms_receipts s))"

lemma receipt_matches_cong [simp]:
  "receipt_matches (q\<lparr>q_Cursor := c\<rparr>) = receipt_matches q"
  "receipt_matches (q\<lparr>q_Limit := n\<rparr>) = receipt_matches q"
  by (simp_all add: receipt_matches_def receiptMatchesTypes_def fun_eq_iff)

lemma normalize_receipt:
  assumes "\<not> isl (normalizeReceiptQuery lib (q\<lparr>q_Cursor := []\<rparr>))"
  shows "0 < receipt_limit q"
    and "tok \<noteq> [] \<Longrightarrow> decode_cursor lib tok = Some c \<Longrightarrow> \<exists>q'. normalizeReceiptQuery lib (q\<lparr>q_Cursor := tok\<rparr>) = Inr (q', c) \<and>
           nat (q_Limit q') = receipt_limit q \<and> receipt_matches q' = receipt_matches q"
    and "\<exists>q'. normalizeReceiptQuery lib (q\<lparr>q_Cursor := []\<rparr>) = Inr (q', zero_cursor) \<and>
           nat (q_Limit q') = receipt_limit q \<and> receipt_matches q' = receipt_matches q"
  using assms
  by (auto simp: normalizeReceiptQuery_def receipt_limit_def Let_def DefaultReceiptPageSize_def split: if_splits)

lemma receipt_request_page:
  assumes "normalizeReceiptQuery lib (q\<lparr>q_Cursor := tok\<rparr>) = Inr (q', c)"
    and "nat (q_Limit q') = receipt_limit q" and "receipt_matches q' = receipt_matches q"
    and "before_cursor c = before_cursor (at_key k)" and "receipt_page q s k = (xs, hm)"
  shows "receipt_request lib q s tok = Inr (xs, if hm then encodeReceiptCursor lib (last xs) else [], hm)"
  using assms(5) by (simp add: receipt_request_def ListReceipts_def assms(1-4) receipt_page_def Let_def) auto

lemma receipts_listed:
  assumes "mem_ok s" and "r \<in> set (receipt_rows q s)"
  shows "rc_ReceiptID r \<noteq> []" and "r \<in> set (map snd (ms_receipts s))"
  using assms by (fastforce simp: receipt_rows_def mem_ok_def receipts_ok_def dest: id_text_nonempty)+

interpretation receipt_lister: cursor_lister "receipt_rows q" receipt_key "receipt_limit q" "receipt_page q"
  key_ok "receipts_listable lib q" "receipt_request lib q" "encodeReceiptCursor lib" for q lib
proof unfold_locales
  fix s assume ok: "receipts_listable lib q s"
  then show "0 < receipt_limit q" using normalize_receipt(1) by (auto simp: receipts_listable_def)
  from ok show "distinct (map receipt_key (receipt_rows q s))"
    unfolding receipt_rows_def
    by (intro distinct_snd_keys) (auto simp: receipts_listable_def mem_ok_def receipts_ok_def receipt_key_def)
  have mem: "mem_ok s" using ok by (simp add: receipts_listable_def)
  show "key_ok (receipt_key r)" if "r \<in> set (receipt_rows q s)" for r
    using ok receipts_listed [OF mem that]
    by (auto simp: receipts_listable_def key_ok_def receipt_key_def list_all_iff)
  show "receipt_page q s c = (take (receipt_limit q) (desc_by receipt_key (below receipt_key c (receipt_rows q s))),
      receipt_limit q < length (below receipt_key c (receipt_rows q s)))" if "pred_option key_ok c" for c
    by (simp add: receipt_page_def filter_before_cursor [OF that] receipt_rows_def Let_def)
  show "receipt_request lib q s [] = Inr (xs, if hm then encodeReceiptCursor lib (last xs) else [], hm)"
    if "receipt_page q s None = (xs, hm)" for xs hm
  proof -
    from ok have "\<not> isl (normalizeReceiptQuery lib (q\<lparr>q_Cursor := []\<rparr>))" by (simp add: receipts_listable_def)
    from normalize_receipt(3) [OF this] obtain q' where
      "normalizeReceiptQuery lib (q\<lparr>q_Cursor := []\<rparr>) = Inr (q', zero_cursor)"
      "nat (q_Limit q') = receipt_limit q" "receipt_matches q' = receipt_matches q" by blast
    from receipt_request_page [OF this _ that] show ?thesis by (simp add: at_key_def)
  qed
next
  fix s r xs hm
  assume ok: "receipts_listable lib q s" and r: "r \<in> set (receipt_rows q s)"
    and pg: "receipt_page q s (Some (receipt_key r)) = (xs, hm)"
  let ?c = "(\<lparr>gt_inst = rc_CreatedAt r, gt_off = 0\<rparr>, rc_ReceiptID r)"
  have mem: "mem_ok s" using ok by (simp add: receipts_listable_def)
  have rt: "cursor_roundtrip lib ?c" and k: "key_ok (gt_inst (fst ?c), snd ?c)"
    using ok receipts_listed [OF mem r] by (auto simp: receipts_listable_def list_all_iff key_ok_def)
  from decode_cursor_roundtrip [OF rt k] obtain c' where
    c': "decode_cursor lib (encodeReceiptCursor lib r) = Some c'"
      "gt_inst (fst c') = rc_CreatedAt r" "snd c' = rc_ReceiptID r" by (auto simp: encodeReceiptCursor_def)
  moreover have "encodeReceiptCursor lib r \<noteq> []"
    using rt by (simp add: cursor_roundtrip_def encodeReceiptCursor_def)
  moreover have "before_cursor c' = before_cursor (at_key (Some (receipt_key r)))"
    using c' by (intro before_cursor_cong) (simp_all add: at_key_def receipt_key_def)
  ultimately show "receipt_request lib q s (encodeReceiptCursor lib r) =
      Inr (xs, if hm then encodeReceiptCursor lib (last xs) else [], hm)"
    using normalize_receipt(2) ok receipt_request_page [OF _ _ _ _ pg] unfolding receipts_listable_def by blast
qed

section \<open>The evidence index\<close>

definition entry_limit :: "EvidenceIndexQuery \<Rightarrow> nat" where
  "entry_limit q = nat (if xq_Limit q = 0 then DefaultEvidenceIndexPageSize else xq_Limit q)"

definition entry_list :: "EvidenceIndexQuery \<Rightarrow> MemoryStore \<Rightarrow> EvidenceIndexEntry list" where
  "entry_list q s = filter (entry_matches q) (map snd (ms_evidenceIndex s))"

definition entry_page ::
  "EvidenceIndexQuery \<Rightarrow> MemoryStore \<Rightarrow> (time \<times> string) option \<Rightarrow> EvidenceIndexEntry list \<times> bool" where
  "entry_page q s c =
     (take (entry_limit q) (entry_rows q (at_key c) s), entry_limit q < length (entry_rows q (at_key c) s))"

definition entry_request ::
  "golib \<Rightarrow> EvidenceIndexQuery \<Rightarrow> MemoryStore \<Rightarrow> string \<Rightarrow>
   ledger_error + (EvidenceIndexEntry list \<times> string \<times> bool)" where
  "entry_request lib q s tok =
     map_sum id (\<lambda>p. (xp_Entries p, xp_NextCursor p, xp_HasMore p))
       (ListEvidenceIndex lib (q\<lparr>xq_Cursor := tok\<rparr>) s)"

definition evidence_listable :: "golib \<Rightarrow> EvidenceIndexQuery \<Rightarrow> MemoryStore \<Rightarrow> bool" where
  "evidence_listable lib q s \<longleftrightarrow>
     mem_ok s \<and> \<not> isl (normalizeEvidenceIndexQuery lib (q\<lparr>xq_Cursor := []\<rparr>)) \<and>
     list_all (\<lambda>e. cursor_roundtrip lib (x_ObservedAt (xe_Input e), xe_EvidenceID e))
       (map snd (ms_evidenceIndex s))"

lemma entry_rows_cong [simp]:
  "entry_rows (q\<lparr>xq_Cursor := c\<rparr>) = entry_rows q" "entry_rows (q\<lparr>xq_Limit := n\<rparr>) = entry_rows q"
  by (simp_all add: entry_rows_def entry_matches_def fun_eq_iff)

lemma entry_matches_cong [simp]: "entry_matches (q\<lparr>xq_Limit := n\<rparr>) = entry_matches q"
  by (simp add: entry_matches_def fun_eq_iff)

lemma entry_list_cong [simp]: "entry_list (q\<lparr>xq_Limit := n\<rparr>) = entry_list q"
  by (simp add: entry_list_def fun_eq_iff)

lemma normalize_evidence:
  assumes "\<not> isl (normalizeEvidenceIndexQuery lib (q\<lparr>xq_Cursor := []\<rparr>))"
  shows "0 < entry_limit q"
    and "tok \<noteq> [] \<Longrightarrow> decode_cursor lib tok = Some c \<Longrightarrow>
           \<exists>q'. normalizeEvidenceIndexQuery lib (q\<lparr>xq_Cursor := tok\<rparr>) = Inr (q', c) \<and>
             nat (xq_Limit q') = entry_limit q \<and> entry_rows q' = entry_rows q"
    and "\<exists>q'. normalizeEvidenceIndexQuery lib (q\<lparr>xq_Cursor := []\<rparr>) = Inr (q', zero_cursor) \<and>
           nat (xq_Limit q') = entry_limit q \<and> entry_rows q' = entry_rows q"
  using assms
  by (auto simp: normalizeEvidenceIndexQuery_def entry_limit_def Let_def DefaultEvidenceIndexPageSize_def
      split: if_splits)

lemma entry_request_page:
  assumes "normalizeEvidenceIndexQuery lib (q\<lparr>xq_Cursor := tok\<rparr>) = Inr (q', c)"
    and "nat (xq_Limit q') = entry_limit q" and "entry_rows q' = entry_rows q"
    and "before_cursor c = before_cursor (at_key k)" and "entry_page q s k = (xs, hm)"
  shows "entry_request lib q s tok = Inr (xs, if hm then encodeEvidenceIndexCursor lib (last xs) else [], hm)"
proof -
  have "entry_rows q c s = entry_rows q (at_key k) s" by (simp add: entry_rows_def assms(4))
  with assms(5) show ?thesis
    unfolding entry_request_def ListEvidenceIndex_page [OF assms(1)] assms(2,3) entry_page_def by auto
qed

lemma entries_listed:
  assumes "mem_ok s" and "e \<in> set (entry_list q s)"
  shows "key_ok (entry_key e)" and "e \<in> set (map snd (ms_evidenceIndex s))"
  using assms
  by (fastforce simp: entry_list_def mem_ok_def evidence_ok_def key_ok_def entry_key_def dest: id_text_nonempty)+

interpretation entry_lister: cursor_lister "entry_list q" entry_key "entry_limit q" "entry_page q"
  key_ok "evidence_listable lib q" "entry_request lib q" "encodeEvidenceIndexCursor lib" for q lib
proof unfold_locales
  fix s assume ok: "evidence_listable lib q s"
  then have norm: "\<not> isl (normalizeEvidenceIndexQuery lib (q\<lparr>xq_Cursor := []\<rparr>))" and mem: "mem_ok s"
    by (simp_all add: evidence_listable_def)
  from norm show "0 < entry_limit q" by (rule normalize_evidence(1))
  from ok show "distinct (map entry_key (entry_list q s))"
    unfolding entry_list_def
    by (intro distinct_snd_keys) (auto simp: evidence_listable_def mem_ok_def evidence_ok_def entry_key_def)
  show "key_ok (entry_key e)" if "e \<in> set (entry_list q s)" for e using entries_listed(1) [OF mem that] .
  show "entry_page q s c = (take (entry_limit q) (desc_by entry_key (below entry_key c (entry_list q s))),
      entry_limit q < length (below entry_key c (entry_list q s)))" if "pred_option key_ok c" for c
    by (simp add: entry_page_def entry_rows_def filter_before_cursor [OF that] entry_list_def)
  show "entry_request lib q s [] = Inr (xs, if hm then encodeEvidenceIndexCursor lib (last xs) else [], hm)"
    if "entry_page q s None = (xs, hm)" for xs hm
  proof -
    from normalize_evidence(3) [OF norm] obtain q' where
      "normalizeEvidenceIndexQuery lib (q\<lparr>xq_Cursor := []\<rparr>) = Inr (q', zero_cursor)"
      "nat (xq_Limit q') = entry_limit q" "entry_rows q' = entry_rows q" by blast
    from entry_request_page [OF this _ that] show ?thesis by (simp add: at_key_def)
  qed
next
  fix s e xs hm
  assume ok: "evidence_listable lib q s" and e: "e \<in> set (entry_list q s)"
    and pg: "entry_page q s (Some (entry_key e)) = (xs, hm)"
  let ?c = "(x_ObservedAt (xe_Input e), xe_EvidenceID e)"
  have mem: "mem_ok s" using ok by (simp add: evidence_listable_def)
  have rt: "cursor_roundtrip lib ?c" and k: "key_ok (gt_inst (fst ?c), snd ?c)"
    using ok entries_listed [OF mem e] by (auto simp: evidence_listable_def list_all_iff entry_key_def)
  from decode_cursor_roundtrip [OF rt k] obtain c' where
    c': "decode_cursor lib (encodeEvidenceIndexCursor lib e) = Some c'"
      "gt_inst (fst c') = fst (entry_key e)" "snd c' = snd (entry_key e)"
    by (auto simp: encodeEvidenceIndexCursor_def entry_key_def)
  moreover have "encodeEvidenceIndexCursor lib e \<noteq> []"
    using rt by (simp add: cursor_roundtrip_def encodeEvidenceIndexCursor_def)
  moreover have "before_cursor c' = before_cursor (at_key (Some (entry_key e)))"
    using c' by (intro before_cursor_cong) (simp_all add: at_key_def)
  ultimately show "entry_request lib q s (encodeEvidenceIndexCursor lib e) =
      Inr (xs, if hm then encodeEvidenceIndexCursor lib (last xs) else [], hm)"
    using normalize_evidence(2) ok entry_request_page [OF _ _ _ _ pg] unfolding evidence_listable_def by blast
qed

section \<open>The export as a client\<close>

text \<open>
  A page has 500 entries, so the export has collected a multiple of 500 entries and fewer than 5000
  whenever it asks for another page.
\<close>

lemma export_pages_rows:
  assumes ok: "evidence_listable lib (q\<lparr>xq_Limit := MaxEvidenceIndexPageSize\<rparr>) s"
  shows "entry_lister.names (q\<lparr>xq_Limit := MaxEvidenceIndexPageSize\<rparr>) lib s tok c \<Longrightarrow>
         500 dvd length acc \<Longrightarrow> length acc < 5000 \<Longrightarrow>
         rest = below entry_key c (entry_list q s) \<Longrightarrow>
         export_pages lib s (q\<lparr>xq_Limit := MaxEvidenceIndexPageSize, xq_Cursor := tok\<rparr>) acc =
           (if length acc + length rest \<le> 5000 then Inr (acc @ desc_by entry_key rest)
            else Inl ErrEvidenceIndexExportTooLarge)"
proof (induction "5000 - length acc" arbitrary: acc tok c rest rule: less_induct)
  case less
  let ?q = "q\<lparr>xq_Limit := MaxEvidenceIndexPageSize\<rparr>"
  have lim: "entry_limit ?q = 500" by (simp add: entry_limit_def MaxEvidenceIndexPageSize_def)
  let ?xs = "take 500 (desc_by entry_key rest)"
  note rep = entry_lister.reply [OF ok less.prems(1), unfolded lim entry_list_cong, folded less.prems(4)]
  then obtain p where p: "ListEvidenceIndex lib (?q\<lparr>xq_Cursor := tok\<rparr>) s = Inr p" "xp_Entries p = ?xs"
    "xp_HasMore p = (500 < length rest)"
    "500 < length rest \<Longrightarrow> xp_NextCursor p = encodeEvidenceIndexCursor lib (last ?xs)"
    by (cases "ListEvidenceIndex lib (?q\<lparr>xq_Cursor := tok\<rparr>) s") (auto simp: entry_request_def split: if_splits)
  show ?case
  proof (cases "500 < length rest")
    case True
    have len: "length (acc @ ?xs) = length acc + 500" using True by simp
    show ?thesis
    proof (cases "5000 \<le> length acc + 500")
      case True2: True
      then show ?thesis
        using True by (subst export_pages.simps) (simp add: p Let_def MaxEvidenceIndexExportSize_def)
    next
      case False
      let ?c = "Some (entry_key (last ?xs))"
      let ?rest = "below entry_key ?c (entry_list q s)"
      have nx: "desc_by entry_key ?rest = drop 500 (desc_by entry_key rest)"
        using entry_lister.next_page [OF ok, of c] True less.prems(4) by (simp add: lim)
      then have lr: "length ?rest = length rest - 500" by (metis length_desc_by length_drop)
      have nm: "entry_lister.names ?q lib s (encodeEvidenceIndexCursor lib (last ?xs)) ?c"
        using entry_lister.next_names [OF ok, of c] True less.prems(4) by (simp add: lim)
      have "export_pages lib s (?q\<lparr>xq_Cursor := encodeEvidenceIndexCursor lib (last ?xs)\<rparr>) (acc @ ?xs) =
          (if length (acc @ ?xs) + length ?rest \<le> 5000 then Inr ((acc @ ?xs) @ desc_by entry_key ?rest)
           else Inl ErrEvidenceIndexExportTooLarge)"
        using False less.prems(2,3) len by (intro less.hyps [OF _ nm]) auto
      then show ?thesis
        using True False lr nx
        by (subst export_pages.simps) (simp add: p Let_def MaxEvidenceIndexExportSize_def)
    qed
  next
    case False
    from less.prems(2,3) have "length acc \<le> 4500" by (auto elim!: dvdE)
    with False show ?thesis by (subst export_pages.simps) (simp add: p Let_def)
  qed
qed

section \<open>Properties\<close>

text \<open>
  C35: Listing receipts page by page loses nothing and repeats nothing. A client that calls ListReceipts
  with a query the Ledger accepts and then repeats it with the cursor of each reply until no more rows
  are announced ends, and has then read every receipt of the store that matches the query exactly once,
  newest first.
\<close>

theorem receipts_listed_once:
  assumes "mem_ok s" and "\<not> isl (normalizeReceiptQuery lib (q\<lparr>q_Cursor := []\<rparr>))"
    and "\<forall>r \<in> set (map snd (ms_receipts s)). rc_CreatedAt r \<noteq> 0 \<and>
           cursor_roundtrip lib (\<lparr>gt_inst = rc_CreatedAt r, gt_off = 0\<rparr>, rc_ReceiptID r)"
  shows "\<exists>rs. follow (receipt_request lib q s) (Suc (length (ms_receipts s))) [] = Some (Inr rs) \<and>
           mset rs = mset (filter (receipt_matches q) (map snd (ms_receipts s))) \<and> distinct rs \<and>
           sorted_wrt (\<lambda>a b. receipt_key b < receipt_key a) rs"
proof -
  have ok: "receipts_listable lib q s" using assms by (simp add: receipts_listable_def list_all_iff)
  have "length (receipt_rows q s) \<le> length (ms_receipts s)"
    unfolding receipt_rows_def by (metis length_filter_le length_map)
  also have "\<dots> < Suc (length (ms_receipts s)) * receipt_limit q"
    using receipt_lister.page_size [OF ok] by (cases "receipt_limit q") simp_all
  finally have "follow (receipt_request lib q s) (Suc (length (ms_receipts s))) [] =
      Some (Inr (desc_by receipt_key (receipt_rows q s)))"
    by (rule receipt_lister.follow_enumerates [OF ok])
  then show ?thesis
    using desc_by_props [OF receipt_lister.keys_distinct [OF ok]] by (simp add: receipt_rows_def)
qed

definition any_receipt :: ReceiptQuery where
  "any_receipt = \<lparr>q_AccountID = [], q_OrganizationID = [], q_WorkspaceID = [], q_RequestID = [],
     q_ProjectID = [], q_TaskID = [], q_JobID = [], q_Type = [], q_TypePrefix = [], q_IncludeType = [],
     q_IncludeExecutionKind = [], q_Status = [], q_Cursor = [], q_Limit = 0\<rparr>"

definition sample_cursor_lib :: golib where
  "sample_cursor_lib = sample_clock_lib\<lparr>lib_cursor_decode := (\<lambda>s. Some (\<lparr>gt_inst = 5, gt_off = 0\<rparr>, s))\<rparr>"

theorem receipts_listed_once_witness:
  "\<exists>r. follow (receipt_request sample_cursor_lib any_receipt sample_ledger) 2 [] = Some (Inr [r]) \<and>
     rc_ReceiptID r = ''receipt_000001''"
proof -
  let ?r = "\<lparr>rc_Input = sample_receipt\<lparr>r_IdempotencyKey := []\<rparr>, rc_ReceiptID = ''receipt_000001'',
    rc_CreatedAt = 5, rc_Retention = no_retention, rc_Replayed = False\<rparr>"
  have rows: "ms_receipts sample_ledger = [(''receipt_000001'', ?r)]" by code_simp
  have norm: "\<not> isl (normalizeReceiptQuery sample_cursor_lib (any_receipt\<lparr>q_Cursor := []\<rparr>))" by code_simp
  have m: "receipt_matches any_receipt ?r" by code_simp
  have "\<forall>r \<in> set (map snd (ms_receipts sample_ledger)). rc_CreatedAt r \<noteq> 0 \<and>
      cursor_roundtrip sample_cursor_lib (\<lparr>gt_inst = rc_CreatedAt r, gt_off = 0\<rparr>, rc_ReceiptID r)"
    unfolding rows by (simp add: cursor_roundtrip_def sample_cursor_lib_def sample_clock_lib_def)
  from receipts_listed_once [OF sample_ledger_facts(2) norm this]
  obtain rs where "follow (receipt_request sample_cursor_lib any_receipt sample_ledger) 2 [] = Some (Inr rs)"
    "mset rs = {#?r#}" unfolding rows using m by (auto simp: numeral_2_eq_2)
  then show ?thesis by (intro exI [of _ ?r]) simp
qed


definition sample_evidence_input :: EvidenceIndexInput where
  "sample_evidence_input =
     \<lparr>x_OperationID = ''op'', x_CandidateSHA = ''sha'', x_CandidateTree = ''tree'', x_ImageDigest = ''img'',
      x_ReceiptID = ''r1'', x_ReceiptType = ''qa'', x_Status = ''passed'', x_Actor = ''ci'',
      x_ObservedAt = \<lparr>gt_inst = 63836000000000000000, gt_off = 3600\<rparr>, x_IdentityDigest = ''d'',
      x_RedactedLink = [], x_IdempotencyKey = ''k''\<rparr>"

definition sample_index_lib :: golib where
  "sample_index_lib = sample_clock_lib\<lparr>lib_cursor_decode :=
     (\<lambda>s. Some (\<lparr>gt_inst = 63836000000000000000, gt_off = 3600\<rparr>, s))\<rparr>"

definition sample_index :: MemoryStore where
  "sample_index = snd (RecordEvidenceIndex sample_index_lib 5 sample_evidence_input NewMemoryStore)"

definition any_entry :: EvidenceIndexQuery where
  "any_entry = \<lparr>xq_OperationID = [], xq_CandidateSHA = [], xq_CandidateTree = [], xq_ImageDigest = [],
     xq_ReceiptID = [], xq_ReceiptType = [], xq_Status = [], xq_Cursor = [], xq_Limit = 0\<rparr>"


end
