(* ===== verification/Go_Codec.thy ===== *)
theory Go_Codec
  imports Main
begin

text \<open>
  An encoding the program only calls (protojson, \<open>encoding/json\<close> of a struct): the encoder answers no
  bytes when it fails, and \<open>codec_ok\<close> says that bytes which were produced decode to the value they
  came from.
\<close>

record 'a codec =
  enc :: "'a \<Rightarrow> string"
  dec :: "string \<Rightarrow> 'a option"

definition codec_ok :: "'a codec \<Rightarrow> bool" where
  "codec_ok c \<longleftrightarrow> (\<forall>x. enc c x \<noteq> [] \<longrightarrow> dec c (enc c x) = Some x)"

end
