(* ===== verification/Ledger_Postgres.thy ===== *)
theory Ledger_Postgres
  imports Ledger_Memory Go_Codec
begin

text \<open>
  The Ledger's production store (\<open>services/ledger/internal/ledger/postgres_store.go\<close>): receipts,
  retention, privacy redaction and reconciliation on the tables of the migrations. A receipt is
  recorded by a query and an insert that are not one transaction: \<open>recordReceipt\<close> takes the store its
  query saw and the store its insert meets, so that commands of others may have run in between. The
  JSON documents of the rows are encodings given by \<open>pglib\<close>.
\<close>

section \<open>Tables\<close>

record evidence_row =
  er_ID :: string
  er_ReceiptType :: string
  er_Status :: string
  er_AccountID :: string
  er_OrganizationID :: string
  er_WorkspaceID :: string
  er_ProjectID :: string
  er_TaskID :: string
  er_JobID :: string
  er_ArtifactID :: string
  er_ReviewID :: string
  er_PayloadJSON :: string
  er_SupersedesReceiptID :: string
  er_IdempotencyKey :: string
  er_RequestHash :: string
  er_CreatedAt :: time

record key_row =
  ky_ID :: string
  ky_Service :: string
  ky_IdempotencyKey :: string
  ky_RequestHash :: string
  ky_ResponseRef :: string

record report_row =
  rr_ID :: string
  rr_Status :: string
  rr_ReportJSON :: string
  rr_BlockNewWorkspaces :: bool
  rr_Reason :: string
  rr_IdempotencyKey :: string
  rr_RequestHash :: string
  rr_CreatedAt :: time

record index_row =
  ix_ID :: string
  ix_OperationID :: string
  ix_CandidateSHA :: string
  ix_CandidateTree :: string
  ix_ImageDigest :: string
  ix_ReceiptID :: string
  ix_ReceiptType :: string
  ix_Status :: string
  ix_Actor :: string
  ix_ObservedAt :: time
  ix_IdentityDigest :: string
  ix_RedactedLink :: string
  ix_IdempotencyKey :: string
  ix_RequestHash :: string
  ix_CreatedAt :: time

record pg_ledger =
  lp_receipts :: "evidence_row list"
  lp_keys :: "key_row list"
  lp_reports :: "report_row list"
  lp_index :: "index_row list"

datatype pg_error =
    PgLedger ledger_error
  | PgDatabase db_error
  | PgDecode
  | PgEncode

record pglib =
  pl_go :: golib
  pl_payload :: "(ReceiptInput \<times> ReceiptRetention) codec"
  pl_result :: "ReceiptRetentionResult codec"
  pl_report :: "gomap option codec"
  pl_pg_time :: "time \<Rightarrow> time"
  pl_jsonb :: "json \<Rightarrow> string"

text \<open>
  \<open>pl_pg_time\<close> is what a \<open>timestamptz\<close> column or parameter keeps of an instant, \<open>pl_jsonb\<close> the text
  of a \<open>jsonb\<close> array or object.
\<close>

definition evidence_check :: "evidence_row \<Rightarrow> bool" where
  \<comment> \<open>the validators of the ent schema\<close>
  "evidence_check r \<longleftrightarrow> er_ID r \<noteq> [] \<and> er_IdempotencyKey r \<noteq> [] \<and> er_RequestHash r \<noteq> []"

definition evidence_clash :: "evidence_row \<Rightarrow> evidence_row \<Rightarrow> bool" where
  "evidence_clash a b \<longleftrightarrow> er_ID a = er_ID b \<or> er_IdempotencyKey a = er_IdempotencyKey b"

definition report_check :: "report_row \<Rightarrow> bool" where
  "report_check r \<longleftrightarrow> rr_ID r \<noteq> [] \<and> rr_IdempotencyKey r \<noteq> [] \<and> rr_RequestHash r \<noteq> []"

definition report_clash :: "report_row \<Rightarrow> report_row \<Rightarrow> bool" where
  "report_clash a b \<longleftrightarrow> rr_ID a = rr_ID b \<or> rr_IdempotencyKey a = rr_IdempotencyKey b"

definition postgresID :: "string \<Rightarrow> time \<Rightarrow> string" where
  \<comment> \<open>\<open>t.UnixNano()\<close> wraps like an \<open>int64\<close>\<close>
  "postgresID prefix t = prefix @ ''_'' @ format_int (wrap64 (t - 62135596800 * 1000000000))"

section \<open>Reading receipts\<close>

definition receiptFromEnt :: "pglib \<Rightarrow> evidence_row \<Rightarrow> pg_error + Receipt" where
  "receiptFromEnt lib row =
     (case dec (pl_payload lib) (er_PayloadJSON row) of
        None \<Rightarrow> Inl PgDecode
      | Some (input, retention) \<Rightarrow> Inr
          \<lparr>rc_Input = input\<lparr>r_Type := er_ReceiptType row, r_Status := er_Status row,
             r_AccountID := er_AccountID row, r_OrganizationID := er_OrganizationID row,
             r_WorkspaceID := er_WorkspaceID row, r_ProjectID := er_ProjectID row,
             r_TaskID := er_TaskID row, r_JobID := er_JobID row, r_ArtifactID := er_ArtifactID row,
             r_ReviewID := er_ReviewID row, r_SupersedesReceiptID := er_SupersedesReceiptID row\<rparr>,
           rc_ReceiptID = er_ID row, rc_CreatedAt = er_CreatedAt row, rc_Retention = retention,
           rc_Replayed = False\<rparr>)"

definition find_receipt_key :: "pg_ledger \<Rightarrow> string \<Rightarrow> evidence_row option" where
  "find_receipt_key s key = List.find (\<lambda>r. er_IdempotencyKey r = key) (lp_receipts s)"

definition find_receipt_row :: "pg_ledger \<Rightarrow> string \<Rightarrow> evidence_row option" where
  "find_receipt_row s rid = List.find (\<lambda>r. er_ID r = rid) (lp_receipts s)"

definition LocalNoChargeReceiptType :: string where
  "LocalNoChargeReceiptType = ''workspace.local_no_charge.v1''"

definition WalletActionReceiptType :: string where
  "WalletActionReceiptType = ''workspace.wallet_action.v1''"

definition ProviderActionReceiptType :: string where
  "ProviderActionReceiptType = ''workspace.provider_action.v1''"

definition pg_receipt :: "pglib \<Rightarrow> string \<Rightarrow> pg_ledger \<Rightarrow> pg_error + Receipt" where
  "pg_receipt lib rid s =
     (case find_receipt_row s rid of
        None \<Rightarrow> Inl (PgLedger ErrReceiptNotFound)
      | Some row \<Rightarrow>
          if er_ReceiptType row \<in> {LocalNoChargeReceiptType, WalletActionReceiptType, ProviderActionReceiptType}
          then Inl (PgLedger ErrReceiptNotFound)
          else receiptFromEnt lib row)"

section \<open>Recording receipts\<close>

definition replay_receipt :: "pglib \<Rightarrow> string \<Rightarrow> evidence_row \<Rightarrow> pg_error + Receipt" where
  \<comment> \<open>the answer when a row has the key\<close>
  "replay_receipt lib requestHash row =
     (case receiptFromEnt lib row of
        Inl err \<Rightarrow> Inl err
      | Inr existing \<Rightarrow>
          if er_RequestHash row \<noteq> requestHash then Inl (PgLedger ErrLedgerIdempotencyConflict)
          else Inr (existing\<lparr>rc_Replayed := True\<rparr>))"

definition new_evidence_row :: "pglib \<Rightarrow> time \<Rightarrow> ReceiptInput \<Rightarrow> string \<Rightarrow> string \<Rightarrow> evidence_row" where
  "new_evidence_row lib now input payload requestHash =
     \<lparr>er_ID = postgresID ''receipt'' now, er_ReceiptType = r_Type input, er_Status = r_Status input,
      er_AccountID = r_AccountID input, er_OrganizationID = r_OrganizationID input,
      er_WorkspaceID = r_WorkspaceID input, er_ProjectID = r_ProjectID input, er_TaskID = r_TaskID input,
      er_JobID = r_JobID input, er_ArtifactID = r_ArtifactID input, er_ReviewID = r_ReviewID input,
      er_PayloadJSON = payload, er_SupersedesReceiptID = r_SupersedesReceiptID input,
      er_IdempotencyKey = r_IdempotencyKey input, er_RequestHash = requestHash, er_CreatedAt = pl_pg_time lib now\<rparr>"

definition recordReceipt ::
  "pglib \<Rightarrow> time \<Rightarrow> ReceiptInput \<Rightarrow> pg_ledger \<Rightarrow> pg_ledger \<Rightarrow> (pg_error + Receipt) \<times> pg_ledger" where
  \<comment> \<open>\<open>seen\<close>: the store at the query, \<open>s\<close>: at the insert\<close>
  "recordReceipt lib now input seen s =
     (let hashInput = input\<lparr>r_IdempotencyKey := []\<rparr>;
          requestHash = hashJSON (pl_go lib) (receipt_input_json hashInput) in
      case find_receipt_key seen (r_IdempotencyKey input) of
        Some row \<Rightarrow> (replay_receipt lib requestHash row, s)
      | None \<Rightarrow>
          let receipt = \<lparr>rc_Input = hashInput, rc_ReceiptID = postgresID ''receipt'' now,
                         rc_CreatedAt = now, rc_Retention = no_retention, rc_Replayed = False\<rparr>;
              payload = enc (pl_payload lib) (hashInput, no_retention) in
          if payload = [] then (Inl PgEncode, s)
          else
            case sql_insert evidence_check evidence_clash (new_evidence_row lib now input payload requestHash)
                   (lp_receipts s) of
              Inr rows \<Rightarrow> (Inr receipt, s\<lparr>lp_receipts := rows\<rparr>)
            | Inl err \<Rightarrow>
                (if err = UniqueViolation
                 then (case find_receipt_key s (r_IdempotencyKey input) of
                         None \<Rightarrow> (Inl (PgDatabase err), s)
                       | Some row \<Rightarrow>
                           (case receiptFromEnt lib row of
                              Inl _ \<Rightarrow> (Inl (PgDatabase err), s)
                            | Inr _ \<Rightarrow> (replay_receipt lib requestHash row, s)))
                 else (Inl (PgDatabase err), s)))"

definition pg_RecordReceipt ::
  "pglib \<Rightarrow> time \<Rightarrow> ReceiptInput \<Rightarrow> pg_ledger \<Rightarrow> pg_ledger \<Rightarrow> (pg_error + Receipt) \<times> pg_ledger" where
  "pg_RecordReceipt lib now input seen s =
     (case validateReceiptInput (pl_go lib) input of
        Some err \<Rightarrow> (Inl (PgLedger err), s)
      | None \<Rightarrow> recordReceipt lib now input seen s)"

section \<open>Mutating receipts\<close>

definition mutateReceipt ::
  "pglib \<Rightarrow> string \<Rightarrow> string \<Rightarrow> string \<Rightarrow> string \<Rightarrow> (Receipt \<Rightarrow> ledger_error + Receipt) \<Rightarrow> pg_ledger \<Rightarrow>
   (pg_error + ReceiptRetentionResult) \<times> pg_ledger" where
  \<comment> \<open>one transaction under the advisory lock of its key and the lock of the row\<close>
  "mutateReceipt lib service key requestHash rid mutate s =
     (let idempotencyID = evidenceID (pl_go lib) ''idempotency'' (service @ '':'' @ key) in
      case List.find (\<lambda>k. ky_ID k = idempotencyID) (lp_keys s) of
        Some existing \<Rightarrow>
          if ky_RequestHash existing \<noteq> requestHash then (Inl (PgLedger ErrLedgerIdempotencyConflict), s)
          else (case dec (pl_result lib) (ky_ResponseRef existing) of
            None \<Rightarrow> (Inl PgDecode, s)
          | Some result \<Rightarrow> (Inr (result\<lparr>tr_Replayed := True\<rparr>), s))
      | None \<Rightarrow>
          (case List.find (\<lambda>r. er_ID r = rid \<and> er_ReceiptType r \<noteq> LocalNoChargeReceiptType) (lp_receipts s) of
             None \<Rightarrow> (Inl (PgLedger ErrReceiptNotFound), s)
           | Some row \<Rightarrow>
               (case dec (pl_payload lib) (er_PayloadJSON row) of
                  None \<Rightarrow> (Inl PgDecode, s)
                | Some (input, retention) \<Rightarrow>
                    (case mutate \<lparr>rc_Input = input, rc_ReceiptID = rid, rc_CreatedAt = er_CreatedAt row,
                                  rc_Retention = retention, rc_Replayed = False\<rparr> of
                       Inl err \<Rightarrow> (Inl (PgLedger err), s)
                     | Inr receipt \<Rightarrow>
                         let payload = enc (pl_payload lib) (rc_Input receipt, rc_Retention receipt);
                             result = \<lparr>tr_ReceiptID = rc_ReceiptID receipt, tr_Retention = rc_Retention receipt,
                                       tr_Replayed = False\<rparr>;
                             response = enc (pl_result lib) result in
                         if payload = [] \<or> response = [] then (Inl PgEncode, s)
                         else (Inr result,
                           s\<lparr>lp_receipts := update_rows (\<lambda>r. er_ID r = rid) (\<lambda>r. r\<lparr>er_PayloadJSON := payload\<rparr>)
                               (lp_receipts s),
                             lp_keys := lp_keys s @
                               [\<lparr>ky_ID = idempotencyID, ky_Service = service, ky_IdempotencyKey = key,
                                 ky_RequestHash = requestHash, ky_ResponseRef = response\<rparr>]\<rparr>)))))"

definition extend_retention :: "ReceiptRetentionInput \<Rightarrow> Receipt \<Rightarrow> ledger_error + Receipt" where
  \<comment> \<open>the mutation of \<open>UpdateReceiptRetention\<close>\<close>
  "extend_retention input receipt =
     (let retention = rc_Retention receipt; old = gt_inst (rt_RetainUntil retention);
          new = gt_inst (ti_RetainUntil input) in
      if \<not> is_zero new \<and> \<not> is_zero old \<and> new < old then Inl ErrReceiptRetentionShortening
      else
        let retention = (if old < new then retention\<lparr>rt_RetainUntil := ti_RetainUntil input\<rparr> else retention) in
        Inr (receipt\<lparr>rc_Retention := retention\<lparr>rt_LegalHold := rt_LegalHold retention \<or> ti_LegalHold input\<rparr>\<rparr>))"

definition pg_UpdateReceiptRetention ::
  "pglib \<Rightarrow> ReceiptRetentionInput \<Rightarrow> pg_ledger \<Rightarrow> (pg_error + ReceiptRetentionResult) \<times> pg_ledger" where
  "pg_UpdateReceiptRetention lib input s =
     (if ti_ReceiptID input = [] \<or> ti_IdempotencyKey input = [] \<or>
         (is_zero (gt_inst (ti_RetainUntil input)) \<and> \<not> ti_LegalHold input)
      then (Inl (PgLedger ErrInvalidReceiptRetentionInput), s)
      else mutateReceipt lib ''receipt-retention'' (ti_IdempotencyKey input) (retention_hash (pl_go lib) input)
             (ti_ReceiptID input) (extend_retention input) s)"

definition redact_receipt :: "time \<Rightarrow> time \<Rightarrow> ReceiptPrivacyDeleteInput \<Rightarrow> Receipt \<Rightarrow> ledger_error + Receipt" where
  \<comment> \<open>the mutation of \<open>PrivacyDeleteReceipt\<close>, with its two readings of the clock\<close>
  "redact_receipt now appliedAt input receipt =
     (if rt_LegalHold (rc_Retention receipt) then Inl ErrReceiptLegalHold
      else if now < gt_inst (rt_RetainUntil (rc_Retention receipt)) then Inl ErrReceiptRetentionActive
      else Inr (redact appliedAt (pi_Reason input) receipt))"

definition pg_PrivacyDeleteReceipt ::
  "pglib \<Rightarrow> time \<Rightarrow> time \<Rightarrow> ReceiptPrivacyDeleteInput \<Rightarrow> pg_ledger \<Rightarrow>
   (pg_error + ReceiptRetentionResult) \<times> pg_ledger" where
  "pg_PrivacyDeleteReceipt lib now appliedAt input s =
     (if pi_ReceiptID input = [] \<or> pi_Reason input = [] \<or> pi_IdempotencyKey input = []
      then (Inl (PgLedger ErrInvalidReceiptRetentionInput), s)
      else mutateReceipt lib ''receipt-privacy'' (pi_IdempotencyKey input) (privacy_hash (pl_go lib) input)
             (pi_ReceiptID input) (redact_receipt now appliedAt input) s)"

section \<open>Reconciliation\<close>

definition reconciliationFromEnt :: "pglib \<Rightarrow> report_row \<Rightarrow> pg_error + ReconciliationResult" where
  "reconciliationFromEnt lib row =
     (case dec (pl_report lib) (rr_ReportJSON row) of
        None \<Rightarrow> Inl (PgLedger ErrInvalidReconciliationInput)
      | Some report \<Rightarrow>
          let result = \<lparr>cr_ID = rr_ID row, cr_Status = rr_Status row, cr_Report = report,
                        cr_BlockNewWorkspaces = rr_BlockNewWorkspaces row, cr_Reason = rr_Reason row,
                        cr_CreatedAt = rr_CreatedAt row, cr_Replayed = False\<rparr> in
          if validateReconciliationResult result \<noteq> None then Inl (PgLedger ErrInvalidReconciliationInput)
          else Inr result)"

definition find_report_key :: "pg_ledger \<Rightarrow> string \<Rightarrow> report_row option" where
  "find_report_key s key = List.find (\<lambda>r. rr_IdempotencyKey r = key) (lp_reports s)"

definition replay_report :: "pglib \<Rightarrow> string \<Rightarrow> report_row \<Rightarrow> pg_error + ReconciliationResult" where
  "replay_report lib requestHash row =
     (case reconciliationFromEnt lib row of
        Inl err \<Rightarrow> Inl err
      | Inr existing \<Rightarrow>
          if rr_RequestHash row \<noteq> requestHash then Inl (PgLedger ErrLedgerIdempotencyConflict)
          else Inr (existing\<lparr>cr_Replayed := True\<rparr>))"

definition pg_RecordReconciliation ::
  "pglib \<Rightarrow> time \<Rightarrow> ReconciliationInput \<Rightarrow> pg_ledger \<Rightarrow> pg_ledger \<Rightarrow>
   (pg_error + ReconciliationResult) \<times> pg_ledger" where
  "pg_RecordReconciliation lib now input seen s =
     (case validateReconciliationInput input of
        Some err \<Rightarrow> (Inl (PgLedger err), s)
      | None \<Rightarrow>
          let requestHash = hashJSON (pl_go lib) (map_json (ci_Report input)) in
          case find_report_key seen (ci_IdempotencyKey input) of
            Some row \<Rightarrow> (replay_report lib requestHash row, s)
          | None \<Rightarrow>
              let status = stringFromAny (ci_Report input) ''status'';
                  reportJSON = enc (pl_report lib) (ci_Report input);
                  result = \<lparr>cr_ID = stringFromAny (ci_Report input) ''id'', cr_Status = status,
                            cr_Report = ci_Report input, cr_BlockNewWorkspaces = (status = ''mismatch''),
                            cr_Reason = ''operator_reconciliation'', cr_CreatedAt = now,
                            cr_Replayed = False\<rparr>;
                  row = \<lparr>rr_ID = cr_ID result, rr_Status = status, rr_ReportJSON = reportJSON,
                         rr_BlockNewWorkspaces = cr_BlockNewWorkspaces result, rr_Reason = cr_Reason result,
                         rr_IdempotencyKey = ci_IdempotencyKey input, rr_RequestHash = requestHash,
                         rr_CreatedAt = pl_pg_time lib now\<rparr> in
              if reportJSON = [] then (Inl PgEncode, s)
              else
                case sql_insert report_check report_clash row (lp_reports s) of
                  Inr rows \<Rightarrow> (Inr result, s\<lparr>lp_reports := rows\<rparr>)
                | Inl err \<Rightarrow>
                    (if err = UniqueViolation
                     then (case find_report_key s (ci_IdempotencyKey input) of
                             None \<Rightarrow> (Inl (PgDatabase err), s)
                           | Some row \<Rightarrow>
                               (case reconciliationFromEnt lib row of
                                  Inl _ \<Rightarrow> (Inl (PgDatabase err), s)
                                | Inr _ \<Rightarrow> (replay_report lib requestHash row, s)))
                     else (Inl (PgDatabase err), s)))"

section \<open>The evidence index\<close>

definition index_clash :: "index_row \<Rightarrow> index_row \<Rightarrow> bool" where
  "index_clash a b \<longleftrightarrow> ix_ID a = ix_ID b \<or> ix_IdempotencyKey a = ix_IdempotencyKey b"

definition entry_of_row :: "index_row \<Rightarrow> EvidenceIndexEntry" where
  \<comment> \<open>the scan of a row; the key is not selected, and times are read in UTC\<close>
  "entry_of_row r =
     \<lparr>xe_Input = \<lparr>x_OperationID = ix_OperationID r, x_CandidateSHA = ix_CandidateSHA r,
        x_CandidateTree = ix_CandidateTree r, x_ImageDigest = ix_ImageDigest r, x_ReceiptID = ix_ReceiptID r,
        x_ReceiptType = ix_ReceiptType r, x_Status = ix_Status r, x_Actor = ix_Actor r,
        x_ObservedAt = \<lparr>gt_inst = ix_ObservedAt r, gt_off = 0\<rparr>, x_IdentityDigest = ix_IdentityDigest r,
        x_RedactedLink = ix_RedactedLink r, x_IdempotencyKey = []\<rparr>,
      xe_EvidenceID = ix_ID r, xe_CreatedAt = ix_CreatedAt r, xe_Replayed = False\<rparr>"

definition new_index_row :: "pglib \<Rightarrow> time \<Rightarrow> EvidenceIndexInput \<Rightarrow> string \<Rightarrow> index_row" where
  "new_index_row lib now i requestHash =
     \<lparr>ix_ID = postgresID ''evidence'' now, ix_OperationID = x_OperationID i, ix_CandidateSHA = x_CandidateSHA i,
      ix_CandidateTree = x_CandidateTree i, ix_ImageDigest = x_ImageDigest i, ix_ReceiptID = x_ReceiptID i,
      ix_ReceiptType = x_ReceiptType i, ix_Status = x_Status i, ix_Actor = x_Actor i,
      ix_ObservedAt = pl_pg_time lib (gt_inst (x_ObservedAt i)), ix_IdentityDigest = x_IdentityDigest i,
      ix_RedactedLink = x_RedactedLink i, ix_IdempotencyKey = x_IdempotencyKey i,
      ix_RequestHash = requestHash, ix_CreatedAt = pl_pg_time lib now\<rparr>"

definition evidenceIndexByIdempotencyKeyTx :: "pg_ledger \<Rightarrow> string \<Rightarrow> (EvidenceIndexEntry \<times> string) option" where
  "evidenceIndexByIdempotencyKeyTx s key =
     map_option (\<lambda>r. (entry_of_row r, ix_RequestHash r))
       (List.find (\<lambda>r. ix_IdempotencyKey r = key) (lp_index s))"

definition pg_RecordEvidenceIndex ::
  "pglib \<Rightarrow> time \<Rightarrow> EvidenceIndexInput \<Rightarrow> pg_ledger \<Rightarrow> (pg_error + EvidenceIndexEntry) \<times> pg_ledger" where
  \<comment> \<open>one transaction under the advisory lock of the key. The error of a refused insert comes from the
     driver, so it is no \<open>ConstraintError\<close> of ent and is returned as it is\<close>
  "pg_RecordEvidenceIndex lib now input s =
     (case validateEvidenceIndexInput (pl_go lib) input of
        Some err \<Rightarrow> (Inl (PgLedger err), s)
      | None \<Rightarrow>
          let hashInput = input\<lparr>x_IdempotencyKey := []\<rparr>;
              requestHash = hashJSON (pl_go lib) (evidence_input_json (pl_go lib) hashInput) in
          (case evidenceIndexByIdempotencyKeyTx s (x_IdempotencyKey input) of
             Some (existing, existingHash) \<Rightarrow>
               if existingHash \<noteq> requestHash then (Inl (PgLedger ErrLedgerIdempotencyConflict), s)
               else (Inr (existing\<lparr>xe_Replayed := True\<rparr>), s)
           | None \<Rightarrow>
               let entry = \<lparr>xe_Input = hashInput, xe_EvidenceID = postgresID ''evidence'' now,
                            xe_CreatedAt = now, xe_Replayed = False\<rparr> in
               (case sql_insert (\<lambda>r. True) index_clash (new_index_row lib now input requestHash) (lp_index s) of
                  Inl err \<Rightarrow> (Inl (PgDatabase err), s)
                | Inr rows \<Rightarrow> (Inr entry, s\<lparr>lp_index := rows\<rparr>))))"

section \<open>Listing\<close>

definition sql_before :: "pglib \<Rightarrow> cursor \<Rightarrow> time \<times> string \<Rightarrow> bool" where
  \<comment> \<open>\<open>(time, id) < ($1, $2)\<close>, added to the query unless the cursor is zero\<close>
  "sql_before lib c k \<longleftrightarrow> is_zero (gt_inst (fst c)) \<or> k < (pl_pg_time lib (gt_inst (fst c)), snd c)"

definition index_where :: "EvidenceIndexQuery \<Rightarrow> index_row \<Rightarrow> bool" where
  "index_where q r \<longleftrightarrow>
     filter_ok (xq_OperationID q) (ix_OperationID r) \<and> filter_ok (xq_CandidateSHA q) (ix_CandidateSHA r) \<and>
     filter_ok (xq_CandidateTree q) (ix_CandidateTree r) \<and> filter_ok (xq_ImageDigest q) (ix_ImageDigest r) \<and>
     filter_ok (xq_ReceiptID q) (ix_ReceiptID r) \<and> filter_ok (xq_ReceiptType q) (ix_ReceiptType r) \<and>
     filter_ok (xq_Status q) (ix_Status r)"

definition pg_ListEvidenceIndex ::
  "pglib \<Rightarrow> EvidenceIndexQuery \<Rightarrow> pg_ledger \<Rightarrow> ledger_error + EvidenceIndexPage" where
  "pg_ListEvidenceIndex lib query s =
     (case normalizeEvidenceIndexQuery (pl_go lib) query of
        Inl err \<Rightarrow> Inl err
      | Inr (query, cursor) \<Rightarrow>
          let rows = filter (\<lambda>r. index_where query r \<and> sql_before lib cursor (ix_ObservedAt r, ix_ID r)) (lp_index s);
              rows = take (nat (xq_Limit query) + 1) (desc_by (\<lambda>r. (ix_ObservedAt r, ix_ID r)) rows);
              entries = map entry_of_row rows;
              hasMore = (nat (xq_Limit query) < length entries);
              entries = (if hasMore then take (nat (xq_Limit query)) entries else entries) in
          Inr \<lparr>xp_Entries = entries,
               xp_NextCursor = (if hasMore then encodeEvidenceIndexCursor (pl_go lib) (last entries) else []),
               xp_HasMore = hasMore\<rparr>)"

lemma pg_ListEvidenceIndex_progress:
  assumes "pg_ListEvidenceIndex lib q s = Inr page" and "xp_HasMore page"
  shows "xp_Entries page \<noteq> []"
proof -
  from assms(1) obtain q' c where n: "normalizeEvidenceIndexQuery (pl_go lib) q = Inr (q', c)"
    by (auto simp: pg_ListEvidenceIndex_def split: sum.splits)
  have "0 < nat (xq_Limit q')"
    using normalize_evidence_limit [OF n, THEN conjunct2, THEN conjunct1] by linarith
  then show ?thesis using assms by (auto simp: pg_ListEvidenceIndex_def n Let_def)
qed

function pg_export_pages ::
  "pglib \<Rightarrow> pg_ledger \<Rightarrow> EvidenceIndexQuery \<Rightarrow> EvidenceIndexEntry list \<Rightarrow> ledger_error + EvidenceIndexEntry list" where
  "pg_export_pages lib s query entries =
     (case pg_ListEvidenceIndex lib query s of
        Inl err \<Rightarrow> Inl err
      | Inr page \<Rightarrow>
          let entries' = entries @ xp_Entries page in
          if \<not> xp_HasMore page then Inr entries'
          else if MaxEvidenceIndexExportSize \<le> int (length entries') then Inl ErrEvidenceIndexExportTooLarge
          else pg_export_pages lib s (query\<lparr>xq_Cursor := xp_NextCursor page\<rparr>) entries')"
  by pat_completeness auto
termination
  by (relation "measure (\<lambda>(lib, s, query, entries). nat (MaxEvidenceIndexExportSize) - length entries)")
     (auto dest!: pg_ListEvidenceIndex_progress simp: MaxEvidenceIndexExportSize_def Let_def
       length_greater_0_conv [symmetric] simp del: length_greater_0_conv)

declare pg_export_pages.simps [simp del]

definition pg_ExportEvidenceIndex ::
  "pglib \<Rightarrow> EvidenceIndexQuery \<Rightarrow> pg_ledger \<Rightarrow> ledger_error + EvidenceIndexExport" where
  "pg_ExportEvidenceIndex lib query s =
     (case pg_export_pages lib s (query\<lparr>xq_Cursor := [], xq_Limit := MaxEvidenceIndexPageSize\<rparr>) [] of
        Inl err \<Rightarrow> Inl err
      | Inr entries \<Rightarrow> Inr \<lparr>xx_SchemaVersion = 1, xx_Entries = entries\<rparr>)"

definition jsonb_text :: "pglib \<Rightarrow> json option \<Rightarrow> string option" where
  \<comment> \<open>\<open>->>\<close>: SQL \<open>NULL\<close> for an absent or null member\<close>
  "jsonb_text lib j =
     (case j of
        None \<Rightarrow> None
      | Some JNull \<Rightarrow> None
      | Some (JStr t) \<Rightarrow> Some t
      | Some (JNum n) \<Rightarrow> Some n
      | Some (JBool b) \<Rightarrow> Some (if b then ''true'' else ''false'')
      | Some v \<Rightarrow> Some (pl_jsonb lib v))"

definition row_input :: "pglib \<Rightarrow> evidence_row \<Rightarrow> ReceiptInput option" where
  "row_input lib r = map_option fst (dec (pl_payload lib) (er_PayloadJSON r))"

definition type_where :: "pglib \<Rightarrow> ReceiptQuery \<Rightarrow> evidence_row \<Rightarrow> bool" where
  \<comment> \<open>the predicate on \<open>receipt_type\<close>\<close>
  "type_where lib q r =
     (let receiptType = (if q_Type q \<noteq> [] then Some (er_ReceiptType r = q_Type q)
                         else if q_TypePrefix q \<noteq> [] then Some (has_prefix (er_ReceiptType r) (q_TypePrefix q))
                         else None);
          kind = (case row_input lib r of
                    None \<Rightarrow> None | Some i \<Rightarrow> jsonb_text lib (obj_get (ents (r_Execution i)) ''kind''));
          included = (er_ReceiptType r = q_IncludeType q \<and>
            (q_IncludeExecutionKind q = [] \<or> kind = Some (q_IncludeExecutionKind q))) in
      if q_IncludeType q \<noteq> [] then (case receiptType of None \<Rightarrow> included | Some b \<Rightarrow> b \<or> included)
      else (case receiptType of None \<Rightarrow> True | Some b \<Rightarrow> b))"

definition receipt_where :: "pglib \<Rightarrow> ReceiptQuery \<Rightarrow> evidence_row \<Rightarrow> bool" where
  "receipt_where lib q r \<longleftrightarrow>
     er_ReceiptType r \<notin> {LocalNoChargeReceiptType, WalletActionReceiptType, ProviderActionReceiptType} \<and>
     filter_ok (q_AccountID q) (er_AccountID r) \<and> filter_ok (q_OrganizationID q) (er_OrganizationID r) \<and>
     filter_ok (q_WorkspaceID q) (er_WorkspaceID r) \<and>
     (q_RequestID q = [] \<or> map_option r_RequestID (row_input lib r) = Some (q_RequestID q)) \<and>
     filter_ok (q_ProjectID q) (er_ProjectID r) \<and> filter_ok (q_TaskID q) (er_TaskID r) \<and>
     filter_ok (q_JobID q) (er_JobID r) \<and> type_where lib q r \<and> filter_ok (q_Status q) (er_Status r)"

definition reads_payload :: "ReceiptQuery \<Rightarrow> bool" where
  \<comment> \<open>whether the query casts the documents to \<open>jsonb\<close>, which fails on a text that is no JSON\<close>
  "reads_payload q \<longleftrightarrow> q_RequestID q \<noteq> [] \<or> (q_IncludeType q \<noteq> [] \<and> q_IncludeExecutionKind q \<noteq> [])"

definition pg_ListReceipts :: "pglib \<Rightarrow> ReceiptQuery \<Rightarrow> pg_ledger \<Rightarrow> pg_error + ReceiptPage" where
  "pg_ListReceipts lib query s =
     (case normalizeReceiptQuery (pl_go lib) query of
        Inl err \<Rightarrow> Inl (PgLedger err)
      | Inr (query, cursor) \<Rightarrow>
          let rows = filter (\<lambda>r. receipt_where lib query r \<and> sql_before lib cursor (er_CreatedAt r, er_ID r))
                       (lp_receipts s);
              rows = take (nat (q_Limit query) + 1) (desc_by (\<lambda>r. (er_CreatedAt r, er_ID r)) rows);
              hasMore = (nat (q_Limit query) < length rows);
              rows = (if hasMore then take (nat (q_Limit query)) rows else rows) in
          if reads_payload query \<and> list_ex (\<lambda>r. row_input lib r = None) (lp_receipts s) then Inl PgDecode
          else (case those (map (\<lambda>r. case receiptFromEnt lib r of Inl _ \<Rightarrow> None | Inr x \<Rightarrow> Some x) rows) of
             None \<Rightarrow> Inl PgDecode
           | Some receipts \<Rightarrow>
               Inr \<lparr>rp_Lookup = receiptLookupScope query, rp_Receipts = receipts,
                    rp_NextCursor = (if hasMore then encodeReceiptCursor (pl_go lib) (last receipts) else []),
                    rp_HasMore = hasMore\<rparr>))"

end
