(* ===== verification/Ledger_Listing.thy ===== *)
theory Ledger_Listing
  imports Ledger_Postgres
begin

text \<open>
  The evidence index of the production store against the memory store: the SQL listing and the export
  built on it give what the reference implementation gives on the same entries.
\<close>

definition index_view :: "pg_ledger \<Rightarrow> MemoryStore" where
  \<comment> \<open>the entries of the table as a memory store\<close>
  "index_view s = NewMemoryStore\<lparr>ms_evidenceIndex := map (\<lambda>r. (ix_ID r, entry_of_row r)) (lp_index s)\<rparr>"

definition storable :: "pglib \<Rightarrow> cursor \<Rightarrow> bool" where
  \<comment> \<open>no cursor, or one whose instant a \<open>timestamptz\<close> keeps\<close>
  "storable lib c \<longleftrightarrow> is_zero (gt_inst (fst c)) \<or> pl_pg_time lib (gt_inst (fst c)) = gt_inst (fst c)"

lemma sort_key_map: "sort_key k (map f xs) = map f (sort_key (\<lambda>x. k (f x)) xs)"
proof -
  have "insort_key k (f x) (map f ys) = map f (insort_key (\<lambda>x. k (f x)) x ys)" for x ys
    by (induction ys) auto
  then show ?thesis by (induction xs) auto
qed

lemma desc_by_map: "desc_by k (map f xs) = map f (desc_by (\<lambda>x. k (f x)) xs)"
  by (simp add: desc_by_def sort_key_map rev_map)

lemma sql_before_cursor: "storable lib c \<Longrightarrow> sql_before lib c k = before_cursor c k"
  by (cases k) (auto simp: storable_def sql_before_def before_cursor_def less_prod_def)

lemma index_rows_view:
  assumes "storable lib c"
  shows "entry_rows q c (index_view s) = map entry_of_row (desc_by (\<lambda>r. (ix_ObservedAt r, ix_ID r))
    (filter (\<lambda>r. index_where q r \<and> sql_before lib c (ix_ObservedAt r, ix_ID r)) (lp_index s)))"
proof -
  have key: "entry_key (entry_of_row r) = (ix_ObservedAt r, ix_ID r)" for r by (simp add: entry_key_def entry_of_row_def)
  have "entry_matches q (entry_of_row r) = index_where q r" for r
    by (simp add: entry_matches_def index_where_def entry_of_row_def)
  then show ?thesis
    by (simp add: entry_rows_def index_view_def filter_map comp_def desc_by_map key sql_before_cursor [OF assms])
qed

lemma pg_page_refines:
  assumes "\<And>q' c. normalizeEvidenceIndexQuery (pl_go lib) q = Inr (q', c) \<Longrightarrow> storable lib c"
  shows "pg_ListEvidenceIndex lib q s = ListEvidenceIndex (pl_go lib) q (index_view s)"
proof (cases "normalizeEvidenceIndexQuery (pl_go lib) q")
  case (Inl e)
  then show ?thesis by (simp add: pg_ListEvidenceIndex_def ListEvidenceIndex_def)
next
  case (Inr x)
  obtain q' c where x: "x = (q', c)" by (cases x)
  note n = Inr [unfolded x]
  let ?rows = "desc_by (\<lambda>r. (ix_ObservedAt r, ix_ID r))
    (filter (\<lambda>r. index_where q' r \<and> sql_before lib c (ix_ObservedAt r, ix_ID r)) (lp_index s))"
  have "nat (xq_Limit q') < length (take (nat (xq_Limit q') + 1) ?rows) \<longleftrightarrow> nat (xq_Limit q') < length ?rows" by auto
  then show ?thesis
    unfolding ListEvidenceIndex_page [OF n] index_rows_view [OF assms [OF n]] pg_ListEvidenceIndex_def n sum.case prod.case Let_def
    by (auto simp: take_map min_def)
qed

section \<open>Exporting\<close>

definition index_times_ok :: "pglib \<Rightarrow> pg_ledger \<Rightarrow> bool" where
  \<comment> \<open>stored instants are what the column keeps, and the cursor of an entry decodes to its place\<close>
  "index_times_ok lib s \<longleftrightarrow> list_all (\<lambda>r. pl_pg_time lib (ix_ObservedAt r) = ix_ObservedAt r \<and>
     cursor_roundtrip (pl_go lib) (x_ObservedAt (xe_Input (entry_of_row r)), ix_ID r)) (lp_index s)"

definition own_cursor :: "pglib \<Rightarrow> pg_ledger \<Rightarrow> string \<Rightarrow> bool" where
  \<comment> \<open>none, or the cursor of an entry\<close>
  "own_cursor lib s tok \<longleftrightarrow> tok = [] \<or> (\<exists>r \<in> set (lp_index s). tok = encodeEvidenceIndexCursor (pl_go lib) (entry_of_row r))"

lemma own_cursor_storable:
  assumes "index_times_ok lib s" and "own_cursor lib s (xq_Cursor q)"
    and "normalizeEvidenceIndexQuery (pl_go lib) q = Inr (q', c)"
  shows "storable lib c"
proof (cases "xq_Cursor q = []")
  case True
  with assms(3) show ?thesis
    by (auto simp: normalizeEvidenceIndexQuery_def Let_def storable_def zero_cursor_def zero_time_def  split: if_splits)
next
  case False
  with assms(2) obtain r where r: "r \<in> set (lp_index s)" "xq_Cursor q = encodeEvidenceIndexCursor (pl_go lib) (entry_of_row r)"
    by (auto simp: own_cursor_def)
  from assms(3) False have d: "decode_cursor (pl_go lib) (xq_Cursor q) = Some c"
    by (auto simp: normalizeEvidenceIndexQuery_def Let_def split: if_splits option.splits)
  have "pl_pg_time lib (ix_ObservedAt r) = ix_ObservedAt r"
    "cursor_roundtrip (pl_go lib) (x_ObservedAt (xe_Input (entry_of_row r)), ix_ID r)"
    using assms(1) r(1) by (auto simp: index_times_ok_def list_all_iff)
  then show ?thesis
    using d r(2)
    by (auto simp: decode_cursor_def storable_def cursor_roundtrip_def encodeEvidenceIndexCursor_def entry_of_row_def
        split: option.splits if_splits prod.splits)
qed

lemma next_own_cursor:
  assumes "pg_ListEvidenceIndex lib q s = Inr page" and "xp_HasMore page"
  shows "own_cursor lib s (xp_NextCursor page)"
proof -
  from assms(1) obtain q' c where n: "normalizeEvidenceIndexQuery (pl_go lib) q = Inr (q', c)"
    by (auto simp: pg_ListEvidenceIndex_def split: sum.splits)
  define rows where "rows = desc_by (\<lambda>r. (ix_ObservedAt r, ix_ID r))
    (filter (\<lambda>r. index_where q' r \<and> sql_before lib c (ix_ObservedAt r, ix_ID r)) (lp_index s))"
  have page: "xp_Entries page = map entry_of_row (take (nat (xq_Limit q')) rows)"
    "xp_NextCursor page = encodeEvidenceIndexCursor (pl_go lib) (last (xp_Entries page))"
    using assms unfolding pg_ListEvidenceIndex_def n sum.case prod.case Let_def rows_def [symmetric]
    by (auto simp: take_map min_def split: if_splits)
  have ne: "take (nat (xq_Limit q')) rows \<noteq> []"
    using pg_ListEvidenceIndex_progress [OF assms] page(1) by auto
  have "last (take (nat (xq_Limit q')) rows) \<in> set rows" using last_in_set [OF ne] by (rule in_set_takeD)
  then have "last (take (nat (xq_Limit q')) rows) \<in> set (lp_index s)" by (simp add: rows_def)
  with page ne show ?thesis by (auto simp: own_cursor_def last_map)
qed

lemma pg_export_pages_refines:
  assumes "index_times_ok lib s" and "own_cursor lib s (xq_Cursor q)"
  shows "pg_export_pages lib s q acc = export_pages (pl_go lib) (index_view s) q acc"
  using assms
proof (induction lib s q acc rule: pg_export_pages.induct)
  case (1 lib s q acc)
  have page: "pg_ListEvidenceIndex lib q s = ListEvidenceIndex (pl_go lib) q (index_view s)"
    by (rule pg_page_refines) (rule own_cursor_storable [OF 1(2,3)])
  show ?case
  proof (cases "pg_ListEvidenceIndex lib q s")
    case (Inl e)
    then show ?thesis by (subst pg_export_pages.simps, subst export_pages.simps) (simp add: page [symmetric])
  next
    case (Inr p)
    have "pg_export_pages lib s (q\<lparr>xq_Cursor := xp_NextCursor p\<rparr>) (acc @ xp_Entries p) =
        export_pages (pl_go lib) (index_view s) (q\<lparr>xq_Cursor := xp_NextCursor p\<rparr>) (acc @ xp_Entries p)"
      if "xp_HasMore p" "\<not> MaxEvidenceIndexExportSize \<le> int (length (acc @ xp_Entries p))"
      using 1(1) [OF Inr refl _ that(2) 1(2)] that(1) next_own_cursor [OF Inr that(1)] by simp
    then show ?thesis
      by (subst pg_export_pages.simps, subst export_pages.simps) (simp add: page [symmetric] Inr Let_def)
  qed
qed

text \<open>
  C32: The production export is the reference export. When the stored instants are what the column keeps
  and the cursor of an entry decodes to its place, ExportEvidenceIndex of the PostgreSQL store, page by
  page over SQL, returns for every query exactly what the memory store returns on the same entries, the
  refusal of an export that is too large included.
\<close>

theorem pg_export_refines:
  assumes "index_times_ok lib s"
  shows "pg_ExportEvidenceIndex lib q s = ExportEvidenceIndex (pl_go lib) q (index_view s)"
  using pg_export_pages_refines [OF assms, of "q\<lparr>xq_Cursor := [], xq_Limit := MaxEvidenceIndexPageSize\<rparr>" "[]"]
  by (simp add: pg_ExportEvidenceIndex_def ExportEvidenceIndex_def own_cursor_def)

definition sample_index_row :: "string \<Rightarrow> time \<Rightarrow> index_row" where
  "sample_index_row i t =
     \<lparr>ix_ID = i, ix_OperationID = ''op'', ix_CandidateSHA = ''sha'', ix_CandidateTree = ''tree'', ix_ImageDigest = ''img'',
      ix_ReceiptID = ''r1'', ix_ReceiptType = ''qa'', ix_Status = ''passed'', ix_Actor = ''ci'', ix_ObservedAt = t,
      ix_IdentityDigest = ''d'', ix_RedactedLink = [], ix_IdempotencyKey = i, ix_RequestHash = ''h'', ix_CreatedAt = t\<rparr>"

definition sample_listing_lib :: pglib where
  \<comment> \<open>instants rounded to microseconds, cursors as one letter for the entry\<close>
  "sample_listing_lib =
     \<lparr>pl_go = sample_clock_lib\<lparr>lib_cursor_encode := snd,
        lib_cursor_decode := (\<lambda>s. Some (\<lparr>gt_inst = (if s = ''a'' then 1000 else 2000), gt_off = 0\<rparr>, s))\<rparr>,
      pl_payload = \<lparr>enc = (\<lambda>x. []), dec = (\<lambda>t. None)\<rparr>, pl_result = \<lparr>enc = (\<lambda>x. []), dec = (\<lambda>t. None)\<rparr>,
      pl_report = \<lparr>enc = (\<lambda>x. []), dec = (\<lambda>t. None)\<rparr>, pl_pg_time = (\<lambda>t. (t div 1000) * 1000), pl_jsonb = (\<lambda>j. [])\<rparr>"

definition sample_listing :: pg_ledger where
  "sample_listing = \<lparr>lp_receipts = [], lp_keys = [], lp_reports = [],
     lp_index = [sample_index_row ''a'' 1000, sample_index_row ''b'' 2000]\<rparr>"

theorem pg_export_refines_witness:
  "pg_ExportEvidenceIndex sample_listing_lib
     \<lparr>xq_OperationID = [], xq_CandidateSHA = [], xq_CandidateTree = [], xq_ImageDigest = [],
      xq_ReceiptID = [], xq_ReceiptType = [], xq_Status = [], xq_Cursor = [], xq_Limit = 0\<rparr> sample_listing =
   ExportEvidenceIndex (pl_go sample_listing_lib)
     \<lparr>xq_OperationID = [], xq_CandidateSHA = [], xq_CandidateTree = [], xq_ImageDigest = [],
      xq_ReceiptID = [], xq_ReceiptType = [], xq_Status = [], xq_Cursor = [], xq_Limit = 0\<rparr> (index_view sample_listing)"
proof (rule pg_export_refines)
  show "index_times_ok sample_listing_lib sample_listing"
    by (simp add: index_times_ok_def sample_listing_def sample_listing_lib_def sample_index_row_def entry_of_row_def
        cursor_roundtrip_def)
qed

end
