(* ===== verification/Owner_Authorization.thy ===== *)
theory Owner_Authorization
  imports Go_Basics
begin

text \<open>
  Who may call an owner (\<open>services/internal/ownerservice/auth.go\<close>, \<open>authorization.go\<close> and
  \<open>packages/contracts/go/owneridentity\<close>): the peer is authenticated by its token and certificate,
  the call context is checked, the tenant of the call is compared with the tenant of the resource, and
  CloudIdentity, which is a parameter of the model, is asked for a decision that has to match the
  request exactly and be fresh. An enumeration of the wire contract is the name of its member; an
  absent optional message is \<open>None\<close>.
\<close>

section \<open>Statuses and wire timestamps\<close>

datatype grpc_code =
    Canceled | Unknown | InvalidArgument | DeadlineExceeded | NotFound | AlreadyExists
  | PermissionDenied | ResourceExhausted | FailedPrecondition | Aborted | OutOfRange | Unimplemented
  | Internal | Unavailable | DataLoss | Unauthenticated

type_synonym status = "grpc_code \<times> string"

record Timestamp =
  ts_Seconds :: int
  ts_Nanos :: int

definition CheckValid :: "Timestamp \<Rightarrow> bool" where
  \<comment> \<open>between 0001-01-01 and 9999-12-31, with nanoseconds inside a second\<close>
  "CheckValid t \<longleftrightarrow> -62135596800 \<le> ts_Seconds t \<and> ts_Seconds t \<le> 253402300799 \<and>
     0 \<le> ts_Nanos t \<and> ts_Nanos t < 1000000000"

definition AsTime :: "Timestamp \<Rightarrow> time" where
  "AsTime t = (ts_Seconds t + 62135596800) * 1000000000 + ts_Nanos t"

definition timestamp :: "time \<Rightarrow> Timestamp" where
  \<comment> \<open>\<open>timestamppb.New\<close>\<close>
  "timestamp t = \<lparr>ts_Seconds = t div 1000000000 - 62135596800, ts_Nanos = t mod 1000000000\<rparr>"

lemma AsTime_timestamp [simp]: "AsTime (timestamp t) = t"
  by (simp add: AsTime_def timestamp_def)

lemma timestamp_AsTime: "CheckValid t \<Longrightarrow> timestamp (AsTime t) = t"
proof -
  assume v: "CheckValid t"
  have eq: "AsTime t = ts_Nanos t + 1000000000 * (ts_Seconds t + 62135596800)" by (simp add: AsTime_def)
  from v have "AsTime t div 1000000000 = ts_Seconds t + 62135596800" "AsTime t mod 1000000000 = ts_Nanos t"
    unfolding eq by (simp_all only: div_mult_self2 mod_mult_self2) (auto simp: CheckValid_def)
  then show ?thesis by (cases t) (simp add: timestamp_def)
qed

section \<open>Owners and peers\<close>

definition owner_names :: "string list" where
  "owner_names =
     [''tenant'', ''capability'', ''build'', ''workspace'', ''runtime_control'', ''serve'', ''fabric'',
      ''gateway'', ''resource_catalog'', ''ledger'']"

definition Owner_Valid :: "string \<Rightarrow> bool" where
  "Owner_Valid owner \<longleftrightarrow> owner \<in> set owner_names"

definition Parse :: "string \<Rightarrow> string option" where
  "Parse value =
     (let owner = to_lower (trim_space value) in if Owner_Valid owner then Some owner else None)"

definition Service_Valid :: "string \<Rightarrow> bool" where
  "Service_Valid s \<longleftrightarrow> s = ''console_bff'' \<or> s = ''control_plane'' \<or> Owner_Valid s"

text \<open>
  What arrives with a call: the metadata, and the service named by the verified client certificate
  (\<open>None\<close> without a verified chain or when the certificate names no service).
\<close>

record inbound =
  in_metadata :: "(string \<times> string list) list option"
  in_certificate :: "string option"

record peer_config =
  pc_Owner :: string
  pc_Peers :: "(string \<times> string) list"
  pc_AllowInsecureLocal :: bool

definition firstHeader :: "(string \<times> string list) list \<Rightarrow> string \<Rightarrow> string" where
  "firstHeader md key =
     (case map_of md key of
        Some [v] \<Rightarrow> trim_space v
      | _ \<Rightarrow> [])"

definition Authenticate :: "inbound \<Rightarrow> peer_config \<Rightarrow> status + string" where
  "Authenticate inb config =
     (if pc_Peers config = [] then Inl (Unauthenticated, ''no inbound peers'')
      else case in_metadata inb of
        None \<Rightarrow> Inl (Unauthenticated, ''identity is required'')
      | Some md \<Rightarrow>
          let owner = firstHeader md ''x-opl-owner'' in
          if owner = [] then Inl (Unauthenticated, ''identity is required'')
          else case map_of (pc_Peers config) owner of
            None \<Rightarrow> Inl (PermissionDenied, ''may not call'')
          | Some expected \<Rightarrow>
              let presented = firstHeader md ''x-opl-owner-token'' in
              if presented = [] then Inl (Unauthenticated, ''token is required'')
              else if presented \<noteq> expected then Inl (Unauthenticated, ''token is invalid'')
              else if \<not> pc_AllowInsecureLocal config \<and> in_certificate inb \<noteq> Some owner
              then Inl (Unauthenticated, ''mTLS'')
              else Inr owner)"

section \<open>Call contexts\<close>

datatype scope = PlatformScope | TenantScope string | NoScope

record CallContext =
  ctx_RequestId :: string
  ctx_IdempotencyKey :: string
  ctx_AuthorizationContextId :: string
  ctx_ActorId :: string
  ctx_SessionId :: "string option"
  ctx_Scope :: "scope option"
  ctx_AcceptedOperationGrantId :: "string option"
  ctx_DeadlineAt :: "Timestamp option"

definition call_tenant :: "CallContext option \<Rightarrow> string" where
  \<comment> \<open>\<open>GetScope().GetTenant().GetTenantId()\<close>\<close>
  "call_tenant call =
     (case call of
        Some c \<Rightarrow> (case ctx_Scope c of Some (TenantScope t) \<Rightarrow> t | _ \<Rightarrow> [])
      | None \<Rightarrow> [])"

definition ValidateCallContext :: "string option \<Rightarrow> time \<Rightarrow> CallContext option \<Rightarrow> status option" where
  \<comment> \<open>the first argument is the authenticated peer recorded on the context\<close>
  "ValidateCallContext peer now call =
     (if peer = None then Some (Unauthenticated, ''verified calling service is required'')
      else case call of
        None \<Rightarrow> Some (Unauthenticated, ''actor, request, scope and session or grant are required'')
      | Some c \<Rightarrow>
          if trim_space (ctx_ActorId c) = [] \<or> trim_space (ctx_RequestId c) = [] \<or> ctx_Scope c = None \<or>
             (coalesce_str (ctx_SessionId c) = [] \<and> coalesce_str (ctx_AcceptedOperationGrantId c) = [])
          then Some (Unauthenticated, ''actor, request, scope and session or grant are required'')
          else if (case ctx_DeadlineAt c of None \<Rightarrow> False | Some d \<Rightarrow> \<not> CheckValid d \<or> AsTime d \<le> now)
          then Some (DeadlineExceeded, ''call context expired'')
          else None)"

section \<open>Decisions\<close>

record AuthorizationResource =
  ar_Kind :: string
  ar_Id :: "string option"

record AuthorizationRequest =
  aq_Scope :: "scope option"
  aq_ActorId :: string
  aq_SessionId :: "string option"
  aq_AuthorizationContextId :: "string option"
  aq_AcceptedOperationGrantId :: "string option"
  aq_AudienceOwner :: string
  aq_Action :: string
  aq_Resource :: "AuthorizationResource option"
  aq_RequestId :: string

record AuthorizationDecision =
  ad_Result :: string
  ad_Issuer :: string
  ad_Scope :: "scope option"
  ad_ActorId :: string
  ad_SessionId :: "string option"
  ad_AudienceOwner :: string
  ad_Action :: string
  ad_Resource :: "AuthorizationResource option"
  ad_PermissionVersion :: int
  ad_IssuedAt :: "Timestamp option"
  ad_ExpiresAt :: "Timestamp option"
  ad_AcceptedOperationGrantId :: "string option"

definition decision_matches :: "AuthorizationRequest \<Rightarrow> AuthorizationDecision \<Rightarrow> bool" where
  "decision_matches req dec \<longleftrightarrow>
     trim_space (aq_ActorId req) \<noteq> [] \<and> aq_ActorId req = ad_ActorId dec \<and>
     aq_Scope req = ad_Scope dec \<and> aq_AudienceOwner req = ad_AudienceOwner dec \<and>
     aq_Action req = ad_Action dec \<and> aq_Resource req = ad_Resource dec \<and>
     coalesce_str (aq_SessionId req) = coalesce_str (ad_SessionId dec) \<and>
     coalesce_str (aq_AcceptedOperationGrantId req) = coalesce_str (ad_AcceptedOperationGrantId dec)"

definition decision_live :: "time \<Rightarrow> AuthorizationDecision \<Rightarrow> bool" where
  "decision_live now dec \<longleftrightarrow>
     0 < ad_PermissionVersion dec \<and>
     (case (ad_IssuedAt dec, ad_ExpiresAt dec) of
        (Some i, Some e) \<Rightarrow>
          CheckValid i \<and> CheckValid e \<and> AsTime i \<le> now \<and> now < AsTime e \<and> AsTime i < AsTime e
      | _ \<Rightarrow> False)"

definition ValidateDecision ::
  "AuthorizationRequest option \<Rightarrow> AuthorizationDecision option \<Rightarrow> time \<Rightarrow> string option" where
  "ValidateDecision request decision now =
     (case (request, decision) of
        (Some req, Some dec) \<Rightarrow>
          if ad_Issuer dec \<noteq> ''CLOUD_IDENTITY'' \<or> ad_Result dec \<noteq> ''ALLOWED''
          then Some ''CloudIdentity did not allow the request''
          else if \<not> decision_matches req dec then Some ''decision does not match the request''
          else if \<not> decision_live now dec then Some ''invalid permission version or lifetime''
          else None
      | _ \<Rightarrow> Some ''CloudIdentity did not allow the request'')"

definition authorizationError :: "status \<Rightarrow> status" where
  "authorizationError err =
     (if fst err \<in> {PermissionDenied, Unauthenticated, FailedPrecondition, InvalidArgument, NotFound,
                    AlreadyExists, Aborted, OutOfRange, ResourceExhausted}
      then err else (Unavailable, ''CloudIdentity authorization is unavailable''))"

section \<open>Authorization\<close>

definition AuthorizationActionEnum_value :: "string list" where
  "AuthorizationActionEnum_value =
     [''UNSPECIFIED'', ''ACCEPTINVITATION'', ''ACQUIREREFERENCE'', ''ACTIVATEROUTE'',
      ''ADOPTWORKSPACE'', ''APPENDPLANCHANGEEVIDENCE'', ''APPENDRECEIPT'', ''ARCHIVENAMESPACE'',
      ''ARCHIVEPACKAGE'', ''BINDMANAGEDSECRET'', ''BINDREFERENCE'', ''BINDTENANTWALLET'',
      ''CANCELACCEPTEDOBLIGATION'', ''CANCELPLANCHANGE'', ''CHARGEACCEPTEDOBLIGATION'',
      ''CHARGEPLANCHANGESUPPLEMENT'', ''CLAIMNEXTPERIODOBLIGATION'',
      ''CLOSEOUTACCEPTEDOBLIGATION'', ''COMPLETEACCEPTEDOBLIGATION'', ''COMPLETEUPLOAD'',
      ''CREATEBUILD'', ''CREATECOMPUTEPLAN'', ''CREATEGATEWAYKEY'', ''CREATENAMESPACE'',
      ''CREATEPACKAGE'', ''CREATEPRICEPOLICYVERSION'', ''CREATEPUBLISHERNAMESPACE'',
      ''CREATEQUOTE'', ''CREATEREFUNDPOLICYVERSION'', ''CREATERETENTIONPOLICYVERSION'',
      ''CREATESTORAGEPLAN'', ''CREATETENANT'', ''CREATEUPLOAD'', ''CREATEUPLOADPART'',
      ''CREATEWORKSPACE'', ''DELETECAPABILITYVERSION'', ''DELETETENANT'', ''DELETEWORKSPACE'',
      ''EXECUTESCHEDULEDPLANCHANGE'', ''FENCEROUTEEPOCH'', ''GETADMINTENANT'', ''GETBUILD'',
      ''GETBUILDRUNTIMEPOLICY'', ''GETCAPABILITYVERSION'', ''GETDEPLOYMENT'',
      ''GETLOGINCONTEXT'', ''GETOPERATION'', ''GETPACKAGE'', ''GETPACKAGEVERSION'',
      ''GETPLANCHANGE'', ''GETQUOTE'', ''GETRECEIPT'', ''GETSESSION'', ''GETSUBSCRIPTION'',
      ''GETTENANT'', ''GETTENANTASSETCUSTODY'', ''GETTENANTLIFECYCLEOPERATION'', ''GETUPLOAD'',
      ''GETWALLET'', ''GETWORKSPACE'', ''GETWORKSPACEACCESS'', ''GETWORKSPACEDELETION'',
      ''GETWORKSPACEMODELS'', ''INVITEMEMBER'', ''ISSUEACCEPTEDOPERATIONGRANT'',
      ''LISTADMINOPERATIONS'', ''LISTAUDITEVENTS'', ''LISTBUILDLOGS'', ''LISTBUILDS'',
      ''LISTCAPABILITYVERSIONS'', ''LISTCOMPUTEPLANS'', ''LISTDEPLOYMENTS'', ''LISTGATEWAYKEYS'',
      ''LISTINVITATIONS'', ''LISTMEMBERS'', ''LISTMODELS'', ''LISTNAMESPACES'',
      ''LISTPACKAGEVERSIONS'', ''LISTPACKAGES'', ''LISTPLANCHANGES'',
      ''LISTPRICEPOLICYVERSIONS'', ''LISTPUBLISHERNAMESPACES'', ''LISTQUALIFICATIONS'',
      ''LISTRECEIPTS'', ''LISTRECHARGERECORDS'', ''LISTREFUNDPOLICYVERSIONS'',
      ''LISTRETENTIONPOLICYVERSIONS'', ''LISTRUNTIMEVERSIONS'', ''LISTSTORAGEPLANS'',
      ''LISTTENANTS'', ''LISTUSAGE'', ''LISTWEBUIVERSIONS'', ''LISTWORKSPACETRANSACTIONS'',
      ''LISTWORKSPACES'', ''LOGIN'', ''LOGOUT'', ''OBSERVERESOURCES'', ''OBSERVEROUTE'',
      ''PROVISIONACCEPTEDRESOURCES'', ''PUBLISHOFFICIALPACKAGE'', ''READAPPLICATIONCREDENTIALS'',
      ''READAPPROVEDPLANTRANSITION'', ''READARTIFACT'', ''READAUTHORIZATIONCONTEXT'',
      ''READCLAIMUSAGE'', ''READNEXTPERIODOBLIGATION'', ''READOWNERCOMMIT'',
      ''READRENEWALCONSENT'', ''READSUBSCRIPTIONPLANSTATE'', ''READWALLETACTION'',
      ''RECONCILEOPERATION'', ''REENABLETENANT'', ''REFUNDCONFIRMEDDELETION'',
      ''REFUNDPLANCHANGECOMPENSATION'', ''REFUNDSUPPLEMENTONDELETION'',
      ''REGISTERRUNTIMEVERSION'', ''REGISTERWEBUIVERSION'', ''RELEASEREFERENCE'',
      ''REMOVEMEMBER'', ''RENEWACCEPTEDRESOURCES'', ''RENEWWORKSPACE'', ''RESERVERUNTIME'',
      ''RESIZEACCEPTEDRESOURCES'', ''RESIZEWORKSPACE'', ''RESOLVEBUILDINPUT'',
      ''RESOLVEPUBLISHERCONTRACT'', ''RESTORETENANT'', ''RESUMETENANTWORKSPACES'',
      ''RETIRERUNTIME'', ''RETRYBUILD'', ''REVEALGATEWAYKEY'',
      ''REVEALWORKSPACEAPPLICATIONCREDENTIALS'', ''REVOKEGATEWAYKEY'', ''REVOKEINVITATION'',
      ''REVOKEPUBLISHERNAMESPACE'', ''ROLLBACKROUTE'', ''ROLLBACKWORKSPACE'',
      ''SETBUILDRUNTIMEPOLICY'', ''SETCOMPUTEPLANAVAILABILITY'', ''SETRUNTIMEVERSIONSTATUS'',
      ''SETSTORAGEPLANAVAILABILITY'', ''SETWEBUIVERSIONSTATUS'', ''SUSPENDTENANT'',
      ''UPDATEMEMBERROLE'', ''UPDATENAMESPACE'', ''UPDATEPACKAGE'', ''UPDATERENEWALSETTINGS'',
      ''UPDATEWORKSPACEMODELS'', ''UPDATEWORKSPACEVERSION'', ''READEXECUTIONPLAN'',
      ''RESTOREAFTERRESOURCECHANGE'', ''DEBITSCHEDULEDPERIOD'', ''READPLANCHANGEFAILURE'',
      ''DELETEACCEPTEDRESOURCES'', ''GETUSAGESUMMARY'', ''GETSELFUSEREXTERNALBINDING'',
      ''GETWORKSPACETRANSACTIONTREND'', ''GETWORKSPACEFINANCIALRECEIPT'',
      ''LISTPERSONALGATEWAYKEYS'', ''GETPERSONALGATEWAYKEY'', ''LISTPERSONALGATEWAYGROUPS'',
      ''LISTPERSONALGATEWAYKEYUSAGE'', ''GETPERSONALGATEWAYKEYUSAGESUMMARY'']"

record ResourceScope =
  rs_TenantID :: string
  rs_ActorID :: string

type_synonym identity_client = "AuthorizationRequest \<Rightarrow> status + AuthorizationDecision option"

record Authorizer =
  az_owner :: string
  az_client :: "identity_client option"

definition authorization_request ::
  "string \<Rightarrow> CallContext \<Rightarrow> string \<Rightarrow> AuthorizationResource \<Rightarrow> AuthorizationRequest" where
  "authorization_request owner call action resource =
     \<lparr>aq_Scope = ctx_Scope call, aq_ActorId = ctx_ActorId call, aq_SessionId = ctx_SessionId call,
      aq_AuthorizationContextId =
        (if ctx_AuthorizationContextId call = [] then None else Some (ctx_AuthorizationContextId call)),
      aq_AcceptedOperationGrantId = ctx_AcceptedOperationGrantId call,
      aq_AudienceOwner = to_upper owner, aq_Action = action, aq_Resource = Some resource,
      aq_RequestId = ctx_RequestId call\<rparr>"

definition Authorize ::
  "string option \<Rightarrow> time \<Rightarrow> Authorizer option \<Rightarrow> CallContext option \<Rightarrow> string \<Rightarrow>
   AuthorizationResource option \<Rightarrow> ResourceScope \<Rightarrow> status option" where
  \<comment> \<open>\<open>now\<close>: the clock reading used for the call's deadline and the decision's lifetime\<close>
  "Authorize peer now a call action resource sc =
     (case ValidateCallContext peer now call of
        Some err \<Rightarrow> Some err
      | None \<Rightarrow>
          if rs_TenantID sc \<noteq> [] \<and> call_tenant call \<noteq> rs_TenantID sc
          then Some (PermissionDenied, ''resource belongs to another tenant'')
          else if rs_TenantID sc = [] \<and> (case call of Some c \<Rightarrow> ctx_Scope c \<noteq> Some PlatformScope | None \<Rightarrow> True)
          then Some (PermissionDenied, ''resource requires platform scope'')
          else if rs_ActorID sc \<noteq> [] \<and> (case call of Some c \<Rightarrow> rs_ActorID sc \<noteq> ctx_ActorId c | None \<Rightarrow> True)
          then Some (PermissionDenied, ''resource belongs to another actor'')
          else case (a, call) of
            (Some az, Some c) \<Rightarrow>
              (case az_client az of
                 None \<Rightarrow> Some (Unavailable, ''authorization is not configured'')
               | Some client \<Rightarrow>
                   if \<not> Owner_Valid (az_owner az) then Some (Unavailable, ''authorization is not configured'')
                   else case resource of
                     None \<Rightarrow> Some (InvalidArgument, ''action and resource are required'')
                   | Some res \<Rightarrow>
                       if action = ''UNSPECIFIED'' \<or> ar_Kind res = ''UNSPECIFIED''
                       then Some (InvalidArgument, ''action and resource are required'')
                       else
                         let request = authorization_request (az_owner az) c action res in
                         case client request of
                           Inl err \<Rightarrow> Some (authorizationError err)
                         | Inr decision \<Rightarrow>
                             (case ValidateDecision (Some request) decision now of
                                Some err \<Rightarrow> Some (PermissionDenied, err)
                              | None \<Rightarrow> None))
          | _ \<Rightarrow> Some (Unavailable, ''authorization is not configured''))"

lemma ValidateDecision_None:
  "ValidateDecision (Some req) decision now = None \<longleftrightarrow>
     (\<exists>dec. decision = Some dec \<and> ad_Issuer dec = ''CLOUD_IDENTITY'' \<and> ad_Result dec = ''ALLOWED'' \<and>
        decision_matches req dec \<and> decision_live now dec)"
  by (auto simp: ValidateDecision_def split: option.splits)

lemma Authorize_call:
  assumes "Authorize peer now a call action resource sc = None"
  obtains p c where "peer = Some p" "call = Some c" "\<forall>d. ctx_DeadlineAt c = Some d \<longrightarrow> now < AsTime d"
    "ctx_Scope c = Some (if rs_TenantID sc = [] then PlatformScope else TenantScope (rs_TenantID sc))"
    "rs_ActorID sc \<noteq> [] \<longrightarrow> ctx_ActorId c = rs_ActorID sc"
proof -
  from assms have ctx: "ValidateCallContext peer now call = None"
    by (cases "ValidateCallContext peer now call") (simp_all add: Authorize_def)
  then obtain p c where pc: "peer = Some p" "call = Some c" "\<forall>d. ctx_DeadlineAt c = Some d \<longrightarrow> now < AsTime d"
    by (auto simp: ValidateCallContext_def split: option.splits if_splits)
  have "ctx_Scope c = Some (if rs_TenantID sc = [] then PlatformScope else TenantScope (rs_TenantID sc))"
    "rs_ActorID sc \<noteq> [] \<longrightarrow> ctx_ActorId c = rs_ActorID sc"
    using assms [unfolded Authorize_def ctx pc(1,2)]
    by (auto simp: call_tenant_def split: if_splits option.splits scope.splits)
  with pc show ?thesis by (rule that)
qed

section \<open>Properties\<close>


definition sample_call :: CallContext where
  "sample_call =
     \<lparr>ctx_RequestId = ''req_1'', ctx_IdempotencyKey = ''key_1'', ctx_AuthorizationContextId = [],
      ctx_ActorId = ''u_1'', ctx_SessionId = Some ''s_1'', ctx_Scope = Some (TenantScope ''t_1''),
      ctx_AcceptedOperationGrantId = None, ctx_DeadlineAt = None\<rparr>"

definition sample_identity :: identity_client where
  \<comment> \<open>an authority that allows every request between the instants 0 and 1000\<close>
  "sample_identity req = Inr (Some
     \<lparr>ad_Result = ''ALLOWED'', ad_Issuer = ''CLOUD_IDENTITY'', ad_Scope = aq_Scope req,
      ad_ActorId = aq_ActorId req, ad_SessionId = aq_SessionId req,
      ad_AudienceOwner = aq_AudienceOwner req, ad_Action = aq_Action req, ad_Resource = aq_Resource req,
      ad_PermissionVersion = 1, ad_IssuedAt = Some (timestamp 0), ad_ExpiresAt = Some (timestamp 1000),
      ad_AcceptedOperationGrantId = aq_AcceptedOperationGrantId req\<rparr>)"

definition sample_authorizer :: Authorizer where
  "sample_authorizer = \<lparr>az_owner = ''resource_catalog'', az_client = Some sample_identity\<rparr>"




end
