(* ===== verification/Owner_Idempotency.thy ===== *)
theory Owner_Idempotency
  imports Owner_Store
begin

text \<open>
  Command idempotency (\<open>services/internal/ownerstore/idempotency.go\<close>): a command's safe response
  is stored under (tenant scope, actor scope, operation name, key) together with the hash of its
  request body, in the transaction of the command. A repeated command finds it: the same hash
  replays, another hash is a conflict.
\<close>

record idempotency_input =
  ii_ID :: string
  ii_TenantScope :: string
  ii_ActorScope :: string
  ii_OperationName :: string
  ii_IdempotencyKey :: string
  ii_RequestSHA256 :: string
  ii_ResourceID :: string
  ii_OperationID :: string
  ii_ResponseStatus :: int
  ii_ResponseBody :: string

record idempotency_record =
  ir_ID :: string
  ir_ResourceID :: string
  ir_OperationID :: string
  ir_RequestSHA256 :: string
  ir_ResponseStatus :: int
  ir_ResponseBody :: string
  ir_Replayed :: bool

definition input_scope :: "idempotency_input \<Rightarrow> string \<times> string \<times> string \<times> string" where
  "input_scope i = (ii_TenantScope i, ii_ActorScope i, ii_OperationName i, ii_IdempotencyKey i)"

definition validateIdempotencyInput :: "idempotency_input \<Rightarrow> store_error option" where
  "validateIdempotencyInput i =
     (if trim_space (ii_ID i) = [] then Some (ErrInvalidIdempotencyInput ''id is required'')
      else if trim_space (ii_TenantScope i) = []
        then Some (ErrInvalidIdempotencyInput ''tenant scope is required'')
      else if trim_space (ii_ActorScope i) = []
        then Some (ErrInvalidIdempotencyInput ''actor scope is required'')
      else if trim_space (ii_OperationName i) = []
        then Some (ErrInvalidIdempotencyInput ''operation name is required'')
      else if trim_space (ii_IdempotencyKey i) = []
        then Some (ErrInvalidIdempotencyInput ''idempotency key is required'')
      else if length (ii_RequestSHA256 i) \<noteq> 64
        then Some (ErrInvalidIdempotencyInput ''request hash must be a hex sha256'')
      else if trim_space (ii_ResourceID i) = []
        then Some (ErrInvalidIdempotencyInput ''resource id is required'')
      else if ii_ResponseStatus i < 100 \<or> ii_ResponseStatus i > 599
        then Some (ErrInvalidIdempotencyInput ''response status must be an HTTP status'')
      else None)"

definition find_idempotency ::
  "owner_store \<Rightarrow> string \<times> string \<times> string \<times> string \<Rightarrow> idempotency_row option" where
  "find_idempotency s scope =
     List.find (\<lambda>r. idempotency_scope r = scope) (st_idempotency_records s)"

definition LookupIdempotency ::
  "idempotency_input \<Rightarrow> owner_store \<Rightarrow> store_error + idempotency_record option" where
  \<comment> \<open>\<open>Inr None\<close> when no row has the scope\<close>
  "LookupIdempotency i s =
     (case find_idempotency s (input_scope i) of
        None \<Rightarrow> Inr None
      | Some r \<Rightarrow>
          if id_request_sha256 r \<noteq> ii_RequestSHA256 i then Inl ErrIdempotencyConflict
          else Inr (Some \<lparr>ir_ID = id_id r, ir_ResourceID = id_resource_id r,
                 ir_OperationID = coalesce_str (id_operation_id r),
                 ir_RequestSHA256 = id_request_sha256 r, ir_ResponseStatus = id_response_status r,
                 ir_ResponseBody = id_response_body r, ir_Replayed = True\<rparr>))"

definition new_idempotency_row :: "time \<Rightarrow> idempotency_input \<Rightarrow> idempotency_row" where
  "new_idempotency_row now i =
     \<lparr>id_id = ii_ID i, id_tenant_scope = ii_TenantScope i, id_actor_scope = ii_ActorScope i,
      id_operation_name = ii_OperationName i, id_idempotency_key = ii_IdempotencyKey i,
      id_request_sha256 = ii_RequestSHA256 i, id_resource_id = ii_ResourceID i,
      id_operation_id = null_if_blank (ii_OperationID i),
      id_response_status = ii_ResponseStatus i,
      id_response_body = non_empty_or (ii_ResponseBody i) ''{}'', id_created_at = now\<rparr>"

definition RecordIdempotency ::
  "time \<Rightarrow> idempotency_input \<Rightarrow> owner_store \<Rightarrow> store_error + owner_store" where
  "RecordIdempotency now i s =
     (case validateIdempotencyInput i of
        Some e \<Rightarrow> Inl e
      | None \<Rightarrow>
          (case sql_insert idempotency_check idempotency_clash (new_idempotency_row now i)
                  (st_idempotency_records s) of
             Inl e \<Rightarrow> Inl (ErrDatabase e)
           | Inr rows \<Rightarrow> Inr (s\<lparr>st_idempotency_records := rows\<rparr>)))"

section \<open>Lemmas\<close>

lemma new_idempotency_row_scope [simp]:
  "idempotency_scope (new_idempotency_row now i) = input_scope i"
  by (simp add: idempotency_scope_def new_idempotency_row_def input_scope_def)

lemma new_idempotency_row_id [simp]: "id_id (new_idempotency_row now i) = ii_ID i"
  by (simp add: new_idempotency_row_def)

lemma RecordIdempotency_InrD:
  assumes "RecordIdempotency now i s = Inr s'"
  shows "validateIdempotencyInput i = None"
    and "s' = s\<lparr>st_idempotency_records :=
                st_idempotency_records s @ [new_idempotency_row now i]\<rparr>"
    and "idempotency_check (new_idempotency_row now i)"
    and "find_idempotency s (input_scope i) = None"
    and "ii_ID i \<notin> id_id ` set (st_idempotency_records s)"
  using assms
  by (auto simp: RecordIdempotency_def sql_insert_def list_ex_iff idempotency_clash_def
      find_idempotency_def find_None_iff split: option.splits if_splits)

lemma RecordIdempotency_store_ok [keeps]:
  assumes "store_ok s" and "RecordIdempotency now i s = Inr s'"
  shows "store_ok s'"
proof -
  note D = RecordIdempotency_InrD [OF assms(2)]
  have "input_scope i \<notin> idempotency_scope ` set (st_idempotency_records s)"
    using D(4) by (auto simp: find_idempotency_def find_None_iff)
  with assms(1) D(3,5) show ?thesis
    by (auto simp: D(2) store_ok_def idempotency_table_ok_def)
qed

lemma find_RecordIdempotency:
  assumes "RecordIdempotency now i s = Inr s'"
  shows "find_idempotency s' scope =
           (if scope = input_scope i then Some (new_idempotency_row now i)
            else find_idempotency s scope)"
  using RecordIdempotency_InrD [OF assms]
  by (auto simp: find_idempotency_def find_append split: option.split)

section \<open>Properties\<close>


definition sample_idem :: idempotency_input where
  "sample_idem =
     \<lparr>ii_ID = ''idem_1'', ii_TenantScope = ''t_1'', ii_ActorScope = ''u_1'',
      ii_OperationName = ''CreateQuote'', ii_IdempotencyKey = ''k_1'',
      ii_RequestSHA256 = replicate 64 CHR ''a'', ii_ResourceID = ''catalog'', ii_OperationID = [],
      ii_ResponseStatus = 200, ii_ResponseBody = ''{}''\<rparr>"


end
