(* ===== verification/Catalog_Types.thy ===== *)
theory Catalog_Types
  imports Owner_Authorization Owner_Idempotency Owner_Outbox Go_Decode Go_Codec
begin

text \<open>
  The data of the resource catalog (\<open>services/resource-catalog/catalog\<close>): the instance profile, the
  tables of its migrations with their constraints, the messages it answers with, its errors, and the
  small functions the handlers share. The encodings the service only calls (protojson for messages,
  \<open>encoding/json\<close> for the quote snapshot, deterministic protobuf for the digest) are parameters
  collected in \<open>catlib\<close>.
\<close>

section \<open>Errors\<close>

datatype go_error =
    EStatus grpc_code string
  | ENoRows
  | EDatabase db_error
  | EText string

definition status_code :: "go_error \<Rightarrow> grpc_code" where
  \<comment> \<open>what a gRPC client sees: an error that is no status is Unknown\<close>
  "status_code e = (case e of EStatus c _ \<Rightarrow> c | _ \<Rightarrow> Unknown)"

definition dbError :: "go_error \<Rightarrow> go_error" where
  "dbError err =
     (case err of
        ENoRows \<Rightarrow> EStatus NotFound ''resource catalog entry not found''
      | EDatabase UniqueViolation \<Rightarrow> EStatus AlreadyExists ''immutable identity already exists''
      | EDatabase ForeignKeyViolation \<Rightarrow> EStatus FailedPrecondition ''referenced version does not exist''
      | _ \<Rightarrow> EStatus Internal ''resource catalog persistence failed'')"

definition store_to_go :: "store_error \<Rightarrow> go_error" where
  \<comment> \<open>an ownerstore error wraps the database error it met\<close>
  "store_to_go e = (case e of ErrDatabase d \<Rightarrow> EDatabase d | _ \<Rightarrow> EText ''ownerstore'')"

section \<open>Profile and shared functions\<close>

record Profile =
  pf_Provider :: string
  pf_Region :: string
  pf_BillingMode :: string
  pf_ProviderCapabilityVersion :: string

definition NewService :: "bool \<Rightarrow> bool \<Rightarrow> Profile \<Rightarrow> string option" where
  \<comment> \<open>\<open>catalog.New\<close> on whether a database and an authorizer are given; \<open>None\<close> when it succeeds\<close>
  "NewService db auth profile =
     (if \<not> db \<or> \<not> auth then Some ''database and live authorization are required''
      else if trim_space (pf_Provider profile) = [] \<or> trim_space (pf_Region profile) = []
      then Some ''provider and region profile are required''
      else if pf_BillingMode profile \<noteq> ''PREPAID_MONTHLY'' \<and> pf_BillingMode profile \<noteq> ''LOCAL_NO_CHARGE''
      then Some ''billing mode must be PREPAID_MONTHLY or LOCAL_NO_CHARGE''
      else if trim_space (pf_ProviderCapabilityVersion profile) = []
      then Some ''provider capability version is required''
      else case New ''resource_catalog'' of Inl _ \<Rightarrow> Some ''not an owner schema'' | Inr _ \<Rightarrow> None)"

definition fresh_id :: "string \<Rightarrow> string \<Rightarrow> string" where
  \<comment> \<open>\<open>id(prefix)\<close> on the hexadecimal text of the sixteen random bytes it drew\<close>
  "fresh_id prefix hex = prefix @ ''_'' @ hex"

definition name_char :: "char \<Rightarrow> bool" where
  "name_char c \<longleftrightarrow> (CHR ''a'' \<le> c \<and> c \<le> CHR ''z'') \<or> (CHR ''A'' \<le> c \<and> c \<le> CHR ''Z'') \<or>
     (CHR ''0'' \<le> c \<and> c \<le> CHR ''9'')"

definition nameRE :: "string \<Rightarrow> bool" where
  "nameRE s =
     (case s of
        [] \<Rightarrow> False
      | c # cs \<Rightarrow> name_char c \<and> length cs \<le> 127 \<and> list_all (\<lambda>d. name_char d \<or> d \<in> set ''._-'') cs)"

definition limit :: "int \<Rightarrow> nat" where
  "limit n = (if n \<le> 0 then 50 else if 100 < n then 100 else nat n)"

definition enum_member :: "string list \<Rightarrow> string \<Rightarrow> string" where
  \<comment> \<open>a lookup in the generated name table: a name it does not hold is the zero member\<close>
  "enum_member members v = (if to_upper v \<in> set members then to_upper v else ''UNSPECIFIED'')"

definition availability_members :: "string list" where
  "availability_members = [''AVAILABLE'', ''UNAVAILABLE'', ''RETIRED'']"

definition billing_members :: "string list" where
  "billing_members = [''PREPAID_MONTHLY'', ''LOCAL_NO_CHARGE'']"

definition tsValid :: "Timestamp option \<Rightarrow> bool" where
  "tsValid t = (case t of None \<Rightarrow> False | Some v \<Rightarrow> CheckValid v)"

definition tsOrNil :: "Timestamp option \<Rightarrow> time option" where
  "tsOrNil t = (case t of None \<Rightarrow> None | Some v \<Rightarrow> if CheckValid v then Some (AsTime v) else None)"

definition bad_until :: "Timestamp option \<Rightarrow> Timestamp option \<Rightarrow> bool" where
  \<comment> \<open>an end that is given but malformed or not after the start (\<open>AsTime\<close> of no start is the epoch)\<close>
  "bad_until from until =
     (case until of
        None \<Rightarrow> False
      | Some u \<Rightarrow> \<not> CheckValid u \<or>
          AsTime u \<le> (case from of Some f \<Rightarrow> AsTime f | None \<Rightarrow> AsTime \<lparr>ts_Seconds = 0, ts_Nanos = 0\<rparr>))"

section \<open>Tables\<close>

record plan_row =
  pl_id :: string
  pl_name :: string
  pl_version_label :: string
  pl_provider :: string
  pl_provider_profile_ref :: string
  pl_region :: string
  pl_status :: string
  pl_billing_mode :: string
  pl_valid_from :: time
  pl_valid_until :: "time option"
  pl_published_by :: string
  pl_created_at :: time
  pl_updated_at :: time
  pl_provider_capability_version :: string
  pl_provider_specification :: string

record compute_row = plan_row +
  cp_vcpus :: int
  cp_memory_mib :: int

record storage_row = plan_row +
  sp_capacity_gib :: int
  sp_shrink_supported :: bool

record price_row =
  pp_id :: string
  pp_version_label :: string
  pp_compute_plan_id :: string
  pp_storage_plan_id :: string
  pp_compute_monthly :: int
  pp_storage_monthly :: int
  pp_product_monthly :: int
  pp_currency :: string
  pp_renewal_rules :: string
  pp_valid_from :: time
  pp_valid_until :: "time option"
  pp_published_by :: string
  pp_created_at :: time
  pp_period_months :: int
  pp_plan_change_policy_version :: string

record refund_row =
  rf_id :: string
  rf_version_label :: string
  rf_rules :: string
  rf_customer_terms :: string
  rf_valid_from :: time
  rf_valid_until :: "time option"
  rf_published_by :: string
  rf_created_at :: time
  rf_algorithm :: string
  rf_retention_policy_version_id :: string

record retention_row =
  rv_id :: string
  rv_version_label :: string
  rv_rules :: string
  rv_customer_terms :: string
  rv_valid_from :: time
  rv_valid_until :: "time option"
  rv_published_by :: string
  rv_created_at :: time
  rv_workspace_data :: string
  rv_package_history :: string
  rv_build_history :: string
  rv_tenant_restore_days :: int

record quote_row =
  qt_id :: string
  qt_tenant_id :: string
  qt_actor_id :: string
  qt_purpose :: string
  qt_workspace_id :: "string option"
  qt_capability_version_id :: "string option"
  qt_runtime_version_id :: "string option"
  qt_application_kind :: "string option"
  qt_compute_plan_id :: string
  qt_storage_plan_id :: string
  qt_price_policy_version_id :: string
  qt_refund_policy_version_id :: string
  qt_retention_policy_version_id :: string
  qt_total_usd_micros :: int
  qt_period_start :: time
  qt_period_end :: time
  qt_status :: string
  qt_input_digest :: string
  qt_admission_snapshot :: string
  qt_accepted_by :: "string option"
  qt_accepted_at :: "time option"
  qt_expires_at :: time
  qt_created_at :: time
  qt_model_selections :: string
  qt_period_months :: int
  qt_refund_terms :: string
  qt_retention_terms :: string
  qt_expected_interruption :: string
  qt_plan_change_calculation :: "string option"
  qt_source_subscription_version :: "int option"
  qt_scheduled_plan_change_id :: "string option"

record item_row =
  qi_id :: string
  qi_quote_id :: string
  qi_kind :: string
  qi_description :: string
  qi_amount :: int
  qi_calculation :: string
  qi_sort_order :: int
  qi_created_at :: time
  qi_quantity :: int
  qi_credit_source :: "string option"

record catalog_db =
  cd_store :: owner_store
  cd_compute_plans :: "compute_row list"
  cd_storage_plans :: "storage_row list"
  cd_price_policy_versions :: "price_row list"
  cd_refund_policy_versions :: "refund_row list"
  cd_retention_policy_versions :: "retention_row list"
  cd_quotes :: "quote_row list"
  cd_quote_items :: "item_row list"

section \<open>Constraints\<close>

definition window_ok :: "time \<Rightarrow> time option \<Rightarrow> bool" where
  "window_ok from until = (case until of None \<Rightarrow> True | Some u \<Rightarrow> from < u)"

definition plan_check :: "'a plan_row_scheme \<Rightarrow> bool" where
  "plan_check r \<longleftrightarrow>
     pl_status r \<in> {''approved'', ''deprecated'', ''revoked''} \<and>
     pl_billing_mode r \<in> {''PREPAID_MONTHLY'', ''LOCAL_NO_CHARGE''} \<and>
     window_ok (pl_valid_from r) (pl_valid_until r)"

definition plan_clash :: "'a plan_row_scheme \<Rightarrow> 'a plan_row_scheme \<Rightarrow> bool" where
  "plan_clash a b \<longleftrightarrow> pl_id a = pl_id b \<or>
     (pl_name a, pl_version_label a, pl_provider a, pl_region a) =
     (pl_name b, pl_version_label b, pl_provider b, pl_region b)"

definition compute_check :: "compute_row \<Rightarrow> bool" where
  "compute_check r \<longleftrightarrow> plan_check r \<and> 0 < cp_vcpus r \<and> 0 < cp_memory_mib r"

definition storage_check :: "storage_row \<Rightarrow> bool" where
  "storage_check r \<longleftrightarrow> plan_check r \<and> 0 < sp_capacity_gib r"

definition json_text :: "json option \<Rightarrow> string option" where
  \<comment> \<open>\<open>doc ->> key\<close>: the text of a scalar member\<close>
  "json_text j =
     (case j of
        Some (JStr s) \<Rightarrow> Some s
      | Some (JNum n) \<Rightarrow> Some n
      | Some (JBool b) \<Rightarrow> Some (if b then ''true'' else ''false'')
      | _ \<Rightarrow> None)"

definition renewal_rules_check :: "golib \<Rightarrow> string \<Rightarrow> int \<Rightarrow> bool" where
  "renewal_rules_check lib doc months =
     (case unmarshal_map lib doc of
        None \<Rightarrow> False
      | Some m \<Rightarrow>
          json_text (obj_get m ''version'') = Some ''renewal-policy/v1'' \<and>
          json_text (obj_get m ''trigger'') = Some ''manual_or_explicitly_consented_automatic'' \<and>
          (case json_text (obj_get m ''months'') of
             None \<Rightarrow> False | Some t \<Rightarrow> parse_int64 t = Some months) \<and>
          json_text (obj_get m ''usesAcceptedPriceSnapshot'') = Some ''true'')"

definition price_check :: "golib \<Rightarrow> price_row \<Rightarrow> bool" where
  \<comment> \<open>with the \<open>bigint\<close> type of the three amounts\<close>
  "price_check lib r \<longleftrightarrow>
     int64_range (pp_compute_monthly r) \<and> int64_range (pp_storage_monthly r) \<and>
     int64_range (pp_product_monthly r) \<and>
     pp_currency r = ''USD'' \<and>
     0 \<le> pp_compute_monthly r \<and> 0 \<le> pp_storage_monthly r \<and> 0 \<le> pp_product_monthly r \<and>
     window_ok (pp_valid_from r) (pp_valid_until r) \<and>
     renewal_rules_check lib (pp_renewal_rules r) (pp_period_months r) \<and>
     pp_plan_change_policy_version r = ''workspace-plan-change-v1'' \<and> pp_period_months r = 1"

definition price_clash :: "price_row \<Rightarrow> price_row \<Rightarrow> bool" where
  "price_clash a b \<longleftrightarrow> pp_id a = pp_id b \<or>
     (pp_version_label a, pp_compute_plan_id a, pp_storage_plan_id a) =
     (pp_version_label b, pp_compute_plan_id b, pp_storage_plan_id b) \<or>
     (pp_compute_plan_id a, pp_storage_plan_id a, pp_valid_from a) =
     (pp_compute_plan_id b, pp_storage_plan_id b, pp_valid_from b)"

definition refund_check :: "refund_row \<Rightarrow> bool" where
  "refund_check r \<longleftrightarrow> window_ok (rf_valid_from r) (rf_valid_until r) \<and>
     rf_algorithm r = ''workspace-delete-refund-v1''"

definition refund_clash :: "refund_row \<Rightarrow> refund_row \<Rightarrow> bool" where
  "refund_clash a b \<longleftrightarrow> rf_id a = rf_id b \<or> rf_version_label a = rf_version_label b"

definition retention_check :: "retention_row \<Rightarrow> bool" where
  "retention_check r \<longleftrightarrow> window_ok (rv_valid_from r) (rv_valid_until r) \<and>
     rv_workspace_data r = ''destroy_after_confirmed_deletion'' \<and> rv_package_history r = ''retain'' \<and>
     rv_build_history r = ''retain'' \<and> rv_tenant_restore_days r = 15"

definition retention_clash :: "retention_row \<Rightarrow> retention_row \<Rightarrow> bool" where
  "retention_clash a b \<longleftrightarrow> rv_id a = rv_id b \<or> rv_version_label a = rv_version_label b"

definition sha256_digest :: "string \<Rightarrow> bool" where
  \<comment> \<open>\<open>~ '^sha256:[0-9a-f]{64}$'\<close>\<close>
  "sha256_digest d = (case strip_prefix ''sha256:'' d of None \<Rightarrow> False | Some h \<Rightarrow> hex_sha256 h)"

definition quote_check :: "quote_row \<Rightarrow> bool" where
  "quote_check r \<longleftrightarrow>
     qt_purpose r \<in> {''deploy'', ''resize'', ''renew''} \<and>
     qt_status r \<in> {''offered'', ''accepted'', ''expired''} \<and>
     0 \<le> qt_total_usd_micros r \<and> qt_period_start r < qt_period_end r \<and>
     sha256_digest (qt_input_digest r) \<and>
     (qt_status r = ''accepted'' \<longleftrightarrow> qt_accepted_at r \<noteq> None \<and> qt_accepted_by r \<noteq> None) \<and>
     0 < qt_period_months r \<and>
     (qt_purpose r = ''resize'' \<longleftrightarrow> qt_plan_change_calculation r \<noteq> None) \<and>
     (qt_purpose r = ''resize'' \<longrightarrow> qt_source_subscription_version r \<noteq> None) \<and>
     ((qt_application_kind r = Some ''opl_app'' \<and> qt_runtime_version_id r \<noteq> None \<and>
         qt_capability_version_id r = None) \<or>
      (qt_application_kind r = Some ''agent'' \<and> qt_capability_version_id r \<noteq> None \<and>
         qt_runtime_version_id r = None) \<or>
      qt_application_kind r = None)"

definition quote_clash :: "quote_row \<Rightarrow> quote_row \<Rightarrow> bool" where
  \<comment> \<open>primary key, and the unique index on the accepting operation\<close>
  "quote_clash a b \<longleftrightarrow> qt_id a = qt_id b \<or> (qt_accepted_by a \<noteq> None \<and> qt_accepted_by a = qt_accepted_by b)"

definition item_check :: "item_row \<Rightarrow> bool" where
  \<comment> \<open>a credit source has to name the paid period it credits; its document is not read here\<close>
  "item_check r \<longleftrightarrow>
     0 \<le> qi_sort_order r \<and> 0 < qi_quantity r \<and>
     qi_kind r \<in> {''compute'', ''storage'', ''product'', ''adjustment_credit''} \<and> 0 \<le> qi_amount r \<and>
     (qi_kind r = ''adjustment_credit'' \<longleftrightarrow> qi_credit_source r \<noteq> None)"

definition item_clash :: "item_row \<Rightarrow> item_row \<Rightarrow> bool" where
  "item_clash a b \<longleftrightarrow> qi_id a = qi_id b \<or> (qi_quote_id a, qi_sort_order a) = (qi_quote_id b, qi_sort_order b)"

definition insert_row ::
  "('r \<Rightarrow> bool) \<Rightarrow> ('r \<Rightarrow> 'r \<Rightarrow> bool) \<Rightarrow> ('r \<Rightarrow> bool) \<Rightarrow> 'r \<Rightarrow> 'r list \<Rightarrow> go_error + 'r list" where
  \<comment> \<open>\<open>INSERT\<close> with foreign keys, checked at the end of the statement\<close>
  "insert_row chk clash fk r rows =
     (case sql_insert chk clash r rows of
        Inl e \<Rightarrow> Inl (EDatabase e)
      | Inr rows' \<Rightarrow> if fk r then Inr rows' else Inl (EDatabase ForeignKeyViolation))"

section \<open>The fixed plan-change policy\<close>

definition upgradeRules :: "(string \<times> string) list" where
  "upgradeRules =
     [(''Kind'', ''UPGRADE_IMMEDIATE''),
      (''EffectiveWhen'', ''RESOURCE_AND_RUNTIME_READBACK_CONFIRMED''),
      (''PreservePaidPeriod'', ''true''),
      (''OldPriceSource'', ''ACCEPTED_APPLIED_SUBSCRIPTION_PLAN''),
      (''ChargeClock'', ''QUOTE_PRICING_BASIS_AT_FROZEN_ON_ACCEPTANCE''),
      (''TimeUnit'', ''UTC_INTEGER_MILLISECONDS''),
      (''ChargeRounding'', ''CEIL_ONCE_USD_MICRO''),
      (''ZeroCharge'', ''RECORD_EVIDENCE_SKIP_GATEWAY''),
      (''KnownFailureCompensation'', ''FULL_UNREFUNDED_ORIGINAL_SUPPLEMENT''),
      (''UnknownOutcome'', ''READ_ORIGINAL_ACTION_NO_REFUND''),
      (''IrreversibleResidualCostOwner'', ''PLATFORM''),
      (''SupplementDeleteRefund'', ''FLOOR_UNUSED_SUPPLEMENT_COVERAGE'')]"

definition downgradeRules :: "(string \<times> string) list" where
  "downgradeRules =
     [(''Kind'', ''DOWNGRADE_NEXT_PERIOD''),
      (''PlannedBoundary'', ''ORIGINAL_PAID_THROUGH''),
      (''CurrentPeriodRefund'', ''NONE''),
      (''NextPeriodPrice'', ''ACCEPTED_TARGET_PLAN_QUOTE''),
      (''RequiresConfirmedNextPeriodPayment'', ''true''),
      (''CancelBefore'', ''NEXT_PERIOD_PAYMENT_OBLIGATION_ACCEPTED''),
      (''EarlyPaidChange'', ''DO_NOT_REDUCE_RESOURCES_BEFORE_ORIGINAL_PAID_THROUGH''),
      (''ManualUnpaidBoundary'', ''AWAITING_PAYMENT_SUSPEND_UNPAID_USAGE''),
      (''KnownFailureCompensation'', ''FULL_UNREFUNDED_TARGET_PERIOD_CHARGE''),
      (''Fallback'', ''NONE_NO_OLD_PRICE_RENEWAL_OR_SKU_SUBSTITUTION'')]"

record PlanChangePolicy =
  pc_Rules :: "(string \<times> string) list"
  pc_Upgrade :: "(string \<times> string) list"
  pc_Downgrade :: "(string \<times> string) list"

definition planChangePolicy_proto :: PlanChangePolicy where
  "planChangePolicy_proto =
     \<lparr>pc_Rules =
       [(''Version'', ''WORKSPACE_PLAN_CHANGE_V1''),
        (''ApprovalStatus'', ''APPROVED''),
        (''Classification'', ''APPROVED_COMPARABLE_RESOURCES_NOT_PRICE_OR_SKU_NAME''),
        (''MixedOrIncomparableTransition'', ''REJECT''),
        (''NoOpTransition'', ''REJECT''),
        (''StorageShrink'', ''REJECT_UNLESS_OWNER_SUPPORTED_TRANSITION''),
        (''Concurrency'', ''ONE_UNFINISHED_PLAN_CHANGE_PER_WORKSPACE''),
        (''CancelAndReplace'', ''EXPLICIT_CANCEL_THEN_NEW_QUOTE''),
        (''BaseRefundPolicy'', ''PRESERVE_ORIGINAL_BASE_ORDER_POLICY''),
        (''ProviderExecutionPlan'', ''APPROVED_STRATEGY_FROZEN_BEFORE_QUOTE'')],
      pc_Upgrade = upgradeRules, pc_Downgrade = downgradeRules\<rparr>"

section \<open>Messages\<close>

record ComputePlan =
  cm_Id :: string
  cm_Name :: string
  cm_Vcpus :: int
  cm_MemoryMiB :: int
  cm_Availability :: string
  cm_BillingMode :: string
  cm_ProviderCapabilityVersion :: string
  cm_ValidFrom :: Timestamp
  cm_ValidUntil :: "Timestamp option"
  cm_CreatedAt :: Timestamp

record CreateComputePlanRequest =
  cb_Name :: string
  cb_Vcpus :: int
  cb_MemoryMiB :: int
  cb_ProviderProfileId :: string
  cb_ProviderSkuId :: string
  cb_ProviderCapabilityVersion :: string
  cb_ValidFrom :: "Timestamp option"
  cb_ValidUntil :: "Timestamp option"

record StoragePlan =
  sm_Id :: string
  sm_Name :: string
  sm_CapacityGiB :: int
  sm_Availability :: string
  sm_BillingMode :: string
  sm_ShrinkSupported :: bool
  sm_ValidFrom :: Timestamp
  sm_ValidUntil :: "Timestamp option"
  sm_CreatedAt :: Timestamp

record CreateStoragePlanRequest =
  sb_Name :: string
  sb_CapacityGiB :: int
  sb_ProviderProfileId :: string
  sb_ProviderSkuId :: string
  sb_ShrinkSupported :: bool
  sb_ValidFrom :: "Timestamp option"
  sb_ValidUntil :: "Timestamp option"

record PlanAvailabilityRequest =
  av_Availability :: string
  av_Reason :: string

record RenewalPolicy =
  rn_Version :: string
  rn_Trigger :: string
  rn_EffectiveStart :: string
  rn_Months :: int
  rn_UsesAcceptedPriceSnapshot :: bool

record CreatePricePolicyRequest =
  pb_VersionLabel :: string
  pb_PeriodMonths :: int
  pb_ComputeMonthly :: int
  pb_StorageMonthly :: int
  pb_ProductMonthly :: int
  pb_ValidFrom :: "Timestamp option"
  pb_ValidUntil :: "Timestamp option"
  pb_ComputePlanId :: string
  pb_StoragePlanId :: string
  pb_RenewalPolicy :: "RenewalPolicy option"
  pb_PlanChangePolicyVersion :: string

record PricePolicyVersion =
  pm_Id :: string
  pm_VersionLabel :: string
  pm_Currency :: string
  pm_PeriodMonths :: int
  pm_ComputeMonthly :: int
  pm_StorageMonthly :: int
  pm_ProductMonthly :: int
  pm_ValidFrom :: Timestamp
  pm_ValidUntil :: "Timestamp option"
  pm_CreatedAt :: Timestamp
  pm_ComputePlanId :: string
  pm_StoragePlanId :: string
  pm_RenewalPolicy :: RenewalPolicy
  pm_PlanChangePolicyVersion :: string
  pm_PlanChangePolicy :: PlanChangePolicy

record CreateRefundPolicyRequest =
  fb_VersionLabel :: string
  fb_Algorithm :: string
  fb_RetentionPolicyVersionId :: string
  fb_CustomerTerms :: string
  fb_ValidFrom :: "Timestamp option"
  fb_ValidUntil :: "Timestamp option"

record RefundPolicyVersion =
  fm_Id :: string
  fm_VersionLabel :: string
  fm_Algorithm :: string
  fm_RetentionPolicyVersionId :: string
  fm_CustomerTerms :: string
  fm_ValidFrom :: Timestamp
  fm_ValidUntil :: "Timestamp option"
  fm_CreatedAt :: Timestamp

record CreateRetentionPolicyRequest =
  vb_VersionLabel :: string
  vb_CustomerTerms :: string

record RetentionPolicyVersion =
  vm_Id :: string
  vm_VersionLabel :: string
  vm_WorkspaceDataDisposition :: string
  vm_PackageHistoryDisposition :: string
  vm_BuildHistoryDisposition :: string
  vm_TenantRestoreDays :: int
  vm_CustomerTerms :: string
  vm_CreatedAt :: Timestamp

record WorkspaceApplicationSelection =
  as_Kind :: string
  as_RuntimeVersionId :: "string option"
  as_CapabilityVersionId :: "string option"

record QuoteRequest =
  qr_Purpose :: string
  qr_WorkspaceId :: "string option"
  qr_CapabilityVersionId :: "string option"
  qr_ComputePlanId :: string
  qr_StoragePlanId :: string
  qr_ModelSelections :: "(string \<times> string) list"
  qr_PeriodMonths :: int
  qr_ScheduledPlanChangeId :: "string option"
  qr_ApplicationSelection :: "WorkspaceApplicationSelection option"

record QuoteLine =
  ql_Kind :: string
  ql_Description :: string
  ql_Quantity :: int
  ql_AmountUsdMicros :: int
  ql_CreditSource :: "string option"

record Quote =
  qu_Id :: string
  qu_Purpose :: string
  qu_WorkspaceId :: "string option"
  qu_CapabilityVersionId :: "string option"
  qu_ComputePlanId :: string
  qu_StoragePlanId :: string
  qu_ModelSelections :: "(string \<times> string) list"
  qu_PeriodMonths :: int
  qu_PeriodStart :: Timestamp
  qu_PeriodEnd :: Timestamp
  qu_PricePolicyVersionId :: string
  qu_RefundPolicyVersionId :: string
  qu_RetentionPolicyVersionId :: string
  qu_RefundTerms :: string
  qu_RetentionTerms :: string
  qu_ExpectedInterruption :: string
  qu_LineItems :: "QuoteLine list"
  qu_TotalUsdMicros :: int
  qu_Status :: string
  qu_ExpiresAt :: Timestamp
  qu_CreatedAt :: Timestamp
  qu_SourceSubscriptionVersion :: "int option"
  qu_PlanChangeCalculation :: "string option"
  qu_ScheduledPlanChangeId :: "string option"
  qu_RuntimeReadbackRequirement :: string
  qu_RuntimeVersionId :: "string option"

record ResourcePlanSnapshot =
  rp_ComputePlanId :: string
  rp_StoragePlanId :: string
  rp_ProviderProfileId :: string
  rp_ProviderComputeSkuId :: string
  rp_ProviderStorageSkuId :: string
  rp_Vcpus :: int
  rp_MemoryMib :: int
  rp_CapacityGib :: int
  rp_PrepaidMonths :: int
  rp_ProviderCapabilityVersion :: string
  rp_Provider :: string
  rp_Region :: string
  rp_BillingMode :: string

record quoteSnapshot =
  qs_ComputePlanID :: string
  qs_StoragePlanID :: string
  qs_PricePolicyVersionID :: string
  qs_RefundPolicyVersionID :: string
  qs_RetentionPolicyVersionID :: string
  qs_PeriodMonths :: int
  qs_PricingBasisUnixMillis :: int
  qs_ResourcePlan :: "ResourcePlanSnapshot option"
  qs_AcceptedWorkspaceID :: string

record QuoteAcceptance =
  qa_Quote :: Quote
  qa_ObligationId :: string
  qa_AcceptanceId :: string
  qa_SnapshotDigest :: string
  qa_ResourcePlan :: "ResourcePlanSnapshot option"
  qa_WorkspaceId :: string

record AcceptQuoteRequest =
  aa_QuoteId :: string
  aa_WorkspaceId :: string
  aa_ObligationId :: string
  aa_PlanChangeId :: "string option"

section \<open>Encodings and the environment of a call\<close>

record catlib =
  cl_go :: golib
  cl_compute_request :: "CreateComputePlanRequest \<Rightarrow> string"
  cl_storage_request :: "CreateStoragePlanRequest \<Rightarrow> string"
  cl_availability_request :: "string \<Rightarrow> PlanAvailabilityRequest \<Rightarrow> string"
  cl_price_request :: "CreatePricePolicyRequest \<Rightarrow> string"
  cl_refund_request :: "CreateRefundPolicyRequest \<Rightarrow> string"
  cl_retention_request :: "CreateRetentionPolicyRequest \<Rightarrow> string"
  cl_quote_request :: "QuoteRequest \<Rightarrow> string"
  cl_compute_plan :: "ComputePlan codec"
  cl_storage_plan :: "StoragePlan codec"
  cl_price :: "PricePolicyVersion codec"
  cl_refund :: "RefundPolicyVersion codec"
  cl_retention :: "RetentionPolicyVersion codec"
  cl_quote :: "Quote codec"
  cl_renewal :: "RenewalPolicy codec"
  cl_snapshot :: "quoteSnapshot codec"
  cl_models :: "(string \<times> string) list codec"
  cl_quote_bytes :: "Quote \<Rightarrow> string option"
  cl_policy_event :: "string \<Rightarrow> Timestamp \<Rightarrow> string"
  cl_pg_time :: "time \<Rightarrow> time"

record env =
  ev_lib :: catlib
  ev_profile :: Profile
  ev_auth :: "Authorizer option"
  ev_peer :: "string option"
  ev_now :: time
  ev_tx :: time
  ev_ids :: "nat \<Rightarrow> string"

text \<open>
  \<open>cl_pg_time\<close> is what a \<open>timestamptz\<close> column keeps of an instant: PostgreSQL rounds to microseconds.
  \<open>ev_now\<close> is the reading of \<open>time.Now()\<close>, \<open>ev_tx\<close> the database's \<open>now()\<close> in the transaction, and
  \<open>ev_ids\<close> the texts \<open>id\<close> drew, in the order of the calls.
\<close>

definition digest :: "golib \<Rightarrow> string \<Rightarrow> string" where
  "digest lib b = ''sha256:'' @ lib_sha256 lib b"

end
