(* ===== verification/Catalog_Command.thy ===== *)
theory Catalog_Command
  imports Catalog_Types
begin

text \<open>
  The catalog's command frame (\<open>service.go\<close>): authorization of a call and the idempotent
  transaction every mutation runs in, and the arithmetic of the fixed plan-change policy
  (\<open>policy.go\<close>).
\<close>

section \<open>Authorization\<close>

definition catalog_auth :: "env \<Rightarrow> CallContext option \<Rightarrow> string \<Rightarrow> bool \<Rightarrow> go_error option" where
  \<comment> \<open>\<open>Service.auth\<close>\<close>
  "catalog_auth e call action admin =
     (if (case call of
            None \<Rightarrow> True
          | Some c \<Rightarrow> ctx_ActorId c = [] \<or> ctx_RequestId c = [] \<or> ctx_Scope c = None)
      then Some (EStatus Unauthenticated ''authenticated request context is required'')
      else case ValidateCallContext (ev_peer e) (ev_now e) call of
        Some (code, msg) \<Rightarrow> Some (EStatus code msg)
      | None \<Rightarrow>
          if to_upper action \<notin> set AuthorizationActionEnum_value
          then Some (EStatus Internal ''unknown authorization action'')
          else if \<not> admin \<and> call_tenant call = []
          then Some (EStatus InvalidArgument ''tenant scope is required'')
          else map_option (\<lambda>(code, msg). EStatus code msg)
            (Authorize (ev_peer e) (ev_now e) (ev_auth e) call (to_upper action)
               (Some \<lparr>ar_Kind = ''CATALOG'', ar_Id = None\<rparr>)
               \<lparr>rs_TenantID = (if admin then [] else call_tenant call), rs_ActorID = []\<rparr>))"

definition authorized ::
  "env \<Rightarrow> CallContext option \<Rightarrow> string \<Rightarrow> bool \<Rightarrow> (CallContext \<Rightarrow> catalog_db \<Rightarrow> (go_error + 'r) \<times> catalog_db) \<Rightarrow>
   catalog_db \<Rightarrow> (go_error + 'r) \<times> catalog_db" where
  \<comment> \<open>a handler's first statement: refuse, or go on with the context, which is then present\<close>
  "authorized e call action admin handler db =
     (case catalog_auth e call action admin of
        Some err \<Rightarrow> (Inl err, db)
      | None \<Rightarrow>
          (case call of
             None \<Rightarrow> (Inl (EStatus Unauthenticated ''authenticated request context is required''), db)
           | Some c \<Rightarrow> handler c db))"

section \<open>Commands\<close>

text \<open>
  The handler's work runs between the lookup and the record of the idempotency key, in one
  transaction: on any error the database is as before. \<open>request\<close> is the encoded request the key is
  bound to.
\<close>

definition command_scope :: "CallContext \<Rightarrow> string" where
  "command_scope c = (if call_tenant (Some c) = [] then ''platform'' else call_tenant (Some c))"

definition command_input :: "env \<Rightarrow> CallContext \<Rightarrow> string \<Rightarrow> string \<Rightarrow> idempotency_input" where
  "command_input e c name request =
     \<lparr>ii_ID = fresh_id ''idem'' (ev_ids e 0), ii_TenantScope = command_scope c,
      ii_ActorScope = ctx_ActorId c, ii_OperationName = name,
      ii_IdempotencyKey = ctx_IdempotencyKey c,
      ii_RequestSHA256 = lib_sha256 (cl_go (ev_lib e)) request,
      ii_ResourceID = [], ii_OperationID = [], ii_ResponseStatus = 0, ii_ResponseBody = []\<rparr>"

definition command ::
  "env \<Rightarrow> CallContext \<Rightarrow> string \<Rightarrow> string \<Rightarrow> 'r codec \<Rightarrow> (catalog_db \<Rightarrow> go_error + ('r \<times> catalog_db)) \<Rightarrow>
   catalog_db \<Rightarrow> (go_error + 'r) \<times> catalog_db" where
  "command e c name request response work db =
     (if ctx_IdempotencyKey c = [] then (Inl (EStatus InvalidArgument ''idempotency key is required''), db)
      else
        let input = command_input e c name request in
        case LookupIdempotency input (cd_store db) of
          Inl ErrIdempotencyConflict \<Rightarrow>
            (Inl (EStatus AlreadyExists ''idempotency key has different input''), db)
        | Inl err \<Rightarrow> (Inl (dbError (store_to_go err)), db)
        | Inr (Some previous) \<Rightarrow>
            (case dec response (ir_ResponseBody previous) of
               None \<Rightarrow> (Inl (EText ''unmarshal''), db)
             | Some r \<Rightarrow> (Inr r, db))
        | Inr None \<Rightarrow>
            (case work db of
               Inl err \<Rightarrow> (Inl err, db)
             | Inr (r, db') \<Rightarrow>
                 (case RecordIdempotency (ev_tx e)
                         (input\<lparr>ii_ResourceID := ''catalog'', ii_ResponseStatus := 200,
                                ii_ResponseBody := enc response r\<rparr>) (cd_store db') of
                    Inl err \<Rightarrow> (Inl (dbError (store_to_go err)), db)
                  | Inr st \<Rightarrow> (Inr r, db'\<lparr>cd_store := st\<rparr>))))"

section \<open>Plan-change arithmetic\<close>

definition upgradeChargeMicros :: "int \<Rightarrow> int \<Rightarrow> int \<Rightarrow> int \<Rightarrow> int \<times> bool" where
  "upgradeChargeMicros oldMonthly newMonthly periodMillis remainingMillis =
     (if periodMillis \<le> 0 \<or> remainingMillis \<le> 0 \<or> periodMillis < remainingMillis then (0, False)
      else
        let delta = wrap64 (newMonthly - oldMonthly) in
        if delta \<le> 0 then (0, True)
        else
          let numerator = delta * remainingMillis;
              quotient = quot numerator periodMillis;
              remainder = numerator - quotient * periodMillis;
              quotient = (if remainder \<noteq> 0 then quotient + 1 else quotient) in
          if \<not> int64_range quotient then (0, False) else (quotient, True))"

definition supplementDeleteRefundMicros :: "int \<Rightarrow> int \<Rightarrow> int \<Rightarrow> int \<times> bool" where
  "supplementDeleteRefundMicros confirmed coverageMillis elapsedMillis =
     (if coverageMillis \<le> 0 \<or> elapsedMillis < 0 \<or> coverageMillis < elapsedMillis \<or> confirmed < 0
      then (0, False)
      else
        let remaining = wrap64 (coverageMillis - elapsedMillis);
            refund = quot (confirmed * remaining) coverageMillis in
        if \<not> int64_range refund then (0, False) else (refund, True))"

section \<open>Lemmas\<close>

lemma command_input_scope [simp]:
  "input_scope (command_input e c name request) =
     (command_scope c, ctx_ActorId c, name, ctx_IdempotencyKey c)"
  by (simp add: command_input_def input_scope_def)

lemma command_input_sha [simp]:
  "ii_RequestSHA256 (command_input e c name request) = lib_sha256 (cl_go (ev_lib e)) request"
  by (simp add: command_input_def)

lemma authorized_cases:
  assumes "authorized e call action admin handler db = (res, db')"
  obtains (refused) err where "res = Inl err" "db' = db"
  | (allowed) c where "call = Some c" "catalog_auth e call action admin = None" "handler c db = (res, db')"
  using assms by (auto simp: authorized_def split: option.splits)

text \<open>What a command can do: fail without a trace, replay, or run and record.\<close>

lemma command_cases:
  assumes "command e c name request response work db = (res, db')"
  obtains (failed) err where "res = Inl err" "db' = db"
  | (replay) row r where "db' = db" "res = Inr r"
      "find_idempotency (cd_store db) (command_scope c, ctx_ActorId c, name, ctx_IdempotencyKey c) = Some row"
      "id_request_sha256 row = lib_sha256 (cl_go (ev_lib e)) request"
      "dec response (id_response_body row) = Some r"
  | (ran) r db1 st where "res = Inr r" "work db = Inr (r, db1)" "db' = db1\<lparr>cd_store := st\<rparr>"
      "find_idempotency (cd_store db) (command_scope c, ctx_ActorId c, name, ctx_IdempotencyKey c) = None"
      "RecordIdempotency (ev_tx e) ((command_input e c name request)
         \<lparr>ii_ResourceID := ''catalog'', ii_ResponseStatus := 200, ii_ResponseBody := enc response r\<rparr>)
         (cd_store db1) = Inr st"
proof (cases "ctx_IdempotencyKey c = []")
  case True
  with assms show ?thesis by (intro failed) (auto simp: command_def)
next
  case False
  let ?i = "command_input e c name request"
  note run = assms [unfolded command_def if_not_P [OF False] Let_def]
  show ?thesis
  proof (cases "find_idempotency (cd_store db) (input_scope ?i)")
    case None
    then have look: "LookupIdempotency ?i (cd_store db) = Inr None" by (simp add: LookupIdempotency_def)
    show ?thesis
    proof (cases "work db")
      case (Inl err)
      with run look show ?thesis by (intro failed) auto
    next
      case (Inr p)
      then obtain r db1 where w: "work db = Inr (r, db1)" by (cases p) auto
      show ?thesis
      proof (cases "RecordIdempotency (ev_tx e) (?i\<lparr>ii_ResourceID := ''catalog'', ii_ResponseStatus := 200,
          ii_ResponseBody := enc response r\<rparr>) (cd_store db1)")
        case (Inl err)
        with run look w show ?thesis by (intro failed) auto
      next
        case (Inr st)
        with run look w None show ?thesis by (intro ran) auto
      qed
    qed
  next
    case (Some row)
    then show ?thesis
      using run
      by (cases "id_request_sha256 row = ii_RequestSHA256 ?i"; cases "dec response (id_response_body row)")
         (auto simp: LookupIdempotency_def intro: failed replay)
  qed
qed

end
