(* ===== verification/Catalog_Plans.thy ===== *)
theory Catalog_Plans
  imports Catalog_Command
begin

text \<open>
  Compute and storage plans (\<open>plans.go\<close>): publication by the administrator, retirement and
  re-approval, the one projection of a stored plan onto its customer-facing availability, and the
  listings paged by identifier.
\<close>

section \<open>Availability\<close>

definition availability :: "string \<Rightarrow> time \<Rightarrow> time \<Rightarrow> time \<Rightarrow> go_error + string" where
  "availability stored validFrom validUntil now =
     (if stored = ''revoked'' \<or> stored = ''deprecated'' then Inr ''retired''
      else if stored = ''approved''
      then if now < validFrom \<or> (validUntil \<noteq> 0 \<and> validUntil \<le> now) then Inr ''unavailable''
           else Inr ''available''
      else Inl (EStatus DataLoss ''unknown stored plan status''))"

definition nullOrZero :: "time option \<Rightarrow> time" where
  "nullOrZero v = (case v of Some t \<Rightarrow> t | None \<Rightarrow> 0)"

definition plan_availability :: "'a plan_row_scheme \<Rightarrow> time \<Rightarrow> go_error + string" where
  "plan_availability r now = availability (pl_status r) (pl_valid_from r) (nullOrZero (pl_valid_until r)) now"

definition availabilityEnum :: "string \<Rightarrow> string" where
  \<comment> \<open>\<open>computeAvailabilityEnum\<close>, \<open>storageAvailabilityEnum\<close>\<close>
  "availabilityEnum v = enum_member availability_members v"

definition billingEnum :: "string \<Rightarrow> string" where
  \<comment> \<open>\<open>computeBillingEnum\<close>, \<open>storageBillingEnum\<close>\<close>
  "billingEnum v = enum_member billing_members v"

definition scanComputePlan :: "compute_row \<Rightarrow> time \<Rightarrow> go_error + ComputePlan" where
  "scanComputePlan r now =
     (case plan_availability r now of
        Inl err \<Rightarrow> Inl err
      | Inr raw \<Rightarrow> Inr
          \<lparr>cm_Id = pl_id r, cm_Name = pl_name r, cm_Vcpus = cp_vcpus r, cm_MemoryMiB = cp_memory_mib r,
           cm_Availability = availabilityEnum raw, cm_BillingMode = billingEnum (pl_billing_mode r),
           cm_ProviderCapabilityVersion = pl_provider_capability_version r,
           cm_ValidFrom = timestamp (pl_valid_from r),
           cm_ValidUntil = map_option timestamp (pl_valid_until r),
           cm_CreatedAt = timestamp (pl_created_at r)\<rparr>)"

definition scanStoragePlan :: "storage_row \<Rightarrow> time \<Rightarrow> go_error + StoragePlan" where
  "scanStoragePlan r now =
     (case plan_availability r now of
        Inl err \<Rightarrow> Inl err
      | Inr raw \<Rightarrow> Inr
          \<lparr>sm_Id = pl_id r, sm_Name = pl_name r, sm_CapacityGiB = sp_capacity_gib r,
           sm_Availability = availabilityEnum raw, sm_BillingMode = billingEnum (pl_billing_mode r),
           sm_ShrinkSupported = sp_shrink_supported r,
           sm_ValidFrom = timestamp (pl_valid_from r),
           sm_ValidUntil = map_option timestamp (pl_valid_until r),
           sm_CreatedAt = timestamp (pl_created_at r)\<rparr>)"

section \<open>Listings\<close>

fun scan_rows :: "('r \<Rightarrow> go_error + 'm) \<Rightarrow> 'r list \<Rightarrow> go_error + 'm list" where
  "scan_rows scan [] = Inr []"
| "scan_rows scan (r # rs) =
     (case scan r of
        Inl err \<Rightarrow> Inl (dbError err)
      | Inr m \<Rightarrow> (case scan_rows scan rs of Inl err \<Rightarrow> Inl err | Inr ms \<Rightarrow> Inr (m # ms)))"

definition list_page ::
  "('r \<Rightarrow> string) \<Rightarrow> ('r \<Rightarrow> go_error + 'm) \<Rightarrow> ('m \<Rightarrow> string) \<Rightarrow> int \<Rightarrow> string \<Rightarrow> 'r list \<Rightarrow>
   go_error + ('m list \<times> string option)" where
  \<comment> \<open>\<open>WHERE id > cursor ORDER BY id LIMIT n+1\<close>, then the first \<open>n\<close> rows and the cursor of the last\<close>
  "list_page row_id scan msg_id lim cur rows =
     (let n = limit lim in
      case scan_rows scan (take (n + 1) (sort_key row_id (filter (\<lambda>r. cur < row_id r) rows))) of
        Inl err \<Rightarrow> Inl err
      | Inr items \<Rightarrow>
          if n < length items then Inr (take n items, Some (msg_id (items ! (n - 1))))
          else Inr (items, None))"

definition ListComputePlans ::
  "env \<Rightarrow> CallContext option \<Rightarrow> int \<Rightarrow> string \<Rightarrow> catalog_db \<Rightarrow> go_error + (ComputePlan list \<times> string option)" where
  "ListComputePlans e call lim cur db =
     (case catalog_auth e call ''ListComputePlans'' False of
        Some err \<Rightarrow> Inl err
      | None \<Rightarrow> list_page pl_id (\<lambda>r. scanComputePlan r (ev_now e)) cm_Id lim cur (cd_compute_plans db))"

definition ListStoragePlans ::
  "env \<Rightarrow> CallContext option \<Rightarrow> int \<Rightarrow> string \<Rightarrow> catalog_db \<Rightarrow> go_error + (StoragePlan list \<times> string option)" where
  "ListStoragePlans e call lim cur db =
     (case catalog_auth e call ''ListStoragePlans'' False of
        Some err \<Rightarrow> Inl err
      | None \<Rightarrow> list_page pl_id (\<lambda>r. scanStoragePlan r (ev_now e)) sm_Id lim cur (cd_storage_plans db))"

section \<open>Publication\<close>

definition marshalProviderSpec :: "golib \<Rightarrow> string \<Rightarrow> string \<Rightarrow> string" where
  "marshalProviderSpec lib profileID skuID =
     lib_marshal lib (JObj [(''providerProfileId'', JStr profileID), (''providerSkuId'', JStr skuID)])"

definition create_compute_work ::
  "env \<Rightarrow> CallContext \<Rightarrow> CreateComputePlanRequest \<Rightarrow> catalog_db \<Rightarrow> go_error + (ComputePlan \<times> catalog_db)" where
  "create_compute_work e c b db =
     (let from = (case cb_ValidFrom b of Some f \<Rightarrow> AsTime f | None \<Rightarrow> 0);
          pid = fresh_id ''compute'' (ev_ids e 1);
          out = \<lparr>cm_Id = pid, cm_Name = cb_Name b, cm_Vcpus = cb_Vcpus b, cm_MemoryMiB = cb_MemoryMiB b,
                 cm_Availability = availabilityEnum ''available'',
                 cm_BillingMode = billingEnum (pf_BillingMode (ev_profile e)),
                 cm_ProviderCapabilityVersion = pf_ProviderCapabilityVersion (ev_profile e),
                 cm_ValidFrom = timestamp from,
                 cm_ValidUntil = map_option (\<lambda>u. timestamp (AsTime u)) (cb_ValidUntil b),
                 cm_CreatedAt = timestamp (ev_now e)\<rparr>;
          row = \<lparr>pl_id = pid, pl_name = cb_Name b, pl_version_label = pid,
                 pl_provider = pf_Provider (ev_profile e), pl_provider_profile_ref = cb_ProviderProfileId b,
                 pl_region = pf_Region (ev_profile e), pl_status = ''approved'',
                 pl_billing_mode = pf_BillingMode (ev_profile e), pl_valid_from = cl_pg_time (ev_lib e) from,
                 pl_valid_until = map_option (cl_pg_time (ev_lib e)) (tsOrNil (cb_ValidUntil b)), pl_published_by = ctx_ActorId c,
                 pl_created_at = ev_tx e, pl_updated_at = ev_tx e,
                 pl_provider_capability_version = pf_ProviderCapabilityVersion (ev_profile e),
                 pl_provider_specification = marshalProviderSpec (cl_go (ev_lib e))
                   (cb_ProviderProfileId b) (cb_ProviderSkuId b),
                 cp_vcpus = cb_Vcpus b, cp_memory_mib = cb_MemoryMiB b\<rparr> in
      case insert_row compute_check plan_clash (\<lambda>_. True) row (cd_compute_plans db) of
        Inl err \<Rightarrow> Inl (dbError err)
      | Inr rows \<Rightarrow> Inr (out, db\<lparr>cd_compute_plans := rows\<rparr>))"

definition CreateComputePlan ::
  "env \<Rightarrow> CallContext option \<Rightarrow> CreateComputePlanRequest \<Rightarrow> catalog_db \<Rightarrow> (go_error + ComputePlan) \<times> catalog_db" where
  "CreateComputePlan e call b =
     authorized e call ''CreateComputePlan'' True (\<lambda>c db.
          if \<not> nameRE (cb_Name b) \<or> cb_Vcpus b \<le> 0 \<or> cb_MemoryMiB b \<le> 0 \<or> cb_ProviderProfileId b = [] \<or>
             cb_ProviderSkuId b = [] \<or> \<not> tsValid (cb_ValidFrom b)
          then (Inl (EStatus InvalidArgument ''compute plan fields''), db)
          else if bad_until (cb_ValidFrom b) (cb_ValidUntil b)
          then (Inl (EStatus InvalidArgument ''validUntil must be after validFrom''), db)
          else if cb_ProviderCapabilityVersion b \<noteq> pf_ProviderCapabilityVersion (ev_profile e)
          then (Inl (EStatus FailedPrecondition ''provider capability version''), db)
          else command e c ''CreateComputePlan'' (cl_compute_request (ev_lib e) b) (cl_compute_plan (ev_lib e))
                 (create_compute_work e c b) db)"

definition create_storage_work ::
  "env \<Rightarrow> CallContext \<Rightarrow> CreateStoragePlanRequest \<Rightarrow> catalog_db \<Rightarrow> go_error + (StoragePlan \<times> catalog_db)" where
  "create_storage_work e c b db =
     (let from = (case sb_ValidFrom b of Some f \<Rightarrow> AsTime f | None \<Rightarrow> 0);
          pid = fresh_id ''storage'' (ev_ids e 1);
          out = \<lparr>sm_Id = pid, sm_Name = sb_Name b, sm_CapacityGiB = sb_CapacityGiB b,
                 sm_Availability = availabilityEnum ''available'',
                 sm_BillingMode = billingEnum (pf_BillingMode (ev_profile e)),
                 sm_ShrinkSupported = sb_ShrinkSupported b, sm_ValidFrom = timestamp from,
                 sm_ValidUntil = map_option (\<lambda>u. timestamp (AsTime u)) (sb_ValidUntil b),
                 sm_CreatedAt = timestamp (ev_now e)\<rparr>;
          row = \<lparr>pl_id = pid, pl_name = sb_Name b, pl_version_label = pid,
                 pl_provider = pf_Provider (ev_profile e), pl_provider_profile_ref = sb_ProviderProfileId b,
                 pl_region = pf_Region (ev_profile e), pl_status = ''approved'',
                 pl_billing_mode = pf_BillingMode (ev_profile e), pl_valid_from = cl_pg_time (ev_lib e) from,
                 pl_valid_until = map_option (cl_pg_time (ev_lib e)) (tsOrNil (sb_ValidUntil b)), pl_published_by = ctx_ActorId c,
                 pl_created_at = ev_tx e, pl_updated_at = ev_tx e,
                 pl_provider_capability_version = pf_ProviderCapabilityVersion (ev_profile e),
                 pl_provider_specification = marshalProviderSpec (cl_go (ev_lib e))
                   (sb_ProviderProfileId b) (sb_ProviderSkuId b),
                 sp_capacity_gib = sb_CapacityGiB b, sp_shrink_supported = sb_ShrinkSupported b\<rparr> in
      if pf_ProviderCapabilityVersion (ev_profile e) = []
      then Inl (EStatus FailedPrecondition ''no approved provider capability version'')
      else case insert_row storage_check plan_clash (\<lambda>_. True) row (cd_storage_plans db) of
        Inl err \<Rightarrow> Inl (dbError err)
      | Inr rows \<Rightarrow> Inr (out, db\<lparr>cd_storage_plans := rows\<rparr>))"

definition CreateStoragePlan ::
  "env \<Rightarrow> CallContext option \<Rightarrow> CreateStoragePlanRequest \<Rightarrow> catalog_db \<Rightarrow> (go_error + StoragePlan) \<times> catalog_db" where
  "CreateStoragePlan e call b =
     authorized e call ''CreateStoragePlan'' True (\<lambda>c db.
          if \<not> nameRE (sb_Name b) \<or> sb_CapacityGiB b \<le> 0 \<or> sb_ProviderProfileId b = [] \<or>
             sb_ProviderSkuId b = [] \<or> \<not> tsValid (sb_ValidFrom b)
          then (Inl (EStatus InvalidArgument ''storage plan fields''), db)
          else if bad_until (sb_ValidFrom b) (sb_ValidUntil b)
          then (Inl (EStatus InvalidArgument ''validUntil must be after validFrom''), db)
          else command e c ''CreateStoragePlan'' (cl_storage_request (ev_lib e) b) (cl_storage_plan (ev_lib e))
                 (create_storage_work e c b) db)"

section \<open>Retirement\<close>

definition requestedStatus :: "PlanAvailabilityRequest \<Rightarrow> go_error + string" where
  "requestedStatus body =
     (if av_Availability body = ''UNSPECIFIED'' \<or> av_Reason body = [] \<or> 1024 < length (av_Reason body)
      then Inl (EStatus InvalidArgument ''availability and a non-empty reason are required'')
      else if av_Availability body = ''AVAILABLE'' then Inr ''approved''
      else if av_Availability body = ''RETIRED'' then Inr ''revoked''
      else if av_Availability body = ''UNAVAILABLE''
      then Inl (EStatus FailedPrecondition ''no distinct temporarily-unavailable plan state'')
      else Inl (EStatus InvalidArgument ''unknown availability''))"

definition set_status :: "env \<Rightarrow> string \<Rightarrow> string \<Rightarrow> 'a plan_row_scheme list \<Rightarrow> 'a plan_row_scheme list" where
  \<comment> \<open>\<open>UPDATE ... SET status, updated_at WHERE id\<close>\<close>
  "set_status e stored pid rows =
     update_rows (\<lambda>r. pl_id r = pid) (\<lambda>r. r\<lparr>pl_status := stored, pl_updated_at := ev_tx e\<rparr>) rows"

definition set_compute_work ::
  "env \<Rightarrow> string \<Rightarrow> string \<Rightarrow> catalog_db \<Rightarrow> go_error + (ComputePlan \<times> catalog_db)" where
  "set_compute_work e stored pid db =
     (let rows = set_status e stored pid (cd_compute_plans db) in
      case List.find (\<lambda>r. pl_id r = pid) rows of
        None \<Rightarrow> Inl ENoRows
      | Some r \<Rightarrow>
          (case scanComputePlan r (ev_now e) of
             Inl err \<Rightarrow> Inl err
           | Inr plan \<Rightarrow> Inr (plan, db\<lparr>cd_compute_plans := rows\<rparr>)))"

definition SetComputePlanAvailability ::
  "env \<Rightarrow> CallContext option \<Rightarrow> string \<Rightarrow> PlanAvailabilityRequest \<Rightarrow> catalog_db \<Rightarrow>
   (go_error + ComputePlan) \<times> catalog_db" where
  "SetComputePlanAvailability e call pid body =
     authorized e call ''SetComputePlanAvailability'' True (\<lambda>c db.
          (case requestedStatus body of
             Inl err \<Rightarrow> (Inl err, db)
           | Inr stored \<Rightarrow>
               if pid = [] then (Inl (EStatus InvalidArgument ''plan id is required''), db)
               else command e c ''SetComputePlanAvailability'' (cl_availability_request (ev_lib e) pid body)
                      (cl_compute_plan (ev_lib e)) (set_compute_work e stored pid) db))"

definition set_storage_work ::
  "env \<Rightarrow> string \<Rightarrow> string \<Rightarrow> catalog_db \<Rightarrow> go_error + (StoragePlan \<times> catalog_db)" where
  "set_storage_work e stored pid db =
     (let rows = set_status e stored pid (cd_storage_plans db) in
      case List.find (\<lambda>r. pl_id r = pid) rows of
        None \<Rightarrow> Inl ENoRows
      | Some r \<Rightarrow>
          (case scanStoragePlan r (ev_now e) of
             Inl err \<Rightarrow> Inl err
           | Inr plan \<Rightarrow> Inr (plan, db\<lparr>cd_storage_plans := rows\<rparr>)))"

definition SetStoragePlanAvailability ::
  "env \<Rightarrow> CallContext option \<Rightarrow> string \<Rightarrow> PlanAvailabilityRequest \<Rightarrow> catalog_db \<Rightarrow>
   (go_error + StoragePlan) \<times> catalog_db" where
  "SetStoragePlanAvailability e call pid body =
     authorized e call ''SetStoragePlanAvailability'' True (\<lambda>c db.
          (case requestedStatus body of
             Inl err \<Rightarrow> (Inl err, db)
           | Inr stored \<Rightarrow>
               if pid = [] then (Inl (EStatus InvalidArgument ''plan id is required''), db)
               else command e c ''SetStoragePlanAvailability'' (cl_availability_request (ev_lib e) pid body)
                      (cl_storage_plan (ev_lib e)) (set_storage_work e stored pid) db))"

end
