(* ===== verification/Catalog_Policies.thy ===== *)
theory Catalog_Policies
  imports Catalog_Plans
begin

text \<open>
  Versioned price, refund and retention policies (\<open>policies.go\<close>) and the event that announces a new
  price version (\<open>events.go\<close>). A version is only ever inserted; the price of a plan pair exists only
  once an administrator has published it.
\<close>

section \<open>Reading stored versions\<close>

definition hyphens_to_underscores :: "string \<Rightarrow> string" where
  "hyphens_to_underscores s = map (\<lambda>c. if c = CHR ''-'' then CHR ''_'' else c) s"

definition planChangePolicyVersionEnum :: "string \<Rightarrow> string" where
  "planChangePolicyVersionEnum stored =
     enum_member [''WORKSPACE_PLAN_CHANGE_V1''] (hyphens_to_underscores stored)"

definition scanPricePolicy :: "catlib \<Rightarrow> price_row \<Rightarrow> go_error + PricePolicyVersion" where
  "scanPricePolicy lib r =
     (case dec (cl_renewal lib) (pp_renewal_rules r) of
        None \<Rightarrow> Inl (EStatus DataLoss ''stored renewal policy is not readable'')
      | Some renewal \<Rightarrow> Inr
          \<lparr>pm_Id = pp_id r, pm_VersionLabel = pp_version_label r,
           pm_Currency = enum_member [''USD''] (pp_currency r), pm_PeriodMonths = pp_period_months r,
           pm_ComputeMonthly = pp_compute_monthly r, pm_StorageMonthly = pp_storage_monthly r,
           pm_ProductMonthly = pp_product_monthly r, pm_ValidFrom = timestamp (pp_valid_from r),
           pm_ValidUntil = map_option timestamp (pp_valid_until r),
           pm_CreatedAt = timestamp (pp_created_at r), pm_ComputePlanId = pp_compute_plan_id r,
           pm_StoragePlanId = pp_storage_plan_id r, pm_RenewalPolicy = renewal,
           pm_PlanChangePolicyVersion = planChangePolicyVersionEnum (pp_plan_change_policy_version r),
           pm_PlanChangePolicy = planChangePolicy_proto\<rparr>)"

definition scanRefundPolicy :: "refund_row \<Rightarrow> RefundPolicyVersion" where
  "scanRefundPolicy r =
     \<lparr>fm_Id = rf_id r, fm_VersionLabel = rf_version_label r,
      fm_Algorithm = enum_member [''WORKSPACE_DELETE_REFUND_V1''] (hyphens_to_underscores (rf_algorithm r)),
      fm_RetentionPolicyVersionId = rf_retention_policy_version_id r,
      fm_CustomerTerms = rf_customer_terms r, fm_ValidFrom = timestamp (rf_valid_from r),
      fm_ValidUntil = map_option timestamp (rf_valid_until r),
      fm_CreatedAt = timestamp (rf_created_at r)\<rparr>"

definition scanRetentionPolicy :: "retention_row \<Rightarrow> RetentionPolicyVersion" where
  "scanRetentionPolicy r =
     \<lparr>vm_Id = rv_id r, vm_VersionLabel = rv_version_label r,
      vm_WorkspaceDataDisposition = enum_member [''DESTROY_AFTER_CONFIRMED_DELETION''] (rv_workspace_data r),
      vm_PackageHistoryDisposition = enum_member [''RETAIN''] (rv_package_history r),
      vm_BuildHistoryDisposition = enum_member [''RETAIN''] (rv_build_history r),
      vm_TenantRestoreDays = rv_tenant_restore_days r, vm_CustomerTerms = rv_customer_terms r,
      vm_CreatedAt = timestamp (rv_created_at r)\<rparr>"

definition ListPricePolicyVersions ::
  "env \<Rightarrow> CallContext option \<Rightarrow> int \<Rightarrow> string \<Rightarrow> catalog_db \<Rightarrow>
   go_error + (PricePolicyVersion list \<times> string option)" where
  "ListPricePolicyVersions e call lim cur db =
     (case catalog_auth e call ''ListPricePolicyVersions'' True of
        Some err \<Rightarrow> Inl err
      | None \<Rightarrow> list_page pp_id (scanPricePolicy (ev_lib e)) pm_Id lim cur (cd_price_policy_versions db))"

definition ListRefundPolicyVersions ::
  "env \<Rightarrow> CallContext option \<Rightarrow> int \<Rightarrow> string \<Rightarrow> catalog_db \<Rightarrow>
   go_error + (RefundPolicyVersion list \<times> string option)" where
  "ListRefundPolicyVersions e call lim cur db =
     (case catalog_auth e call ''ListRefundPolicyVersions'' True of
        Some err \<Rightarrow> Inl err
      | None \<Rightarrow> list_page rf_id (\<lambda>r. Inr (scanRefundPolicy r)) fm_Id lim cur (cd_refund_policy_versions db))"

definition ListRetentionPolicyVersions ::
  "env \<Rightarrow> CallContext option \<Rightarrow> int \<Rightarrow> string \<Rightarrow> catalog_db \<Rightarrow>
   go_error + (RetentionPolicyVersion list \<times> string option)" where
  "ListRetentionPolicyVersions e call lim cur db =
     (case catalog_auth e call ''ListRetentionPolicyVersions'' True of
        Some err \<Rightarrow> Inl err
      | None \<Rightarrow> list_page rv_id (\<lambda>r. Inr (scanRetentionPolicy r)) vm_Id lim cur
                 (cd_retention_policy_versions db))"

section \<open>Price versions\<close>

definition renewalPolicy :: RenewalPolicy where
  "renewalPolicy =
     \<lparr>rn_Version = ''RENEWAL_POLICY_V1'', rn_Trigger = ''MANUAL_OR_EXPLICITLY_CONSENTED_AUTOMATIC'',
      rn_EffectiveStart = ''PREVIOUS_PAID_THROUGH'', rn_Months = 1,
      rn_UsesAcceptedPriceSnapshot = True\<rparr>"

definition validRenewalPolicy :: "RenewalPolicy option \<Rightarrow> int \<Rightarrow> bool" where
  "validRenewalPolicy p months =
     (case p of
        None \<Rightarrow> False
      | Some r \<Rightarrow>
          rn_Version r = ''RENEWAL_POLICY_V1'' \<and>
          rn_Trigger r = ''MANUAL_OR_EXPLICITLY_CONSENTED_AUTOMATIC'' \<and>
          rn_EffectiveStart r = ''PREVIOUS_PAID_THROUGH'' \<and> rn_Months r = months \<and>
          rn_UsesAcceptedPriceSnapshot r)"

definition assertApprovedPlanPair :: "catalog_db \<Rightarrow> string \<Rightarrow> string \<Rightarrow> go_error option" where
  "assertApprovedPlanPair db computePlanID storagePlanID =
     (case List.find (\<lambda>r. pl_id r = computePlanID) (cd_compute_plans db) of
        None \<Rightarrow> Some (dbError ENoRows)
      | Some c \<Rightarrow>
          (case List.find (\<lambda>r. pl_id r = storagePlanID) (cd_storage_plans db) of
             None \<Rightarrow> Some (dbError ENoRows)
           | Some s \<Rightarrow>
               if pl_status c \<noteq> ''approved'' \<or> pl_status s \<noteq> ''approved''
               then Some (EStatus FailedPrecondition ''both plans in a price pair must be approved'')
               else None))"

definition emitPolicyChanged ::
  "env \<Rightarrow> CallContext \<Rightarrow> PricePolicyVersion \<Rightarrow> catalog_db \<Rightarrow> go_error + catalog_db" where
  "emitPolicyChanged e c version db =
     (let ev = \<lparr>e_ID = fresh_id ''evt'' (ev_ids e 2), e_EventType = ''catalog.policy_changed.v1'',
               e_SchemaVersion = 1, e_AggregateType = ''price_policy_version'', e_AggregateID = pm_Id version,
               e_AggregateRevision = 1, e_TenantID = call_tenant (Some c),
               e_CorrelationID = ctx_RequestId c, e_CausationID = [],
               e_Payload = cl_policy_event (ev_lib e) (pm_Id version) (pm_ValidFrom version),
               e_OccurredAt = ev_now e\<rparr> in
      case AppendEvent (cl_go (ev_lib e)) (ev_tx e) ev (cd_store db) of
        Inl err \<Rightarrow> Inl (EStatus Internal ''record catalog policy event'')
      | Inr st \<Rightarrow> Inr (db\<lparr>cd_store := st\<rparr>))"

definition price_fk :: "catalog_db \<Rightarrow> price_row \<Rightarrow> bool" where
  "price_fk db r \<longleftrightarrow> pp_compute_plan_id r \<in> pl_id ` set (cd_compute_plans db) \<and>
     pp_storage_plan_id r \<in> pl_id ` set (cd_storage_plans db)"

definition create_price_work ::
  "env \<Rightarrow> CallContext \<Rightarrow> CreatePricePolicyRequest \<Rightarrow> catalog_db \<Rightarrow>
   go_error + (PricePolicyVersion \<times> catalog_db)" where
  "create_price_work e c b db =
     (case assertApprovedPlanPair db (pb_ComputePlanId b) (pb_StoragePlanId b) of
        Some err \<Rightarrow> Inl err
      | None \<Rightarrow>
          let from = (case pb_ValidFrom b of Some f \<Rightarrow> AsTime f | None \<Rightarrow> 0);
              pid = fresh_id ''price'' (ev_ids e 1);
              out = \<lparr>pm_Id = pid, pm_VersionLabel = pb_VersionLabel b, pm_Currency = ''USD'',
                     pm_PeriodMonths = pb_PeriodMonths b, pm_ComputeMonthly = pb_ComputeMonthly b,
                     pm_StorageMonthly = pb_StorageMonthly b, pm_ProductMonthly = pb_ProductMonthly b,
                     pm_ValidFrom = timestamp from,
                     pm_ValidUntil = map_option (\<lambda>u. timestamp (AsTime u)) (pb_ValidUntil b),
                     pm_CreatedAt = timestamp (ev_now e), pm_ComputePlanId = pb_ComputePlanId b,
                     pm_StoragePlanId = pb_StoragePlanId b, pm_RenewalPolicy = renewalPolicy,
                     pm_PlanChangePolicyVersion = ''WORKSPACE_PLAN_CHANGE_V1'',
                     pm_PlanChangePolicy = planChangePolicy_proto\<rparr>;
              row = \<lparr>pp_id = pid, pp_version_label = pb_VersionLabel b,
                     pp_compute_plan_id = pb_ComputePlanId b, pp_storage_plan_id = pb_StoragePlanId b,
                     pp_compute_monthly = pb_ComputeMonthly b, pp_storage_monthly = pb_StorageMonthly b,
                     pp_product_monthly = pb_ProductMonthly b, pp_currency = ''USD'',
                     pp_renewal_rules = enc (cl_renewal (ev_lib e)) renewalPolicy, pp_valid_from = cl_pg_time (ev_lib e) from,
                     pp_valid_until = map_option (cl_pg_time (ev_lib e)) (tsOrNil (pb_ValidUntil b)), pp_published_by = ctx_ActorId c,
                     pp_created_at = ev_tx e, pp_period_months = pb_PeriodMonths b,
                     pp_plan_change_policy_version = ''workspace-plan-change-v1''\<rparr> in
          if pp_renewal_rules row = [] then Inl (EStatus Internal ''encode renewal policy'')
          else case insert_row (price_check (cl_go (ev_lib e))) price_clash (price_fk db) row
                 (cd_price_policy_versions db) of
            Inl err \<Rightarrow> Inl (dbError err)
          | Inr rows \<Rightarrow>
              (case emitPolicyChanged e c out (db\<lparr>cd_price_policy_versions := rows\<rparr>) of
                 Inl err \<Rightarrow> Inl err
               | Inr db' \<Rightarrow> Inr (out, db')))"

definition CreatePricePolicyVersion ::
  "env \<Rightarrow> CallContext option \<Rightarrow> CreatePricePolicyRequest \<Rightarrow> catalog_db \<Rightarrow>
   (go_error + PricePolicyVersion) \<times> catalog_db" where
  "CreatePricePolicyVersion e call b =
     authorized e call ''CreatePricePolicyVersion'' True (\<lambda>c db.
       if \<not> nameRE (pb_VersionLabel b) \<or> pb_PeriodMonths b \<noteq> 1 \<or> pb_ComputePlanId b = [] \<or>
          pb_StoragePlanId b = [] \<or> pb_ComputeMonthly b < 0 \<or> pb_StorageMonthly b < 0 \<or>
          pb_ProductMonthly b < 0 \<or> \<not> tsValid (pb_ValidFrom b)
       then (Inl (EStatus InvalidArgument ''price policy fields''), db)
       else if bad_until (pb_ValidFrom b) (pb_ValidUntil b)
       then (Inl (EStatus InvalidArgument ''validUntil must be after validFrom''), db)
       else if pb_PlanChangePolicyVersion b \<noteq> ''WORKSPACE_PLAN_CHANGE_V1''
       then (Inl (EStatus InvalidArgument ''the only approved plan-change policy''), db)
       else if \<not> validRenewalPolicy (pb_RenewalPolicy b) (pb_PeriodMonths b)
       then (Inl (EStatus InvalidArgument ''renewal policy''), db)
       else command e c ''CreatePricePolicyVersion'' (cl_price_request (ev_lib e) b) (cl_price (ev_lib e))
              (create_price_work e c b) db)"

section \<open>Refund and retention versions\<close>

definition deleteRefundRules :: json where
  \<comment> \<open>members in the order \<open>json.Marshal\<close> prints a map\<close>
  "deleteRefundRules = JObj
     [(''freeHours'', JNum ''720''), (''refundRounding'', JStr ''floor''), (''unit'', JStr ''usd_micros''),
      (''usedHoursRounding'', JStr ''ceil''), (''version'', JStr ''workspace-delete-refund-v1'')]"

definition assertRetentionVersion :: "catalog_db \<Rightarrow> string \<Rightarrow> go_error option" where
  "assertRetentionVersion db rid =
     (if rid \<in> rv_id ` set (cd_retention_policy_versions db) then None else Some (dbError ENoRows))"

definition create_refund_work ::
  "env \<Rightarrow> CallContext \<Rightarrow> CreateRefundPolicyRequest \<Rightarrow> catalog_db \<Rightarrow>
   go_error + (RefundPolicyVersion \<times> catalog_db)" where
  "create_refund_work e c b db =
     (case assertRetentionVersion db (fb_RetentionPolicyVersionId b) of
        Some err \<Rightarrow> Inl err
      | None \<Rightarrow>
          let from = (case fb_ValidFrom b of Some f \<Rightarrow> AsTime f | None \<Rightarrow> 0);
              rid = fresh_id ''refund'' (ev_ids e 1);
              out = \<lparr>fm_Id = rid, fm_VersionLabel = fb_VersionLabel b,
                     fm_Algorithm = ''WORKSPACE_DELETE_REFUND_V1'',
                     fm_RetentionPolicyVersionId = fb_RetentionPolicyVersionId b,
                     fm_CustomerTerms = fb_CustomerTerms b, fm_ValidFrom = timestamp from,
                     fm_ValidUntil = map_option (\<lambda>u. timestamp (AsTime u)) (fb_ValidUntil b),
                     fm_CreatedAt = timestamp (ev_now e)\<rparr>;
              row = \<lparr>rf_id = rid, rf_version_label = fb_VersionLabel b,
                     rf_rules = lib_marshal (cl_go (ev_lib e)) deleteRefundRules,
                     rf_customer_terms = fb_CustomerTerms b, rf_valid_from = cl_pg_time (ev_lib e) from,
                     rf_valid_until = map_option (cl_pg_time (ev_lib e)) (tsOrNil (fb_ValidUntil b)), rf_published_by = ctx_ActorId c,
                     rf_created_at = ev_tx e, rf_algorithm = ''workspace-delete-refund-v1'',
                     rf_retention_policy_version_id = fb_RetentionPolicyVersionId b\<rparr> in
          case insert_row refund_check refund_clash (\<lambda>_. True) row (cd_refund_policy_versions db) of
            Inl err \<Rightarrow> Inl (dbError err)
          | Inr rows \<Rightarrow> Inr (out, db\<lparr>cd_refund_policy_versions := rows\<rparr>))"

definition CreateRefundPolicyVersion ::
  "env \<Rightarrow> CallContext option \<Rightarrow> CreateRefundPolicyRequest \<Rightarrow> catalog_db \<Rightarrow>
   (go_error + RefundPolicyVersion) \<times> catalog_db" where
  "CreateRefundPolicyVersion e call b =
     authorized e call ''CreateRefundPolicyVersion'' True (\<lambda>c db.
       if \<not> nameRE (fb_VersionLabel b) \<or> fb_RetentionPolicyVersionId b = [] \<or> fb_CustomerTerms b = [] \<or>
          \<not> tsValid (fb_ValidFrom b)
       then (Inl (EStatus InvalidArgument ''refund policy fields''), db)
       else if bad_until (fb_ValidFrom b) (fb_ValidUntil b)
       then (Inl (EStatus InvalidArgument ''validUntil must be after validFrom''), db)
       else if fb_Algorithm b \<noteq> ''WORKSPACE_DELETE_REFUND_V1''
       then (Inl (EStatus InvalidArgument ''the only approved refund algorithm''), db)
       else command e c ''CreateRefundPolicyVersion'' (cl_refund_request (ev_lib e) b) (cl_refund (ev_lib e))
              (create_refund_work e c b) db)"

definition retention_rules :: json where
  "retention_rules = JObj
     [(''buildHistoryDisposition'', JStr ''retain''), (''packageHistoryDisposition'', JStr ''retain''),
      (''tenantRestoreDays'', JNum ''15''), (''version'', JStr ''retention-policy/v1''),
      (''workspaceDataDisposition'', JStr ''destroy_after_confirmed_deletion'')]"

definition create_retention_work ::
  "env \<Rightarrow> CallContext \<Rightarrow> CreateRetentionPolicyRequest \<Rightarrow> catalog_db \<Rightarrow>
   go_error + (RetentionPolicyVersion \<times> catalog_db)" where
  "create_retention_work e c b db =
     (let rid = fresh_id ''retention'' (ev_ids e 1);
          out = \<lparr>vm_Id = rid, vm_VersionLabel = vb_VersionLabel b,
                 vm_WorkspaceDataDisposition = ''DESTROY_AFTER_CONFIRMED_DELETION'',
                 vm_PackageHistoryDisposition = ''RETAIN'', vm_BuildHistoryDisposition = ''RETAIN'',
                 vm_TenantRestoreDays = 15, vm_CustomerTerms = vb_CustomerTerms b,
                 vm_CreatedAt = timestamp (ev_now e)\<rparr>;
          row = \<lparr>rv_id = rid, rv_version_label = vb_VersionLabel b,
                 rv_rules = lib_marshal (cl_go (ev_lib e)) retention_rules,
                 rv_customer_terms = vb_CustomerTerms b, rv_valid_from = ev_tx e, rv_valid_until = None,
                 rv_published_by = ctx_ActorId c, rv_created_at = ev_tx e,
                 rv_workspace_data = ''destroy_after_confirmed_deletion'', rv_package_history = ''retain'',
                 rv_build_history = ''retain'', rv_tenant_restore_days = 15\<rparr> in
      case insert_row retention_check retention_clash (\<lambda>_. True) row (cd_retention_policy_versions db) of
        Inl err \<Rightarrow> Inl (dbError err)
      | Inr rows \<Rightarrow> Inr (out, db\<lparr>cd_retention_policy_versions := rows\<rparr>))"

definition CreateRetentionPolicyVersion ::
  "env \<Rightarrow> CallContext option \<Rightarrow> CreateRetentionPolicyRequest \<Rightarrow> catalog_db \<Rightarrow>
   (go_error + RetentionPolicyVersion) \<times> catalog_db" where
  "CreateRetentionPolicyVersion e call b =
     authorized e call ''CreateRetentionPolicyVersion'' True (\<lambda>c db.
       if \<not> nameRE (vb_VersionLabel b) \<or> vb_CustomerTerms b = []
       then (Inl (EStatus InvalidArgument ''retention policy fields''), db)
       else command e c ''CreateRetentionPolicyVersion'' (cl_retention_request (ev_lib e) b)
              (cl_retention (ev_lib e)) (create_retention_work e c b) db)"

end
