(* ===== verification/Go_Calendar.thy ===== *)
theory Go_Calendar
  imports Go_Basics
begin

text \<open>
  The civil calendar as far as the program computes with it: \<open>Time.AddDate(0, 1, 0)\<close> on a UTC time,
  which keeps the day number and lets it run over into the month after, as \<open>time.Date\<close> normalises.
\<close>

definition leap_year :: "int \<Rightarrow> bool" where
  "leap_year y \<longleftrightarrow> 4 dvd y \<and> (\<not> 100 dvd y \<or> 400 dvd y)"

definition days_in_month :: "int \<Rightarrow> nat \<Rightarrow> int" where
  "days_in_month y m =
     (if m = 2 then (if leap_year y then 29 else 28) else if m \<in> {4, 6, 9, 11} then 30 else 31)"

definition days_before_month :: "int \<Rightarrow> nat \<Rightarrow> int" where
  \<comment> \<open>days of the year before the first of the month\<close>
  "days_before_month y m = sum_list (map (days_in_month y) [1..<m])"

definition month_of_yday :: "int \<Rightarrow> int \<Rightarrow> nat" where
  "month_of_yday y yday =
     length (takeWhile (\<lambda>m. days_before_month y (Suc m) \<le> yday) [1..<12]) + 1"

definition add_month_day :: "int \<Rightarrow> int" where
  \<comment> \<open>on day numbers counted from 0001-01-01\<close>
  "add_month_day d =
     (let y = year_of_day d; yday = d - days_before_year y; m = month_of_yday y yday;
          day = yday - days_before_month y m in
      if m = 12 then days_before_year (y + 1) + day
      else days_before_year y + days_before_month y (Suc m) + day)"

definition AddMonth :: "time \<Rightarrow> time" where
  \<comment> \<open>\<open>t.AddDate(0, 1, 0)\<close> for a UTC time\<close>
  "AddMonth t = add_month_day (t div day_ns) * day_ns + t mod day_ns"

lemma div_pred:
  assumes "0 < (n::int)"
  shows "y div n = (y - 1) div n + (if n dvd y then 1 else 0)"
proof -
  define q r where "q = y div n" and "r = y mod n"
  have y: "y = n * q + r" "0 \<le> r" "r < n" using assms by (simp_all add: q_def r_def)
  show ?thesis
  proof (cases "r = 0")
    case True
    have "(y - 1) div n = q - 1" using assms y True by (intro int_div_pos_eq [of _ _ _ "n - 1"]) (simp_all add: algebra_simps)
    then show ?thesis using True y(1) assms by simp
  next
    case False
    have "(y - 1) div n = q" using assms y False by (intro int_div_pos_eq [of _ _ _ "r - 1"]) simp_all
    then show ?thesis using False r_def q_def by (simp add: dvd_eq_mod_eq_0)
  qed
qed

lemma year_length: "days_before_year (y + 1) - days_before_year y = (if leap_year y then 366 else 365)"
proof -
  have imp: "100 dvd y" if "400 dvd y" by (rule dvd_trans [OF _ that]) simp
  have imp': "4 dvd y" if "100 dvd y" by (rule dvd_trans [OF _ that]) simp
  define a b c where "a = (if 4 dvd y then 1 else 0 :: int)" and "b = (if 100 dvd y then 1 else 0 :: int)"
    and "c = (if 400 dvd y then 1 else 0 :: int)"
  have eqs: "y div 4 = (y - 1) div 4 + a" "y div 100 = (y - 1) div 100 + b" "y div 400 = (y - 1) div 400 + c"
    unfolding a_def b_def c_def by (rule div_pred, simp)+
  have "days_before_year (y + 1) = 365 * y + y div 4 - y div 100 + y div 400"
    by (simp add: days_before_year_def)
  moreover have "days_before_year y = 365 * y - 365 + (y - 1) div 4 - (y - 1) div 100 + (y - 1) div 400"
    by (simp add: days_before_year_def algebra_simps)
  ultimately have "days_before_year (y + 1) - days_before_year y = 365 + a - b + c"
    using eqs by linarith
  also have "\<dots> = (if leap_year y then 366 else 365)"
    unfolding leap_year_def a_def b_def c_def using imp imp' by (cases "400 dvd y"; cases "100 dvd y"; cases "4 dvd y") simp_all
  finally show ?thesis .
qed

lemma days_before_month_Suc: "1 \<le> m \<Longrightarrow> days_before_month y (Suc m) = days_before_month y m + days_in_month y m"
  by (simp add: days_before_month_def upt_Suc)

lemma days_before_december: "days_before_month y 12 + 31 = (if leap_year y then 366 else 365)"
  by (simp add: days_before_month_def days_in_month_def upt_rec)

lemma month_of_yday_bounds: "1 \<le> month_of_yday y yday" "month_of_yday y yday \<le> 12"
proof -
  have "length (takeWhile (\<lambda>m. days_before_month y (Suc m) \<le> yday) [1..<12]) \<le> 11"
    using length_takeWhile_le [of _ "[1..<12::nat]"] by (metis One_nat_def diff_Suc_1 length_upt
      numeral_eq_Suc pred_numeral_simps(2) semiring_norm(26,27,28))
  then show "month_of_yday y yday \<le> 12" by (simp add: month_of_yday_def)
qed (simp add: month_of_yday_def)

text \<open>A month later is as many days later as the starting month has.\<close>

lemma add_month_day_length:
  fixes d defines "y \<equiv> year_of_day d"
  shows "add_month_day d = d + days_in_month y (month_of_yday y (d - days_before_year y))"
proof -
  let ?m = "month_of_yday y (d - days_before_year y)"
  show ?thesis
  proof (cases "?m = 12")
    case True
    have "days_before_year (y + 1) - days_before_month y 12 = days_before_year y + 31"
      using year_length [of y] days_before_december [of y] by (simp split: if_splits)
    then show ?thesis
      using True by (simp add: add_month_day_def Let_def y_def [symmetric] days_in_month_def)
  next
    case False
    then show ?thesis
      using days_before_month_Suc [of ?m y] month_of_yday_bounds(1) [of y "d - days_before_year y"]
      by (simp add: add_month_day_def Let_def y_def [symmetric])
  qed
qed

lemma days_in_month_bounds: "28 \<le> days_in_month y m" "days_in_month y m \<le> 31"
  by (auto simp: days_in_month_def)

lemma AddMonth_length: "\<exists>k. 28 \<le> k \<and> k \<le> 31 \<and> AddMonth t = t + k * day_ns"
proof -
  obtain k where k: "28 \<le> k" "k \<le> 31" "add_month_day (t div day_ns) = t div day_ns + k"
    using add_month_day_length [of "t div day_ns"] days_in_month_bounds by blast
  then have "AddMonth t = t div day_ns * day_ns + t mod day_ns + k * day_ns"
    by (simp add: AddMonth_def algebra_simps)
  with k show ?thesis by (simp only: div_mult_mod_eq) blast
qed

end
