(* ===== verification/Catalog_Quotes.thy ===== *)
theory Catalog_Quotes
  imports Catalog_Policies Go_Calendar
begin

text \<open>
  Quotes (\<open>quotes.go\<close>, \<open>accept.go\<close>): a deploy request is priced once from the effective versions of
  its plan pair and stored as an immutable offer with its lines and the frozen resource plan; the
  Workspace owner binds an offer to exactly one operation.
\<close>

section \<open>Admission\<close>

definition ValidateWorkspaceApplicationSelection :: "WorkspaceApplicationSelection option \<Rightarrow> string option" where
  "ValidateWorkspaceApplicationSelection selection =
     (case selection of
        None \<Rightarrow> Some ''workspace_application_selection_required''
      | Some s \<Rightarrow>
          if as_Kind s = ''OPL_APP''
          then if as_RuntimeVersionId s = None \<or> as_RuntimeVersionId s = Some [] \<or> as_CapabilityVersionId s \<noteq> None
               then Some ''workspace_application_selection_opl_app_invalid'' else None
          else if as_Kind s = ''AGENT''
          then if as_CapabilityVersionId s = None \<or> as_CapabilityVersionId s = Some [] \<or> as_RuntimeVersionId s \<noteq> None
               then Some ''workspace_application_selection_agent_invalid'' else None
          else Some ''workspace_application_selection_kind_required'')"

definition IsDefaultOPLAppSelection :: "WorkspaceApplicationSelection option \<Rightarrow> bool" where
  "IsDefaultOPLAppSelection selection = (case selection of None \<Rightarrow> False | Some s \<Rightarrow> as_Kind s = ''OPL_APP'')"

definition deployApplicationSelection :: "QuoteRequest \<Rightarrow> go_error + WorkspaceApplicationSelection" where
  "deployApplicationSelection request =
     (let legacyCapability = coalesce_str (qr_CapabilityVersionId request) in
      case qr_ApplicationSelection request of
        None \<Rightarrow>
          if legacyCapability = []
          then Inl (EStatus InvalidArgument ''a deploy quote requires an application selection'')
          else Inr \<lparr>as_Kind = ''AGENT'', as_RuntimeVersionId = None,
                    as_CapabilityVersionId = Some legacyCapability\<rparr>
      | Some explicit \<Rightarrow>
          if legacyCapability \<noteq> []
          then Inl (EStatus InvalidArgument ''applicationSelection and capabilityVersionId are exclusive'')
          else case ValidateWorkspaceApplicationSelection (Some explicit) of
            Some err \<Rightarrow> Inl (EStatus InvalidArgument err)
          | None \<Rightarrow> Inr explicit)"

definition validateDeployQuoteRequest :: "QuoteRequest option \<Rightarrow> go_error + WorkspaceApplicationSelection" where
  "validateDeployQuoteRequest request =
     (case request of
        None \<Rightarrow> Inl (EStatus InvalidArgument ''a quote request is required'')
      | Some r \<Rightarrow>
          if qr_Purpose r = ''RESIZE'' \<or> qr_Purpose r = ''RENEW''
          then Inl (EStatus Unimplemented ''this slice prices only the deploy variant'')
          else if qr_Purpose r \<noteq> ''DEPLOY''
          then Inl (EStatus InvalidArgument ''purpose must be deploy, resize or renew'')
          else if coalesce_str (qr_WorkspaceId r) \<noteq> []
          then Inl (EStatus InvalidArgument ''a deploy quote is not bound to an existing workspace'')
          else case deployApplicationSelection r of
            Inl err \<Rightarrow> Inl err
          | Inr selection \<Rightarrow>
              if qr_ComputePlanId r = [] \<or> qr_StoragePlanId r = []
              then Inl (EStatus InvalidArgument ''computePlanId and storagePlanId are required'')
              else if qr_PeriodMonths r \<noteq> 1 then Inl (EStatus InvalidArgument ''periodMonths must be 1'')
              else if coalesce_str (qr_ScheduledPlanChangeId r) \<noteq> []
              then Inl (EStatus InvalidArgument ''scheduledPlanChangeId is not valid'')
              else Inr selection)"

section \<open>Effective versions\<close>

definition newest :: "('r \<Rightarrow> time) \<Rightarrow> ('r \<Rightarrow> string) \<Rightarrow> 'r list \<Rightarrow> 'r option" where
  \<comment> \<open>\<open>ORDER BY valid_from DESC, id DESC LIMIT 1\<close>\<close>
  "newest from rid rows =
     (case rev (sort_key (\<lambda>r. (from r, rid r)) rows) of [] \<Rightarrow> None | r # _ \<Rightarrow> Some r)"

definition effectivePricePolicy ::
  "env \<Rightarrow> string \<Rightarrow> string \<Rightarrow> time \<Rightarrow> catalog_db \<Rightarrow> go_error + PricePolicyVersion" where
  "effectivePricePolicy e computePlanID storagePlanID at db =
     (let missing = EStatus FailedPrecondition ''the exact plan pair has no approved price'' in
      case newest pp_valid_from pp_id (filter (\<lambda>r. pp_compute_plan_id r = computePlanID \<and>
             pp_storage_plan_id r = storagePlanID \<and> pp_valid_from r \<le> at) (cd_price_policy_versions db)) of
        None \<Rightarrow> Inl missing
      | Some row \<Rightarrow>
          (case scanPricePolicy (ev_lib e) row of
             Inl _ \<Rightarrow> Inl missing
           | Inr version \<Rightarrow>
               (case pm_ValidUntil version of
                  Some u \<Rightarrow>
                    if AsTime u \<le> at
                    then Inl (EStatus FailedPrecondition ''the effective price version has expired'')
                    else Inr version
                | None \<Rightarrow> Inr version)))"

definition effectiveRefundPolicy :: "time \<Rightarrow> catalog_db \<Rightarrow> go_error + RefundPolicyVersion" where
  "effectiveRefundPolicy at db =
     (case newest rf_valid_from rf_id (filter (\<lambda>r. rf_valid_from r \<le> at) (cd_refund_policy_versions db)) of
        None \<Rightarrow> Inl (EStatus FailedPrecondition ''no approved refund policy is effective'')
      | Some row \<Rightarrow>
          let v = scanRefundPolicy row in
          (case fm_ValidUntil v of
             Some u \<Rightarrow>
               if AsTime u \<le> at then Inl (EStatus FailedPrecondition ''the effective refund policy has expired'')
               else Inr v
           | None \<Rightarrow> Inr v))"

definition effectiveRetentionPolicy :: "time \<Rightarrow> catalog_db \<Rightarrow> go_error + RetentionPolicyVersion" where
  "effectiveRetentionPolicy at db =
     (case newest rv_valid_from rv_id (filter (\<lambda>r. rv_valid_from r \<le> at) (cd_retention_policy_versions db)) of
        None \<Rightarrow> Inl ENoRows
      | Some row \<Rightarrow> Inr (scanRetentionPolicy row))"

record priceResolution =
  pr_Price :: PricePolicyVersion
  pr_Refund :: RefundPolicyVersion
  pr_Retention :: RetentionPolicyVersion

definition resolvePrice :: "env \<Rightarrow> string \<Rightarrow> string \<Rightarrow> time \<Rightarrow> catalog_db \<Rightarrow> go_error + priceResolution" where
  "resolvePrice e computePlanID storagePlanID at db =
     (case effectivePricePolicy e computePlanID storagePlanID at db of
        Inl err \<Rightarrow> Inl err
      | Inr price \<Rightarrow>
          (case effectiveRefundPolicy at db of
             Inl err \<Rightarrow> Inl err
           | Inr refund \<Rightarrow>
               (case effectiveRetentionPolicy at db of
                  Inl err \<Rightarrow> Inl err
                | Inr retention \<Rightarrow>
                    Inr \<lparr>pr_Price = price, pr_Refund = refund, pr_Retention = retention\<rparr>)))"

definition plan_pair :: "catalog_db \<Rightarrow> string \<Rightarrow> string \<Rightarrow> (compute_row \<times> storage_row) option" where
  \<comment> \<open>the join of the two plan rows\<close>
  "plan_pair db computePlanID storagePlanID =
     (case (List.find (\<lambda>r. pl_id r = computePlanID) (cd_compute_plans db),
            List.find (\<lambda>r. pl_id r = storagePlanID) (cd_storage_plans db)) of
        (Some c, Some s) \<Rightarrow> Some (c, s)
      | _ \<Rightarrow> None)"

definition assertAvailablePlanPair :: "catalog_db \<Rightarrow> string \<Rightarrow> string \<Rightarrow> time \<Rightarrow> go_error option" where
  "assertAvailablePlanPair db computePlanID storagePlanID at =
     (case plan_pair db computePlanID storagePlanID of
        None \<Rightarrow> Some (dbError ENoRows)
      | Some (c, s) \<Rightarrow>
          (case plan_availability c at of
             Inl err \<Rightarrow> Some err
           | Inr compute \<Rightarrow>
               (case plan_availability s at of
                  Inl err \<Rightarrow> Some err
                | Inr storage \<Rightarrow>
                    if compute \<noteq> ''available'' \<or> storage \<noteq> ''available''
                    then Some (EStatus FailedPrecondition ''both plans must be available at pricing time'')
                    else None)))"

section \<open>The frozen resource plan\<close>

record provider_spec =
  ps_ProviderProfileID :: string
  ps_ProviderSKUID :: string

definition set_spec :: "string \<Rightarrow> json \<Rightarrow> provider_spec \<Rightarrow> provider_spec option" where
  "set_spec n v r =
     (if n = ''providerProfileId''
      then map_option (\<lambda>s. r\<lparr>ps_ProviderProfileID := s\<rparr>) (decode_string v (ps_ProviderProfileID r))
      else map_option (\<lambda>s. r\<lparr>ps_ProviderSKUID := s\<rparr>) (decode_string v (ps_ProviderSKUID r)))"

definition decode_spec :: "golib \<Rightarrow> string \<Rightarrow> provider_spec option" where
  "decode_spec lib bytes =
     (case lib_json lib bytes of
        Some (JObj m) \<Rightarrow> decode_lax [''providerProfileId'', ''providerSkuId''] set_spec m
          \<lparr>ps_ProviderProfileID = [], ps_ProviderSKUID = []\<rparr>
      | Some JNull \<Rightarrow> Some \<lparr>ps_ProviderProfileID = [], ps_ProviderSKUID = []\<rparr>
      | _ \<Rightarrow> None)"

definition frozenResourcePlan ::
  "env \<Rightarrow> catalog_db \<Rightarrow> string \<Rightarrow> string \<Rightarrow> int \<Rightarrow> go_error + ResourcePlanSnapshot" where
  "frozenResourcePlan e db computeID storageID months =
     (case plan_pair db computeID storageID of
        None \<Rightarrow> Inl (dbError ENoRows)
      | Some (c, s) \<Rightarrow>
          if pl_provider c \<noteq> pl_provider s \<or> pl_provider_profile_ref c \<noteq> pl_provider_profile_ref s \<or>
             pl_region c \<noteq> pl_region s \<or> pl_billing_mode c \<noteq> pl_billing_mode s \<or>
             pl_provider_capability_version c \<noteq> pl_provider_capability_version s
          then Inl (EStatus FailedPrecondition ''compute and storage must share the provider profile'')
          else
            case (decode_spec (cl_go (ev_lib e)) (pl_provider_specification c),
                  decode_spec (cl_go (ev_lib e)) (pl_provider_specification s)) of
              (Some cs, Some ss) \<Rightarrow>
                if ps_ProviderSKUID cs = [] \<or> ps_ProviderSKUID ss = []
                then Inl (EStatus DataLoss ''approved provider SKU is missing'')
                else Inr
                  \<lparr>rp_ComputePlanId = computeID, rp_StoragePlanId = storageID,
                   rp_ProviderProfileId = pl_provider_profile_ref c,
                   rp_ProviderComputeSkuId = ps_ProviderSKUID cs, rp_ProviderStorageSkuId = ps_ProviderSKUID ss,
                   rp_Vcpus = cp_vcpus c, rp_MemoryMib = cp_memory_mib c, rp_CapacityGib = sp_capacity_gib s,
                   rp_PrepaidMonths = months,
                   rp_ProviderCapabilityVersion = pl_provider_capability_version c,
                   rp_Provider = pl_provider c, rp_Region = pl_region c, rp_BillingMode = pl_billing_mode c\<rparr>
            | _ \<Rightarrow> Inl (EStatus DataLoss ''approved provider SKU is missing''))"

section \<open>Money\<close>

definition checkedQuoteAdd :: "int \<Rightarrow> int \<Rightarrow> go_error + int" where
  "checkedQuoteAdd left right =
     (if 0 < right \<and> wrap64 (MaxInt64 - right) < left
      then Inl (EStatus InvalidArgument ''the quote total exceeds the int64 micro-dollar range'')
      else Inr (wrap64 (left + right)))"

fun sum_lines :: "int \<Rightarrow> int \<Rightarrow> QuoteLine list \<Rightarrow> go_error + (int \<times> int)" where
  "sum_lines positive credit [] = Inr (positive, credit)"
| "sum_lines positive credit (line # lines) =
     (let amount = ql_AmountUsdMicros line in
      if amount < 0 then Inl (EStatus InvalidArgument ''a quote line amount must not be negative'')
      else if ql_Kind line = ''ADJUSTMENT_CREDIT''
      then (case checkedQuoteAdd credit amount of
              Inl err \<Rightarrow> Inl err | Inr credit \<Rightarrow> sum_lines positive credit lines)
      else (case checkedQuoteAdd positive amount of
              Inl err \<Rightarrow> Inl err | Inr positive \<Rightarrow> sum_lines positive credit lines))"

definition sumQuoteLines :: "QuoteLine list \<Rightarrow> go_error + int" where
  "sumQuoteLines lines =
     (case sum_lines 0 0 lines of
        Inl err \<Rightarrow> Inl err
      | Inr (positive, credit) \<Rightarrow>
          if positive < credit
          then Inl (EStatus InvalidArgument ''quote credits exceed the charges they offset'')
          else Inr (wrap64 (positive - credit)))"

definition add_line :: "string \<Rightarrow> string \<Rightarrow> int \<Rightarrow> QuoteLine list" where
  "add_line kind description amount =
     (if amount = 0 then []
      else [\<lparr>ql_Kind = kind, ql_Description = description, ql_Quantity = 1, ql_AmountUsdMicros = amount,
             ql_CreditSource = None\<rparr>])"

definition pricedLineItems :: "PricePolicyVersion \<Rightarrow> go_error + (QuoteLine list \<times> int)" where
  "pricedLineItems price =
     (let lines = add_line ''COMPUTE'' ''compute monthly'' (pm_ComputeMonthly price) @
                  add_line ''STORAGE'' ''storage monthly'' (pm_StorageMonthly price) @
                  add_line ''PRODUCT'' ''product monthly'' (pm_ProductMonthly price) in
      case sumQuoteLines lines of Inl err \<Rightarrow> Inl err | Inr amount \<Rightarrow> Inr (lines, amount))"

definition quoteLineKind :: "string \<Rightarrow> string" where
  "quoteLineKind kind =
     (if kind = ''COMPUTE'' then ''compute'' else if kind = ''STORAGE'' then ''storage''
      else if kind = ''PRODUCT'' then ''product''
      else if kind = ''ADJUSTMENT_CREDIT'' then ''adjustment_credit'' else [])"

end
