(* ===== verification/Catalog_Offers.thy ===== *)
theory Catalog_Offers
  imports Catalog_Quotes
begin

text \<open>
  The handlers on stored quotes: \<open>CreateQuote\<close>, \<open>GetQuote\<close> (\<open>quotes.go\<close>), \<open>AcceptQuote\<close> and
  \<open>ReadQuoteResourcePlan\<close> (\<open>accept.go\<close>).
\<close>

section \<open>Creating an offer\<close>

definition quoteValidity :: int where
  "quoteValidity = 30 * 60 * 1000000000"

definition UnixMilli :: "time \<Rightarrow> int" where
  "UnixMilli t = (t - 62135596800 * 1000000000) div 1000000"

definition quoteInputDigest ::
  "golib \<Rightarrow> QuoteRequest \<Rightarrow> WorkspaceApplicationSelection \<Rightarrow> string \<Rightarrow> string" where
  \<comment> \<open>the JSON array of the request's parts; the snapshot is embedded as the raw JSON it is\<close>
  "quoteInputDigest lib request selection snapshot =
     digest lib (lib_marshal lib (JArr
       [JStr (''QUOTE_REQUEST_PURPOSE_ENUM_'' @ qr_Purpose request), JStr (qr_ComputePlanId request),
        JStr (qr_StoragePlanId request),
        JStr (''WORKSPACE_APPLICATION_SELECTION_KIND_ENUM_'' @ as_Kind selection),
        JStr (coalesce_str (as_RuntimeVersionId selection)),
        JStr (coalesce_str (as_CapabilityVersionId selection)),
        JNum (format_int (qr_PeriodMonths request)),
        JArr (map (\<lambda>(slot, model). JObj [(''modelId'', JStr model), (''slot'', JStr slot)])
          (qr_ModelSelections request)),
        (case lib_json lib snapshot of Some j \<Rightarrow> j | None \<Rightarrow> JNull)]))"

definition new_item_row :: "env \<Rightarrow> string \<Rightarrow> nat \<Rightarrow> QuoteLine \<Rightarrow> item_row" where
  "new_item_row e qid index line =
     \<lparr>qi_id = fresh_id ''line'' (ev_ids e (index + 2)), qi_quote_id = qid,
      qi_kind = quoteLineKind (ql_Kind line), qi_description = ql_Description line,
      qi_amount = ql_AmountUsdMicros line,
      qi_calculation = lib_marshal (cl_go (ev_lib e))
        (JObj [(''quantity'', JNum (format_int (ql_Quantity line)))]),
      qi_sort_order = int index, qi_created_at = ev_tx e, qi_quantity = ql_Quantity line,
      qi_credit_source = ql_CreditSource line\<rparr>"

fun insertQuoteItems :: "env \<Rightarrow> string \<Rightarrow> nat \<Rightarrow> QuoteLine list \<Rightarrow> catalog_db \<Rightarrow> go_error + catalog_db" where
  "insertQuoteItems e qid index [] db = Inr db"
| "insertQuoteItems e qid index (line # lines) db =
     (case insert_row item_check item_clash (\<lambda>r. qi_quote_id r \<in> qt_id ` set (cd_quotes db))
             (new_item_row e qid index line) (cd_quote_items db) of
        Inl err \<Rightarrow> Inl (dbError err)
      | Inr rows \<Rightarrow> insertQuoteItems e qid (Suc index) lines (db\<lparr>cd_quote_items := rows\<rparr>))"

definition quote_fk :: "catalog_db \<Rightarrow> quote_row \<Rightarrow> bool" where
  "quote_fk db r \<longleftrightarrow>
     qt_compute_plan_id r \<in> pl_id ` set (cd_compute_plans db) \<and>
     qt_storage_plan_id r \<in> pl_id ` set (cd_storage_plans db) \<and>
     qt_price_policy_version_id r \<in> pp_id ` set (cd_price_policy_versions db) \<and>
     qt_refund_policy_version_id r \<in> rf_id ` set (cd_refund_policy_versions db) \<and>
     qt_retention_policy_version_id r \<in> rv_id ` set (cd_retention_policy_versions db)"

definition nullable :: "string \<Rightarrow> string option" where
  "nullable v = (if v = [] then None else Some v)"

definition new_quote ::
  "env \<Rightarrow> QuoteRequest \<Rightarrow> WorkspaceApplicationSelection \<Rightarrow> priceResolution \<Rightarrow> QuoteLine list \<Rightarrow> int \<Rightarrow> Quote" where
  "new_quote e request selection res lines amount =
     \<lparr>qu_Id = fresh_id ''quote'' (ev_ids e 1), qu_Purpose = ''DEPLOY'', qu_WorkspaceId = None,
      qu_CapabilityVersionId = (if as_Kind selection = ''OPL_APP'' then None
                                else Some (coalesce_str (as_CapabilityVersionId selection))),
      qu_ComputePlanId = qr_ComputePlanId request, qu_StoragePlanId = qr_StoragePlanId request,
      qu_ModelSelections = qr_ModelSelections request, qu_PeriodMonths = qr_PeriodMonths request,
      qu_PeriodStart = timestamp (ev_now e), qu_PeriodEnd = timestamp (AddMonth (ev_now e)),
      qu_PricePolicyVersionId = pm_Id (pr_Price res), qu_RefundPolicyVersionId = fm_Id (pr_Refund res),
      qu_RetentionPolicyVersionId = vm_Id (pr_Retention res),
      qu_RefundTerms = fm_CustomerTerms (pr_Refund res),
      qu_RetentionTerms = vm_CustomerTerms (pr_Retention res),
      qu_ExpectedInterruption = ''none_before_execution'', qu_LineItems = lines,
      qu_TotalUsdMicros = amount, qu_Status = ''OFFERED'',
      qu_ExpiresAt = timestamp (ev_now e + quoteValidity), qu_CreatedAt = timestamp (ev_now e),
      qu_SourceSubscriptionVersion = None, qu_PlanChangeCalculation = None,
      qu_ScheduledPlanChangeId = None, qu_RuntimeReadbackRequirement = ''REQUIRED'',
      qu_RuntimeVersionId = (if as_Kind selection = ''OPL_APP''
                             then Some (coalesce_str (as_RuntimeVersionId selection)) else None)\<rparr>"

definition new_snapshot ::
  "env \<Rightarrow> QuoteRequest \<Rightarrow> priceResolution \<Rightarrow> ResourcePlanSnapshot \<Rightarrow> quoteSnapshot" where
  "new_snapshot e request res plan =
     \<lparr>qs_ComputePlanID = qr_ComputePlanId request, qs_StoragePlanID = qr_StoragePlanId request,
      qs_PricePolicyVersionID = pm_Id (pr_Price res), qs_RefundPolicyVersionID = fm_Id (pr_Refund res),
      qs_RetentionPolicyVersionID = vm_Id (pr_Retention res), qs_PeriodMonths = qr_PeriodMonths request,
      qs_PricingBasisUnixMillis = UnixMilli (ev_now e), qs_ResourcePlan = Some plan,
      qs_AcceptedWorkspaceID = []\<rparr>"

definition new_quote_row ::
  "env \<Rightarrow> CallContext \<Rightarrow> QuoteRequest \<Rightarrow> WorkspaceApplicationSelection \<Rightarrow> string \<Rightarrow> Quote \<Rightarrow> quote_row" where
  "new_quote_row e c request selection snapshot out =
     \<lparr>qt_id = qu_Id out, qt_tenant_id = call_tenant (Some c), qt_actor_id = ctx_ActorId c,
      qt_purpose = ''deploy'', qt_workspace_id = None,
      qt_capability_version_id = nullable (coalesce_str (qu_CapabilityVersionId out)),
      qt_runtime_version_id = nullable (coalesce_str (qu_RuntimeVersionId out)),
      qt_application_kind = Some (if as_Kind selection = ''OPL_APP'' then ''opl_app'' else ''agent''),
      qt_compute_plan_id = qu_ComputePlanId out, qt_storage_plan_id = qu_StoragePlanId out,
      qt_price_policy_version_id = qu_PricePolicyVersionId out,
      qt_refund_policy_version_id = qu_RefundPolicyVersionId out,
      qt_retention_policy_version_id = qu_RetentionPolicyVersionId out,
      qt_total_usd_micros = qu_TotalUsdMicros out, qt_period_start = cl_pg_time (ev_lib e) (ev_now e),
      qt_period_end = cl_pg_time (ev_lib e) (AddMonth (ev_now e)), qt_status = ''offered'',
      qt_input_digest = quoteInputDigest (cl_go (ev_lib e)) request selection snapshot,
      qt_admission_snapshot = snapshot, qt_accepted_by = None, qt_accepted_at = None,
      qt_expires_at = cl_pg_time (ev_lib e) (ev_now e + quoteValidity), qt_created_at = ev_tx e,
      qt_model_selections = enc (cl_models (ev_lib e)) (qr_ModelSelections request),
      qt_period_months = qu_PeriodMonths out, qt_refund_terms = qu_RefundTerms out,
      qt_retention_terms = qu_RetentionTerms out, qt_expected_interruption = qu_ExpectedInterruption out,
      qt_plan_change_calculation = None, qt_source_subscription_version = None,
      qt_scheduled_plan_change_id = None\<rparr>"

definition create_quote_work ::
  "env \<Rightarrow> CallContext \<Rightarrow> QuoteRequest \<Rightarrow> WorkspaceApplicationSelection \<Rightarrow> catalog_db \<Rightarrow>
   go_error + (Quote \<times> catalog_db)" where
  "create_quote_work e c request selection db =
     (case resolvePrice e (qr_ComputePlanId request) (qr_StoragePlanId request) (ev_now e) db of
        Inl err \<Rightarrow> Inl err
      | Inr res \<Rightarrow>
      (case assertAvailablePlanPair db (qr_ComputePlanId request) (qr_StoragePlanId request) (ev_now e) of
        Some err \<Rightarrow> Inl err
      | None \<Rightarrow>
      (case frozenResourcePlan e db (qr_ComputePlanId request) (qr_StoragePlanId request) (qr_PeriodMonths request) of
        Inl err \<Rightarrow> Inl err
      | Inr plan \<Rightarrow>
      (case pricedLineItems (pr_Price res) of
        Inl err \<Rightarrow> Inl err
      | Inr (lines, amount) \<Rightarrow>
          let snapshot = enc (cl_snapshot (ev_lib e)) (new_snapshot e request res plan);
              out = new_quote e request selection res lines amount in
          if snapshot = [] then Inl (EStatus Internal ''encode the quote admission snapshot'')
          else if enc (cl_models (ev_lib e)) (qr_ModelSelections request) = []
          then Inl (EStatus Internal ''encode the quote model selections'')
          else
          (case insert_row quote_check quote_clash (quote_fk db)
                  (new_quote_row e c request selection snapshot out) (cd_quotes db) of
             Inl err \<Rightarrow> Inl (dbError err)
           | Inr rows \<Rightarrow>
               (case insertQuoteItems e (qu_Id out) 0 lines (db\<lparr>cd_quotes := rows\<rparr>) of
                  Inl err \<Rightarrow> Inl err
                | Inr db' \<Rightarrow> Inr (out, db')))))))"

definition CreateQuote ::
  "env \<Rightarrow> CallContext option \<Rightarrow> QuoteRequest option \<Rightarrow> catalog_db \<Rightarrow> (go_error + Quote) \<times> catalog_db" where
  "CreateQuote e call body =
     authorized e call ''CreateQuote'' False (\<lambda>c db.
       case validateDeployQuoteRequest body of
         Inl err \<Rightarrow> (Inl err, db)
       | Inr selection \<Rightarrow>
           (case body of
              None \<Rightarrow> (Inl (EStatus InvalidArgument ''a quote request is required''), db)
            | Some request \<Rightarrow>
                command e c ''CreateQuote'' (cl_quote_request (ev_lib e) request) (cl_quote (ev_lib e))
                  (create_quote_work e c request selection) db))"

section \<open>Reading offers\<close>

definition runtimeReadbackRequirementFor :: "string \<Rightarrow> string" where
  "runtimeReadbackRequirementFor applicationKind =
     (if applicationKind = ''opl_app'' \<or> applicationKind = ''agent'' then ''REQUIRED'' else ''NOT_APPLICABLE'')"

definition readQuoteLines :: "bool \<Rightarrow> catalog_db \<Rightarrow> string \<Rightarrow> QuoteLine list" where
  \<comment> \<open>the acceptance transaction does not read the credit source\<close>
  "readQuoteLines credits db qid =
     map (\<lambda>r. \<lparr>ql_Kind = enum_member [''COMPUTE'', ''STORAGE'', ''PRODUCT'', ''ADJUSTMENT_CREDIT''] (qi_kind r),
              ql_Description = qi_description r, ql_Quantity = qi_quantity r,
              ql_AmountUsdMicros = qi_amount r,
              ql_CreditSource = (if credits then qi_credit_source r else None)\<rparr>)
       (sort_key qi_sort_order (filter (\<lambda>r. qi_quote_id r = qid) (cd_quote_items db)))"

definition find_quote :: "catalog_db \<Rightarrow> string \<Rightarrow> string \<Rightarrow> quote_row option" where
  "find_quote db qid tid = List.find (\<lambda>r. qt_id r = qid \<and> qt_tenant_id r = tid) (cd_quotes db)"

definition scan_quote :: "bool \<Rightarrow> catlib \<Rightarrow> catalog_db \<Rightarrow> quote_row \<Rightarrow> go_error + Quote" where
  \<comment> \<open>\<open>full\<close>: with the plan-change columns and the credit sources, as \<open>readQuote\<close> reads them\<close>
  "scan_quote full lib db r =
     (case dec (cl_models lib) (qt_model_selections r) of
        None \<Rightarrow> Inl (EStatus DataLoss ''the stored model selections are not readable'')
      | Some selections \<Rightarrow>
          (case dec (cl_snapshot lib) (qt_admission_snapshot r) of
             None \<Rightarrow> Inl (EStatus DataLoss ''the stored quote admission snapshot is not readable'')
           | Some snapshot \<Rightarrow> Inr
               \<lparr>qu_Id = qt_id r, qu_Purpose = enum_member [''DEPLOY'', ''RESIZE'', ''RENEW''] (qt_purpose r),
                qu_WorkspaceId = qt_workspace_id r, qu_CapabilityVersionId = qt_capability_version_id r,
                qu_ComputePlanId = qt_compute_plan_id r, qu_StoragePlanId = qt_storage_plan_id r,
                qu_ModelSelections = selections, qu_PeriodMonths = qt_period_months r,
                qu_PeriodStart = timestamp (qt_period_start r), qu_PeriodEnd = timestamp (qt_period_end r),
                qu_PricePolicyVersionId = qt_price_policy_version_id r,
                qu_RefundPolicyVersionId = qt_refund_policy_version_id r,
                qu_RetentionPolicyVersionId = qt_retention_policy_version_id r,
                qu_RefundTerms = qt_refund_terms r, qu_RetentionTerms = qt_retention_terms r,
                qu_ExpectedInterruption = qt_expected_interruption r,
                qu_LineItems = readQuoteLines full db (qt_id r),
                qu_TotalUsdMicros = qt_total_usd_micros r,
                qu_Status = enum_member [''OFFERED'', ''ACCEPTED'', ''EXPIRED''] (qt_status r),
                qu_ExpiresAt = timestamp (qt_expires_at r), qu_CreatedAt = timestamp (qt_created_at r),
                qu_SourceSubscriptionVersion = (if full then qt_source_subscription_version r else None),
                qu_PlanChangeCalculation = (if full then qt_plan_change_calculation r else None),
                qu_ScheduledPlanChangeId = qt_scheduled_plan_change_id r,
                qu_RuntimeReadbackRequirement =
                  runtimeReadbackRequirementFor (coalesce_str (qt_application_kind r)),
                qu_RuntimeVersionId = qt_runtime_version_id r\<rparr>))"

definition readQuote :: "catlib \<Rightarrow> string \<Rightarrow> string \<Rightarrow> catalog_db \<Rightarrow> go_error + Quote" where
  "readQuote lib qid tid db =
     (case find_quote db qid tid of
        None \<Rightarrow> Inl (dbError ENoRows)
      | Some r \<Rightarrow> scan_quote True lib db r)"

definition readQuoteTx :: "catlib \<Rightarrow> string \<Rightarrow> string \<Rightarrow> catalog_db \<Rightarrow> go_error + Quote" where
  "readQuoteTx lib qid tid db =
     (case find_quote db qid tid of
        None \<Rightarrow> Inl (dbError ENoRows)
      | Some r \<Rightarrow> scan_quote False lib db r)"

definition GetQuote :: "env \<Rightarrow> CallContext option \<Rightarrow> string \<Rightarrow> catalog_db \<Rightarrow> go_error + Quote" where
  "GetQuote e call qid db =
     (case catalog_auth e call ''GetQuote'' False of
        Some err \<Rightarrow> Inl err
      | None \<Rightarrow>
          if qid = [] then Inl (EStatus InvalidArgument ''quoteId is required'')
          else case readQuote (ev_lib e) qid (call_tenant call) db of
            Inl err \<Rightarrow> Inl err
          | Inr quote \<Rightarrow>
              if qu_Status quote = ''OFFERED'' \<and> AsTime (qu_ExpiresAt quote) \<le> ev_now e
              then Inr (quote\<lparr>qu_Status := ''EXPIRED''\<rparr>) else Inr quote)"

section \<open>Accepting an offer\<close>

definition acceptanceID :: "string \<Rightarrow> string" where
  "acceptanceID quoteID = ''accept_'' @ quoteID"

definition acceptedSnapshotDigest :: "catlib \<Rightarrow> Quote \<Rightarrow> go_error + string" where
  "acceptedSnapshotDigest lib quote =
     (case cl_quote_bytes lib (quote\<lparr>qu_Status := ''ACCEPTED''\<rparr>) of
        None \<Rightarrow> Inl (EStatus Internal ''encode the accepted quote snapshot'')
      | Some raw \<Rightarrow> Inr (digest (cl_go lib) raw))"

definition bind_quote :: "env \<Rightarrow> string \<Rightarrow> string \<Rightarrow> string \<Rightarrow> quote_row list \<Rightarrow> go_error + quote_row list" where
  \<comment> \<open>the \<open>UPDATE\<close> of the acceptance, with the unique index on the accepting operation\<close>
  "bind_quote e qid obligation snapshot rows =
     (let hit = (\<lambda>r. qt_id r = qid \<and> qt_status r = ''offered'');
          rows' = update_rows hit (\<lambda>r. r\<lparr>qt_status := ''accepted'', qt_accepted_by := Some obligation,
                    qt_accepted_at := Some (ev_tx e), qt_admission_snapshot := snapshot\<rparr>) rows in
      if list_ex hit rows \<and> list_ex (\<lambda>r. \<not> hit r \<and> qt_accepted_by r = Some obligation) rows
      then Inl (EDatabase UniqueViolation)
      else Inr rows')"

definition accept_result ::
  "env \<Rightarrow> AcceptQuoteRequest \<Rightarrow> string \<Rightarrow> quoteSnapshot \<Rightarrow> catalog_db \<Rightarrow> go_error + QuoteAcceptance" where
  "accept_result e r tid snapshot db =
     (case readQuoteTx (ev_lib e) (aa_QuoteId r) tid db of
        Inl err \<Rightarrow> Inl err
      | Inr q \<Rightarrow>
          let quote = q\<lparr>qu_Status := ''ACCEPTED''\<rparr> in
          (case acceptedSnapshotDigest (ev_lib e) quote of
             Inl err \<Rightarrow> Inl err
           | Inr d \<Rightarrow> Inr
               \<lparr>qa_Quote = quote, qa_ObligationId = aa_ObligationId r,
                qa_AcceptanceId = acceptanceID (aa_QuoteId r), qa_SnapshotDigest = d,
                qa_ResourcePlan = qs_ResourcePlan snapshot, qa_WorkspaceId = qs_AcceptedWorkspaceID snapshot\<rparr>))"

definition accept_stored ::
  "env \<Rightarrow> AcceptQuoteRequest \<Rightarrow> string \<Rightarrow> quote_row \<Rightarrow> catalog_db \<Rightarrow> (go_error + QuoteAcceptance) \<times> catalog_db" where
  \<comment> \<open>the transaction once the row is locked and the call authorized\<close>
  "accept_stored e r tid row db =
     (case dec (cl_snapshot (ev_lib e)) (qt_admission_snapshot row) of
        None \<Rightarrow> (Inl (EStatus FailedPrecondition ''quote has no frozen resource plan''), db)
      | Some snapshot \<Rightarrow>
          if qs_ResourcePlan snapshot = None
          then (Inl (EStatus FailedPrecondition ''quote has no frozen resource plan''), db)
          else if qt_status row = ''accepted''
          then if coalesce_str (qt_accepted_by row) \<noteq> aa_ObligationId r \<or>
                  qs_AcceptedWorkspaceID snapshot \<noteq> aa_WorkspaceId r
               then (Inl (EStatus AlreadyExists ''this quote is already bound to another acceptance''), db)
               else (accept_result e r tid snapshot db, db)
          else if qt_status row = ''offered''
          then if qt_expires_at row \<le> ev_now e
               then (Inl (EStatus FailedPrecondition ''this quote has expired''), db)
               else
                 let bound = snapshot\<lparr>qs_AcceptedWorkspaceID := aa_WorkspaceId r\<rparr> in
                 if enc (cl_snapshot (ev_lib e)) bound = []
                 then (Inl (EStatus Internal ''encode quote binding''), db)
                 else case bind_quote e (aa_QuoteId r) (aa_ObligationId r) (enc (cl_snapshot (ev_lib e)) bound)
                        (cd_quotes db) of
                   Inl err \<Rightarrow> (Inl (dbError err), db)
                 | Inr rows \<Rightarrow>
                     (case accept_result e r tid bound (db\<lparr>cd_quotes := rows\<rparr>) of
                        Inl err \<Rightarrow> (Inl err, db)
                      | Inr a \<Rightarrow> (Inr a, db\<lparr>cd_quotes := rows\<rparr>))
          else (Inl (EStatus FailedPrecondition ''this quote cannot be accepted''), db))"

definition AcceptQuote ::
  "env \<Rightarrow> CallContext option \<Rightarrow> AcceptQuoteRequest \<Rightarrow> catalog_db \<Rightarrow> (go_error + QuoteAcceptance) \<times> catalog_db" where
  "AcceptQuote e call r db =
     (if ev_peer e \<noteq> Some ''workspace''
      then (Inl (EStatus Unauthenticated ''the verified Workspace owner is required''), db)
      else case ValidateCallContext (ev_peer e) (ev_now e) call of
        Some (code, msg) \<Rightarrow> (Inl (EStatus code msg), db)
      | None \<Rightarrow>
          if aa_QuoteId r = [] \<or> aa_ObligationId r = [] \<or> aa_WorkspaceId r = []
          then (Inl (EStatus InvalidArgument ''quoteId, workspaceId and obligationId are required''), db)
          else if coalesce_str (aa_PlanChangeId r) \<noteq> []
          then (Inl (EStatus Unimplemented ''this slice accepts only a deploy quote''), db)
          else
            let tid = call_tenant call;
                permitted = Authorize (ev_peer e) (ev_now e) (ev_auth e) call ''COMPLETEACCEPTEDOBLIGATION''
                  (Some \<lparr>ar_Kind = ''WORKSPACE'', ar_Id = Some (aa_WorkspaceId r)\<rparr>)
                  \<lparr>rs_TenantID = tid, rs_ActorID = []\<rparr> in
            if tid = [] then (Inl (EStatus InvalidArgument ''a tenant-scoped acceptance is required''), db)
            else case permitted of
              Some (code, msg) \<Rightarrow> (Inl (EStatus code msg), db)
            | None \<Rightarrow>
                (case find_quote db (aa_QuoteId r) tid of
                   None \<Rightarrow> (Inl (EStatus NotFound ''no such quote for this tenant''), db)
                 | Some row \<Rightarrow> accept_stored e r tid row db))"

section \<open>Reading the frozen plan\<close>

definition ReadQuoteResourcePlan ::
  "env \<Rightarrow> CallContext option \<Rightarrow> string \<Rightarrow> catalog_db \<Rightarrow> go_error + QuoteAcceptance" where
  "ReadQuoteResourcePlan e call qid db =
     (if ev_peer e \<notin> {Some ''workspace'', Some ''fabric'', Some ''ledger''}
      then Inl (EStatus Unauthenticated ''Workspace, Fabric or Ledger peer required'')
      else case ValidateCallContext (ev_peer e) (ev_now e) call of
        Some (code, msg) \<Rightarrow> Inl (EStatus code msg)
      | None \<Rightarrow>
          let tid = call_tenant call in
          if tid = [] \<or> qid = [] then Inl (EStatus InvalidArgument ''tenant and quote required'')
          else case readQuoteTx (ev_lib e) qid tid db of
            Inl err \<Rightarrow> Inl err
          | Inr quote \<Rightarrow>
              (case find_quote db qid tid of
                 None \<Rightarrow> Inl (dbError ENoRows)
               | Some row \<Rightarrow>
                   (case dec (cl_snapshot (ev_lib e)) (qt_admission_snapshot row) of
                      None \<Rightarrow> Inl (EStatus FailedPrecondition ''quote has no frozen resource plan'')
                    | Some snapshot \<Rightarrow>
                        if qs_ResourcePlan snapshot = None
                        then Inl (EStatus FailedPrecondition ''quote has no frozen resource plan'')
                        else
                          let granted = (case call of Some c \<Rightarrow> coalesce_str (ctx_AcceptedOperationGrantId c)
                                                    | None \<Rightarrow> []);
                              resource = (if granted \<noteq> []
                                then \<lparr>ar_Kind = ''WORKSPACE'', ar_Id = Some (qs_AcceptedWorkspaceID snapshot)\<rparr>
                                else \<lparr>ar_Kind = ''CATALOG'', ar_Id = None\<rparr>) in
                          case Authorize (ev_peer e) (ev_now e) (ev_auth e) call ''GETQUOTE''
                                 (Some resource) \<lparr>rs_TenantID = tid, rs_ActorID = []\<rparr> of
                            Some (code, msg) \<Rightarrow> Inl (EStatus code msg)
                          | None \<Rightarrow>
                              let out = \<lparr>qa_Quote = quote, qa_ObligationId = coalesce_str (qt_accepted_by row),
                                         qa_AcceptanceId = [], qa_SnapshotDigest = [],
                                         qa_ResourcePlan = qs_ResourcePlan snapshot,
                                         qa_WorkspaceId = qs_AcceptedWorkspaceID snapshot\<rparr> in
                              if qu_Status quote = ''ACCEPTED''
                              then (case acceptedSnapshotDigest (ev_lib e) quote of
                                      Inl err \<Rightarrow> Inl err
                                    | Inr d \<Rightarrow> Inr (out\<lparr>qa_AcceptanceId := acceptanceID (qu_Id quote),
                                                         qa_SnapshotDigest := d\<rparr>))
                              else Inr out)))"

end
