(* ===== verification/Catalog_Machine.thy ===== *)
theory Catalog_Machine
  imports Catalog_Offers
begin

text \<open>
  The catalog as a machine. Its commands are the handlers with their call environments; what a
  successful handler does to the tables is one rule of the step relation \<open>effect\<close>. The invariant is
  proved by rule inspection on \<open>effect\<close> and holds for every history.
\<close>

section \<open>Commands\<close>

datatype cat_command =
    CatComputePlan env "CallContext option" CreateComputePlanRequest
  | CatComputeAvailability env "CallContext option" string PlanAvailabilityRequest
  | CatStoragePlan env "CallContext option" CreateStoragePlanRequest
  | CatStorageAvailability env "CallContext option" string PlanAvailabilityRequest
  | CatPrice env "CallContext option" CreatePricePolicyRequest
  | CatRefund env "CallContext option" CreateRefundPolicyRequest
  | CatRetention env "CallContext option" CreateRetentionPolicyRequest
  | CatQuote env "CallContext option" "QuoteRequest option"
  | CatAccept env "CallContext option" AcceptQuoteRequest

fun cat_step :: "catlib \<Rightarrow> cat_command \<Rightarrow> catalog_db \<Rightarrow> catalog_db" where
  \<comment> \<open>all commands of one deployment use its encodings\<close>
  "cat_step L (CatComputePlan e c b) db = snd (CreateComputePlan (e\<lparr>ev_lib := L\<rparr>) c b db)"
| "cat_step L (CatComputeAvailability e c p b) db = snd (SetComputePlanAvailability (e\<lparr>ev_lib := L\<rparr>) c p b db)"
| "cat_step L (CatStoragePlan e c b) db = snd (CreateStoragePlan (e\<lparr>ev_lib := L\<rparr>) c b db)"
| "cat_step L (CatStorageAvailability e c p b) db = snd (SetStoragePlanAvailability (e\<lparr>ev_lib := L\<rparr>) c p b db)"
| "cat_step L (CatPrice e c b) db = snd (CreatePricePolicyVersion (e\<lparr>ev_lib := L\<rparr>) c b db)"
| "cat_step L (CatRefund e c b) db = snd (CreateRefundPolicyVersion (e\<lparr>ev_lib := L\<rparr>) c b db)"
| "cat_step L (CatRetention e c b) db = snd (CreateRetentionPolicyVersion (e\<lparr>ev_lib := L\<rparr>) c b db)"
| "cat_step L (CatQuote e c b) db = snd (CreateQuote (e\<lparr>ev_lib := L\<rparr>) c b db)"
| "cat_step L (CatAccept e c r) db = snd (AcceptQuote (e\<lparr>ev_lib := L\<rparr>) c r db)"

section \<open>The step relation\<close>

definition readable :: "catlib \<Rightarrow> quote_row \<Rightarrow> bool" where
  "readable L r \<longleftrightarrow> dec (cl_models L) (qt_model_selections r) \<noteq> None \<and>
     (\<exists>sn. dec (cl_snapshot L) (qt_admission_snapshot r) = Some sn \<and> qs_ResourcePlan sn \<noteq> None)"

definition offered :: "catlib \<Rightarrow> quote_row \<Rightarrow> bool" where
  "offered L r \<longleftrightarrow> qt_status r = ''offered'' \<and> qt_accepted_by r = None \<and> readable L r"

definition codecs_ok :: "catlib \<Rightarrow> bool" where
  "codecs_ok L \<longleftrightarrow> codec_ok (cl_snapshot L) \<and> codec_ok (cl_models L) \<and> codec_ok (cl_quote L)"

inductive effect :: "catlib \<Rightarrow> catalog_db \<Rightarrow> catalog_db \<Rightarrow> bool" for L where
  publish_compute: "insert_row compute_check plan_clash (\<lambda>_. True) row (cd_compute_plans db) = Inr rows \<Longrightarrow>
    effect L db (db\<lparr>cd_compute_plans := rows\<rparr>)"
| status_compute: "stored \<in> {''approved'', ''revoked''} \<Longrightarrow>
    effect L db (db\<lparr>cd_compute_plans := set_status e stored pid (cd_compute_plans db)\<rparr>)"
| publish_storage: "insert_row storage_check plan_clash (\<lambda>_. True) row (cd_storage_plans db) = Inr rows \<Longrightarrow>
    effect L db (db\<lparr>cd_storage_plans := rows\<rparr>)"
| status_storage: "stored \<in> {''approved'', ''revoked''} \<Longrightarrow>
    effect L db (db\<lparr>cd_storage_plans := set_status e stored pid (cd_storage_plans db)\<rparr>)"
| publish_price: "insert_row (price_check (cl_go L)) price_clash (price_fk db) row
      (cd_price_policy_versions db) = Inr rows \<Longrightarrow>
    AppendEvent (cl_go L) now ev (cd_store db) = Inr st \<Longrightarrow>
    effect L db (db\<lparr>cd_price_policy_versions := rows, cd_store := st\<rparr>)"
| publish_refund: "insert_row refund_check refund_clash (\<lambda>_. True) row (cd_refund_policy_versions db) = Inr rows \<Longrightarrow>
    effect L db (db\<lparr>cd_refund_policy_versions := rows\<rparr>)"
| publish_retention: "insert_row retention_check retention_clash (\<lambda>_. True) row
      (cd_retention_policy_versions db) = Inr rows \<Longrightarrow>
    effect L db (db\<lparr>cd_retention_policy_versions := rows\<rparr>)"
| offer: "insert_row quote_check quote_clash (quote_fk db) row (cd_quotes db) = Inr rows \<Longrightarrow> offered L row \<Longrightarrow>
    insertQuoteItems e (qt_id row) 0 lines (db\<lparr>cd_quotes := rows\<rparr>) = Inr db' \<Longrightarrow>
    effect L db db'"
| accept: "row \<in> set (cd_quotes db) \<Longrightarrow> qt_status row = ''offered'' \<Longrightarrow>
    dec (cl_snapshot L) (qt_admission_snapshot row) = Some sn \<Longrightarrow> qs_ResourcePlan sn \<noteq> None \<Longrightarrow>
    dec (cl_snapshot L) snapshot = Some (sn\<lparr>qs_AcceptedWorkspaceID := wid\<rparr>) \<Longrightarrow>
    bind_quote e (qt_id row) obligation snapshot (cd_quotes db) = Inr rows \<Longrightarrow>
    effect L db (db\<lparr>cd_quotes := rows\<rparr>)"

inductive_cases effectE: "effect L db db'"

definition committed :: "catlib \<Rightarrow> catalog_db \<Rightarrow> catalog_db \<Rightarrow> bool" where
  "committed L db db' \<longleftrightarrow> db' = db \<or>
     (\<exists>db1. effect L db db1 \<and> (db' = db1 \<or>
        (\<exists>now i st. RecordIdempotency now i (cd_store db1) = Inr st \<and> db' = db1\<lparr>cd_store := st\<rparr>)))"

lemma committedE:
  assumes "committed L db db'"
  obtains (same) "db' = db" | (effect) "effect L db db'"
  | (recorded) db1 now i st where "effect L db db1" "RecordIdempotency now i (cd_store db1) = Inr st"
      "db' = db1\<lparr>cd_store := st\<rparr>"
  using assms by (auto simp: committed_def)

section \<open>Handlers are effects\<close>

lemma effect_committed: "effect L db db' \<Longrightarrow> committed L db db'"
  by (auto simp: committed_def)

lemma insert_row_Inr:
  "insert_row chk clash fk r rows = Inr rows' \<longleftrightarrow>
     rows' = rows @ [r] \<and> chk r \<and> fk r \<and> (\<forall>x \<in> set rows. \<not> clash r x)"
  by (auto simp: insert_row_def sql_insert_def list_ex_iff)

lemma command_committed:
  assumes "\<And>r db1. work db = Inr (r, db1) \<Longrightarrow> effect L db db1"
  shows "committed L db (snd (command e c name request response work db))"
proof (cases "command e c name request response work db" rule: prod.exhaust)
  case (Pair res db')
  then show ?thesis
  proof (cases rule: command_cases)
    case (ran r db1 st)
    then show ?thesis using assms [OF ran(2)] Pair unfolding committed_def by auto
  qed (auto simp: committed_def Pair)
qed

lemma authorized_committed:
  assumes "\<And>c. committed L db (snd (handler c db))"
  shows "committed L db (snd (authorized e call action admin handler db))"
  using assms by (auto simp: authorized_def committed_def split: option.split)

lemma committed_refl [simp]: "committed L db db"
  by (simp add: committed_def)

lemma create_compute_effect:
  "create_compute_work e c b db = Inr (out, db1) \<Longrightarrow> effect L db db1"
  unfolding create_compute_work_def Let_def
  by (auto split: sum.splits intro: effect.publish_compute)

lemma create_storage_effect:
  "create_storage_work e c b db = Inr (out, db1) \<Longrightarrow> effect L db db1"
  unfolding create_storage_work_def Let_def
  by (auto split: sum.splits if_splits intro: effect.publish_storage)

lemma requestedStatus_Inr: "requestedStatus b = Inr stored \<Longrightarrow> stored \<in> {''approved'', ''revoked''}"
  by (auto simp: requestedStatus_def split: if_splits)

lemma set_compute_effect:
  "set_compute_work e stored pid db = Inr (out, db1) \<Longrightarrow> stored \<in> {''approved'', ''revoked''} \<Longrightarrow> effect L db db1"
  by (auto simp: set_compute_work_def Let_def split: option.splits sum.splits
      intro: effect.status_compute)

lemma set_storage_effect:
  "set_storage_work e stored pid db = Inr (out, db1) \<Longrightarrow> stored \<in> {''approved'', ''revoked''} \<Longrightarrow> effect L db db1"
  by (auto simp: set_storage_work_def Let_def split: option.splits sum.splits
      intro: effect.status_storage)

lemma create_price_effect:
  "create_price_work (e\<lparr>ev_lib := L\<rparr>) c b db = Inr (out, db1) \<Longrightarrow> effect L db db1"
  unfolding create_price_work_def emitPolicyChanged_def Let_def
  by (auto split: option.splits sum.splits if_splits intro: effect.publish_price)

lemma create_refund_effect:
  "create_refund_work e c b db = Inr (out, db1) \<Longrightarrow> effect L db db1"
  unfolding create_refund_work_def Let_def
  by (auto split: option.splits sum.splits intro: effect.publish_refund)

lemma create_retention_effect:
  "create_retention_work e c b db = Inr (out, db1) \<Longrightarrow> effect L db db1"
  unfolding create_retention_work_def Let_def
  by (auto split: option.splits sum.splits intro: effect.publish_retention)

text \<open>A created quote, taken apart once for every proof that needs it.\<close>

lemma create_quote_workE:
  assumes "create_quote_work e c request selection db = Inr (out, db')"
  obtains res plan lines amount snapshot rows where
    "resolvePrice e (qr_ComputePlanId request) (qr_StoragePlanId request) (ev_now e) db = Inr res"
    "assertAvailablePlanPair db (qr_ComputePlanId request) (qr_StoragePlanId request) (ev_now e) = None"
    "frozenResourcePlan e db (qr_ComputePlanId request) (qr_StoragePlanId request) (qr_PeriodMonths request) = Inr plan"
    "pricedLineItems (pr_Price res) = Inr (lines, amount)"
    "snapshot = enc (cl_snapshot (ev_lib e)) (new_snapshot e request res plan)" "snapshot \<noteq> []"
    "enc (cl_models (ev_lib e)) (qr_ModelSelections request) \<noteq> []"
    "out = new_quote e request selection res lines amount"
    "insert_row quote_check quote_clash (quote_fk db) (new_quote_row e c request selection snapshot out)
       (cd_quotes db) = Inr rows"
    "insertQuoteItems e (qu_Id out) 0 lines (db\<lparr>cd_quotes := rows\<rparr>) = Inr db'"
  using assms unfolding create_quote_work_def Let_def
  by (auto split: sum.splits option.splits prod.splits if_splits)

lemma create_quote_effect:
  assumes "codecs_ok (ev_lib e)" and "create_quote_work e c request selection db = Inr (out, db')"
  shows "effect (ev_lib e) db db'"
  using assms(2)
proof (rule create_quote_workE)
  fix res plan lines amount snapshot rows
  assume snap: "snapshot = enc (cl_snapshot (ev_lib e)) (new_snapshot e request res plan)" "snapshot \<noteq> []"
    and models: "enc (cl_models (ev_lib e)) (qr_ModelSelections request) \<noteq> []"
    and ins: "insert_row quote_check quote_clash (quote_fk db)
       (new_quote_row e c request selection snapshot out) (cd_quotes db) = Inr rows"
    and items: "insertQuoteItems e (qu_Id out) 0 lines (db\<lparr>cd_quotes := rows\<rparr>) = Inr db'"
  let ?row = "new_quote_row e c request selection snapshot out"
  from assms(1) snap models have "dec (cl_snapshot (ev_lib e)) snapshot = Some (new_snapshot e request res plan)"
    "dec (cl_models (ev_lib e)) (enc (cl_models (ev_lib e)) (qr_ModelSelections request)) =
       Some (qr_ModelSelections request)"
    by (auto simp: codecs_ok_def codec_ok_def)
  then have "offered (ev_lib e) ?row"
    by (simp add: offered_def readable_def new_quote_row_def new_snapshot_def)
  with ins items show ?thesis
    by (intro effect.offer [where row = ?row]) (simp_all add: new_quote_row_def)
qed

section \<open>Acceptance, taken apart\<close>

definition accept_permitted :: "env \<Rightarrow> CallContext option \<Rightarrow> AcceptQuoteRequest \<Rightarrow> bool" where
  \<comment> \<open>what \<open>AcceptQuote\<close> establishes before it looks at the quote\<close>
  "accept_permitted e call r \<longleftrightarrow>
     ev_peer e = Some ''workspace'' \<and> ValidateCallContext (ev_peer e) (ev_now e) call = None \<and>
     aa_QuoteId r \<noteq> [] \<and> aa_ObligationId r \<noteq> [] \<and> aa_WorkspaceId r \<noteq> [] \<and>
     coalesce_str (aa_PlanChangeId r) = [] \<and> call_tenant call \<noteq> [] \<and>
     Authorize (ev_peer e) (ev_now e) (ev_auth e) call ''COMPLETEACCEPTEDOBLIGATION''
       (Some \<lparr>ar_Kind = ''WORKSPACE'', ar_Id = Some (aa_WorkspaceId r)\<rparr>)
       \<lparr>rs_TenantID = call_tenant call, rs_ActorID = []\<rparr> = None"

lemma accept_permitted_lib [simp]: "accept_permitted (e\<lparr>ev_lib := L\<rparr>) call r = accept_permitted e call r"
  by (simp add: accept_permitted_def)

lemma AcceptQuote_refused: "\<not> accept_permitted e call r \<Longrightarrow> \<exists>err. AcceptQuote e call r db = (Inl err, db)"
  unfolding AcceptQuote_def accept_permitted_def Let_def by (auto split: option.splits if_splits)

lemma AcceptQuote_permitted:
  "accept_permitted e call r \<Longrightarrow>
     AcceptQuote e call r db =
       (case find_quote db (aa_QuoteId r) (call_tenant call) of
          None \<Rightarrow> (Inl (EStatus NotFound ''no such quote for this tenant''), db)
        | Some row \<Rightarrow> accept_stored e r (call_tenant call) row db)"
  unfolding AcceptQuote_def accept_permitted_def Let_def by auto

definition binding :: "env \<Rightarrow> AcceptQuoteRequest \<Rightarrow> quoteSnapshot \<Rightarrow> string" where
  "binding e r sn = enc (cl_snapshot (ev_lib e)) (sn\<lparr>qs_AcceptedWorkspaceID := aa_WorkspaceId r\<rparr>)"

lemma accept_stored_cases:
  assumes "accept_stored e r tid row db = (res, db')"
  obtains (failed) err where "res = Inl err" "db' = db"
  | (replay) sn where "dec (cl_snapshot (ev_lib e)) (qt_admission_snapshot row) = Some sn"
      "qs_ResourcePlan sn \<noteq> None" "qt_status row = ''accepted''"
      "coalesce_str (qt_accepted_by row) = aa_ObligationId r" "qs_AcceptedWorkspaceID sn = aa_WorkspaceId r"
      "res = accept_result e r tid sn db" "db' = db"
  | (bound) sn rows a where "dec (cl_snapshot (ev_lib e)) (qt_admission_snapshot row) = Some sn"
      "qs_ResourcePlan sn \<noteq> None" "qt_status row = ''offered''" "ev_now e < qt_expires_at row"
      "binding e r sn \<noteq> []"
      "bind_quote e (aa_QuoteId r) (aa_ObligationId r) (binding e r sn) (cd_quotes db) = Inr rows"
      "accept_result e r tid (sn\<lparr>qs_AcceptedWorkspaceID := aa_WorkspaceId r\<rparr>) (db\<lparr>cd_quotes := rows\<rparr>) = Inr a"
      "res = Inr a" "db' = db\<lparr>cd_quotes := rows\<rparr>"
proof (cases "dec (cl_snapshot (ev_lib e)) (qt_admission_snapshot row)")
  case None
  with assms show ?thesis by (intro failed) (auto simp: accept_stored_def)
next
  case (Some sn)
  note run = assms [unfolded accept_stored_def Some Let_def, simplified, folded binding_def]
  consider "qs_ResourcePlan sn = None" | "qs_ResourcePlan sn \<noteq> None" "qt_status row = ''accepted''"
    | "qs_ResourcePlan sn \<noteq> None" "qt_status row = ''offered''"
    | "qs_ResourcePlan sn \<noteq> None" "qt_status row \<noteq> ''accepted''" "qt_status row \<noteq> ''offered''" by blast
  then show ?thesis
  proof cases
    case 1
    with run show ?thesis by (intro failed) auto
  next
    case 2
    with run show ?thesis by (auto split: if_splits intro: failed replay [OF Some])
  next
    case 3
    show ?thesis
    proof (cases "qt_expires_at row \<le> ev_now e \<or> binding e r sn = []")
      case True
      with run 3 show ?thesis by (auto split: if_splits intro: failed)
    next
      case live: False
      show ?thesis
      proof (cases "bind_quote e (aa_QuoteId r) (aa_ObligationId r) (binding e r sn) (cd_quotes db)")
        case (Inl err)
        with run 3 live show ?thesis by (intro failed) auto
      next
        case (Inr rows)
        define out where "out = accept_result e r tid (sn\<lparr>qs_AcceptedWorkspaceID := aa_WorkspaceId r\<rparr>)
          (db\<lparr>cd_quotes := rows\<rparr>)"
        from run 3 live Inr have "(case out of Inl err \<Rightarrow> (Inl err, db)
          | Inr a \<Rightarrow> (Inr a, db\<lparr>cd_quotes := rows\<rparr>)) = (res, db')"
          by (simp add: out_def)
        moreover note bound [OF Some 3 _ _ Inr, folded out_def] failed
        ultimately show ?thesis using live by (cases out) auto
      qed
    qed
  next
    case 4
    with run show ?thesis by (intro failed) auto
  qed
qed

lemma find_quoteD:
  "find_quote db qid tid = Some row \<Longrightarrow> row \<in> set (cd_quotes db) \<and> qt_id row = qid \<and> qt_tenant_id row = tid"
  unfolding find_quote_def by (auto dest: find_SomeD)

lemma accept_committed:
  assumes ok: "codecs_ok (ev_lib e)"
  shows "committed (ev_lib e) db (snd (AcceptQuote e call r db))"
proof (cases "accept_permitted e call r")
  case True
  show ?thesis
  proof (cases "find_quote db (aa_QuoteId r) (call_tenant call)")
    case None
    with True show ?thesis by (simp add: AcceptQuote_permitted)
  next
    case (Some row)
    obtain res db' where run: "accept_stored e r (call_tenant call) row db = (res, db')" by force
    then have "committed (ev_lib e) db db'"
    proof (cases rule: accept_stored_cases)
      case (bound sn rows a)
      from ok bound(5) have "dec (cl_snapshot (ev_lib e)) (binding e r sn) =
          Some (sn\<lparr>qs_AcceptedWorkspaceID := aa_WorkspaceId r\<rparr>)"
        by (auto simp: codecs_ok_def codec_ok_def binding_def)
      with bound find_quoteD [OF Some] have "effect (ev_lib e) db (db\<lparr>cd_quotes := rows\<rparr>)"
        by (intro effect.accept [where row = row and sn = sn and snapshot = "binding e r sn" and e = e
              and obligation = "aa_ObligationId r" and wid = "aa_WorkspaceId r"]) auto
      then show ?thesis using bound(9) by (simp add: effect_committed)
    qed simp_all
    with True Some run show ?thesis by (simp add: AcceptQuote_permitted)
  qed
next
  case False
  from AcceptQuote_refused [OF this] obtain err where "AcceptQuote e call r db = (Inl err, db)" by blast
  then show ?thesis by simp
qed

theorem cat_step_committed:
  assumes "codecs_ok L"
  shows "committed L db (cat_step L cmd db)"
proof (cases cmd)
  case (CatComputePlan e c b)
  then show ?thesis
    by (simp add: CreateComputePlan_def)
       (auto intro!: authorized_committed command_committed create_compute_effect)
next
  case (CatComputeAvailability e c p b)
  then show ?thesis
    by (simp add: SetComputePlanAvailability_def)
       (auto intro!: authorized_committed command_committed split: sum.split
          intro: set_compute_effect [OF _ requestedStatus_Inr])
next
  case (CatStoragePlan e c b)
  then show ?thesis
    by (simp add: CreateStoragePlan_def)
       (auto intro!: authorized_committed command_committed create_storage_effect)
next
  case (CatStorageAvailability e c p b)
  then show ?thesis
    by (simp add: SetStoragePlanAvailability_def)
       (auto intro!: authorized_committed command_committed split: sum.split
          intro: set_storage_effect [OF _ requestedStatus_Inr])
next
  case (CatPrice e c b)
  then show ?thesis
    by (simp add: CreatePricePolicyVersion_def)
       (auto intro!: authorized_committed command_committed create_price_effect)
next
  case (CatRefund e c b)
  then show ?thesis
    by (simp add: CreateRefundPolicyVersion_def)
       (auto intro!: authorized_committed command_committed create_refund_effect)
next
  case (CatRetention e c b)
  then show ?thesis
    by (simp add: CreateRetentionPolicyVersion_def)
       (auto intro!: authorized_committed command_committed create_retention_effect)
next
  case (CatQuote e c b)
  have "effect L db db1"
    if "create_quote_work (e\<lparr>ev_lib := L\<rparr>) c' q sel db = Inr (out, db1)" for c' q sel out db1
    using create_quote_effect [OF _ that] assms by simp
  then have "committed L db (snd (CreateQuote (e\<lparr>ev_lib := L\<rparr>) c b db))"
    unfolding CreateQuote_def
    by (intro authorized_committed) (auto intro!: command_committed split: sum.split option.split)
  then show ?thesis using CatQuote by simp
next
  case (CatAccept e c r)
  then show ?thesis using accept_committed [of "e\<lparr>ev_lib := L\<rparr>"] assms by simp
qed

end
