(* ===== verification/Catalog_Laws.thy ===== *)
theory Catalog_Laws
  imports Catalog_Machine Interfaces
begin

text \<open>
  The laws of the catalog: the invariant of its tables, the evolution of an offer, and the binding of
  a quote to one accepted operation, each for every history of commands. A deployment is the catalog's
  encodings with its database.
\<close>

section \<open>The invariant\<close>

definition table_ok :: "('r \<Rightarrow> bool) \<Rightarrow> ('r \<Rightarrow> 'r \<Rightarrow> bool) \<Rightarrow> 'r list \<Rightarrow> bool" where
  "table_ok chk clash rows \<longleftrightarrow> list_all chk rows \<and> sorted_wrt (\<lambda>a b. \<not> clash b a) rows"

definition cat_ok :: "catlib \<Rightarrow> catalog_db \<Rightarrow> bool" where
  "cat_ok L db \<longleftrightarrow> outbox_ok (cd_store db) \<and>
     table_ok compute_check plan_clash (cd_compute_plans db) \<and>
     table_ok storage_check plan_clash (cd_storage_plans db) \<and>
     table_ok (price_check (cl_go L)) price_clash (cd_price_policy_versions db) \<and>
     table_ok refund_check refund_clash (cd_refund_policy_versions db) \<and>
     table_ok retention_check retention_clash (cd_retention_policy_versions db) \<and>
     table_ok quote_check quote_clash (cd_quotes db) \<and>
     table_ok item_check item_clash (cd_quote_items db) \<and>
     list_all (price_fk db) (cd_price_policy_versions db) \<and>
     list_all (quote_fk db) (cd_quotes db) \<and>
     list_all (\<lambda>i. qi_quote_id i \<in> qt_id ` set (cd_quotes db)) (cd_quote_items db) \<and>
     list_all (readable L) (cd_quotes db)"

definition empty_catalog :: catalog_db where
  "empty_catalog =
     \<lparr>cd_store = empty_store ''resource_catalog'', cd_compute_plans = [], cd_storage_plans = [],
      cd_price_policy_versions = [], cd_refund_policy_versions = [], cd_retention_policy_versions = [],
      cd_quotes = [], cd_quote_items = []\<rparr>"

lemma table_ok_Nil [simp]: "table_ok chk clash []"
  by (simp add: table_ok_def)

lemma table_ok_insert: "table_ok chk clash rows \<Longrightarrow> insert_row chk clash fk r rows = Inr rows' \<Longrightarrow> table_ok chk clash rows'"
  by (auto simp: table_ok_def insert_row_Inr sorted_wrt_append)

lemma table_ok_update:
  assumes "table_ok chk clash rows" and "\<And>r. r \<in> set rows \<Longrightarrow> chk r \<Longrightarrow> chk (f r)"
    and "\<And>a b. a \<in> set rows \<Longrightarrow> b \<in> set rows \<Longrightarrow> clash (f b) (f a) \<Longrightarrow> clash b a"
  shows "table_ok chk clash (map f rows)"
proof -
  from assms(1) have "sorted_wrt (\<lambda>a b. \<not> clash b a) rows" by (simp add: table_ok_def)
  then have "sorted_wrt (\<lambda>a b. \<not> clash (f b) (f a)) rows"
    by (rule sorted_wrt_mono_rel [rotated]) (use assms(3) in blast)
  with assms(1,2) show ?thesis by (auto simp: table_ok_def sorted_wrt_map list_all_iff)
qed

lemma table_ok_distinct:
  assumes "table_ok chk clash rows" and "\<And>a b. k a = k b \<Longrightarrow> clash a b"
  shows "distinct (map k rows)"
  using assms by (induction rows) (auto simp: table_ok_def)

lemma table_ok_unique:
  assumes "table_ok chk clash rows" and "a \<in> set rows" "b \<in> set rows" and "clash a b" "clash b a"
  shows "a = b"
  using assms by (induction rows) (auto simp: table_ok_def)

lemma set_status_map:
  "set_status e stored pid rows =
     map (\<lambda>r. if pl_id r = pid then r\<lparr>pl_status := stored, pl_updated_at := ev_tx e\<rparr> else r) rows"
  by (simp add: set_status_def update_rows_def)

lemma set_status_ids [simp]: "pl_id ` set (set_status e stored pid rows) = pl_id ` set rows"
proof -
  have "map pl_id (set_status e stored pid rows) = map pl_id rows" by (simp add: set_status_map)
  then show ?thesis by (metis set_map)
qed

lemma insertQuoteItems_Inr:
  assumes "insertQuoteItems e qid k lines db = Inr db'"
  shows "db' = db\<lparr>cd_quote_items := cd_quote_items db @
           map (\<lambda>(i, l). new_item_row e qid i l) (enumerate k lines)\<rparr>"
    and "table_ok item_check item_clash (cd_quote_items db) \<Longrightarrow> table_ok item_check item_clash (cd_quote_items db')"
proof -
  have "db' = db\<lparr>cd_quote_items := cd_quote_items db @
           map (\<lambda>(i, l). new_item_row e qid i l) (enumerate k lines)\<rparr> \<and>
        (table_ok item_check item_clash (cd_quote_items db) \<longrightarrow> table_ok item_check item_clash (cd_quote_items db'))"
    using assms
  proof (induction lines arbitrary: k db)
    case (Cons line lines)
    let ?row = "new_item_row e qid k line"
    from Cons.prems obtain rows where rows:
      "insert_row item_check item_clash (\<lambda>r. qi_quote_id r \<in> qt_id ` set (cd_quotes db)) ?row (cd_quote_items db) = Inr rows"
      "insertQuoteItems e qid (Suc k) lines (db\<lparr>cd_quote_items := rows\<rparr>) = Inr db'"
      by (auto split: sum.splits)
    then have "rows = cd_quote_items db @ [?row]" by (simp add: insert_row_Inr)
    with Cons.IH [OF rows(2)] table_ok_insert [OF _ rows(1)] show ?case by auto
  qed simp
  then show "db' = db\<lparr>cd_quote_items := cd_quote_items db @
           map (\<lambda>(i, l). new_item_row e qid i l) (enumerate k lines)\<rparr>"
    and "table_ok item_check item_clash (cd_quote_items db) \<Longrightarrow> table_ok item_check item_clash (cd_quote_items db')"
    by blast+
qed

lemma new_item_row_quote [simp]: "qi_quote_id (new_item_row e qid k l) = qid"
  by (simp add: new_item_row_def)

section \<open>Binding\<close>

definition bound_row :: "env \<Rightarrow> string \<Rightarrow> string \<Rightarrow> quote_row \<Rightarrow> quote_row" where
  "bound_row e obligation snapshot r =
     r\<lparr>qt_status := ''accepted'', qt_accepted_by := Some obligation,
       qt_accepted_at := Some (ev_tx e), qt_admission_snapshot := snapshot\<rparr>"

definition bind_row :: "env \<Rightarrow> string \<Rightarrow> string \<Rightarrow> string \<Rightarrow> quote_row \<Rightarrow> quote_row" where
  "bind_row e qid obligation snapshot r =
     (if qt_id r = qid \<and> qt_status r = ''offered'' then bound_row e obligation snapshot r else r)"

lemma bind_row_id [simp]:
  "qt_id (bind_row e qid obligation snapshot r) = qt_id r"
  "qt_tenant_id (bind_row e qid obligation snapshot r) = qt_tenant_id r"
  by (simp_all add: bind_row_def bound_row_def)

lemma bind_quote_Inr:
  "bind_quote e qid obligation snapshot rows = Inr rows' \<longleftrightarrow>
     rows' = map (bind_row e qid obligation snapshot) rows \<and>
     ((\<exists>r \<in> set rows. qt_id r = qid \<and> qt_status r = ''offered'') \<longrightarrow>
      (\<forall>r \<in> set rows. \<not> (qt_id r = qid \<and> qt_status r = ''offered'') \<longrightarrow> qt_accepted_by r \<noteq> Some obligation))"
proof -
  have "update_rows (\<lambda>r. qt_id r = qid \<and> qt_status r = ''offered'')
      (\<lambda>r. r\<lparr>qt_status := ''accepted'', qt_accepted_by := Some obligation, qt_accepted_at := Some (ev_tx e),
        qt_admission_snapshot := snapshot\<rparr>) rows = map (bind_row e qid obligation snapshot) rows"
    by (simp add: update_rows_def bind_row_def bound_row_def)
  then show ?thesis unfolding bind_quote_def Let_def list_ex_iff by (simp only:) (simp, blast)
qed

lemma quote_check_bound: "quote_check r \<Longrightarrow> quote_check (bound_row e obligation snapshot r)"
  unfolding quote_check_def bound_row_def by simp blast

lemma quote_check_bind: "quote_check r \<Longrightarrow> quote_check (bind_row e qid obligation snapshot r)"
  by (simp add: bind_row_def quote_check_bound)

lemma bind_quote_table_ok:
  assumes "table_ok quote_check quote_clash rows" and "bind_quote e qid obligation snapshot rows = Inr rows'"
  shows "table_ok quote_check quote_clash rows'"
proof -
  note B = assms(2) [unfolded bind_quote_Inr]
  have "table_ok quote_check quote_clash (map (bind_row e qid obligation snapshot) rows)"
  proof (rule table_ok_update [OF assms(1)])
    fix a b assume ab: "a \<in> set rows" "b \<in> set rows"
      and "quote_clash (bind_row e qid obligation snapshot b) (bind_row e qid obligation snapshot a)"
    with B show "quote_clash b a"
      by (fastforce simp: quote_clash_def bind_row_def bound_row_def split: if_splits)
  qed (rule quote_check_bind)
  then show ?thesis using B by simp
qed

section \<open>Every command keeps the invariant\<close>

lemma plan_check_status:
  "stored \<in> {''approved'', ''revoked''} \<Longrightarrow> plan_check r \<Longrightarrow>
     plan_check (r\<lparr>pl_status := stored, pl_updated_at := t\<rparr>)"
  by (auto simp: plan_check_def)

lemma set_status_table_ok:
  assumes "table_ok chk plan_clash rows" and "\<And>r. chk r \<Longrightarrow> chk (r\<lparr>pl_status := stored, pl_updated_at := ev_tx e\<rparr>)"
  shows "table_ok chk plan_clash (set_status e stored pid rows)"
  unfolding set_status_map
  by (rule table_ok_update [OF assms(1)]) (auto simp: assms(2) plan_clash_def split: if_splits)

lemma fk_mono:
  "pl_id ` set (cd_compute_plans db) \<subseteq> pl_id ` set (cd_compute_plans db') \<Longrightarrow>
   pl_id ` set (cd_storage_plans db) \<subseteq> pl_id ` set (cd_storage_plans db') \<Longrightarrow> price_fk db r \<Longrightarrow> price_fk db' r"
  "pl_id ` set (cd_compute_plans db) \<subseteq> pl_id ` set (cd_compute_plans db') \<Longrightarrow>
   pl_id ` set (cd_storage_plans db) \<subseteq> pl_id ` set (cd_storage_plans db') \<Longrightarrow>
   pp_id ` set (cd_price_policy_versions db) \<subseteq> pp_id ` set (cd_price_policy_versions db') \<Longrightarrow>
   rf_id ` set (cd_refund_policy_versions db) \<subseteq> rf_id ` set (cd_refund_policy_versions db') \<Longrightarrow>
   rv_id ` set (cd_retention_policy_versions db) \<subseteq> rv_id ` set (cd_retention_policy_versions db') \<Longrightarrow>
   quote_fk db q \<Longrightarrow> quote_fk db' q"
  unfolding price_fk_def quote_fk_def by blast+

text \<open>Only plans are ever updated, and no row is ever removed: references stay valid.\<close>

lemma effect_references:
  assumes "effect L db db'"
  shows "pl_id ` set (cd_compute_plans db) \<subseteq> pl_id ` set (cd_compute_plans db')"
    and "pl_id ` set (cd_storage_plans db) \<subseteq> pl_id ` set (cd_storage_plans db')"
    and "pp_id ` set (cd_price_policy_versions db) \<subseteq> pp_id ` set (cd_price_policy_versions db')"
    and "rf_id ` set (cd_refund_policy_versions db) \<subseteq> rf_id ` set (cd_refund_policy_versions db')"
    and "rv_id ` set (cd_retention_policy_versions db) \<subseteq> rv_id ` set (cd_retention_policy_versions db')"
    and "qt_id ` set (cd_quotes db) \<subseteq> qt_id ` set (cd_quotes db')"
  using assms
  by (cases; auto simp: insert_row_Inr bind_quote_Inr image_image dest!: insertQuoteItems_Inr(1))+

lemma effect_fk:
  assumes "effect L db db'"
  shows "price_fk db r \<Longrightarrow> price_fk db' r" and "quote_fk db q \<Longrightarrow> quote_fk db' q"
  using effect_references [OF assms] by (auto intro: fk_mono)

lemma effect_tables_ok:
  assumes "cat_ok L db" and "effect L db db'"
  shows "table_ok compute_check plan_clash (cd_compute_plans db')"
    and "table_ok storage_check plan_clash (cd_storage_plans db')"
    and "table_ok (price_check (cl_go L)) price_clash (cd_price_policy_versions db')"
    and "table_ok refund_check refund_clash (cd_refund_policy_versions db')"
    and "table_ok retention_check retention_clash (cd_retention_policy_versions db')"
proof -
  note ok = assms(1) [unfolded cat_ok_def]
  have chk: "compute_check (r\<lparr>pl_status := s, pl_updated_at := t\<rparr>)" if "compute_check r" "s \<in> {''approved'', ''revoked''}" for r s t
    using that plan_check_status [of s r t] by (simp add: compute_check_def)
  have chk': "storage_check (r\<lparr>pl_status := s, pl_updated_at := t\<rparr>)" if "storage_check r" "s \<in> {''approved'', ''revoked''}" for r s t
    using that plan_check_status [of s r t] by (simp add: storage_check_def)
  show "table_ok compute_check plan_clash (cd_compute_plans db')"
    using assms(2) ok
    by cases (auto dest!: insertQuoteItems_Inr(1) intro: table_ok_insert set_status_table_ok chk)
  show "table_ok storage_check plan_clash (cd_storage_plans db')"
    using assms(2) ok
    by cases (auto dest!: insertQuoteItems_Inr(1) intro: table_ok_insert set_status_table_ok chk')
  show "table_ok (price_check (cl_go L)) price_clash (cd_price_policy_versions db')"
    using assms(2) ok by cases (auto dest!: insertQuoteItems_Inr(1) intro: table_ok_insert)
  show "table_ok refund_check refund_clash (cd_refund_policy_versions db')"
    using assms(2) ok by cases (auto dest!: insertQuoteItems_Inr(1) intro: table_ok_insert)
  show "table_ok retention_check retention_clash (cd_retention_policy_versions db')"
    using assms(2) ok by cases (auto dest!: insertQuoteItems_Inr(1) intro: table_ok_insert)
qed

lemma RecordIdempotency_outbox_ok [keeps]:
  assumes "outbox_ok s" and "RecordIdempotency now i s = Inr s'"
  shows "outbox_ok s'"
proof -
  have "store_ok s'" using assms RecordIdempotency_store_ok by (auto simp: outbox_ok_def)
  then show ?thesis using assms(1) RecordIdempotency_InrD(2) [OF assms(2)]
    by (simp add: outbox_ok_def consumers_of_def)
qed

lemma quote_ids_distinct: "cat_ok L db \<Longrightarrow> distinct (map qt_id (cd_quotes db))"
  unfolding cat_ok_def by (blast intro: table_ok_distinct [where clash = quote_clash] quote_clash_def [THEN iffD2])

lemma quote_id_eq:
  "cat_ok L db \<Longrightarrow> a \<in> set (cd_quotes db) \<Longrightarrow> b \<in> set (cd_quotes db) \<Longrightarrow> qt_id a = qt_id b \<Longrightarrow> a = b"
  using quote_ids_distinct by (metis distinct_map inj_onD)

lemma readable_bound:
  assumes "dec (cl_snapshot L) snapshot = Some (sn\<lparr>qs_AcceptedWorkspaceID := wid\<rparr>)"
    and "qs_ResourcePlan sn \<noteq> None" and "readable L r"
  shows "readable L (bind_row e qid obligation snapshot r)"
  using assms by (auto simp: bind_row_def bound_row_def readable_def)

lemma effect_quotes_ok:
  assumes ok: "cat_ok L db" and "effect L db db'"
  shows "table_ok quote_check quote_clash (cd_quotes db')"
    and "table_ok item_check item_clash (cd_quote_items db')"
    and "list_all (readable L) (cd_quotes db')"
    and "list_all (\<lambda>i. qi_quote_id i \<in> qt_id ` set (cd_quotes db')) (cd_quote_items db')"
proof -
  note ok = ok [unfolded cat_ok_def]
  show "table_ok quote_check quote_clash (cd_quotes db')"
    using assms(2) ok
    by cases (auto dest!: insertQuoteItems_Inr(1) intro: table_ok_insert bind_quote_table_ok)
  show "table_ok item_check item_clash (cd_quote_items db')"
    using assms(2) ok by cases (auto dest: insertQuoteItems_Inr(2))
  show "list_all (readable L) (cd_quotes db')"
    using assms(2) ok
    by cases (auto dest!: insertQuoteItems_Inr(1) simp: insert_row_Inr offered_def bind_quote_Inr list_all_iff
        intro: readable_bound)
  show "list_all (\<lambda>i. qi_quote_id i \<in> qt_id ` set (cd_quotes db')) (cd_quote_items db')"
    using assms(2) ok
    by cases (auto dest!: insertQuoteItems_Inr(1) simp: insert_row_Inr bind_quote_Inr list_all_iff image_image)
qed

lemma effect_outbox_ok:
  assumes "cat_ok L db" and "effect L db db'"
  shows "outbox_ok (cd_store db')"
  using assms(2) assms(1) [unfolded cat_ok_def]
  by cases (auto dest!: insertQuoteItems_Inr(1) intro: AppendEvent_outbox_ok)

lemma effect_new_fk:
  assumes "cat_ok L db" and "effect L db db'"
  shows "list_all (price_fk db') (cd_price_policy_versions db')" and "list_all (quote_fk db') (cd_quotes db')"
proof -
  note ok = assms(1) [unfolded cat_ok_def]
  have "list_all (price_fk db) (cd_price_policy_versions db')"
    using assms(2) ok by cases (auto dest!: insertQuoteItems_Inr(1) simp: insert_row_Inr list_all_iff)
  then show "list_all (price_fk db') (cd_price_policy_versions db')"
    using effect_fk(1) [OF assms(2)] by (auto simp: list_all_iff)
  have "list_all (quote_fk db) (cd_quotes db')"
    using assms(2) ok
    by cases (auto dest!: insertQuoteItems_Inr(1)
        simp: insert_row_Inr bind_quote_Inr list_all_iff quote_fk_def bind_row_def bound_row_def)
  then show "list_all (quote_fk db') (cd_quotes db')"
    using effect_fk(2) [OF assms(2)] by (auto simp: list_all_iff)
qed

lemma effect_cat_ok: "cat_ok L db \<Longrightarrow> effect L db db' \<Longrightarrow> cat_ok L db'"
  unfolding cat_ok_def [of L db']
  by (intro conjI) (blast intro: effect_outbox_ok effect_tables_ok effect_quotes_ok effect_new_fk)+

lemma cat_ok_store:
  "cat_ok L db \<Longrightarrow> outbox_ok st \<Longrightarrow> cat_ok L (db\<lparr>cd_store := st\<rparr>)"
  unfolding cat_ok_def price_fk_def [abs_def] quote_fk_def [abs_def] by simp

lemma committed_cat_ok:
  assumes "cat_ok L db" and "committed L db db'"
  shows "cat_ok L db'"
  using assms(2)
proof (cases rule: committedE)
  case (recorded db1 now i st)
  have "cat_ok L db1" using effect_cat_ok [OF assms(1) recorded(1)] .
  moreover have "outbox_ok st"
    using \<open>cat_ok L db1\<close> recorded(2) RecordIdempotency_outbox_ok by (auto simp: cat_ok_def)
  ultimately show ?thesis using recorded(3) by (simp add: cat_ok_store)
qed (use assms effect_cat_ok in auto)

lemma cat_step_ok: "codecs_ok L \<Longrightarrow> cat_ok L db \<Longrightarrow> cat_ok L (cat_step L cmd db)"
  by (blast intro: committed_cat_ok cat_step_committed)

lemma empty_catalog_ok [simp]: "cat_ok L empty_catalog"
  by (simp add: cat_ok_def empty_catalog_def)

end
