(* ===== verification/Catalog_Acceptance.thy ===== *)
theory Catalog_Acceptance
  imports Catalog_Laws
begin

text \<open>
  The life of an offer: it is stored once, its terms and lines never change, and the Workspace owner
  binds it to exactly one operation (\<open>accept.go\<close>). Acceptance is a keyed recorder: the key is the
  quote of the tenant, the fingerprint the obligation and the workspace it is accepted for.
\<close>

section \<open>Evolution of an offer\<close>

definition quote_evolves :: "catlib \<Rightarrow> quote_row \<Rightarrow> quote_row \<Rightarrow> bool" where
  "quote_evolves L r r' \<longleftrightarrow> r' = r \<or>
     (qt_status r = ''offered'' \<and> (\<exists>e obligation snapshot sn wid.
        r' = bound_row e obligation snapshot r \<and>
        dec (cl_snapshot L) (qt_admission_snapshot r) = Some sn \<and>
        dec (cl_snapshot L) snapshot = Some (sn\<lparr>qs_AcceptedWorkspaceID := wid\<rparr>)))"

lemma quote_evolves_refl [simp]: "quote_evolves L r r"
  by (simp add: quote_evolves_def)

lemma bound_row_status [simp]:
  "qt_status (bound_row e obligation snapshot r) = ''accepted''"
  "qt_accepted_by (bound_row e obligation snapshot r) = Some obligation"
  "qt_admission_snapshot (bound_row e obligation snapshot r) = snapshot"
  by (simp_all add: bound_row_def)

lemma quote_evolves_final: "quote_evolves L r r' \<Longrightarrow> qt_status r \<noteq> ''offered'' \<Longrightarrow> r' = r"
  by (simp add: quote_evolves_def)

lemma quote_evolves_trans:
  assumes "quote_evolves L a b" and "quote_evolves L b c"
  shows "quote_evolves L a c"
proof (cases "b = a")
  case False
  with assms(1) have "qt_status b = ''accepted''" by (auto simp: quote_evolves_def)
  with assms(2) have "c = b" by (intro quote_evolves_final) simp_all
  with assms(1) show ?thesis by simp
qed (use assms in simp)

lemma find_quote_bind:
  "find_quote (db\<lparr>cd_quotes := map (bind_row e q obligation snapshot) (cd_quotes db)\<rparr>) qid tid =
     map_option (bind_row e q obligation snapshot) (find_quote db qid tid)"
proof -
  have "List.find (\<lambda>r. qt_id r = qid \<and> qt_tenant_id r = tid) (map (bind_row e q obligation snapshot) rows) =
      map_option (bind_row e q obligation snapshot) (List.find (\<lambda>r. qt_id r = qid \<and> qt_tenant_id r = tid) rows)"
    for rows by (induction rows) auto
  then show ?thesis by (simp add: find_quote_def)
qed

lemma readQuoteLines_append:
  "qid \<noteq> new \<Longrightarrow>
     readQuoteLines full (db\<lparr>cd_quote_items := cd_quote_items db @ map (\<lambda>(i, l). new_item_row e new i l) xs\<rparr>) qid =
     readQuoteLines full db qid"
proof -
  assume "qid \<noteq> new"
  then have "filter (\<lambda>r. qi_quote_id r = qid) (map (\<lambda>(i, l). new_item_row e new i l) xs) = []"
    by (auto simp: filter_empty_conv)
  then show ?thesis by (simp add: readQuoteLines_def)
qed

lemma readQuoteLines_cong: "cd_quote_items db' = cd_quote_items db \<Longrightarrow> readQuoteLines full db' qid = readQuoteLines full db qid"
  by (simp add: readQuoteLines_def)

lemma scan_quote_cong:
  "readQuoteLines full db' (qt_id r) = readQuoteLines full db (qt_id r) \<Longrightarrow>
     scan_quote full L db' r = scan_quote full L db r"
  unfolding scan_quote_def by (simp only:)

lemma effect_quote:
  assumes ok: "cat_ok L db" and "effect L db db'" and r: "find_quote db qid tid = Some r"
  shows "\<exists>r'. find_quote db' qid tid = Some r' \<and> quote_evolves L r r' \<and>
           readQuoteLines full db' qid = readQuoteLines full db qid"
  using assms(2)
proof cases
  case (offer row rows e lines)
  from offer(1) have rows: "rows = cd_quotes db @ [row]" and fresh: "qt_id row \<noteq> qid"
    using find_quoteD [OF r] by (auto simp: insert_row_Inr quote_clash_def)
  note db' = insertQuoteItems_Inr(1) [OF offer(3)]
  have "find_quote db' qid tid = Some r" using r by (simp add: db' rows find_quote_def find_append)
  moreover have "readQuoteLines full db' qid = readQuoteLines full db qid"
    using readQuoteLines_append [of qid "qt_id row" full "db\<lparr>cd_quotes := rows\<rparr>"] fresh
    by (simp add: db' readQuoteLines_def)
  ultimately show ?thesis by simp
next
  case (accept row sn snapshot wid e obligation rows)
  from accept(7) have "rows = map (bind_row e (qt_id row) obligation snapshot) (cd_quotes db)"
    by (simp add: bind_quote_Inr)
  then have "find_quote db' qid tid = Some (bind_row e (qt_id row) obligation snapshot r)"
    using r accept(1) by (simp add: find_quote_bind)
  moreover have "quote_evolves L r (bind_row e (qt_id row) obligation snapshot r)"
  proof (cases "qt_id r = qt_id row")
    case True
    then have "r = row" using quote_id_eq [OF ok _ accept(2)] find_quoteD [OF r] by blast
    then show ?thesis using accept(4,6)
      by (auto simp: quote_evolves_def bind_row_def)
  qed (simp add: bind_row_def)
  ultimately show ?thesis using accept(1) by (simp add: readQuoteLines_def)
qed (use r in \<open>auto simp: find_quote_def readQuoteLines_def\<close>)

lemma committed_quote:
  assumes ok: "cat_ok L db" and "committed L db db'" and r: "find_quote db qid tid = Some r"
  shows "\<exists>r'. find_quote db' qid tid = Some r' \<and> quote_evolves L r r' \<and>
           readQuoteLines full db' qid = readQuoteLines full db qid"
  using assms(2)
proof (cases rule: committedE)
  case same
  then show ?thesis using r by simp
next
  case effect
  then show ?thesis using effect_quote [OF ok _ r] by blast
next
  case (recorded db1 now i st)
  with effect_quote [OF ok recorded(1) r, of full] show ?thesis
    by (simp add: find_quote_def readQuoteLines_def)
qed

lemma history_quote:
  assumes "codecs_ok L" and "cat_ok L db" and "find_quote db qid tid = Some r"
  shows "\<exists>r'. find_quote (fold (cat_step L) cmds db) qid tid = Some r' \<and> quote_evolves L r r' \<and>
           readQuoteLines full (fold (cat_step L) cmds db) qid = readQuoteLines full db qid"
  using assms(2,3)
proof (induction cmds arbitrary: db r)
  case (Cons cmd cmds)
  from committed_quote [OF Cons.prems(1) cat_step_committed [OF assms(1)] Cons.prems(2), of cmd full]
  obtain r1 where r1: "find_quote (cat_step L cmd db) qid tid = Some r1" "quote_evolves L r r1"
    "readQuoteLines full (cat_step L cmd db) qid = readQuoteLines full db qid" by blast
  from Cons.IH [OF cat_step_ok [OF assms(1) Cons.prems(1)] r1(1)] r1(2,3) show ?case
    by (auto intro: quote_evolves_trans)
qed simp

section \<open>The recorder\<close>

type_synonym deployment = "catlib \<times> catalog_db"

record acceptance_input =
  ac_env :: env
  ac_call :: "CallContext option"
  ac_request :: AcceptQuoteRequest

definition deployment_ok :: "deployment \<Rightarrow> bool" where
  "deployment_ok d \<longleftrightarrow> codecs_ok (fst d) \<and> cat_ok (fst d) (snd d)"

definition accept_run :: "acceptance_input \<Rightarrow> deployment \<Rightarrow> (go_error + QuoteAcceptance) \<times> deployment" where
  "accept_run i d =
     (case AcceptQuote ((ac_env i)\<lparr>ev_lib := fst d\<rparr>) (ac_call i) (ac_request i) (snd d) of
        (res, db) \<Rightarrow> (res, (fst d, db)))"

definition deployment_step :: "cat_command \<Rightarrow> deployment \<Rightarrow> deployment" where
  "deployment_step cmd d = (fst d, cat_step (fst d) cmd (snd d))"

definition accept_key :: "acceptance_input \<Rightarrow> string \<times> string" where
  "accept_key i = (aa_QuoteId (ac_request i), call_tenant (ac_call i))"

definition accept_fingerprint :: "acceptance_input \<Rightarrow> string \<times> string" where
  "accept_fingerprint i = (aa_ObligationId (ac_request i), aa_WorkspaceId (ac_request i))"

definition accept_admissible :: "acceptance_input \<Rightarrow> bool" where
  "accept_admissible i \<longleftrightarrow> accept_permitted (ac_env i) (ac_call i) (ac_request i)"

definition acceptance_of :: "catlib \<Rightarrow> catalog_db \<Rightarrow> quote_row \<Rightarrow> quoteSnapshot \<Rightarrow> QuoteAcceptance option" where
  \<comment> \<open>the acceptance the stored row of an accepted quote stands for\<close>
  "acceptance_of L db r sn =
     (case scan_quote False L db r of
        Inl _ \<Rightarrow> None
      | Inr q \<Rightarrow>
          (case acceptedSnapshotDigest L (q\<lparr>qu_Status := ''ACCEPTED''\<rparr>) of
             Inl _ \<Rightarrow> None
           | Inr d \<Rightarrow> Some \<lparr>qa_Quote = q\<lparr>qu_Status := ''ACCEPTED''\<rparr>,
               qa_ObligationId = coalesce_str (qt_accepted_by r),
               qa_AcceptanceId = acceptanceID (qt_id r), qa_SnapshotDigest = d,
               qa_ResourcePlan = qs_ResourcePlan sn, qa_WorkspaceId = qs_AcceptedWorkspaceID sn\<rparr>))"

definition accept_recorded ::
  "deployment \<Rightarrow> string \<times> string \<Rightarrow> ((string \<times> string) \<times> QuoteAcceptance) option" where
  "accept_recorded d k =
     (case find_quote (snd d) (fst k) (snd k) of
        None \<Rightarrow> None
      | Some r \<Rightarrow>
          if qt_status r \<noteq> ''accepted'' then None
          else (case dec (cl_snapshot (fst d)) (qt_admission_snapshot r) of
             None \<Rightarrow> None
           | Some sn \<Rightarrow>
               if qs_ResourcePlan sn = None then None
               else map_option (\<lambda>a. ((coalesce_str (qt_accepted_by r), qs_AcceptedWorkspaceID sn), a))
                      (acceptance_of (fst d) (snd d) r sn)))"

definition accept_conflict :: go_error where
  "accept_conflict = EStatus AlreadyExists ''this quote is already bound to another acceptance''"

lemma accept_result_of:
  assumes "find_quote db (aa_QuoteId r) tid = Some row" and "coalesce_str (qt_accepted_by row) = aa_ObligationId r"
  shows "accept_result e r tid sn db = Inr a \<longleftrightarrow> acceptance_of (ev_lib e) db row sn = Some a"
  using assms find_quoteD [OF assms(1)]
  by (auto simp: accept_result_def acceptance_of_def readQuoteTx_def Let_def split: sum.split)

lemma accept_recordedD:
  assumes "accept_recorded (L, db) (qid, tid) = Some ((o1, w), a)"
  obtains row sn where "find_quote db qid tid = Some row" "qt_status row = ''accepted''"
    "dec (cl_snapshot L) (qt_admission_snapshot row) = Some sn" "qs_ResourcePlan sn \<noteq> None"
    "coalesce_str (qt_accepted_by row) = o1" "qs_AcceptedWorkspaceID sn = w"
    "acceptance_of L db row sn = Some a"
  using assms unfolding accept_recorded_def by (auto split: option.splits if_splits)

lemma accept_run_permitted:
  assumes "accept_run i (L, db) = (Inr a, d)"
  obtains row db' where "accept_admissible i" "d = (L, db')"
    "find_quote db (aa_QuoteId (ac_request i)) (call_tenant (ac_call i)) = Some row"
    "accept_stored ((ac_env i)\<lparr>ev_lib := L\<rparr>) (ac_request i) (call_tenant (ac_call i)) row db = (Inr a, db')"
proof -
  let ?e = "(ac_env i)\<lparr>ev_lib := L\<rparr>"
  from assms obtain db' where run: "AcceptQuote ?e (ac_call i) (ac_request i) db = (Inr a, db')" "d = (L, db')"
    by (auto simp: accept_run_def split: prod.splits)
  have p: "accept_permitted ?e (ac_call i) (ac_request i)"
    using AcceptQuote_refused [of ?e "ac_call i" "ac_request i" db] run(1) by auto
  from run(1) [unfolded AcceptQuote_permitted [OF p]] p run(2) show ?thesis
    by (auto simp: accept_admissible_def split: option.splits intro: that)
qed

lemma accept_records:
  assumes ok: "codecs_ok L" "cat_ok L db" and "accept_run i (L, db) = (Inr a, d)"
  shows "accept_admissible i \<and> accept_recorded d (accept_key i) = Some (accept_fingerprint i, a)"
  using assms(3)
proof (rule accept_run_permitted)
  fix row db'
  let ?e = "(ac_env i)\<lparr>ev_lib := L\<rparr>" and ?r = "ac_request i" and ?t = "call_tenant (ac_call i)"
  assume adm: "accept_admissible i" "d = (L, db')" and row: "find_quote db (aa_QuoteId ?r) ?t = Some row"
    and run: "accept_stored ?e ?r ?t row db = (Inr a, db')"
  have "accept_recorded (L, db') (aa_QuoteId ?r, ?t) = Some ((aa_ObligationId ?r, aa_WorkspaceId ?r), a)"
    using run
  proof (cases rule: accept_stored_cases)
    case (replay sn)
    then show ?thesis using row accept_result_of [OF row, of ?e sn a]
      by (simp add: accept_recorded_def)
  next
    case (bound sn rows a')
    let ?sn = "sn\<lparr>qs_AcceptedWorkspaceID := aa_WorkspaceId ?r\<rparr>"
    let ?row = "bound_row ?e (aa_ObligationId ?r) (binding ?e ?r sn) row"
    have row': "find_quote db' (aa_QuoteId ?r) ?t = Some ?row"
      using row bound(3,6,9) find_quoteD [OF row]
      by (simp add: bind_quote_Inr find_quote_bind) (simp add: bind_row_def)
    moreover have "dec (cl_snapshot L) (binding ?e ?r sn) = Some ?sn"
      using ok(1) bound(5) by (simp add: codecs_ok_def codec_ok_def binding_def)
    moreover have "acceptance_of L db' ?row ?sn = Some a"
      using accept_result_of [OF row', of ?e ?sn a] bound(7-9) by simp
    ultimately show ?thesis using bound(2) by (simp add: accept_recorded_def)
  qed simp
  then show ?thesis using adm by (simp add: accept_key_def accept_fingerprint_def)
qed

lemma accept_answer:
  assumes "accept_recorded (L, db) (accept_key i) = Some (h, a)" and "accept_admissible i"
  shows "accept_run i (L, db) =
           (if h = accept_fingerprint i then Inr a else Inl accept_conflict, (L, db))"
proof -
  let ?e = "(ac_env i)\<lparr>ev_lib := L\<rparr>" and ?r = "ac_request i" and ?t = "call_tenant (ac_call i)"
  obtain o1 w where h: "h = (o1, w)" by (cases h)
  from assms(1) obtain row sn where row: "find_quote db (aa_QuoteId ?r) ?t = Some row"
    "qt_status row = ''accepted''" "dec (cl_snapshot L) (qt_admission_snapshot row) = Some sn"
    "qs_ResourcePlan sn \<noteq> None" "coalesce_str (qt_accepted_by row) = o1" "qs_AcceptedWorkspaceID sn = w"
    "acceptance_of L db row sn = Some a"
    unfolding h accept_key_def by (rule accept_recordedD)
  have p: "accept_permitted ?e (ac_call i) ?r" using assms(2) by (simp add: accept_admissible_def)
  have "accept_stored ?e ?r ?t row db =
      (if h = accept_fingerprint i then Inr a else Inl accept_conflict, db)"
    using row accept_result_of [OF row(1), of ?e sn a]
    by (auto simp: accept_stored_def h accept_fingerprint_def accept_conflict_def)
  then show ?thesis using row(1) by (simp add: accept_run_def AcceptQuote_permitted [OF p])
qed

lemma acceptance_of_cong:
  assumes "readQuoteLines False db' (qt_id r) = readQuoteLines False db (qt_id r)"
  shows "acceptance_of L db' r sn = acceptance_of L db r sn"
  unfolding acceptance_of_def scan_quote_cong [OF assms] ..

lemma accept_recorded_kept:
  assumes ok: "codecs_ok L" "cat_ok L db" and "accept_recorded (L, db) k = Some x"
  shows "accept_recorded (L, cat_step L cmd db) k = Some x"
proof -
  obtain qid tid where k: "k = (qid, tid)" by (cases k)
  obtain o1 w a where x: "x = ((o1, w), a)" by (metis surj_pair)
  from assms(3) obtain row sn where row: "find_quote db qid tid = Some row" "qt_status row = ''accepted''"
    "dec (cl_snapshot L) (qt_admission_snapshot row) = Some sn" "qs_ResourcePlan sn \<noteq> None"
    "coalesce_str (qt_accepted_by row) = o1" "qs_AcceptedWorkspaceID sn = w"
    "acceptance_of L db row sn = Some a"
    unfolding k x by (rule accept_recordedD)
  from committed_quote [OF ok(2) cat_step_committed [OF ok(1)] row(1), of cmd False] row(2)
  have "find_quote (cat_step L cmd db) qid tid = Some row"
    and lines: "readQuoteLines False (cat_step L cmd db) qid = readQuoteLines False db qid"
    by (auto dest: quote_evolves_final)
  moreover have "acceptance_of L (cat_step L cmd db) row sn = Some a"
    using row(7) acceptance_of_cong [of "cat_step L cmd db" row db] lines find_quoteD [OF row(1)] by simp
  ultimately show ?thesis using row by (simp add: accept_recorded_def k x)
qed

lemma accept_run_step:
  "snd (accept_run i d) = deployment_step (CatAccept (ac_env i) (ac_call i) (ac_request i)) d"
  by (simp add: accept_run_def deployment_step_def split: prod.split)

lemma deployment_step_ok: "deployment_ok d \<Longrightarrow> deployment_ok (deployment_step cmd d)"
  by (simp add: deployment_ok_def deployment_step_def cat_step_ok)

interpretation acceptance: idempotent_recorder accept_run deployment_step accept_key accept_fingerprint
  accept_admissible accept_recorded "\<lambda>a. a" accept_conflict deployment_ok
proof unfold_locales
  fix s i r s' assume "deployment_ok s" "accept_run i s = (Inr r, s')"
  then show "accept_admissible i \<and> accept_recorded s' (accept_key i) = Some (accept_fingerprint i, r)"
    using accept_records [of "fst s" "snd s" i r s'] by (simp add: deployment_ok_def)
next
  fix s i q assume "deployment_ok s" "accept_recorded s (accept_key i) = Some (accept_fingerprint i, q)"
    "accept_admissible i"
  then show "\<exists>r. accept_run i s = (Inr r, s) \<and> r = q"
    using accept_answer [of "fst s" "snd s" i] by simp
next
  fix s i h q assume "deployment_ok s" "accept_recorded s (accept_key i) = Some (h, q)"
    "h \<noteq> accept_fingerprint i" "accept_admissible i"
  then show "accept_run i s = (Inl accept_conflict, s)"
    using accept_answer [of "fst s" "snd s" i] by simp
next
  fix s k x c assume "deployment_ok s" "accept_recorded s k = Some x"
  then show "accept_recorded (deployment_step c s) k = Some x"
    using accept_recorded_kept [of "fst s" "snd s" k x c] by (simp add: deployment_ok_def deployment_step_def)
qed (simp_all add: accept_run_step deployment_step_ok)

end
