(* ===== verification/Catalog_Example.thy ===== *)
theory Catalog_Example
  imports Catalog_Acceptance
begin

text \<open>
  A concrete deployment on which the catalog's theorems are applied: encodings for the values of one
  history, a catalog with one plan pair and its three policies, a quote of the pair and the acceptance
  of the quote.
\<close>

definition ex_go :: golib where
  "ex_go = sample_lib\<lparr>lib_sha256 := (\<lambda>b. replicate 64 CHR ''0''), lib_json := (\<lambda>b. Some (JObj
     (if b = ''renewal''
      then [(''version'', JStr ''renewal-policy/v1''),
            (''trigger'', JStr ''manual_or_explicitly_consented_automatic''), (''months'', JNum ''1''),
            (''usesAcceptedPriceSnapshot'', JBool True)]
      else [(''policyVersionId'', JStr ''price_p''), (''providerProfileId'', JStr ''tke''),
            (''providerSkuId'', JStr ''sku'')])))\<rparr>"

definition one_value :: "'a \<Rightarrow> 'a codec" where
  "one_value v = \<lparr>enc = (\<lambda>x. if x = v then ''v'' else []), dec = (\<lambda>s. if s = ''v'' then Some v else None)\<rparr>"

definition no_value :: "'a codec" where
  "no_value = \<lparr>enc = (\<lambda>x. []), dec = (\<lambda>s. None)\<rparr>"

definition ex_plan :: ResourcePlanSnapshot where
  "ex_plan =
     \<lparr>rp_ComputePlanId = ''compute_p'', rp_StoragePlanId = ''storage_p'', rp_ProviderProfileId = ''tke'',
      rp_ProviderComputeSkuId = ''sku'', rp_ProviderStorageSkuId = ''sku'', rp_Vcpus = 2, rp_MemoryMib = 4096,
      rp_CapacityGib = 20, rp_PrepaidMonths = 1, rp_ProviderCapabilityVersion = ''cap_1'',
      rp_Provider = ''tencent'', rp_Region = ''gz'', rp_BillingMode = ''PREPAID_MONTHLY''\<rparr>"

definition ex_snapshot :: "string \<Rightarrow> quoteSnapshot" where
  "ex_snapshot wid =
     \<lparr>qs_ComputePlanID = ''compute_p'', qs_StoragePlanID = ''storage_p'', qs_PricePolicyVersionID = ''price_p'',
      qs_RefundPolicyVersionID = ''refund_p'', qs_RetentionPolicyVersionID = ''retention_p'',
      qs_PeriodMonths = 1, qs_PricingBasisUnixMillis = UnixMilli 9, qs_ResourcePlan = Some ex_plan,
      qs_AcceptedWorkspaceID = wid\<rparr>"

definition ex_lines :: "QuoteLine list" where
  "ex_lines = add_line ''COMPUTE'' ''compute monthly'' 5000000 @ add_line ''STORAGE'' ''storage monthly'' 700000"

definition ex_quote :: Quote where
  "ex_quote =
     \<lparr>qu_Id = ''quote_p'', qu_Purpose = ''DEPLOY'', qu_WorkspaceId = None, qu_CapabilityVersionId = None,
      qu_ComputePlanId = ''compute_p'', qu_StoragePlanId = ''storage_p'', qu_ModelSelections = [],
      qu_PeriodMonths = 1, qu_PeriodStart = timestamp 9, qu_PeriodEnd = timestamp (AddMonth 9),
      qu_PricePolicyVersionId = ''price_p'', qu_RefundPolicyVersionId = ''refund_p'',
      qu_RetentionPolicyVersionId = ''retention_p'', qu_RefundTerms = ''refund terms'',
      qu_RetentionTerms = ''retention terms'', qu_ExpectedInterruption = ''none_before_execution'',
      qu_LineItems = ex_lines, qu_TotalUsdMicros = 5700000, qu_Status = ''OFFERED'',
      qu_ExpiresAt = timestamp (9 + quoteValidity), qu_CreatedAt = timestamp 9,
      qu_SourceSubscriptionVersion = None, qu_PlanChangeCalculation = None,
      qu_ScheduledPlanChangeId = None, qu_RuntimeReadbackRequirement = ''REQUIRED'',
      qu_RuntimeVersionId = Some ''rv_1''\<rparr>"

definition ex_lib :: catlib where
  "ex_lib =
     \<lparr>cl_go = ex_go, cl_compute_request = (\<lambda>b. ''compute''), cl_storage_request = (\<lambda>b. ''storage''),
      cl_availability_request = (\<lambda>p b. p @ av_Availability b), cl_price_request = (\<lambda>b. ''price''),
      cl_refund_request = (\<lambda>b. ''refund''), cl_retention_request = (\<lambda>b. ''retention''),
      cl_quote_request = (\<lambda>b. ''quote''), cl_compute_plan = no_value, cl_storage_plan = no_value,
      cl_price = no_value, cl_refund = no_value, cl_retention = no_value, cl_quote = one_value ex_quote,
      cl_renewal = \<lparr>enc = (\<lambda>x. if x = renewalPolicy then ''renewal'' else []),
                    dec = (\<lambda>s. if s = ''renewal'' then Some renewalPolicy else None)\<rparr>,
      cl_snapshot =
        \<lparr>enc = (\<lambda>x. if x = ex_snapshot [] then ''s0'' else if x = ex_snapshot ''ws_1'' then ''s1'' else []),
         dec = (\<lambda>s. if s = ''s0'' then Some (ex_snapshot []) else
                    if s = ''s1'' then Some (ex_snapshot ''ws_1'') else None)\<rparr>,
      cl_models = one_value [], cl_quote_bytes = (\<lambda>q. Some (qu_Id q)),
      cl_policy_event = (\<lambda>p t. ''{}''), cl_pg_time = (\<lambda>t. t)\<rparr>"

definition ex_env :: "string \<Rightarrow> time \<Rightarrow> env" where
  \<comment> \<open>a call at the instant \<open>t\<close> whose idempotency record is named \<open>hex\<close>\<close>
  "ex_env hex t =
     \<lparr>ev_lib = ex_lib,
      ev_profile = \<lparr>pf_Provider = ''tencent'', pf_Region = ''gz'', pf_BillingMode = ''PREPAID_MONTHLY'',
                    pf_ProviderCapabilityVersion = ''cap_1''\<rparr>,
      ev_auth = Some sample_authorizer, ev_peer = Some ''workspace'', ev_now = t, ev_tx = t,
      ev_ids = (\<lambda>n. if n = 0 then hex else if n = 1 then ''p'' else ''p'' @ format_int (int n))\<rparr>"

definition ex_admin :: CallContext where
  "ex_admin = sample_call\<lparr>ctx_Scope := Some PlatformScope\<rparr>"

definition ex_compute :: CreateComputePlanRequest where
  "ex_compute =
     \<lparr>cb_Name = ''small'', cb_Vcpus = 2, cb_MemoryMiB = 4096, cb_ProviderProfileId = ''tke'',
      cb_ProviderSkuId = ''sku'', cb_ProviderCapabilityVersion = ''cap_1'', cb_ValidFrom = Some (timestamp 2),
      cb_ValidUntil = None\<rparr>"

definition ex_request :: QuoteRequest where
  "ex_request =
     \<lparr>qr_Purpose = ''DEPLOY'', qr_WorkspaceId = None, qr_CapabilityVersionId = None,
      qr_ComputePlanId = ''compute_p'', qr_StoragePlanId = ''storage_p'', qr_ModelSelections = [],
      qr_PeriodMonths = 1, qr_ScheduledPlanChangeId = None,
      qr_ApplicationSelection = Some \<lparr>as_Kind = ''OPL_APP'', as_RuntimeVersionId = Some ''rv_1'',
        as_CapabilityVersionId = None\<rparr>\<rparr>"

definition ex_accept :: AcceptQuoteRequest where
  "ex_accept = \<lparr>aa_QuoteId = ''quote_p'', aa_WorkspaceId = ''ws_1'', aa_ObligationId = ''op_1'',
     aa_PlanChangeId = None\<rparr>"

definition ex_catalog :: catalog_db where
  "ex_catalog = empty_catalog
     \<lparr>cd_compute_plans :=
       [\<lparr>pl_id = ''compute_p'', pl_name = ''small'', pl_version_label = ''compute_p'', pl_provider = ''tencent'',
         pl_provider_profile_ref = ''tke'', pl_region = ''gz'', pl_status = ''approved'',
         pl_billing_mode = ''PREPAID_MONTHLY'', pl_valid_from = 2, pl_valid_until = None,
         pl_published_by = ''u_1'', pl_created_at = 3, pl_updated_at = 3,
         pl_provider_capability_version = ''cap_1'', pl_provider_specification = [],
         cp_vcpus = 2, cp_memory_mib = 4096\<rparr>],
      cd_storage_plans :=
       [\<lparr>pl_id = ''storage_p'', pl_name = ''disk'', pl_version_label = ''storage_p'', pl_provider = ''tencent'',
         pl_provider_profile_ref = ''tke'', pl_region = ''gz'', pl_status = ''approved'',
         pl_billing_mode = ''PREPAID_MONTHLY'', pl_valid_from = 2, pl_valid_until = None,
         pl_published_by = ''u_1'', pl_created_at = 3, pl_updated_at = 3,
         pl_provider_capability_version = ''cap_1'', pl_provider_specification = [],
         sp_capacity_gib = 20, sp_shrink_supported = False\<rparr>],
      cd_price_policy_versions :=
       [\<lparr>pp_id = ''price_p'', pp_version_label = ''v1'', pp_compute_plan_id = ''compute_p'',
         pp_storage_plan_id = ''storage_p'', pp_compute_monthly = 5000000, pp_storage_monthly = 700000,
         pp_product_monthly = 0, pp_currency = ''USD'', pp_renewal_rules = ''renewal'', pp_valid_from = 2,
         pp_valid_until = None, pp_published_by = ''u_1'', pp_created_at = 3, pp_period_months = 1,
         pp_plan_change_policy_version = ''workspace-plan-change-v1''\<rparr>],
      cd_refund_policy_versions :=
       [\<lparr>rf_id = ''refund_p'', rf_version_label = ''v1'', rf_rules = [], rf_customer_terms = ''refund terms'',
         rf_valid_from = 2, rf_valid_until = None, rf_published_by = ''u_1'', rf_created_at = 3,
         rf_algorithm = ''workspace-delete-refund-v1'', rf_retention_policy_version_id = ''retention_p''\<rparr>],
      cd_retention_policy_versions :=
       [\<lparr>rv_id = ''retention_p'', rv_version_label = ''v1'', rv_rules = [],
         rv_customer_terms = ''retention terms'', rv_valid_from = 2, rv_valid_until = None,
         rv_published_by = ''u_1'', rv_created_at = 3,
         rv_workspace_data = ''destroy_after_confirmed_deletion'', rv_package_history = ''retain'',
         rv_build_history = ''retain'', rv_tenant_restore_days = 15\<rparr>]\<rparr>"

definition ex_offered :: catalog_db where
  "ex_offered = cat_step ex_lib (CatQuote (ex_env ''6'' 9) (Some sample_call) (Some ex_request)) ex_catalog"

definition ex_acceptance :: acceptance_input where
  "ex_acceptance = \<lparr>ac_env = ex_env [] 20, ac_call = Some sample_call, ac_request = ex_accept\<rparr>"

lemma codec_ok_values [simp]: "codec_ok (one_value v)" "codec_ok no_value"
  by (auto simp: codec_ok_def one_value_def no_value_def)

lemma ex_lib_ok: "codecs_ok ex_lib"
  by (simp add: codecs_ok_def ex_lib_def) (simp add: codec_ok_def)

lemma ex_catalog_ok: "cat_ok ex_lib ex_catalog"
proof -
  have "list_all compute_check (cd_compute_plans ex_catalog)"
    "list_all storage_check (cd_storage_plans ex_catalog)"
    "list_all (price_check (cl_go ex_lib)) (cd_price_policy_versions ex_catalog)"
    "list_all refund_check (cd_refund_policy_versions ex_catalog)"
    "list_all retention_check (cd_retention_policy_versions ex_catalog)"
    "list_all (price_fk ex_catalog) (cd_price_policy_versions ex_catalog)"
    by code_simp+
  then show ?thesis
    by (simp add: cat_ok_def table_ok_def ex_catalog_def empty_catalog_def)
qed

lemma ex_offered_ok: "cat_ok ex_lib ex_offered"
  by (simp only: ex_offered_def cat_step_ok ex_lib_ok ex_catalog_ok)

lemma ex_quote_created:
  "CreateQuote (ex_env ''6'' 9) (Some sample_call) (Some ex_request) ex_catalog = (Inr ex_quote, ex_offered)"
proof -
  have "(case fst (CreateQuote (ex_env ''6'' 9) (Some sample_call) (Some ex_request) ex_catalog) of
      Inl _ \<Rightarrow> False | Inr q \<Rightarrow> q = ex_quote)" by code_simp
  moreover have "(ex_env ''6'' 9)\<lparr>ev_lib := ex_lib\<rparr> = ex_env ''6'' 9" by (simp add: ex_env_def)
  ultimately show ?thesis
    by (auto simp: ex_offered_def prod_eq_iff split: sum.splits)
qed

lemma ex_accepted: "\<exists>a. accept_run ex_acceptance (ex_lib, ex_offered) =
    (Inr a, deployment_step (CatAccept (ex_env [] 20) (Some sample_call) ex_accept) (ex_lib, ex_offered))"
proof -
  have "\<not> isl (fst (accept_run ex_acceptance (ex_lib, ex_offered)))" by code_simp
  then show ?thesis
    using accept_run_step [of ex_acceptance "(ex_lib, ex_offered)"]
    by (cases "fst (accept_run ex_acceptance (ex_lib, ex_offered))") (auto simp: ex_acceptance_def prod_eq_iff)
qed

end
