(* ===== verification/Catalog_Pricing.thy ===== *)
theory Catalog_Pricing
  imports Catalog_Example
begin

text \<open>
  What a quote charges and promises (\<open>quotes.go\<close>): its price is the newest effective version of the
  exact plan pair, its total the exact sum of that version's amounts, its plans available, its period
  one calendar month, and what was returned is what a later read of the offer returns.
\<close>

section \<open>Effective versions\<close>

lemma newest_Some:
  assumes "newest from rid rows = Some r"
  shows "r \<in> set rows" and "x \<in> set rows \<Longrightarrow> (from x, rid x) \<le> (from r, rid r)"
proof -
  let ?k = "\<lambda>r. (from r, rid r)"
  from assms obtain rest where "rev (sort_key ?k rows) = r # rest"
    by (auto simp: newest_def split: list.splits)
  then have sorted: "sort_key ?k rows = rev rest @ [r]" by (metis rev.simps(2) rev_rev_ident)
  then have rows: "set rows = insert r (set rest)" by (metis set_sort set_append set_rev list.simps(15) Un_insert_right sup_bot.right_neutral empty_set)
  then show "r \<in> set rows" by simp
  have "sorted (map ?k (sort_key ?k rows))" by simp
  then show "?k x \<le> ?k r" if "x \<in> set rows"
    using that rows unfolding sorted by (auto simp: sorted_append)
qed

definition effective_price :: "catalog_db \<Rightarrow> string \<Rightarrow> string \<Rightarrow> time \<Rightarrow> price_row \<Rightarrow> bool" where
  \<comment> \<open>the newest version of the pair that has started at the instant, and it has not ended\<close>
  "effective_price db cid sid at p \<longleftrightarrow>
     p \<in> set (cd_price_policy_versions db) \<and> pp_compute_plan_id p = cid \<and> pp_storage_plan_id p = sid \<and>
     pp_valid_from p \<le> at \<and> (case pp_valid_until p of None \<Rightarrow> True | Some u \<Rightarrow> at < AsTime (timestamp u)) \<and>
     (\<forall>q \<in> set (cd_price_policy_versions db).
        pp_compute_plan_id q = cid \<and> pp_storage_plan_id q = sid \<and> pp_valid_from q \<le> at \<longrightarrow>
        (pp_valid_from q, pp_id q) \<le> (pp_valid_from p, pp_id p))"

lemma effectivePricePolicy_Inr:
  assumes "effectivePricePolicy e cid sid at db = Inr v"
  obtains p where "effective_price db cid sid at p" "scanPricePolicy (ev_lib e) p = Inr v"
proof -
  let ?f = "\<lambda>r. pp_compute_plan_id r = cid \<and> pp_storage_plan_id r = sid \<and> pp_valid_from r \<le> at"
  from assms obtain p where p: "newest pp_valid_from pp_id (filter ?f (cd_price_policy_versions db)) = Some p"
    by (auto simp: effectivePricePolicy_def Let_def split: option.splits)
  with assms have scan: "scanPricePolicy (ev_lib e) p = Inr v"
    "case pm_ValidUntil v of None \<Rightarrow> True | Some u \<Rightarrow> at < AsTime u"
    by (auto simp: effectivePricePolicy_def Let_def split: sum.splits option.splits if_splits)
  moreover have "pm_ValidUntil v = map_option timestamp (pp_valid_until p)"
    using scan(1) by (auto simp: scanPricePolicy_def split: option.splits)
  moreover note newest_Some [OF p]
  ultimately show ?thesis
    by (intro that [of p]) (auto simp: effective_price_def split: option.splits)
qed

lemma resolvePrice_price:
  "resolvePrice e cid sid at db = Inr res \<Longrightarrow> effectivePricePolicy e cid sid at db = Inr (pr_Price res)"
  by (auto simp: resolvePrice_def split: sum.splits)

lemma assertAvailablePlanPair_None:
  assumes "assertAvailablePlanPair db cid sid at = None"
  obtains c s where "c \<in> set (cd_compute_plans db)" "pl_id c = cid" "plan_availability c at = Inr ''available''"
    "s \<in> set (cd_storage_plans db)" "pl_id s = sid" "plan_availability s at = Inr ''available''"
  using assms
  by (auto simp: assertAvailablePlanPair_def plan_pair_def split: option.splits sum.splits if_splits
      dest!: find_SomeD intro: that)

section \<open>Exact sums\<close>

lemma checkedQuoteAdd_Inr:
  assumes "checkedQuoteAdd left right = Inr v" and "0 \<le> left" "left \<le> MaxInt64" "0 \<le> right" "right \<le> MaxInt64"
  shows "v = left + right" and "v \<le> MaxInt64" and "0 \<le> v"
proof -
  from assms have "int64_range (MaxInt64 - right)" by (simp add: int64_range_def MaxInt64_def MinInt64_def)
  with assms have fits: "left + right \<le> MaxInt64" by (auto simp: checkedQuoteAdd_def split: if_splits)
  then have "int64_range (left + right)" using assms by (simp add: int64_range_def MinInt64_def)
  with assms fits show "v = left + right" "v \<le> MaxInt64" "0 \<le> v"
    by (auto simp: checkedQuoteAdd_def split: if_splits)
qed

lemma sum_lines_charges:
  assumes "list_all (\<lambda>l. ql_Kind l \<noteq> ''ADJUSTMENT_CREDIT'' \<and> ql_AmountUsdMicros l \<le> MaxInt64) lines"
    and "sum_lines positive credit lines = Inr (p, c)" and "0 \<le> positive" "positive \<le> MaxInt64"
  shows "p = positive + sum_list (map ql_AmountUsdMicros lines) \<and> c = credit \<and> 0 \<le> p \<and> p \<le> MaxInt64"
  using assms
proof (induction lines arbitrary: positive)
  case (Cons l lines)
  then obtain v where v: "checkedQuoteAdd positive (ql_AmountUsdMicros l) = Inr v"
    "sum_lines v credit lines = Inr (p, c)" "0 \<le> ql_AmountUsdMicros l"
    by (auto simp: Let_def split: if_splits sum.splits)
  from checkedQuoteAdd_Inr [OF v(1)] Cons.prems v(3) have "v = positive + ql_AmountUsdMicros l" "0 \<le> v" "v \<le> MaxInt64"
    by auto
  with Cons.IH [OF _ v(2)] Cons.prems(1) show ?case by simp
qed simp

lemma pricedLineItems_Inr:
  assumes "pricedLineItems v = Inr (lines, amount)"
    and "pm_ComputeMonthly v \<le> MaxInt64" "pm_StorageMonthly v \<le> MaxInt64" "pm_ProductMonthly v \<le> MaxInt64"
  shows "amount = pm_ComputeMonthly v + pm_StorageMonthly v + pm_ProductMonthly v"
    and "0 \<le> amount" and "amount \<le> MaxInt64"
    and "list_all (\<lambda>l. ql_Kind l \<in> {''COMPUTE'', ''STORAGE'', ''PRODUCT''} \<and> ql_Quantity l = 1 \<and>
           ql_CreditSource l = None) lines"
proof -
  let ?ls = "add_line ''COMPUTE'' ''compute monthly'' (pm_ComputeMonthly v) @
    add_line ''STORAGE'' ''storage monthly'' (pm_StorageMonthly v) @
    add_line ''PRODUCT'' ''product monthly'' (pm_ProductMonthly v)"
  from assms(1) have lines: "lines = ?ls" and "sumQuoteLines ?ls = Inr amount"
    by (auto simp: pricedLineItems_def Let_def split: sum.splits)
  then obtain p c where run: "sum_lines 0 0 ?ls = Inr (p, c)" "\<not> p < c" "amount = wrap64 (p - c)"
    by (auto simp: sumQuoteLines_def split: sum.splits if_splits)
  have "list_all (\<lambda>l. ql_Kind l \<noteq> ''ADJUSTMENT_CREDIT'' \<and> ql_AmountUsdMicros l \<le> MaxInt64) ?ls"
    using assms by (simp add: add_line_def)
  from sum_lines_charges [OF this run(1)]
  have p: "p = sum_list (map ql_AmountUsdMicros ?ls)" "c = 0" "0 \<le> p" "p \<le> MaxInt64" by (simp_all add: MaxInt64_def)
  then have "int64_range p" by (simp add: int64_range_def MinInt64_def)
  with p run(3) have "amount = p" by simp
  moreover have "p = pm_ComputeMonthly v + pm_StorageMonthly v + pm_ProductMonthly v"
    unfolding p(1) by (simp add: add_line_def)
  ultimately show "amount = pm_ComputeMonthly v + pm_StorageMonthly v + pm_ProductMonthly v"
    "0 \<le> amount" "amount \<le> MaxInt64" using p by simp_all
  show "list_all (\<lambda>l. ql_Kind l \<in> {''COMPUTE'', ''STORAGE'', ''PRODUCT''} \<and> ql_Quantity l = 1 \<and>
           ql_CreditSource l = None) lines" by (simp add: lines add_line_def)
qed

section \<open>The first run of CreateQuote\<close>

definition quote_scope :: "CallContext \<Rightarrow> string \<times> string \<times> string \<times> string" where
  "quote_scope c = (command_scope c, ctx_ActorId c, ''CreateQuote'', ctx_IdempotencyKey c)"

lemma CreateQuote_ran:
  assumes "CreateQuote e call (Some q) db = (Inr out, db')"
    and "\<And>c. call = Some c \<Longrightarrow> find_idempotency (cd_store db) (quote_scope c) = None"
  obtains c selection db1 st where "call = Some c" "catalog_auth e call ''CreateQuote'' False = None"
    "validateDeployQuoteRequest (Some q) = Inr selection"
    "create_quote_work e c q selection db = Inr (out, db1)" "db' = db1\<lparr>cd_store := st\<rparr>"
  using assms(1) unfolding CreateQuote_def
proof (cases rule: authorized_cases)
  case (allowed c)
  note fresh = assms(2) [OF allowed(1), unfolded quote_scope_def]
  from allowed(3) obtain selection where sel: "validateDeployQuoteRequest (Some q) = Inr selection"
    "command e c ''CreateQuote'' (cl_quote_request (ev_lib e) q) (cl_quote (ev_lib e))
       (create_quote_work e c q selection) db = (Inr out, db')"
    by (auto split: sum.splits)
  from sel(2) show ?thesis
    by (cases rule: command_cases) (use fresh that [OF allowed(1,2) sel(1)] in auto)
qed simp

lemma price_row_range:
  assumes "cat_ok L db" and "p \<in> set (cd_price_policy_versions db)"
  shows "pp_compute_monthly p \<le> MaxInt64" "pp_storage_monthly p \<le> MaxInt64" "pp_product_monthly p \<le> MaxInt64"
proof -
  from assms have "price_check (cl_go L) p" by (auto simp: cat_ok_def table_ok_def list_all_iff)
  then show "pp_compute_monthly p \<le> MaxInt64" "pp_storage_monthly p \<le> MaxInt64" "pp_product_monthly p \<le> MaxInt64"
    by (simp_all add: price_check_def int64_range_def)
qed

lemma scanPricePolicy_Inr:
  assumes "scanPricePolicy L p = Inr v"
  shows "pm_Id v = pp_id p" "pm_ComputeMonthly v = pp_compute_monthly p" "pm_StorageMonthly v = pp_storage_monthly p"
    "pm_ProductMonthly v = pp_product_monthly p"
  using assms by (auto simp: scanPricePolicy_def split: option.splits)

lemma create_quote_price:
  assumes ok: "cat_ok (ev_lib e) db" and "create_quote_work e c q selection db = Inr (out, db1)"
  obtains p lines where "effective_price db (qr_ComputePlanId q) (qr_StoragePlanId q) (ev_now e) p"
    "qu_PricePolicyVersionId out = pp_id p" "qu_LineItems out = lines"
    "qu_TotalUsdMicros out = pp_compute_monthly p + pp_storage_monthly p + pp_product_monthly p"
    "0 \<le> qu_TotalUsdMicros out" "qu_TotalUsdMicros out \<le> MaxInt64"
    "list_all (\<lambda>l. ql_Kind l \<in> {''COMPUTE'', ''STORAGE'', ''PRODUCT''} \<and> ql_Quantity l = 1 \<and>
       ql_CreditSource l = None) lines"
  using assms(2)
proof (rule create_quote_workE)
  fix res plan lines amount
  assume res: "resolvePrice e (qr_ComputePlanId q) (qr_StoragePlanId q) (ev_now e) db = Inr res"
    and lines: "pricedLineItems (pr_Price res) = Inr (lines, amount)"
    and out: "out = new_quote e q selection res lines amount"
  obtain p where p: "effective_price db (qr_ComputePlanId q) (qr_StoragePlanId q) (ev_now e) p"
    "scanPricePolicy (ev_lib e) p = Inr (pr_Price res)"
    using resolvePrice_price [OF res] by (rule effectivePricePolicy_Inr)
  note v = scanPricePolicy_Inr [OF p(2)]
  from p(1) have "p \<in> set (cd_price_policy_versions db)" by (simp add: effective_price_def)
  note sums = pricedLineItems_Inr [OF lines, unfolded v, OF price_row_range [OF ok this]]
  show thesis using sums v(1) p(1) by (intro that [of p lines]) (simp_all add: out new_quote_def)
qed

lemma create_quote_plans:
  assumes "create_quote_work e c q selection db = Inr (out, db1)"
  obtains cp sp where "cp \<in> set (cd_compute_plans db)" "pl_id cp = qr_ComputePlanId q"
    "plan_availability cp (ev_now e) = Inr ''available''"
    "sp \<in> set (cd_storage_plans db)" "pl_id sp = qr_StoragePlanId q"
    "plan_availability sp (ev_now e) = Inr ''available''"
  using assms by (rule create_quote_workE) (erule assertAvailablePlanPair_None, rule that)

lemma create_quote_times:
  assumes "create_quote_work e c q selection db = Inr (out, db1)"
  shows "AsTime (qu_PeriodStart out) = ev_now e" "AsTime (qu_PeriodEnd out) = AddMonth (ev_now e)"
    "AsTime (qu_ExpiresAt out) = ev_now e + quoteValidity"
  using assms by (rule create_quote_workE, simp add: new_quote_def)+

section \<open>Reading an offer back\<close>

lemma validated_selection:
  assumes "validateDeployQuoteRequest (Some q) = Inr selection"
  obtains (app) r where "as_Kind selection = ''OPL_APP''" "as_RuntimeVersionId selection = Some r" "r \<noteq> []"
      "as_CapabilityVersionId selection = None"
  | (agent) r where "as_Kind selection = ''AGENT''" "as_CapabilityVersionId selection = Some r" "r \<noteq> []"
      "as_RuntimeVersionId selection = None"
proof -
  from assms have sel: "deployApplicationSelection q = Inr selection"
    by (auto simp: validateDeployQuoteRequest_def split: if_splits sum.splits)
  show thesis
  proof (cases "qr_ApplicationSelection q")
    case None
    with sel show thesis by (intro agent) (auto simp: deployApplicationSelection_def Let_def split: if_splits)
  next
    case (Some s)
    with sel have "s = selection" "ValidateWorkspaceApplicationSelection (Some selection) = None"
      by (auto simp: deployApplicationSelection_def Let_def split: if_splits option.splits)
    then show thesis
      by (cases "as_RuntimeVersionId selection"; cases "as_CapabilityVersionId selection")
         (auto simp: ValidateWorkspaceApplicationSelection_def split: if_splits intro: app agent)
  qed
qed

lemma line_roundtrip:
  assumes "ql_Kind l \<in> {''COMPUTE'', ''STORAGE'', ''PRODUCT''}"
  shows "enum_member [''COMPUTE'', ''STORAGE'', ''PRODUCT'', ''ADJUSTMENT_CREDIT''] (quoteLineKind (ql_Kind l)) = ql_Kind l"
proof -
  have "list_all (\<lambda>k. enum_member [''COMPUTE'', ''STORAGE'', ''PRODUCT'', ''ADJUSTMENT_CREDIT''] (quoteLineKind k) = k)
    [''COMPUTE'', ''STORAGE'', ''PRODUCT'']" by code_simp
  with assms show ?thesis by auto
qed

lemma readQuoteLines_new:
  assumes items: "insertQuoteItems e qid 0 lines db = Inr db'"
    and old: "list_all (\<lambda>i. qi_quote_id i \<noteq> qid) (cd_quote_items db)"
    and kinds: "list_all (\<lambda>l. ql_Kind l \<in> {''COMPUTE'', ''STORAGE'', ''PRODUCT''} \<and> ql_Quantity l = 1 \<and>
       ql_CreditSource l = None) lines"
  shows "readQuoteLines full db' qid = lines"
proof -
  let ?new = "map (\<lambda>(i, l). new_item_row e qid i l) (enumerate 0 lines)"
  have "filter (\<lambda>r. qi_quote_id r = qid) (cd_quote_items db') = ?new"
    using old unfolding insertQuoteItems_Inr(1) [OF items] by (auto simp: list_all_iff filter_empty_conv filter_id_conv)
  moreover have "sort_key qi_sort_order ?new = ?new"
  proof (rule sort_key_id_if_sorted)
    have "map qi_sort_order ?new = map int [0..<length lines]"
      by (rule nth_equalityI) (simp_all add: nth_enumerate_eq new_item_row_def)
    then show "sorted (map qi_sort_order ?new)" by (simp add: sorted_map sorted_wrt_upt)
  qed
  ultimately show ?thesis
    using kinds unfolding readQuoteLines_def
    by (auto simp: list_all_iff line_roundtrip new_item_row_def intro!: nth_equalityI simp: nth_enumerate_eq)
qed

definition as_stored :: "catlib \<Rightarrow> time \<Rightarrow> Quote \<Rightarrow> Quote" where
  \<comment> \<open>a quote with its instants as the database keeps them\<close>
  "as_stored L tx out =
     out\<lparr>qu_PeriodStart := timestamp (cl_pg_time L (AsTime (qu_PeriodStart out))),
         qu_PeriodEnd := timestamp (cl_pg_time L (AsTime (qu_PeriodEnd out))),
         qu_ExpiresAt := timestamp (cl_pg_time L (AsTime (qu_ExpiresAt out))),
         qu_CreatedAt := timestamp tx\<rparr>"

definition offer_row :: "catlib \<Rightarrow> catalog_db \<Rightarrow> Quote \<Rightarrow> time \<Rightarrow> quote_row \<Rightarrow> bool" where
  \<comment> \<open>the stored row reads back as the quote\<close>
  "offer_row L db out tx r \<longleftrightarrow> qt_status r = ''offered'' \<and>
     scan_quote True L db r = Inr (as_stored L tx out) \<and> qu_Status out = ''OFFERED'' \<and> qu_Id out \<noteq> []"

lemma stored_enums:
  "enum_member [''DEPLOY'', ''RESIZE'', ''RENEW''] ''deploy'' = ''DEPLOY''"
  "enum_member [''OFFERED'', ''ACCEPTED'', ''EXPIRED''] ''offered'' = ''OFFERED''"
  "enum_member [''OFFERED'', ''ACCEPTED'', ''EXPIRED''] ''accepted'' = ''ACCEPTED''"
  by code_simp+

lemma create_quote_offer:
  assumes codecs: "codecs_ok (ev_lib e)" and ok: "cat_ok (ev_lib e) db"
    and sel: "validateDeployQuoteRequest (Some q) = Inr selection"
    and run: "create_quote_work e c q selection db = Inr (out, db1)"
  shows "\<exists>r. find_quote db1 (qu_Id out) (call_tenant (Some c)) = Some r \<and> offer_row (ev_lib e) db1 out (ev_tx e) r"
  using run
proof (rule create_quote_workE)
  fix res plan lines amount snapshot rows
  assume plines: "pricedLineItems (pr_Price res) = Inr (lines, amount)"
    and res: "resolvePrice e (qr_ComputePlanId q) (qr_StoragePlanId q) (ev_now e) db = Inr res"
    and snap: "snapshot = enc (cl_snapshot (ev_lib e)) (new_snapshot e q res plan)" "snapshot \<noteq> []"
    and models: "enc (cl_models (ev_lib e)) (qr_ModelSelections q) \<noteq> []"
    and out: "out = new_quote e q selection res lines amount"
    and ins: "insert_row quote_check quote_clash (quote_fk db) (new_quote_row e c q selection snapshot out)
       (cd_quotes db) = Inr rows"
    and items: "insertQuoteItems e (qu_Id out) 0 lines (db\<lparr>cd_quotes := rows\<rparr>) = Inr db1"
  let ?r = "new_quote_row e c q selection snapshot out"
  have rows: "rows = cd_quotes db @ [?r]" and fresh: "qu_Id out \<notin> qt_id ` set (cd_quotes db)"
    using ins by (auto simp: insert_row_Inr quote_clash_def new_quote_row_def)
  have old: "list_all (\<lambda>i. qi_quote_id i \<noteq> qu_Id out) (cd_quote_items (db\<lparr>cd_quotes := rows\<rparr>))"
  proof -
    have "\<forall>i \<in> set (cd_quote_items db). qi_quote_id i \<in> qt_id ` set (cd_quotes db)"
      using ok by (simp add: cat_ok_def list_all_iff)
    with fresh show ?thesis by (simp add: list_all_iff) metis
  qed
  have kinds: "list_all (\<lambda>l. ql_Kind l \<in> {''COMPUTE'', ''STORAGE'', ''PRODUCT''} \<and> ql_Quantity l = 1 \<and>
       ql_CreditSource l = None) lines"
    using create_quote_price [OF ok run] out by (auto simp: new_quote_def)
  note lines = readQuoteLines_new [OF items old kinds]
  have found: "find_quote db1 (qu_Id out) (call_tenant (Some c)) = Some ?r"
  proof -
    have "List.find (\<lambda>r. qt_id r = qu_Id out \<and> qt_tenant_id r = call_tenant (Some c)) (cd_quotes db) = None"
      using fresh by (force simp: find_None_iff)
    then show ?thesis unfolding insertQuoteItems_Inr(1) [OF items] rows
      by (simp add: find_quote_def find_append new_quote_row_def)
  qed
  have dec: "dec (cl_snapshot (ev_lib e)) snapshot = Some (new_snapshot e q res plan)"
    "dec (cl_models (ev_lib e)) (enc (cl_models (ev_lib e)) (qr_ModelSelections q)) = Some (qr_ModelSelections q)"
    using codecs snap models by (auto simp: codecs_ok_def codec_ok_def)
  have versions: "nullable (coalesce_str (qu_CapabilityVersionId out)) = qu_CapabilityVersionId out"
    "nullable (coalesce_str (qu_RuntimeVersionId out)) = qu_RuntimeVersionId out"
    using sel by (cases rule: validated_selection; simp add: out new_quote_def nullable_def coalesce_str_def)+
  have "scan_quote True (ev_lib e) db1 ?r = Inr (as_stored (ev_lib e) (ev_tx e) out)"
    using lines [of True] versions
    by (simp add: scan_quote_def new_quote_row_def dec stored_enums runtimeReadbackRequirementFor_def coalesce_str_def)
       (simp add: out new_quote_def as_stored_def)
  then have "offer_row (ev_lib e) db1 out (ev_tx e) ?r"
    by (simp add: offer_row_def) (simp add: out new_quote_def new_quote_row_def fresh_id_def)
  with found show ?thesis by blast
qed

lemma scan_quote_evolved:
  assumes "offer_row L db out tx r" and "quote_evolves L r r'"
    and "readQuoteLines True db' (qt_id r) = readQuoteLines True db (qt_id r)"
  shows "scan_quote True L db' r' =
    Inr ((as_stored L tx out)\<lparr>qu_Status := if r' = r then ''OFFERED'' else ''ACCEPTED''\<rparr>)"
proof -
  from assms(1) have scan: "scan_quote True L db r = Inr (as_stored L tx out)"
    and st: "qu_Status (as_stored L tx out) = ''OFFERED''" by (simp_all add: offer_row_def as_stored_def)
  then obtain sels sn where sn: "dec (cl_models L) (qt_model_selections r) = Some sels"
    "dec (cl_snapshot L) (qt_admission_snapshot r) = Some sn"
    by (auto simp: scan_quote_def split: option.splits)
  show ?thesis
  proof (cases "r' = r")
    case True
    then show ?thesis using scan_quote_cong [OF assms(3), of L] scan st by simp
  next
    case False
    with assms(2) obtain e obligation snapshot sn' where r': "r' = bound_row e obligation snapshot r"
      "dec (cl_snapshot L) snapshot = Some sn'"
      unfolding quote_evolves_def by blast
    have "scan_quote True L db' r' = map_sum id (\<lambda>x. x\<lparr>qu_Status := ''ACCEPTED''\<rparr>) (scan_quote True L db r)"
      using assms(3) by (simp add: scan_quote_def r' sn bound_row_def stored_enums)
    then show ?thesis using False by (simp add: scan)
  qed
qed

section \<open>CreateQuote as a recorder\<close>

record quote_input =
  qc_env :: env
  qc_call :: CallContext
  qc_request :: QuoteRequest

definition quote_run :: "catlib \<Rightarrow> quote_input \<Rightarrow> catalog_db \<Rightarrow> (go_error + Quote) \<times> catalog_db" where
  "quote_run L i = CreateQuote ((qc_env i)\<lparr>ev_lib := L\<rparr>) (Some (qc_call i)) (Some (qc_request i))"

definition quote_key :: "quote_input \<Rightarrow> string \<times> string \<times> string \<times> string" where
  "quote_key i = quote_scope (qc_call i)"

definition quote_fingerprint :: "catlib \<Rightarrow> quote_input \<Rightarrow> string" where
  "quote_fingerprint L i = lib_sha256 (cl_go L) (cl_quote_request L (qc_request i))"

definition quote_admissible :: "quote_input \<Rightarrow> bool" where
  "quote_admissible i \<longleftrightarrow> catalog_auth (qc_env i) (Some (qc_call i)) ''CreateQuote'' False = None \<and>
     \<not> isl (validateDeployQuoteRequest (Some (qc_request i))) \<and> ctx_IdempotencyKey (qc_call i) \<noteq> []"

definition quote_recorded ::
  "catlib \<Rightarrow> catalog_db \<Rightarrow> string \<times> string \<times> string \<times> string \<Rightarrow> (string \<times> Quote) option" where
  "quote_recorded L db k =
     (case find_idempotency (cd_store db) k of
        None \<Rightarrow> None
      | Some row \<Rightarrow> map_option (Pair (id_request_sha256 row)) (dec (cl_quote L) (id_response_body row)))"

definition quote_conflict :: go_error where
  "quote_conflict = EStatus AlreadyExists ''idempotency key has different input''"

lemma catalog_auth_lib [simp]: "catalog_auth (e\<lparr>ev_lib := L\<rparr>) = catalog_auth e"
  by (cases e) (simp only: fun_eq_iff catalog_auth_def env.update_convs env.select_convs, simp)

lemma quote_run_step: "snd (quote_run L i db) = cat_step L (CatQuote (qc_env i) (Some (qc_call i)) (Some (qc_request i))) db"
  by (simp add: quote_run_def)

lemma quote_runE:
  assumes "quote_run L i db = (res, db')" and "quote_admissible i"
  obtains selection where "validateDeployQuoteRequest (Some (qc_request i)) = Inr selection"
    "command ((qc_env i)\<lparr>ev_lib := L\<rparr>) (qc_call i) ''CreateQuote'' (cl_quote_request L (qc_request i)) (cl_quote L)
       (create_quote_work ((qc_env i)\<lparr>ev_lib := L\<rparr>) (qc_call i) (qc_request i) selection) db = (res, db')"
  using assms by (auto simp: quote_run_def CreateQuote_def authorized_def quote_admissible_def split: sum.splits)

lemma quote_run_admissible:
  assumes "quote_run L i db = (Inr r, db')"
  shows "quote_admissible i"
  using assms unfolding quote_run_def CreateQuote_def
  by (rule authorized_cases) (auto simp: quote_admissible_def command_def split: sum.splits if_splits)

lemma quote_records:
  assumes codecs: "codecs_ok L" and run: "quote_run L i db = (Inr r, db')" and fits: "enc (cl_quote L) r \<noteq> []"
  shows "quote_recorded L db' (quote_key i) = Some (quote_fingerprint L i, r)"
proof -
  obtain selection where "command ((qc_env i)\<lparr>ev_lib := L\<rparr>) (qc_call i) ''CreateQuote''
      (cl_quote_request L (qc_request i)) (cl_quote L)
      (create_quote_work ((qc_env i)\<lparr>ev_lib := L\<rparr>) (qc_call i) (qc_request i) selection) db = (Inr r, db')"
    using quote_runE [OF run quote_run_admissible [OF run]] by blast
  then show ?thesis
  proof (cases rule: command_cases)
    case (replay row r')
    then show ?thesis by (simp add: quote_recorded_def quote_key_def quote_scope_def quote_fingerprint_def)
  next
    case (ran r' db1 st)
    from codecs fits have "dec (cl_quote L) (enc (cl_quote L) r) = Some r"
      by (simp add: codecs_ok_def codec_ok_def)
    with ran fits find_RecordIdempotency [OF ran(5), of "quote_key i"] show ?thesis
      by (simp add: quote_recorded_def quote_key_def quote_scope_def quote_fingerprint_def new_idempotency_row_def
          non_empty_or_def input_scope_def command_input_def)
  qed simp
qed

lemma quote_answer:
  assumes "quote_recorded L db (quote_key i) = Some (h, r)" and adm: "quote_admissible i"
  shows "quote_run L i db = (if h = quote_fingerprint L i then Inr r else Inl quote_conflict, db)"
proof -
  obtain res db' where run: "quote_run L i db = (res, db')" by force
  from assms(1) obtain row where row: "find_idempotency (cd_store db) (quote_scope (qc_call i)) = Some row"
    "h = id_request_sha256 row" "dec (cl_quote L) (id_response_body row) = Some r"
    by (auto simp: quote_recorded_def quote_key_def split: option.splits)
  from quote_runE [OF run adm] obtain selection where
    "command ((qc_env i)\<lparr>ev_lib := L\<rparr>) (qc_call i) ''CreateQuote'' (cl_quote_request L (qc_request i)) (cl_quote L)
       (create_quote_work ((qc_env i)\<lparr>ev_lib := L\<rparr>) (qc_call i) (qc_request i) selection) db = (res, db')" by blast
  then show ?thesis using row adm
    by (auto simp: run command_def LookupIdempotency_def quote_scope_def quote_admissible_def quote_fingerprint_def
        quote_conflict_def)
qed

lemma committed_idempotency:
  assumes "committed L db db'" and "find_idempotency (cd_store db) k = Some row"
  shows "find_idempotency (cd_store db') k = Some row"
proof -
  have eff: "find_idempotency (cd_store db1) k = Some row" if "effect L db db1" for db1
    using that assms(2)
    by cases (auto dest!: insertQuoteItems_Inr(1) elim!: AppendEvent_InrD simp: find_idempotency_def)
  from assms(1) show ?thesis
    by (cases rule: committedE)
       (use assms(2) eff in \<open>auto dest: RecordIdempotency_InrD(2) simp: find_idempotency_def find_append\<close>)
qed

interpretation quotes: keyed_recorder "quote_run L" "cat_step L" quote_key "quote_fingerprint L" quote_admissible
  "quote_recorded L" "\<lambda>r. r" quote_conflict "\<lambda>db. codecs_ok L \<and> cat_ok L db" "\<lambda>r. enc (cl_quote L) r \<noteq> []"
  for L
proof unfold_locales
  fix db i r db' assume "codecs_ok L \<and> cat_ok L db" "quote_run L i db = (Inr r, db')" "enc (cl_quote L) r \<noteq> []"
  then show "quote_admissible i \<and> quote_recorded L db' (quote_key i) = Some (quote_fingerprint L i, r)"
    using quote_records quote_run_admissible by blast
next
  fix db k x c assume ok: "codecs_ok L \<and> cat_ok L db" and x: "quote_recorded L db k = Some x"
  then obtain row where row: "find_idempotency (cd_store db) k = Some row"
    by (auto simp: quote_recorded_def split: option.splits)
  from committed_idempotency [OF cat_step_committed this, of L c] ok
  have "find_idempotency (cd_store (cat_step L c db)) k = Some row" by blast
  with x row show "quote_recorded L (cat_step L c db) k = Some x" by (simp add: quote_recorded_def)
qed (auto simp: quote_run_step cat_step_ok quote_answer simp del: cat_step.simps)

end
