(* ===== verification/Catalog_Properties.thy ===== *)
theory Catalog_Properties
  imports Catalog_Pricing
begin

text \<open>
  What the resource catalog promises its callers, over whole histories of commands and on the
  deployment of \<open>Catalog_Example\<close>.
\<close>

section \<open>The tables\<close>

text \<open>
  C24: Every history of catalog commands keeps the tables well formed. From a well-formed catalog, after
  any sequence of calls with any arguments, every row satisfies its CHECK constraints, identities and
  unique indexes hold, prices name existing plans, quotes name existing plans and versions and keep a
  readable admission snapshot with a frozen resource plan, lines belong to quotes, no two quotes are
  accepted by one operation, and the Outbox holds exactly the deliveries of its events.
\<close>

theorem catalog_invariant:
  assumes "codecs_ok L" and "cat_ok L db"
  shows "cat_ok L (fold (cat_step L) cmds db) \<and>
         distinct (map qt_id (cd_quotes (fold (cat_step L) cmds db))) \<and>
         (\<forall>a b obligation. a \<in> set (cd_quotes (fold (cat_step L) cmds db)) \<and>
            b \<in> set (cd_quotes (fold (cat_step L) cmds db)) \<and>
            qt_accepted_by a = Some obligation \<and> qt_accepted_by b = Some obligation \<longrightarrow> a = b)"
proof -
  define db' where "db' = fold (cat_step L) cmds db"
  have ok: "cat_ok L db'"
    unfolding db'_def using assms(2)
    by (induction cmds arbitrary: db) (simp_all add: cat_step_ok assms(1) del: cat_step.simps)
  then have "table_ok quote_check quote_clash (cd_quotes db')" by (simp add: cat_ok_def)
  then have "a = b" if "a \<in> set (cd_quotes db')" "b \<in> set (cd_quotes db')"
    "qt_accepted_by a = Some obligation" "qt_accepted_by b = Some obligation" for a b obligation
    using that by (intro table_ok_unique [of quote_check quote_clash]) (simp_all add: quote_clash_def)
  with ok quote_ids_distinct [OF ok] show ?thesis unfolding db'_def [symmetric] by blast
qed

theorem catalog_invariant_witness:
  "cat_ok ex_lib (fold (cat_step ex_lib)
     [CatQuote (ex_env ''6'' 9) (Some sample_call) (Some ex_request),
      CatAccept (ex_env [] 20) (Some sample_call) ex_accept] ex_catalog)"
  using catalog_invariant [OF ex_lib_ok ex_catalog_ok] by blast

section \<open>Quotes\<close>

text \<open>
  C8: A quote binds exactly one operation. Once AcceptQuote has succeeded for an obligation and a
  workspace, then after any sequence of catalog commands the same acceptance is answered with the same
  quote, digest, plan and identity and changes nothing, and an acceptance of that quote for any other
  obligation or workspace is refused with AlreadyExists and changes nothing.
\<close>

theorem quote_bound_once:
  assumes "deployment_ok d" and "accept_run i d = (Inr a, d')" and "accept_key j = accept_key i"
    and "accept_admissible j"
  shows "accept_run j (fold deployment_step cmds d') =
           (if accept_fingerprint j = accept_fingerprint i then Inr a
            else Inl (EStatus AlreadyExists ''this quote is already bound to another acceptance''),
            fold deployment_step cmds d')"
  using acceptance.keyed.key_bound [OF assms(1,2) TrueI assms(3,4), of cmds]
  by (auto simp: accept_conflict_def split: if_splits)

theorem quote_bound_once_witness:
  "\<exists>d. accept_run (ex_acceptance\<lparr>ac_request := ex_accept\<lparr>aa_ObligationId := ''op_2''\<rparr>\<rparr>) d =
     (Inl (EStatus AlreadyExists ''this quote is already bound to another acceptance''), d)"
proof -
  let ?j = "ex_acceptance\<lparr>ac_request := ex_accept\<lparr>aa_ObligationId := ''op_2''\<rparr>\<rparr>"
  obtain a d' where run: "accept_run ex_acceptance (ex_lib, ex_offered) = (Inr a, d')" using ex_accepted by blast
  have ok: "deployment_ok (ex_lib, ex_offered)" by (simp add: deployment_ok_def ex_lib_ok ex_offered_ok)
  have key: "accept_key ?j = accept_key ex_acceptance" "accept_fingerprint ?j \<noteq> accept_fingerprint ex_acceptance"
    by (simp_all add: accept_key_def accept_fingerprint_def ex_acceptance_def ex_accept_def)
  have adm: "accept_admissible ?j" by code_simp
  from quote_bound_once [OF ok run key(1) adm, of "[]"] key(2) show ?thesis by (intro exI [of _ d']) simp
qed

text \<open>
  C22: An offer reads back as it was made, for ever. After a first CreateQuote, whatever commands
  follow, GetQuote by any authorized caller of the tenant returns the very quote that was returned:
  every price line, term, version and plan, with its instants as the database keeps them and the
  database's creation time. Only its status moves: offered until it expires or is accepted.
\<close>

theorem quote_readback:
  assumes "codecs_ok L" and "cat_ok L db"
    and "quote_run L i db = (Inr out, db')"
    and "find_idempotency (cd_store db) (quote_key i) = None"
    and "catalog_auth e call ''GetQuote'' False = None" and "call_tenant call = call_tenant (Some (qc_call i))"
  shows "\<exists>st. GetQuote (e\<lparr>ev_lib := L\<rparr>) call (qu_Id out) (fold (cat_step L) cmds db') =
             Inr ((as_stored L (ev_tx (qc_env i)) out)\<lparr>qu_Status := st\<rparr>) \<and>
           (st = ''ACCEPTED'' \<or> st = (if cl_pg_time L (AsTime (qu_ExpiresAt out)) \<le> ev_now e then ''EXPIRED'' else ''OFFERED''))"
proof -
  let ?e = "(qc_env i)\<lparr>ev_lib := L\<rparr>" and ?t = "call_tenant (Some (qc_call i))"
  obtain selection db1 st where work: "validateDeployQuoteRequest (Some (qc_request i)) = Inr selection"
    "create_quote_work ?e (qc_call i) (qc_request i) selection db = Inr (out, db1)" "db' = db1\<lparr>cd_store := st\<rparr>"
    using CreateQuote_ran [OF assms(3) [unfolded quote_run_def]] assms(4)
    by (metis option.inject quote_key_def)
  from create_quote_offer [OF _ _ work(1,2)] assms(1,2) obtain r where
    r: "find_quote db1 (qu_Id out) ?t = Some r" "offer_row L db1 out (ev_tx (qc_env i)) r" by auto
  moreover have "scan_quote True L db' r = scan_quote True L db1 r"
    by (rule scan_quote_cong, rule readQuoteLines_cong) (simp add: work(3))
  ultimately have r': "find_quote db' (qu_Id out) ?t = Some r" "offer_row L db' out (ev_tx (qc_env i)) r"
    by (simp_all add: work(3) find_quote_def offer_row_def)
  have "cat_ok L db'" using cat_step_ok [OF assms(1,2)] quote_run_step [of L i db] assms(3) by (metis snd_conv)
  define db2 where "db2 = fold (cat_step L) cmds db'"
  from history_quote [OF assms(1) \<open>cat_ok L db'\<close> r'(1), of cmds True, folded db2_def] obtain r1 where
    r1: "find_quote db2 (qu_Id out) ?t = Some r1" "quote_evolves L r r1"
    "readQuoteLines True db2 (qu_Id out) = readQuoteLines True db' (qu_Id out)" by blast
  have "qt_id r = qu_Id out" using find_quoteD [OF r'(1)] by blast
  define q where "q = as_stored L (ev_tx (qc_env i)) out"
  have q: "AsTime (qu_ExpiresAt q) = cl_pg_time L (AsTime (qu_ExpiresAt out))" by (simp add: q_def as_stored_def)
  from scan_quote_evolved [OF r'(2) r1(2), of db2, folded q_def] r1(1,3) \<open>qt_id r = qu_Id out\<close>
  have read: "readQuote L (qu_Id out) ?t db2 = Inr (q\<lparr>qu_Status := if r1 = r then ''OFFERED'' else ''ACCEPTED''\<rparr>)"
    by (simp add: readQuote_def)
  let ?st = "if r1 \<noteq> r then ''ACCEPTED'' else if cl_pg_time L (AsTime (qu_ExpiresAt out)) \<le> ev_now e then ''EXPIRED'' else ''OFFERED''"
  have "qu_Id out \<noteq> []" using r(2) by (simp add: offer_row_def)
  then have "GetQuote (e\<lparr>ev_lib := L\<rparr>) call (qu_Id out) db2 = Inr (q\<lparr>qu_Status := ?st\<rparr>)"
    by (cases "r1 = r"; cases "cl_pg_time L (AsTime (qu_ExpiresAt out)) \<le> ev_now e") (simp_all add: GetQuote_def assms(5,6) read q)
  then show ?thesis unfolding db2_def [symmetric] q_def [symmetric] by (intro exI [of _ ?st] conjI) simp_all
qed

theorem quote_readback_witness:
  "\<exists>st. GetQuote ((ex_env [] 20)\<lparr>ev_lib := ex_lib\<rparr>) (Some sample_call) ''quote_p''
       (fold (cat_step ex_lib) [CatAccept (ex_env [] 20) (Some sample_call) ex_accept] ex_offered) =
     Inr ((as_stored ex_lib 9 ex_quote)\<lparr>qu_Status := st\<rparr>)"
proof -
  let ?i = "\<lparr>qc_env = ex_env ''6'' 9, qc_call = sample_call, qc_request = ex_request\<rparr>"
  have lib: "(ex_env ''6'' 9)\<lparr>ev_lib := ex_lib\<rparr> = ex_env ''6'' 9" by (simp add: ex_env_def)
  have run: "quote_run ex_lib ?i ex_catalog = (Inr ex_quote, ex_offered)"
    by (simp add: quote_run_def lib ex_quote_created)
  have fresh: "find_idempotency (cd_store ex_catalog) (quote_key ?i) = None"
    by (simp add: ex_catalog_def empty_catalog_def empty_store_def find_idempotency_def)
  have auth: "catalog_auth (ex_env [] 20) (Some sample_call) ''GetQuote'' False = None" by code_simp
  have facts: "qu_Id ex_quote = ''quote_p''" "ev_tx (ex_env ''6'' 9) = 9" by (simp_all add: ex_quote_def ex_env_def)
  from quote_readback [OF ex_lib_ok ex_catalog_ok run fresh auth, simplified quote_input.simps facts, OF refl]
  show ?thesis by blast
qed

text \<open>
  C9: A quote charges exactly the effective price. A first successful CreateQuote prices the requested
  plan pair with the newest price version that has started and not ended, its total is the exact sum of
  the three monthly amounts and inside int64, both plans are stored and available at that instant, the
  paid period is one month of 28 to 31 days from now, and the offer lasts thirty minutes.
\<close>

theorem quote_priced:
  assumes "cat_ok (ev_lib e) db" and "CreateQuote e (Some c) (Some q) db = (Inr out, db')"
    and "find_idempotency (cd_store db) (quote_scope c) = None"
  shows "(\<exists>p. effective_price db (qr_ComputePlanId q) (qr_StoragePlanId q) (ev_now e) p \<and>
            qu_PricePolicyVersionId out = pp_id p \<and>
            qu_TotalUsdMicros out = pp_compute_monthly p + pp_storage_monthly p + pp_product_monthly p) \<and>
         0 \<le> qu_TotalUsdMicros out \<and> qu_TotalUsdMicros out \<le> MaxInt64 \<and>
         (\<exists>cp sp. cp \<in> set (cd_compute_plans db) \<and> pl_id cp = qr_ComputePlanId q \<and>
            plan_availability cp (ev_now e) = Inr ''available'' \<and>
            sp \<in> set (cd_storage_plans db) \<and> pl_id sp = qr_StoragePlanId q \<and>
            plan_availability sp (ev_now e) = Inr ''available'') \<and>
         AsTime (qu_PeriodStart out) = ev_now e \<and>
         (\<exists>days. 28 \<le> days \<and> days \<le> 31 \<and> AsTime (qu_PeriodEnd out) = ev_now e + days * day_ns) \<and>
         AsTime (qu_ExpiresAt out) = ev_now e + 30 * 60 * 1000000000"
proof -
  obtain selection db1 where work: "create_quote_work e c q selection db = Inr (out, db1)"
    using CreateQuote_ran [OF assms(2)] assms(3) by (metis option.inject)
  obtain p where "effective_price db (qr_ComputePlanId q) (qr_StoragePlanId q) (ev_now e) p"
    "qu_PricePolicyVersionId out = pp_id p"
    "qu_TotalUsdMicros out = pp_compute_monthly p + pp_storage_monthly p + pp_product_monthly p"
    "0 \<le> qu_TotalUsdMicros out" "qu_TotalUsdMicros out \<le> MaxInt64"
    using create_quote_price [OF assms(1) work] by metis
  moreover obtain cp sp where "cp \<in> set (cd_compute_plans db)" "pl_id cp = qr_ComputePlanId q"
    "plan_availability cp (ev_now e) = Inr ''available''"
    "sp \<in> set (cd_storage_plans db)" "pl_id sp = qr_StoragePlanId q"
    "plan_availability sp (ev_now e) = Inr ''available''"
    using work by (rule create_quote_plans)
  ultimately show ?thesis
    using create_quote_times [OF work] AddMonth_length [of "ev_now e"] unfolding quoteValidity_def by metis
qed

theorem quote_priced_witness:
  "\<exists>p. effective_price ex_catalog ''compute_p'' ''storage_p'' 9 p \<and>
     pp_compute_monthly p + pp_storage_monthly p + pp_product_monthly p = 5700000"
proof -
  have lib: "ev_lib (ex_env ''6'' 9) = ex_lib" "ev_now (ex_env ''6'' 9) = 9" by (simp_all add: ex_env_def)
  have fresh: "find_idempotency (cd_store ex_catalog) (quote_scope sample_call) = None"
    by (simp add: ex_catalog_def empty_catalog_def empty_store_def find_idempotency_def)
  from quote_priced [OF _ ex_quote_created fresh] ex_catalog_ok
  obtain p where "effective_price ex_catalog (qr_ComputePlanId ex_request) (qr_StoragePlanId ex_request) 9 p"
    "qu_TotalUsdMicros ex_quote = pp_compute_monthly p + pp_storage_monthly p + pp_product_monthly p"
    unfolding lib by blast
  then show ?thesis by (simp add: ex_request_def ex_quote_def) (metis add.commute)
qed

text \<open>
  C23: CreateQuote is idempotent for ever. Once a call has returned a quote that its encoder can print,
  then after any sequence of catalog commands the same tenant, actor and idempotency key with the same
  request return that quote and change nothing, and with another request hash are refused with
  AlreadyExists and change nothing.
\<close>

theorem create_quote_idempotent:
  assumes "codecs_ok L" and "cat_ok L db" and "quote_run L i db = (Inr r, db')" and "enc (cl_quote L) r \<noteq> []"
    and "quote_key j = quote_key i" and "quote_admissible j"
  shows "quote_run L j (fold (cat_step L) cmds db') =
           (if quote_fingerprint L j = quote_fingerprint L i then Inr r
            else Inl (EStatus AlreadyExists ''idempotency key has different input''),
            fold (cat_step L) cmds db')"
  using quotes.key_bound [OF conjI [OF assms(1,2)] assms(3-6), of cmds]
  by (simp add: quote_conflict_def split: if_splits)

theorem create_quote_idempotent_witness:
  "quote_run ex_lib \<lparr>qc_env = ex_env ''7'' 11, qc_call = sample_call, qc_request = ex_request\<rparr> ex_offered =
     (Inr ex_quote, ex_offered)"
proof -
  let ?i = "\<lparr>qc_env = ex_env ''6'' 9, qc_call = sample_call, qc_request = ex_request\<rparr>"
  let ?j = "\<lparr>qc_env = ex_env ''7'' 11, qc_call = sample_call, qc_request = ex_request\<rparr>"
  have lib: "(ex_env ''6'' 9)\<lparr>ev_lib := ex_lib\<rparr> = ex_env ''6'' 9" by (simp add: ex_env_def)
  have run: "quote_run ex_lib ?i ex_catalog = (Inr ex_quote, ex_offered)"
    by (simp add: quote_run_def lib ex_quote_created)
  have fits: "enc (cl_quote ex_lib) ex_quote \<noteq> []" by (simp add: ex_lib_def one_value_def)
  have key: "quote_key ?j = quote_key ?i" "quote_fingerprint ex_lib ?j = quote_fingerprint ex_lib ?i"
    by (simp_all add: quote_key_def quote_fingerprint_def)
  have adm: "quote_admissible ?j" by code_simp
  from create_quote_idempotent [OF ex_lib_ok ex_catalog_ok run fits key(1) adm, of "[]"] key(2) show ?thesis by simp
qed

section \<open>Plan changes\<close>

lemma ceiling_div:
  assumes "0 < (b::int)" and "0 \<le> n" "n \<le> d * b"
  defines "v \<equiv> if n - n div b * b \<noteq> 0 then n div b + 1 else n div b"
  shows "0 \<le> v" and "v \<le> d" and "n \<le> v * b" and "v = 0 \<or> (v - 1) * b < n"
proof -
  define q m where "q = n div b" and "m = n mod b"
  have n: "n = q * b + m" "0 \<le> m" "m < b" using assms(1) by (simp_all add: q_def m_def)
  have v: "v = (if m \<noteq> 0 then q + 1 else q)" unfolding v_def q_def [symmetric] using n(1) by auto
  have q: "0 \<le> q" using assms(1,2) by (simp add: q_def pos_imp_zdiv_nonneg_iff)
  then show "0 \<le> v" by (simp add: v)
  show "n \<le> v * b" using n by (simp add: v distrib_right)
  show up: "v = 0 \<or> (v - 1) * b < n"
  proof (cases "m = 0")
    case True
    then show ?thesis using n(1) assms(1) by (simp add: v left_diff_distrib)
  next
    case False
    then have "(v - 1) * b = q * b" by (simp add: v)
    then show ?thesis using n False by linarith
  qed
  show "v \<le> d"
  proof (rule ccontr)
    assume "\<not> v \<le> d"
    then have "d * b \<le> (v - 1) * b" using assms(1) by (intro mult_right_mono) simp_all
    moreover have "0 \<le> d" using assms by (metis order_trans zero_le_mult_iff not_less order.strict_implies_order)
    ultimately show False using up assms(3) \<open>\<not> v \<le> d\<close> by linarith
  qed
qed

lemma upgrade_charge:
  assumes "0 \<le> old" "old \<le> MaxInt64" and "0 \<le> new" "new \<le> MaxInt64"
    and "0 < remaining" "remaining \<le> period"
  shows "\<exists>charge. upgradeChargeMicros old new period remaining = (charge, True) \<and>
            0 \<le> charge \<and> charge \<le> max 0 (new - old) \<and>
            max 0 (new - old) * remaining \<le> charge * period \<and>
            (charge = 0 \<or> (charge - 1) * period < max 0 (new - old) * remaining)"
proof -
  define d where "d = new - old"
  define n where "n = d * remaining"
  have pos: "0 < period" using assms by linarith
  have range: "int64_range (new - old)" using assms by (simp add: int64_range_def MinInt64_def MaxInt64_def)
  define v where "v = (if n - n div period * period \<noteq> 0 then n div period + 1 else n div period)"
  show ?thesis
  proof (cases "d \<le> 0")
    case True
    then show ?thesis using assms range by (simp add: upgradeChargeMicros_def Let_def d_def)
  next
    case False
    then have n: "0 \<le> n" "n \<le> d * period" using assms by (simp_all add: n_def mult_left_mono)
    note v = ceiling_div [OF pos n, folded v_def]
    have "int64_range v" using v(1,2) assms by (simp add: int64_range_def MinInt64_def d_def)
    then have "upgradeChargeMicros old new period remaining = (v, True)"
      using assms range False quot_nonneg [OF n(1) pos]
      by (simp add: upgradeChargeMicros_def Let_def d_def [symmetric] n_def [symmetric] v_def split: if_splits)
    with v False show ?thesis by (auto simp: d_def n_def max_def)
  qed
qed

lemma supplement_refund:
  assumes "0 < period" "period \<le> MaxInt64" and "0 \<le> confirmed" "confirmed \<le> MaxInt64"
    and "0 \<le> elapsed" "elapsed \<le> period"
  shows "\<exists>refund. supplementDeleteRefundMicros confirmed period elapsed = (refund, True) \<and>
            0 \<le> refund \<and> refund \<le> confirmed \<and>
            refund * period \<le> confirmed * (period - elapsed) \<and>
            confirmed * (period - elapsed) < (refund + 1) * period"
proof -
  define r where "r = confirmed * (period - elapsed)"
  define q m where "q = r div period" and "m = r mod period"
  have r: "0 \<le> r" "r \<le> confirmed * period" using assms by (simp_all add: r_def mult_left_mono)
  have q: "r = q * period + m" "0 \<le> m" "m < period" using assms(1) by (simp_all add: q_def m_def)
  have q0: "0 \<le> q" using assms(1) r by (simp add: q_def pos_imp_zdiv_nonneg_iff)
  have "q * period \<le> confirmed * period" using q r by linarith
  then have qc: "q \<le> confirmed" using assms(1) by simp
  have "int64_range q" "int64_range (period - elapsed)"
    using q0 qc assms by (simp_all add: int64_range_def MinInt64_def)
  then have "supplementDeleteRefundMicros confirmed period elapsed = (q, True)"
    using assms quot_nonneg [OF r(1) assms(1)]
    by (simp add: supplementDeleteRefundMicros_def Let_def r_def [symmetric] q_def)
  moreover have "q * period \<le> r" "r < (q + 1) * period" using q by (simp_all add: distrib_right)
  ultimately show ?thesis using q0 qc unfolding r_def by blast
qed

text \<open>
  C25: The plan-change arithmetic is exact and never overflows. For stored monthly prices and a running
  period, an upgrade is charged the price difference for the remaining milliseconds, rounded up once,
  nothing for a cheaper plan, and never more than the difference; and what is refunded of a confirmed
  supplement when the workspace is deleted is its unused share rounded down, never more than was paid.
\<close>

theorem plan_change_money:
  assumes "0 \<le> old" "old \<le> MaxInt64" and "0 \<le> new" "new \<le> MaxInt64"
    and "0 < remaining" "remaining \<le> period" "period \<le> MaxInt64"
    and "0 \<le> confirmed" "confirmed \<le> MaxInt64" and "0 \<le> elapsed" "elapsed \<le> period"
  shows "(\<exists>charge. upgradeChargeMicros old new period remaining = (charge, True) \<and>
            0 \<le> charge \<and> charge \<le> max 0 (new - old) \<and>
            max 0 (new - old) * remaining \<le> charge * period \<and>
            (charge = 0 \<or> (charge - 1) * period < max 0 (new - old) * remaining)) \<and>
         (\<exists>refund. supplementDeleteRefundMicros confirmed period elapsed = (refund, True) \<and>
            0 \<le> refund \<and> refund \<le> confirmed \<and>
            refund * period \<le> confirmed * (period - elapsed) \<and>
            confirmed * (period - elapsed) < (refund + 1) * period)"
  using upgrade_charge [OF assms(1-6)] supplement_refund [OF _ assms(7-11)] assms(5,6) by force

theorem plan_change_money_witness:
  "upgradeChargeMicros 100 401 1000 333 = (101, True) \<and>
   (\<exists>refund. supplementDeleteRefundMicros 101 1000 500 = (refund, True) \<and> refund \<le> 101)"
proof -
  have "upgradeChargeMicros 100 401 1000 333 = (101, True)" by code_simp
  with plan_change_money [of 100 401 333 1000 101 500] show ?thesis by (auto simp: MaxInt64_def)
qed

section \<open>Plans\<close>

text \<open>
  The answer to a publication can contradict the catalog. CreateComputePlan answers that the plan is
  available whatever its window; when the window starts later, the row it has just stored is projected
  as unavailable at the same instant by the listing and refused by the pricing of a quote.
\<close>

theorem future_plan_answer:
  assumes "create_compute_work e c b db = Inr (out, db1)" and "cb_ValidFrom b = Some from"
    and "ev_now e < cl_pg_time (ev_lib e) (AsTime from)"
  shows "cm_Availability out = ''AVAILABLE'' \<and>
         (\<exists>r. r \<in> set (cd_compute_plans db1) \<and> pl_id r = cm_Id out \<and>
            (\<exists>m. scanComputePlan r (ev_now e) = Inr m \<and> cm_Availability m = ''UNAVAILABLE''))"
proof -
  have enums: "availabilityEnum ''available'' = ''AVAILABLE''" "availabilityEnum ''unavailable'' = ''UNAVAILABLE''"
    by code_simp+
  from assms obtain rows row where rows:
    "insert_row compute_check plan_clash (\<lambda>_. True) row (cd_compute_plans db) = Inr rows"
    "db1 = db\<lparr>cd_compute_plans := rows\<rparr>" "pl_id row = cm_Id out" "pl_status row = ''approved''"
    "pl_valid_from row = cl_pg_time (ev_lib e) (AsTime from)" "cm_Availability out = availabilityEnum ''available''"
    by (auto simp: create_compute_work_def Let_def split: sum.splits)
  then have "row \<in> set (cd_compute_plans db1)" by (simp add: insert_row_Inr)
  moreover have "plan_availability row (ev_now e) = Inr ''unavailable''"
    using rows assms(3) by (simp add: plan_availability_def availability_def)
  ultimately show ?thesis using rows enums by (auto simp: scanComputePlan_def)
qed

theorem future_plan_answer_witness:
  "\<exists>out db1. create_compute_work (ex_env ''1'' 1) ex_admin ex_compute empty_catalog = Inr (out, db1) \<and>
     cm_Availability out = ''AVAILABLE''"
proof -
  have "\<not> isl (create_compute_work (ex_env ''1'' 1) ex_admin ex_compute empty_catalog)" by code_simp
  then obtain out db1 where run: "create_compute_work (ex_env ''1'' 1) ex_admin ex_compute empty_catalog = Inr (out, db1)"
    by (cases "create_compute_work (ex_env ''1'' 1) ex_admin ex_compute empty_catalog") auto
  have "cb_ValidFrom ex_compute = Some (timestamp 2)" "ev_now (ex_env ''1'' 1) < cl_pg_time (ev_lib (ex_env ''1'' 1)) (AsTime (timestamp 2))"
    by (simp_all add: ex_compute_def ex_env_def ex_lib_def)
  from future_plan_answer [OF run this] run show ?thesis by blast
qed

text \<open>
  Retiring a plan that does not exist is not answered NotFound. For an authorized, well-formed
  request on an unknown plan, SetComputePlanAvailability changes nothing and returns the bare
  sql.ErrNoRows, which a gRPC client sees as Unknown; the service's own mapping of that error is
  NotFound.
\<close>

theorem unknown_plan_error:
  assumes "catalog_auth e (Some c) ''SetComputePlanAvailability'' True = None"
    and "requestedStatus body = Inr stored" and "pid \<noteq> []" and "ctx_IdempotencyKey c \<noteq> []"
    and "find_idempotency (cd_store db)
           (command_scope c, ctx_ActorId c, ''SetComputePlanAvailability'', ctx_IdempotencyKey c) = None"
    and "pid \<notin> pl_id ` set (cd_compute_plans db)"
  shows "SetComputePlanAvailability e (Some c) pid body db = (Inl ENoRows, db) \<and>
         status_code ENoRows = Unknown \<and> status_code (dbError ENoRows) = NotFound"
proof -
  have "pl_id ` set (set_status e stored pid (cd_compute_plans db)) = pl_id ` set (cd_compute_plans db)" by simp
  with assms(6) have "List.find (\<lambda>r. pl_id r = pid) (set_status e stored pid (cd_compute_plans db)) = None"
    by (metis (mono_tags, lifting) find_None_iff image_eqI)
  then have "set_compute_work e stored pid db = Inl ENoRows" by (simp add: set_compute_work_def Let_def)
  with assms show ?thesis
    by (simp add: SetComputePlanAvailability_def authorized_def command_def LookupIdempotency_def status_code_def
        dbError_def)
qed

theorem unknown_plan_error_witness:
  "SetComputePlanAvailability (ex_env ''1'' 9) (Some ex_admin) ''compute_q''
     \<lparr>av_Availability = ''RETIRED'', av_Reason = ''sold out''\<rparr> ex_catalog = (Inl ENoRows, ex_catalog)"
proof -
  have auth: "catalog_auth (ex_env ''1'' 9) (Some ex_admin) ''SetComputePlanAvailability'' True = None" by code_simp
  have req: "requestedStatus \<lparr>av_Availability = ''RETIRED'', av_Reason = ''sold out''\<rparr> = Inr ''revoked''" by code_simp
  have ids: "''compute_q'' \<notin> pl_id ` set (cd_compute_plans ex_catalog)" by (simp add: ex_catalog_def)
  have key: "ctx_IdempotencyKey ex_admin \<noteq> []" by (simp add: ex_admin_def sample_call_def)
  have fresh: "find_idempotency (cd_store ex_catalog) k = None" for k
    by (simp add: ex_catalog_def empty_catalog_def empty_store_def find_idempotency_def)
  from unknown_plan_error [OF auth req _ key fresh ids] show ?thesis by blast
qed

end
