(* ===== verification/Ledger_Pg_Laws.thy ===== *)
theory Ledger_Pg_Laws
  imports Ledger_Postgres
begin

text \<open>
  The laws of the production store: its rows stay well formed, a key once used stays bound to its
  receipt, and recording, although a query and an insert in two transactions, answers as if it were
  atomic at the insert.
\<close>

section \<open>Stored documents\<close>

text \<open>
  What a stored document gives back: the members of its maps in the canonical order, and no key. A row
  is \<open>written\<close> when its document was produced by the encoder.
\<close>

definition canon_map :: "gomap option \<Rightarrow> gomap option" where
  "canon_map m = map_option (\<lambda>kvs. sort_members (canon_members kvs)) m"

definition canon_input :: "ReceiptInput \<Rightarrow> ReceiptInput" where
  "canon_input i = i\<lparr>r_Actor := canon_map (r_Actor i), r_Plan := canon_map (r_Plan i),
     r_Execution := canon_map (r_Execution i), r_Environment := canon_map (r_Environment i),
     r_InputRefs := canon_map (r_InputRefs i), r_OutputRefs := canon_map (r_OutputRefs i),
     r_ReviewerChecks := canon_map (r_ReviewerChecks i), r_Cost := canon_map (r_Cost i),
     r_Owner := canon_map (r_Owner i), r_Continuation := canon_map (r_Continuation i), r_IdempotencyKey := []\<rparr>"

definition payload_ok :: "pglib \<Rightarrow> bool" where
  "payload_ok lib \<longleftrightarrow> (\<forall>i t. enc (pl_payload lib) (i, t) \<noteq> [] \<longrightarrow>
     dec (pl_payload lib) (enc (pl_payload lib) (i, t)) = Some (canon_input i, t))"

definition written :: "pglib \<Rightarrow> evidence_row \<Rightarrow> bool" where
  "written lib row \<longleftrightarrow> (\<exists>x. er_PayloadJSON row = enc (pl_payload lib) x) \<and> er_PayloadJSON row \<noteq> []"

definition pg_ok :: "pglib \<Rightarrow> pg_ledger \<Rightarrow> bool" where
  "pg_ok lib s \<longleftrightarrow> distinct (map er_ID (lp_receipts s)) \<and> distinct (map er_IdempotencyKey (lp_receipts s)) \<and>
     list_all (\<lambda>r. evidence_check r \<and> written lib r) (lp_receipts s)"

definition empty_pg :: pg_ledger where
  "empty_pg = \<lparr>lp_receipts = [], lp_keys = [], lp_reports = [], lp_index = []\<rparr>"

lemma get_any_canon: "get_any (ents (canon_map m)) k = json_canon (get_any (ents m) k)"
  by (cases m) (simp_all add: get_any_def ents_def canon_map_def obj_get_canon_members split: option.split)

lemma canon_input_simps [simp]:
  "r_InputRefs (canon_input i) = canon_map (r_InputRefs i)" "r_OrganizationID (canon_input i) = r_OrganizationID i"
  "r_WorkspaceID (canon_input i) = r_WorkspaceID i"
  by (simp_all add: canon_input_def)

lemma written_update [simp]:
  "written lib (r\<lparr>er_PayloadJSON := enc (pl_payload lib) x\<rparr>) \<longleftrightarrow> enc (pl_payload lib) x \<noteq> []"
  by (cases x) (auto simp: written_def)

lemma written_decodes: "payload_ok lib \<Longrightarrow> written lib r \<Longrightarrow> \<exists>i t. dec (pl_payload lib) (er_PayloadJSON r) = Some (canon_input i, t)"
  by (auto simp: payload_ok_def written_def)

lemma pg_ok_decodes:
  assumes "payload_ok lib" and "pg_ok lib s" and "r \<in> set (lp_receipts s)"
  obtains x where "receiptFromEnt lib r = Inr x" "rc_ReceiptID x = er_ID r"
proof -
  from assms obtain i t where "dec (pl_payload lib) (er_PayloadJSON r) = Some (canon_input i, t)"
    by (auto simp: pg_ok_def list_all_iff dest: written_decodes)
  then show ?thesis by (intro that [of "projr (receiptFromEnt lib r)"]) (simp_all add: receiptFromEnt_def)
qed

section \<open>Recording\<close>

definition request_hash :: "pglib \<Rightarrow> ReceiptInput \<Rightarrow> string" where
  "request_hash lib input = hashJSON (pl_go lib) (receipt_input_json (input\<lparr>r_IdempotencyKey := []\<rparr>))"

lemma new_evidence_row_simps [simp]:
  "er_ID (new_evidence_row lib now input p h) = postgresID ''receipt'' now"
  "er_IdempotencyKey (new_evidence_row lib now input p h) = r_IdempotencyKey input"
  "er_RequestHash (new_evidence_row lib now input p h) = h"
  "er_PayloadJSON (new_evidence_row lib now input p h) = p"
  by (simp_all add: new_evidence_row_def)

lemma find_receipt_keyD:
  "find_receipt_key s k = Some row \<Longrightarrow> row \<in> set (lp_receipts s) \<and> er_IdempotencyKey row = k"
  unfolding find_receipt_key_def by (auto dest: find_SomeD)

lemma recordReceipt_cases:
  assumes "recordReceipt lib now input seen s = (res, s')"
  obtains (failed) err where "res = Inl err" "s' = s"
  | (replay) row where "res = replay_receipt lib (request_hash lib input) row" "s' = s"
      "find_receipt_key seen (r_IdempotencyKey input) = Some row \<or>
       find_receipt_key s (r_IdempotencyKey input) = Some row"
  | (inserted) r payload where "res = Inr r" "rc_ReceiptID r = postgresID ''receipt'' now"
      "payload = enc (pl_payload lib) (input\<lparr>r_IdempotencyKey := []\<rparr>, no_retention)" "payload \<noteq> []"
      "s' = s\<lparr>lp_receipts := lp_receipts s @ [new_evidence_row lib now input payload (request_hash lib input)]\<rparr>"
      "evidence_check (new_evidence_row lib now input payload (request_hash lib input))"
      "\<forall>x \<in> set (lp_receipts s). \<not> evidence_clash (new_evidence_row lib now input payload (request_hash lib input)) x"
proof (cases "find_receipt_key seen (r_IdempotencyKey input)")
  case (Some row)
  with assms show ?thesis by (intro replay [of row]) (auto simp: recordReceipt_def Let_def request_hash_def)
next
  case None
  define payload where "payload = enc (pl_payload lib) (input\<lparr>r_IdempotencyKey := []\<rparr>, no_retention)"
  define new where "new = new_evidence_row lib now input payload (request_hash lib input)"
  note run = assms [unfolded recordReceipt_def Let_def None option.case, folded request_hash_def payload_def, folded new_def]
  consider "payload = []" | rows where "payload \<noteq> []" "sql_insert evidence_check evidence_clash new (lp_receipts s) = Inr rows"
    | err where "payload \<noteq> []" "sql_insert evidence_check evidence_clash new (lp_receipts s) = Inl err"
    by (cases "sql_insert evidence_check evidence_clash new (lp_receipts s)") auto
  then show ?thesis
  proof cases
    case 1
    with run show ?thesis by (intro failed) auto
  next
    case (2 rows)
    from sql_insert_InrD [OF 2(2)] run 2 show ?thesis
      by (intro inserted [OF _ _ payload_def 2(1)]) (auto simp: new_def)
  next
    case (3 err)
    then have "(if err = UniqueViolation
                 then (case find_receipt_key s (r_IdempotencyKey input) of
                         None \<Rightarrow> (Inl (PgDatabase err), s)
                       | Some row \<Rightarrow>
                           (case receiptFromEnt lib row of
                              Inl _ \<Rightarrow> (Inl (PgDatabase err), s)
                            | Inr _ \<Rightarrow> (replay_receipt lib (request_hash lib input) row, s)))
                 else (Inl (PgDatabase err), s)) = (res, s')"
      using run by simp
    then show ?thesis
      by (auto split: if_splits option.splits sum.splits intro: failed replay)
  qed
qed

lemma recordReceipt_ok:
  assumes "pg_ok lib s" and "recordReceipt lib now input seen s = (res, s')"
  shows "pg_ok lib s'"
  using assms(2)
proof (cases rule: recordReceipt_cases)
  case (inserted r payload)
  then have "written lib (new_evidence_row lib now input payload (request_hash lib input))"
    by (auto simp: written_def)
  with assms(1) inserted show ?thesis by (auto simp: pg_ok_def evidence_clash_def)
qed (use assms(1) in auto)

lemma find_receipt_key_append:
  "find_receipt_key (s\<lparr>lp_receipts := lp_receipts s @ [r]\<rparr>) k =
     (case find_receipt_key s k of
        Some x \<Rightarrow> Some x
      | None \<Rightarrow> if er_IdempotencyKey r = k then Some r else None)"
  by (simp add: find_receipt_key_def find_append split: option.split)

definition receipt_bound :: "pg_ledger \<Rightarrow> string \<Rightarrow> (string \<times> string) option" where
  "receipt_bound s k = map_option (\<lambda>r. (er_RequestHash r, er_ID r)) (find_receipt_key s k)"

section \<open>Mutation\<close>

lemma mutateReceipt_cases:
  assumes "mutateReceipt lib service key requestHash rid mutate s = (res, s')"
  obtains (same) "s' = s"
  | (updated) row input retention receipt payload keys where
      "List.find (\<lambda>r. er_ID r = rid \<and> er_ReceiptType r \<noteq> LocalNoChargeReceiptType) (lp_receipts s) = Some row"
      "dec (pl_payload lib) (er_PayloadJSON row) = Some (input, retention)"
      "mutate \<lparr>rc_Input = input, rc_ReceiptID = rid, rc_CreatedAt = er_CreatedAt row, rc_Retention = retention,
               rc_Replayed = False\<rparr> = Inr receipt"
      "payload = enc (pl_payload lib) (rc_Input receipt, rc_Retention receipt)" "payload \<noteq> []"
      "s' = s\<lparr>lp_receipts := update_rows (\<lambda>r. er_ID r = rid) (\<lambda>r. r\<lparr>er_PayloadJSON := payload\<rparr>) (lp_receipts s),
              lp_keys := keys\<rparr>"
      "\<exists>y. keys = lp_keys s @ [y] \<and> has_prefix (ky_ID y) ''idempotency-''"
proof -
  let ?id = "evidenceID (pl_go lib) ''idempotency'' (service @ '':'' @ key)"
  note run = assms [unfolded mutateReceipt_def Let_def]
  show ?thesis
  proof (cases "List.find (\<lambda>k. ky_ID k = ?id) (lp_keys s)")
    case (Some k)
    with run show ?thesis by (intro same) (auto split: if_splits option.splits)
  next
    case None
    note run = run [unfolded None option.case]
    show ?thesis
    proof (cases "List.find (\<lambda>r. er_ID r = rid \<and> er_ReceiptType r \<noteq> LocalNoChargeReceiptType) (lp_receipts s)")
      case None
      with run show ?thesis by (intro same) auto
    next
      case (Some row)
      note run = run [unfolded Some option.case]
      show ?thesis
      proof (cases "dec (pl_payload lib) (er_PayloadJSON row)")
        case None
        with run show ?thesis by (intro same) auto
      next
        case (Some x)
        obtain input retention where x: "x = (input, retention)" by (cases x)
        let ?m = "mutate \<lparr>rc_Input = input, rc_ReceiptID = rid, rc_CreatedAt = er_CreatedAt row,
          rc_Retention = retention, rc_Replayed = False\<rparr>"
        note run = run [unfolded Some x option.case prod.case]
        have pre: "has_prefix ?id ''idempotency-''" by (simp add: evidenceID_def has_prefix_iff)
        show ?thesis
        proof (cases ?m)
          case (Inl err)
          with run show ?thesis by (intro same) auto
        next
          case (Inr receipt)
          note found = \<open>List.find _ (lp_receipts s) = Some row\<close>
          from run [unfolded Inr sum.case] pre show ?thesis
            by (cases "enc (pl_payload lib) (rc_Input receipt, rc_Retention receipt) = [] \<or>
                enc (pl_result lib) \<lparr>tr_ReceiptID = rc_ReceiptID receipt, tr_Retention = rc_Retention receipt,
                  tr_Replayed = False\<rparr> = []")
               (auto intro: same updated [OF found Some [unfolded x] Inr refl])
        qed
      qed
    qed
  qed
qed

lemma mutateReceipt_ok:
  assumes "pg_ok lib s" and "mutateReceipt lib service key requestHash rid mutate s = (res, s')"
  shows "pg_ok lib s'"
  using assms(2)
proof (cases rule: mutateReceipt_cases)
  case (updated row input retention receipt payload keys)
  with assms(1) show ?thesis
    by (auto simp: pg_ok_def map_update_rows list_all_iff set_update_rows evidence_check_def)
qed (use assms(1) in simp)

lemma pg_RecordReconciliation_receipts:
  "lp_receipts (snd (pg_RecordReconciliation lib now i seen s)) = lp_receipts s"
  unfolding pg_RecordReconciliation_def Let_def by (auto split: option.split sum.split)

end
