(* ===== verification/Ledger_Typed.thy ===== *)
theory Ledger_Typed
  imports Ledger_Postgres Catalog_Types
begin

text \<open>
  Typed coordination evidence in the Ledger's store (\<open>local_receipt.go\<close>, \<open>wallet_action_receipt.go\<close>,
  \<open>provider_action_receipt.go\<close>, \<open>financial_receipt.go\<close> of \<open>services/ledger/internal/ledger\<close>): the shape
  checks of the three kinds of receipt, the one writer each kind has, and the readers. The three writers
  differ in their names, the evidence they keep, the identifier of the receipt and two members of the
  stored document; \<open>receipt_kind\<close> collects these, \<open>record_typed\<close> is the transaction they share. A
  message that is absent on the wire is \<open>None\<close>; reading a member of an absent message gives its zero
  value. The evidence messages are JSON values of protojson given by \<open>typedlib\<close>.
\<close>

section \<open>Messages\<close>

record ApiReceipt =
  ap_Id :: string
  ap_Kind :: string
  ap_Owner :: string
  ap_SourceSha :: "string option"
  ap_ArtifactDigest :: "string option"
  ap_OperationId :: "string option"
  ap_WorkflowRunId :: "string option"
  ap_Outcome :: string
  ap_EvidenceSummary :: string
  ap_CreatedAt :: "Timestamp option"

record OwnerCommitEvidence =
  oc_Owner :: string
  oc_OperationId :: string
  oc_ResourceId :: string
  oc_AcceptedInputDigest :: string
  oc_CommittedVersion :: int
  oc_AcceptedAt :: "Timestamp option"
  oc_AuthorizationContextId :: string
  oc_ActorId :: string
  oc_Scope :: "scope option"
  oc_AcceptedAction :: string
  oc_AuthorizationResource :: "AuthorizationResource option"
  oc_ContinuationResources :: "AuthorizationResource list"

record WalletOperation =
  wo_Id :: string
  wo_WorkspaceId :: "string option"
  wo_Kind :: string
  wo_AmountUsdMicros :: int
  wo_Status :: string
  wo_ExternalReference :: "string option"
  wo_ReceiptId :: "string option"
  wo_ErrorCode :: "string option"
  wo_CreatedAt :: "Timestamp option"
  wo_UpdatedAt :: "Timestamp option"
  wo_Purpose :: "string option"
  wo_PlanChangeId :: "string option"
  wo_OriginalChargeOperationId :: "string option"
  wo_CoverageStart :: "Timestamp option"
  wo_CoverageEnd :: "Timestamp option"
  wo_CoverageStartMilliseconds :: "int option"
  wo_CoverageEndMilliseconds :: "int option"

record AppendReceiptRequest =
  an_Context :: "CallContext option"
  an_Receipt :: "ApiReceipt option"
  an_EvidenceDigest :: string
  an_OwnerEvidenceReference :: string
  an_QuoteAcceptance :: "QuoteAcceptance option"
  an_OwnerCommitEvidence :: "OwnerCommitEvidence option"
  an_WalletOperation :: "WalletOperation option"

record TypedEvidence =
  \<comment> \<open>\<open>LocalNoChargeReceiptEvidence\<close> has no wallet operation, \<open>ProviderActionReceiptEvidence\<close> no quote either\<close>
  te_Receipt :: ApiReceipt
  te_QuoteAcceptance :: "QuoteAcceptance option"
  te_WalletOperation :: "WalletOperation option"
  te_OwnerCommitEvidence :: OwnerCommitEvidence
  te_EvidenceDigest :: string

record TypedRecord =
  yr_Evidence :: TypedEvidence
  yr_TenantID :: string
  yr_ActorID :: string
  yr_WorkspaceID :: string

record 'a jcodec =
  jenc :: "'a \<Rightarrow> json option"
  jdec :: "json \<Rightarrow> 'a option"

record typedlib =
  tl_pg :: pglib
  tl_evidence :: "string \<Rightarrow> TypedEvidence jcodec"

text \<open>
  \<open>tl_evidence\<close> is protojson on the evidence message of a receipt type. \<open>tl_go\<close> names the library under
  the store.
\<close>

abbreviation tl_go :: "typedlib \<Rightarrow> golib" where
  "tl_go lib \<equiv> pl_go (tl_pg lib)"

section \<open>Shape checks\<close>

definition artifactDigest :: "string \<Rightarrow> bool" where
  "artifactDigest d = sha256_digest d"

definition ts_ok :: "Timestamp option \<Rightarrow> bool" where
  \<comment> \<open>\<open>t != nil && t.CheckValid() == nil\<close>\<close>
  "ts_ok t = (case t of None \<Rightarrow> False | Some v \<Rightarrow> CheckValid v)"

definition call_shape :: "AppendReceiptRequest \<Rightarrow> CallContext \<Rightarrow> bool" where
  "call_shape r call \<longleftrightarrow>
     ctx_IdempotencyKey call \<noteq> [] \<and> length (ctx_IdempotencyKey call) \<le> 512 \<and> call_tenant (Some call) \<noteq> [] \<and>
     ctx_ActorId call \<noteq> [] \<and> an_OwnerEvidenceReference r \<noteq> []"

definition receipt_shape :: "string \<Rightarrow> AppendReceiptRequest \<Rightarrow> ApiReceipt \<Rightarrow> bool" where
  "receipt_shape kind r receipt \<longleftrightarrow>
     ap_Id receipt = [] \<and> ap_CreatedAt receipt = None \<and> coalesce_str (ap_SourceSha receipt) = [] \<and>
     coalesce_str (ap_ArtifactDigest receipt) = [] \<and> coalesce_str (ap_WorkflowRunId receipt) = [] \<and>
     ap_Kind receipt = kind \<and> ap_Owner receipt = ''WORKSPACE'' \<and> ap_Outcome receipt = ''CONFIRMED'' \<and>
     coalesce_str (ap_OperationId receipt) = an_OwnerEvidenceReference r \<and>
     length (ap_EvidenceSummary receipt) \<le> 1024"

definition plan_member :: "(ResourcePlanSnapshot \<Rightarrow> string) \<Rightarrow> QuoteAcceptance \<Rightarrow> string" where
  \<comment> \<open>\<open>q.GetResourcePlan().GetX()\<close>\<close>
  "plan_member f q = (case qa_ResourcePlan q of None \<Rightarrow> [] | Some p \<Rightarrow> f p)"

definition order_shape :: "AppendReceiptRequest \<Rightarrow> QuoteAcceptance \<Rightarrow> bool" where
  \<comment> \<open>what both funded kinds ask of the accepted quote\<close>
  "order_shape r q \<longleftrightarrow>
     artifactDigest (an_EvidenceDigest r) \<and> an_EvidenceDigest r = qa_SnapshotDigest q \<and>
     qa_AcceptanceId q \<noteq> [] \<and> qa_ObligationId q = an_OwnerEvidenceReference r \<and> qa_WorkspaceId q \<noteq> [] \<and>
     qu_Id (qa_Quote q) \<noteq> [] \<and> qu_Status (qa_Quote q) = ''ACCEPTED'' \<and>
     plan_member rp_ComputePlanId q \<noteq> [] \<and> plan_member rp_ComputePlanId q = qu_ComputePlanId (qa_Quote q) \<and>
     plan_member rp_StoragePlanId q \<noteq> [] \<and> plan_member rp_StoragePlanId q = qu_StoragePlanId (qa_Quote q) \<and>
     (coalesce_str (qu_WorkspaceId (qa_Quote q)) = [] \<or>
      coalesce_str (qu_WorkspaceId (qa_Quote q)) = qa_WorkspaceId q)"

definition commit_shape :: "AppendReceiptRequest \<Rightarrow> CallContext \<Rightarrow> OwnerCommitEvidence \<Rightarrow> string \<Rightarrow> bool" where
  "commit_shape r call c action \<longleftrightarrow>
     oc_Owner c = ''WORKSPACE'' \<and> oc_OperationId c = an_OwnerEvidenceReference r \<and>
     oc_ActorId c = ctx_ActorId call \<and> oc_Scope c = ctx_Scope call \<and> 1 \<le> oc_CommittedVersion c \<and>
     ts_ok (oc_AcceptedAt c) \<and> oc_AuthorizationContextId c \<noteq> [] \<and> oc_AcceptedAction c = action"

definition ValidateLocalNoChargeReceiptInput :: "AppendReceiptRequest \<Rightarrow> ledger_error option" where
  "ValidateLocalNoChargeReceiptInput r =
     (case (an_QuoteAcceptance r, an_OwnerCommitEvidence r, an_Receipt r, an_Context r) of
        (Some q, Some c, Some receipt, Some call) \<Rightarrow>
          if call_shape r call \<and> receipt_shape ''LOCAL_NO_CHARGE'' r receipt \<and> order_shape r q \<and>
             qu_TotalUsdMicros (qa_Quote q) = 0 \<and> plan_member rp_BillingMode q = ''LOCAL_NO_CHARGE'' \<and>
             plan_member rp_Provider q = ''local-docker'' \<and> commit_shape r call c ''CREATEWORKSPACE'' \<and>
             oc_ResourceId c = qa_WorkspaceId q \<and> artifactDigest (oc_AcceptedInputDigest c) \<and>
             list_all (\<lambda>line. ql_AmountUsdMicros line = 0) (qu_LineItems (qa_Quote q))
          then None else Some ErrInvalidReceiptInput
      | _ \<Rightarrow> Some ErrInvalidReceiptInput)"

definition ValidateWalletActionReceiptInput :: "AppendReceiptRequest \<Rightarrow> ledger_error option" where
  "ValidateWalletActionReceiptInput r =
     (case (an_QuoteAcceptance r, an_OwnerCommitEvidence r, an_WalletOperation r, an_Receipt r, an_Context r) of
        (Some q, Some c, Some wallet, Some receipt, Some call) \<Rightarrow>
          if call_shape r call \<and> receipt_shape ''WALLET_ACTION'' r receipt \<and> order_shape r q \<and>
             0 < qu_TotalUsdMicros (qa_Quote q) \<and> plan_member rp_BillingMode q \<noteq> ''LOCAL_NO_CHARGE'' \<and>
             wo_Id wallet \<noteq> [] \<and> coalesce_str (wo_ReceiptId wallet) \<noteq> [] \<and>
             coalesce_str (wo_WorkspaceId wallet) = qa_WorkspaceId q \<and> wo_Kind wallet = ''CHARGE'' \<and>
             wo_Status wallet = ''CONFIRMED'' \<and> wo_AmountUsdMicros wallet = qu_TotalUsdMicros (qa_Quote q) \<and>
             ts_ok (wo_CreatedAt wallet) \<and> commit_shape r call c ''CREATEWORKSPACE'' \<and>
             oc_ResourceId c = qa_WorkspaceId q \<and> artifactDigest (oc_AcceptedInputDigest c)
          then None else Some ErrInvalidReceiptInput
      | _ \<Rightarrow> Some ErrInvalidReceiptInput)"

definition ValidateProviderActionReceiptInput :: "AppendReceiptRequest \<Rightarrow> ledger_error option" where
  "ValidateProviderActionReceiptInput r =
     (case (an_OwnerCommitEvidence r, an_Receipt r, an_Context r) of
        (Some c, Some receipt, Some call) \<Rightarrow>
          if an_QuoteAcceptance r = None \<and> an_WalletOperation r = None \<and> call_shape r call \<and>
             receipt_shape ''PROVIDER_ACTION'' r receipt \<and> artifactDigest (an_EvidenceDigest r) \<and>
             an_EvidenceDigest r = oc_AcceptedInputDigest c \<and> commit_shape r call c ''DELETEWORKSPACE'' \<and>
             oc_ResourceId c \<noteq> [] \<and>
             (case oc_AuthorizationResource c of
                None \<Rightarrow> False
              | Some got \<Rightarrow> ar_Kind got = ''WORKSPACE'' \<and> coalesce_str (ar_Id got) = oc_ResourceId c)
          then None else Some ErrInvalidReceiptInput
      | _ \<Rightarrow> Some ErrInvalidReceiptInput)"

section \<open>Kinds\<close>

record receipt_kind =
  rk_Type :: string
  rk_Service :: string
  rk_Member :: string
  rk_Validate :: "AppendReceiptRequest \<Rightarrow> ledger_error option"
  rk_Evidence :: "AppendReceiptRequest \<Rightarrow> TypedEvidence option"
  rk_ReceiptID :: "AppendReceiptRequest \<Rightarrow> string \<Rightarrow> string"
  rk_WorkspaceID :: "AppendReceiptRequest \<Rightarrow> string"
  rk_Cost :: "AppendReceiptRequest \<Rightarrow> gomap option"

definition request_evidence ::
  "AppendReceiptRequest \<Rightarrow> QuoteAcceptance option \<Rightarrow> WalletOperation option \<Rightarrow> TypedEvidence option" where
  "request_evidence r q w =
     (case (an_Receipt r, an_OwnerCommitEvidence r) of
        (Some receipt, Some c) \<Rightarrow>
          Some \<lparr>te_Receipt = receipt, te_QuoteAcceptance = q, te_WalletOperation = w,
                te_OwnerCommitEvidence = c, te_EvidenceDigest = an_EvidenceDigest r\<rparr>
      | _ \<Rightarrow> None)"

definition quote_workspace :: "AppendReceiptRequest \<Rightarrow> string" where
  "quote_workspace r = (case an_QuoteAcceptance r of None \<Rightarrow> [] | Some q \<Rightarrow> qa_WorkspaceId q)"

definition local_no_charge :: receipt_kind where
  "local_no_charge =
     \<lparr>rk_Type = LocalNoChargeReceiptType, rk_Service = ''ledger.local_no_charge'', rk_Member = ''localNoCharge'',
      rk_Validate = ValidateLocalNoChargeReceiptInput,
      rk_Evidence = (\<lambda>r. request_evidence r (an_QuoteAcceptance r) None),
      rk_ReceiptID = (\<lambda>r hash. ''receipt_local_'' @ hash), rk_WorkspaceID = quote_workspace,
      rk_Cost = (\<lambda>r. Some [(''billingMode'', JStr ''LOCAL_NO_CHARGE''), (''amountUsdMicros'', JStr ''0'')])\<rparr>"

definition wallet_action :: receipt_kind where
  "wallet_action =
     \<lparr>rk_Type = WalletActionReceiptType, rk_Service = ''ledger.wallet_action'', rk_Member = ''walletAction'',
      rk_Validate = ValidateWalletActionReceiptInput,
      rk_Evidence = (\<lambda>r. request_evidence r (an_QuoteAcceptance r) (an_WalletOperation r)),
      rk_ReceiptID = (\<lambda>r hash. case an_WalletOperation r of
                                  None \<Rightarrow> [] | Some w \<Rightarrow> coalesce_str (wo_ReceiptId w)),
      rk_WorkspaceID = quote_workspace,
      rk_Cost = (\<lambda>r. case an_WalletOperation r of
                        None \<Rightarrow> None
                      | Some w \<Rightarrow> Some [(''amountUsdMicros'', JNum (format_int (wo_AmountUsdMicros w))),
                                        (''currency'', JStr ''USD''), (''walletOperationId'', JStr (wo_Id w))])\<rparr>"

definition provider_action :: receipt_kind where
  "provider_action =
     \<lparr>rk_Type = ProviderActionReceiptType, rk_Service = ''ledger.provider_action'', rk_Member = ''providerAction'',
      rk_Validate = ValidateProviderActionReceiptInput,
      rk_Evidence = (\<lambda>r. request_evidence r None None),
      rk_ReceiptID = (\<lambda>r hash. ''receipt_provider_'' @ hash),
      rk_WorkspaceID = (\<lambda>r. case an_OwnerCommitEvidence r of None \<Rightarrow> [] | Some c \<Rightarrow> oc_ResourceId c),
      rk_Cost = (\<lambda>r. None)\<rparr>"

section \<open>Writing\<close>

definition reference_hash :: "golib \<Rightarrow> receipt_kind \<Rightarrow> string \<Rightarrow> string" where
  "reference_hash lib k reference =
     hashJSON lib (JArr [JStr (rk_Service k), JStr ''workspace'', JStr reference])"

definition reference_key :: "golib \<Rightarrow> receipt_kind \<Rightarrow> string \<Rightarrow> string" where
  \<comment> \<open>\<open>localReceiptReferenceKey\<close> and its two siblings\<close>
  "reference_key lib k reference = rk_Service k @ '':reference:'' @ reference_hash lib k reference"

definition call_hash :: "golib \<Rightarrow> AppendReceiptRequest \<Rightarrow> string" where
  "call_hash lib r =
     (case an_Context r of
        None \<Rightarrow> []
      | Some call \<Rightarrow> hashJSON lib (JArr [JStr (call_tenant (Some call)), JStr (ctx_ActorId call),
                                        JStr (ctx_IdempotencyKey call)]))"

definition typed_input ::
  "receipt_kind \<Rightarrow> AppendReceiptRequest \<Rightarrow> CallContext \<Rightarrow> json \<Rightarrow> ReceiptInput" where
  "typed_input k r call encoded =
     \<lparr>r_Type = rk_Type k, r_Status = ''completed'', r_Surface = ''cloud'', r_AccountID = [],
      r_OrganizationID = call_tenant (Some call), r_WorkspaceID = rk_WorkspaceID k r, r_ProjectID = [],
      r_TaskID = [], r_RequestID = ctx_RequestId call, r_ApprovalID = [], r_JobID = [], r_ArtifactID = [],
      r_ReviewID = [], r_ContinuationID = [], r_Actor = Some [(''id'', JStr (ctx_ActorId call))], r_Plan = None,
      r_Execution = None, r_Environment = None, r_InputRefs = Some [(rk_Member k, encoded)],
      r_OutputRefs = None, r_ReviewerChecks = None, r_Cost = rk_Cost k r,
      r_Owner = Some [(''name'', JStr ''workspace''), (''evidenceReference'', JStr (an_OwnerEvidenceReference r))],
      r_Continuation = None, r_SupersedesReceiptID = [], r_IdempotencyKey = []\<rparr>"

definition typed_row ::
  "pglib \<Rightarrow> receipt_kind \<Rightarrow> time \<Rightarrow> ReceiptInput \<Rightarrow> string \<Rightarrow> string \<Rightarrow> string \<Rightarrow> string \<Rightarrow> evidence_row" where
  \<comment> \<open>the columns the \<open>INSERT\<close> does not name have their default, the empty text\<close>
  "typed_row lib k now input rid payload key requestHash =
     \<lparr>er_ID = rid, er_ReceiptType = rk_Type k, er_Status = ''completed'', er_AccountID = [],
      er_OrganizationID = r_OrganizationID input, er_WorkspaceID = r_WorkspaceID input, er_ProjectID = [],
      er_TaskID = [], er_JobID = [], er_ArtifactID = [], er_ReviewID = [], er_PayloadJSON = payload,
      er_SupersedesReceiptID = [], er_IdempotencyKey = key, er_RequestHash = requestHash,
      er_CreatedAt = pl_pg_time lib now\<rparr>"

datatype typed_error = TypedStore pg_error | TypedStatus status

definition decode_typed :: "typedlib \<Rightarrow> receipt_kind \<Rightarrow> string \<Rightarrow> typed_error + TypedRecord" where
  \<comment> \<open>\<open>decodeLocalNoCharge\<close>, \<open>decodeWalletAction\<close>, \<open>decodeProviderAction\<close>\<close>
  "decode_typed lib k payload =
     (case dec (pl_payload (tl_pg lib)) payload of
        None \<Rightarrow> Inl (TypedStore PgDecode)
      | Some (stored, _) \<Rightarrow>
          (case jdec (tl_evidence lib (rk_Type k)) (get_any (ents (r_InputRefs stored)) (rk_Member k)) of
             None \<Rightarrow> Inl (TypedStore PgDecode)
           | Some evidence \<Rightarrow>
               Inr \<lparr>yr_Evidence = evidence, yr_TenantID = r_OrganizationID stored,
                    yr_ActorID = stringFromAny (r_Actor stored) ''id'', yr_WorkspaceID = r_WorkspaceID stored\<rparr>))"

definition find_typed :: "pg_ledger \<Rightarrow> receipt_kind \<Rightarrow> string \<Rightarrow> evidence_row option" where
  "find_typed s k key =
     List.find (\<lambda>row. er_IdempotencyKey row = key \<and> er_ReceiptType row = rk_Type k) (lp_receipts s)"

definition insert_typed ::
  "typedlib \<Rightarrow> receipt_kind \<Rightarrow> time \<Rightarrow> AppendReceiptRequest \<Rightarrow> CallContext \<Rightarrow> TypedEvidence \<Rightarrow> string \<Rightarrow>
   pg_ledger \<Rightarrow> typed_error + (string \<times> pg_ledger)" where
  \<comment> \<open>the branch that found no row: the stored document and the table with the new row\<close>
  "insert_typed lib k now r call evidence requestHash s =
     (let rid = rk_ReceiptID k r (reference_hash (tl_go lib) k (an_OwnerEvidenceReference r));
          evidence = evidence\<lparr>te_Receipt := (te_Receipt evidence)\<lparr>ap_Id := rid, ap_CreatedAt := Some (timestamp now)\<rparr>\<rparr> in
      case jenc (tl_evidence lib (rk_Type k)) evidence of
        None \<Rightarrow> Inl (TypedStore PgEncode)
      | Some encoded \<Rightarrow>
          (let input = typed_input k r call encoded;
               payload = enc (pl_payload (tl_pg lib)) (input, no_retention) in
           if payload = [] then Inl (TypedStore PgEncode)
           else (case sql_insert (\<lambda>row. True) evidence_clash
                        (typed_row (tl_pg lib) k now input rid payload
                           (reference_key (tl_go lib) k (an_OwnerEvidenceReference r)) requestHash)
                        (lp_receipts s) of
                   Inl err \<Rightarrow> Inl (TypedStore (PgDatabase err))
                 | Inr rows \<Rightarrow> Inr (payload, s\<lparr>lp_receipts := rows\<rparr>))))"

definition insert_call_key :: "receipt_kind \<Rightarrow> string \<Rightarrow> string \<Rightarrow> string \<Rightarrow> pg_ledger \<Rightarrow> pg_ledger" where
  \<comment> \<open>\<open>INSERT INTO idempotency_keys ... ON CONFLICT (id) DO NOTHING\<close>\<close>
  "insert_call_key k callHash requestHash ref s =
     (let callKey = rk_Service k @ '':request:'' @ callHash in
      if callKey \<in> ky_ID ` set (lp_keys s) then s
      else s\<lparr>lp_keys := lp_keys s @ [\<lparr>ky_ID = callKey, ky_Service = rk_Service k, ky_IdempotencyKey = callHash,
                                     ky_RequestHash = requestHash, ky_ResponseRef = ref\<rparr>]\<rparr>)"

definition record_typed ::
  "typedlib \<Rightarrow> receipt_kind \<Rightarrow> time \<Rightarrow> AppendReceiptRequest \<Rightarrow> status option \<Rightarrow> pg_ledger \<Rightarrow>
   (typed_error + TypedRecord) \<times> pg_ledger" where
  \<comment> \<open>one transaction under the advisory locks of the reference and of the caller's key; \<open>authorizeInsert\<close>
     is the answer of the second authorization, asked only before an insert\<close>
  "record_typed lib k now r authorizeInsert s =
     (case rk_Validate k r of
        Some err \<Rightarrow> (Inl (TypedStore (PgLedger err)), s)
      | None \<Rightarrow>
          (case (rk_Evidence k r, an_Context r) of
             (Some evidence, Some call) \<Rightarrow>
               (case jenc (tl_evidence lib (rk_Type k)) evidence of
                  None \<Rightarrow> (Inl (TypedStore (PgLedger ErrInvalidReceiptInput)), s)
                | Some normalized \<Rightarrow>
                    if containsForbiddenJSONKey normalized
                    then (Inl (TypedStore (PgLedger ErrInvalidReceiptInput)), s)
                    else
                      let requestHash = hashJSON (tl_go lib) (json_canon normalized);
                          referenceKey = reference_key (tl_go lib) k (an_OwnerEvidenceReference r);
                          callHash = call_hash (tl_go lib) r;
                          callKey = rk_Service k @ '':request:'' @ callHash;
                          previous = List.find (\<lambda>y. ky_ID y = callKey \<and> ky_Service y = rk_Service k) (lp_keys s) in
                      if (case previous of
                            None \<Rightarrow> False
                          | Some y \<Rightarrow> ky_RequestHash y \<noteq> requestHash \<or> ky_ResponseRef y \<noteq> referenceKey)
                      then (Inl (TypedStore (PgLedger ErrLedgerIdempotencyConflict)), s)
                      else
                        (case (case find_typed s k referenceKey of
                                 Some row \<Rightarrow>
                                   if er_RequestHash row \<noteq> requestHash
                                   then Inl (TypedStore (PgLedger ErrLedgerIdempotencyConflict))
                                   else Inr (er_PayloadJSON row, s)
                               | None \<Rightarrow>
                                   (case authorizeInsert of
                                      Some err \<Rightarrow> Inl (TypedStatus err)
                                    | None \<Rightarrow> insert_typed lib k now r call evidence requestHash s)) of
                           Inl err \<Rightarrow> (Inl err, s)
                         | Inr (payload, s') \<Rightarrow>
                             (decode_typed lib k payload, insert_call_key k callHash requestHash referenceKey s')))
           | _ \<Rightarrow> (Inl (TypedStore (PgLedger ErrInvalidReceiptInput)), s)))"

definition RecordLocalNoChargeReceipt ::
  "typedlib \<Rightarrow> time \<Rightarrow> AppendReceiptRequest \<Rightarrow> status option \<Rightarrow> pg_ledger \<Rightarrow>
   (typed_error + TypedRecord) \<times> pg_ledger" where
  "RecordLocalNoChargeReceipt lib = record_typed lib local_no_charge"

definition RecordWalletActionReceipt ::
  "typedlib \<Rightarrow> time \<Rightarrow> AppendReceiptRequest \<Rightarrow> status option \<Rightarrow> pg_ledger \<Rightarrow>
   (typed_error + TypedRecord) \<times> pg_ledger" where
  "RecordWalletActionReceipt lib = record_typed lib wallet_action"

definition RecordProviderActionReceipt ::
  "typedlib \<Rightarrow> time \<Rightarrow> AppendReceiptRequest \<Rightarrow> status option \<Rightarrow> pg_ledger \<Rightarrow>
   (typed_error + TypedRecord) \<times> pg_ledger" where
  "RecordProviderActionReceipt lib = record_typed lib provider_action"

section \<open>Reading\<close>

definition read_typed :: "typedlib \<Rightarrow> receipt_kind \<Rightarrow> string \<Rightarrow> pg_ledger \<Rightarrow> typed_error + TypedRecord" where
  \<comment> \<open>\<open>ReadLocalNoChargeReceipt\<close>, \<open>ReadWalletActionReceipt\<close>, \<open>ReadProviderActionReceipt\<close> of the store\<close>
  "read_typed lib k reference s =
     (case find_typed s k (reference_key (tl_go lib) k reference) of
        None \<Rightarrow> Inl (TypedStore (PgLedger ErrReceiptNotFound))
      | Some row \<Rightarrow> decode_typed lib k (er_PayloadJSON row))"

record WorkspaceFinancialReceipt =
  wf_WorkspaceId :: string
  wf_Receipt :: ApiReceipt
  wf_WalletOperation :: WalletOperation
  wf_Quote :: Quote
  wf_EvidenceDigest :: string

definition financial_ok ::
  "string \<Rightarrow> string \<Rightarrow> string \<Rightarrow> TypedRecord \<Rightarrow> WalletOperation \<Rightarrow> QuoteAcceptance \<Rightarrow> bool" where
  "financial_ok tenant workspace rid record wallet q \<longleftrightarrow>
     (let evidence = yr_Evidence record; receipt = te_Receipt evidence; quote = qa_Quote q in
      yr_TenantID record = tenant \<and> yr_WorkspaceID record = workspace \<and>
      ap_Id receipt = rid \<and> ap_Kind receipt = ''WALLET_ACTION'' \<and> ap_Owner receipt = ''WORKSPACE'' \<and>
      ap_Outcome receipt = ''CONFIRMED'' \<and>
      wo_Id wallet \<noteq> [] \<and> coalesce_str (wo_ReceiptId wallet) = rid \<and>
      coalesce_str (wo_WorkspaceId wallet) = workspace \<and> wo_Kind wallet = ''CHARGE'' \<and>
      wo_Status wallet = ''CONFIRMED'' \<and> qa_WorkspaceId q = workspace \<and>
      (coalesce_str (qu_WorkspaceId quote) = [] \<or> coalesce_str (qu_WorkspaceId quote) = workspace) \<and>
      qu_Status quote = ''ACCEPTED'' \<and> 0 < qu_TotalUsdMicros quote \<and>
      wo_AmountUsdMicros wallet = qu_TotalUsdMicros quote \<and> te_EvidenceDigest evidence \<noteq> [])"

definition pg_WorkspaceFinancialReceipt ::
  "typedlib \<Rightarrow> string \<Rightarrow> string \<Rightarrow> string \<Rightarrow> pg_ledger \<Rightarrow> typed_error + WorkspaceFinancialReceipt" where
  "pg_WorkspaceFinancialReceipt lib tenant workspace rid s =
     (case List.find (\<lambda>row. er_ID row = rid \<and> er_OrganizationID row = tenant \<and> er_WorkspaceID row = workspace \<and>
                          er_ReceiptType row = WalletActionReceiptType) (lp_receipts s) of
        None \<Rightarrow> Inl (TypedStore (PgLedger ErrReceiptNotFound))
      | Some row \<Rightarrow>
          (case decode_typed lib wallet_action (er_PayloadJSON row) of
             Inl err \<Rightarrow> Inl err
           | Inr record \<Rightarrow>
               (case (te_WalletOperation (yr_Evidence record), te_QuoteAcceptance (yr_Evidence record)) of
                  (Some wallet, Some q) \<Rightarrow>
                    if financial_ok tenant workspace rid record wallet q
                    then Inr \<lparr>wf_WorkspaceId = workspace, wf_Receipt = te_Receipt (yr_Evidence record),
                              wf_WalletOperation = wallet, wf_Quote = qa_Quote q,
                              wf_EvidenceDigest = te_EvidenceDigest (yr_Evidence record)\<rparr>
                    else Inl (TypedStore (PgLedger ErrInvalidReceiptInput))
                | _ \<Rightarrow> Inl (TypedStore (PgLedger ErrInvalidReceiptInput)))))"

end
