(* ===== verification/Ledger_Typed_Laws.thy ===== *)
theory Ledger_Typed_Laws
  imports Ledger_Pg_Laws Ledger_Typed
begin

text \<open>
  The laws of typed evidence: what a writer can do, that the evidence of a stored row is the evidence of
  a valid request under the row's identifier, and that retention and redaction leave it alone.
\<close>

section \<open>Encodings\<close>

definition jcodec_ok :: "'a jcodec \<Rightarrow> bool" where
  \<comment> \<open>a printed message parses to the message, also when its members were reordered\<close>
  "jcodec_ok c \<longleftrightarrow> (\<forall>x j. jenc c x = Some j \<longrightarrow> jdec c (json_canon j) = Some x)"

definition ledger_lib_ok :: "typedlib \<Rightarrow> bool" where
  "ledger_lib_ok lib \<longleftrightarrow> payload_ok (tl_pg lib) \<and> (\<forall>t. jcodec_ok (tl_evidence lib t)) \<and>
     (\<forall>b. lib_sha256 (tl_go lib) b \<noteq> [])"

definition kinds :: "receipt_kind list" where
  "kinds = [local_no_charge, wallet_action, provider_action]"

lemmas kind_defs = local_no_charge_def wallet_action_def provider_action_def
lemmas type_defs = LocalNoChargeReceiptType_def WalletActionReceiptType_def ProviderActionReceiptType_def

lemma kind_simps [simp]:
  "rk_Type local_no_charge = LocalNoChargeReceiptType" "rk_Type wallet_action = WalletActionReceiptType"
  "rk_Type provider_action = ProviderActionReceiptType"
  "rk_Service local_no_charge = ''ledger.local_no_charge''" "rk_Service wallet_action = ''ledger.wallet_action''"
  "rk_Service provider_action = ''ledger.provider_action''"
  by (simp_all add: kind_defs)

lemma typed_types_distinct [simp]:
  "LocalNoChargeReceiptType \<noteq> WalletActionReceiptType" "LocalNoChargeReceiptType \<noteq> ProviderActionReceiptType"
  "WalletActionReceiptType \<noteq> LocalNoChargeReceiptType" "WalletActionReceiptType \<noteq> ProviderActionReceiptType"
  "ProviderActionReceiptType \<noteq> LocalNoChargeReceiptType" "ProviderActionReceiptType \<noteq> WalletActionReceiptType"
  by (simp_all add: type_defs)

lemma kind_types: "rk_Type ` set kinds = {LocalNoChargeReceiptType, WalletActionReceiptType, ProviderActionReceiptType}"
  by (simp add: kinds_def)

lemma kind_type_inj: "k \<in> set kinds \<Longrightarrow> k' \<in> set kinds \<Longrightarrow> rk_Type k = rk_Type k' \<Longrightarrow> k = k'"
  by (auto simp: kinds_def)

lemma kind_service_inj: "k \<in> set kinds \<Longrightarrow> k' \<in> set kinds \<Longrightarrow>
    rk_Service k @ '':'' @ x = rk_Service k' @ '':'' @ y \<Longrightarrow> k = k' \<and> x = y"
  by (auto simp: kinds_def)

section \<open>Writers\<close>

definition stamp :: "string \<Rightarrow> time \<Rightarrow> TypedEvidence \<Rightarrow> TypedEvidence" where
  "stamp rid now ev = ev\<lparr>te_Receipt := (te_Receipt ev)\<lparr>ap_Id := rid, ap_CreatedAt := Some (timestamp now)\<rparr>\<rparr>"

definition typed_hash :: "typedlib \<Rightarrow> receipt_kind \<Rightarrow> AppendReceiptRequest \<Rightarrow> string" where
  \<comment> \<open>the fingerprint of a request: the hash of its evidence\<close>
  "typed_hash lib k r =
     (case rk_Evidence k r of
        None \<Rightarrow> []
      | Some ev \<Rightarrow> (case jenc (tl_evidence lib (rk_Type k)) ev of
                      None \<Rightarrow> [] | Some j \<Rightarrow> hashJSON (tl_go lib) (json_canon j)))"

definition typed_admissible :: "typedlib \<Rightarrow> receipt_kind \<Rightarrow> AppendReceiptRequest \<Rightarrow> bool" where
  "typed_admissible lib k r \<longleftrightarrow> rk_Validate k r = None \<and> an_Context r \<noteq> None \<and>
     (case rk_Evidence k r of
        None \<Rightarrow> False
      | Some ev \<Rightarrow> (case jenc (tl_evidence lib (rk_Type k)) ev of
                      None \<Rightarrow> False | Some j \<Rightarrow> \<not> containsForbiddenJSONKey j))"

abbreviation ref_key :: "typedlib \<Rightarrow> receipt_kind \<Rightarrow> AppendReceiptRequest \<Rightarrow> string" where
  "ref_key lib k r \<equiv> reference_key (tl_go lib) k (an_OwnerEvidenceReference r)"

definition call_key :: "typedlib \<Rightarrow> receipt_kind \<Rightarrow> AppendReceiptRequest \<Rightarrow> string" where
  "call_key lib k r = rk_Service k @ '':request:'' @ call_hash (tl_go lib) r"

definition call_row :: "typedlib \<Rightarrow> receipt_kind \<Rightarrow> AppendReceiptRequest \<Rightarrow> pg_ledger \<Rightarrow> key_row option" where
  "call_row lib k r s = List.find (\<lambda>y. ky_ID y = call_key lib k r \<and> ky_Service y = rk_Service k) (lp_keys s)"

definition call_clash :: "typedlib \<Rightarrow> receipt_kind \<Rightarrow> AppendReceiptRequest \<Rightarrow> pg_ledger \<Rightarrow> bool" where
  \<comment> \<open>the caller's key was used for another request\<close>
  "call_clash lib k r s =
     (case call_row lib k r s of
        None \<Rightarrow> False
      | Some y \<Rightarrow> ky_RequestHash y \<noteq> typed_hash lib k r \<or> ky_ResponseRef y \<noteq> ref_key lib k r)"

lemma record_typed_admissible:
  assumes "typed_admissible lib k r" and "rk_Evidence k r = Some ev" and "an_Context r = Some call"
  shows "record_typed lib k now r auth s =
    (if call_clash lib k r s then (Inl (TypedStore (PgLedger ErrLedgerIdempotencyConflict)), s)
     else (case (case find_typed s k (ref_key lib k r) of
                   Some row \<Rightarrow>
                     if er_RequestHash row \<noteq> typed_hash lib k r
                     then Inl (TypedStore (PgLedger ErrLedgerIdempotencyConflict))
                     else Inr (er_PayloadJSON row, s)
                 | None \<Rightarrow>
                     (case auth of
                        Some err \<Rightarrow> Inl (TypedStatus err)
                      | None \<Rightarrow> insert_typed lib k now r call ev (typed_hash lib k r) s)) of
             Inl err \<Rightarrow> (Inl err, s)
           | Inr (payload, s') \<Rightarrow>
               (decode_typed lib k payload,
                insert_call_key k (call_hash (tl_go lib) r) (typed_hash lib k r) (ref_key lib k r) s')))"
proof -
  from assms obtain j where j: "jenc (tl_evidence lib (rk_Type k)) ev = Some j" "\<not> containsForbiddenJSONKey j"
    "rk_Validate k r = None" by (auto simp: typed_admissible_def split: option.splits)
  then have h: "typed_hash lib k r = hashJSON (tl_go lib) (json_canon j)" using assms(2) by (simp add: typed_hash_def)
  show ?thesis
    unfolding record_typed_def call_clash_def call_row_def call_key_def Let_def h assms(2,3) j(1,3) option.case prod.case
    using j(2) by simp
qed

lemma record_typed_inadmissible:
  assumes "\<not> typed_admissible lib k r"
  shows "\<exists>err. record_typed lib k now r auth s = (Inl (TypedStore (PgLedger err)), s)"
  using assms by (auto simp: typed_admissible_def record_typed_def split: option.split)

lemma insert_typed_InrE:
  assumes "insert_typed lib k now r call ev h s = Inr (payload, s')"
  obtains rid encoded where "rid = rk_ReceiptID k r (reference_hash (tl_go lib) k (an_OwnerEvidenceReference r))"
    "jenc (tl_evidence lib (rk_Type k)) (stamp rid now ev) = Some encoded"
    "payload = enc (pl_payload (tl_pg lib)) (typed_input k r call encoded, no_retention)" "payload \<noteq> []"
    "\<forall>x \<in> set (lp_receipts s). \<not> evidence_clash
       (typed_row (tl_pg lib) k now (typed_input k r call encoded) rid payload (ref_key lib k r) h) x"
    "s' = s\<lparr>lp_receipts := lp_receipts s @
       [typed_row (tl_pg lib) k now (typed_input k r call encoded) rid payload (ref_key lib k r) h]\<rparr>"
proof -
  let ?rid = "rk_ReceiptID k r (reference_hash (tl_go lib) k (an_OwnerEvidenceReference r))"
  from assms obtain encoded rows where step: "jenc (tl_evidence lib (rk_Type k)) (stamp ?rid now ev) = Some encoded"
    "payload = enc (pl_payload (tl_pg lib)) (typed_input k r call encoded, no_retention)" "payload \<noteq> []"
    "sql_insert (\<lambda>row. True) evidence_clash (typed_row (tl_pg lib) k now (typed_input k r call encoded) ?rid payload
       (ref_key lib k r) h) (lp_receipts s) = Inr rows" "s' = s\<lparr>lp_receipts := rows\<rparr>"
    unfolding insert_typed_def Let_def stamp_def [symmetric] by (auto split: option.splits if_splits sum.splits)
  from sql_insert_InrD [OF step(4)] step(5) show ?thesis by (intro that [OF refl step(1-3)]) auto
qed

text \<open>What a writer can do: fail without a trace, replay a stored row, or insert one.\<close>

lemma record_typed_cases:
  assumes "record_typed lib k now r auth s = (res, s')"
  obtains (failed) err where "res = Inl err" "s' = s"
  | (replay) row where "typed_admissible lib k r" "\<not> call_clash lib k r s"
      "find_typed s k (ref_key lib k r) = Some row" "er_RequestHash row = typed_hash lib k r"
      "res = decode_typed lib k (er_PayloadJSON row)"
      "s' = insert_call_key k (call_hash (tl_go lib) r) (typed_hash lib k r) (ref_key lib k r) s"
  | (inserted) ev call rid encoded payload row where "typed_admissible lib k r" "\<not> call_clash lib k r s"
      "rk_Evidence k r = Some ev" "an_Context r = Some call" "find_typed s k (ref_key lib k r) = None" "auth = None"
      "rid = rk_ReceiptID k r (reference_hash (tl_go lib) k (an_OwnerEvidenceReference r))"
      "jenc (tl_evidence lib (rk_Type k)) (stamp rid now ev) = Some encoded"
      "payload = enc (pl_payload (tl_pg lib)) (typed_input k r call encoded, no_retention)" "payload \<noteq> []"
      "row = typed_row (tl_pg lib) k now (typed_input k r call encoded) rid payload (ref_key lib k r) (typed_hash lib k r)"
      "\<forall>x \<in> set (lp_receipts s). \<not> evidence_clash row x"
      "s' = insert_call_key k (call_hash (tl_go lib) r) (typed_hash lib k r) (ref_key lib k r)
              (s\<lparr>lp_receipts := lp_receipts s @ [row]\<rparr>)"
      "res = decode_typed lib k payload"
proof (cases "typed_admissible lib k r")
  case False
  from record_typed_inadmissible [OF this, of now auth s] assms show ?thesis by (auto intro: failed)
next
  case adm: True
  then obtain ev call where e: "rk_Evidence k r = Some ev" "an_Context r = Some call"
    by (auto simp: typed_admissible_def split: option.splits)
  note run = assms [unfolded record_typed_admissible [OF adm e]]
  show ?thesis
  proof (cases "call_clash lib k r s")
    case True
    with run show ?thesis by (intro failed) auto
  next
    case fresh: False
    note run = run [unfolded if_not_P [OF fresh]]
    show ?thesis
    proof (cases "find_typed s k (ref_key lib k r)")
      case (Some row)
      with run adm fresh show ?thesis
        by (cases "er_RequestHash row = typed_hash lib k r") (auto intro: failed replay)
    next
      case None
      show ?thesis
      proof (cases auth)
        case (Some err)
        with run None show ?thesis by (intro failed) auto
      next
        case auth: None
        show ?thesis
        proof (cases "insert_typed lib k now r call ev (typed_hash lib k r) s")
          case (Inl err)
          with run None auth show ?thesis by (intro failed) auto
        next
          case (Inr p)
          obtain payload s1 where p: "p = (payload, s1)" by (cases p)
          from Inr [unfolded p] show ?thesis
          proof (cases rule: insert_typed_InrE)
            case (1 rid encoded)
            then show ?thesis
              using run None auth Inr p by (intro inserted [OF adm fresh e None auth 1(1-4) refl]) auto
          qed
        qed
      qed
    qed
  qed
qed

section \<open>Stored evidence\<close>

definition typed_origin :: "typedlib \<Rightarrow> receipt_kind \<Rightarrow> evidence_row \<Rightarrow> bool" where
  \<comment> \<open>the row holds the evidence of a valid request, under its own identifier\<close>
  "typed_origin lib k row \<longleftrightarrow> (\<exists>r ev now rec. rk_Validate k r = None \<and> rk_Evidence k r = Some ev \<and>
     er_IdempotencyKey row = ref_key lib k r \<and> er_RequestHash row = typed_hash lib k r \<and>
     decode_typed lib k (er_PayloadJSON row) = Inr rec \<and> yr_Evidence rec = stamp (er_ID row) now ev \<and>
     yr_TenantID rec = er_OrganizationID row \<and> yr_TenantID rec \<noteq> [] \<and> yr_WorkspaceID rec = er_WorkspaceID row)"

definition typed_rows_ok :: "typedlib \<Rightarrow> pg_ledger \<Rightarrow> bool" where
  "typed_rows_ok lib s \<longleftrightarrow> (\<forall>row \<in> set (lp_receipts s). \<forall>k \<in> set kinds.
     er_ReceiptType row = rk_Type k \<longrightarrow> typed_origin lib k row)"

definition keys_ok :: "pg_ledger \<Rightarrow> bool" where
  "keys_ok s \<longleftrightarrow> (\<forall>y \<in> set (lp_keys s). has_prefix (ky_ID y) ''idempotency-'' \<or>
     (\<exists>k \<in> set kinds. ky_Service y = rk_Service k \<and> has_prefix (ky_ID y) (rk_Service k @ '':'')))"

definition ledger_ok :: "typedlib \<Rightarrow> pg_ledger \<Rightarrow> bool" where
  "ledger_ok lib s \<longleftrightarrow> ledger_lib_ok lib \<and> pg_ok (tl_pg lib) s \<and> typed_rows_ok lib s \<and> keys_ok s"

lemma typed_row_simps [simp]:
  "er_ID (typed_row lib k now i rid payload key h) = rid"
  "er_ReceiptType (typed_row lib k now i rid payload key h) = rk_Type k"
  "er_OrganizationID (typed_row lib k now i rid payload key h) = r_OrganizationID i"
  "er_WorkspaceID (typed_row lib k now i rid payload key h) = r_WorkspaceID i"
  "er_PayloadJSON (typed_row lib k now i rid payload key h) = payload"
  "er_IdempotencyKey (typed_row lib k now i rid payload key h) = key"
  "er_RequestHash (typed_row lib k now i rid payload key h) = h"
  by (simp_all add: typed_row_def)

lemma insert_call_key_receipts [simp]: "lp_receipts (insert_call_key k c h ref s) = lp_receipts s"
  by (simp add: insert_call_key_def Let_def)

lemma decode_written:
  assumes "ledger_lib_ok lib" and "jenc (tl_evidence lib (rk_Type k)) ev = Some encoded"
    and "enc (pl_payload (tl_pg lib)) (typed_input k r call encoded, t) \<noteq> []"
  shows "decode_typed lib k (enc (pl_payload (tl_pg lib)) (typed_input k r call encoded, t)) =
    Inr \<lparr>yr_Evidence = ev, yr_TenantID = call_tenant (Some call), yr_ActorID = ctx_ActorId call,
         yr_WorkspaceID = rk_WorkspaceID k r\<rparr>"
proof -
  have d: "dec (pl_payload (tl_pg lib)) (enc (pl_payload (tl_pg lib)) (typed_input k r call encoded, t)) =
      Some (canon_input (typed_input k r call encoded), t)"
    using assms(1,3) by (simp add: ledger_lib_ok_def payload_ok_def)
  have "jdec (tl_evidence lib (rk_Type k)) (json_canon encoded) = Some ev"
    using assms(1,2) by (simp add: ledger_lib_ok_def jcodec_ok_def)
  moreover have "get_any (ents (r_InputRefs (typed_input k r call encoded))) (rk_Member k) = encoded"
    by (simp add: typed_input_def ents_def get_any_def obj_get_def)
  moreover have "stringFromAny (r_Actor (canon_input (typed_input k r call encoded))) ''id'' = ctx_ActorId call"
    by (simp add: stringFromAny_def canon_input_def typed_input_def canon_map_def ents_def get_str_def
        obj_get_canon_members obj_get_def [of "[_]"])
  ultimately show ?thesis
    by (simp add: decode_typed_def d get_any_canon) (simp add: typed_input_def)
qed

lemma kind_receipt_id:
  "k \<in> set kinds \<Longrightarrow> rk_Validate k r = None \<Longrightarrow> rk_ReceiptID k r h \<noteq> []"
  by (auto simp: kinds_def kind_defs ValidateWalletActionReceiptInput_def split: option.splits if_splits)

lemma kind_tenant:
  "k \<in> set kinds \<Longrightarrow> rk_Validate k r = None \<Longrightarrow> an_Context r = Some call \<Longrightarrow> call_tenant (Some call) \<noteq> []"
  by (auto simp: kinds_def kind_defs ValidateLocalNoChargeReceiptInput_def ValidateWalletActionReceiptInput_def
      ValidateProviderActionReceiptInput_def call_shape_def split: option.splits if_splits)

lemma ref_key_nonempty: "reference_key lib k ref \<noteq> []"
  by (simp add: reference_key_def)

lemma typed_hash_nonempty: "ledger_lib_ok lib \<Longrightarrow> typed_admissible lib k r \<Longrightarrow> typed_hash lib k r \<noteq> []"
  by (auto simp: typed_admissible_def typed_hash_def hashJSON_def ledger_lib_ok_def split: option.splits)

lemma keys_ok_insert: "k \<in> set kinds \<Longrightarrow> keys_ok s \<Longrightarrow> keys_ok (insert_call_key k c h ref s)"
  by (auto simp: keys_ok_def insert_call_key_def Let_def has_prefix_iff)

lemma record_typed_ok:
  assumes k: "k \<in> set kinds" and ok: "ledger_ok lib s" and "record_typed lib k now r auth s = (res, s')"
  shows "ledger_ok lib s'"
  using assms(3)
proof (cases rule: record_typed_cases)
  case failed
  then show ?thesis using ok by simp
next
  case replay
  then show ?thesis using ok keys_ok_insert [OF k, of s]
    by (simp add: ledger_ok_def pg_ok_def typed_rows_ok_def)
next
  case (inserted ev call rid encoded payload row)
  have lib: "ledger_lib_ok lib" using ok by (simp add: ledger_ok_def)
  have valid: "rk_Validate k r = None" using inserted(1) by (simp add: typed_admissible_def)
  note dec = decode_written [OF lib inserted(8) inserted(10) [unfolded inserted(9)], folded inserted(9)]
  have "typed_origin lib k row"
    unfolding typed_origin_def using valid inserted(3) dec inserted(11) kind_tenant [OF k valid inserted(4)]
    by (intro exI [of _ r] exI [of _ ev] exI [of _ now] exI) (auto simp: typed_input_def)
  then have "typed_rows_ok lib s'"
    using ok k kind_type_inj [OF k] by (auto simp: ledger_ok_def typed_rows_ok_def inserted(11,13))
  moreover have "pg_ok (tl_pg lib) s'"
  proof -
    have "written (tl_pg lib) row" using inserted(9-11) by (auto simp: written_def)
    moreover have "evidence_check row"
      using kind_receipt_id [OF k valid] ref_key_nonempty typed_hash_nonempty [OF lib inserted(1)]
      by (simp add: evidence_check_def inserted(7,11))
    ultimately show ?thesis using ok inserted(12) by (auto simp: ledger_ok_def pg_ok_def evidence_clash_def inserted(13))
  qed
  moreover have "keys_ok s'" unfolding inserted(13)
    by (rule keys_ok_insert [OF k]) (use ok in \<open>simp add: ledger_ok_def keys_ok_def\<close>)
  ultimately show ?thesis using lib by (simp add: ledger_ok_def)
qed

section \<open>Retention and redaction\<close>

definition same_evidence :: "TypedRecord \<Rightarrow> TypedRecord \<Rightarrow> bool" where
  \<comment> \<open>everything but the actor, which redaction clears\<close>
  "same_evidence a b \<longleftrightarrow> yr_Evidence a = yr_Evidence b \<and> yr_TenantID a = yr_TenantID b \<and> yr_WorkspaceID a = yr_WorkspaceID b"

definition keeps_evidence :: "(Receipt \<Rightarrow> ledger_error + Receipt) \<Rightarrow> bool" where
  "keeps_evidence mutate \<longleftrightarrow> (\<forall>x y. mutate x = Inr y \<longrightarrow>
     r_InputRefs (rc_Input y) = r_InputRefs (rc_Input x) \<and> r_OrganizationID (rc_Input y) = r_OrganizationID (rc_Input x) \<and>
     r_WorkspaceID (rc_Input y) = r_WorkspaceID (rc_Input x))"

lemma extend_retention_keeps [simp]: "keeps_evidence (extend_retention i)"
  by (auto simp: keeps_evidence_def extend_retention_def Let_def split: if_splits)

lemma redact_receipt_keeps [simp]: "keeps_evidence (redact_receipt now at i)"
  by (auto simp: keeps_evidence_def redact_receipt_def redact_def split: if_splits)

lemma same_evidence_refl [simp]: "same_evidence a a"
  by (simp add: same_evidence_def)

lemma same_evidence_trans: "same_evidence a b \<Longrightarrow> same_evidence b c \<Longrightarrow> same_evidence a c"
  by (simp add: same_evidence_def)

lemma decode_mutated:
  assumes lib: "payload_ok (tl_pg lib)" and row: "written (tl_pg lib) row"
    and stored: "dec (pl_payload (tl_pg lib)) (er_PayloadJSON row) = Some (input, retention)"
    and same: "r_InputRefs input' = r_InputRefs input" "r_OrganizationID input' = r_OrganizationID input"
      "r_WorkspaceID input' = r_WorkspaceID input"
    and new: "enc (pl_payload (tl_pg lib)) (input', retention') \<noteq> []"
    and old: "decode_typed lib k (er_PayloadJSON row) = Inr rec"
  shows "\<exists>rec'. decode_typed lib k (enc (pl_payload (tl_pg lib)) (input', retention')) = Inr rec' \<and> same_evidence rec rec'"
proof -
  from written_decodes [OF lib row] obtain i where i: "input = canon_input i" using stored by auto
  have d: "dec (pl_payload (tl_pg lib)) (enc (pl_payload (tl_pg lib)) (input', retention')) = Some (canon_input input', retention')"
    using lib new by (simp add: payload_ok_def)
  have "get_any (ents (r_InputRefs (canon_input input'))) m = get_any (ents (r_InputRefs input)) m" for m
    by (simp add: same i get_any_canon)
  then show ?thesis
    using old stored by (auto simp: decode_typed_def d same same_evidence_def split: option.splits)
qed

text \<open>
  How the table of receipts moves: rows are rewritten in place, keeping their identity and their typed
  evidence, and new rows come at the end.
\<close>

definition row_identity :: "evidence_row \<Rightarrow> string \<times> string \<times> string \<times> string \<times> string \<times> string" where
  "row_identity row = (er_ID row, er_IdempotencyKey row, er_ReceiptType row, er_RequestHash row,
     er_OrganizationID row, er_WorkspaceID row)"

definition rewriting :: "typedlib \<Rightarrow> pg_ledger \<Rightarrow> (evidence_row \<Rightarrow> evidence_row) \<Rightarrow> bool" where
  "rewriting lib s f \<longleftrightarrow> (\<forall>row \<in> set (lp_receipts s). row_identity (f row) = row_identity row \<and>
     (\<forall>k rec. decode_typed lib k (er_PayloadJSON row) = Inr rec \<longrightarrow>
        (\<exists>rec'. decode_typed lib k (er_PayloadJSON (f row)) = Inr rec' \<and> same_evidence rec rec')))"

lemma rewriting_id [simp]: "rewriting lib s (\<lambda>row. row)"
  by (simp add: rewriting_def)

lemma mutateReceipt_rewriting:
  assumes ok: "ledger_ok lib s" and m: "keeps_evidence mutate"
    and "mutateReceipt (tl_pg lib) service key h rid mutate s = (res, s')"
  obtains f where "lp_receipts s' = map f (lp_receipts s)" "rewriting lib s f"
  using assms(3)
proof (cases rule: mutateReceipt_cases)
  case same
  show ?thesis by (rule that [of "\<lambda>x. x"]) (auto simp: same)
next
  case (updated row0 input retention receipt payload keys)
  let ?f = "\<lambda>r. if er_ID r = rid then r\<lparr>er_PayloadJSON := payload\<rparr> else r"
  have row0: "row0 \<in> set (lp_receipts s)" "er_ID row0 = rid" using find_SomeD [OF updated(1)] by auto
  have lib: "payload_ok (tl_pg lib)" and w: "written (tl_pg lib) row0"
    using ok row0(1) by (auto simp: ledger_ok_def ledger_lib_ok_def pg_ok_def list_all_iff)
  have same: "r_InputRefs (rc_Input receipt) = r_InputRefs input" "r_OrganizationID (rc_Input receipt) = r_OrganizationID input"
    "r_WorkspaceID (rc_Input receipt) = r_WorkspaceID input"
    using m updated(3) unfolding keeps_evidence_def by fastforce+
  have "\<exists>rec'. decode_typed lib k (er_PayloadJSON (?f row)) = Inr rec' \<and> same_evidence rec rec'"
    if row: "row \<in> set (lp_receipts s)" and old: "decode_typed lib k (er_PayloadJSON row) = Inr rec" for row k rec
  proof (cases "er_ID row = rid")
    case True
    have "distinct (map er_ID (lp_receipts s))" using ok by (simp add: ledger_ok_def pg_ok_def)
    then have "row = row0" using row row0 True by (auto simp: distinct_map inj_on_def)
    with decode_mutated [OF lib w updated(2) same updated(5) [unfolded updated(4)], of k rec] old True updated(4)
    show ?thesis by auto
  qed (use old in auto)
  then have "rewriting lib s ?f" by (auto simp: rewriting_def row_identity_def)
  then show ?thesis by (intro that [of ?f]) (simp_all add: updated(6) update_rows_def)
qed

lemma typed_rows_ok_rewritten:
  assumes "typed_rows_ok lib s" and "lp_receipts s' = map f (lp_receipts s)" and f: "rewriting lib s f"
  shows "typed_rows_ok lib s'"
proof -
  have "typed_origin lib k (f row)" if row: "row \<in> set (lp_receipts s)" and "typed_origin lib k row" for row k
  proof -
    from that(2) obtain r ev now rec where o: "rk_Validate k r = None" "rk_Evidence k r = Some ev"
      "er_IdempotencyKey row = ref_key lib k r" "er_RequestHash row = typed_hash lib k r"
      "decode_typed lib k (er_PayloadJSON row) = Inr rec" "yr_Evidence rec = stamp (er_ID row) now ev"
      "yr_TenantID rec = er_OrganizationID row" "yr_TenantID rec \<noteq> []" "yr_WorkspaceID rec = er_WorkspaceID row"
      unfolding typed_origin_def by blast
    from f row o(5) obtain rec' where rec': "row_identity (f row) = row_identity row"
      "decode_typed lib k (er_PayloadJSON (f row)) = Inr rec'" "same_evidence rec rec'"
      unfolding rewriting_def by blast
    with o show ?thesis
      unfolding typed_origin_def same_evidence_def row_identity_def
      by (intro exI [of _ r] exI [of _ ev] exI [of _ now] exI [of _ rec']) simp
  qed
  moreover have "er_ReceiptType (f row) = er_ReceiptType row" if "row \<in> set (lp_receipts s)" for row
    using f that by (auto simp: rewriting_def row_identity_def)
  ultimately show ?thesis using assms(1) by (auto simp: typed_rows_ok_def assms(2))
qed

section \<open>The view of a reference\<close>

definition typed_view ::
  "typedlib \<Rightarrow> pg_ledger \<Rightarrow> receipt_kind \<times> string \<Rightarrow> (string \<times> TypedEvidence \<times> string \<times> string) option" where
  \<comment> \<open>the fingerprint, evidence, tenant and Workspace stored for a reference\<close>
  "typed_view lib s x =
     (case find_typed s (fst x) (reference_key (tl_go lib) (fst x) (snd x)) of
        None \<Rightarrow> None
      | Some row \<Rightarrow>
          (case decode_typed lib (fst x) (er_PayloadJSON row) of
             Inl _ \<Rightarrow> None
           | Inr rec \<Rightarrow> Some (er_RequestHash row, yr_Evidence rec, yr_TenantID rec, yr_WorkspaceID rec)))"

definition evolves :: "typedlib \<Rightarrow> pg_ledger \<Rightarrow> pg_ledger \<Rightarrow> bool" where
  "evolves lib s s' \<longleftrightarrow> (\<exists>f new. lp_receipts s' = map f (lp_receipts s) @ new \<and> rewriting lib s f)"

lemma find_map_same:
  assumes "\<And>x. x \<in> set xs \<Longrightarrow> p (f x) = p x"
  shows "List.find p (map f xs) = map_option f (List.find p xs)"
  using assms by (induction xs) auto

lemma evolves_view:
  assumes "evolves lib s s'" and "typed_view lib s x = Some v"
  shows "typed_view lib s' x = Some v"
proof -
  obtain k ref where x: "x = (k, ref)" by (cases x)
  from assms(1) obtain f new where f: "lp_receipts s' = map f (lp_receipts s) @ new" "rewriting lib s f"
    by (auto simp: evolves_def)
  from assms(2) obtain row rec where row: "find_typed s k (reference_key (tl_go lib) k ref) = Some row"
    "decode_typed lib k (er_PayloadJSON row) = Inr rec"
    "v = (er_RequestHash row, yr_Evidence rec, yr_TenantID rec, yr_WorkspaceID rec)"
    unfolding x typed_view_def by (auto split: option.splits sum.splits)
  have mem: "row \<in> set (lp_receipts s)" using find_SomeD [OF row(1) [unfolded find_typed_def]] by simp
  have "find_typed s' k (reference_key (tl_go lib) k ref) = Some (f row)"
    using row(1) f(2)
    by (simp add: find_typed_def f(1) find_append find_map_same rewriting_def row_identity_def)
  moreover from f(2) mem row(2) obtain rec' where "decode_typed lib k (er_PayloadJSON (f row)) = Inr rec'"
    "same_evidence rec rec'" "er_RequestHash (f row) = er_RequestHash row"
    unfolding rewriting_def row_identity_def by blast
  ultimately show ?thesis unfolding x typed_view_def by (simp add: row(3) same_evidence_def)
qed

end
