(* ===== verification/Ledger_Coordination.thy ===== *)
theory Ledger_Coordination
  imports Ledger_Typed
begin

text \<open>
  The Ledger's coordination service (\<open>services/ledger/eventconsumer/coordination.go\<close>,
  \<open>financial_receipt.go\<close>): appending a typed receipt after its evidence was read back from the owners
  that issued it, and reading receipts under the authority of the commit they carry. The clients of the
  Catalog, the Workspace owner and the Gateway are arguments, \<open>None\<close> when the deployment does not wire
  them; so are the answers of CloudIdentity, once for the call and once more when a row is inserted.
\<close>

record coordinator =
  co_lib :: typedlib
  co_peer :: "string option"
  co_now :: time
  co_auth :: "Authorizer option"
  co_insert_now :: time
  co_insert_auth :: "Authorizer option"
  co_store_now :: time
  co_catalog :: "(CallContext \<Rightarrow> string \<Rightarrow> status + QuoteAcceptance) option"
  co_workspace :: "(string \<Rightarrow> string \<Rightarrow> string \<Rightarrow> status + OwnerCommitEvidence) option"
  co_gateway :: "(CallContext \<Rightarrow> string \<Rightarrow> status + WalletOperation) option"

definition receiptError :: "typed_error \<Rightarrow> status" where
  "receiptError err =
     (case err of
        TypedStatus st \<Rightarrow> st
      | TypedStore (PgLedger ErrInvalidReceiptInput) \<Rightarrow> (InvalidArgument, ''invalid Local no-charge receipt evidence'')
      | TypedStore (PgLedger ErrLedgerIdempotencyConflict) \<Rightarrow>
          (AlreadyExists, ''original receipt or idempotency key has conflicting evidence'')
      | TypedStore (PgLedger ErrReceiptNotFound) \<Rightarrow> (NotFound, ''original receipt not found'')
      | _ \<Rightarrow> (Unavailable, ''Ledger receipt persistence unavailable''))"

section \<open>Authorization\<close>

definition authorizeReceipt ::
  "string option \<Rightarrow> time \<Rightarrow> Authorizer option \<Rightarrow> CallContext option \<Rightarrow> string \<Rightarrow> string \<Rightarrow> string \<Rightarrow> string \<Rightarrow>
   status option" where
  "authorizeReceipt peer now auth call action workspaceID tenantID actorID =
     Authorize peer now auth call action (Some \<lparr>ar_Kind = ''WORKSPACE'', ar_Id = Some workspaceID\<rparr>)
       \<lparr>rs_TenantID = tenantID, rs_ActorID = actorID\<rparr>"

definition fresh_call :: "CallContext \<Rightarrow> CallContext" where
  \<comment> \<open>the clone a further owner is called with\<close>
  "fresh_call call = call\<lparr>ctx_AuthorizationContextId := []\<rparr>"

definition scope_tenant :: "scope option \<Rightarrow> string" where
  "scope_tenant sc = (case sc of Some (TenantScope t) \<Rightarrow> t | _ \<Rightarrow> [])"

section \<open>Owner readback\<close>

definition readAcceptedQuote :: "coordinator \<Rightarrow> AppendReceiptRequest \<Rightarrow> bool \<Rightarrow> status option" where
  "readAcceptedQuote e r paid =
     (case (co_catalog e, an_QuoteAcceptance r, an_Context r) of
        (Some catalog, Some q, Some call) \<Rightarrow>
          (case catalog (fresh_call call) (qu_Id (qa_Quote q)) of
             Inl err \<Rightarrow> Some err
           | Inr actualQuote \<Rightarrow>
               if actualQuote \<noteq> q
               then Some (FailedPrecondition, ''accepted Catalog quote differs from submitted evidence'')
               else if paid \<longleftrightarrow> plan_member rp_BillingMode q = ''LOCAL_NO_CHARGE''
               then Some (FailedPrecondition, ''receipt kind does not match the accepted billing mode'')
               else None)
      | _ \<Rightarrow> Some (Unavailable, ''owner readback required''))"

definition readWorkspaceCommit :: "coordinator \<Rightarrow> AppendReceiptRequest \<Rightarrow> status option" where
  "readWorkspaceCommit e r =
     (case (co_workspace e, an_OwnerCommitEvidence r) of
        (Some workspace, Some commit) \<Rightarrow>
          (case workspace ''WORKSPACE'' (oc_OperationId commit) (oc_ResourceId commit) of
             Inl err \<Rightarrow> Some err
           | Inr actualCommit \<Rightarrow>
               if actualCommit \<noteq> commit
               then Some (FailedPrecondition, ''Workspace commit differs from submitted evidence'') else None)
      | _ \<Rightarrow> Some (Unavailable, ''Workspace owner readback required''))"

definition readGatewayCharge :: "coordinator \<Rightarrow> AppendReceiptRequest \<Rightarrow> status option" where
  "readGatewayCharge e r =
     (case (co_gateway e, an_WalletOperation r, an_Context r) of
        (Some gateway, Some wallet, Some call) \<Rightarrow>
          (case gateway (fresh_call call) (wo_Id wallet) of
             Inl err \<Rightarrow> Some err
           | Inr actual \<Rightarrow>
               if actual \<noteq> wallet
               then Some (FailedPrecondition, ''Gateway wallet charge differs from submitted evidence'') else None)
      | _ \<Rightarrow> Some (Unavailable, ''owner readback required''))"

section \<open>Appending\<close>

definition append_typed ::
  "coordinator \<Rightarrow> receipt_kind \<Rightarrow> (unit \<Rightarrow> status option) \<Rightarrow> AppendReceiptRequest \<Rightarrow> pg_ledger \<Rightarrow>
   (status + ApiReceipt) \<times> pg_ledger" where
  \<comment> \<open>what the three handlers share; \<open>readback\<close> is their owner readback, run between the authorization
     and the writer\<close>
  "append_typed e k readback r s =
     (case rk_Validate k r of
        Some err \<Rightarrow> (Inl (receiptError (TypedStore (PgLedger err))), s)
      | None \<Rightarrow>
          (case (an_OwnerCommitEvidence r, an_Context r) of
             (Some commit, Some call) \<Rightarrow>
               (case authorizeReceipt (co_peer e) (co_now e) (co_auth e) (Some call) ''APPENDRECEIPT''
                       (rk_WorkspaceID k r) (scope_tenant (oc_Scope commit)) (oc_ActorId commit) of
                  Some err \<Rightarrow> (Inl err, s)
                | None \<Rightarrow>
                    (case readback () of
                       Some err \<Rightarrow> (Inl err, s)
                     | None \<Rightarrow>
                         (case record_typed (co_lib e) k (co_store_now e) r
                                 (authorizeReceipt (co_peer e) (co_insert_now e) (co_insert_auth e)
                                    (Some (fresh_call call)) ''APPENDRECEIPT'' (rk_WorkspaceID k r)
                                    (scope_tenant (oc_Scope commit)) (oc_ActorId commit)) s of
                            (Inl err, s') \<Rightarrow> (Inl (receiptError err), s')
                          | (Inr stored, s') \<Rightarrow> (Inr (te_Receipt (yr_Evidence stored)), s'))))
           | _ \<Rightarrow> (Inl (receiptError (TypedStore (PgLedger ErrInvalidReceiptInput))), s)))"

definition appendProviderActionReceipt ::
  "coordinator \<Rightarrow> AppendReceiptRequest \<Rightarrow> pg_ledger \<Rightarrow> (status + ApiReceipt) \<times> pg_ledger" where
  "appendProviderActionReceipt e r =
     append_typed e provider_action (\<lambda>_.
       if co_workspace e = None then Some (Unavailable, ''Workspace owner readback required'')
       else readWorkspaceCommit e r) r"

definition appendLocalNoChargeReceipt ::
  "coordinator \<Rightarrow> AppendReceiptRequest \<Rightarrow> pg_ledger \<Rightarrow> (status + ApiReceipt) \<times> pg_ledger" where
  "appendLocalNoChargeReceipt e r =
     append_typed e local_no_charge (\<lambda>_.
       if co_catalog e = None \<or> co_workspace e = None
       then Some (Unavailable, ''Catalog and Workspace owner readback required'')
       else case readAcceptedQuote e r False of
              Some err \<Rightarrow> Some err
            | None \<Rightarrow> readWorkspaceCommit e r) r"

definition appendWalletActionReceipt ::
  "coordinator \<Rightarrow> AppendReceiptRequest \<Rightarrow> pg_ledger \<Rightarrow> (status + ApiReceipt) \<times> pg_ledger" where
  "appendWalletActionReceipt e r =
     append_typed e wallet_action (\<lambda>_.
       if co_catalog e = None \<or> co_workspace e = None \<or> co_gateway e = None
       then Some (Unavailable, ''Catalog, Workspace and Gateway owner readback required'')
       else case readAcceptedQuote e r True of
              Some err \<Rightarrow> Some err
            | None \<Rightarrow> (case readWorkspaceCommit e r of
                         Some err \<Rightarrow> Some err
                       | None \<Rightarrow> readGatewayCharge e r)) r"

definition AppendReceipt ::
  "coordinator \<Rightarrow> AppendReceiptRequest \<Rightarrow> pg_ledger \<Rightarrow> (status + ApiReceipt) \<times> pg_ledger" where
  "AppendReceipt e r s =
     (if co_peer e \<noteq> Some ''workspace''
      then (Inl (Unauthenticated, ''verified Workspace peer required''), s)
      else case ValidateCallContext (co_peer e) (co_now e) (an_Context r) of
        Some err \<Rightarrow> (Inl err, s)
      | None \<Rightarrow>
          let kind = (case an_Receipt r of None \<Rightarrow> ''UNSPECIFIED'' | Some receipt \<Rightarrow> ap_Kind receipt) in
          if kind = ''WALLET_ACTION'' then appendWalletActionReceipt e r s
          else if kind = ''LOCAL_NO_CHARGE'' then appendLocalNoChargeReceipt e r s
          else if kind = ''PROVIDER_ACTION'' then appendProviderActionReceipt e r s
          else (Inl (InvalidArgument, ''unsupported receipt kind for this owner''), s))"

section \<open>Reading\<close>

record GetReceiptByReferenceRequest =
  gr_Context :: "CallContext option"
  gr_Owner :: string
  gr_OwnerEvidenceReference :: string

definition authorizeStoredReceipt ::
  "coordinator \<Rightarrow> GetReceiptByReferenceRequest \<Rightarrow> string \<Rightarrow> string \<Rightarrow> OwnerCommitEvidence \<Rightarrow> status option" where
  "authorizeStoredReceipt e r workspaceID tenantID commit =
     (if oc_ActorId commit = []
      then Some (FailedPrecondition, ''stored receipt evidence names no committing actor'')
      else authorizeReceipt (co_peer e) (co_now e) (co_auth e) (gr_Context r) ''GETRECEIPT'' workspaceID tenantID
             (oc_ActorId commit))"

definition read_authorized ::
  "coordinator \<Rightarrow> receipt_kind \<Rightarrow> GetReceiptByReferenceRequest \<Rightarrow> pg_ledger \<Rightarrow> status + TypedEvidence" where
  \<comment> \<open>the store's record under the authority of its commit\<close>
  "read_authorized e k r s =
     (case read_typed (co_lib e) k (gr_OwnerEvidenceReference r) s of
        Inl err \<Rightarrow> Inl (receiptError err)
      | Inr stored \<Rightarrow>
          (case authorizeStoredReceipt e r (yr_WorkspaceID stored) (yr_TenantID stored)
                  (te_OwnerCommitEvidence (yr_Evidence stored)) of
             Some err \<Rightarrow> Inl err
           | None \<Rightarrow> Inr (yr_Evidence stored)))"

definition read_by_peer ::
  "coordinator \<Rightarrow> receipt_kind \<Rightarrow> GetReceiptByReferenceRequest \<Rightarrow> pg_ledger \<Rightarrow> status + TypedEvidence" where
  "read_by_peer e k r s =
     (if co_peer e \<notin> {Some ''workspace'', Some ''fabric''}
      then Inl (Unauthenticated, ''verified Workspace or Fabric peer required'')
      else case ValidateCallContext (co_peer e) (co_now e) (gr_Context r) of
        Some err \<Rightarrow> Inl err
      | None \<Rightarrow>
          if gr_Owner r \<noteq> ''workspace'' \<or> trim_space (gr_OwnerEvidenceReference r) = []
          then Inl (InvalidArgument, ''original Workspace owner reference required'')
          else read_authorized e k r s)"

definition ReadWalletActionReceipt ::
  "coordinator \<Rightarrow> GetReceiptByReferenceRequest \<Rightarrow> pg_ledger \<Rightarrow> status + TypedEvidence" where
  "ReadWalletActionReceipt e = read_by_peer e wallet_action"

definition ReadLocalNoChargeReceipt ::
  "coordinator \<Rightarrow> GetReceiptByReferenceRequest \<Rightarrow> pg_ledger \<Rightarrow> status + TypedEvidence" where
  "ReadLocalNoChargeReceipt e = read_by_peer e local_no_charge"

definition ReadReceiptByReference ::
  "coordinator \<Rightarrow> GetReceiptByReferenceRequest \<Rightarrow> pg_ledger \<Rightarrow> status + ApiReceipt" where
  "ReadReceiptByReference e r s =
     (case ReadWalletActionReceipt e r s of
        Inr evidence \<Rightarrow> Inr (te_Receipt evidence)
      | Inl err \<Rightarrow>
          if fst err \<noteq> NotFound then Inl err
          else (case ReadLocalNoChargeReceipt e r s of
                  Inr evidence \<Rightarrow> Inr (te_Receipt evidence)
                | Inl err \<Rightarrow>
                    if fst err \<noteq> NotFound then Inl err
                    else map_sum id te_Receipt (read_authorized e provider_action r s)))"

definition GetWorkspaceFinancialReceipt ::
  "coordinator \<Rightarrow> CallContext option \<Rightarrow> string \<Rightarrow> string \<Rightarrow> pg_ledger \<Rightarrow> status + WorkspaceFinancialReceipt" where
  "GetWorkspaceFinancialReceipt e call workspaceID receiptID s =
     (if co_peer e \<noteq> Some ''console_bff'' then Inl (Unauthenticated, ''verified Console BFF peer required'')
      else if (case call of
                 None \<Rightarrow> True
               | Some c \<Rightarrow> coalesce_str (ctx_SessionId c) = [] \<or> coalesce_str (ctx_AcceptedOperationGrantId c) \<noteq> [])
      then Inl (Unauthenticated, ''live customer session required'')
      else if call_tenant call = [] \<or> trim_space workspaceID = [] \<or> workspaceID \<noteq> trim_space workspaceID \<or>
              trim_space receiptID = [] \<or> receiptID \<noteq> trim_space receiptID
      then Inl (InvalidArgument, ''Tenant, Workspace and receipt identities required'')
      else case Authorize (co_peer e) (co_now e) (co_auth e) call ''GETWORKSPACEFINANCIALRECEIPT''
                  (Some \<lparr>ar_Kind = ''WORKSPACE'', ar_Id = Some workspaceID\<rparr>)
                  \<lparr>rs_TenantID = call_tenant call, rs_ActorID = []\<rparr> of
        Some err \<Rightarrow> Inl err
      | None \<Rightarrow> map_sum receiptError id (pg_WorkspaceFinancialReceipt (co_lib e) (call_tenant call) workspaceID receiptID s))"

end
