(* ===== verification/Ledger_Events.thy ===== *)
theory Ledger_Events
  imports Ledger_Typed Event_Identity
begin

text \<open>
  Domain events as evidence (\<open>services/ledger/internal/ledger/domain_event.go\<close>) and the Ledger's domain
  Inbox (\<open>Deliver\<close> of \<open>services/ledger/eventconsumer/server.go\<close>): the checks on the envelope and on each
  payload, the digest and the status a receipt is recorded with, and the answers the producer sees. The
  JSON value of an envelope is an argument.
\<close>

section \<open>Messages\<close>

record PackageUploadedEvent =
  pu_PackageVersionId :: string
  pu_PackageId :: string
  pu_Sha256 :: string
  pu_SizeBytes :: int

record BuildArtifactConfirmedEvent =
  bc_BuildJobId :: string
  bc_PackageVersionId :: string
  bc_RuntimeVersionId :: string
  bc_WebuiVersionId :: string
  bc_ArtifactDigest :: string
  bc_ArtifactReceiptId :: string
  bc_DeploymentDescriptorDigest :: string

record BuildFailedEvent =
  bf_BuildJobId :: string
  bf_ErrorCode :: string

record CapabilityVersionRegisteredEvent =
  cv_CapabilityVersionId :: string
  cv_BuildJobId :: string
  cv_ArtifactDigest :: string

record RuntimeReadinessObservedEvent =
  ro_RuntimeInstanceId :: string
  ro_WorkspaceId :: string
  ro_DeploymentId :: string
  ro_Outcome :: string
  ro_ApplicationAvailable :: bool
  ro_CredentialInjectionVerified :: bool
  ro_AppliedModelConfigurationVersion :: int
  ro_ReceiptId :: "string option"

record CatalogPolicyChangedEvent =
  ce_PolicyVersionId :: string
  ce_PolicyKind :: string
  ce_ValidFrom :: "Timestamp option"

record RouteObservedEvent =
  rt_WorkspaceId :: string
  rt_SwitchId :: string
  rt_ActionKind :: string
  rt_RouteGeneration :: int
  rt_ExecutionEpoch :: int
  rt_RouteRevision :: string
  rt_TargetExecutionResourceId :: "string option"
  rt_Outcome :: string
  rt_RouteReceiptId :: "string option"

record ResourcesObservedEvent =
  so_ResourceSetId :: string
  so_WorkspaceId :: string
  so_ResourceActionId :: string
  so_Outcome :: string
  so_AbsenceConfirmed :: bool
  so_ReceiptId :: "string option"

record WalletOperationObservedEvent =
  wv_WalletOperationId :: string
  wv_WorkspaceId :: string
  wv_Kind :: string
  wv_Status :: string
  wv_AmountUsdMicros :: int
  wv_ExternalReference :: "string option"
  wv_ReceiptId :: "string option"
  wv_Purpose :: "string option"
  wv_PlanChangeId :: "string option"
  wv_OriginalChargeOperationId :: "string option"
  wv_CoverageStart :: "Timestamp option"
  wv_CoverageEnd :: "Timestamp option"

datatype event_payload =
    PackageUploaded PackageUploadedEvent
  | BuildArtifactConfirmed BuildArtifactConfirmedEvent
  | BuildFailed BuildFailedEvent
  | CapabilityVersionRegistered CapabilityVersionRegisteredEvent
  | RuntimeReadinessObserved RuntimeReadinessObservedEvent
  | CatalogPolicyChanged CatalogPolicyChangedEvent
  | RouteObserved RouteObservedEvent
  | ResourcesObserved ResourcesObservedEvent
  | WalletOperationObserved WalletOperationObservedEvent
  | OtherPayload
  | NoPayload

text \<open>\<open>OtherPayload\<close> stands for the payloads of the contract the Ledger never looks into.\<close>

record EventEnvelope =
  ee_EventId :: string
  ee_EventType :: string
  ee_SchemaVersion :: int
  ee_Owner :: string
  ee_TenantId :: string
  ee_AggregateId :: string
  ee_AggregateVersion :: int
  ee_OccurredAt :: "Timestamp option"
  ee_RequestId :: string
  ee_Scope :: string
  ee_Payload :: event_payload

record eventlib =
  vl_pg :: pglib
  vl_event :: "EventEnvelope \<Rightarrow> json option"

section \<open>Evidence of each event\<close>

fun join_unit :: "string list \<Rightarrow> string" where
  \<comment> \<open>\<open>strings.Join(parts, "\x1f")\<close>\<close>
  "join_unit [] = []"
| "join_unit [p] = p"
| "join_unit (p # ps) = p @ [CHR 0x1F] @ join_unit ps"

definition evidenceDigest :: "golib \<Rightarrow> string list \<Rightarrow> string" where
  "evidenceDigest lib parts = ''sha256:'' @ lib_sha256 lib (join_unit parts)"

definition unix_nano :: "Timestamp \<Rightarrow> int" where
  "unix_nano t = wrap64 (AsTime t - 62135596800 * 1000000000)"

definition format_bool :: "bool \<Rightarrow> string" where
  "format_bool b = (if b then ''true'' else ''false'')"

definition blank :: "string \<Rightarrow> bool" where
  "blank s \<longleftrightarrow> trim_space s = []"

definition given_blank :: "string option \<Rightarrow> bool" where
  \<comment> \<open>an optional text that is present but blank\<close>
  "given_blank v = (case v of None \<Rightarrow> False | Some s \<Rightarrow> blank s)"

definition trimmed :: "string option \<Rightarrow> string" where
  "trimmed v = trim_space (coalesce_str v)"

definition readinessReceiptStatus :: "EventEnvelope \<Rightarrow> RuntimeReadinessObservedEvent \<Rightarrow> string option" where
  "readinessReceiptStatus event p =
     (if ee_Owner event \<noteq> ''serve'' \<or> blank (ro_RuntimeInstanceId p) \<or> blank (ro_WorkspaceId p) \<or>
         blank (ro_DeploymentId p) \<or> ee_AggregateId event \<noteq> ro_DeploymentId p \<or>
         ro_AppliedModelConfigurationVersion p < 0
      then None
      else if ro_Outcome p = ''confirmed''
      then if \<not> ro_ApplicationAvailable p \<or> ro_ReceiptId p = None \<or> blank (coalesce_str (ro_ReceiptId p))
           then None else Some ''completed''
      else if ro_Outcome p = ''rejected''
      then if ro_ApplicationAvailable p \<or> ro_CredentialInjectionVerified p then None else Some ''failed''
      else if ro_Outcome p = ''unknown''
      then if ro_ApplicationAvailable p \<or> ro_CredentialInjectionVerified p then None else Some ''review_required''
      else None)"

definition observationReceiptStatus :: "string \<Rightarrow> string option" where
  "observationReceiptStatus outcome =
     (if outcome = ''confirmed'' then Some ''completed''
      else if outcome = ''rejected'' then Some ''failed''
      else if outcome = ''unknown'' then Some ''review_required'' else None)"

definition accessObservedEvidence :: "golib \<Rightarrow> EventEnvelope \<Rightarrow> RouteObservedEvent \<Rightarrow> (string \<times> string) option" where
  "accessObservedEvidence lib event p =
     (if ee_Owner event \<noteq> ''serve'' \<or> blank (rt_WorkspaceId p) \<or> blank (rt_SwitchId p) \<or>
         ee_AggregateId event \<noteq> rt_SwitchId p \<or> rt_RouteGeneration p < 0 \<or> rt_ExecutionEpoch p < 0 \<or>
         blank (rt_RouteRevision p)
      then None
      else if rt_ActionKind p \<notin> {''fence'', ''activate'', ''rollback''} then None
      else if given_blank (rt_TargetExecutionResourceId p) then None
      else if given_blank (rt_RouteReceiptId p) then None
      else map_option (\<lambda>status.
        (status, evidenceDigest lib [''route'', rt_WorkspaceId p, rt_SwitchId p, rt_ActionKind p,
           format_int (rt_RouteGeneration p), format_int (rt_ExecutionEpoch p), rt_RouteRevision p,
           trimmed (rt_TargetExecutionResourceId p), rt_Outcome p, trimmed (rt_RouteReceiptId p)]))
        (observationReceiptStatus (rt_Outcome p)))"

definition resourcesObservedEvidence ::
  "golib \<Rightarrow> EventEnvelope \<Rightarrow> ResourcesObservedEvent \<Rightarrow> (string \<times> string) option" where
  "resourcesObservedEvidence lib event p =
     (if ee_Owner event \<noteq> ''serve'' \<or> blank (so_ResourceSetId p) \<or> blank (so_WorkspaceId p) \<or>
         blank (so_ResourceActionId p) \<or> ee_AggregateId event \<noteq> so_ResourceSetId p
      then None
      else if given_blank (so_ReceiptId p) then None
      else case observationReceiptStatus (so_Outcome p) of
        None \<Rightarrow> None
      | Some status \<Rightarrow>
          if so_AbsenceConfirmed p \<and> so_Outcome p \<noteq> ''confirmed'' then None
          else Some (status, evidenceDigest lib [''resources'', so_ResourceSetId p, so_WorkspaceId p,
                 so_ResourceActionId p, so_Outcome p, format_bool (so_AbsenceConfirmed p), trimmed (so_ReceiptId p)]))"

definition walletObservationPurposes :: "string list" where
  "walletObservationPurposes =
     [''base_period'', ''upgrade_supplement'', ''base_period_delete'', ''upgrade_failure_full'',
      ''supplement_delete_unused'', ''next_period_plan_failure_full'', ''recharge'']"

definition coverage_texts :: "WalletOperationObservedEvent \<Rightarrow> (string \<times> string) option" where
  "coverage_texts p =
     (case (wv_CoverageStart p, wv_CoverageEnd p) of
        (None, None) \<Rightarrow> Some ([], [])
      | (Some a, Some b) \<Rightarrow>
          if \<not> CheckValid a \<or> \<not> CheckValid b \<or> \<not> AsTime a < AsTime b then None
          else Some (format_int (unix_nano a), format_int (unix_nano b))
      | _ \<Rightarrow> None)"

definition wallet_status :: "string \<Rightarrow> string option" where
  "wallet_status st =
     (if st = ''requested'' then Some ''running''
      else if st = ''confirmed'' then Some ''completed''
      else if st = ''rejected'' then Some ''failed''
      else if st = ''unknown'' then Some ''review_required'' else None)"

definition walletObservedEvidence ::
  "golib \<Rightarrow> EventEnvelope \<Rightarrow> WalletOperationObservedEvent \<Rightarrow> (string \<times> string) option" where
  "walletObservedEvidence lib event p =
     (if ee_Owner event \<noteq> ''gateway'' \<or> blank (wv_WalletOperationId p) \<or> blank (wv_WorkspaceId p) \<or>
         ee_AggregateId event \<noteq> wv_WalletOperationId p \<or> wv_AmountUsdMicros p < 0
      then None
      else if wv_Kind p \<notin> {''charge'', ''refund''} then None
      else case wallet_status (wv_Status p) of
        None \<Rightarrow> None
      | Some status \<Rightarrow>
          if given_blank (wv_ExternalReference p) \<or> given_blank (wv_ReceiptId p) then None
          else if wv_Purpose p \<noteq> None \<and> trimmed (wv_Purpose p) \<notin> set walletObservationPurposes then None
          else if given_blank (wv_PlanChangeId p) \<or> given_blank (wv_OriginalChargeOperationId p) then None
          else case coverage_texts p of
            None \<Rightarrow> None
          | Some (coverageStart, coverageEnd) \<Rightarrow>
              Some (status, evidenceDigest lib [''wallet'', wv_WalletOperationId p, wv_WorkspaceId p, wv_Kind p,
                wv_Status p, format_int (wv_AmountUsdMicros p), trimmed (wv_ExternalReference p),
                trimmed (wv_ReceiptId p), trimmed (wv_Purpose p), trimmed (wv_PlanChangeId p),
                trimmed (wv_OriginalChargeOperationId p), coverageStart, coverageEnd]))"

definition ErrorCodeEnum_value :: "string list" where
  \<comment> \<open>the members with a number other than zero\<close>
  "ErrorCodeEnum_value =
     [''VALIDATION_FAILED'', ''UNAUTHENTICATED'', ''FORBIDDEN'', ''NOT_FOUND'', ''CSRF_INVALID'',
      ''ORIGIN_REJECTED'', ''IDEMPOTENCY_REQUIRED'', ''IDEMPOTENCY_CONFLICT'', ''VERSION_CONFLICT'',
      ''LAST_OWNER'', ''INVITATION_INVALID'', ''TENANT_INACTIVE'', ''TENANT_RESTORE_EXPIRED'',
      ''GATEWAY_UNAVAILABLE'', ''OWNER_CAPABILITY_UNAVAILABLE'', ''WALLET_BINDING_REQUIRED'',
      ''INSUFFICIENT_BALANCE'', ''QUOTE_EXPIRED'', ''QUOTE_MISMATCH'', ''POLICY_UNCONFIGURED'',
      ''CAPACITY_UNAVAILABLE'', ''PROVIDER_CAPABILITY_UNSUPPORTED'', ''RUNTIME_REVOKED'',
      ''WEBUI_INCOMPATIBLE'', ''MODEL_NOT_ALLOWED'', ''PACKAGE_ARCHIVED'', ''UPLOAD_EXPIRED'',
      ''UPLOAD_PART_MISMATCH'', ''UPLOAD_CHECKSUM_MISMATCH'', ''PACKAGE_INVALID'', ''BUILD_INPUT_REJECTED'',
      ''BUILD_FAILED'', ''ARTIFACT_REFERENCED'', ''ARTIFACT_UNAVAILABLE'', ''INCOMPATIBLE_VERSION'',
      ''DATA_MIGRATION_REQUIRED'', ''ROLLBACK_UNSAFE'', ''WORKSPACE_NOT_READY'', ''WORKSPACE_EXPIRED'',
      ''OPERATION_IN_PROGRESS'', ''EXTERNAL_OUTCOME_UNKNOWN'', ''RESOURCE_DELETE_UNCONFIRMED'',
      ''REFUND_PENDING'', ''KEY_REVEAL_FORBIDDEN'', ''APP_ACCESS_UNAVAILABLE'', ''RATE_LIMITED'',
      ''DEPENDENCY_UNAVAILABLE'', ''INSTANCE_AUTHORIZATION_REQUIRED'', ''INTERNAL_ERROR'',
      ''PUBLISHER_NAMESPACE_MISMATCH'', ''PUBLISHER_CONTRACT_INVALID'', ''REFERENCE_CLAIM_INVALID'',
      ''AUTHORIZATION_CONTEXT_EXPIRED'', ''AUTHORIZATION_REVOKED'', ''AUTHORIZATION_AUDIENCE_MISMATCH'',
      ''ROUTE_GENERATION_CONFLICT'', ''STALE_EXECUTION_EPOCH'', ''TENANT_NOT_SUSPENDED'',
      ''RENEWAL_PERIOD_ELAPSED'', ''PLAN_CHANGE_EXISTS'', ''PLAN_CHANGE_NOT_CANCELLABLE'',
      ''PLAN_CHANGE_QUOTE_STALE'', ''PLAN_TRANSITION_NOT_SUPPORTED'', ''PLAN_TRANSITION_MIXED'',
      ''PLAN_CHANGE_NO_OP'', ''STORAGE_SHRINK_UNSUPPORTED'', ''SUBSCRIPTION_VERSION_CONFLICT'',
      ''PLAN_CHANGE_PAYMENT_REQUIRED'', ''PLAN_CHANGE_PERIOD_ELAPSED'', ''REFUND_ORIGINAL_CHARGE_CONFLICT'',
      ''FUTURE_PERIOD_COMMITTED'', ''SCHEDULED_PLAN_APPLICATION_CONFLICT'', ''REAUTHENTICATION_REQUIRED'']"

section \<open>Recording an event\<close>

record event_facts =
  ef_Job :: string
  ef_Digest :: string
  ef_Status :: string
  ef_WorkspaceID :: string

definition envelope_ok :: "EventEnvelope \<Rightarrow> bool" where
  "envelope_ok event \<longleftrightarrow>
     ee_EventId event \<noteq> [] \<and> ee_SchemaVersion event = 1 \<and> ee_RequestId event \<noteq> [] \<and>
     1 \<le> ee_AggregateVersion event \<and> ts_ok (ee_OccurredAt event)"

definition scope_ok :: "EventEnvelope \<Rightarrow> bool" where
  "scope_ok event \<longleftrightarrow>
     (if ee_Scope event = ''tenant'' then ee_TenantId event \<noteq> []
      else if ee_Scope event = ''platform''
      then ee_TenantId event = [] \<and> ee_EventType event = ''catalog.policy_changed.v1''
      else False)"

definition domain_facts :: "golib \<Rightarrow> EventEnvelope \<Rightarrow> event_facts option" where
  \<comment> \<open>the switch on the event type; \<open>None\<close> for \<open>ErrInvalidReceiptInput\<close>\<close>
  "domain_facts lib event =
     (let t = ee_EventType event;
          facts = (\<lambda>job dg st ws. \<lparr>ef_Job = job, ef_Digest = dg, ef_Status = st, ef_WorkspaceID = ws\<rparr>) in
      if t = ''package.uploaded.v1''
      then (case ee_Payload event of
              PackageUploaded p \<Rightarrow>
                if ee_Owner event \<noteq> ''capability'' \<or> pu_PackageId p = [] \<or> pu_PackageVersionId p = [] \<or>
                   ee_AggregateId event \<noteq> pu_PackageVersionId p \<or> pu_SizeBytes p \<le> 0 \<or> \<not> artifactDigest (pu_Sha256 p)
                then None else Some (facts [] (pu_Sha256 p) ''completed'' [])
            | _ \<Rightarrow> None)
      else if t = ''build.artifact_confirmed.v1''
      then (case ee_Payload event of
              BuildArtifactConfirmed p \<Rightarrow>
                if ee_Owner event \<noteq> ''build'' \<or> bc_BuildJobId p = [] \<or> ee_AggregateId event \<noteq> bc_BuildJobId p \<or>
                   bc_PackageVersionId p = [] \<or> bc_RuntimeVersionId p = [] \<or> bc_WebuiVersionId p = [] \<or>
                   bc_ArtifactReceiptId p = [] \<or> \<not> artifactDigest (bc_ArtifactDigest p) \<or>
                   \<not> artifactDigest (bc_DeploymentDescriptorDigest p)
                then None else Some (facts (bc_BuildJobId p) (bc_ArtifactDigest p) ''completed'' [])
            | _ \<Rightarrow> None)
      else if t = ''build.failed.v1''
      then (case ee_Payload event of
              BuildFailed p \<Rightarrow>
                if ee_Owner event \<noteq> ''build'' \<or> bf_BuildJobId p = [] \<or> ee_AggregateId event \<noteq> bf_BuildJobId p \<or>
                   to_upper (bf_ErrorCode p) \<notin> set ErrorCodeEnum_value
                then None else Some (facts (bf_BuildJobId p) [] ''failed'' [])
            | _ \<Rightarrow> None)
      else if t = ''capability.version_registered.v1''
      then (case ee_Payload event of
              CapabilityVersionRegistered p \<Rightarrow>
                if ee_Owner event \<noteq> ''capability'' \<or> cv_BuildJobId p = [] \<or> cv_CapabilityVersionId p = [] \<or>
                   ee_AggregateId event \<noteq> cv_CapabilityVersionId p \<or> \<not> artifactDigest (cv_ArtifactDigest p)
                then None else Some (facts (cv_BuildJobId p) (cv_ArtifactDigest p) ''completed'' [])
            | _ \<Rightarrow> None)
      else if t = ''serve.agent_readiness_observed.v1''
      then (case ee_Payload event of
              RuntimeReadinessObserved p \<Rightarrow>
                map_option (\<lambda>st. facts (ro_DeploymentId p) [] st (ro_WorkspaceId p)) (readinessReceiptStatus event p)
            | _ \<Rightarrow> None)
      else if t = ''catalog.policy_changed.v1''
      then (case ee_Payload event of
              CatalogPolicyChanged p \<Rightarrow>
                if ee_Owner event \<noteq> ''resource_catalog'' \<or> ee_Scope event \<noteq> ''platform'' \<or>
                   blank (ce_PolicyVersionId p) \<or> blank (ce_PolicyKind p) \<or>
                   ee_AggregateId event \<noteq> ce_PolicyVersionId p \<or> \<not> ts_ok (ce_ValidFrom p)
                then None
                else Some (facts [] (evidenceDigest lib [ce_PolicyVersionId p, ce_PolicyKind p]) ''completed'' [])
            | _ \<Rightarrow> None)
      else if t = ''serve.access_observed.v1''
      then (case ee_Payload event of
              RouteObserved p \<Rightarrow>
                map_option (\<lambda>(st, dg). facts [] dg st (rt_WorkspaceId p)) (accessObservedEvidence lib event p)
            | _ \<Rightarrow> None)
      else if t = ''fabric.resources_observed.v1''
      then (case ee_Payload event of
              ResourcesObserved p \<Rightarrow>
                map_option (\<lambda>(st, dg). facts [] dg st (so_WorkspaceId p)) (resourcesObservedEvidence lib event p)
            | _ \<Rightarrow> None)
      else if t = ''wallet.operation_observed.v1''
      then (case ee_Payload event of
              WalletOperationObserved p \<Rightarrow>
                map_option (\<lambda>(st, dg). facts [] dg st (wv_WorkspaceId p)) (walletObservedEvidence lib event p)
            | _ \<Rightarrow> None)
      else None)"

definition domain_key :: "string \<Rightarrow> string \<Rightarrow> string" where
  "domain_key owner eventID = ''domain:'' @ owner @ '':'' @ eventID"

definition domain_input :: "EventEnvelope \<Rightarrow> event_facts \<Rightarrow> json \<Rightarrow> ReceiptInput" where
  \<comment> \<open>the Workspace of a readiness event is already in the facts\<close>
  "domain_input event f raw =
     \<lparr>r_Type = ee_EventType event, r_Status = ef_Status f, r_Surface = ''cloud'', r_AccountID = [],
      r_OrganizationID = (if ee_Scope event = ''platform'' then ''platform'' else ee_TenantId event),
      r_WorkspaceID = ef_WorkspaceID f, r_ProjectID = [], r_TaskID = [], r_RequestID = ee_RequestId event,
      r_ApprovalID = [], r_JobID = ef_Job f, r_ArtifactID = ef_Digest f, r_ReviewID = [], r_ContinuationID = [],
      r_Actor = None, r_Plan = None, r_Execution = None, r_Environment = None,
      r_InputRefs = Some [(''domainEvent'', raw)], r_OutputRefs = None, r_ReviewerChecks = None, r_Cost = None,
      r_Owner = Some [(''name'', JStr (ee_Owner event))], r_Continuation = None, r_SupersedesReceiptID = [],
      r_IdempotencyKey = domain_key (ee_Owner event) (ee_EventId event)\<rparr>"

definition domain_receipt :: "eventlib \<Rightarrow> EventEnvelope option \<Rightarrow> ReceiptInput option" where
  \<comment> \<open>the receipt \<open>RecordDomainEvent\<close> writes; \<open>None\<close> for \<open>ErrInvalidReceiptInput\<close>\<close>
  "domain_receipt lib event =
     (case event of
        None \<Rightarrow> None
      | Some ev \<Rightarrow>
          if \<not> envelope_ok ev \<or> \<not> scope_ok ev then None
          else (case domain_facts (pl_go (vl_pg lib)) ev of
                  None \<Rightarrow> None
                | Some f \<Rightarrow>
                    (case vl_event lib ev of
                       None \<Rightarrow> None
                     | Some raw \<Rightarrow>
                         let input = domain_input ev f raw in
                         if containsForbiddenReceiptKey input then None else Some input)))"

definition RecordDomainEvent ::
  "eventlib \<Rightarrow> time \<Rightarrow> EventEnvelope option \<Rightarrow> pg_ledger \<Rightarrow> pg_ledger \<Rightarrow> (pg_error + Receipt) \<times> pg_ledger" where
  "RecordDomainEvent lib now event seen s =
     (case domain_receipt lib event of
        None \<Rightarrow> (Inl (PgLedger ErrInvalidReceiptInput), s)
      | Some input \<Rightarrow> recordReceipt (vl_pg lib) now input seen s)"

section \<open>The Inbox\<close>

record DeliverEventRequest =
  dr_Event :: "EventEnvelope option"
  dr_AuthenticatedProducer :: string

record InboxAck =
  ia_EventId :: string
  ia_Consumer :: string
  ia_Committed :: bool
  ia_Duplicate :: bool
  ia_AppliedAggregateVersion :: int

definition deliver_peers :: "string list" where
  "deliver_peers = [''build'', ''capability'', ''serve'', ''resource_catalog'', ''gateway'']"

definition Deliver ::
  "eventlib \<Rightarrow> string option \<Rightarrow> time \<Rightarrow> DeliverEventRequest \<Rightarrow> pg_ledger \<Rightarrow> pg_ledger \<Rightarrow>
   (status + InboxAck) \<times> pg_ledger" where
  "Deliver lib peer now r seen s =
     (case peer of
        None \<Rightarrow> (Inl (Unauthenticated, ''verified Build, Capability, Serve, Resource Catalog or Gateway peer required''), s)
      | Some p \<Rightarrow>
          if p \<notin> set deliver_peers then (Inl (Unauthenticated, ''verified Build, Capability, Serve, Resource Catalog or Gateway peer required''), s)
          else if dr_AuthenticatedProducer r \<noteq> p \<or>
                  (case dr_Event r of None \<Rightarrow> [] | Some ev \<Rightarrow> ee_Owner ev) \<noteq> p
          then (Inl (PermissionDenied, ''event producer differs from authenticated peer''), s)
          else (case RecordDomainEvent lib now (dr_Event r) seen s of
                  (Inl (PgLedger ErrInvalidReceiptInput), s') \<Rightarrow>
                    (Inl (InvalidArgument, ''invalid domain evidence''), s')
                | (Inl (PgLedger ErrLedgerIdempotencyConflict), s') \<Rightarrow>
                    (Inl (AlreadyExists, ''event identity conflicts with persisted evidence''), s')
                | (Inl _, s') \<Rightarrow> (Inl (Unavailable, ''Ledger evidence persistence unavailable''), s')
                | (Inr receipt, s') \<Rightarrow>
                    (case dr_Event r of
                       None \<Rightarrow> (Inl (Unknown, []), s')
                     | Some ev \<Rightarrow>
                         (Inr \<lparr>ia_EventId = ee_EventId ev, ia_Consumer = ''ledger'', ia_Committed = True,
                               ia_Duplicate = rc_Replayed receipt,
                               ia_AppliedAggregateVersion = ee_AggregateVersion ev\<rparr>, s'))))"

end
