(* ===== verification/Ledger_Machine.thy ===== *)
theory Ledger_Machine
  imports Ledger_Typed_Laws Ledger_Coordination Ledger_Events
begin

text \<open>
  The production Ledger as one machine: every operation that writes, from the HTTP store, the domain
  Inbox and the coordination service, in any order and interleaving, with the invariant it keeps and how
  its receipts move.
\<close>

section \<open>Commands\<close>

datatype ledger_command =
    LedgerReceipt time ReceiptInput pg_ledger
  | LedgerRetention ReceiptRetentionInput
  | LedgerPrivacy time time ReceiptPrivacyDeleteInput
  | LedgerReconcile time ReconciliationInput pg_ledger
  | LedgerIndex time EvidenceIndexInput
  | LedgerDeliver "EventEnvelope \<Rightarrow> json option" "string option" time DeliverEventRequest pg_ledger
  | LedgerAppend coordinator AppendReceiptRequest

fun ledger_step :: "typedlib \<Rightarrow> ledger_command \<Rightarrow> pg_ledger \<Rightarrow> pg_ledger" where
  \<comment> \<open>the last argument of three commands is the store their query saw, which may be any\<close>
  "ledger_step lib (LedgerReceipt now i seen) s = snd (pg_RecordReceipt (tl_pg lib) now i seen s)"
| "ledger_step lib (LedgerRetention i) s = snd (pg_UpdateReceiptRetention (tl_pg lib) i s)"
| "ledger_step lib (LedgerPrivacy now at i) s = snd (pg_PrivacyDeleteReceipt (tl_pg lib) now at i s)"
| "ledger_step lib (LedgerReconcile now i seen) s = snd (pg_RecordReconciliation (tl_pg lib) now i seen s)"
| "ledger_step lib (LedgerIndex now i) s = snd (pg_RecordEvidenceIndex (tl_pg lib) now i s)"
| "ledger_step lib (LedgerDeliver f peer now r seen) s =
     snd (Deliver \<lparr>vl_pg = tl_pg lib, vl_event = f\<rparr> peer now r seen s)"
| "ledger_step lib (LedgerAppend e r) s = snd (AppendReceipt (e\<lparr>co_lib := lib\<rparr>) r s)"

section \<open>What a command changes\<close>

text \<open>
  Every command is one of four writes. \<open>checked\<close> is what is known of a request for typed evidence when it
  reaches the store.
\<close>

inductive writes :: "typedlib \<Rightarrow> (receipt_kind \<Rightarrow> AppendReceiptRequest \<Rightarrow> bool) \<Rightarrow> pg_ledger \<Rightarrow> pg_ledger \<Rightarrow> bool"
  for lib checked where
  same: "lp_receipts s' = lp_receipts s \<Longrightarrow> lp_keys s' = lp_keys s \<Longrightarrow> writes lib checked s s'"
| receipt: "r_Type i \<notin> rk_Type ` set kinds \<Longrightarrow> recordReceipt (tl_pg lib) now i seen s = (res, s') \<Longrightarrow>
    writes lib checked s s'"
| mutation: "keeps_evidence mutate \<Longrightarrow> mutateReceipt (tl_pg lib) service key h rid mutate s = (res, s') \<Longrightarrow>
    writes lib checked s s'"
| typed: "k \<in> set kinds \<Longrightarrow> checked k r \<Longrightarrow> record_typed lib k now r auth s = (res, s') \<Longrightarrow> writes lib checked s s'"

inductive_cases writesE: "writes lib checked s s'"

lemma writes_refl [simp]: "writes lib checked s s"
  by (rule same) simp_all

lemma validated_type: "validateReceiptInput lib i = None \<Longrightarrow> r_Type i \<notin> rk_Type ` set kinds"
  by (auto simp: validateReceiptInput_def typed_owner_types_def kind_types type_defs split: if_splits)

lemma domain_facts_type:
  assumes "domain_facts lib ev = Some f"
  shows "ee_EventType ev \<in> {''package.uploaded.v1'', ''build.artifact_confirmed.v1'', ''build.failed.v1'',
    ''capability.version_registered.v1'', ''serve.agent_readiness_observed.v1'', ''catalog.policy_changed.v1'',
    ''serve.access_observed.v1'', ''fabric.resources_observed.v1'', ''wallet.operation_observed.v1''}"
  using assms unfolding domain_facts_def Let_def by (auto split: if_splits)

lemma domain_receiptE:
  assumes "domain_receipt lib event = Some i"
  obtains ev f raw where "event = Some ev" "envelope_ok ev" "scope_ok ev"
    "domain_facts (pl_go (vl_pg lib)) ev = Some f" "vl_event lib ev = Some raw" "i = domain_input ev f raw"
    "\<not> containsForbiddenReceiptKey i"
  using assms unfolding domain_receipt_def Let_def by (auto split: option.splits if_splits)

lemma domain_type:
  assumes "domain_receipt lib event = Some i"
  shows "r_Type i \<notin> rk_Type ` set kinds"
proof -
  from assms obtain ev f raw where "domain_facts (pl_go (vl_pg lib)) ev = Some f" "i = domain_input ev f raw"
    by (rule domain_receiptE)
  from domain_facts_type [OF this(1)] this(2) show ?thesis
    by (auto simp: domain_input_def kind_types type_defs)
qed

lemma Deliver_writes: "writes lib checked s (snd (Deliver \<lparr>vl_pg = tl_pg lib, vl_event = f\<rparr> peer now r seen s))"
proof -
  let ?l = "\<lparr>vl_pg = tl_pg lib, vl_event = f\<rparr>"
  obtain res s' where run: "RecordDomainEvent ?l now (dr_Event r) seen s = (res, s')" by fastforce
  have w: "writes lib checked s s'"
  proof (cases "domain_receipt ?l (dr_Event r)")
    case None
    with run show ?thesis by (simp add: RecordDomainEvent_def)
  next
    case (Some i)
    with run receipt [OF domain_type [OF Some], of lib now seen s res s'] show ?thesis by (simp add: RecordDomainEvent_def)
  qed
  then have "snd (Deliver ?l peer now r seen s) \<in> {s, s'}"
    unfolding Deliver_def run
    by (auto split: option.split sum.split pg_error.split ledger_error.split)
  with w show ?thesis by auto
qed

definition quote_checked :: "coordinator \<Rightarrow> receipt_kind \<Rightarrow> AppendReceiptRequest \<Rightarrow> bool" where
  \<comment> \<open>the funded kinds were compared with the quote the Catalog holds\<close>
  "quote_checked e k r \<longleftrightarrow> (k \<noteq> provider_action \<longrightarrow> readAcceptedQuote e r (k = wallet_action) = None)"

lemma append_typed_writes:
  "k \<in> set kinds \<Longrightarrow> (readback () = None \<Longrightarrow> checked k r) \<Longrightarrow>
     writes (co_lib e) checked s (snd (append_typed e k readback r s))"
  unfolding append_typed_def by (auto split: option.split prod.split sum.split intro: typed)

lemma kinds_distinct [simp]:
  "local_no_charge \<noteq> wallet_action" "local_no_charge \<noteq> provider_action" "wallet_action \<noteq> provider_action"
  by (metis kind_simps(1-3) typed_types_distinct)+

lemma kinds_members [simp]: "local_no_charge \<in> set kinds" "wallet_action \<in> set kinds" "provider_action \<in> set kinds"
  by (simp_all add: kinds_def)

lemma append_writes:
  fixes e r
  defines "checked \<equiv> \<lambda>k r'. r' = r \<and> quote_checked e k r"
  shows "writes (co_lib e) checked s (snd (appendWalletActionReceipt e r s))"
    and "writes (co_lib e) checked s (snd (appendLocalNoChargeReceipt e r s))"
    and "writes (co_lib e) checked s (snd (appendProviderActionReceipt e r s))"
  unfolding appendWalletActionReceipt_def appendLocalNoChargeReceipt_def appendProviderActionReceipt_def
  by (rule append_typed_writes; simp add: checked_def quote_checked_def split: option.splits if_splits)+

lemma AppendReceipt_writes: "writes (co_lib e) (\<lambda>k r'. r' = r \<and> quote_checked e k r) s (snd (AppendReceipt e r s))"
  unfolding AppendReceipt_def Let_def using append_writes [of e r s] by (simp split: option.split)

definition command_checked :: "typedlib \<Rightarrow> ledger_command \<Rightarrow> receipt_kind \<Rightarrow> AppendReceiptRequest \<Rightarrow> bool" where
  "command_checked lib c k r =
     (case c of LedgerAppend e r' \<Rightarrow> r = r' \<and> quote_checked (e\<lparr>co_lib := lib\<rparr>) k r' | _ \<Rightarrow> False)"

lemma ledger_step_writes: "writes lib (command_checked lib c) s (ledger_step lib c s)"
proof (cases c)
  case (LedgerReceipt now i seen)
  then show ?thesis
    by (auto simp: pg_RecordReceipt_def split: option.split
        intro: receipt [OF validated_type surjective_pairing])
next
  case (LedgerReconcile now i seen)
  then show ?thesis
    by (auto simp: pg_RecordReconciliation_def Let_def split: option.split sum.split intro!: same)
next
  case (LedgerIndex now i)
  then show ?thesis
    by (auto simp: pg_RecordEvidenceIndex_def Let_def split: option.split sum.split intro!: same)
next
  case (LedgerAppend e r)
  moreover have "command_checked lib (LedgerAppend e r) = (\<lambda>k r'. r' = r \<and> quote_checked (e\<lparr>co_lib := lib\<rparr>) k r)"
    by (intro ext) (auto simp: command_checked_def)
  ultimately show ?thesis using AppendReceipt_writes [of "e\<lparr>co_lib := lib\<rparr>" r s] by simp
qed (auto simp: pg_UpdateReceiptRetention_def pg_PrivacyDeleteReceipt_def Deliver_writes
    intro: mutation [OF _ surjective_pairing])

section \<open>What every command keeps\<close>

lemma recordReceipt_ledger_ok:
  assumes type: "r_Type i \<notin> rk_Type ` set kinds" and ok: "ledger_ok lib s"
    and run: "recordReceipt (tl_pg lib) now i seen s = (res, s')"
  shows "ledger_ok lib s'"
proof -
  have "typed_rows_ok lib s' \<and> keys_ok s'"
    using run
  proof (cases rule: recordReceipt_cases)
    case (inserted r payload)
    with ok type show ?thesis
      by (auto simp: ledger_ok_def typed_rows_ok_def keys_ok_def new_evidence_row_def)
  qed (use ok in \<open>auto simp: ledger_ok_def\<close>)
  with ok recordReceipt_ok [OF _ run] show ?thesis by (simp add: ledger_ok_def)
qed

lemma mutateReceipt_ledger_ok:
  assumes m: "keeps_evidence mutate" and ok: "ledger_ok lib s"
    and run: "mutateReceipt (tl_pg lib) service key h rid mutate s = (res, s')"
  shows "ledger_ok lib s'"
proof -
  from mutateReceipt_rewriting [OF ok m run] obtain f where
    "lp_receipts s' = map f (lp_receipts s)" "rewriting lib s f" .
  then have "typed_rows_ok lib s'" using ok by (auto simp: ledger_ok_def intro: typed_rows_ok_rewritten)
  moreover have "keys_ok s'"
    using run
  proof (cases rule: mutateReceipt_cases)
    case updated
    then show ?thesis using ok by (auto simp: ledger_ok_def keys_ok_def)
  qed (use ok in \<open>auto simp: ledger_ok_def\<close>)
  ultimately show ?thesis using ok mutateReceipt_ok [OF _ run] by (simp add: ledger_ok_def)
qed

lemma ledger_ok_cong:
  "lp_receipts s' = lp_receipts s \<Longrightarrow> lp_keys s' = lp_keys s \<Longrightarrow> ledger_ok lib s' = ledger_ok lib s"
  by (simp add: ledger_ok_def pg_ok_def typed_rows_ok_def keys_ok_def)

lemma writes_ok:
  assumes "writes lib checked s s'" and "ledger_ok lib s"
  shows "ledger_ok lib s'"
  using assms(1)
proof cases
  case same
  with assms(2) ledger_ok_cong [OF same] show ?thesis by simp
next
  case receipt
  from recordReceipt_ledger_ok [OF receipt(1) assms(2) receipt(2)] show ?thesis .
next
  case mutation
  from mutateReceipt_ledger_ok [OF mutation(1) assms(2) mutation(2)] show ?thesis .
next
  case typed
  from record_typed_ok [OF typed(1) assms(2) typed(3)] show ?thesis .
qed

text \<open>How the receipts move: old rows are rewritten, and a new row of a typed kind is a checked request.\<close>

definition appended_ok ::
  "typedlib \<Rightarrow> (receipt_kind \<Rightarrow> AppendReceiptRequest \<Rightarrow> bool) \<Rightarrow> evidence_row \<Rightarrow> bool" where
  "appended_ok lib checked row \<longleftrightarrow> (\<forall>k \<in> set kinds. er_ReceiptType row = rk_Type k \<longrightarrow>
     (\<exists>r ev now rec. checked k r \<and> rk_Validate k r = None \<and> rk_Evidence k r = Some ev \<and>
        decode_typed lib k (er_PayloadJSON row) = Inr rec \<and> yr_Evidence rec = stamp (er_ID row) now ev))"

definition moves ::
  "typedlib \<Rightarrow> (receipt_kind \<Rightarrow> AppendReceiptRequest \<Rightarrow> bool) \<Rightarrow> pg_ledger \<Rightarrow> pg_ledger \<Rightarrow> bool" where
  "moves lib checked s s' \<longleftrightarrow> (\<exists>f new. lp_receipts s' = map f (lp_receipts s) @ new \<and> rewriting lib s f \<and>
     list_all (appended_ok lib checked) new)"

lemma moves_same: "lp_receipts s' = lp_receipts s \<Longrightarrow> moves lib checked s s'"
  unfolding moves_def by (intro exI [of _ "\<lambda>x. x"] exI [of _ "[]"]) simp

lemma moves_append: "lp_receipts s' = lp_receipts s @ [row] \<Longrightarrow> appended_ok lib checked row \<Longrightarrow> moves lib checked s s'"
  unfolding moves_def by (intro exI [of _ "\<lambda>x. x"] exI [of _ "[row]"]) simp

lemma moves_evolves: "moves lib checked s s' \<Longrightarrow> evolves lib s s'"
  by (auto simp: moves_def evolves_def)

lemma recordReceipt_moves:
  assumes "r_Type i \<notin> rk_Type ` set kinds" and "recordReceipt (tl_pg lib) now i seen s = (res, s')"
  shows "moves lib checked s s'"
  using assms(2)
proof (cases rule: recordReceipt_cases)
  case (inserted r payload)
  then show ?thesis using assms(1) by (auto simp: appended_ok_def new_evidence_row_def intro!: moves_append)
qed (simp_all add: moves_same)

lemma record_typed_moves:
  assumes k: "k \<in> set kinds" and r: "checked k r" and ok: "ledger_ok lib s"
    and "record_typed lib k now r auth s = (res, s')"
  shows "moves lib checked s s'"
  using assms(4)
proof (cases rule: record_typed_cases)
  case (inserted ev call rid encoded payload row)
  have lib: "ledger_lib_ok lib" using ok by (simp add: ledger_ok_def)
  have valid: "rk_Validate k r = None" using inserted(1) by (simp add: typed_admissible_def)
  note dec = decode_written [OF lib inserted(8) inserted(10) [unfolded inserted(9)], folded inserted(9)]
  have "appended_ok lib checked row"
    unfolding appended_ok_def
  proof (intro ballI impI)
    fix k' assume "k' \<in> set kinds" "er_ReceiptType row = rk_Type k'"
    then have "k' = k" using kind_type_inj [OF k] by (simp add: inserted(11))
    then show "\<exists>r ev now rec. checked k' r \<and> rk_Validate k' r = None \<and> rk_Evidence k' r = Some ev \<and>
        decode_typed lib k' (er_PayloadJSON row) = Inr rec \<and> yr_Evidence rec = stamp (er_ID row) now ev"
      using r valid inserted(3) dec
      by (intro exI [of _ r] exI [of _ ev] exI [of _ now] exI) (auto simp: inserted(11))
  qed
  then show ?thesis by (intro moves_append [of _ _ row]) (simp_all add: inserted(13))
qed (simp_all add: moves_same)

lemma writes_moves:
  assumes "writes lib checked s s'" and "ledger_ok lib s"
  shows "moves lib checked s s'"
  using assms(1)
proof cases
  case same
  then show ?thesis by (simp add: moves_same)
next
  case receipt
  from recordReceipt_moves [OF receipt] show ?thesis .
next
  case mutation
  from mutateReceipt_rewriting [OF assms(2) mutation] obtain f where
    "lp_receipts s' = map f (lp_receipts s)" "rewriting lib s f" .
  then show ?thesis unfolding moves_def by (intro exI [of _ f] exI [of _ "[]"]) simp
next
  case typed
  then show ?thesis by (intro record_typed_moves [where checked = checked, OF _ _ assms(2)])
qed

lemma ledger_step_moves: "ledger_ok lib s \<Longrightarrow> moves lib (command_checked lib c) s (ledger_step lib c s)"
  by (rule writes_moves [OF ledger_step_writes])

lemma evolves_bound:
  assumes "evolves lib s s'" and "receipt_bound s k = Some x"
  shows "receipt_bound s' k = Some x"
proof -
  from assms(1) obtain f new where f: "lp_receipts s' = map f (lp_receipts s) @ new" "rewriting lib s f"
    by (auto simp: evolves_def)
  from assms(2) obtain row where row: "find_receipt_key s k = Some row" "x = (er_RequestHash row, er_ID row)"
    by (auto simp: receipt_bound_def)
  have "row \<in> set (lp_receipts s)" using find_receipt_keyD [OF row(1)] by simp
  moreover have "find_receipt_key s' k = Some (f row)"
    using row(1) f(2)
    by (simp add: find_receipt_key_def f(1) find_append find_map_same rewriting_def row_identity_def)
  ultimately show ?thesis using f(2) by (auto simp: receipt_bound_def row(2) rewriting_def row_identity_def)
qed

lemma ledger_step_ok: "ledger_ok lib s \<Longrightarrow> ledger_ok lib (ledger_step lib c s)"
  by (rule writes_ok [OF ledger_step_writes])

interpretation typed_store: final_store "ledger_step lib" "typed_view lib" "\<lambda>_. True" "ledger_ok lib" for lib
  by unfold_locales (blast intro: ledger_step_ok evolves_view moves_evolves ledger_step_moves)+

interpretation bound_store: final_store "ledger_step lib" receipt_bound "\<lambda>_. True" "ledger_ok lib" for lib
  by unfold_locales (blast intro: ledger_step_ok evolves_bound moves_evolves ledger_step_moves)+

section \<open>Recording as one step\<close>

definition record_now :: "typedlib \<Rightarrow> time \<times> ReceiptInput \<Rightarrow> pg_ledger \<Rightarrow> (pg_error + Receipt) \<times> pg_ledger" where
  \<comment> \<open>recording with nothing between the query and the insert\<close>
  "record_now lib x s = pg_RecordReceipt (tl_pg lib) (fst x) (snd x) s s"

lemma replay_found:
  assumes "ledger_ok lib s" and "find_receipt_key s k = Some row"
  shows "if er_RequestHash row = h
         then \<exists>r. replay_receipt (tl_pg lib) h row = Inr r \<and> rc_ReceiptID r = er_ID row
         else replay_receipt (tl_pg lib) h row = Inl (PgLedger ErrLedgerIdempotencyConflict)"
proof -
  have "payload_ok (tl_pg lib)" "pg_ok (tl_pg lib) s" using assms(1) by (simp_all add: ledger_ok_def ledger_lib_ok_def)
  from pg_ok_decodes [OF this] find_receipt_keyD [OF assms(2)]
  obtain x where "receiptFromEnt (tl_pg lib) row = Inr x" "rc_ReceiptID x = er_ID row" by blast
  then show ?thesis by (simp add: replay_receipt_def)
qed

lemma record_found:
  assumes "find_receipt_key s (r_IdempotencyKey i) = Some row"
  shows "recordReceipt lib now i s s = (replay_receipt lib (request_hash lib i) row, s)"
  using assms by (simp add: recordReceipt_def request_hash_def Let_def)

lemma record_now_records:
  assumes ok: "ledger_ok lib s" and run: "recordReceipt (tl_pg lib) now i s s = (Inr r, s')"
  shows "receipt_bound s' (r_IdempotencyKey i) = Some (request_hash (tl_pg lib) i, rc_ReceiptID r)"
  using run
proof (cases rule: recordReceipt_cases)
  case (replay row)
  then have "find_receipt_key s (r_IdempotencyKey i) = Some row" by blast
  with replay_found [OF ok this, of "request_hash (tl_pg lib) i"] replay(1,2) show ?thesis
    by (auto simp: receipt_bound_def split: if_splits)
next
  case (inserted r' payload)
  then have "find_receipt_key s (r_IdempotencyKey i) = None"
    by (auto simp: find_receipt_key_def find_None_iff evidence_clash_def)
  with inserted show ?thesis by (simp add: receipt_bound_def find_receipt_key_append)
qed simp

lemma bound_found:
  "receipt_bound s k = Some (h, q) \<longleftrightarrow> (\<exists>row. find_receipt_key s k = Some row \<and> h = er_RequestHash row \<and> q = er_ID row)"
  by (auto simp: receipt_bound_def)

interpretation pg_receipts: idempotent_recorder "record_now lib" "ledger_step lib" "\<lambda>x. r_IdempotencyKey (snd x)"
  "\<lambda>x. request_hash (tl_pg lib) (snd x)" "\<lambda>x. validateReceiptInput (tl_go lib) (snd x) = None"
  receipt_bound rc_ReceiptID "PgLedger ErrLedgerIdempotencyConflict" "ledger_ok lib" for lib
proof
  fix s and i :: "time \<times> ReceiptInput" assume "ledger_ok lib s"
  with ledger_step_writes [of lib "LedgerReceipt (fst i) (snd i) s" s]
  show "ledger_ok lib (snd (record_now lib i s))" by (auto simp: record_now_def dest: writes_ok)
next
  fix s c assume "ledger_ok lib s"
  then show "ledger_ok lib (ledger_step lib c s)" by (rule typed_store.inv_step)
next
  fix s i r s' assume "ledger_ok lib s" and "record_now lib i s = (Inr r, s')"
  then show "validateReceiptInput (tl_go lib) (snd i) = None \<and>
    receipt_bound s' (r_IdempotencyKey (snd i)) = Some (request_hash (tl_pg lib) (snd i), rc_ReceiptID r)"
    by (auto simp: record_now_def pg_RecordReceipt_def intro: record_now_records split: option.splits)
next
  fix s q and i :: "time \<times> ReceiptInput" assume ok: "ledger_ok lib s"
    and "receipt_bound s (r_IdempotencyKey (snd i)) = Some (request_hash (tl_pg lib) (snd i), q)"
    and valid: "validateReceiptInput (tl_go lib) (snd i) = None"
  then obtain row where row: "find_receipt_key s (r_IdempotencyKey (snd i)) = Some row"
    "er_RequestHash row = request_hash (tl_pg lib) (snd i)" "q = er_ID row" by (auto simp: bound_found)
  from replay_found [OF ok row(1), of "request_hash (tl_pg lib) (snd i)"] row valid
  show "\<exists>r. record_now lib i s = (Inr r, s) \<and> rc_ReceiptID r = q"
    by (auto simp: record_now_def pg_RecordReceipt_def record_found [OF row(1)])
next
  fix s h q and i :: "time \<times> ReceiptInput" assume ok: "ledger_ok lib s" and bound: "receipt_bound s (r_IdempotencyKey (snd i)) = Some (h, q)"
    and h: "h \<noteq> request_hash (tl_pg lib) (snd i)" and valid: "validateReceiptInput (tl_go lib) (snd i) = None"
  from bound obtain row where row: "find_receipt_key s (r_IdempotencyKey (snd i)) = Some row" "h = er_RequestHash row"
    by (auto simp: bound_found)
  from replay_found [OF ok row(1), of "request_hash (tl_pg lib) (snd i)"] row h valid
  show "record_now lib i s = (Inl (PgLedger ErrLedgerIdempotencyConflict), s)"
    by (simp add: record_now_def pg_RecordReceipt_def record_found [OF row(1)])
next
  fix s k x c assume "ledger_ok lib s" and "receipt_bound s k = Some x"
  then show "receipt_bound (ledger_step lib c s) k = Some x"
    by (rule bound_store.final_step) simp
qed

end
