(* ===== verification/Ledger_Example.thy ===== *)
theory Ledger_Example
  imports Ledger_Machine Ledger_Admission Catalog_Example
begin

text \<open>
  A concrete Ledger beside the Catalog of \<open>Catalog_Example\<close>: encodings for the values of one history,
  the charge of the accepted quote, and the coordinator that reads it back.
\<close>

section \<open>Encodings of finitely many values\<close>

fun index_of :: "'a \<Rightarrow> 'a list \<Rightarrow> nat option" where
  "index_of x [] = None"
| "index_of x (y # ys) = (if x = y then Some 0 else map_option Suc (index_of x ys))"

lemma index_of_nth: "index_of x ys = Some n \<Longrightarrow> n < length ys \<and> ys ! n = x"
  by (induction ys arbitrary: n) (auto split: if_splits)

definition unary :: "nat \<Rightarrow> string" where
  "unary n = replicate n CHR ''1''"

definition listed_payloads :: "(ReceiptInput \<times> ReceiptRetention) list \<Rightarrow> (ReceiptInput \<times> ReceiptRetention) codec" where
  "listed_payloads xs =
     \<lparr>enc = (\<lambda>x. case index_of x xs of None \<Rightarrow> [] | Some n \<Rightarrow> unary (Suc n)),
      dec = (\<lambda>t. if t = [] \<or> length xs < length t then None
                 else case xs ! (length t - 1) of (i, r) \<Rightarrow> Some (canon_input i, r))\<rparr>"

definition listed_json :: "'a list \<Rightarrow> 'a jcodec" where
  "listed_json xs =
     \<lparr>jenc = (\<lambda>x. map_option (\<lambda>n. JStr (unary n)) (index_of x xs)),
      jdec = (\<lambda>j. case j of JStr t \<Rightarrow> if length t < length xs then Some (xs ! length t) else None | _ \<Rightarrow> None)\<rparr>"

lemma listed_payloads_ok: "pl_payload lib = listed_payloads xs \<Longrightarrow> payload_ok lib"
  by (auto simp: payload_ok_def listed_payloads_def unary_def split: option.splits dest!: index_of_nth)

lemma listed_json_ok: "jcodec_ok (listed_json xs)"
  by (auto simp: jcodec_ok_def listed_json_def unary_def dest!: index_of_nth)

section \<open>The charge of an accepted quote\<close>

definition ex_accepted_quote :: QuoteAcceptance where
  "ex_accepted_quote =
     \<lparr>qa_Quote = ex_quote\<lparr>qu_Status := ''ACCEPTED''\<rparr>, qa_ObligationId = ''op_1'', qa_AcceptanceId = ''accept_quote_p'',
      qa_SnapshotDigest = ''sha256:'' @ replicate 64 CHR ''0'', qa_ResourcePlan = Some ex_plan, qa_WorkspaceId = ''ws_1''\<rparr>"

definition ex_commit :: OwnerCommitEvidence where
  "ex_commit =
     \<lparr>oc_Owner = ''WORKSPACE'', oc_OperationId = ''op_1'', oc_ResourceId = ''ws_1'',
      oc_AcceptedInputDigest = ''sha256:'' @ replicate 64 CHR ''0'', oc_CommittedVersion = 1,
      oc_AcceptedAt = Some (timestamp 20), oc_AuthorizationContextId = ''az_1'', oc_ActorId = ''u_1'',
      oc_Scope = Some (TenantScope ''t_1''), oc_AcceptedAction = ''CREATEWORKSPACE'',
      oc_AuthorizationResource = None, oc_ContinuationResources = []\<rparr>"

definition ex_wallet :: WalletOperation where
  "ex_wallet =
     \<lparr>wo_Id = ''wop_1'', wo_WorkspaceId = Some ''ws_1'', wo_Kind = ''CHARGE'', wo_AmountUsdMicros = 5700000,
      wo_Status = ''CONFIRMED'', wo_ExternalReference = None, wo_ReceiptId = Some ''rcpt_1'', wo_ErrorCode = None,
      wo_CreatedAt = Some (timestamp 21), wo_UpdatedAt = None, wo_Purpose = None, wo_PlanChangeId = None,
      wo_OriginalChargeOperationId = None, wo_CoverageStart = None, wo_CoverageEnd = None,
      wo_CoverageStartMilliseconds = None, wo_CoverageEndMilliseconds = None\<rparr>"

definition ex_api_receipt :: ApiReceipt where
  "ex_api_receipt =
     \<lparr>ap_Id = [], ap_Kind = ''WALLET_ACTION'', ap_Owner = ''WORKSPACE'', ap_SourceSha = None,
      ap_ArtifactDigest = None, ap_OperationId = Some ''op_1'', ap_WorkflowRunId = None,
      ap_Outcome = ''CONFIRMED'', ap_EvidenceSummary = ''charged'', ap_CreatedAt = None\<rparr>"

definition ex_append :: AppendReceiptRequest where
  "ex_append =
     \<lparr>an_Context = Some sample_call, an_Receipt = Some ex_api_receipt,
      an_EvidenceDigest = ''sha256:'' @ replicate 64 CHR ''0'', an_OwnerEvidenceReference = ''op_1'',
      an_QuoteAcceptance = Some ex_accepted_quote, an_OwnerCommitEvidence = Some ex_commit,
      an_WalletOperation = Some ex_wallet\<rparr>"

definition ex_evidence :: TypedEvidence where
  "ex_evidence =
     \<lparr>te_Receipt = ex_api_receipt, te_QuoteAcceptance = Some ex_accepted_quote, te_WalletOperation = Some ex_wallet,
      te_OwnerCommitEvidence = ex_commit, te_EvidenceDigest = ''sha256:'' @ replicate 64 CHR ''0''\<rparr>"

definition ex_stored_input :: ReceiptInput where
  "ex_stored_input = typed_input wallet_action ex_append sample_call (JStr (unary 1))"

definition ex_redacted :: "ReceiptInput \<times> ReceiptRetention" where
  \<comment> \<open>the document after a privacy request at the instant 40\<close>
  "ex_redacted = (let r = redact 40 ''gdpr'' \<lparr>rc_Input = canon_input ex_stored_input, rc_ReceiptID = ''rcpt_1'',
       rc_CreatedAt = 30, rc_Retention = no_retention, rc_Replayed = False\<rparr> in (rc_Input r, rc_Retention r))"

definition ex_policy :: CatalogPolicyChangedEvent where
  "ex_policy = \<lparr>ce_PolicyVersionId = ''price_1'', ce_PolicyKind = ''price'', ce_ValidFrom = Some (timestamp 7)\<rparr>"

definition ex_event :: EventEnvelope where
  "ex_event =
     \<lparr>ee_EventId = ''evt_1'', ee_EventType = ''catalog.policy_changed.v1'', ee_SchemaVersion = 1,
      ee_Owner = ''resource_catalog'', ee_TenantId = [], ee_AggregateId = ''price_1'', ee_AggregateVersion = 1,
      ee_OccurredAt = Some (timestamp 7), ee_RequestId = ''req_1'', ee_Scope = ''platform'',
      ee_Payload = CatalogPolicyChanged ex_policy\<rparr>"

definition ex_event_input :: ReceiptInput where
  "ex_event_input = domain_input ex_event
     \<lparr>ef_Job = [], ef_Digest = ''sha256:'' @ replicate 64 CHR ''0'', ef_Status = ''completed'', ef_WorkspaceID = []\<rparr>
     (JStr ''event'')"

definition ex_pg :: pglib where
  "ex_pg =
     \<lparr>pl_go = sample_clock_lib,
      pl_payload = listed_payloads [(sample_receipt\<lparr>r_IdempotencyKey := []\<rparr>, no_retention),
                                    (ex_stored_input, no_retention), ex_redacted,
                                    (ex_event_input\<lparr>r_IdempotencyKey := []\<rparr>, no_retention)],
      pl_result = \<lparr>enc = (\<lambda>r. ''result''), dec = (\<lambda>t. None)\<rparr>, pl_report = no_value,
      pl_pg_time = (\<lambda>t. t), pl_jsonb = (\<lambda>j. [])\<rparr>"

definition ex_typed :: typedlib where
  "ex_typed = \<lparr>tl_pg = ex_pg, tl_evidence = (\<lambda>t. listed_json [ex_evidence, stamp ''rcpt_1'' 30 ex_evidence])\<rparr>"

definition ex_coordinator :: coordinator where
  "ex_coordinator =
     \<lparr>co_lib = ex_typed, co_peer = Some ''workspace'', co_now = 30, co_auth = Some sample_authorizer,
      co_insert_now = 30, co_insert_auth = Some sample_authorizer, co_store_now = 30,
      co_catalog = Some (\<lambda>call qid. Inr ex_accepted_quote),
      co_workspace = Some (\<lambda>owner op res. Inr ex_commit), co_gateway = Some (\<lambda>call wid. Inr ex_wallet)\<rparr>"

lemma ex_typed_ok: "ledger_lib_ok ex_typed"
proof -
  have "payload_ok ex_pg" by (rule listed_payloads_ok) (simp add: ex_pg_def)
  moreover have "lib_sha256 (pl_go ex_pg) b \<noteq> []" for b by (simp add: ex_pg_def sample_clock_lib_def)
  ultimately show ?thesis by (simp add: ledger_lib_ok_def ex_typed_def listed_json_ok)
qed

lemma empty_pg_ok [simp]: "ledger_ok lib empty_pg = ledger_lib_ok lib"
  by (simp add: ledger_ok_def pg_ok_def typed_rows_ok_def keys_ok_def empty_pg_def)

lemma ex_checks:
  "ValidateWalletActionReceiptInput ex_append = None"
  "ValidateCallContext (Some ''workspace'') 30 (Some sample_call) = None"
  "authorizeReceipt (Some ''workspace'') 30 (Some sample_authorizer) (Some sample_call) ''APPENDRECEIPT'' ''ws_1''
     ''t_1'' ''u_1'' = None"
  by code_simp+

lemma ex_evidence_codec:
  "jenc (tl_evidence ex_typed t) ex_evidence = Some (JStr [])"
  "jenc (tl_evidence ex_typed t) (stamp ''rcpt_1'' 30 ex_evidence) = Some (JStr (unary 1))"
proof -
  have "ap_Id (te_Receipt (stamp ''rcpt_1'' 30 ex_evidence)) \<noteq> ap_Id (te_Receipt ex_evidence)"
    by (simp add: stamp_def ex_evidence_def ex_api_receipt_def)
  then have "stamp ''rcpt_1'' 30 ex_evidence \<noteq> ex_evidence" by metis
  then show "jenc (tl_evidence ex_typed t) ex_evidence = Some (JStr [])"
    "jenc (tl_evidence ex_typed t) (stamp ''rcpt_1'' 30 ex_evidence) = Some (JStr (unary 1))"
    by (simp_all add: ex_typed_def listed_json_def unary_def)
qed

lemma ex_request:
  "rk_Evidence wallet_action ex_append = Some ex_evidence" "rk_Validate wallet_action ex_append = None"
  "rk_WorkspaceID wallet_action ex_append = ''ws_1''"
  "rk_ReceiptID wallet_action ex_append h = ''rcpt_1''"
  "an_Context ex_append = Some sample_call" "an_OwnerCommitEvidence ex_append = Some ex_commit"
  using ex_checks(1)
  by (simp_all add: wallet_action_def request_evidence_def quote_workspace_def ex_append_def ex_evidence_def
      ex_wallet_def ex_accepted_quote_def)

lemma ex_admissible: "typed_admissible ex_typed wallet_action ex_append"
  by (simp add: typed_admissible_def ex_request ex_evidence_codec)

lemma ex_payload: "enc (pl_payload ex_pg) (ex_stored_input, no_retention) = unary 2"
proof -
  have "r_Type ex_stored_input \<noteq> r_Type (sample_receipt\<lparr>r_IdempotencyKey := []\<rparr>)"
    by (simp add: ex_stored_input_def typed_input_def WalletActionReceiptType_def sample_receipt_def)
  then have "ex_stored_input \<noteq> sample_receipt\<lparr>r_IdempotencyKey := []\<rparr>" by metis
  then show ?thesis by (simp add: ex_pg_def listed_payloads_def numeral_2_eq_2)
qed

definition ex_row :: evidence_row where
  "ex_row = typed_row ex_pg wallet_action 30 ex_stored_input ''rcpt_1'' (unary 2)
     (ref_key ex_typed wallet_action ex_append) (typed_hash ex_typed wallet_action ex_append)"

lemma ex_store: "tl_pg ex_typed = ex_pg"
  by (simp add: ex_typed_def)

lemma ex_decode: "decode_typed ex_typed wallet_action (unary 2) =
    Inr \<lparr>yr_Evidence = stamp ''rcpt_1'' 30 ex_evidence, yr_TenantID = ''t_1'', yr_ActorID = ''u_1'', yr_WorkspaceID = ''ws_1''\<rparr>"
  using decode_written [OF ex_typed_ok ex_evidence_codec(2), of wallet_action ex_append sample_call no_retention,
      unfolded ex_store ex_stored_input_def [symmetric] ex_payload ex_request]
  by (simp add: unary_def sample_call_def call_tenant_def numeral_2_eq_2)

lemma ex_recorded:
  obtains s where "record_typed ex_typed wallet_action 30 ex_append None empty_pg =
      (Inr \<lparr>yr_Evidence = stamp ''rcpt_1'' 30 ex_evidence, yr_TenantID = ''t_1'', yr_ActorID = ''u_1'',
            yr_WorkspaceID = ''ws_1''\<rparr>, s)" "lp_receipts s = [ex_row]"
    "map ky_ID (lp_keys s) = [call_key ex_typed wallet_action ex_append]"
proof -
  let ?s = "insert_call_key wallet_action (call_hash (tl_go ex_typed) ex_append) (typed_hash ex_typed wallet_action ex_append)
      (ref_key ex_typed wallet_action ex_append) (empty_pg\<lparr>lp_receipts := [ex_row]\<rparr>)"
  have empty: "call_clash ex_typed wallet_action ex_append empty_pg = False" "find_typed empty_pg wallet_action x = None" for x
    by (simp_all add: call_clash_def call_row_def empty_pg_def find_typed_def)
  have i: "insert_typed ex_typed wallet_action 30 ex_append sample_call ex_evidence h empty_pg =
    Inr (unary 2, empty_pg\<lparr>lp_receipts := [typed_row ex_pg wallet_action 30 ex_stored_input ''rcpt_1'' (unary 2)
       (ref_key ex_typed wallet_action ex_append) h]\<rparr>)" for h
    unfolding insert_typed_def Let_def stamp_def [symmetric] ex_request ex_evidence_codec option.case ex_store
      ex_stored_input_def [symmetric] ex_payload
    by (simp add: unary_def sql_insert_def empty_pg_def numeral_2_eq_2)
  have "record_typed ex_typed wallet_action 30 ex_append None empty_pg =
      (Inr \<lparr>yr_Evidence = stamp ''rcpt_1'' 30 ex_evidence, yr_TenantID = ''t_1'', yr_ActorID = ''u_1'',
            yr_WorkspaceID = ''ws_1''\<rparr>, ?s)"
    unfolding record_typed_admissible [OF ex_admissible ex_request(1,5)] empty option.case i
    by (simp add: ex_row_def ex_store ex_decode)
  then show ?thesis
    by (intro that [of ?s]) (simp_all add: insert_call_key_def Let_def empty_pg_def call_key_def)
qed

lemma ex_charge_with:
  assumes "g sample_call ''quote_p'' = Inr ex_accepted_quote"
  shows "AppendReceipt (ex_coordinator\<lparr>co_catalog := Some g\<rparr>) ex_append empty_pg =
      (Inr (ex_api_receipt\<lparr>ap_Id := ''rcpt_1'', ap_CreatedAt := Some (timestamp 30)\<rparr>),
       snd (record_typed ex_typed wallet_action 30 ex_append None empty_pg))"
proof -
  let ?e = "ex_coordinator\<lparr>co_catalog := Some g\<rparr>"
  obtain s where s: "record_typed ex_typed wallet_action 30 ex_append None empty_pg =
      (Inr \<lparr>yr_Evidence = stamp ''rcpt_1'' 30 ex_evidence, yr_TenantID = ''t_1'', yr_ActorID = ''u_1'',
            yr_WorkspaceID = ''ws_1''\<rparr>, s)" by (rule ex_recorded)
  have e: "co_peer ?e = Some ''workspace''" "co_now ?e = 30" "co_insert_now ?e = 30"
    "co_auth ?e = Some sample_authorizer" "co_insert_auth ?e = Some sample_authorizer"
    "co_lib ?e = ex_typed" "co_store_now ?e = 30" "oc_ActorId ex_commit = ''u_1''"
    "scope_tenant (oc_Scope ex_commit) = ''t_1''" "fresh_call sample_call = sample_call"
    by (simp_all add: ex_coordinator_def ex_commit_def scope_tenant_def fresh_call_def sample_call_def)
  have q: "qu_Id (qa_Quote ex_accepted_quote) = ''quote_p''" by (simp add: ex_accepted_quote_def ex_quote_def)
  have "ap_Kind (the (an_Receipt ex_append)) = ''WALLET_ACTION''" "an_Receipt ex_append \<noteq> None"
    by (simp_all add: ex_append_def ex_api_receipt_def)
  then have "AppendReceipt ?e ex_append empty_pg = appendWalletActionReceipt ?e ex_append empty_pg"
    by (auto simp: AppendReceipt_def e ex_request(5) ex_checks(2))
  moreover have "readAcceptedQuote ?e ex_append True = None"
    using assms by (simp add: readAcceptedQuote_def ex_append_def q e(10))
       (simp add: plan_member_def ex_accepted_quote_def ex_plan_def)
  moreover have "readWorkspaceCommit ?e ex_append = None" "readGatewayCharge ?e ex_append = None"
    "co_workspace ?e \<noteq> None" "co_gateway ?e \<noteq> None"
    by (simp_all add: readWorkspaceCommit_def readGatewayCharge_def ex_coordinator_def ex_append_def)
  ultimately show ?thesis
    by (simp add: appendWalletActionReceipt_def append_typed_def ex_request e ex_checks(3) s)
       (simp add: stamp_def ex_evidence_def)
qed

definition ex_charged :: pg_ledger where
  "ex_charged = snd (record_typed ex_typed wallet_action 30 ex_append None empty_pg)"

lemma ex_charge:
  shows "AppendReceipt ex_coordinator ex_append empty_pg =
    (Inr (ex_api_receipt\<lparr>ap_Id := ''rcpt_1'', ap_CreatedAt := Some (timestamp 30)\<rparr>), ex_charged)"
    and "lp_receipts ex_charged = [ex_row]" and "map ky_ID (lp_keys ex_charged) = [call_key ex_typed wallet_action ex_append]"
proof -
  have "ex_coordinator\<lparr>co_catalog := Some (\<lambda>call qid. Inr ex_accepted_quote)\<rparr> = ex_coordinator"
    by (simp add: ex_coordinator_def)
  with ex_charge_with [of "\<lambda>call qid. Inr ex_accepted_quote"]
  show "AppendReceipt ex_coordinator ex_append empty_pg =
      (Inr (ex_api_receipt\<lparr>ap_Id := ''rcpt_1'', ap_CreatedAt := Some (timestamp 30)\<rparr>), ex_charged)"
    by (simp add: ex_charged_def)
  show "lp_receipts ex_charged = [ex_row]" "map ky_ID (lp_keys ex_charged) = [call_key ex_typed wallet_action ex_append]"
    unfolding ex_charged_def by (rule ex_recorded, simp)+
qed

section \<open>A policy event\<close>

definition ex_inbox :: eventlib where
  "ex_inbox = \<lparr>vl_pg = tl_pg ex_typed, vl_event = (\<lambda>ev. Some (JStr ''event''))\<rparr>"

lemma ex_domain: "domain_receipt ex_inbox (Some ex_event) = Some ex_event_input"
proof -
  define facts where "facts = \<lparr>ef_Job = [], ef_Digest = ''sha256:'' @ replicate 64 CHR ''0'', ef_Status = ''completed'',
    ef_WorkspaceID = []\<rparr>"
  have "domain_facts sample_clock_lib ex_event = Some facts" unfolding facts_def by code_simp
  moreover have "envelope_ok ex_event" "scope_ok ex_event" "\<not> containsForbiddenReceiptKey ex_event_input" by code_simp+
  moreover have "ex_event_input = domain_input ex_event facts (JStr ''event'')" by (simp only: ex_event_input_def facts_def)
  ultimately show ?thesis
    by (simp add: domain_receipt_def ex_inbox_def ex_store ex_pg_def Let_def)
qed

lemma ex_event_payload: "enc (pl_payload ex_pg) (ex_event_input\<lparr>r_IdempotencyKey := []\<rparr>, no_retention) = unary 4"
proof -
  let ?i = "ex_event_input\<lparr>r_IdempotencyKey := []\<rparr>"
  have t: "r_Type ?i = ''catalog.policy_changed.v1''"
    by (simp add: ex_event_input_def domain_input_def ex_event_def)
  have "r_Type (sample_receipt\<lparr>r_IdempotencyKey := []\<rparr>) \<noteq> ''catalog.policy_changed.v1''"
    "r_Type ex_stored_input \<noteq> ''catalog.policy_changed.v1''" "r_Type (fst ex_redacted) \<noteq> ''catalog.policy_changed.v1''"
    by (simp_all add: sample_receipt_def ex_stored_input_def typed_input_def WalletActionReceiptType_def
        ex_redacted_def Let_def redact_def no_retention_def canon_input_def)
  with t have "?i \<noteq> sample_receipt\<lparr>r_IdempotencyKey := []\<rparr>" "?i \<noteq> ex_stored_input" "(?i, no_retention) \<noteq> ex_redacted"
    by (metis, metis, metis fst_conv)
  then show ?thesis by (simp add: ex_pg_def listed_payloads_def numeral_eq_Suc)
qed

definition ex_delivery :: DeliverEventRequest where
  "ex_delivery = \<lparr>dr_Event = Some ex_event, dr_AuthenticatedProducer = ''resource_catalog''\<rparr>"

definition ex_informed :: pg_ledger where
  "ex_informed = snd (Deliver ex_inbox (Some ''resource_catalog'') 9 ex_delivery empty_pg empty_pg)"

lemma ex_informed: "Deliver ex_inbox (Some ''resource_catalog'') 9 ex_delivery empty_pg empty_pg =
    (Inr \<lparr>ia_EventId = ''evt_1'', ia_Consumer = ''ledger'', ia_Committed = True, ia_Duplicate = False,
          ia_AppliedAggregateVersion = 1\<rparr>, ex_informed)"
proof -
  have key: "r_IdempotencyKey ex_event_input = ''domain:resource_catalog:evt_1''"
    by (simp add: ex_event_input_def domain_input_def domain_key_def ex_event_def)
  have "request_hash ex_pg ex_event_input \<noteq> []"
    using ex_typed_ok by (simp add: request_hash_def hashJSON_def ledger_lib_ok_def ex_store)
  then have "evidence_check (new_evidence_row ex_pg 9 ex_event_input (unary 4) (request_hash ex_pg ex_event_input))"
    by (simp add: evidence_check_def postgresID_def key)
  then have "RecordDomainEvent ex_inbox 9 (Some ex_event) empty_pg empty_pg =
      (Inr \<lparr>rc_Input = ex_event_input\<lparr>r_IdempotencyKey := []\<rparr>, rc_ReceiptID = postgresID ''receipt'' 9,
            rc_CreatedAt = 9, rc_Retention = no_retention, rc_Replayed = False\<rparr>,
       empty_pg\<lparr>lp_receipts := [new_evidence_row ex_pg 9 ex_event_input (unary 4) (request_hash ex_pg ex_event_input)]\<rparr>)"
    unfolding RecordDomainEvent_def ex_domain
    by (simp add: ex_inbox_def ex_store recordReceipt_def Let_def find_receipt_key_def ex_event_payload
        request_hash_def [symmetric] sql_insert_def empty_pg_def)
       (simp add: unary_def)
  then show ?thesis
    by (simp add: ex_informed_def Deliver_def ex_delivery_def deliver_peers_def) (simp add: ex_event_def)
qed

end
