(* ===== verification/Ledger_Properties.thy ===== *)
theory Ledger_Properties
  imports Ledger_Example
begin

text \<open>
  What the production Ledger promises: recording behaves as one step and once per key, typed evidence is
  immutable and read only under the authority of its commit, and an acknowledged domain event is kept.
\<close>

section \<open>Recording\<close>

lemma history_ok: "ledger_ok lib s \<Longrightarrow> ledger_ok lib (fold (ledger_step lib) cs s)"
  by (rule typed_store.inv_fold)

lemma history_found:
  assumes "ledger_ok lib seen" and "find_receipt_key seen k = Some row"
  obtains row' where "find_receipt_key (fold (ledger_step lib) cs seen) k = Some row'"
    "er_ID row' = er_ID row" "er_RequestHash row' = er_RequestHash row"
proof -
  from assms(2) have "receipt_bound seen k = Some (er_RequestHash row, er_ID row)" by (simp add: receipt_bound_def)
  from bound_store.final_fold [OF assms(1) this, of cs] show ?thesis by (auto simp: bound_found intro: that)
qed

lemma replay_id:
  assumes "ledger_ok lib s" and "find_receipt_key s k = Some row"
  shows "map_sum id rc_ReceiptID (replay_receipt (tl_pg lib) h row) =
    (if er_RequestHash row = h then Inr (er_ID row) else Inl (PgLedger ErrLedgerIdempotencyConflict))"
  using replay_found [OF assms, of h] by (auto split: if_splits)

lemma insert_met_key:
  assumes ok: "ledger_ok lib s" and row: "find_receipt_key s (r_IdempotencyKey i) = Some row"
    and none: "find_receipt_key seen (r_IdempotencyKey i) = None"
    and payload: "enc (pl_payload (tl_pg lib)) (i\<lparr>r_IdempotencyKey := []\<rparr>, no_retention) \<noteq> []"
  shows "recordReceipt (tl_pg lib) now i seen s = (replay_receipt (tl_pg lib) (request_hash (tl_pg lib) i) row, s)"
proof -
  define new where "new = new_evidence_row (tl_pg lib) now i
    (enc (pl_payload (tl_pg lib)) (i\<lparr>r_IdempotencyKey := []\<rparr>, no_retention)) (request_hash (tl_pg lib) i)"
  note mem = find_receipt_keyD [OF row]
  have "evidence_check row" using ok mem by (auto simp: ledger_ok_def pg_ok_def list_all_iff)
  moreover have "request_hash (tl_pg lib) i \<noteq> []" using ok by (simp add: request_hash_def hashJSON_def ledger_ok_def ledger_lib_ok_def)
  ultimately have "evidence_check new"
    using mem by (auto simp: evidence_check_def new_def postgresID_def)
  moreover have "list_ex (evidence_clash new) (lp_receipts s)"
    using mem by (auto simp: list_ex_iff evidence_clash_def new_def intro: bexI [of _ row])
  ultimately have "sql_insert evidence_check evidence_clash new (lp_receipts s) = Inl UniqueViolation"
    by (auto simp: sql_insert_def)
  moreover have "payload_ok (tl_pg lib)" "pg_ok (tl_pg lib) s" using ok by (simp_all add: ledger_ok_def ledger_lib_ok_def)
  with mem obtain x where "receiptFromEnt (tl_pg lib) row = Inr x" by (blast elim: pg_ok_decodes)
  ultimately show ?thesis
    using payload
    by (simp add: recordReceipt_def none row Let_def request_hash_def [symmetric] new_def [symmetric])
qed

text \<open>
  C28: Recording a receipt is linearizable. RecordReceipt queries for the key and inserts in a second
  transaction; whatever commands ran in between, its effect on the store and its answer (the error, or
  the identifier of the receipt) are those of a recording in one step at the moment of the insert.
\<close>

theorem recording_linearizable:
  assumes "ledger_ok lib seen" and "s = fold (ledger_step lib) cs seen"
    and "enc (pl_payload (tl_pg lib)) (i\<lparr>r_IdempotencyKey := []\<rparr>, no_retention) \<noteq> []"
  shows "snd (pg_RecordReceipt (tl_pg lib) now i seen s) = snd (pg_RecordReceipt (tl_pg lib) now i s s) \<and>
         map_sum id rc_ReceiptID (fst (pg_RecordReceipt (tl_pg lib) now i seen s)) =
         map_sum id rc_ReceiptID (fst (pg_RecordReceipt (tl_pg lib) now i s s))"
proof (cases "find_receipt_key seen (r_IdempotencyKey i)")
  case (Some row)
  then have r0: "recordReceipt (tl_pg lib) now i seen s = (replay_receipt (tl_pg lib) (request_hash (tl_pg lib) i) row, s)"
    by (simp add: recordReceipt_def request_hash_def Let_def)
  have ok: "ledger_ok lib s" unfolding assms(2) by (rule history_ok [OF assms(1)])
  from history_found [OF assms(1) Some, of cs] obtain row' where row':
    "find_receipt_key s (r_IdempotencyKey i) = Some row'" "er_ID row' = er_ID row" "er_RequestHash row' = er_RequestHash row"
    unfolding assms(2) .
  from replay_id [OF assms(1) Some] replay_id [OF ok row'(1)] row'(2,3) show ?thesis
    by (simp add: pg_RecordReceipt_def r0 record_found [OF row'(1)] split: option.split)
next
  case none: None
  have ok: "ledger_ok lib s" unfolding assms(2) by (rule history_ok [OF assms(1)])
  show ?thesis
  proof (cases "find_receipt_key s (r_IdempotencyKey i)")
    case (Some row)
    then show ?thesis
      by (simp add: pg_RecordReceipt_def insert_met_key [OF ok Some none assms(3)] record_found split: option.split)
  next
    case None
    with none have "recordReceipt (tl_pg lib) now i seen s = recordReceipt (tl_pg lib) now i s s"
      by (simp add: recordReceipt_def Let_def)
    then show ?thesis by (simp add: pg_RecordReceipt_def split: option.split)
  qed
qed

lemma sample_valid: "validateReceiptInput (tl_go ex_typed) sample_receipt = None"
proof -
  have "validateReceiptInput sample_clock_lib sample_receipt = None" by code_simp
  then show ?thesis by (simp add: ex_typed_def ex_pg_def)
qed

lemma sample_payload: "enc (pl_payload (tl_pg ex_typed)) (sample_receipt\<lparr>r_IdempotencyKey := []\<rparr>, no_retention) = unary 1"
  by (simp add: ex_typed_def ex_pg_def listed_payloads_def)

lemma sample_key: "r_IdempotencyKey sample_receipt = ''key-1''"
  by (simp add: sample_receipt_def)

definition ex_noted :: pg_ledger where
  "ex_noted = ledger_step ex_typed (LedgerReceipt 5 sample_receipt empty_pg) empty_pg"

lemma ex_noted: "pg_RecordReceipt (tl_pg ex_typed) 5 sample_receipt empty_pg empty_pg =
    (Inr \<lparr>rc_Input = sample_receipt\<lparr>r_IdempotencyKey := []\<rparr>, rc_ReceiptID = postgresID ''receipt'' 5,
          rc_CreatedAt = 5, rc_Retention = no_retention, rc_Replayed = False\<rparr>, ex_noted)"
proof -
  have "request_hash (tl_pg ex_typed) sample_receipt \<noteq> []"
    using ex_typed_ok by (simp add: request_hash_def hashJSON_def ledger_lib_ok_def)
  then have "evidence_check (new_evidence_row (tl_pg ex_typed) 5 sample_receipt (unary 1) (request_hash (tl_pg ex_typed) sample_receipt))"
    by (simp add: evidence_check_def postgresID_def sample_key)
  then show ?thesis
    by (simp add: ex_noted_def pg_RecordReceipt_def sample_valid recordReceipt_def Let_def find_receipt_key_def
        sample_payload request_hash_def [symmetric] sql_insert_def empty_pg_def unary_def)
qed

theorem recording_linearizable_witness:
  "snd (pg_RecordReceipt (tl_pg ex_typed) 9 sample_receipt empty_pg ex_noted) = ex_noted \<and>
   map_sum id rc_ReceiptID (fst (pg_RecordReceipt (tl_pg ex_typed) 9 sample_receipt empty_pg ex_noted)) =
     Inr (postgresID ''receipt'' 5)"
proof -
  have s: "ex_noted = fold (ledger_step ex_typed) [LedgerReceipt 5 sample_receipt empty_pg] empty_pg"
    by (simp add: ex_noted_def)
  have p: "enc (pl_payload (tl_pg ex_typed)) (sample_receipt\<lparr>r_IdempotencyKey := []\<rparr>, no_retention) \<noteq> []"
    by (simp add: sample_payload unary_def)
  have "ledger_ok ex_typed ex_noted" unfolding ex_noted_def by (rule ledger_step_ok) (simp add: ex_typed_ok)
  moreover have "receipt_bound ex_noted ''key-1'' = Some (request_hash (tl_pg ex_typed) sample_receipt, postgresID ''receipt'' 5)"
    using pg_receipts.records [of ex_typed empty_pg "(5, sample_receipt)"] ex_noted ex_typed_ok
    by (simp add: record_now_def sample_key)
  ultimately have "\<exists>r. record_now ex_typed (9, sample_receipt) ex_noted = (Inr r, ex_noted) \<and> rc_ReceiptID r = postgresID ''receipt'' 5"
    by (intro pg_receipts.replays) (simp_all add: sample_valid sample_key)
  with recording_linearizable [OF _ s p, of 9] ex_typed_ok show ?thesis by (auto simp: record_now_def)
qed

lemma recorded_bound:
  assumes ok: "ledger_ok lib seen" and run: "recordReceipt (tl_pg lib) now i seen (fold (ledger_step lib) cs seen) = (Inr r, s')"
  shows "receipt_bound s' (r_IdempotencyKey i) = Some (request_hash (tl_pg lib) i, rc_ReceiptID r)"
  using run
proof (cases rule: recordReceipt_cases)
  case (replay row)
  have ok': "ledger_ok lib (fold (ledger_step lib) cs seen)" by (rule history_ok [OF ok])
  from replay(3) have "\<exists>row'. find_receipt_key s' (r_IdempotencyKey i) = Some row' \<and> er_ID row' = er_ID row \<and>
      er_RequestHash row' = er_RequestHash row"
    unfolding replay(2) by (blast elim: history_found [OF ok, of _ _ cs])
  moreover have "map_sum id rc_ReceiptID (replay_receipt (tl_pg lib) (request_hash (tl_pg lib) i) row) =
    (if er_RequestHash row = request_hash (tl_pg lib) i then Inr (er_ID row) else Inl (PgLedger ErrLedgerIdempotencyConflict))"
    using replay(3) replay_id [OF ok] replay_id [OF ok'] by blast
  moreover from this have "er_RequestHash row = request_hash (tl_pg lib) i \<and> er_ID row = rc_ReceiptID r"
    by (simp add: replay(1) [symmetric] split: if_splits)
  ultimately show ?thesis by (auto simp: receipt_bound_def)
next
  case (inserted r' payload)
  then have "find_receipt_key (fold (ledger_step lib) cs seen) (r_IdempotencyKey i) = None"
    by (auto simp: find_receipt_key_def find_None_iff evidence_clash_def)
  with inserted show ?thesis by (simp add: receipt_bound_def find_receipt_key_append)
qed simp

text \<open>
  C29: A key names one receipt in production. Once RecordReceipt has succeeded under a key, whatever ran
  between its query and its insert, then after any history of the Ledger a valid request with that key,
  again with any commands between its query and its insert, answers with the first receipt when its
  content hash is the same and with the idempotency conflict otherwise, and never changes the store.
\<close>

theorem pg_receipt_once_per_key:
  assumes "ledger_ok lib s0" and "pg_RecordReceipt (tl_pg lib) now i s0 (fold (ledger_step lib) cs0 s0) = (Inr r, s')"
    and "seen = fold (ledger_step lib) cs1 s'" and "s = fold (ledger_step lib) cs2 seen"
    and "r_IdempotencyKey j = r_IdempotencyKey i" and "validateReceiptInput (tl_go lib) j = None"
  shows "snd (pg_RecordReceipt (tl_pg lib) now' j seen s) = s \<and>
         map_sum id rc_ReceiptID (fst (pg_RecordReceipt (tl_pg lib) now' j seen s)) =
           (if request_hash (tl_pg lib) j = request_hash (tl_pg lib) i then Inr (rc_ReceiptID r)
            else Inl (PgLedger ErrLedgerIdempotencyConflict))"
proof -
  let ?s = "fold (ledger_step lib) cs0 s0"
  from assms(2) have run: "recordReceipt (tl_pg lib) now i s0 ?s = (Inr r, s')"
    by (auto simp: pg_RecordReceipt_def split: option.splits)
  have "s' = ledger_step lib (LedgerReceipt now i s0) ?s" using assms(2) by simp
  then have ok': "ledger_ok lib s'" by (simp only: ledger_step_ok history_ok assms(1))
  from bound_store.final_fold [OF ok' recorded_bound [OF assms(1) run], of cs1]
  obtain row where row: "find_receipt_key seen (r_IdempotencyKey j) = Some row"
    "er_RequestHash row = request_hash (tl_pg lib) i" "er_ID row = rc_ReceiptID r"
    by (auto simp: assms(3,5) bound_found)
  have ok: "ledger_ok lib seen" unfolding assms(3) by (rule history_ok [OF ok'])
  from row(1) have "pg_RecordReceipt (tl_pg lib) now' j seen s =
      (replay_receipt (tl_pg lib) (request_hash (tl_pg lib) j) row, s)"
    by (simp add: pg_RecordReceipt_def assms(6) recordReceipt_def request_hash_def Let_def)
  with replay_id [OF ok row(1), of "request_hash (tl_pg lib) j"] row(2,3) show ?thesis by auto
qed

theorem pg_receipt_once_per_key_witness:
  "map_sum id rc_ReceiptID (fst (pg_RecordReceipt (tl_pg ex_typed) 9 sample_receipt ex_noted
      (ledger_step ex_typed (LedgerAppend ex_coordinator ex_append) ex_noted))) = Inr (postgresID ''receipt'' 5)"
proof -
  have start: "ledger_ok ex_typed empty_pg" by (simp add: ex_typed_ok)
  from pg_receipt_once_per_key [OF start, of 5 sample_receipt "[]" _ _ ex_noted "[]"
      "ledger_step ex_typed (LedgerAppend ex_coordinator ex_append) ex_noted"
      "[LedgerAppend ex_coordinator ex_append]" sample_receipt 9] ex_noted sample_valid
  show ?thesis by simp
qed

section \<open>Typed evidence\<close>

definition append_kind :: "AppendReceiptRequest \<Rightarrow> receipt_kind" where
  "append_kind r =
     (let kind = (case an_Receipt r of None \<Rightarrow> [] | Some receipt \<Rightarrow> ap_Kind receipt) in
      if kind = ''WALLET_ACTION'' then wallet_action
      else if kind = ''LOCAL_NO_CHARGE'' then local_no_charge else provider_action)"

lemma append_kind_in [simp]: "append_kind r \<in> set kinds"
  by (simp add: append_kind_def Let_def)

lemma append_typed_InrE:
  assumes "append_typed e k readback r s = (Inr a, s')"
  obtains auth rec where "record_typed (co_lib e) k (co_store_now e) r auth s = (Inr rec, s')" "a = te_Receipt (yr_Evidence rec)"
  using assms unfolding append_typed_def by (auto split: option.splits prod.splits sum.splits)

lemma AppendReceipt_InrE:
  assumes "AppendReceipt e r s = (Inr a, s')"
  obtains auth rec where "record_typed (co_lib e) (append_kind r) (co_store_now e) r auth s = (Inr rec, s')"
    "a = te_Receipt (yr_Evidence rec)"
proof -
  have "appendWalletActionReceipt e r s = (Inr a, s') \<and> append_kind r = wallet_action \<or>
      appendLocalNoChargeReceipt e r s = (Inr a, s') \<and> append_kind r = local_no_charge \<or>
      appendProviderActionReceipt e r s = (Inr a, s') \<and> append_kind r = provider_action"
    using assms unfolding AppendReceipt_def Let_def append_kind_def by (simp split: option.splits if_splits)
  then show ?thesis
    unfolding appendWalletActionReceipt_def appendLocalNoChargeReceipt_def appendProviderActionReceipt_def
    by (elim disjE conjE append_typed_InrE) (simp_all add: that)
qed

lemma typed_view_read:
  assumes "typed_view lib s (k, reference) = Some (h, ev, t, w)"
  obtains rec where "read_typed lib k reference s = Inr rec" "yr_Evidence rec = ev" "yr_TenantID rec = t" "yr_WorkspaceID rec = w"
  using assms unfolding typed_view_def read_typed_def by (auto split: option.splits sum.splits)

lemma record_typed_view:
  assumes "record_typed lib k now r auth s = (Inr rec, s')"
  shows "typed_view lib s' (k, an_OwnerEvidenceReference r) =
    Some (typed_hash lib k r, yr_Evidence rec, yr_TenantID rec, yr_WorkspaceID rec)"
  using assms
proof (cases rule: record_typed_cases)
  case (replay row)
  then have "find_typed s' k (ref_key lib k r) = Some row" by (simp add: find_typed_def)
  with replay(4) show ?thesis by (simp add: typed_view_def replay(5) [symmetric])
next
  case (inserted ev call rid encoded payload row)
  then have "find_typed s' k (ref_key lib k r) = Some row"
    by (simp add: find_typed_def find_append)
  with inserted(11) show ?thesis by (simp add: typed_view_def inserted(14) [symmetric])
qed simp

lemma record_typed_fresh:
  assumes ok: "ledger_lib_ok lib" and "record_typed lib k now r auth s = (Inr rec, s')"
    and none: "find_typed s k (ref_key lib k r) = None"
  obtains ev rid where "rk_Evidence k r = Some ev" "yr_Evidence rec = stamp rid now ev"
  using assms(2)
proof (cases rule: record_typed_cases)
  case (inserted ev call rid encoded payload row)
  note dec = decode_written [OF ok inserted(8) inserted(10) [unfolded inserted(9)], folded inserted(9)]
  from dec inserted(14) have "yr_Evidence rec = stamp rid now ev" by simp
  with inserted(3) show ?thesis by (rule that)
qed (use none in auto)

text \<open>
  C7: The evidence of an owner reference is final. Once AppendReceipt has answered with a receipt, then
  after any history of the Ledger, retention and privacy commands included, the reference still reads
  back as that very receipt with the same evidence, tenant and Workspace, and any later append of the same
  kind for the reference that succeeds answers with that receipt. A first append stores the submitted
  evidence, with only the receipt's identifier and time added.
\<close>

theorem typed_evidence_final:
  assumes "ledger_ok lib s" and "AppendReceipt (e\<lparr>co_lib := lib\<rparr>) r s = (Inr a, s')"
  shows "\<exists>ev t w. te_Receipt ev = a \<and>
           (\<forall>cs. \<exists>rec. read_typed lib (append_kind r) (an_OwnerEvidenceReference r) (fold (ledger_step lib) cs s') = Inr rec \<and>
              yr_Evidence rec = ev \<and> yr_TenantID rec = t \<and> yr_WorkspaceID rec = w) \<and>
           (\<forall>cs e' r' a' s''. an_OwnerEvidenceReference r' = an_OwnerEvidenceReference r \<and> append_kind r' = append_kind r \<and>
              AppendReceipt (e'\<lparr>co_lib := lib\<rparr>) r' (fold (ledger_step lib) cs s') = (Inr a', s'') \<longrightarrow> a' = a) \<and>
           (read_typed lib (append_kind r) (an_OwnerEvidenceReference r) s = Inl (TypedStore (PgLedger ErrReceiptNotFound)) \<longrightarrow>
              (\<exists>ev0 rid. rk_Evidence (append_kind r) r = Some ev0 \<and> ev = stamp rid (co_store_now e) ev0))"
proof -
  let ?k = "append_kind r" and ?ref = "an_OwnerEvidenceReference r"
  from assms(2) obtain auth rec where run: "record_typed lib ?k (co_store_now e) r auth s = (Inr rec, s')"
    "a = te_Receipt (yr_Evidence rec)" by (rule AppendReceipt_InrE) simp
  have ok': "ledger_ok lib s'" using record_typed_ok [OF append_kind_in assms(1) run(1)] .
  note view = typed_store.final_fold [OF ok' record_typed_view [OF run(1)] TrueI]
  have read: "\<exists>x. read_typed lib ?k ?ref (fold (ledger_step lib) cs s') = Inr x \<and>
      yr_Evidence x = yr_Evidence rec \<and> yr_TenantID x = yr_TenantID rec \<and> yr_WorkspaceID x = yr_WorkspaceID rec" for cs
    by (rule typed_view_read [OF view [of cs]]) auto
  have again: "a' = a"
    if "an_OwnerEvidenceReference r' = ?ref" "append_kind r' = ?k"
      "AppendReceipt (e'\<lparr>co_lib := lib\<rparr>) r' (fold (ledger_step lib) cs s') = (Inr a', s'')" for cs e' r' a' s''
  proof -
    from that(3) obtain auth' rec' where run': "record_typed lib (append_kind r') (co_store_now e') r' auth'
        (fold (ledger_step lib) cs s') = (Inr rec', s'')" "a' = te_Receipt (yr_Evidence rec')"
      by (rule AppendReceipt_InrE) simp
    have "s'' = fold (ledger_step lib) (cs @ [LedgerAppend e' r']) s'" using that(3) by simp
    with view [of "cs @ [LedgerAppend e' r']"] record_typed_view [OF run'(1)] that(1,2)
    show ?thesis by (simp add: run(2) run'(2))
  qed
  have first: "\<exists>ev0 rid. rk_Evidence ?k r = Some ev0 \<and> yr_Evidence rec = stamp rid (co_store_now e) ev0"
    if none: "read_typed lib ?k ?ref s = Inl (TypedStore (PgLedger ErrReceiptNotFound))"
  proof -
    have "find_typed s ?k (ref_key lib ?k r) = None"
      using none by (auto simp: read_typed_def decode_typed_def split: option.splits)
    with run(1) assms(1) show ?thesis unfolding ledger_ok_def by (blast elim: record_typed_fresh)
  qed
  show ?thesis by (intro exI [of _ "yr_Evidence rec"] exI [of _ "yr_TenantID rec"] exI [of _ "yr_WorkspaceID rec"])
      (use run(2) read again first in blast)
qed

lemma ex_coordinator_lib [simp]: "ex_coordinator\<lparr>co_lib := ex_typed\<rparr> = ex_coordinator"
  by (simp add: ex_coordinator_def)

theorem typed_evidence_final_witness:
  "\<exists>rec. read_typed ex_typed (append_kind ex_append) ''op_1'' (ledger_step ex_typed
       (LedgerPrivacy 40 40 \<lparr>pi_ReceiptID = ''rcpt_1'', pi_Reason = ''gdpr'', pi_IdempotencyKey = ''p''\<rparr>) ex_charged) = Inr rec \<and>
     ap_Id (te_Receipt (yr_Evidence rec)) = ''rcpt_1''"
proof -
  let ?c = "LedgerPrivacy 40 40 \<lparr>pi_ReceiptID = ''rcpt_1'', pi_Reason = ''gdpr'', pi_IdempotencyKey = ''p''\<rparr>"
  have start: "ledger_ok ex_typed empty_pg" by (simp add: ex_typed_ok)
  have run: "AppendReceipt (ex_coordinator\<lparr>co_lib := ex_typed\<rparr>) ex_append empty_pg =
      (Inr (ex_api_receipt\<lparr>ap_Id := ''rcpt_1'', ap_CreatedAt := Some (timestamp 30)\<rparr>), ex_charged)"
    using ex_charge(1) by simp
  have ref: "an_OwnerEvidenceReference ex_append = ''op_1''" by (simp add: ex_append_def)
  from typed_evidence_final [OF start run, unfolded ref] obtain ev where
    "te_Receipt ev = ex_api_receipt\<lparr>ap_Id := ''rcpt_1'', ap_CreatedAt := Some (timestamp 30)\<rparr>"
    "\<exists>rec. read_typed ex_typed (append_kind ex_append) ''op_1'' (fold (ledger_step ex_typed) [?c] ex_charged) = Inr rec \<and>
       yr_Evidence rec = ev" by blast
  then show ?thesis by auto
qed

section \<open>Reading typed evidence\<close>

lemma read_typed_tenant:
  assumes "ledger_ok lib s" and "k \<in> set kinds" and "read_typed lib k reference s = Inr rec"
  shows "yr_TenantID rec \<noteq> []"
proof -
  from assms(3) obtain row where row: "find_typed s k (reference_key (tl_go lib) k reference) = Some row"
    "decode_typed lib k (er_PayloadJSON row) = Inr rec" by (auto simp: read_typed_def split: option.splits)
  from find_SomeD [OF row(1) [unfolded find_typed_def]] assms(1,2) have "typed_origin lib k row"
    by (auto simp: ledger_ok_def typed_rows_ok_def)
  with row(2) show ?thesis by (auto simp: typed_origin_def)
qed

lemma read_authorized_Inr:
  assumes ok: "ledger_ok (co_lib e) s" and k: "k \<in> set kinds" and "read_authorized e k r s = Inr ev"
  shows "\<exists>c rec. gr_Context r = Some c \<and> read_typed (co_lib e) k (gr_OwnerEvidenceReference r) s = Inr rec \<and>
    yr_Evidence rec = ev \<and> ctx_Scope c = Some (TenantScope (yr_TenantID rec)) \<and>
    ctx_ActorId c = oc_ActorId (te_OwnerCommitEvidence ev) \<and>
    authorizeReceipt (co_peer e) (co_now e) (co_auth e) (Some c) ''GETRECEIPT'' (yr_WorkspaceID rec) (yr_TenantID rec)
      (ctx_ActorId c) = None"
proof -
  from assms(3) obtain rec where rec: "read_typed (co_lib e) k (gr_OwnerEvidenceReference r) s = Inr rec" "yr_Evidence rec = ev"
    "oc_ActorId (te_OwnerCommitEvidence ev) \<noteq> []"
    "authorizeReceipt (co_peer e) (co_now e) (co_auth e) (gr_Context r) ''GETRECEIPT'' (yr_WorkspaceID rec)
       (yr_TenantID rec) (oc_ActorId (te_OwnerCommitEvidence ev)) = None"
    by (auto simp: read_authorized_def authorizeStoredReceipt_def split: sum.splits option.splits if_splits)
  from Authorize_call [OF rec(4) [unfolded authorizeReceipt_def]] obtain c where
    "gr_Context r = Some c" "ctx_Scope c = Some (TenantScope (yr_TenantID rec))"
    "ctx_ActorId c = oc_ActorId (te_OwnerCommitEvidence ev)"
    using rec(3) read_typed_tenant [OF ok k rec(1)] by auto
  with rec show ?thesis by auto
qed

lemma read_by_peer_Inr: "read_by_peer e k r s = Inr ev \<Longrightarrow>
    co_peer e \<in> {Some ''workspace'', Some ''fabric''} \<and> read_authorized e k r s = Inr ev"
  by (auto simp: read_by_peer_def split: if_splits option.splits)

lemma read_by_peer_NotFound: "read_by_peer e k r s = Inl err \<Longrightarrow> fst err = NotFound \<Longrightarrow>
    co_peer e \<in> {Some ''workspace'', Some ''fabric''}"
  by (auto simp: read_by_peer_def split: if_splits option.splits)

text \<open>
  C30: A private receipt is shown only under the authority of its own commit. ReadReceiptByReference
  answers only the Workspace or Fabric peer, only for a call in the tenant of the stored record by the
  very actor who committed it, and only after CloudIdentity allowed that call to read the receipts of the
  record's Workspace; the answer is the stored receipt.
\<close>

theorem receipt_read_authorized:
  assumes "ledger_ok (co_lib e) s" and "ReadReceiptByReference e r s = Inr a"
  shows "co_peer e \<in> {Some ''workspace'', Some ''fabric''} \<and>
    (\<exists>k c rec. k \<in> set kinds \<and> gr_Context r = Some c \<and>
       read_typed (co_lib e) k (gr_OwnerEvidenceReference r) s = Inr rec \<and> te_Receipt (yr_Evidence rec) = a \<and>
       ctx_Scope c = Some (TenantScope (yr_TenantID rec)) \<and>
       ctx_ActorId c = oc_ActorId (te_OwnerCommitEvidence (yr_Evidence rec)) \<and>
       authorizeReceipt (co_peer e) (co_now e) (co_auth e) (Some c) ''GETRECEIPT'' (yr_WorkspaceID rec)
         (yr_TenantID rec) (ctx_ActorId c) = None)"
proof -
  have "co_peer e \<in> {Some ''workspace'', Some ''fabric''} \<and>
      (\<exists>k ev. k \<in> set kinds \<and> read_authorized e k r s = Inr ev \<and> te_Receipt ev = a)"
  proof (cases "ReadWalletActionReceipt e r s")
    case (Inr ev)
    then have "co_peer e \<in> {Some ''workspace'', Some ''fabric''} \<and> read_authorized e wallet_action r s = Inr ev"
      unfolding ReadWalletActionReceipt_def by (rule read_by_peer_Inr)
    moreover have "te_Receipt ev = a" using assms(2) Inr by (simp add: ReadReceiptByReference_def)
    ultimately show ?thesis by (blast intro: kinds_members)
  next
    case (Inl err)
    have nf: "fst err = NotFound" using assms(2) Inl by (auto simp: ReadReceiptByReference_def split: if_splits)
    have peer: "co_peer e \<in> {Some ''workspace'', Some ''fabric''}"
      using read_by_peer_NotFound [OF Inl [unfolded ReadWalletActionReceipt_def] nf] .
    show ?thesis
    proof (cases "ReadLocalNoChargeReceipt e r s")
      case (Inr ev)
      then have "read_authorized e local_no_charge r s = Inr ev"
        unfolding ReadLocalNoChargeReceipt_def by (simp only: read_by_peer_Inr)
      moreover have "te_Receipt ev = a" using assms(2) Inl Inr nf by (simp add: ReadReceiptByReference_def)
      ultimately show ?thesis using peer by (blast intro: kinds_members)
    next
      case Inl2: (Inl err2)
      have "fst err2 = NotFound" using assms(2) Inl Inl2 nf by (auto simp: ReadReceiptByReference_def split: if_splits)
      then have "map_sum id te_Receipt (read_authorized e provider_action r s) = Inr a"
        using assms(2) Inl Inl2 nf by (simp add: ReadReceiptByReference_def)
      then obtain ev where "read_authorized e provider_action r s = Inr ev" "te_Receipt ev = a"
        by (cases "read_authorized e provider_action r s") auto
      with peer show ?thesis by (blast intro: kinds_members)
    qed
  qed
  then show ?thesis by (blast dest: read_authorized_Inr [OF assms(1)])
qed

definition ex_read :: GetReceiptByReferenceRequest where
  "ex_read = \<lparr>gr_Context = Some sample_call, gr_Owner = ''workspace'', gr_OwnerEvidenceReference = ''op_1''\<rparr>"

lemma ex_charged_read: "read_typed ex_typed wallet_action ''op_1'' ex_charged =
    Inr \<lparr>yr_Evidence = stamp ''rcpt_1'' 30 ex_evidence, yr_TenantID = ''t_1'', yr_ActorID = ''u_1'', yr_WorkspaceID = ''ws_1''\<rparr>"
  by (simp add: read_typed_def find_typed_def ex_charge(2))
     (simp add: ex_row_def ex_append_def ex_decode)

lemma ex_read_answer: "ReadReceiptByReference ex_coordinator ex_read ex_charged = Inr (te_Receipt (stamp ''rcpt_1'' 30 ex_evidence))"
proof -
  have e: "co_peer ex_coordinator = Some ''workspace''" "co_now ex_coordinator = 30" "co_lib ex_coordinator = ex_typed"
    "co_auth ex_coordinator = Some sample_authorizer" "oc_ActorId (te_OwnerCommitEvidence (stamp ''rcpt_1'' 30 ex_evidence)) = ''u_1''"
    by (simp_all add: ex_coordinator_def stamp_def ex_evidence_def ex_commit_def)
  have "authorizeReceipt (Some ''workspace'') 30 (Some sample_authorizer) (Some sample_call) ''GETRECEIPT'' ''ws_1'' ''t_1'' ''u_1'' = None"
    "trim_space ''op_1'' \<noteq> []" by code_simp+
  then show ?thesis
    by (simp add: ReadReceiptByReference_def ReadWalletActionReceipt_def read_by_peer_def e ex_read_def ex_checks(2)
        read_authorized_def ex_charged_read authorizeStoredReceipt_def)
qed

lemma ex_charged_ok: "ledger_ok ex_typed ex_charged"
  using ledger_step_ok [of ex_typed empty_pg "LedgerAppend ex_coordinator ex_append"] ex_charge(1) ex_typed_ok by simp

theorem receipt_read_authorized_witness:
  "\<exists>a. ReadReceiptByReference ex_coordinator ex_read ex_charged = Inr a \<and> ctx_ActorId sample_call = oc_ActorId ex_commit"
proof -
  have "co_lib ex_coordinator = ex_typed" by (simp add: ex_coordinator_def)
  then have ok: "ledger_ok (co_lib ex_coordinator) ex_charged" by (simp add: ex_charged_ok)
  from receipt_read_authorized [OF ok ex_read_answer] ex_read_answer show ?thesis
    by (simp add: ex_read_def) (simp add: sample_call_def ex_commit_def)
qed

section \<open>Domain events\<close>

lemma contract_lookups:
  "LookupEventIdentity ''package.uploaded.v1'' 1 = Some (ev1 ''package.uploaded.v1'' ''capability'' [''ledger''])"
  "LookupEventIdentity ''build.artifact_confirmed.v1'' 1 =
     Some (ev1 ''build.artifact_confirmed.v1'' ''build'' [''capability'', ''ledger''])"
  "LookupEventIdentity ''build.failed.v1'' 1 = Some (ev1 ''build.failed.v1'' ''build'' [''ledger''])"
  "LookupEventIdentity ''capability.version_registered.v1'' 1 =
     Some (ev1 ''capability.version_registered.v1'' ''capability'' [''build'', ''ledger''])"
  "LookupEventIdentity ''serve.agent_readiness_observed.v1'' 1 =
     Some (ev1 ''serve.agent_readiness_observed.v1'' ''serve'' [''ledger'', ''workspace''])"
  "LookupEventIdentity ''catalog.policy_changed.v1'' 1 =
     Some (ev1 ''catalog.policy_changed.v1'' ''resource_catalog'' [''ledger'', ''workspace''])"
  "LookupEventIdentity ''serve.access_observed.v1'' 1 =
     Some (ev1 ''serve.access_observed.v1'' ''serve'' [''ledger'', ''workspace''])"
  "LookupEventIdentity ''fabric.resources_observed.v1'' 1 =
     Some (ev1 ''fabric.resources_observed.v1'' ''serve'' [''ledger'', ''runtime_control'', ''workspace''])"
  "LookupEventIdentity ''wallet.operation_observed.v1'' 1 =
     Some (ev1 ''wallet.operation_observed.v1'' ''gateway'' [''ledger'', ''workspace''])"
  by code_simp+

lemma observed_owner:
  "readinessReceiptStatus ev p1 = Some st \<Longrightarrow> ee_Owner ev = ''serve''"
  "accessObservedEvidence lib ev p2 = Some x \<Longrightarrow> ee_Owner ev = ''serve''"
  "resourcesObservedEvidence lib ev p3 = Some x \<Longrightarrow> ee_Owner ev = ''serve''"
  "walletObservedEvidence lib ev p4 = Some x \<Longrightarrow> ee_Owner ev = ''gateway''"
  by (auto simp: readinessReceiptStatus_def accessObservedEvidence_def resourcesObservedEvidence_def
      walletObservedEvidence_def split: if_splits)

lemma domain_contract:
  assumes "domain_facts lib ev = Some f"
  shows "\<exists>i. LookupEventIdentity (ee_EventType ev) 1 = Some i \<and> ei_Owner i = ee_Owner ev \<and> Subscribed i ''ledger''"
proof -
  have owner: "ee_Owner ev = ei_Owner i" if "LookupEventIdentity (ee_EventType ev) 1 = Some i" for i
    using assms domain_facts_type [OF assms] that unfolding domain_facts_def Let_def
    by (elim insertE emptyE; simp add: contract_lookups split: event_payload.splits if_splits; auto dest: observed_owner)
  have "\<exists>i. LookupEventIdentity (ee_EventType ev) 1 = Some i \<and> Subscribed i ''ledger''"
    using domain_facts_type [OF assms] by (elim insertE emptyE; simp add: contract_lookups Subscribed_def)
  with owner show ?thesis by metis
qed

lemma Deliver_InrE:
  assumes "Deliver lib peer now r seen s = (Inr ack, s')"
  obtains ev i receipt where "dr_Event r = Some ev" "peer = Some (ee_Owner ev)" "domain_receipt lib (Some ev) = Some i"
    "recordReceipt (vl_pg lib) now i seen s = (Inr receipt, s')"
    "ack = \<lparr>ia_EventId = ee_EventId ev, ia_Consumer = ''ledger'', ia_Committed = True, ia_Duplicate = rc_Replayed receipt,
            ia_AppliedAggregateVersion = ee_AggregateVersion ev\<rparr>"
proof -
  obtain res s1 where run: "RecordDomainEvent lib now (dr_Event r) seen s = (res, s1)" by fastforce
  from assms [unfolded Deliver_def run] obtain p where p: "peer = Some p" "p = (case dr_Event r of None \<Rightarrow> [] | Some ev \<Rightarrow> ee_Owner ev)"
    and ans: "(case (res, s1) of
                  (Inl (PgLedger ErrInvalidReceiptInput), s') \<Rightarrow> (Inl (InvalidArgument, ''invalid domain evidence''), s')
                | (Inl (PgLedger ErrLedgerIdempotencyConflict), s') \<Rightarrow>
                    (Inl (AlreadyExists, ''event identity conflicts with persisted evidence''), s')
                | (Inl _, s') \<Rightarrow> (Inl (Unavailable, ''Ledger evidence persistence unavailable''), s')
                | (Inr receipt, s') \<Rightarrow>
                    (case dr_Event r of
                       None \<Rightarrow> (Inl (Unknown, []), s')
                     | Some ev \<Rightarrow>
                         (Inr \<lparr>ia_EventId = ee_EventId ev, ia_Consumer = ''ledger'', ia_Committed = True,
                               ia_Duplicate = rc_Replayed receipt,
                               ia_AppliedAggregateVersion = ee_AggregateVersion ev\<rparr>, s'))) = (Inr ack, s')"
    by (auto split: option.splits if_splits)
  obtain receipt where res: "res = Inr receipt"
    using ans by (cases res) (auto split: pg_error.splits ledger_error.splits)
  with ans p run show ?thesis
    by (cases "dr_Event r") (auto simp: RecordDomainEvent_def split: option.splits intro: that)
qed

lemma domain_input_key: "domain_receipt lib (Some ev) = Some i \<Longrightarrow> r_IdempotencyKey i = domain_key (ee_Owner ev) (ee_EventId ev)"
  by (erule domain_receiptE) (simp add: domain_input_def)

lemma acknowledged_bound:
  assumes "ledger_ok lib seen"
    and "Deliver \<lparr>vl_pg = tl_pg lib, vl_event = f\<rparr> peer now r seen (fold (ledger_step lib) cs seen) = (Inr ack, s')"
  obtains ev i rid where "dr_Event r = Some ev" "peer = Some (ee_Owner ev)" "domain_receipt \<lparr>vl_pg = tl_pg lib, vl_event = f\<rparr> (Some ev) = Some i"
    "ia_EventId ack = ee_EventId ev" "receipt_bound s' (domain_key (ee_Owner ev) (ee_EventId ev)) = Some (request_hash (tl_pg lib) i, rid)"
  using assms(2)
proof (rule Deliver_InrE)
  fix ev :: EventEnvelope and i and receipt :: Receipt
  let ?l = "\<lparr>vl_pg = tl_pg lib, vl_event = f\<rparr>"
  assume *: "dr_Event r = Some ev" "peer = Some (ee_Owner ev)" "domain_receipt ?l (Some ev) = Some i"
    "recordReceipt (vl_pg ?l) now i seen (fold (ledger_step lib) cs seen) = (Inr receipt, s')"
    "ack = \<lparr>ia_EventId = ee_EventId ev, ia_Consumer = ''ledger'', ia_Committed = True, ia_Duplicate = rc_Replayed receipt,
            ia_AppliedAggregateVersion = ee_AggregateVersion ev\<rparr>"
  have "receipt_bound s' (r_IdempotencyKey i) = Some (request_hash (tl_pg lib) i, rc_ReceiptID receipt)"
    using recorded_bound [OF assms(1)] *(4) by simp
  then show ?thesis using * domain_input_key [OF *(3)] by (intro that [of ev i "rc_ReceiptID receipt"]) simp_all
qed



section \<open>Mutation of private receipts\<close>

lemma find_distinct:
  "distinct (map f xs) \<Longrightarrow> x \<in> set xs \<Longrightarrow> p x \<Longrightarrow> List.find (\<lambda>y. f y = f x \<and> p y) xs = Some x"
  by (induction xs) (auto simp: image_iff)

lemma find_receipt_id:
  "ledger_ok lib s \<Longrightarrow> row \<in> set (lp_receipts s) \<Longrightarrow> p row \<Longrightarrow>
     List.find (\<lambda>r. er_ID r = er_ID row \<and> p r) (lp_receipts s) = Some row"
  by (rule find_distinct) (simp_all add: ledger_ok_def pg_ok_def)

text \<open>
  The data-subject obligation reaches the private receipts. Reading and listing hide the typed kinds, but
  the mutation path is deliberately open to the paid and the provider kind: for such a stored receipt
  without hold, reading by identifier answers not found, and a privacy request for the same identifier
  succeeds and erases the actor and the owner from its document.
\<close>

theorem private_receipt_redactable:
  assumes "ledger_ok lib s" and "row \<in> set (lp_receipts s)"
    and "er_ReceiptType row \<in> {WalletActionReceiptType, ProviderActionReceiptType}"
    and "dec (pl_payload (tl_pg lib)) (er_PayloadJSON row) = Some (input, retention)"
    and "\<not> rt_LegalHold retention" and "gt_inst (rt_RetainUntil retention) \<le> now" and "rt_PrivacyRedaction retention = None"
    and "pi_ReceiptID i = er_ID row" and "pi_Reason i \<noteq> []" and "pi_IdempotencyKey i \<noteq> []" and "er_ID row \<noteq> []"
    and "evidenceID (tl_go lib) ''idempotency'' (''receipt-privacy:'' @ pi_IdempotencyKey i) \<notin> ky_ID ` set (lp_keys s)"
    and "redacted = redact at (pi_Reason i) \<lparr>rc_Input = input, rc_ReceiptID = er_ID row, rc_CreatedAt = er_CreatedAt row,
           rc_Retention = retention, rc_Replayed = False\<rparr>"
    and "enc (pl_payload (tl_pg lib)) (rc_Input redacted, rc_Retention redacted) \<noteq> []"
    and "enc (pl_result (tl_pg lib)) \<lparr>tr_ReceiptID = er_ID row, tr_Retention = rc_Retention redacted, tr_Replayed = False\<rparr> \<noteq> []"
  shows "pg_receipt (tl_pg lib) (pi_ReceiptID i) s = Inl (PgLedger ErrReceiptNotFound) \<and>
    (\<exists>res s' row'. pg_PrivacyDeleteReceipt (tl_pg lib) now at i s = (Inr res, s') \<and> row' \<in> set (lp_receipts s') \<and>
       er_ID row' = er_ID row \<and>
       er_PayloadJSON row' = enc (pl_payload (tl_pg lib)) (input\<lparr>r_Actor := None, r_Owner := None, r_Continuation := None\<rparr>,
         retention\<lparr>rt_PrivacyRedaction := Some \<lparr>pr_AppliedAt = at, pr_Reason = pi_Reason i, pr_Eligible = True\<rparr>\<rparr>))"
proof
  have "find_receipt_row s (er_ID row) = Some row"
    using find_receipt_id [OF assms(1,2), of "\<lambda>_. True"] by (simp add: find_receipt_row_def)
  with assms(3,8) show "pg_receipt (tl_pg lib) (pi_ReceiptID i) s = Inl (PgLedger ErrReceiptNotFound)"
    by (auto simp: pg_receipt_def)
  let ?payload = "enc (pl_payload (tl_pg lib)) (rc_Input redacted, rc_Retention redacted)"
  let ?rows = "update_rows (\<lambda>r. er_ID r = er_ID row) (\<lambda>r. r\<lparr>er_PayloadJSON := ?payload\<rparr>) (lp_receipts s)"
  have found: "List.find (\<lambda>r. er_ID r = er_ID row \<and> er_ReceiptType r \<noteq> LocalNoChargeReceiptType) (lp_receipts s) = Some row"
    using assms(3) by (intro find_receipt_id [OF assms(1,2)]) auto
  have fresh: "List.find (\<lambda>k. ky_ID k = evidenceID (tl_go lib) ''idempotency'' (''receipt-privacy:'' @ pi_IdempotencyKey i)) (lp_keys s) = None"
    unfolding find_None_iff using assms(12) by (metis image_eqI)
  have m: "redact_receipt now at i \<lparr>rc_Input = input, rc_ReceiptID = er_ID row, rc_CreatedAt = er_CreatedAt row,
      rc_Retention = retention, rc_Replayed = False\<rparr> = Inr redacted"
    using assms(5,6) by (simp add: redact_receipt_def assms(13))
  have id: "rc_ReceiptID redacted = er_ID row" by (simp add: assms(13) redact_def)
  obtain res s' where run: "pg_PrivacyDeleteReceipt (tl_pg lib) now at i s = (Inr res, s')" "lp_receipts s' = ?rows"
    using assms(8-11,14,15) fresh
    by (simp add: pg_PrivacyDeleteReceipt_def mutateReceipt_def Let_def found assms(4) m id)
  have "row\<lparr>er_PayloadJSON := ?payload\<rparr> \<in> set ?rows" using assms(2) by (auto simp: set_update_rows)
  moreover have "(rc_Input redacted, rc_Retention redacted) = (input\<lparr>r_Actor := None, r_Owner := None, r_Continuation := None\<rparr>,
         retention\<lparr>rt_PrivacyRedaction := Some \<lparr>pr_AppliedAt = at, pr_Reason = pi_Reason i, pr_Eligible = True\<rparr>\<rparr>)"
    using assms(7) by (simp add: assms(13) redact_def)
  ultimately show "\<exists>res s' row'. pg_PrivacyDeleteReceipt (tl_pg lib) now at i s = (Inr res, s') \<and> row' \<in> set (lp_receipts s') \<and>
       er_ID row' = er_ID row \<and>
       er_PayloadJSON row' = enc (pl_payload (tl_pg lib)) (input\<lparr>r_Actor := None, r_Owner := None, r_Continuation := None\<rparr>,
         retention\<lparr>rt_PrivacyRedaction := Some \<lparr>pr_AppliedAt = at, pr_Reason = pi_Reason i, pr_Eligible = True\<rparr>\<rparr>)"
    using run by (intro exI [of _ res] exI [of _ s'] exI [of _ "row\<lparr>er_PayloadJSON := ?payload\<rparr>"]) simp
qed

definition ex_privacy :: ReceiptPrivacyDeleteInput where
  "ex_privacy = \<lparr>pi_ReceiptID = ''rcpt_1'', pi_Reason = ''gdpr'', pi_IdempotencyKey = ''p''\<rparr>"

theorem private_receipt_redactable_witness:
  "pg_receipt ex_pg ''rcpt_1'' ex_charged = Inl (PgLedger ErrReceiptNotFound) \<and>
   (\<exists>res s'. pg_PrivacyDeleteReceipt ex_pg 40 40 ex_privacy ex_charged = (Inr res, s'))"
proof -
  have row: "ex_row \<in> set (lp_receipts ex_charged)" by (simp add: ex_charge(2))
  have t: "er_ReceiptType ex_row \<in> {WalletActionReceiptType, ProviderActionReceiptType}" "er_ID ex_row = ''rcpt_1''"
    "er_PayloadJSON ex_row = unary 2" "er_CreatedAt ex_row = 30"
    by (simp_all add: ex_row_def) (simp add: typed_row_def ex_pg_def)
  have d: "dec (pl_payload (tl_pg ex_typed)) (er_PayloadJSON ex_row) = Some (canon_input ex_stored_input, no_retention)"
    by (simp add: ex_store ex_pg_def listed_payloads_def t unary_def)
  have keys: "evidenceID (tl_go ex_typed) ''idempotency'' (''receipt-privacy:'' @ pi_IdempotencyKey ex_privacy) \<notin> ky_ID ` set (lp_keys ex_charged)"
  proof -
    have "ky_ID ` set (lp_keys ex_charged) = {call_key ex_typed wallet_action ex_append}"
      using arg_cong [OF ex_charge(3), of set] by simp
    then show ?thesis by (simp add: evidenceID_def call_key_def)
  qed
  have enc: "enc (pl_payload (tl_pg ex_typed)) ex_redacted \<noteq> []"
    by (simp add: ex_store ex_pg_def listed_payloads_def unary_def split: option.split)
  define redacted where "redacted = redact 40 (pi_Reason ex_privacy) \<lparr>rc_Input = canon_input ex_stored_input,
    rc_ReceiptID = er_ID ex_row, rc_CreatedAt = er_CreatedAt ex_row, rc_Retention = no_retention, rc_Replayed = False\<rparr>"
  have "(rc_Input redacted, rc_Retention redacted) = ex_redacted"
    by (simp add: redacted_def ex_redacted_def ex_privacy_def t Let_def)
  note enc' = enc [folded this]
  have res: "enc (pl_result (tl_pg ex_typed)) \<lparr>tr_ReceiptID = er_ID ex_row, tr_Retention = rc_Retention redacted, tr_Replayed = False\<rparr> \<noteq> []"
    by (simp add: ex_store ex_pg_def)
  from private_receipt_redactable [OF ex_charged_ok row t(1) d _ _ _ _ _ _ _ keys redacted_def enc' res, of 40]
  show ?thesis by (simp add: no_retention_def ex_privacy_def t ex_store) (auto simp: zero_time_def)
qed

end
