(* ===== verification/Catalog_Delivery.thy ===== *)
theory Catalog_Delivery
  imports Ledger_Events Owner_Outbox
begin

text \<open>
  The Catalog's delivery of its policy events (\<open>DeliverPolicyEvents\<close> of
  \<open>services/resource-catalog/catalog/events.go\<close>). The consumer's Inbox is a client that threads the
  state of the other side; the decoding of a payload is an argument, and one clock reading stands for
  those of a pass.
\<close>

datatype delivery_error = DeliveryStore store_error | DeliveryUnreadable

type_synonym 'w inbox_client = "DeliverEventRequest \<Rightarrow> 'w \<Rightarrow> (status + InboxAck) \<times> 'w"

definition policy_envelope :: "event \<Rightarrow> CatalogPolicyChangedEvent \<Rightarrow> EventEnvelope" where
  "policy_envelope e payload =
     \<lparr>ee_EventId = e_ID e, ee_EventType = e_EventType e, ee_SchemaVersion = e_SchemaVersion e,
      ee_Owner = ''resource_catalog'', ee_TenantId = e_TenantID e, ee_AggregateId = e_AggregateID e,
      ee_AggregateVersion = e_AggregateRevision e, ee_OccurredAt = Some (timestamp (e_OccurredAt e)),
      ee_RequestId = e_CorrelationID e, ee_Scope = (if e_TenantID e \<noteq> [] then ''tenant'' else ''platform''),
      ee_Payload = CatalogPolicyChanged payload\<rparr>"

definition acknowledged :: "string \<Rightarrow> string \<Rightarrow> status + InboxAck \<Rightarrow> bool" where
  "acknowledged consumer eventID res =
     (case res of
        Inl _ \<Rightarrow> False
      | Inr ack \<Rightarrow> ia_EventId ack = eventID \<and> ia_Consumer ack = consumer \<and> ia_Committed ack)"

definition settle_delivery ::
  "time \<Rightarrow> string \<Rightarrow> pending_delivery \<Rightarrow> status + InboxAck \<Rightarrow> owner_store \<Rightarrow> store_error + owner_store" where
  \<comment> \<open>what the pass writes after the consumer's answer\<close>
  "settle_delivery now consumer d res st =
     (if acknowledged consumer (e_ID (pd_Event d)) res
      then AcknowledgeDelivery now consumer (e_ID (pd_Event d)) st
      else RecordDeliveryFailure now (pd_DeliveryID d) ''consumer_unavailable'' (now + 5 * 1000000000) st)"

fun deliver_pending ::
  "(string \<Rightarrow> CatalogPolicyChangedEvent option) \<Rightarrow> time \<Rightarrow> string \<Rightarrow> 'w inbox_client \<Rightarrow> pending_delivery list \<Rightarrow>
   owner_store \<Rightarrow> 'w \<Rightarrow> delivery_error option \<times> owner_store \<times> 'w" where
  \<comment> \<open>the loop over the pending deliveries; an error ends it\<close>
  "deliver_pending unmarshal now consumer client [] st w = (None, st, w)"
| "deliver_pending unmarshal now consumer client (d # ds) st w =
     (if e_EventType (pd_Event d) \<noteq> ''catalog.policy_changed.v1''
      then deliver_pending unmarshal now consumer client ds st w
      else case unmarshal (e_Payload (pd_Event d)) of
        None \<Rightarrow> (Some DeliveryUnreadable, st, w)
      | Some payload \<Rightarrow>
          (case client \<lparr>dr_Event = Some (policy_envelope (pd_Event d) payload),
                        dr_AuthenticatedProducer = ''resource_catalog''\<rparr> w of
             (res, w') \<Rightarrow>
               (case settle_delivery now consumer d res st of
                  Inl err \<Rightarrow> (Some (DeliveryStore err), st, w')
                | Inr st' \<Rightarrow> deliver_pending unmarshal now consumer client ds st' w')))"

definition DeliverPolicyEvents ::
  "(string \<Rightarrow> CatalogPolicyChangedEvent option) \<Rightarrow> time \<Rightarrow> 'w inbox_client option \<Rightarrow> owner_store \<Rightarrow> 'w \<Rightarrow>
   delivery_error option \<times> owner_store \<times> 'w" where
  \<comment> \<open>the map of consumers has one entry, the Ledger\<close>
  "DeliverPolicyEvents unmarshal now ledger st w =
     (case ledger of
        None \<Rightarrow> (None, st, w)
      | Some client \<Rightarrow>
          (case PendingDeliveries now ''ledger'' 20 st of
             Inl err \<Rightarrow> (Some (DeliveryStore err), st, w)
           | Inr pending \<Rightarrow> deliver_pending unmarshal now ''ledger'' client pending st w))"

section \<open>Lemmas\<close>

lemma settle_deliveryE:
  assumes "settle_delivery now consumer d res st = Inr st'"
  obtains (acked) "acknowledged consumer (e_ID (pd_Event d)) res" "AcknowledgeDelivery now consumer (e_ID (pd_Event d)) st = Inr st'"
  | (failed) "RecordDeliveryFailure now (pd_DeliveryID d) ''consumer_unavailable'' (now + 5 * 1000000000) st = Inr st'"
  using assms by (auto simp: settle_delivery_def split: if_splits)

lemma AcknowledgeDelivery_rows:
  assumes "AcknowledgeDelivery now consumer eid st = Inr st'"
  shows "st_outbox_deliveries st' = update_rows
      (\<lambda>d. dl_event_id d = trim_space eid \<and> dl_consumer_owner d = trim_space consumer \<and> dl_acknowledged_at d = None)
      (\<lambda>d. d\<lparr>dl_acknowledged_at := Some now, dl_updated_at := now, dl_lease_token := None, dl_lease_until := None\<rparr>)
      (st_outbox_deliveries st)"
    and "st_outbox_events st' = st_outbox_events st"
  using assms by (auto simp: AcknowledgeDelivery_def Let_def split: if_splits sum.splits dest: sql_update_InrD)

lemma RecordDeliveryFailure_rows:
  assumes "RecordDeliveryFailure now did code at st = Inr st'"
  shows "\<exists>f. st_outbox_deliveries st' = update_rows (\<lambda>d. dl_id d = did \<and> dl_acknowledged_at d = None) f (st_outbox_deliveries st) \<and>
      (\<forall>d. dl_acknowledged_at (f d) = dl_acknowledged_at d)"
    and "st_outbox_events st' = st_outbox_events st"
  using assms by (auto simp: RecordDeliveryFailure_def Let_def split: if_splits sum.splits dest!: sql_update_InrD(2)
      intro!: exI)

lemma map_filter_memD: "y \<in> set (List.map_filter f xs) \<Longrightarrow> \<exists>x \<in> set xs. f x = Some y"
  by (auto simp: List.map_filter_def)

lemma pending_event:
  assumes "PendingDeliveries now consumer n st = Inr pending" and "d \<in> set pending"
  shows "\<exists>r \<in> set (st_outbox_events st). pd_Event d = scan_event r"
proof -
  from assms have "\<exists>xs. d \<in> set (List.map_filter (join_event st) xs)"
    by (auto simp: PendingDeliveries_def Let_def split: if_splits dest!: in_set_takeD)
  then obtain x where "join_event st x = Some d" by (auto dest: map_filter_memD)
  then show ?thesis by (auto simp: join_event_def dest: find_SomeD)
qed

end
