(* ===== verification/Cloud_System.thy ===== *)
theory Cloud_System
  imports Ledger_Properties Catalog_Delivery
begin

text \<open>
  The Catalog and the Ledger as one system: Catalog commands, Ledger commands whose coordinator reads
  quotes back from the Catalog, and passes of the Catalog's event delivery into the Ledger's Inbox, in any
  order. A readback may see an older Catalog, and an answer of the Inbox may be lost.
\<close>

section \<open>The system\<close>

type_synonym cloud = "catalog_db \<times> pg_ledger"

definition catalog_readback :: "catlib \<Rightarrow> env \<Rightarrow> catalog_db \<Rightarrow> CallContext \<Rightarrow> string \<Rightarrow> status + QuoteAcceptance" where
  \<comment> \<open>the Catalog as the Ledger's client sees it\<close>
  "catalog_readback L e db call qid =
     map_sum (\<lambda>err. (status_code err, [])) id
       (ReadQuoteResourcePlan (e\<lparr>ev_lib := L, ev_peer := Some ''ledger''\<rparr>) (Some call) qid db)"

fun wired :: "catlib \<Rightarrow> env \<Rightarrow> catalog_db \<Rightarrow> ledger_command \<Rightarrow> ledger_command" where
  "wired L e seen (LedgerAppend co r) =
     LedgerAppend (co\<lparr>co_catalog := map_option (\<lambda>_. catalog_readback L e seen) (co_catalog co)\<rparr>) r"
| "wired L e seen c = c"

definition ledger_inbox ::
  "typedlib \<Rightarrow> (EventEnvelope \<Rightarrow> json option) \<Rightarrow> time \<Rightarrow> (DeliverEventRequest \<Rightarrow> bool) \<Rightarrow> pg_ledger inbox_client" where
  \<comment> \<open>the Ledger's Inbox as the Catalog sees it: a lost answer is an error\<close>
  "ledger_inbox lib f now lost r s =
     (case Deliver \<lparr>vl_pg = tl_pg lib, vl_event = f\<rparr> (Some ''resource_catalog'') now r s s of
        (res, s') \<Rightarrow> (if lost r then Inl (DeadlineExceeded, []) else res, s'))"

definition trimmed_events :: "owner_store \<Rightarrow> bool" where
  \<comment> \<open>event identifiers are printed from random bytes: they have no white space at their ends\<close>
  "trimmed_events st \<longleftrightarrow> list_all (\<lambda>r. trim_space (ob_id r) = ob_id r) (st_outbox_events st)"

inductive cat_later :: "catlib \<Rightarrow> catalog_db \<Rightarrow> catalog_db \<Rightarrow> bool" for L where
  now: "cat_later L db db"
| command: "cat_later L seen db \<Longrightarrow> cat_later L seen (cat_step L c db)"
| outbox: "cat_later L seen db \<Longrightarrow> outbox_ok st \<Longrightarrow> cat_later L seen (db\<lparr>cd_store := st\<rparr>)"

inductive cloud_step :: "catlib \<Rightarrow> typedlib \<Rightarrow> cloud \<Rightarrow> cloud \<Rightarrow> bool" for L lib where
  catalog: "cloud_step L lib (db, s) (cat_step L c db, s)"
| ledger: "cat_ok L seen \<Longrightarrow> cat_later L seen db \<Longrightarrow> cloud_step L lib (db, s) (db, ledger_step lib (wired L e seen c) s)"
| delivery: "trimmed_events (cd_store db) \<Longrightarrow>
    DeliverPolicyEvents unmarshal now (Some (ledger_inbox lib f now lost)) (cd_store db) s = (err, st, s') \<Longrightarrow>
    cloud_step L lib (db, s) (db\<lparr>cd_store := st\<rparr>, s')"

inductive_cases cloud_stepE: "cloud_step L lib x y"

section \<open>The Catalog as time passes\<close>

lemma cat_later_ok:
  assumes "codecs_ok L" and "cat_later L seen db" and "cat_ok L seen"
  shows "cat_ok L db"
  using assms(2,3) by induction (simp_all add: cat_step_ok cat_ok_store assms(1) del: cat_step.simps)

lemma accepted_step:
  assumes "codecs_ok L" and "cat_ok L db" and "find_quote db qid tid = Some r" and "qt_status r = ''accepted''"
  shows "find_quote (cat_step L c db) qid tid = Some r \<and>
         readQuoteLines False (cat_step L c db) qid = readQuoteLines False db qid"
  using committed_quote [OF assms(2) cat_step_committed [OF assms(1)] assms(3), of c False] assms(4)
  by (auto dest: quote_evolves_final)

text \<open>What the Catalog holds for an accepted quote, and that it holds it for good.\<close>

definition accepted_as :: "catlib \<Rightarrow> catalog_db \<Rightarrow> QuoteAcceptance \<Rightarrow> bool" where
  "accepted_as L db q \<longleftrightarrow> (\<exists>tid row sn. find_quote db (qu_Id (qa_Quote q)) tid = Some row \<and> qt_status row = ''accepted'' \<and>
     qt_accepted_by row = Some (qa_ObligationId q) \<and> dec (cl_snapshot L) (qt_admission_snapshot row) = Some sn \<and>
     acceptance_of L db row sn = Some q)"

lemma accepted_as_step:
  assumes "codecs_ok L" and "cat_ok L db" and "accepted_as L db q"
  shows "accepted_as L (cat_step L c db) q"
proof -
  from assms(3) obtain tid row sn where row: "find_quote db (qu_Id (qa_Quote q)) tid = Some row" "qt_status row = ''accepted''"
    "qt_accepted_by row = Some (qa_ObligationId q)" "dec (cl_snapshot L) (qt_admission_snapshot row) = Some sn"
    "acceptance_of L db row sn = Some q" unfolding accepted_as_def by blast
  note kept = accepted_step [OF assms(1,2) row(1,2), of c]
  have "acceptance_of L (cat_step L c db) row sn = Some q"
    using row(5) acceptance_of_cong [of "cat_step L c db" row db] kept find_quoteD [OF row(1)] by simp
  with row kept show ?thesis unfolding accepted_as_def by blast
qed

lemma accepted_as_store: "accepted_as L (db\<lparr>cd_store := st\<rparr>) q = accepted_as L db q"
proof -
  have "acceptance_of L (db\<lparr>cd_store := st\<rparr>) row sn = acceptance_of L db row sn" for row sn
    by (rule acceptance_of_cong) (simp add: readQuoteLines_def)
  then show ?thesis by (simp add: accepted_as_def find_quote_def)
qed

lemma accepted_as_later:
  assumes "codecs_ok L" and "cat_later L seen db" and "cat_ok L seen" and "accepted_as L seen q"
  shows "accepted_as L db q"
  using assms(2-4)
  by induction (simp_all add: accepted_as_step accepted_as_store assms(1) cat_later_ok [OF assms(1)] del: cat_step.simps)

lemma accepted_once:
  assumes "cat_ok L db" and "accepted_as L db p" and "accepted_as L db q" and "qa_ObligationId p = qa_ObligationId q"
  shows "p = q"
proof -
  from assms(2) obtain tid row sn where p: "find_quote db (qu_Id (qa_Quote p)) tid = Some row"
    "qt_accepted_by row = Some (qa_ObligationId p)" "dec (cl_snapshot L) (qt_admission_snapshot row) = Some sn"
    "acceptance_of L db row sn = Some p" unfolding accepted_as_def by blast
  from assms(3) obtain tid' row' sn' where q: "find_quote db (qu_Id (qa_Quote q)) tid' = Some row'"
    "qt_accepted_by row' = Some (qa_ObligationId q)" "dec (cl_snapshot L) (qt_admission_snapshot row') = Some sn'"
    "acceptance_of L db row' sn' = Some q" unfolding accepted_as_def by blast
  have "row = row'"
    using assms(1,4) find_quoteD [OF p(1)] find_quoteD [OF q(1)] p(2) q(2)
    by (intro table_ok_unique [of quote_check quote_clash "cd_quotes db"]) (simp_all add: cat_ok_def quote_clash_def)
  with p q show ?thesis by simp
qed

section \<open>Funding\<close>

lemma quote_status:
  assumes "cat_ok L db" and "row \<in> set (cd_quotes db)" and "enum_member [''OFFERED'', ''ACCEPTED'', ''EXPIRED''] (qt_status row) = ''ACCEPTED''"
  shows "qt_status row = ''accepted''"
proof -
  have "table_ok quote_check quote_clash (cd_quotes db)" using assms(1) by (simp add: cat_ok_def)
  then have "quote_check row" using assms(2) by (simp add: table_ok_def list_all_iff)
  then have "qt_status row \<in> {''offered'', ''accepted'', ''expired''}" unfolding quote_check_def by blast
  moreover have "enum_member [''OFFERED'', ''ACCEPTED'', ''EXPIRED''] ''offered'' = ''OFFERED''"
    "enum_member [''OFFERED'', ''ACCEPTED'', ''EXPIRED''] ''expired'' = ''EXPIRED''" by code_simp+
  ultimately show ?thesis using assms(3) by auto
qed

lemma readback_accepted:
  assumes ok: "cat_ok (ev_lib e) db" and run: "ReadQuoteResourcePlan e call qid db = Inr q"
    and "qu_Status (qa_Quote q) = ''ACCEPTED''" and "qa_ObligationId q \<noteq> []"
  shows "accepted_as (ev_lib e) db q"
proof -
  let ?t = "call_tenant call"
  from run obtain row quote sn where row: "find_quote db qid ?t = Some row" "scan_quote False (ev_lib e) db row = Inr quote"
    "dec (cl_snapshot (ev_lib e)) (qt_admission_snapshot row) = Some sn" "qa_Quote q = quote"
    "qa_ObligationId q = coalesce_str (qt_accepted_by row)" "qa_ResourcePlan q = qs_ResourcePlan sn"
    "qa_WorkspaceId q = qs_AcceptedWorkspaceID sn"
    and d: "qu_Status quote = ''ACCEPTED'' \<longrightarrow> (\<exists>d. acceptedSnapshotDigest (ev_lib e) quote = Inr d \<and>
        qa_AcceptanceId q = acceptanceID (qu_Id quote) \<and> qa_SnapshotDigest q = d)"
    unfolding ReadQuoteResourcePlan_def readQuoteTx_def Let_def
    by (auto split: if_splits option.splits sum.splits)
  have id: "qu_Id quote = qt_id row" "qu_Status quote = enum_member [''OFFERED'', ''ACCEPTED'', ''EXPIRED''] (qt_status row)"
    using row(2) by (auto simp: scan_quote_def split: option.splits)
  have st: "qt_status row = ''accepted''"
    using quote_status [OF ok _] find_quoteD [OF row(1)] assms(3) row(4) id(2) by simp
  have self: "quote\<lparr>qu_Status := ''ACCEPTED''\<rparr> = quote" using assms(3) row(4) by (cases quote) simp
  have "acceptance_of (ev_lib e) db row sn = Some q"
    using d assms(3) row id(1) by (auto simp: acceptance_of_def self)
  moreover have "qt_accepted_by row = Some (qa_ObligationId q)"
    using assms(4) row(5) by (cases "qt_accepted_by row") (auto simp: coalesce_str_def)
  ultimately show ?thesis
    unfolding accepted_as_def using row(1,3,4) st id(1) find_quoteD [OF row(1)] by (intro exI [of _ ?t] exI [of _ row] exI [of _ sn]) simp
qed

definition row_backed :: "catlib \<Rightarrow> typedlib \<Rightarrow> catalog_db \<Rightarrow> receipt_kind \<Rightarrow> evidence_row \<Rightarrow> bool" where
  \<comment> \<open>the quote in the evidence of a funded receipt is what the Catalog holds, in the kind's billing mode\<close>
  "row_backed L lib db k row \<longleftrightarrow> (\<exists>rec q. decode_typed lib k (er_PayloadJSON row) = Inr rec \<and>
     te_QuoteAcceptance (yr_Evidence rec) = Some q \<and> accepted_as L db q \<and>
     (k = wallet_action \<longleftrightarrow> plan_member rp_BillingMode q \<noteq> ''LOCAL_NO_CHARGE''))"

definition backed :: "catlib \<Rightarrow> typedlib \<Rightarrow> cloud \<Rightarrow> bool" where
  "backed L lib x \<longleftrightarrow> (\<forall>row \<in> set (lp_receipts (snd x)). \<forall>k \<in> {wallet_action, local_no_charge}.
     er_ReceiptType row = rk_Type k \<longrightarrow> row_backed L lib (fst x) k row)"

definition cloud_ok :: "catlib \<Rightarrow> typedlib \<Rightarrow> cloud \<Rightarrow> bool" where
  "cloud_ok L lib x \<longleftrightarrow> cat_ok L (fst x) \<and> ledger_ok lib (snd x) \<and> backed L lib x"

lemma funded_shape:
  assumes "k \<in> {wallet_action, local_no_charge}" and "rk_Validate k r = None" and "an_QuoteAcceptance r = Some q"
    and "rk_Evidence k r = Some ev"
  shows "qu_Status (qa_Quote q) = ''ACCEPTED''" and "qa_ObligationId q \<noteq> []" and "te_QuoteAcceptance ev = Some q"
  using assms
  by (auto simp: kind_defs ValidateWalletActionReceiptInput_def ValidateLocalNoChargeReceiptInput_def order_shape_def
      call_shape_def request_evidence_def split: option.splits if_splits)

lemma readAcceptedQuote_wired:
  assumes "readAcceptedQuote co r paid = None" and "co_catalog co = map_option (\<lambda>_. catalog_readback L e seen) x"
  obtains q call where "an_QuoteAcceptance r = Some q" "catalog_readback L e seen call (qu_Id (qa_Quote q)) = Inr q"
    "paid \<longleftrightarrow> plan_member rp_BillingMode q \<noteq> ''LOCAL_NO_CHARGE''"
  using assms by (auto simp: readAcceptedQuote_def split: option.splits sum.splits if_splits)

lemma appended_backed:
  assumes cat: "codecs_ok L" "cat_ok L seen" "cat_later L seen db"
    and row: "appended_ok lib (command_checked lib (wired L e seen c)) row"
    and k: "k \<in> {wallet_action, local_no_charge}" "er_ReceiptType row = rk_Type k"
  shows "row_backed L lib db k row"
proof -
  have "k \<in> set kinds" and np: "k \<noteq> provider_action" using k(1) kinds_distinct by (auto dest: sym)
  with row k(2) obtain r ev t rec where r: "command_checked lib (wired L e seen c) k r" "rk_Validate k r = None"
    "rk_Evidence k r = Some ev" "decode_typed lib k (er_PayloadJSON row) = Inr rec" "yr_Evidence rec = stamp (er_ID row) t ev"
    unfolding appended_ok_def by blast
  from r(1) obtain co where "c = LedgerAppend co r"
    by (cases c) (auto simp: command_checked_def)
  with r(1) np have "readAcceptedQuote (co\<lparr>co_catalog := map_option (\<lambda>_. catalog_readback L e seen) (co_catalog co), co_lib := lib\<rparr>)
      r (k = wallet_action) = None" by (simp add: command_checked_def quote_checked_def)
  then obtain q call where q: "an_QuoteAcceptance r = Some q" "catalog_readback L e seen call (qu_Id (qa_Quote q)) = Inr q"
    "k = wallet_action \<longleftrightarrow> plan_member rp_BillingMode q \<noteq> ''LOCAL_NO_CHARGE''"
    by (rule readAcceptedQuote_wired [where x = "co_catalog co"]) simp
  note shape = funded_shape [OF k(1) r(2) q(1) r(3)]
  have "accepted_as L seen q"
    using readback_accepted [of "e\<lparr>ev_lib := L, ev_peer := Some ''ledger''\<rparr>" seen "Some call" "qu_Id (qa_Quote q)" q]
      cat(2) q(2) shape(1,2)
    by (cases "ReadQuoteResourcePlan (e\<lparr>ev_lib := L, ev_peer := Some ''ledger''\<rparr>) (Some call) (qu_Id (qa_Quote q)) seen")
       (auto simp: catalog_readback_def)
  then have "accepted_as L db q" by (rule accepted_as_later [OF cat(1,3,2)])
  with r(4,5) q(3) shape(3) show ?thesis unfolding row_backed_def by (auto simp: stamp_def)
qed

lemma row_backed_rewritten:
  assumes "rewriting lib s f" and "row \<in> set (lp_receipts s)" and "row_backed L lib db k row"
  shows "row_backed L lib db k (f row)"
proof -
  from assms(3) obtain rec q where rec: "decode_typed lib k (er_PayloadJSON row) = Inr rec"
    "te_QuoteAcceptance (yr_Evidence rec) = Some q" "accepted_as L db q"
    "k = wallet_action \<longleftrightarrow> plan_member rp_BillingMode q \<noteq> ''LOCAL_NO_CHARGE''" unfolding row_backed_def by blast
  from assms(1,2) rec(1) obtain rec' where "decode_typed lib k (er_PayloadJSON (f row)) = Inr rec'" "same_evidence rec rec'"
    unfolding rewriting_def by blast
  with rec show ?thesis unfolding row_backed_def same_evidence_def by auto
qed

lemma moves_backed:
  assumes "moves lib checked s s'" and "backed L lib (db, s)"
    and new: "\<And>row k. appended_ok lib checked row \<Longrightarrow> k \<in> {wallet_action, local_no_charge} \<Longrightarrow> er_ReceiptType row = rk_Type k \<Longrightarrow>
      row_backed L lib db k row"
  shows "backed L lib (db, s')"
proof -
  from assms(1) obtain f new where f: "lp_receipts s' = map f (lp_receipts s) @ new" "rewriting lib s f"
    "list_all (appended_ok lib checked) new" unfolding moves_def by blast
  have "row_backed L lib db k (f row)" if "row \<in> set (lp_receipts s)" "k \<in> {wallet_action, local_no_charge}"
    "er_ReceiptType (f row) = rk_Type k" for row k
  proof -
    have "er_ReceiptType (f row) = er_ReceiptType row" using f(2) that(1) by (auto simp: rewriting_def row_identity_def)
    with that assms(2) show ?thesis by (intro row_backed_rewritten [OF f(2)]) (auto simp: backed_def)
  qed
  with new f(3) show ?thesis unfolding backed_def by (auto simp: f(1) list_all_iff)
qed

lemma plain_moves_backed: "moves lib (\<lambda>k r. False) s s' \<Longrightarrow> backed L lib (db, s) \<Longrightarrow> backed L lib (db, s')"
  by (erule moves_backed) (auto simp: appended_ok_def)

lemma ledger_inbox_step:
  "snd (ledger_inbox lib f now lost r s) = ledger_step lib (LedgerDeliver f (Some ''resource_catalog'') now r s) s"
  by (simp add: ledger_inbox_def split: prod.split)

lemma inbox_keeps:
  assumes "ledger_ok lib s" and "backed L lib (db, s)" and "ledger_inbox lib f now lost r s = (res, s')"
  shows "ledger_ok lib s'" and "backed L lib (db, s')" and "receipt_bound s k = Some x \<Longrightarrow> receipt_bound s' k = Some x"
proof -
  let ?c = "LedgerDeliver f (Some ''resource_catalog'') now r s"
  have s': "s' = ledger_step lib ?c s" using ledger_inbox_step [of lib f now lost r s] assms(3) by simp
  show "ledger_ok lib s'" unfolding s' by (rule ledger_step_ok [OF assms(1)])
  have "command_checked lib ?c = (\<lambda>k r. False)" by (intro ext) (simp add: command_checked_def)
  with ledger_step_moves [OF assms(1), of ?c] have "moves lib (\<lambda>k r. False) s s'" unfolding s' by simp
  then show "backed L lib (db, s')" by (rule plain_moves_backed [OF _ assms(2)])
  show "receipt_bound s k = Some x \<Longrightarrow> receipt_bound s' k = Some x"
    unfolding s' by (rule bound_store.final_step [OF assms(1) _ TrueI])
qed

section \<open>Delivery\<close>

definition delivered :: "owner_store \<Rightarrow> pg_ledger \<Rightarrow> bool" where
  \<comment> \<open>what the Catalog believes delivered, the Ledger holds\<close>
  "delivered st s \<longleftrightarrow>
     (\<forall>d \<in> set (st_outbox_deliveries st). dl_consumer_owner d = ''ledger'' \<and> dl_acknowledged_at d \<noteq> None \<longrightarrow>
        receipt_bound s (domain_key ''resource_catalog'' (dl_event_id d)) \<noteq> None)"

lemma trim_ledger: "trim_space ''ledger'' = ''ledger''"
  by code_simp

lemma settle_keeps:
  assumes "settle_delivery now ''ledger'' d res st = Inr st'" and "outbox_ok st"
  shows "outbox_ok st'" and "st_outbox_events st' = st_outbox_events st"
  using assms(1)
  by (cases rule: settle_deliveryE, auto dest: AcknowledgeDelivery_outbox_ok [OF assms(2)] RecordDeliveryFailure_outbox_ok [OF assms(2)]
      AcknowledgeDelivery_rows(2) RecordDeliveryFailure_rows(2))+

lemma inbox_acknowledged:
  assumes "ledger_ok lib s" and "ledger_inbox lib f now lost \<lparr>dr_Event = Some ev, dr_AuthenticatedProducer = p\<rparr> s = (res, s')"
    and "acknowledged c (ee_EventId ev) res" and "ee_Owner ev = ''resource_catalog''"
  shows "receipt_bound s' (domain_key ''resource_catalog'' (ee_EventId ev)) \<noteq> None"
proof -
  let ?l = "\<lparr>vl_pg = tl_pg lib, vl_event = f\<rparr>" and ?r = "\<lparr>dr_Event = Some ev, dr_AuthenticatedProducer = p\<rparr>"
  from assms(2,3) obtain ack where "Deliver ?l (Some ''resource_catalog'') now ?r s (fold (ledger_step lib) [] s) = (Inr ack, s')"
    by (auto simp: ledger_inbox_def acknowledged_def split: prod.splits if_splits sum.splits)
  then show ?thesis by (rule acknowledged_bound [OF assms(1)]) (use assms(4) in auto)
qed

lemma settle_delivered:
  assumes ok: "ledger_ok lib s" and trimmed: "trimmed_events st" and d: "delivered st s" and ev: "pd_Event d = scan_event r" "r \<in> set (st_outbox_events st)"
    and client: "ledger_inbox lib f now lost \<lparr>dr_Event = Some (policy_envelope (pd_Event d) payload),
        dr_AuthenticatedProducer = ''resource_catalog''\<rparr> s = (res, s')"
    and keeps: "\<And>k x. receipt_bound s k = Some x \<Longrightarrow> receipt_bound s' k = Some x"
    and settle: "settle_delivery now ''ledger'' d res st = Inr st'"
  shows "delivered st' s'"
proof -
  have old: "receipt_bound s' k \<noteq> None" if "receipt_bound s k \<noteq> None" for k using keeps that by blast
  have id: "e_ID (pd_Event d) = ob_id r" "trim_space (ob_id r) = ob_id r" using ev trimmed by (auto simp: scan_event_def trimmed_events_def list_all_iff)
  from settle show ?thesis
  proof (cases rule: settle_deliveryE)
    case acked
    have "receipt_bound s' (domain_key ''resource_catalog'' (ob_id r)) \<noteq> None"
      using inbox_acknowledged [OF ok client, of "''ledger''"] acked(1) id(1) by (simp add: policy_envelope_def)
    with d old show ?thesis
      unfolding delivered_def AcknowledgeDelivery_rows [OF acked(2)] by (auto simp: set_update_rows id trim_ledger)
  next
    case failed
    from RecordDeliveryFailure_rows [OF failed] obtain g where
      "st_outbox_deliveries st' = update_rows (\<lambda>x. dl_id x = pd_DeliveryID d \<and> dl_acknowledged_at x = None) g (st_outbox_deliveries st)"
      "\<forall>x. dl_acknowledged_at (g x) = dl_acknowledged_at x" "st_outbox_events st' = st_outbox_events st" by blast
    with d old show ?thesis unfolding delivered_def by (auto simp: set_update_rows)
  qed
qed

lemma pass_keeps:
  assumes "deliver_pending unmarshal now ''ledger'' (ledger_inbox lib f now lost) ds st s = (err, st', s')"
    and "outbox_ok st" and "ledger_ok lib s" and "backed L lib (db, s)" and "trimmed_events st"
    and "\<And>d. d \<in> set ds \<Longrightarrow> \<exists>r \<in> set (st_outbox_events st). pd_Event d = scan_event r"
  shows "outbox_ok st' \<and> ledger_ok lib s' \<and> backed L lib (db, s') \<and> (delivered st s \<longrightarrow> delivered st' s')"
  using assms
proof (induction ds arbitrary: st s)
  case (Cons d ds)
  show ?case
  proof (cases "e_EventType (pd_Event d) \<noteq> ''catalog.policy_changed.v1''")
    case True
    with Cons show ?thesis by auto
  next
    case False
    show ?thesis
    proof (cases "unmarshal (e_Payload (pd_Event d))")
      case None
      with Cons.prems False show ?thesis by auto
    next
      case (Some payload)
      let ?req = "\<lparr>dr_Event = Some (policy_envelope (pd_Event d) payload), dr_AuthenticatedProducer = ''resource_catalog''\<rparr>"
      obtain res s1 where client: "ledger_inbox lib f now lost ?req s = (res, s1)" by fastforce
      note kept = inbox_keeps [OF Cons.prems(3,4) client]
      from Cons.prems(6) obtain r where r: "r \<in> set (st_outbox_events st)" "pd_Event d = scan_event r" by fastforce
      show ?thesis
      proof (cases "settle_delivery now ''ledger'' d res st")
        case (Inl e)
        with Cons.prems(1,2) False Some client have "st' = st" "s' = s1" by auto
        moreover have "delivered st s \<Longrightarrow> delivered st s1" using kept(3) unfolding delivered_def by blast
        ultimately show ?thesis using kept(1,2) Cons.prems(2) by blast
      next
        case (Inr st1)
        with Cons.prems(1) False Some client
        have rest: "deliver_pending unmarshal now ''ledger'' (ledger_inbox lib f now lost) ds st1 s1 = (err, st', s')" by simp
        note st1 = settle_keeps [OF Inr Cons.prems(2)]
        have "\<And>d. d \<in> set ds \<Longrightarrow> \<exists>r \<in> set (st_outbox_events st1). pd_Event d = scan_event r"
          using Cons.prems(6) st1(2) by simp
        moreover have "trimmed_events st1" using Cons.prems(5) st1(2) by (simp add: trimmed_events_def)
        ultimately show ?thesis
          using Cons.IH [OF rest st1(1) kept(1,2)] settle_delivered [OF Cons.prems(3,5) _ r(2,1) client kept(3) Inr] by blast
      qed
    qed
  qed
qed simp

lemma delivery_keeps:
  assumes "DeliverPolicyEvents unmarshal now (Some (ledger_inbox lib f now lost)) st s = (err, st', s')"
    and "outbox_ok st" and "ledger_ok lib s" and "backed L lib (db, s)" and "trimmed_events st"
  shows "outbox_ok st' \<and> ledger_ok lib s' \<and> backed L lib (db, s') \<and> (delivered st s \<longrightarrow> delivered st' s')"
proof (cases "PendingDeliveries now ''ledger'' 20 st")
  case (Inl e)
  with assms show ?thesis by (simp add: DeliverPolicyEvents_def)
next
  case (Inr pending)
  with assms(1) have "deliver_pending unmarshal now ''ledger'' (ledger_inbox lib f now lost) pending st s = (err, st', s')"
    by (simp add: DeliverPolicyEvents_def)
  then show ?thesis using assms(2-5) pending_event [OF Inr] by (rule pass_keeps)
qed

section \<open>Every reachable state\<close>

lemma backed_step:
  assumes "codecs_ok L" and "cat_ok L db" and "backed L lib (db, s)"
  shows "backed L lib (cat_step L c db, s)"
proof -
  have "row_backed L lib (cat_step L c db) k row" if "row_backed L lib db k row" for k row
    using that accepted_as_step [OF assms(1,2)] unfolding row_backed_def by blast
  with assms(3) show ?thesis by (simp add: backed_def del: cat_step.simps)
qed

lemma backed_store: "backed L lib (db\<lparr>cd_store := st\<rparr>, s) = backed L lib (db, s)"
  by (simp add: backed_def row_backed_def accepted_as_store)

lemma cloud_step_ok:
  assumes "codecs_ok L" and "cloud_step L lib x y" and "cloud_ok L lib x"
  shows "cloud_ok L lib y"
  using assms(2)
proof cases
  case (catalog db s c)
  with assms(1,3) show ?thesis by (simp add: cloud_ok_def cat_step_ok backed_step del: cat_step.simps)
next
  case (ledger seen db s e c)
  have "backed L lib (db, ledger_step lib (wired L e seen c) s)"
  proof (rule moves_backed [OF ledger_step_moves])
    show "ledger_ok lib s" "backed L lib (db, s)" using assms(3) ledger(1) by (simp_all add: cloud_ok_def)
  qed (rule appended_backed [OF assms(1) ledger(3,4)])
  with ledger assms(3) show ?thesis by (simp add: cloud_ok_def ledger_step_ok del: ledger_step.simps)
next
  case (delivery db unmarshal now f lost s err st s')
  have "outbox_ok (cd_store db)" using assms(3) delivery(1) by (simp add: cloud_ok_def cat_ok_def)
  with delivery_keeps [OF delivery(4) this _ _ delivery(3), of L db] delivery(1,2) assms(3) show ?thesis
    by (simp add: cloud_ok_def cat_ok_store backed_store)
qed

lemma reachable_ok:
  assumes "codecs_ok L" and "(cloud_step L lib)\<^sup>*\<^sup>* x y" and "cloud_ok L lib x"
  shows "cloud_ok L lib y"
  using assms(2,3) by induction (auto intro: cloud_step_ok [OF assms(1)])

lemma cloud_ok_start: "cat_ok L db \<Longrightarrow> ledger_lib_ok lib \<Longrightarrow> cloud_ok L lib (db, empty_pg)"
  by (simp add: cloud_ok_def backed_def) (simp add: empty_pg_def)

text \<open>
  C2: No order is both charged and free. In every state of the system, whatever commands of the Catalog
  and the Ledger and deliveries between them have run, a confirmed wallet charge and a no-charge receipt
  in the Ledger never carry the same obligation: the quotes in their evidence are quotes the Catalog holds
  as accepted, an obligation accepts one quote only, and the frozen billing mode of that quote admits one
  of the two kinds.
\<close>

theorem obligation_funded_one_way:
  assumes "codecs_ok L" and "cat_ok L db0" and "ledger_lib_ok lib"
    and "(cloud_step L lib)\<^sup>*\<^sup>* (db0, empty_pg) (db, s)"
    and "a \<in> set (lp_receipts s)" and "er_ReceiptType a = WalletActionReceiptType"
  shows "\<exists>ra p. decode_typed lib wallet_action (er_PayloadJSON a) = Inr ra \<and> te_QuoteAcceptance (yr_Evidence ra) = Some p \<and>
    (\<forall>b. b \<in> set (lp_receipts s) \<and> er_ReceiptType b = LocalNoChargeReceiptType \<longrightarrow>
       (\<exists>rb q. decode_typed lib local_no_charge (er_PayloadJSON b) = Inr rb \<and> te_QuoteAcceptance (yr_Evidence rb) = Some q \<and>
          qa_ObligationId q \<noteq> qa_ObligationId p))"
proof -
  have ok: "cloud_ok L lib (db, s)" by (rule reachable_ok [OF assms(1,4) cloud_ok_start [OF assms(2,3)]])
  then have "row_backed L lib db wallet_action a" using assms(5,6) by (auto simp: cloud_ok_def backed_def)
  then obtain ra p where p: "decode_typed lib wallet_action (er_PayloadJSON a) = Inr ra"
    "te_QuoteAcceptance (yr_Evidence ra) = Some p" "accepted_as L db p" "plan_member rp_BillingMode p \<noteq> ''LOCAL_NO_CHARGE''"
    unfolding row_backed_def by auto
  have "\<exists>rb q. decode_typed lib local_no_charge (er_PayloadJSON b) = Inr rb \<and> te_QuoteAcceptance (yr_Evidence rb) = Some q \<and>
      qa_ObligationId q \<noteq> qa_ObligationId p"
    if "b \<in> set (lp_receipts s)" "er_ReceiptType b = LocalNoChargeReceiptType" for b
  proof -
    have "row_backed L lib db local_no_charge b" using ok that by (auto simp: cloud_ok_def backed_def)
    then obtain rb q where "decode_typed lib local_no_charge (er_PayloadJSON b) = Inr rb"
      "te_QuoteAcceptance (yr_Evidence rb) = Some q" "accepted_as L db q" "plan_member rp_BillingMode q = ''LOCAL_NO_CHARGE''"
      unfolding row_backed_def by auto
    with accepted_once [of L db q p] ok p(3,4) show ?thesis by (auto simp: cloud_ok_def)
  qed
  with p show ?thesis by blast
qed

text \<open>
  C1: Every recorded charge is the accepted price. In every state of the system a wallet receipt in the
  Ledger carries a confirmed charge whose amount is the total of a quote that the Catalog still holds as
  accepted by exactly that obligation, with the same plan and price as when it was accepted.
\<close>

theorem charge_is_accepted_price:
  assumes "codecs_ok L" and "cat_ok L db0" and "ledger_lib_ok lib"
    and "(cloud_step L lib)\<^sup>*\<^sup>* (db0, empty_pg) (db, s)"
    and "row \<in> set (lp_receipts s)" and "er_ReceiptType row = WalletActionReceiptType"
  shows "\<exists>rec q w tid qrow sn. decode_typed lib wallet_action (er_PayloadJSON row) = Inr rec \<and>
    te_QuoteAcceptance (yr_Evidence rec) = Some q \<and> te_WalletOperation (yr_Evidence rec) = Some w \<and>
    wo_Kind w = ''CHARGE'' \<and> wo_Status w = ''CONFIRMED'' \<and> wo_AmountUsdMicros w = qt_total_usd_micros qrow \<and>
    0 < wo_AmountUsdMicros w \<and> find_quote db (qu_Id (qa_Quote q)) tid = Some qrow \<and> qt_status qrow = ''accepted'' \<and>
    qt_accepted_by qrow = Some (qa_ObligationId q) \<and> dec (cl_snapshot L) (qt_admission_snapshot qrow) = Some sn \<and>
    qs_ResourcePlan sn = qa_ResourcePlan q"
proof -
  have ok: "cloud_ok L lib (db, s)" by (rule reachable_ok [OF assms(1,4) cloud_ok_start [OF assms(2,3)]])
  then have "row_backed L lib db wallet_action row" using assms(5,6) by (auto simp: cloud_ok_def backed_def)
  then obtain rec q where rec: "decode_typed lib wallet_action (er_PayloadJSON row) = Inr rec"
    "te_QuoteAcceptance (yr_Evidence rec) = Some q" "accepted_as L db q" unfolding row_backed_def by blast
  from rec(3) obtain tid qrow sn where q: "find_quote db (qu_Id (qa_Quote q)) tid = Some qrow" "qt_status qrow = ''accepted''"
    "qt_accepted_by qrow = Some (qa_ObligationId q)" "dec (cl_snapshot L) (qt_admission_snapshot qrow) = Some sn"
    "acceptance_of L db qrow sn = Some q" unfolding accepted_as_def by blast
  from q(5) have total: "qu_TotalUsdMicros (qa_Quote q) = qt_total_usd_micros qrow" "qs_ResourcePlan sn = qa_ResourcePlan q"
    by (auto simp: acceptance_of_def scan_quote_def split: sum.splits option.splits)
  have "typed_origin lib wallet_action row" using ok assms(5,6) by (auto simp: cloud_ok_def ledger_ok_def typed_rows_ok_def)
  then obtain r ev t where o: "rk_Validate wallet_action r = None" "rk_Evidence wallet_action r = Some ev"
    "yr_Evidence rec = stamp (er_ID row) t ev" using rec(1) unfolding typed_origin_def by auto
  have "te_QuoteAcceptance ev = Some q" using rec(2) o(3) by (simp add: stamp_def)
  then obtain w where "te_WalletOperation ev = Some w" "wo_Kind w = ''CHARGE''" "wo_Status w = ''CONFIRMED''"
    "wo_AmountUsdMicros w = qu_TotalUsdMicros (qa_Quote q)" "0 < qu_TotalUsdMicros (qa_Quote q)"
    using o(1,2)
    by (auto simp: wallet_action_def ValidateWalletActionReceiptInput_def request_evidence_def split: option.splits if_splits)
  then show ?thesis using rec q total o(3)
    by (intro exI [of _ rec] exI [of _ q] exI [of _ w] exI [of _ tid] exI [of _ qrow] exI [of _ sn]) (simp add: stamp_def)
qed

lemma cat_step_delivered:
  assumes "codecs_ok L" and "delivered (cd_store db) s"
  shows "delivered (cd_store (cat_step L c db)) s"
proof -
  have eff: "delivered (cd_store db') s" if "effect L db db'" for db'
    using that
  proof cases
    case (publish_price row rows now ev st)
    then show ?thesis using assms(2) by (auto simp: delivered_def elim!: AppendEvent_InrD)
  qed (use assms(2) in \<open>auto dest!: insertQuoteItems_Inr(1)\<close>)
  have idem: "st_outbox_deliveries st' = st_outbox_deliveries st" if "RecordIdempotency now i st = Inr st'" for now i st st'
    using that by (auto simp: RecordIdempotency_def Let_def split: option.splits sum.splits if_splits)
  from cat_step_committed [OF assms(1), of db c] show ?thesis
    by (cases rule: committedE) (use assms(2) eff idem in \<open>auto simp: delivered_def\<close>)
qed

lemma cloud_step_delivered:
  assumes "codecs_ok L" and "cloud_step L lib x y" and "cloud_ok L lib x" and "delivered (cd_store (fst x)) (snd x)"
  shows "delivered (cd_store (fst y)) (snd y)"
  using assms(2)
proof cases
  case (catalog db s c)
  with cat_step_delivered [OF assms(1)] assms(4) show ?thesis by simp
next
  case (ledger seen db s e c)
  then have "ledger_ok lib s" using assms(3) by (simp add: cloud_ok_def)
  from bound_store.final_step [OF this] have "receipt_bound (ledger_step lib (wired L e seen c) s) k \<noteq> None"
    if "receipt_bound s k \<noteq> None" for k using that by blast
  with ledger assms(4) show ?thesis by (simp add: delivered_def del: ledger_step.simps)
next
  case (delivery db unmarshal now f lost s err st s')
  have "outbox_ok (cd_store db)" using assms(3) delivery(1) by (simp add: cloud_ok_def cat_ok_def)
  from delivery_keeps [OF delivery(4) this _ _ delivery(3), of L db] delivery(1,2) assms(3,4) show ?thesis
    by (simp add: cloud_ok_def)
qed

lemma reachable_delivered:
  assumes "codecs_ok L" and "(cloud_step L lib)\<^sup>*\<^sup>* x y" and "cloud_ok L lib x" and "delivered (cd_store (fst x)) (snd x)"
  shows "delivered (cd_store (fst y)) (snd y)"
  using assms(2-4)
  by induction (auto intro: cloud_step_delivered [OF assms(1)] reachable_ok [OF assms(1)])

text \<open>
  C3: What the Catalog counts as delivered, the Ledger holds. In every state of the system, whatever
  ran and whichever answers were lost, an event that the Catalog's Outbox has acknowledged for the Ledger
  has its receipt in the Ledger under the event's own identity.
\<close>

theorem acknowledged_policy_event_recorded:
  assumes "codecs_ok L" and "cat_ok L db0" and "ledger_lib_ok lib"
    and "list_all (\<lambda>d. dl_acknowledged_at d = None) (st_outbox_deliveries (cd_store db0))"
    and "(cloud_step L lib)\<^sup>*\<^sup>* (db0, empty_pg) (db, s)"
    and "d \<in> set (st_outbox_deliveries (cd_store db))" and "dl_consumer_owner d = ''ledger''" and "dl_acknowledged_at d \<noteq> None"
  shows "\<exists>row. find_receipt_key s (''domain:resource_catalog:'' @ dl_event_id d) = Some row"
proof -
  have "delivered (cd_store db0) empty_pg" using assms(4) by (auto simp: delivered_def list_all_iff)
  with reachable_delivered [OF assms(1,5) cloud_ok_start [OF assms(2,3)]] have "delivered (cd_store db) s" by simp
  with assms(6-8) have "receipt_bound s (domain_key ''resource_catalog'' (dl_event_id d)) \<noteq> None" by (simp add: delivered_def)
  then show ?thesis by (auto simp: receipt_bound_def domain_key_def)
qed

section \<open>A history\<close>

definition ex_bound :: catalog_db where
  "ex_bound = cat_step ex_lib (CatAccept (ex_env [] 20) (Some sample_call) ex_accept) ex_offered"

lemma ex_readback: "catalog_readback ex_lib (ex_env [] 30) ex_bound sample_call ''quote_p'' = Inr ex_accepted_quote"
proof -
  have "(case catalog_readback ex_lib (ex_env [] 30) ex_bound sample_call ''quote_p'' of
      Inl _ \<Rightarrow> False | Inr q \<Rightarrow> q = ex_accepted_quote)" by code_simp
  then show ?thesis by (simp split: sum.splits)
qed

lemma ex_bound_ok: "cat_ok ex_lib ex_bound"
  unfolding ex_bound_def by (rule cat_step_ok [OF ex_lib_ok ex_offered_ok])

lemma ex_cloud: "(cloud_step ex_lib ex_typed)\<^sup>*\<^sup>* (ex_catalog, empty_pg) (ex_bound, ex_charged)"
proof -
  let ?c = "LedgerAppend ex_coordinator ex_append"
  have "cloud_step ex_lib ex_typed (ex_catalog, empty_pg) (ex_offered, empty_pg)"
    unfolding ex_offered_def by (rule cloud_step.catalog)
  moreover have "cloud_step ex_lib ex_typed (ex_offered, empty_pg) (ex_bound, empty_pg)"
    unfolding ex_bound_def by (rule cloud_step.catalog)
  moreover have "cloud_step ex_lib ex_typed (ex_bound, empty_pg)
      (ex_bound, ledger_step ex_typed (wired ex_lib (ex_env [] 30) ex_bound ?c) empty_pg)"
    by (rule cloud_step.ledger [OF ex_bound_ok cat_later.now])
  moreover have "ledger_step ex_typed (wired ex_lib (ex_env [] 30) ex_bound ?c) empty_pg = ex_charged"
  proof -
    have "ex_coordinator\<lparr>co_catalog := map_option (\<lambda>_. g) (co_catalog ex_coordinator), co_lib := ex_typed\<rparr> =
        ex_coordinator\<lparr>co_catalog := Some g\<rparr>" for g by (simp add: ex_coordinator_def)
    with ex_charge_with [of "catalog_readback ex_lib (ex_env [] 30) ex_bound", OF ex_readback] show ?thesis by (simp add: ex_charged_def)
  qed
  ultimately show ?thesis by (metis converse_rtranclp_into_rtranclp rtranclp.rtrancl_refl)
qed

lemma ex_row_type: "er_ReceiptType ex_row = WalletActionReceiptType"
  by (simp add: ex_row_def)

theorem obligation_funded_one_way_witness:
  "\<exists>p. te_QuoteAcceptance ex_evidence = Some p \<and> (cloud_step ex_lib ex_typed)\<^sup>*\<^sup>* (ex_catalog, empty_pg) (ex_bound, ex_charged)"
proof -
  have "ex_row \<in> set (lp_receipts ex_charged)" by (simp add: ex_charge(2))
  from obligation_funded_one_way [OF ex_lib_ok ex_catalog_ok ex_typed_ok ex_cloud this ex_row_type]
  obtain ra p where "decode_typed ex_typed wallet_action (er_PayloadJSON ex_row) = Inr ra"
    "te_QuoteAcceptance (yr_Evidence ra) = Some p" by blast
  then have "te_QuoteAcceptance ex_evidence = Some p" by (auto simp: ex_row_def ex_decode stamp_def)
  with ex_cloud show ?thesis by blast
qed

theorem charge_is_accepted_price_witness:
  "\<exists>tid qrow. find_quote ex_bound ''quote_p'' tid = Some qrow \<and> qt_total_usd_micros qrow = 5700000 \<and>
     qt_accepted_by qrow = Some ''op_1''"
proof -
  have "ex_row \<in> set (lp_receipts ex_charged)" by (simp add: ex_charge(2))
  from charge_is_accepted_price [OF ex_lib_ok ex_catalog_ok ex_typed_ok ex_cloud this ex_row_type]
  obtain rec q w tid qrow where *: "decode_typed ex_typed wallet_action (er_PayloadJSON ex_row) = Inr rec"
    "te_QuoteAcceptance (yr_Evidence rec) = Some q" "te_WalletOperation (yr_Evidence rec) = Some w"
    "wo_AmountUsdMicros w = qt_total_usd_micros qrow" "find_quote ex_bound (qu_Id (qa_Quote q)) tid = Some qrow"
    "qt_accepted_by qrow = Some (qa_ObligationId q)" by blast
  have "rec = \<lparr>yr_Evidence = stamp ''rcpt_1'' 30 ex_evidence, yr_TenantID = ''t_1'', yr_ActorID = ''u_1'', yr_WorkspaceID = ''ws_1''\<rparr>"
    using *(1) by (simp add: ex_row_def ex_decode)
  with *(2,3) have "q = ex_accepted_quote" "w = ex_wallet" by (simp_all add: stamp_def ex_evidence_def)
  moreover have "qu_Id (qa_Quote ex_accepted_quote) = ''quote_p''" "qa_ObligationId ex_accepted_quote = ''op_1''"
    "wo_AmountUsdMicros ex_wallet = 5700000" by (simp_all add: ex_accepted_quote_def ex_quote_def ex_wallet_def)
  ultimately show ?thesis using *(4-6) by (intro exI [of _ tid] exI [of _ qrow]) simp
qed

definition ex_published :: catalog_db where
  "ex_published = ex_catalog\<lparr>cd_store := sample_outbox\<rparr>"

definition ex_unmarshal :: "string \<Rightarrow> CatalogPolicyChangedEvent option" where
  "ex_unmarshal b = Some ex_policy"

definition ex_told :: owner_store where
  "ex_told = ob_step sample_lib (ObAcknowledge 9 ''ledger'' ''evt_1'') sample_outbox"

lemma ex_pass: "DeliverPolicyEvents ex_unmarshal 9 (Some (ledger_inbox ex_typed (\<lambda>ev. Some (JStr ''event'')) 9 (\<lambda>r. False)))
    sample_outbox empty_pg = (None, ex_told, ex_informed)"
proof -
  have "(case PendingDeliveries 9 ''ledger'' 20 sample_outbox of Inl _ \<Rightarrow> False
     | Inr ps \<Rightarrow> ps = [\<lparr>pd_DeliveryID = ''dlv_evt_1_ledger'', pd_EventID = ''evt_1'', pd_AttemptCount = 0, pd_Event = sample_event\<rparr>])"
    by code_simp
  then have pending: "PendingDeliveries 9 ''ledger'' 20 sample_outbox =
      Inr [\<lparr>pd_DeliveryID = ''dlv_evt_1_ledger'', pd_EventID = ''evt_1'', pd_AttemptCount = 0, pd_Event = sample_event\<rparr>]"
    by (simp split: sum.splits)
  have ev: "policy_envelope sample_event ex_policy = ex_event" "e_EventType sample_event = ''catalog.policy_changed.v1''"
    "e_ID sample_event = ''evt_1''" by (simp_all add: policy_envelope_def sample_event_def ex_event_def)
  have client: "ledger_inbox ex_typed (\<lambda>ev. Some (JStr ''event'')) 9 (\<lambda>r. False)
      \<lparr>dr_Event = Some ex_event, dr_AuthenticatedProducer = ''resource_catalog''\<rparr> empty_pg =
      (Inr \<lparr>ia_EventId = ''evt_1'', ia_Consumer = ''ledger'', ia_Committed = True, ia_Duplicate = False,
          ia_AppliedAggregateVersion = 1\<rparr>, ex_informed)"
    using ex_informed by (simp add: ledger_inbox_def ex_inbox_def ex_delivery_def)
  have "\<not> isl (AcknowledgeDelivery 9 ''ledger'' ''evt_1'' sample_outbox)" by code_simp
  then have "AcknowledgeDelivery 9 ''ledger'' ''evt_1'' sample_outbox = Inr ex_told"
    by (cases "AcknowledgeDelivery 9 ''ledger'' ''evt_1'' sample_outbox") (simp_all add: ex_told_def)
  then show ?thesis
    by (simp add: DeliverPolicyEvents_def pending ev ex_unmarshal_def client settle_delivery_def acknowledged_def)
qed

theorem acknowledged_policy_event_recorded_witness:
  "\<exists>row. find_receipt_key ex_informed ''domain:resource_catalog:evt_1'' = Some row"
proof -
  have start: "cat_ok ex_lib ex_published"
    unfolding ex_published_def sample_outbox_def
    by (intro cat_ok_store ex_catalog_ok deliveries.inv_fold) simp
  have fresh: "list_all (\<lambda>d. dl_acknowledged_at d = None) (st_outbox_deliveries (cd_store ex_published))"
    "trimmed_events (cd_store ex_published)" by code_simp+
  have step: "cloud_step ex_lib ex_typed (ex_published, empty_pg) (ex_published\<lparr>cd_store := ex_told\<rparr>, ex_informed)"
    using ex_pass by (intro cloud_step.delivery [OF fresh(2)]) (simp add: ex_published_def)
  have "list_ex (\<lambda>d. dl_event_id d = ''evt_1'' \<and> dl_consumer_owner d = ''ledger'' \<and> dl_acknowledged_at d \<noteq> None) (st_outbox_deliveries ex_told)"
    by code_simp
  then obtain d where d: "d \<in> set (st_outbox_deliveries (cd_store (ex_published\<lparr>cd_store := ex_told\<rparr>)))" "dl_event_id d = ''evt_1''"
    "dl_consumer_owner d = ''ledger''" "dl_acknowledged_at d \<noteq> None" by (auto simp: list_ex_iff)
  from acknowledged_policy_event_recorded [OF ex_lib_ok start ex_typed_ok fresh(1) r_into_rtranclp [of "cloud_step ex_lib ex_typed", OF step] d(1,3,4)] d(2)
  show ?thesis by simp
qed

end
