(* ===== verification/Go_Process.thy ===== *)
theory Go_Process
  imports Prelude "HOL-Library.Multiset"
begin

text \<open>
  Handlers that run side by side. A handler of a service is a process: between two of its actions any
  other handler may run. An action is a reading of the clock, one statement or transaction of the
  database, or a call of another service. A transaction is atomic; it may also fail, before it took effect
  or after (the commit went through and its answer was lost), and the process goes on with its error
  branch. A call is dispatched, and answered later with any value. A process may stop for good at any
  point. \<open>act\<close> plays one such event, chosen from outside, so that every interleaving is a list of
  choices.
\<close>

section \<open>Processes\<close>

datatype ('s, 'c, 'a, 'r) proc =
    Return 'r
  | Clock "time \<Rightarrow> ('s, 'c, 'a, 'r) proc"
  | Db "time \<Rightarrow> 's \<Rightarrow> 's" "time \<Rightarrow> 's \<Rightarrow> ('s, 'c, 'a, 'r) proc" "('s, 'c, 'a, 'r) proc"
  | Call 'c "'a \<Rightarrow> ('s, 'c, 'a, 'r) proc"

primrec bind_proc ::
  "('s, 'c, 'a, 'r) proc \<Rightarrow> ('r \<Rightarrow> ('s, 'c, 'a, 'q) proc) \<Rightarrow> ('s, 'c, 'a, 'q) proc" where
  "bind_proc (Return x) g = g x"
| "bind_proc (Clock k) g = Clock (\<lambda>t. bind_proc (k t) g)"
| "bind_proc (Db e k f) g = Db e (\<lambda>t s. bind_proc (k t s) g) (bind_proc f g)"
| "bind_proc (Call c k) g = Call c (\<lambda>a. bind_proc (k a) g)"

definition transaction :: "(time \<Rightarrow> 's \<Rightarrow> 'r \<times> 's) \<Rightarrow> ('s, 'c, 'a, 'r option) proc" where
  \<comment> \<open>\<open>None\<close>: the database did not answer\<close>
  "transaction tx = Db (\<lambda>t s. snd (tx t s)) (\<lambda>t s. Return (Some (fst (tx t s)))) (Return None)"

definition query :: "('s \<Rightarrow> 'r) \<Rightarrow> ('s, 'c, 'a, 'r option) proc" where
  "query f = transaction (\<lambda>t s. (f s, s))"

definition bind_ok ::
  "('s, 'c, 'a, 'e + 'r) proc \<Rightarrow> ('r \<Rightarrow> ('s, 'c, 'a, 'e + 'q) proc) \<Rightarrow> ('s, 'c, 'a, 'e + 'q) proc" where
  \<comment> \<open>\<open>if err != nil { return nil, err }\<close>\<close>
  "bind_ok p g = bind_proc p (\<lambda>r. case r of Inl e \<Rightarrow> Return (Inl e) | Inr x \<Rightarrow> g x)"

definition unless_error :: "'e option \<Rightarrow> ('s, 'c, 'a, 'e + 'r) proc \<Rightarrow> ('s, 'c, 'a, 'e + 'r) proc" where
  "unless_error err p = (case err of Some e \<Rightarrow> Return (Inl e) | None \<Rightarrow> p)"

definition deferred :: "('s \<Rightarrow> 's) \<Rightarrow> ('s, 'c, 'a, 'r) proc \<Rightarrow> ('s, 'c, 'a, 'r) proc" where
  \<comment> \<open>\<open>defer\<close>: the effect runs after the rest, whatever it returned\<close>
  "deferred eff p = bind_proc p (\<lambda>r. Db (\<lambda>t. eff) (\<lambda>t s. Return r) (Return r))"

section \<open>Worlds\<close>

datatype ('s, 'c, 'a, 'r) task = Running "('s, 'c, 'a, 'r) proc" | Awaiting 'c "'a \<Rightarrow> ('s, 'c, 'a, 'r) proc"

record ('s, 'c, 'a, 'r) world =
  wd_db :: 's
  wd_tasks :: "('s, 'c, 'a, 'r) task list"
  wd_sent :: "'c list"
  wd_answers :: "('c \<times> 'a) list"
  wd_replies :: "'r list"

datatype ('q, 'a) choice =
    Spawn 'q
  | Tick nat time
  | Commit nat time
  | Fail nat
  | LostAnswer nat time
  | Dispatch nat
  | Answer nat 'a
  | Finish nat
  | Drop nat

definition set_task ::
  "nat \<Rightarrow> ('s, 'c, 'a, 'r) task \<Rightarrow> ('s, 'c, 'a, 'r) world \<Rightarrow> ('s, 'c, 'a, 'r) world" where
  "set_task i x w = w\<lparr>wd_tasks := (wd_tasks w)[i := x]\<rparr>"

definition end_task :: "nat \<Rightarrow> ('s, 'c, 'a, 'r) world \<Rightarrow> ('s, 'c, 'a, 'r) world" where
  "end_task i w = w\<lparr>wd_tasks := take i (wd_tasks w) @ drop (Suc i) (wd_tasks w)\<rparr>"

definition task_at :: "('s, 'c, 'a, 'r) world \<Rightarrow> nat \<Rightarrow> ('s, 'c, 'a, 'r) task option" where
  "task_at w i = (if i < length (wd_tasks w) then Some (wd_tasks w ! i) else None)"

fun act ::
  "('q \<Rightarrow> ('s, 'c, 'a, 'r) proc) \<Rightarrow> ('q, 'a) choice \<Rightarrow> ('s, 'c, 'a, 'r) world \<Rightarrow> ('s, 'c, 'a, 'r) world" where
  "act serve (Spawn q) w = w\<lparr>wd_tasks := wd_tasks w @ [Running (serve q)]\<rparr>"
| "act serve (Tick i t) w =
     (case task_at w i of Some (Running (Clock k)) \<Rightarrow> set_task i (Running (k t)) w | _ \<Rightarrow> w)"
| "act serve (Commit i t) w =
     (case task_at w i of
        Some (Running (Db e k f)) \<Rightarrow> (set_task i (Running (k t (wd_db w))) w)\<lparr>wd_db := e t (wd_db w)\<rparr>
      | _ \<Rightarrow> w)"
| "act serve (Fail i) w =
     (case task_at w i of Some (Running (Db e k f)) \<Rightarrow> set_task i (Running f) w | _ \<Rightarrow> w)"
| "act serve (LostAnswer i t) w =
     (case task_at w i of
        Some (Running (Db e k f)) \<Rightarrow> (set_task i (Running f) w)\<lparr>wd_db := e t (wd_db w)\<rparr>
      | _ \<Rightarrow> w)"
| "act serve (Dispatch i) w =
     (case task_at w i of
        Some (Running (Call c k)) \<Rightarrow> (set_task i (Awaiting c k) w)\<lparr>wd_sent := wd_sent w @ [c]\<rparr>
      | _ \<Rightarrow> w)"
| "act serve (Answer i a) w =
     (case task_at w i of
        Some (Awaiting c k) \<Rightarrow> (set_task i (Running (k a)) w)\<lparr>wd_answers := wd_answers w @ [(c, a)]\<rparr>
      | _ \<Rightarrow> w)"
| "act serve (Finish i) w =
     (case task_at w i of
        Some (Running (Return r)) \<Rightarrow> (end_task i w)\<lparr>wd_replies := wd_replies w @ [r]\<rparr>
      | _ \<Rightarrow> w)"
| "act serve (Drop i) w = (if i < length (wd_tasks w) then end_task i w else w)"

definition start_world :: "'s \<Rightarrow> ('s, 'c, 'a, 'r) world" where
  "start_world s = \<lparr>wd_db = s, wd_tasks = [], wd_sent = [], wd_answers = [], wd_replies = []\<rparr>"

text \<open>The events of one task: what it becomes, the database it leaves, what it sends and what it is answered.\<close>

inductive task_event ::
  "('s, 'c, 'a, 'r) task \<Rightarrow> 's \<Rightarrow> ('s, 'c, 'a, 'r) task \<Rightarrow> 's \<Rightarrow> 'c list \<Rightarrow> ('c \<times> 'a) list \<Rightarrow> bool" where
  tick: "task_event (Running (Clock k)) s (Running (k t)) s [] []"
| commit: "task_event (Running (Db e k f)) s (Running (k t s)) (e t s) [] []"
| fail: "task_event (Running (Db e k f)) s (Running f) s [] []"
| lost: "task_event (Running (Db e k f)) s (Running f) (e t s) [] []"
| dispatch: "task_event (Running (Call c k)) s (Awaiting c k) s [c] []"
| answer: "task_event (Awaiting c k) s (Running (k a)) s [] [(c, a)]"

lemma act_cases:
  obtains (idle) "act serve c w = w"
  | (spawn) q where "act serve c w = w\<lparr>wd_tasks := wd_tasks w @ [Running (serve q)]\<rparr>"
  | (finish) i rs where "act serve c w = (end_task i w)\<lparr>wd_replies := rs\<rparr>"
  | (event) i x y s cs as where "task_at w i = Some x" "task_event x (wd_db w) y s cs as"
      "act serve c w = set_task i y w\<lparr>wd_db := s, wd_sent := wd_sent w @ cs, wd_answers := wd_answers w @ as\<rparr>"
proof (cases c)
  case (Spawn q)
  then show ?thesis by (intro spawn) simp
next
  case (Tick i t)
  show ?thesis
  proof (cases "\<exists>k. task_at w i = Some (Running (Clock k))")
    case True
    then show ?thesis by (auto simp: Tick set_task_def intro!: event [OF _ task_event.tick])
  qed (rule idle, auto simp: Tick split: option.splits task.splits proc.splits)
next
  case (Commit i t)
  show ?thesis
  proof (cases "\<exists>e k f. task_at w i = Some (Running (Db e k f))")
    case True
    then show ?thesis by (auto simp: Commit set_task_def intro!: event [OF _ task_event.commit])
  qed (rule idle, auto simp: Commit split: option.splits task.splits proc.splits)
next
  case (Fail i)
  show ?thesis
  proof (cases "\<exists>e k f. task_at w i = Some (Running (Db e k f))")
    case True
    then show ?thesis by (auto simp: Fail set_task_def intro!: event [OF _ task_event.fail])
  qed (rule idle, auto simp: Fail split: option.splits task.splits proc.splits)
next
  case (LostAnswer i t)
  show ?thesis
  proof (cases "\<exists>e k f. task_at w i = Some (Running (Db e k f))")
    case True
    then show ?thesis by (auto simp: LostAnswer set_task_def intro!: event [OF _ task_event.lost])
  qed (rule idle, auto simp: LostAnswer split: option.splits task.splits proc.splits)
next
  case (Dispatch i)
  show ?thesis
  proof (cases "\<exists>c k. task_at w i = Some (Running (Call c k))")
    case True
    then show ?thesis by (auto simp: Dispatch set_task_def intro!: event [OF _ task_event.dispatch])
  qed (rule idle, auto simp: Dispatch split: option.splits task.splits proc.splits)
next
  case (Answer i a)
  show ?thesis
  proof (cases "\<exists>c k. task_at w i = Some (Awaiting c k)")
    case True
    then show ?thesis by (auto simp: Answer set_task_def intro!: event [OF _ task_event.answer])
  qed (rule idle, auto simp: Answer split: option.splits task.splits proc.splits)
next
  case (Finish i)
  show ?thesis
  proof (cases "\<exists>r. task_at w i = Some (Running (Return r))")
    case True
    then obtain r where "task_at w i = Some (Running (Return r))" ..
    then show ?thesis by (intro finish [where i = i and rs = "wd_replies w @ [r]"]) (simp add: Finish)
  qed (rule idle, auto simp: Finish split: option.splits task.splits proc.splits)
next
  case (Drop i)
  have "end_task i w = (end_task i w)\<lparr>wd_replies := wd_replies w\<rparr>" by (simp add: end_task_def)
  with Drop show ?thesis by (cases "i < length (wd_tasks w)") (rule finish, auto intro: idle)
qed

lemma proc_induct [case_names Return Clock Db Call]:
  assumes "\<And>r. P (Return r)" and "\<And>k. (\<And>t. P (k t)) \<Longrightarrow> P (Clock k)"
    and "\<And>e k f. (\<And>t s. P (k t s)) \<Longrightarrow> P f \<Longrightarrow> P (Db e k f)" and "\<And>c k. (\<And>a. P (k a)) \<Longrightarrow> P (Call c k)"
  shows "P p"
proof (induction p)
  case (Db e k f)
  have "P (k t s)" for t s by (rule Db.IH(1) [of "k t"]) simp_all
  from assms(3) [OF this Db.IH(2)] show ?case .
qed (auto intro: assms)

section \<open>A process alone\<close>

text \<open>
  \<open>settle\<close> runs one process to its end without interference: readings of the clock and transactions at
  one instant, every call answered by \<open>answer\<close>. It is total, because a process is a finite tree.
\<close>

primrec settle ::
  "('s, 'c, 'a, 'r) proc \<Rightarrow> time \<Rightarrow> ('c \<Rightarrow> 'a) \<Rightarrow> 's \<Rightarrow> 'r \<times> 's \<times> 'c list" where
  "settle (Return r) t answer s = (r, s, [])"
| "settle (Clock k) t answer s = settle (k t) t answer s"
| "settle (Db e k f) t answer s = settle (k t s) t answer (e t s)"
| "settle (Call c k) t answer s =
     (case settle (k (answer c)) t answer s of (r, s', cs) \<Rightarrow> (r, s', c # cs))"

section \<open>Disciplines\<close>

text \<open>
  What a process may do, judged by a private account of what it has done and learnt (type \<open>'g\<close>): which
  changes of the database and which calls its account permits, and how the account moves on. \<open>wp\<close> says
  that a process keeps to the discipline and that its result and final account satisfy a condition,
  whatever the others do meanwhile: a transaction may meet every state that the account's knowledge still
  allows.
\<close>

record ('g, 's, 'c, 'a) discipline =
  dc_knows :: "'g \<Rightarrow> 's \<Rightarrow> bool"
  dc_may_db :: "'g \<Rightarrow> 's \<Rightarrow> 's \<Rightarrow> bool"
  dc_after_db :: "'g \<Rightarrow> 's \<Rightarrow> 's \<Rightarrow> 'g"
  dc_after_lost :: "'g \<Rightarrow> 's \<Rightarrow> 's \<Rightarrow> 'g"
  dc_may_send :: "'g \<Rightarrow> 'c \<Rightarrow> bool"
  dc_after_send :: "'g \<Rightarrow> 'c \<Rightarrow> 'g"
  dc_after_answer :: "'g \<Rightarrow> 'c \<Rightarrow> 'a \<Rightarrow> 'g"

primrec wp ::
  "('g, 's, 'c, 'a) discipline \<Rightarrow> ('s, 'c, 'a, 'r) proc \<Rightarrow> ('r \<Rightarrow> 'g \<Rightarrow> bool) \<Rightarrow> 'g \<Rightarrow> bool" where
  "wp D (Return r) Q g \<longleftrightarrow> Q r g"
| "wp D (Clock k) Q g \<longleftrightarrow> (\<forall>t. wp D (k t) Q g)"
| "wp D (Db e k f) Q g \<longleftrightarrow>
     (\<forall>t s. dc_knows D g s \<longrightarrow> dc_may_db D g s (e t s) \<and> wp D (k t s) Q (dc_after_db D g s (e t s)) \<and>
        wp D f Q (dc_after_lost D g s (e t s))) \<and> wp D f Q g"
| "wp D (Call c k) Q g \<longleftrightarrow>
     dc_may_send D g c \<and> (\<forall>a. wp D (k a) Q (dc_after_answer D (dc_after_send D g c) c a))"

lemma wp_bind: "wp D (bind_proc p k) Q g \<longleftrightarrow> wp D p (\<lambda>r. wp D (k r) Q) g"
  by (induction p arbitrary: g rule: proc_induct) auto

lemma wp_mono: "wp D p Q g \<Longrightarrow> (\<And>r g. Q r g \<Longrightarrow> Q' r g) \<Longrightarrow> wp D p Q' g"
  by (induction p arbitrary: g rule: proc_induct) auto

lemma wp_transaction:
  "wp D (transaction tx) Q g \<longleftrightarrow>
     (\<forall>t s. dc_knows D g s \<longrightarrow> dc_may_db D g s (snd (tx t s)) \<and> Q (Some (fst (tx t s))) (dc_after_db D g s (snd (tx t s))) \<and>
        Q None (dc_after_lost D g s (snd (tx t s)))) \<and> Q None g"
  by (simp add: transaction_def)

lemma wp_bind_ok:
  "wp D (bind_ok p k) Q g \<longleftrightarrow> wp D p (\<lambda>r. case r of Inl e \<Rightarrow> Q (Inl e) | Inr x \<Rightarrow> wp D (k x) Q) g"
  by (simp add: bind_ok_def wp_bind) (rule arg_cong [where f = "\<lambda>Q. wp D p Q g"], auto simp: fun_eq_iff split: sum.split)

lemma wp_if: "(c \<Longrightarrow> wp D p Q g) \<Longrightarrow> (\<not> c \<Longrightarrow> wp D q Q g) \<Longrightarrow> wp D (if c then p else q) Q g"
  by simp

lemma wp_unless_error:
  "wp D (unless_error err p) Q g \<longleftrightarrow> (case err of Some e \<Rightarrow> Q (Inl e) g | None \<Rightarrow> wp D p Q g)"
  by (simp add: unless_error_def split: option.split)

fun task_keeps :: "('g, 's, 'c, 'a) discipline \<Rightarrow> 'g \<Rightarrow> ('s, 'c, 'a, 'r) task \<Rightarrow> bool" where
  "task_keeps D g (Running p) \<longleftrightarrow> wp D p (\<lambda>_ _. True) g"
| "task_keeps D g (Awaiting c k) \<longleftrightarrow> (\<forall>a. wp D (k a) (\<lambda>_ _. True) (dc_after_answer D g c a))"

text \<open>
  A condition on the accounts, the database and the two logs that every permitted event keeps holds in
  every interleaving of processes that keep to the discipline.
\<close>

locale disciplined_service =
  fixes D :: "('g, 's, 'c, 'a) discipline"
    and serve :: "'q \<Rightarrow> ('s, 'c, 'a, 'r) proc"
    and fresh :: 'g
    and inv :: "'g list \<Rightarrow> 's \<Rightarrow> 'c list \<Rightarrow> ('c \<times> 'a) list \<Rightarrow> bool"
  assumes serve_keeps: "wp D (serve q) (\<lambda>_ _. True) fresh"
    and inv_knows: "inv gs s cs as \<Longrightarrow> g \<in> set gs \<Longrightarrow> dc_knows D g s"
    and inv_spawn: "inv gs s cs as \<Longrightarrow> inv (gs @ [fresh]) s cs as"
    and inv_db: "inv gs s cs as \<Longrightarrow> i < length gs \<Longrightarrow> dc_may_db D (gs ! i) s s' \<Longrightarrow>
          inv (gs[i := dc_after_db D (gs ! i) s s']) s' cs as"
    and inv_lost: "inv gs s cs as \<Longrightarrow> i < length gs \<Longrightarrow> dc_may_db D (gs ! i) s s' \<Longrightarrow>
          inv (gs[i := dc_after_lost D (gs ! i) s s']) s' cs as"
    and inv_send: "inv gs s cs as \<Longrightarrow> i < length gs \<Longrightarrow> dc_may_send D (gs ! i) c \<Longrightarrow>
          inv (gs[i := dc_after_send D (gs ! i) c]) s (cs @ [c]) as"
    and inv_answer: "inv gs s cs as \<Longrightarrow> i < length gs \<Longrightarrow>
          inv (gs[i := dc_after_answer D (gs ! i) c a]) s cs (as @ [(c, a)])"
    and inv_end: "inv gs s cs as \<Longrightarrow> inv (take i gs @ drop (Suc i) gs) s cs as"
begin

definition world_ok :: "('s, 'c, 'a, 'r) world \<Rightarrow> bool" where
  "world_ok w \<longleftrightarrow> (\<exists>gs. list_all2 (task_keeps D) gs (wd_tasks w) \<and> inv gs (wd_db w) (wd_sent w) (wd_answers w))"

lemma task_atD: "task_at w i = Some x \<Longrightarrow> i < length (wd_tasks w) \<and> wd_tasks w ! i = x"
  by (simp add: task_at_def split: if_splits)

lemma end_task_ok:
  assumes "world_ok w"
  shows "world_ok (end_task i w)"
proof -
  from assms obtain gs where gs: "list_all2 (task_keeps D) gs (wd_tasks w)" "inv gs (wd_db w) (wd_sent w) (wd_answers w)"
    by (auto simp: world_ok_def)
  from gs(1) have "list_all2 (task_keeps D) (take i gs @ drop (Suc i) gs) (take i (wd_tasks w) @ drop (Suc i) (wd_tasks w))"
    by (intro list_all2_appendI list_all2_takeI list_all2_dropI)
  with inv_end [OF gs(2), of i] show ?thesis
    by (auto simp: world_ok_def end_task_def)
qed

lemma world_okE:
  assumes "world_ok w" and "task_at w i = Some x"
  obtains gs where "list_all2 (task_keeps D) gs (wd_tasks w)" "inv gs (wd_db w) (wd_sent w) (wd_answers w)"
    "i < length gs" "task_keeps D (gs ! i) x" "dc_knows D (gs ! i) (wd_db w)"
proof -
  from assms(1) obtain gs where gs: "list_all2 (task_keeps D) gs (wd_tasks w)" "inv gs (wd_db w) (wd_sent w) (wd_answers w)"
    by (auto simp: world_ok_def)
  note i = task_atD [OF assms(2)]
  from gs(1) i have "i < length gs" "task_keeps D (gs ! i) x" by (auto simp: list_all2_conv_all_nth)
  with gs show thesis by (intro that) (auto intro: inv_knows)
qed

lemma world_okI:
  assumes "list_all2 (task_keeps D) gs (wd_tasks w)" and "task_keeps D g x" and "inv (gs[i := g]) s cs as"
  shows "world_ok (set_task i x w\<lparr>wd_db := s, wd_sent := cs, wd_answers := as\<rparr>)"
  unfolding world_ok_def set_task_def
  by (intro exI [of _ "gs[i := g]"]) (simp add: assms list_all2_update_cong)

lemma event_keeps:
  assumes "task_event x s y s' cs' as'" and "task_keeps D (gs ! i) x" and "inv gs s cs as" and "i < length gs"
    and "dc_knows D (gs ! i) s"
  shows "\<exists>g. task_keeps D g y \<and> inv (gs[i := g]) s' (cs @ cs') (as @ as')"
  using assms
proof (cases rule: task_event.cases)
  case (commit e k f t)
  then have m: "dc_may_db D (gs ! i) s s'" using assms(2,5) by simp
  show ?thesis using inv_db [OF assms(3,4) m] commit assms(2,5)
    by (intro exI [of _ "dc_after_db D (gs ! i) s s'"]) auto
next
  case (lost e k f t)
  then have m: "dc_may_db D (gs ! i) s s'" using assms(2,5) by simp
  show ?thesis using inv_lost [OF assms(3,4) m] lost assms(2,5)
    by (intro exI [of _ "dc_after_lost D (gs ! i) s s'"]) auto
next
  case (dispatch c k)
  then show ?thesis using assms(2) inv_send [OF assms(3,4), of c]
    by (intro exI [of _ "dc_after_send D (gs ! i) c"]) auto
next
  case (answer c k a)
  then show ?thesis using assms(2) inv_answer [OF assms(3,4), of c a]
    by (intro exI [of _ "dc_after_answer D (gs ! i) c a"]) auto
qed (use assms in \<open>auto intro!: exI [of _ "gs ! i"]\<close>)

lemma act_ok:
  assumes "world_ok w"
  shows "world_ok (act serve c w)"
proof (cases rule: act_cases [of serve c w])
  case (spawn q)
  from assms obtain gs where "list_all2 (task_keeps D) gs (wd_tasks w)" "inv gs (wd_db w) (wd_sent w) (wd_answers w)"
    by (auto simp: world_ok_def)
  then show ?thesis
    by (auto simp: spawn world_ok_def intro!: exI [of _ "gs @ [fresh]"] list_all2_appendI inv_spawn serve_keeps)
next
  case (finish i rs)
  with end_task_ok [OF assms, of i] show ?thesis by (simp add: world_ok_def end_task_def)
next
  case (event i x y s cs as)
  from assms event(1) obtain gs where gs: "list_all2 (task_keeps D) gs (wd_tasks w)" "inv gs (wd_db w) (wd_sent w) (wd_answers w)"
    "i < length gs" "task_keeps D (gs ! i) x" "dc_knows D (gs ! i) (wd_db w)" by (rule world_okE)
  from event_keeps [OF event(2) gs(4,2,3,5)] obtain g where "task_keeps D g y"
    "inv (gs[i := g]) s (wd_sent w @ cs) (wd_answers w @ as)" by blast
  then show ?thesis unfolding event(3) by (rule world_okI [OF gs(1)])
qed (use assms in simp)

text \<open>An event changes the database only as the account of a running process permits.\<close>

lemma act_db:
  assumes "world_ok w"
  shows "wd_db (act serve c w) = wd_db w \<or>
    (\<exists>gs i. inv gs (wd_db w) (wd_sent w) (wd_answers w) \<and> i < length gs \<and>
       dc_may_db D (gs ! i) (wd_db w) (wd_db (act serve c w)))"
proof (cases rule: act_cases [of serve c w])
  case (event i x y s cs as)
  from assms event(1) obtain gs where gs: "inv gs (wd_db w) (wd_sent w) (wd_answers w)"
    "i < length gs" "task_keeps D (gs ! i) x" "dc_knows D (gs ! i) (wd_db w)" by (rule world_okE)
  from event(2) gs(3,4) have "s = wd_db w \<or> dc_may_db D (gs ! i) (wd_db w) s"
    by (cases rule: task_event.cases) auto
  with gs show ?thesis by (auto simp: event(3))
qed (simp_all add: end_task_def)

lemma trace_ok: "world_ok w \<Longrightarrow> world_ok (fold (act serve) cs w)"
  by (induction cs arbitrary: w) (simp_all add: act_ok)

lemma start_ok: "inv [] s [] [] \<Longrightarrow> world_ok (start_world s)"
  by (simp add: world_ok_def start_world_def)

lemma reachable_inv:
  assumes "inv [] s [] []" and "w = fold (act serve) cs (start_world s)"
  shows "\<exists>gs. inv gs (wd_db w) (wd_sent w) (wd_answers w)"
  using trace_ok [OF start_ok [OF assms(1)], of cs] assms(2) by (auto simp: world_ok_def)

end

end
