(* ===== verification/Gateway_Store.thy ===== *)
theory Gateway_Store
  imports Ledger_Events Owner_Idempotency Go_Process
begin

text \<open>
  The Gateway owner's store (\<open>services/gateway-integration/identity/gateway_store.go\<close> and
  \<open>workspace_closeout.go\<close>, tables of \<open>gatewaymigrations/0001_opl_gateway.sql\<close>): which wallet pays for a
  tenant, and the wallet operations. Every definition is one statement or one transaction; \<open>FOR UPDATE\<close>
  and the advisory locks of a transaction make it atomic against the others. The advisory lock that a
  charge holds while it calls the wallet is \<open>gd_locks\<close>. Columns that no statement writes
  (\<open>authorization_receipt_ref\<close>, \<open>refund_entitlement_snapshot\<close>) are left out and read as \<open>NULL\<close>.
\<close>

section \<open>Tables\<close>

record binding_row =
  wb_id :: string
  wb_tenant_id :: string
  wb_billing_sub2api_user_id :: string
  wb_delegation_ref :: string
  wb_verification_evidence_ref :: string
  wb_bound_at :: time
  wb_revoked_at :: "time option"

record wallet_row =
  wl_id :: string
  wl_tenant_id :: string
  wl_wallet_binding_id :: string
  wl_workspace_id :: "string option"
  wl_kind :: string
  wl_status :: string
  wl_amount_usd_micros :: int
  wl_original_wallet_operation_id :: "string option"
  wl_business_idempotency_key :: string
  wl_request_fingerprint :: string
  wl_external_reference :: "string option"
  wl_receipt_id :: "string option"
  wl_refund_entitlement_ref :: "string option"
  wl_error_code :: "string option"
  wl_confirmed_at :: "time option"
  wl_created_at :: time
  wl_updated_at :: time
  wl_purpose :: "string option"
  wl_plan_change_id :: "string option"
  wl_coverage_start :: "time option"
  wl_coverage_end :: "time option"

record gateway_db =
  gd_bindings :: "binding_row list"
  gd_wallets :: "wallet_row list"
  gd_store :: owner_store
  gd_locks :: "string list"

record gwlib =
  \<comment> \<open>\<open>gw_float_text\<close>: the text of \<open>FormatFloat(ParseFloat(s))\<close>, \<open>None\<close> when the text does not parse;
     \<open>gw_pg_time\<close>: what a \<open>timestamptz\<close> column keeps of an instant\<close>
  gw_go :: golib
  gw_float_text :: "string \<Rightarrow> string option"
  gw_pg_time :: "time \<Rightarrow> time"

definition refund_purposes :: "string list" where
  "refund_purposes =
     [''base_period_delete'', ''upgrade_failure_full'', ''supplement_delete_unused'', ''next_period_plan_failure_full'']"

definition wallet_check :: "wallet_row \<Rightarrow> bool" where
  \<comment> \<open>a \<open>CHECK\<close> over \<open>NULL\<close> holds, and the amount is a \<open>bigint\<close>; the refund purposes need a snapshot that no statement writes\<close>
  "wallet_check r \<longleftrightarrow>
     wl_kind r \<in> {''charge'', ''refund'', ''recharge''} \<and>
     wl_status r \<in> {''requested'', ''confirmed'', ''rejected'', ''unknown''} \<and>
     0 < wl_amount_usd_micros r \<and> int64_range (wl_amount_usd_micros r) \<and>
     (wl_kind r \<noteq> ''refund'' \<or> wl_original_wallet_operation_id r \<noteq> None \<and> wl_refund_entitlement_ref r \<noteq> None) \<and>
     (wl_status r \<noteq> ''confirmed'' \<or> wl_external_reference r \<noteq> None \<and> wl_confirmed_at r \<noteq> None) \<and>
     (case wl_purpose r of
        None \<Rightarrow> True
      | Some p \<Rightarrow> p \<in> set walletObservationPurposes \<and> p \<notin> set refund_purposes \<and>
          (p \<noteq> ''upgrade_supplement'' \<or> wl_kind r = ''charge'' \<and> wl_plan_change_id r \<noteq> None \<and>
             wl_coverage_start r \<noteq> None \<and> wl_coverage_end r \<noteq> None)) \<and>
     (case (wl_coverage_start r, wl_coverage_end r) of
        (None, None) \<Rightarrow> True | (Some a, Some b) \<Rightarrow> a < b | (Some _, None) \<Rightarrow> True | (None, Some _) \<Rightarrow> False)"

definition wallet_clash :: "wallet_row \<Rightarrow> wallet_row \<Rightarrow> bool" where
  "wallet_clash a b \<longleftrightarrow> wl_id a = wl_id b \<or> wl_business_idempotency_key a = wl_business_idempotency_key b \<or>
     (wl_external_reference a \<noteq> None \<and> wl_external_reference a = wl_external_reference b)"

definition binding_clash :: "binding_row \<Rightarrow> binding_row \<Rightarrow> bool" where
  "binding_clash a b \<longleftrightarrow> wb_id a = wb_id b \<or>
     (wb_revoked_at a = None \<and> wb_revoked_at b = None \<and>
      (wb_tenant_id a = wb_tenant_id b \<or> wb_billing_sub2api_user_id a = wb_billing_sub2api_user_id b))"

definition shortDigest :: "golib \<Rightarrow> string \<Rightarrow> string" where
  "shortDigest lib value = take 32 (lib_sha256 lib value)"

section \<open>Wallet bindings\<close>

record WalletBinding =
  bd_ID :: string
  bd_TenantID :: string
  bd_BillingSub2APIUserID :: string
  bd_DelegationRef :: string
  bd_VerificationRef :: string
  bd_BoundAt :: time
  bd_Version :: int

definition scan_binding :: "binding_row \<Rightarrow> WalletBinding" where
  "scan_binding r =
     \<lparr>bd_ID = wb_id r, bd_TenantID = wb_tenant_id r, bd_BillingSub2APIUserID = wb_billing_sub2api_user_id r,
      bd_DelegationRef = wb_delegation_ref r, bd_VerificationRef = wb_verification_evidence_ref r,
      bd_BoundAt = wb_bound_at r, bd_Version = 0\<rparr>"

definition active_binding :: "string \<Rightarrow> gateway_db \<Rightarrow> WalletBinding option" where
  "active_binding tenantID db =
     map_option scan_binding (List.find (\<lambda>r. wb_tenant_id r = tenantID \<and> wb_revoked_at r = None) (gd_bindings db))"

definition bindingVersion :: "string \<Rightarrow> gateway_db \<Rightarrow> int" where
  "bindingVersion tenantID db = int (length (filter (\<lambda>r. wb_tenant_id r = tenantID) (gd_bindings db)))"

definition ReadWalletBinding :: "string \<Rightarrow> gateway_db \<Rightarrow> WalletBinding option" where
  "ReadWalletBinding i db = map_option scan_binding (List.find (\<lambda>r. wb_id r = i) (gd_bindings db))"

datatype bind_error = ErrWalletBindingVersionConflict | BindingRefused db_error

definition new_binding_row :: "time \<Rightarrow> WalletBinding \<Rightarrow> binding_row" where
  "new_binding_row now b =
     \<lparr>wb_id = bd_ID b, wb_tenant_id = bd_TenantID b, wb_billing_sub2api_user_id = bd_BillingSub2APIUserID b,
      wb_delegation_ref = bd_DelegationRef b, wb_verification_evidence_ref = bd_VerificationRef b,
      wb_bound_at = now, wb_revoked_at = None\<rparr>"

definition BindWalletBinding ::
  "gwlib \<Rightarrow> WalletBinding \<Rightarrow> int \<Rightarrow> time \<Rightarrow> gateway_db \<Rightarrow> (bind_error + WalletBinding) \<times> gateway_db" where
  "BindWalletBinding lib b expectedVersion now db =
     (let current = bindingVersion (bd_TenantID b) db in
      case List.find (\<lambda>r. wb_id r = bd_ID b \<and> wb_revoked_at r = None) (gd_bindings db) of
        Some r \<Rightarrow> (Inr ((scan_binding r)\<lparr>bd_Version := current\<rparr>), db)
      | None \<Rightarrow>
          if current \<noteq> expectedVersion then (Inl ErrWalletBindingVersionConflict, db)
          else
            let rows = update_rows (\<lambda>r. wb_tenant_id r = bd_TenantID b \<and> wb_revoked_at r = None)
                         (\<lambda>r. r\<lparr>wb_revoked_at := Some (gw_pg_time lib now)\<rparr>) (gd_bindings db) in
            case sql_insert (\<lambda>r. True) binding_clash (new_binding_row (gw_pg_time lib now) b) rows of
              Inl err \<Rightarrow> (Inl (BindingRefused err), db)
            | Inr rows' \<Rightarrow> (Inr (b\<lparr>bd_BoundAt := now, bd_Version := current + 1\<rparr>), db\<lparr>gd_bindings := rows'\<rparr>))"

section \<open>Wallet operations\<close>

record WalletRecord =
  wr_ID :: string
  wr_TenantID :: string
  wr_WorkspaceID :: string
  wr_WalletBindingID :: string
  wr_Kind :: string
  wr_Status :: string
  wr_AmountUSDMicros :: int
  wr_OriginalOperationID :: string
  wr_BusinessKey :: string
  wr_RequestFingerprint :: string
  wr_ExternalReference :: string
  wr_ReceiptID :: string
  wr_RefundEntitlementRef :: string
  wr_ErrorCode :: string
  wr_Purpose :: string
  wr_PlanChangeID :: string
  wr_CoverageStart :: time
  wr_CoverageEnd :: time
  wr_ConfirmedAt :: time
  wr_CreatedAt :: time
  wr_UpdatedAt :: time

definition scanWallet :: "wallet_row \<Rightarrow> WalletRecord" where
  "scanWallet r =
     \<lparr>wr_ID = wl_id r, wr_TenantID = wl_tenant_id r, wr_WorkspaceID = coalesce_str (wl_workspace_id r),
      wr_WalletBindingID = wl_wallet_binding_id r, wr_Kind = wl_kind r, wr_Status = wl_status r,
      wr_AmountUSDMicros = wl_amount_usd_micros r,
      wr_OriginalOperationID = coalesce_str (wl_original_wallet_operation_id r),
      wr_BusinessKey = wl_business_idempotency_key r, wr_RequestFingerprint = wl_request_fingerprint r,
      wr_ExternalReference = coalesce_str (wl_external_reference r), wr_ReceiptID = coalesce_str (wl_receipt_id r),
      wr_RefundEntitlementRef = coalesce_str (wl_refund_entitlement_ref r),
      wr_ErrorCode = coalesce_str (wl_error_code r), wr_Purpose = coalesce_str (wl_purpose r),
      wr_PlanChangeID = coalesce_str (wl_plan_change_id r), wr_CoverageStart = coalesce_time (wl_coverage_start r),
      wr_CoverageEnd = coalesce_time (wl_coverage_end r), wr_ConfirmedAt = coalesce_time (wl_confirmed_at r),
      wr_CreatedAt = wl_created_at r, wr_UpdatedAt = wl_updated_at r\<rparr>"

definition ReadWalletOperation :: "string \<Rightarrow> gateway_db \<Rightarrow> WalletRecord option" where
  \<comment> \<open>\<open>None\<close>: \<open>ErrGatewayWalletUnknown\<close>\<close>
  "ReadWalletOperation i db = map_option scanWallet (List.find (\<lambda>r. wl_id r = i) (gd_wallets db))"

definition ReadWalletOperationByBusinessKey :: "string \<Rightarrow> gateway_db \<Rightarrow> WalletRecord option" where
  "ReadWalletOperationByBusinessKey key db =
     map_option scanWallet (List.find (\<lambda>r. wl_business_idempotency_key r = key) (gd_wallets db))"

datatype wallet_error =
    ErrGatewayWalletConflict
  | WalletRefused db_error
  | WalletUnscannable
  | ConfirmedWithoutReference
  | WalletGone

definition refunds_of :: "string \<Rightarrow> wallet_row list \<Rightarrow> wallet_row list" where
  "refunds_of i rows = filter (\<lambda>r. wl_original_wallet_operation_id r = Some i \<and> wl_kind r = ''refund'' \<and>
     wl_status r \<noteq> ''rejected'') rows"

definition reserved_refunds :: "string \<Rightarrow> gateway_db \<Rightarrow> int" where
  "reserved_refunds i db = sum_list (map wl_amount_usd_micros (refunds_of i (gd_wallets db)))"

definition refund_binding :: "WalletRecord \<Rightarrow> gateway_db \<Rightarrow> wallet_error + string" where
  \<comment> \<open>the checks of a refund against its original charge; the wallet binding of the charge\<close>
  "refund_binding record db =
     (case ReadWalletOperation (wr_OriginalOperationID record) db of
        None \<Rightarrow> Inl ErrGatewayWalletConflict
      | Some original \<Rightarrow>
          if wr_Kind original \<noteq> ''charge'' \<or> wr_Status original \<noteq> ''confirmed'' \<or>
             wr_TenantID original \<noteq> wr_TenantID record \<or> wr_WorkspaceID original \<noteq> wr_WorkspaceID record \<or>
             wr_AmountUSDMicros record \<le> 0
          then Inl ErrGatewayWalletConflict
          else if \<not> int64_range (reserved_refunds (wr_ID original) db) then Inl WalletUnscannable
          else if wrap64 (wr_AmountUSDMicros original - reserved_refunds (wr_ID original) db) < wr_AmountUSDMicros record
          then Inl ErrGatewayWalletConflict
          else Inr (wr_WalletBindingID original))"

definition new_wallet_row :: "time \<Rightarrow> WalletRecord \<Rightarrow> wallet_row" where
  "new_wallet_row now record =
     \<lparr>wl_id = wr_ID record, wl_tenant_id = wr_TenantID record, wl_wallet_binding_id = wr_WalletBindingID record,
      wl_workspace_id = null_if_blank (wr_WorkspaceID record), wl_kind = wr_Kind record, wl_status = ''requested'',
      wl_amount_usd_micros = wr_AmountUSDMicros record,
      wl_original_wallet_operation_id = null_if_blank (wr_OriginalOperationID record),
      wl_business_idempotency_key = wr_BusinessKey record, wl_request_fingerprint = wr_RequestFingerprint record,
      wl_external_reference = None, wl_receipt_id = None,
      wl_refund_entitlement_ref = null_if_blank (wr_RefundEntitlementRef record), wl_error_code = None,
      wl_confirmed_at = None, wl_created_at = now, wl_updated_at = now,
      wl_purpose = null_if_blank (wr_Purpose record), wl_plan_change_id = None, wl_coverage_start = None,
      wl_coverage_end = None\<rparr>"

definition insert_wallet :: "gwlib \<Rightarrow> WalletRecord \<Rightarrow> time \<Rightarrow> gateway_db \<Rightarrow> (wallet_error + WalletRecord \<times> bool) \<times> gateway_db" where
  "insert_wallet lib record now db =
     (let row = new_wallet_row (gw_pg_time lib now) record in
      if wl_wallet_binding_id row \<notin> wb_id ` set (gd_bindings db) \<or>
         (case wl_original_wallet_operation_id row of None \<Rightarrow> False | Some i \<Rightarrow> i \<notin> wl_id ` set (gd_wallets db))
      then (Inl (WalletRefused ForeignKeyViolation), db)
      else case sql_insert wallet_check wallet_clash row (gd_wallets db) of
        Inl err \<Rightarrow> (Inl (WalletRefused err), db)
      | Inr rows \<Rightarrow> (Inr (record\<lparr>wr_Status := ''requested'', wr_CreatedAt := now, wr_UpdatedAt := now\<rparr>, False),
                     db\<lparr>gd_wallets := rows\<rparr>))"

definition ReserveWalletOperation ::
  "gwlib \<Rightarrow> WalletRecord \<Rightarrow> time \<Rightarrow> gateway_db \<Rightarrow> (wallet_error + WalletRecord \<times> bool) \<times> gateway_db" where
  "ReserveWalletOperation lib record now db =
     (case ReadWalletOperationByBusinessKey (wr_BusinessKey record) db of
        Some existing \<Rightarrow>
          if wr_RequestFingerprint existing \<noteq> wr_RequestFingerprint record \<or>
             wr_TenantID existing \<noteq> wr_TenantID record \<or> wr_WorkspaceID existing \<noteq> wr_WorkspaceID record
          then (Inl ErrGatewayWalletConflict, db)
          else (Inr (existing, True), db)
      | None \<Rightarrow>
          if wr_Kind record = ''refund''
          then (case refund_binding record db of
                  Inl err \<Rightarrow> (Inl err, db)
                | Inr bindingID \<Rightarrow> insert_wallet lib (record\<lparr>wr_WalletBindingID := bindingID\<rparr>) now db)
          else insert_wallet lib record now db)"

definition settle_row ::
  "gwlib \<Rightarrow> string \<Rightarrow> string \<Rightarrow> string \<Rightarrow> string \<Rightarrow> time \<Rightarrow> wallet_row \<Rightarrow> wallet_row" where
  "settle_row lib st externalReference receiptID errorCode now r =
     r\<lparr>wl_status := st, wl_external_reference := null_if_blank externalReference,
       wl_receipt_id := null_if_blank receiptID, wl_error_code := null_if_blank errorCode,
       wl_confirmed_at := (if st = ''confirmed'' then Some (gw_pg_time lib now) else None),
       wl_updated_at := gw_pg_time lib now\<rparr>"

definition settle_wallet ::
  "gwlib \<Rightarrow> string \<Rightarrow> string \<Rightarrow> string \<Rightarrow> string \<Rightarrow> string \<Rightarrow> time \<Rightarrow> gateway_db \<Rightarrow> wallet_error option \<times> gateway_db" where
  \<comment> \<open>the \<open>UPDATE\<close> of \<open>SettleWalletOperation\<close>, with the unique index of the external reference\<close>
  "settle_wallet lib i st externalReference receiptID errorCode now db =
     (if st = ''confirmed'' \<and> trim_space externalReference = [] then (Some ConfirmedWithoutReference, db)
      else if null_if_blank externalReference \<noteq> None \<and>
              list_ex (\<lambda>r. wl_id r \<noteq> i \<and> wl_external_reference r = null_if_blank externalReference) (gd_wallets db) \<and>
              list_ex (\<lambda>r. wl_id r = i) (gd_wallets db)
      then (Some (WalletRefused UniqueViolation), db)
      else case sql_update wallet_check (\<lambda>r. wl_id r = i)
                  (settle_row lib st externalReference receiptID errorCode now) (gd_wallets db) of
        Inl err \<Rightarrow> (Some (WalletRefused err), db)
      | Inr (n, rows) \<Rightarrow> (None, db\<lparr>gd_wallets := rows\<rparr>))"

section \<open>Contract form\<close>

definition walletKindEnum :: "string \<Rightarrow> string" where
  "walletKindEnum kind =
     (if kind = ''charge'' then ''CHARGE'' else if kind = ''refund'' then ''REFUND''
      else if kind = ''recharge'' then ''RECHARGE'' else ''UNSPECIFIED'')"

definition walletStatusEnum :: "string \<Rightarrow> string" where
  "walletStatusEnum st =
     (if st = ''requested'' then ''REQUESTED'' else if st = ''confirmed'' then ''CONFIRMED''
      else if st = ''rejected'' then ''REJECTED'' else ''UNKNOWN'')"

definition some_text :: "string \<Rightarrow> string option" where
  "some_text s = (if s = [] then None else Some s)"

definition unix_milli :: "time \<Rightarrow> int" where
  "unix_milli t = t div 1000000 - 62135596800000"

definition WalletOperationMessage :: "WalletRecord \<Rightarrow> WalletOperation" where
  "WalletOperationMessage r =
     \<lparr>wo_Id = wr_ID r, wo_WorkspaceId = some_text (wr_WorkspaceID r), wo_Kind = walletKindEnum (wr_Kind r),
      wo_AmountUsdMicros = wr_AmountUSDMicros r, wo_Status = walletStatusEnum (wr_Status r),
      wo_ExternalReference = some_text (wr_ExternalReference r), wo_ReceiptId = some_text (wr_ReceiptID r),
      wo_ErrorCode = (if wr_ErrorCode r \<in> set (''UNSPECIFIED'' # ErrorCodeEnum_value) then Some (wr_ErrorCode r) else None),
      wo_CreatedAt = Some (timestamp (wr_CreatedAt r)), wo_UpdatedAt = Some (timestamp (wr_UpdatedAt r)),
      wo_Purpose = (if wr_Purpose r \<noteq> [] \<and>
                       to_upper (wr_Purpose r) \<in> set (''UNSPECIFIED'' # map to_upper walletObservationPurposes)
                    then Some (to_upper (wr_Purpose r)) else None),
      wo_PlanChangeId = some_text (wr_PlanChangeID r),
      wo_OriginalChargeOperationId = some_text (wr_OriginalOperationID r),
      wo_CoverageStart = (if is_zero (wr_CoverageStart r) then None else Some (timestamp (wr_CoverageStart r))),
      wo_CoverageEnd = (if is_zero (wr_CoverageEnd r) then None else Some (timestamp (wr_CoverageEnd r))),
      wo_CoverageStartMilliseconds =
        (if is_zero (wr_CoverageStart r) then None else Some (unix_milli (wr_CoverageStart r))),
      wo_CoverageEndMilliseconds =
        (if is_zero (wr_CoverageEnd r) then None else Some (unix_milli (wr_CoverageEnd r)))\<rparr>"

section \<open>The guard of a workspace\<close>

definition workspace_lock :: "string \<Rightarrow> string \<Rightarrow> string" where
  "workspace_lock tenant workspace = ''gateway.workspace_key:'' @ tenant @ '':'' @ workspace"

definition guardWorkspaceKey :: "string \<Rightarrow> string \<Rightarrow> gateway_db \<Rightarrow> bool \<times> gateway_db" where
  \<comment> \<open>\<open>pg_try_advisory_xact_lock\<close> in a transaction that stays open\<close>
  "guardWorkspaceKey tenant workspace db =
     (let key = workspace_lock tenant workspace in
      if key \<in> set (gd_locks db) then (False, db) else (True, db\<lparr>gd_locks := key # gd_locks db\<rparr>))"

definition release_guard :: "string \<Rightarrow> string \<Rightarrow> gateway_db \<Rightarrow> gateway_db" where
  \<comment> \<open>\<open>guard.Rollback()\<close>\<close>
  "release_guard tenant workspace db = db\<lparr>gd_locks := remove1 (workspace_lock tenant workspace) (gd_locks db)\<rparr>"

definition workspaceKeyClosing :: "string \<Rightarrow> string \<Rightarrow> gateway_db \<Rightarrow> bool" where
  "workspaceKeyClosing tenant workspace db \<longleftrightarrow>
     list_ex (\<lambda>r. id_tenant_scope r = tenant \<and> id_operation_name r = ''DisableManagedKey'' \<and>
                  id_resource_id r = workspace \<and> id_idempotency_key r = ''close:'' @ workspace)
       (st_idempotency_records (gd_store db))"

end
