(* ===== verification/Gateway_Wallet.thy ===== *)
theory Gateway_Wallet
  imports Gateway_Store
begin

text \<open>
  The adapter to the external wallet (\<open>services/gateway-integration/identity/gateway_wallet.go\<close>). Sub2API
  keeps the spendable balance; it is reached by calls whose answers are any value. \<open>BalancePost\<close> is the
  one call that moves money; \<open>BalanceHistory\<close> reads the native records back. A body that does not decode
  as the code expects is \<open>Malformed\<close>. The administrative token, cached or fresh from a login, is the
  answer of \<open>DirectoryToken\<close>. Numbers of the wallet are decimal texts (\<open>json.Number\<close>); amounts are
  millionths of a dollar.
\<close>

section \<open>Calls\<close>

record gatewayBalanceRecord =
  br_Code :: string
  br_Notes :: string
  br_Type :: string
  br_Value :: "string option"
  br_BalanceAppliedValue :: "string option"
  br_Status :: string
  br_UsedBy :: "int option"
  br_UsedAt :: "string option"
  br_CreatedAt :: "string option"

record gatewayBalancePage =
  bp_Items :: "gatewayBalanceRecord list"
  bp_Total :: int
  bp_Page :: int
  bp_PageSize :: int
  bp_Pages :: int

datatype gateway_call =
    AuthorizeAction AuthorizationRequest
  | DirectoryToken
  | DirectoryUser int
  | AdminSettings
  | BalancePost int string string string
  | BalanceHistory int int string

datatype gateway_answer =
    Decision AuthorizationDecision
  | CallFailed status
  | TransportFailed string
  | HttpStatus int
  | Malformed
  | Token
  | SettingsBody "bool option" "bool option"
  | UserBody int string
  | HistoryBody gatewayBalancePage

type_synonym 'r gateway_proc = "(gateway_db, gateway_call, gateway_answer, 'r) proc"

definition call_error :: "gateway_answer \<Rightarrow> status" where
  "call_error a = (case a of CallFailed st \<Rightarrow> st | _ \<Rightarrow> (Unknown, []))"

datatype gateway_error = GatewayStatus status | GatewayText string

definition error_text :: "gateway_error \<Rightarrow> string" where
  "error_text err = (case err of GatewayStatus st \<Rightarrow> snd st | GatewayText s \<Rightarrow> s)"

section \<open>Amounts\<close>

definition gatewayUSDMicrosJSON :: "int \<Rightarrow> string option" where
  "gatewayUSDMicrosJSON micros =
     (if micros \<le> 0 then None
      else Some (format_int (micros div 1000000) @ ''.'' @ pad_left 6 (format_int (micros mod 1000000))))"

fun split_digits :: "string \<Rightarrow> string \<times> string" where
  "split_digits [] = ([], [])"
| "split_digits (c # cs) = (if is_digit c then (case split_digits cs of (ds, r) \<Rightarrow> (c # ds, r)) else ([], c # cs))"

definition parse_exponent :: "string \<Rightarrow> int option" where
  \<comment> \<open>the rest of a decimal: nothing, or an exponent\<close>
  "parse_exponent s =
     (case s of
        [] \<Rightarrow> Some 0
      | c # r \<Rightarrow>
          if c = CHR ''e'' \<or> c = CHR ''E''
          then (case r of
                  [] \<Rightarrow> None
                | d # ds \<Rightarrow>
                    if d = CHR ''-'' then map_option uminus (parse_digits ds)
                    else if d = CHR ''+'' then parse_digits ds
                    else parse_digits r)
          else None)"

definition parse_unsigned :: "string \<Rightarrow> (int \<times> int) option" where
  \<comment> \<open>mantissa and power of ten of \<open>digits[.digits][exponent]\<close>\<close>
  "parse_unsigned s =
     (let (whole, r) = split_digits s;
          (part, r') = (case r of c # cs \<Rightarrow> if c = CHR ''.'' then split_digits cs else ([], r) | [] \<Rightarrow> ([], [])) in
      if whole @ part = [] then None
      else map_option (\<lambda>e. (decimal_value (whole @ part), e - int (length part))) (parse_exponent r'))"

definition parse_decimal :: "string \<Rightarrow> (int \<times> int) option" where
  \<comment> \<open>\<open>big.Rat.SetString\<close> on a decimal: the value is mantissa times a power of ten; an exponent beyond a
     million is refused unless the mantissa is zero\<close>
  "parse_decimal s =
     (let v = (case s of
                 [] \<Rightarrow> None
               | c # cs \<Rightarrow>
                   if c = CHR ''-'' then map_option (\<lambda>(m, e). (- m, e)) (parse_unsigned cs)
                   else if c = CHR ''+'' then parse_unsigned cs
                   else parse_unsigned s) in
      case v of
        None \<Rightarrow> None
      | Some (m, e) \<Rightarrow> if m = 0 then Some (0, 0) else if 1000000 < abs e then None else Some (m, e))"

definition gatewayDecimalUSDMicros :: "string \<Rightarrow> int option" where
  \<comment> \<open>the value times a million, when that is an integer of 64 bits\<close>
  "gatewayDecimalUSDMicros value =
     (case parse_decimal value of
        None \<Rightarrow> None
      | Some (m, e) \<Rightarrow>
          let k = e + 6 in
          if k < 0 \<and> \<not> 10 ^ nat (- k) dvd m then None
          else let v = (if 0 \<le> k then m * 10 ^ nat k else m div 10 ^ nat (- k)) in
               if int64_range v then Some v else None)"

section \<open>Moving money\<close>

definition gatewayBalanceNotePrefix :: string where
  "gatewayBalanceNotePrefix = ''OPL Cloud balance adjustment: ''"

definition ErrGatewayChargeUnknown :: string where
  "ErrGatewayChargeUnknown = ''gateway balance adjustment result unknown''"

definition ErrGatewayChargeConflict :: string where
  "ErrGatewayChargeConflict = ''gateway balance adjustment conflict''"

definition ErrGatewayAdjustmentUnrepresentable :: string where
  "ErrGatewayAdjustmentUnrepresentable = ''gateway adjustment amount is not exactly representable''"

definition native_amount :: "gwlib \<Rightarrow> int \<Rightarrow> gateway_error + string" where
  \<comment> \<open>the amount as the wallet will store it, when that is exactly the amount\<close>
  "native_amount lib micros =
     (case gatewayUSDMicrosJSON micros of
        None \<Rightarrow> Inl (GatewayStatus (InvalidArgument, ''a positive USD micros amount is required''))
      | Some balance \<Rightarrow>
          if Option.bind (gw_float_text lib balance) gatewayDecimalUSDMicros \<noteq> Some micros \<or>
             1000000000000000000 \<le> micros
          then Inl (GatewayStatus (InvalidArgument, ErrGatewayAdjustmentUnrepresentable))
          else Inr balance)"

definition requireRefundWithoutRebate :: "(gateway_error + unit) gateway_proc" where
  "requireRefundWithoutRebate =
     Call DirectoryToken (\<lambda>tok. case tok of
       Token \<Rightarrow>
         Call AdminSettings (\<lambda>a. Return (case a of
             TransportFailed e \<Rightarrow> Inl (GatewayStatus (Unavailable, ''Gateway refund rebate policy unavailable''))
           | HttpStatus n \<Rightarrow> Inl (GatewayStatus (Unavailable, ''Gateway refund rebate policy unavailable''))
           | SettingsBody (Some affiliate) (Some recharge) \<Rightarrow>
               if affiliate \<and> recharge
               then Inl (GatewayStatus (FailedPrecondition, ''Gateway refund would accrue an affiliate rebate''))
               else Inr ()
           | _ \<Rightarrow> Inl (GatewayStatus (FailedPrecondition, ''Gateway refund rebate policy unavailable''))))
     | a \<Rightarrow> Return (Inl (GatewayStatus (call_error a))))"

definition post_result :: "int \<Rightarrow> gateway_answer \<Rightarrow> gateway_error option" where
  \<comment> \<open>how the answer of the one \<open>POST\<close> is read\<close>
  "post_result userID a =
     (case a of
        HttpStatus n \<Rightarrow>
          if n = 401 \<or> n = 403 then Some (GatewayStatus (Unauthenticated, ''Gateway wallet adjustment rejected''))
          else if n < 500 \<and> n \<noteq> 429 then Some (GatewayStatus (FailedPrecondition, ''Gateway wallet adjustment refused''))
          else Some (GatewayText (ErrGatewayChargeUnknown @ '': gateway request failed with status '' @ format_int n))
      | TransportFailed e \<Rightarrow> Some (GatewayText (ErrGatewayChargeUnknown @ '': '' @ e))
      | UserBody i st \<Rightarrow>
          if i \<noteq> userID
          then Some (GatewayText (ErrGatewayChargeUnknown @ '': balance adjustment response identity is unconfirmed''))
          else None
      | _ \<Rightarrow> Some (GatewayText (ErrGatewayChargeUnknown @ '': balance adjustment response identity is unconfirmed'')))"

definition AdjustBalance ::
  "gwlib \<Rightarrow> bool \<Rightarrow> int \<Rightarrow> string \<Rightarrow> int \<Rightarrow> string \<Rightarrow> (gateway_error + unit) gateway_proc" where
  \<comment> \<open>the second argument is \<open>DirectoryConfigured\<close>\<close>
  "AdjustBalance lib configured userID code micros operation =
     (if userID \<le> 0 \<or> micros \<le> 0 \<or> operation \<notin> {''subtract'', ''add''}
      then Return (Inl (GatewayStatus (InvalidArgument, ''a positive wallet identity, amount and a known operation are required'')))
      else if 32 < length code \<or> trim_space code \<noteq> code \<or> code = []
      then Return (Inl (GatewayStatus (InvalidArgument, ''a wallet adjustment code of at most 32 characters without outer whitespace is required'')))
      else case native_amount lib micros of
        Inl err \<Rightarrow> Return (Inl err)
      | Inr balance \<Rightarrow>
          bind_ok (if operation = ''add'' then requireRefundWithoutRebate else Return (Inr ())) (\<lambda>_.
            if \<not> configured
            then Return (Inl (GatewayStatus (FailedPrecondition, ''the Gateway directory identity is not configured'')))
            else Call DirectoryToken (\<lambda>tok. case tok of
                Token \<Rightarrow>
                  Call (BalancePost userID balance operation (gatewayBalanceNotePrefix @ code)) (\<lambda>a.
                    Return (case post_result userID a of Some err \<Rightarrow> Inl err | None \<Rightarrow> Inr ()))
              | a \<Rightarrow> Return (Inl (GatewayStatus (call_error a))))))"

section \<open>Native evidence\<close>

record GatewayBalanceHistoryEntry =
  he_Code :: string
  he_Micros :: int

definition gatewayConfirmedAdjustment ::
  "gatewayBalanceRecord \<Rightarrow> string \<Rightarrow> string \<Rightarrow> int \<Rightarrow> string + GatewayBalanceHistoryEntry" where
  "gatewayConfirmedAdjustment item recordType code userID =
     (if br_Type item \<noteq> recordType \<or> br_Code item = [] \<or> br_Status item \<noteq> ''used'' \<or> br_UsedBy item \<noteq> Some userID \<or>
         coalesce_str (br_UsedAt item) = [] \<or> coalesce_str (br_CreatedAt item) = []
      then Inl (ErrGatewayChargeConflict @ '': balance adjustment identity or state differs'')
      else case br_Value item of
        None \<Rightarrow> Inl (ErrGatewayChargeConflict @ '': balance adjustment has no value'')
      | Some number \<Rightarrow>
          (case gatewayDecimalUSDMicros number of
             None \<Rightarrow> Inl (ErrGatewayChargeConflict @ '': invalid balance adjustment amount'')
           | Some value \<Rightarrow>
               if value = 0 then Inl (ErrGatewayChargeConflict @ '': invalid balance adjustment amount'')
               else if recordType = ''balance'' \<and> br_BalanceAppliedValue item = None
               then Inl (ErrGatewayChargeConflict @ '': balance adjustment has no verified applied amount'')
               else if recordType = ''balance'' \<and>
                       Option.bind (br_BalanceAppliedValue item) gatewayDecimalUSDMicros \<noteq> Some value
               then Inl (ErrGatewayChargeConflict @ '': balance adjustment applied amount differs'')
               else Inr \<lparr>he_Code = code, he_Micros = value\<rparr>))"

definition item_code :: "string \<Rightarrow> gatewayBalanceRecord \<Rightarrow> string option" where
  \<comment> \<open>the business code of a record; \<open>None\<close> for a record that is skipped\<close>
  "item_code recordType item =
     (if recordType = ''admin_balance'' then strip_prefix gatewayBalanceNotePrefix (br_Notes item)
      else Some (br_Code item))"

type_synonym matches = "(string \<times> GatewayBalanceHistoryEntry) list"

fun match_items ::
  "string list \<Rightarrow> string \<Rightarrow> int \<Rightarrow> gatewayBalanceRecord list \<Rightarrow> matches \<Rightarrow> gateway_error + matches" where
  "match_items targets recordType userID [] found = Inr found"
| "match_items targets recordType userID (item # items) found =
     (case item_code recordType item of
        None \<Rightarrow> match_items targets recordType userID items found
      | Some code \<Rightarrow>
          if code \<notin> set targets then match_items targets recordType userID items found
          else (case gatewayConfirmedAdjustment item recordType code userID of
                  Inl err \<Rightarrow> Inl (GatewayStatus (FailedPrecondition, err))
                | Inr entry \<Rightarrow>
                    if (case map_of found code of None \<Rightarrow> False | Some previous \<Rightarrow> he_Micros previous \<noteq> he_Micros entry)
                    then Inl (GatewayStatus (FailedPrecondition, ErrGatewayChargeConflict))
                    else match_items targets recordType userID items ((code, entry) # found)))"

definition maxGatewayBalanceHistoryPage :: int where
  "maxGatewayBalanceHistoryPage = 1000000"

definition gatewayAdjustmentLookups :: int where
  "gatewayAdjustmentLookups = 100"

definition page_ok :: "int \<Rightarrow> gatewayBalancePage \<Rightarrow> bool" where
  \<comment> \<open>the pagination the wallet claims agrees with itself and with the request; the arithmetic is that of
     \<open>int64\<close>\<close>
  "page_ok page p \<longleftrightarrow>
     (let total = bp_Total p;
          expectedPages = (if 0 < total then quot (wrap64 (total + gatewayAdjustmentLookups - 1)) gatewayAdjustmentLookups else 1);
          remaining = wrap64 (total - (page - 1) * gatewayAdjustmentLookups);
          expectedItems = (if 0 < total \<and> page \<le> expectedPages
                           then (if remaining < gatewayAdjustmentLookups then remaining else gatewayAdjustmentLookups)
                           else 0) in
      \<not> (total < 0 \<or> bp_Page p \<noteq> page \<or> bp_PageSize p \<noteq> gatewayAdjustmentLookups \<or> bp_Pages p \<noteq> expectedPages \<or>
         bp_Pages p < page \<or> int (length (bp_Items p)) \<noteq> expectedItems))"

definition page_answer :: "int \<Rightarrow> gateway_answer \<Rightarrow> gateway_error + gatewayBalancePage" where
  "page_answer page a =
     (case a of
        TransportFailed e \<Rightarrow> Inl (GatewayText e)
      | HttpStatus n \<Rightarrow> Inl (GatewayText (''gateway request failed with status '' @ format_int n))
      | HistoryBody p \<Rightarrow>
          if page_ok page p then Inr p
          else Inl (GatewayStatus (Unavailable, ''invalid Gateway balance history pagination''))
      | _ \<Rightarrow> Inl (GatewayStatus (Unavailable, ''invalid Gateway balance history response'')))"

definition balanceHistoryPage :: "int \<Rightarrow> int \<Rightarrow> string \<Rightarrow> (gateway_error + gatewayBalancePage) gateway_proc" where
  "balanceHistoryPage userID page recordType =
     (if maxGatewayBalanceHistoryPage < page
      then Return (Inl (GatewayStatus (InvalidArgument, ''Gateway balance history page exceeds supported range'')))
      else Call (BalanceHistory userID page recordType) (\<lambda>a. Return (page_answer page a)))"

text \<open>The loop over the pages of one type of record; it ends at the wallet's last page or at the page limit.\<close>

function history_pages ::
  "string list \<Rightarrow> int \<Rightarrow> string \<Rightarrow> int \<Rightarrow> matches \<Rightarrow> (gateway_error + matches) gateway_proc" where
  "history_pages targets userID recordType page found =
     (if maxGatewayBalanceHistoryPage < page
      then Return (Inl (GatewayStatus (InvalidArgument, ''Gateway balance history page exceeds supported range'')))
      else Call (BalanceHistory userID page recordType) (\<lambda>a.
        case page_answer page a of
          Inl err \<Rightarrow> Return (Inl err)
        | Inr p \<Rightarrow>
            (case match_items targets recordType userID (bp_Items p) found of
               Inl err \<Rightarrow> Return (Inl err)
             | Inr found' \<Rightarrow>
                 if bp_Pages p \<le> page then Return (Inr found')
                 else history_pages targets userID recordType (page + 1) found')))"
  by pat_completeness auto
termination
  by (relation "measure (\<lambda>(_, _, _, page, _). nat (maxGatewayBalanceHistoryPage + 1 - page))") auto

declare history_pages.simps [simp del]

lemma history_pages_unfold:
  "history_pages targets userID recordType page found =
     bind_ok (balanceHistoryPage userID page recordType) (\<lambda>p.
       case match_items targets recordType userID (bp_Items p) found of
         Inl err \<Rightarrow> Return (Inl err)
       | Inr found' \<Rightarrow>
           if bp_Pages p \<le> page then Return (Inr found')
           else history_pages targets userID recordType (page + 1) found')"
  by (subst history_pages.simps) (simp add: balanceHistoryPage_def bind_ok_def)

definition PositiveBalanceHistoryByCodes ::
  "bool \<Rightarrow> int \<Rightarrow> string list \<Rightarrow> (gateway_error + matches) gateway_proc" where
  "PositiveBalanceHistoryByCodes configured userID adjustmentCodes =
     (if userID \<le> 0 \<or> adjustmentCodes = []
      then Return (Inl (GatewayStatus (InvalidArgument, ''a positive wallet identity and at least one adjustment code are required'')))
      else if list_ex (\<lambda>code. code = [] \<or> 200 < length code \<or> trim_space code \<noteq> code) adjustmentCodes
      then Return (Inl (GatewayStatus (InvalidArgument, ''invalid Gateway adjustment code'')))
      else if \<not> configured
      then Return (Inl (GatewayStatus (FailedPrecondition, ''the Gateway directory identity is not configured'')))
      else Call DirectoryToken (\<lambda>tok. case tok of
          Token \<Rightarrow>
            bind_ok (history_pages adjustmentCodes userID ''admin_balance'' 1 []) (\<lambda>found.
              history_pages adjustmentCodes userID ''balance'' 1 found)
        | a \<Rightarrow> Return (Inl (GatewayStatus (call_error a)))))"

end
