(* ===== verification/Gateway_Coordination.thy ===== *)
theory Gateway_Coordination
  imports Gateway_Wallet
begin

text \<open>
  The settlement handlers of the Gateway owner (\<open>services/gateway-integration/identity/coordination.go\<close>):
  binding a wallet, charging, refunding, and reading an operation back. Each handler is a process; its
  statements and calls stand in the order of the code. The CloudIdentity authority of the same deployment
  (\<open>AuthorizeAction\<close> of \<open>authorization.go\<close>) is a call; its decision is validated as the code does. The
  peer is the authenticated caller of the connection.
\<close>

section \<open>Messages\<close>

record WalletBindingCommand =
  bc_Context :: "CallContext option"
  bc_TargetTenantId :: string
  bc_BillingSub2ApiUserId :: string
  bc_ExpectedBindingVersion :: int
  bc_AuthorizationReceiptId :: string

record WalletBindingReadback =
  bk_TenantId :: string
  bk_BillingSub2ApiUserId :: string
  bk_BindingVersion :: int
  bk_Outcome :: string
  bk_AuthorizationReceiptId :: string

record WalletDebitCommand =
  wd_Context :: "CallContext option"
  wd_WorkspaceId :: string
  wd_ObligationId :: string
  wd_QuoteAcceptanceId :: string
  wd_AmountUsdMicros :: int
  wd_Currency :: string
  wd_SubscriptionPeriodId :: string

record WalletRefundCommand =
  rf_Context :: "CallContext option"
  rf_WorkspaceId :: string
  rf_OriginalWalletOperationId :: string
  rf_OriginalExternalPaymentReference :: string
  rf_AmountUsdMicros :: int
  rf_RefundPolicyVersionId :: string
  rf_ConfirmedDeletionReceiptId :: string
  rf_SubscriptionPeriodId :: string

record WalletReadbackRequest =
  wq_Context :: "CallContext option"
  wq_WalletOperationId :: string
  wq_OriginalIdempotencyKey :: string
  wq_ConfirmClosedAbsence :: bool
  wq_WorkspaceId :: string

record gateway_server =
  \<comment> \<open>the library, the authenticated peer, whether the store and the directory identity are configured\<close>
  gs_lib :: gwlib
  gs_peer :: "string option"
  gs_store :: bool
  gs_directory :: bool

section \<open>Helpers\<close>

definition coordinationCaller :: "string option \<Rightarrow> string list \<Rightarrow> status option" where
  "coordinationCaller peer allowed =
     (case peer of
        None \<Rightarrow> Some (Unauthenticated, ''verified calling owner required'')
      | Some p \<Rightarrow> if p \<in> set allowed then None
                 else Some (PermissionDenied, ''calling owner may not use Gateway coordination''))"

definition walletBusinessKey :: "CallContext option \<Rightarrow> string" where
  "walletBusinessKey call = (case call of None \<Rightarrow> [] | Some c \<Rightarrow> ctx_IdempotencyKey c)"

definition gatewayAdjustmentCode :: "golib \<Rightarrow> string \<Rightarrow> string" where
  "gatewayAdjustmentCode lib businessKey = ''gw'' @ take 30 (lib_sha256 lib businessKey)"

definition parseGatewaySubject :: "string \<Rightarrow> int option" where
  \<comment> \<open>\<open>int64\<close> arithmetic without a range check\<close>
  "parseGatewaySubject subject =
     (let s = trim_space subject in
      if \<not> list_all is_digit s then None
      else let out = fold (\<lambda>c v. wrap64 (v * 10 + digit_value c)) s 0 in
           if out \<le> 0 then None else Some out)"

definition contains_text :: "string \<Rightarrow> string \<Rightarrow> bool" where
  "contains_text s p \<longleftrightarrow> list_ex (\<lambda>n. has_prefix (drop n s) p) [0..<Suc (length s)]"

definition isUnknownAdjustmentError :: "gateway_error \<Rightarrow> bool" where
  "isUnknownAdjustmentError err \<longleftrightarrow> contains_text (error_text err) ErrGatewayChargeUnknown"

definition errorCodeForAdjustment :: "gateway_error \<Rightarrow> string" where
  "errorCodeForAdjustment err =
     (if contains_text (error_text err) ErrGatewayAdjustmentUnrepresentable then ''INVALID_ARGUMENT''
      else ''DEPENDENCY_UNAVAILABLE'')"

definition nativeAdjustmentMicros :: "WalletRecord \<Rightarrow> int" where
  "nativeAdjustmentMicros record =
     (if wr_Kind record = ''charge'' then wrap64 (- wr_AmountUSDMicros record) else wr_AmountUSDMicros record)"

section \<open>Authorization\<close>

definition authorizeInternal :: "AuthorizationRequest \<Rightarrow> (status + unit) gateway_proc" where
  "authorizeInternal req =
     Call (AuthorizeAction req) (\<lambda>a. case a of
       Decision d \<Rightarrow>
         Clock (\<lambda>now. Return (case ValidateDecision (Some req) (Some d) now of
             None \<Rightarrow> Inr () | Some msg \<Rightarrow> Inl (PermissionDenied, msg)))
     | _ \<Rightarrow> Return (Inl (call_error a)))"

definition internal_request :: "CallContext \<Rightarrow> string \<Rightarrow> string \<Rightarrow> string \<Rightarrow> string \<Rightarrow> AuthorizationRequest" where
  "internal_request c audience action kind i =
     \<lparr>aq_Scope = ctx_Scope c, aq_ActorId = ctx_ActorId c, aq_SessionId = ctx_SessionId c,
      aq_AuthorizationContextId = None, aq_AcceptedOperationGrantId = ctx_AcceptedOperationGrantId c,
      aq_AudienceOwner = audience, aq_Action = action, aq_Resource = Some \<lparr>ar_Kind = kind, ar_Id = Some i\<rparr>,
      aq_RequestId = ctx_RequestId c\<rparr>"

definition authorizeWalletBinding :: "CallContext \<Rightarrow> string \<Rightarrow> (status + unit) gateway_proc" where
  "authorizeWalletBinding c tenantID = authorizeInternal (internal_request c ''TENANT'' ''BINDTENANTWALLET'' ''TENANT'' tenantID)"

definition authorizeWalletWrite :: "CallContext \<Rightarrow> string \<Rightarrow> string \<Rightarrow> (status + unit) gateway_proc" where
  "authorizeWalletWrite c kind workspaceID =
     authorizeInternal (internal_request c ''GATEWAY''
       (if kind = ''refund'' then ''REFUNDCONFIRMEDDELETION'' else ''CHARGEACCEPTEDOBLIGATION'') ''WORKSPACE'' workspaceID)"

definition authorizeWalletRead :: "CallContext \<Rightarrow> string \<Rightarrow> (status + unit) gateway_proc" where
  "authorizeWalletRead c workspaceID =
     authorizeInternal (internal_request c ''GATEWAY'' ''READWALLETACTION'' ''WORKSPACE'' workspaceID)"

section \<open>Settlement\<close>

definition SettleWalletOperation ::
  "gwlib \<Rightarrow> string \<Rightarrow> string \<Rightarrow> string \<Rightarrow> string \<Rightarrow> string \<Rightarrow> (wallet_error + WalletRecord) option gateway_proc" where
  \<comment> \<open>the \<open>UPDATE\<close>, then the row read back\<close>
  "SettleWalletOperation lib i st externalReference receiptID errorCode =
     bind_proc (transaction (settle_wallet lib i st externalReference receiptID errorCode)) (\<lambda>r.
       case r of
         None \<Rightarrow> Return None
       | Some (Some err) \<Rightarrow> Return (Some (Inl err))
       | Some None \<Rightarrow>
           bind_proc (query (ReadWalletOperation i)) (\<lambda>q.
             Return (case q of
                       None \<Rightarrow> None
                     | Some None \<Rightarrow> Some (Inl WalletGone)
                     | Some (Some record) \<Rightarrow> Some (Inr record))))"

definition settled ::
  "gwlib \<Rightarrow> string \<Rightarrow> string \<Rightarrow> string \<Rightarrow> string \<Rightarrow> string \<Rightarrow> (status + unit) gateway_proc" where
  \<comment> \<open>\<open>if _, err := SettleWalletOperation(...); err != nil\<close>\<close>
  "settled lib i st externalReference receiptID errorCode =
     bind_proc (SettleWalletOperation lib i st externalReference receiptID errorCode) (\<lambda>r.
       Return (case r of
                 Some (Inr _) \<Rightarrow> Inr ()
               | _ \<Rightarrow> Inl (Unavailable, ''Gateway wallet settlement unavailable'')))"

definition gatewayStoreRead :: "string \<Rightarrow> (status + WalletOperation) gateway_proc" where
  "gatewayStoreRead i =
     bind_proc (query (ReadWalletOperation i)) (\<lambda>r.
       Return (case r of
                 Some (Some record) \<Rightarrow> Inr (WalletOperationMessage record)
               | _ \<Rightarrow> Inl (Unavailable, ''Gateway wallet readback unavailable'')))"

definition receipt_name :: "golib \<Rightarrow> WalletRecord \<Rightarrow> string" where
  "receipt_name lib record = wr_Kind record @ ''-receipt-'' @ shortDigest lib (wr_ID record)"

definition native_history ::
  "gateway_server \<Rightarrow> WalletRecord \<Rightarrow> WalletBinding \<Rightarrow> (matches \<Rightarrow> (status + WalletOperation) gateway_proc) \<Rightarrow>
   (status + WalletOperation) gateway_proc" where
  \<comment> \<open>what \<open>confirmWalletOperation\<close> and \<open>reconcileWalletOperation\<close> begin with\<close>
  "native_history e record binding k =
     (case parseGatewaySubject (bd_BillingSub2APIUserID binding) of
        None \<Rightarrow> Return (Inl (FailedPrecondition, ''the tenant wallet binding subject is invalid''))
      | Some subject \<Rightarrow>
          bind_proc (PositiveBalanceHistoryByCodes (gs_directory e) subject
                       [gatewayAdjustmentCode (gw_go (gs_lib e)) (wr_BusinessKey record)]) (\<lambda>r.
            case r of
              Inl _ \<Rightarrow> Return (Inl (Unavailable, ''Gateway balance history unavailable''))
            | Inr history \<Rightarrow> k history))"

definition confirmWalletOperation ::
  "gateway_server \<Rightarrow> WalletRecord \<Rightarrow> WalletBinding \<Rightarrow> (status + WalletOperation) gateway_proc" where
  "confirmWalletOperation e record binding =
     (let externalCode = gatewayAdjustmentCode (gw_go (gs_lib e)) (wr_BusinessKey record) in
      native_history e record binding (\<lambda>history.
        if map_option he_Micros (map_of history externalCode) \<noteq> Some (nativeAdjustmentMicros record)
        then bind_ok (settled (gs_lib e) (wr_ID record) ''unknown'' [] [] ''EXTERNAL_OUTCOME_UNKNOWN'') (\<lambda>_.
               gatewayStoreRead (wr_ID record))
        else bind_ok (settled (gs_lib e) (wr_ID record) ''confirmed'' externalCode
                        (receipt_name (gw_go (gs_lib e)) record) []) (\<lambda>_.
               gatewayStoreRead (wr_ID record))))"

definition reconcileWalletOperation ::
  "gateway_server \<Rightarrow> WalletRecord \<Rightarrow> WalletBinding \<Rightarrow> (status + WalletOperation) gateway_proc" where
  "reconcileWalletOperation e record binding =
     (let externalCode = gatewayAdjustmentCode (gw_go (gs_lib e)) (wr_BusinessKey record) in
      native_history e record binding (\<lambda>history.
        case map_of history externalCode of
          None \<Rightarrow> Return (Inr (WalletOperationMessage record))
        | Some entry \<Rightarrow>
            if he_Micros entry \<noteq> nativeAdjustmentMicros record
            then Return (Inl (FailedPrecondition, ''native wallet adjustment differs from the recorded amount''))
            else bind_ok (settled (gs_lib e) (wr_ID record) ''confirmed'' externalCode
                            (receipt_name (gw_go (gs_lib e)) record) []) (\<lambda>_.
                   gatewayStoreRead (wr_ID record))))"

section \<open>Charging and refunding\<close>

record walletActionRequest =
  wt_call :: "CallContext option"
  wt_kind :: string
  wt_workspaceID :: string
  wt_amount :: int
  wt_currency :: string
  wt_businessKey :: string
  wt_obligation :: string
  wt_quoteAcceptanceID :: string
  wt_original :: string
  wt_entitlement :: string
  wt_deletionReceipt :: string

fun join_nul :: "string list \<Rightarrow> string" where
  "join_nul [] = []"
| "join_nul [p] = p"
| "join_nul (p # ps) = p @ [CHR 0x00] @ join_nul ps"

definition walletRequestFingerprint :: "golib \<Rightarrow> walletActionRequest \<Rightarrow> string" where
  "walletRequestFingerprint lib req =
     shortDigest lib (join_nul [wt_kind req, wt_workspaceID req, wt_businessKey req, wt_original req,
       wt_entitlement req, wt_deletionReceipt req] @ ''|'' @ format_int (wt_amount req))"

definition requested_record :: "golib \<Rightarrow> walletActionRequest \<Rightarrow> string \<Rightarrow> WalletBinding \<Rightarrow> WalletRecord" where
  "requested_record lib req tenantID binding =
     \<lparr>wr_ID = ''wallet-op-'' @ shortDigest lib (wt_businessKey req), wr_TenantID = tenantID,
      wr_WorkspaceID = wt_workspaceID req, wr_WalletBindingID = bd_ID binding, wr_Kind = wt_kind req, wr_Status = [],
      wr_AmountUSDMicros = wt_amount req, wr_OriginalOperationID = wt_original req, wr_BusinessKey = wt_businessKey req,
      wr_RequestFingerprint = walletRequestFingerprint lib req, wr_ExternalReference = [], wr_ReceiptID = [],
      wr_RefundEntitlementRef = wt_entitlement req, wr_ErrorCode = [], wr_Purpose = [], wr_PlanChangeID = [],
      wr_CoverageStart = 0, wr_CoverageEnd = 0, wr_ConfirmedAt = 0, wr_CreatedAt = 0, wr_UpdatedAt = 0\<rparr>"

definition dispatch_adjustment ::
  "gateway_server \<Rightarrow> walletActionRequest \<Rightarrow> WalletRecord \<Rightarrow> WalletBinding \<Rightarrow> (status + WalletOperation) gateway_proc" where
  \<comment> \<open>the row is new: one adjustment, and its outcome\<close>
  "dispatch_adjustment e req record binding =
     (case parseGatewaySubject (bd_BillingSub2APIUserID binding) of
        None \<Rightarrow> Return (Inl (FailedPrecondition, ''the tenant wallet binding subject is invalid''))
      | Some subject \<Rightarrow>
          bind_proc (AdjustBalance (gs_lib e) (gs_directory e) subject
                       (gatewayAdjustmentCode (gw_go (gs_lib e)) (wr_BusinessKey record)) (wt_amount req)
                       (if wt_kind req = ''refund'' then ''add'' else ''subtract'')) (\<lambda>r.
            case r of
              Inr _ \<Rightarrow> confirmWalletOperation e record binding
            | Inl err \<Rightarrow>
                if isUnknownAdjustmentError err
                then bind_ok (settled (gs_lib e) (wr_ID record) ''unknown'' [] [] ''EXTERNAL_OUTCOME_UNKNOWN'') (\<lambda>_.
                       gatewayStoreRead (wr_ID record))
                else bind_ok (settled (gs_lib e) (wr_ID record) ''rejected'' [] [] (errorCodeForAdjustment err)) (\<lambda>_.
                       gatewayStoreRead (wr_ID record))))"

definition resolve_reserved ::
  "gateway_server \<Rightarrow> walletActionRequest \<Rightarrow> WalletBinding \<Rightarrow> WalletRecord \<Rightarrow> bool \<Rightarrow> (status + WalletOperation) gateway_proc" where
  "resolve_reserved e req binding record existing =
     bind_ok (if bd_ID binding \<noteq> wr_WalletBindingID record
              then bind_proc (query (ReadWalletBinding (wr_WalletBindingID record))) (\<lambda>r.
                     Return (case r of
                               Some (Some b) \<Rightarrow> Inr b
                             | _ \<Rightarrow> Inl (Unavailable, ''original wallet binding unavailable'')))
              else Return (Inr binding)) (\<lambda>binding.
       if wr_Status record \<in> {''confirmed'', ''rejected''} then Return (Inr (WalletOperationMessage record))
       else if existing then reconcileWalletOperation e record binding
       else dispatch_adjustment e req record binding)"

definition reserve_and_resolve ::
  "gateway_server \<Rightarrow> walletActionRequest \<Rightarrow> string \<Rightarrow> WalletBinding \<Rightarrow> (status + WalletOperation) gateway_proc" where
  "reserve_and_resolve e req tenantID binding =
     bind_proc (transaction (ReserveWalletOperation (gs_lib e) (requested_record (gw_go (gs_lib e)) req tenantID binding))) (\<lambda>r.
       case r of
         Some (Inr (record, existing)) \<Rightarrow> resolve_reserved e req binding record existing
       | Some (Inl ErrGatewayWalletConflict) \<Rightarrow>
           Return (Inl (FailedPrecondition, ''wallet command differs from its original execution''))
       | _ \<Rightarrow> Return (Inl (Unavailable, ''Gateway wallet reservation unavailable'')))"

definition read_active_binding :: "string \<Rightarrow> (status + WalletBinding) gateway_proc" where
  \<comment> \<open>\<open>ReadActiveWalletBinding\<close>: the active row, then its version\<close>
  "read_active_binding tenantID =
     bind_proc (query (active_binding tenantID)) (\<lambda>r.
       case r of
         None \<Rightarrow> Return (Inl (Unavailable, ''Gateway wallet binding unavailable''))
       | Some None \<Rightarrow> Return (Inl (FailedPrecondition, ''the tenant has no active wallet binding''))
       | Some (Some b) \<Rightarrow>
           bind_proc (query (bindingVersion tenantID)) (\<lambda>v.
             Return (case v of
                       None \<Rightarrow> Inl (Unavailable, ''Gateway wallet binding unavailable'')
                     | Some n \<Rightarrow> Inr (b\<lparr>bd_Version := n\<rparr>))))"

definition read_charge_binding :: "string \<Rightarrow> string \<Rightarrow> string \<Rightarrow> (status + WalletBinding) gateway_proc" where
  \<comment> \<open>a refund goes to the wallet of its original charge\<close>
  "read_charge_binding original tenantID workspaceID =
     bind_proc (query (ReadWalletOperation original)) (\<lambda>r.
       case r of
         None \<Rightarrow> Return (Inl (Unavailable, ''original charge readback unavailable''))
       | Some None \<Rightarrow> Return (Inl (FailedPrecondition, ''refund does not identify the original charge''))
       | Some (Some o') \<Rightarrow>
           if wr_TenantID o' \<noteq> tenantID \<or> wr_WorkspaceID o' \<noteq> workspaceID
           then Return (Inl (FailedPrecondition, ''refund does not identify the original charge''))
           else bind_proc (query (ReadWalletBinding (wr_WalletBindingID o'))) (\<lambda>b.
                  Return (case b of
                            Some (Some b) \<Rightarrow> Inr b
                          | _ \<Rightarrow> Inl (Unavailable, ''Gateway wallet binding unavailable''))))"

definition guarded_charge ::
  "CallContext \<Rightarrow> walletActionRequest \<Rightarrow> string \<Rightarrow> (status + WalletOperation) gateway_proc \<Rightarrow>
   (status + WalletOperation) gateway_proc" where
  \<comment> \<open>a charge holds the lock of its workspace until it returns, and is refused once the workspace is closing\<close>
  "guarded_charge c req tenantID body =
     bind_proc (transaction (\<lambda>t. guardWorkspaceKey tenantID (wt_workspaceID req))) (\<lambda>g.
       if g \<noteq> Some True then Return (Inl (Unavailable, ''Workspace charge guard unavailable''))
       else deferred (release_guard tenantID (wt_workspaceID req))
         (bind_ok (authorizeWalletWrite c (wt_kind req) (wt_workspaceID req)) (\<lambda>_.
            bind_proc (query (workspaceKeyClosing tenantID (wt_workspaceID req))) (\<lambda>closing.
              case closing of
                None \<Rightarrow> Return (Inl (Unavailable, ''Workspace closeout readback unavailable''))
              | Some True \<Rightarrow> Return (Inl (FailedPrecondition, ''Workspace charging is closed''))
              | Some False \<Rightarrow> body))))"

definition walletAction :: "gateway_server \<Rightarrow> walletActionRequest \<Rightarrow> (status + WalletOperation) gateway_proc" where
  "walletAction e req =
     unless_error (coordinationCaller (gs_peer e) [''workspace'']) (
     if \<not> gs_store e then Return (Inl (Unavailable, ''Gateway wallet persistence is not configured''))
     else Clock (\<lambda>now. unless_error (ValidateCallContext (gs_peer e) now (wt_call req)) (
       if wt_workspaceID req = [] \<or> wt_amount req \<le> 0 \<or> wt_businessKey req = []
       then Return (Inl (InvalidArgument, ''workspace, positive amount and business idempotency key are required''))
       else if wt_kind req = ''charge'' \<and> wt_currency req \<noteq> ''USD''
       then Return (Inl (InvalidArgument, ''only USD wallet operations are supported''))
       else let tenantID = call_tenant (wt_call req) in
         if tenantID = [] then Return (Inl (PermissionDenied, ''a tenant-scoped wallet operation is required''))
         else case wt_call req of
           None \<Rightarrow> Return (Inl (Unauthenticated, ''actor, request, scope and session or grant are required''))
         | Some c \<Rightarrow>
             bind_ok (authorizeWalletWrite c (wt_kind req) (wt_workspaceID req)) (\<lambda>_.
               if wt_kind req = ''refund''
               then bind_ok (read_charge_binding (wt_original req) tenantID (wt_workspaceID req))
                      (reserve_and_resolve e req tenantID)
               else guarded_charge c req tenantID
                      (bind_ok (read_active_binding tenantID) (reserve_and_resolve e req tenantID))))))"

definition Debit :: "gateway_server \<Rightarrow> WalletDebitCommand \<Rightarrow> (status + WalletOperation) gateway_proc" where
  "Debit e r = walletAction e
     \<lparr>wt_call = wd_Context r, wt_kind = ''charge'', wt_workspaceID = wd_WorkspaceId r, wt_amount = wd_AmountUsdMicros r,
      wt_currency = wd_Currency r, wt_businessKey = walletBusinessKey (wd_Context r), wt_obligation = wd_ObligationId r,
      wt_quoteAcceptanceID = wd_QuoteAcceptanceId r, wt_original = [], wt_entitlement = [], wt_deletionReceipt = []\<rparr>"

definition Refund :: "gateway_server \<Rightarrow> WalletRefundCommand \<Rightarrow> (status + WalletOperation) gateway_proc" where
  "Refund e r =
     (if trim_space (rf_OriginalWalletOperationId r) = [] \<or> trim_space (rf_RefundPolicyVersionId r) = [] \<or>
         trim_space (rf_ConfirmedDeletionReceiptId r) = []
      then Return (Inl (InvalidArgument, ''original charge, refund policy and confirmed deletion receipt are required''))
      else walletAction e
        \<lparr>wt_call = rf_Context r, wt_kind = ''refund'', wt_workspaceID = rf_WorkspaceId r, wt_amount = rf_AmountUsdMicros r,
         wt_currency = ''USD'', wt_businessKey = walletBusinessKey (rf_Context r), wt_obligation = [],
         wt_quoteAcceptanceID = [], wt_original = rf_OriginalWalletOperationId r,
         wt_entitlement = rf_RefundPolicyVersionId r, wt_deletionReceipt = rf_ConfirmedDeletionReceiptId r\<rparr>)"

section \<open>Reading back\<close>

definition confirm_fenced :: "WalletReadbackRequest \<Rightarrow> CallContext \<Rightarrow> (status + unit) gateway_proc" where
  "confirm_fenced r c =
     (let tenant = call_tenant (Some c) in
      if tenant = [] \<or> wq_WorkspaceId r = [] \<or> wq_OriginalIdempotencyKey r = [] \<or> wq_WalletOperationId r \<noteq> []
      then Return (Inl (InvalidArgument, ''original Workspace charge identity required''))
      else bind_ok (authorizeWalletRead c (wq_WorkspaceId r)) (\<lambda>_.
        bind_proc (query (workspaceKeyClosing tenant (wq_WorkspaceId r))) (\<lambda>closed.
          Return (if closed = Some True then Inr ()
                  else Inl (Unavailable, ''Workspace creation is not confirmed fenced'')))))"

definition absent_operation :: "WalletReadbackRequest \<Rightarrow> CallContext \<Rightarrow> (status + WalletOperation) gateway_proc" where
  "absent_operation r c =
     (if wq_ConfirmClosedAbsence r
      then bind_proc (query (\<lambda>db. list_ex (\<lambda>row. wl_tenant_id row = call_tenant (Some c) \<and>
                 wl_workspace_id row = Some (wq_WorkspaceId r) \<and> wl_kind row = ''charge'') (gd_wallets db))) (\<lambda>other.
             Return (Inl (case other of
                 None \<Rightarrow> (Unavailable, ''original Workspace charge readback unavailable'')
               | Some True \<Rightarrow> (FailedPrecondition, ''Workspace has a charge outside this original command'')
               | Some False \<Rightarrow> (NotFound, ''wallet operation not found''))))
      else Return (Inl (NotFound, ''wallet operation not found'')))"

definition answer_operation ::
  "gateway_server \<Rightarrow> WalletReadbackRequest \<Rightarrow> CallContext \<Rightarrow> WalletRecord \<Rightarrow> (status + WalletOperation) gateway_proc" where
  "answer_operation e r c record =
     (if wq_ConfirmClosedAbsence r \<and> (wr_WorkspaceID record \<noteq> wq_WorkspaceId r \<or>
           wr_TenantID record \<noteq> call_tenant (Some c) \<or> wr_Kind record \<noteq> ''charge'')
      then Return (Inl (FailedPrecondition, ''original Workspace charge identity differs''))
      else bind_ok (authorizeWalletRead c (wr_WorkspaceID record)) (\<lambda>_.
        if wr_Status record \<in> {''confirmed'', ''rejected''} then Return (Inr (WalletOperationMessage record))
        else bind_proc (query (ReadWalletBinding (wr_WalletBindingID record))) (\<lambda>b.
          case b of
            Some (Some binding) \<Rightarrow> reconcileWalletOperation e record binding
          | _ \<Rightarrow> Return (Inr (WalletOperationMessage record)))))"

definition ReadWalletAction :: "gateway_server \<Rightarrow> WalletReadbackRequest \<Rightarrow> (status + WalletOperation) gateway_proc" where
  "ReadWalletAction e r =
     unless_error (coordinationCaller (gs_peer e) [''workspace'', ''ledger'', ''fabric'']) (
     if \<not> gs_store e then Return (Inl (Unavailable, ''Gateway wallet persistence is not configured''))
     else Clock (\<lambda>now. unless_error (ValidateCallContext (gs_peer e) now (wq_Context r)) (
       case wq_Context r of
         None \<Rightarrow> Return (Inl (Unauthenticated, ''actor, request, scope and session or grant are required''))
       | Some c \<Rightarrow>
           bind_ok (if wq_ConfirmClosedAbsence r then confirm_fenced r c else Return (Inr ())) (\<lambda>_.
             if trim_space (wq_WalletOperationId r) = [] \<and> trim_space (wq_OriginalIdempotencyKey r) = []
             then Return (Inl (InvalidArgument, ''a wallet operation id or original idempotency key is required''))
             else bind_proc (query (if trim_space (wq_WalletOperationId r) \<noteq> []
                                    then ReadWalletOperation (wq_WalletOperationId r)
                                    else ReadWalletOperationByBusinessKey (wq_OriginalIdempotencyKey r))) (\<lambda>q.
               case q of
                 None \<Rightarrow> Return (Inl (Unavailable, ''Gateway wallet readback unavailable''))
               | Some None \<Rightarrow> absent_operation r c
               | Some (Some record) \<Rightarrow> answer_operation e r c record)))))"

section \<open>Binding\<close>

definition directoryIdentity :: "bool \<Rightarrow> string \<Rightarrow> (status + (int \<times> string)) gateway_proc" where
  "directoryIdentity configured subject =
     (case parse_int64 (trim_space subject) of
        None \<Rightarrow> Return (Inl (InvalidArgument, ''a Gateway subject id is required''))
      | Some i \<Rightarrow>
          if i \<le> 0 then Return (Inl (InvalidArgument, ''a Gateway subject id is required''))
          else if \<not> configured
          then Return (Inl (FailedPrecondition, ''the Gateway directory identity is not configured''))
          else Call DirectoryToken (\<lambda>tok. case tok of
              Token \<Rightarrow>
                Call (DirectoryUser i) (\<lambda>a. Return (case a of
                    UserBody j st \<Rightarrow>
                      if j \<noteq> i \<or> j \<le> 0 \<or> st \<notin> {''active'', ''disabled''}
                      then Inl (FailedPrecondition, ''Gateway directory returned a different subject'')
                      else Inr (j, st)
                  | _ \<Rightarrow> if fst (call_error a) = Unauthenticated
                        then Inl (Unauthenticated, ''Gateway directory credential rejected'')
                        else Inl (call_error a)))
            | a \<Rightarrow> Return (Inl (call_error a))))"

definition BindWallet :: "gateway_server \<Rightarrow> WalletBindingCommand \<Rightarrow> (status + WalletBindingReadback) gateway_proc" where
  "BindWallet e r =
     unless_error (coordinationCaller (gs_peer e) [''tenant'', ''console_bff'']) (
     if \<not> gs_store e then Return (Inl (Unavailable, ''Gateway wallet persistence is not configured''))
     else Clock (\<lambda>now. unless_error (ValidateCallContext (gs_peer e) now (bc_Context r)) (
       let tenantID = trim_space (bc_TargetTenantId r) in
       if tenantID = [] \<or> trim_space (bc_BillingSub2ApiUserId r) = [] \<or> trim_space (bc_AuthorizationReceiptId r) = []
       then Return (Inl (InvalidArgument, ''target tenant, billing subject and authorization receipt are required''))
       else bind_ok (directoryIdentity (gs_directory e) (bc_BillingSub2ApiUserId r)) (\<lambda>(i, st).
         if i \<le> 0 \<or> st \<noteq> ''active''
         then Return (Inl (FailedPrecondition, ''billing wallet subject is not an active Gateway identity''))
         else case bc_Context r of
           None \<Rightarrow> Return (Inl (Unauthenticated, ''actor, request, scope and session or grant are required''))
         | Some c \<Rightarrow>
             bind_ok (authorizeWalletBinding c tenantID) (\<lambda>_.
               let bindingKey = (if walletBusinessKey (Some c) = [] then bc_AuthorizationReceiptId r
                                 else walletBusinessKey (Some c)) in
               bind_proc (transaction (BindWalletBinding (gs_lib e)
                   \<lparr>bd_ID = ''wallet-binding-'' @ shortDigest (gw_go (gs_lib e))
                              (tenantID @ '':'' @ bc_BillingSub2ApiUserId r @ '':'' @ bindingKey),
                    bd_TenantID = tenantID, bd_BillingSub2APIUserID = bc_BillingSub2ApiUserId r,
                    bd_DelegationRef = bc_AuthorizationReceiptId r, bd_VerificationRef = bc_AuthorizationReceiptId r,
                    bd_BoundAt = 0, bd_Version = 0\<rparr> (bc_ExpectedBindingVersion r))) (\<lambda>b.
                 Return (case b of
                     Some (Inr binding) \<Rightarrow>
                       Inr \<lparr>bk_TenantId = tenantID, bk_BillingSub2ApiUserId = bd_BillingSub2APIUserID binding,
                            bk_BindingVersion = bd_Version binding, bk_Outcome = ''CONFIRMED'',
                            bk_AuthorizationReceiptId = bc_AuthorizationReceiptId r\<rparr>
                   | Some (Inl ErrWalletBindingVersionConflict) \<Rightarrow> Inl (Aborted, ''wallet binding version conflict'')
                   | _ \<Rightarrow> Inl (Unavailable, ''Gateway wallet binding unavailable''))))))))"

section \<open>The service\<close>

datatype gateway_request =
    DebitRequest gateway_server WalletDebitCommand
  | RefundRequest gateway_server WalletRefundCommand
  | ReadRequest gateway_server WalletReadbackRequest
  | BindRequest gateway_server WalletBindingCommand
  | ConnectionLost string string

datatype gateway_reply = OperationReply "status + WalletOperation" | BindingReply "status + WalletBindingReadback" | NoReply

fun gateway_serve :: "gwlib \<Rightarrow> gateway_request \<Rightarrow> gateway_reply gateway_proc" where
  \<comment> \<open>every handler of a deployment uses its library; a connection that is lost, with its process or without,
     gives up the lock of a workspace\<close>
  "gateway_serve lib (DebitRequest e r) = bind_proc (Debit (e\<lparr>gs_lib := lib\<rparr>) r) (\<lambda>x. Return (OperationReply x))"
| "gateway_serve lib (RefundRequest e r) = bind_proc (Refund (e\<lparr>gs_lib := lib\<rparr>) r) (\<lambda>x. Return (OperationReply x))"
| "gateway_serve lib (ReadRequest e r) = bind_proc (ReadWalletAction (e\<lparr>gs_lib := lib\<rparr>) r) (\<lambda>x. Return (OperationReply x))"
| "gateway_serve lib (BindRequest e r) = bind_proc (BindWallet (e\<lparr>gs_lib := lib\<rparr>) r) (\<lambda>x. Return (BindingReply x))"
| "gateway_serve lib (ConnectionLost tenant workspace) =
     Db (\<lambda>t. release_guard tenant workspace) (\<lambda>t s. Return NoReply) (Return NoReply)"

end
