(* ===== verification/Gateway_Discipline.thy ===== *)
theory Gateway_Discipline
  imports Gateway_Coordination
begin

text \<open>
  What each settlement handler may do to the wallet, whatever runs beside it. The account of a handler
  holds the operations and bindings it has read, the row it has inserted itself with the state of its one
  \<open>POST\<close>, and the native evidence the wallet has shown it. The rules: only the handler that inserted a row
  may send the adjustment of that row, once; only evidence confirms a row; only the handler that inserted
  a row may leave it unknown or rejected, and rejected only when no \<open>POST\<close> was sent or the wallet refused it.
\<close>

section \<open>Facts\<close>

record op_facts =
  of_id :: string
  of_key :: string
  of_kind :: string
  of_amount :: int
  of_binding :: string

definition row_facts :: "wallet_row \<Rightarrow> op_facts" where
  \<comment> \<open>what no statement changes in a row\<close>
  "row_facts r = \<lparr>of_id = wl_id r, of_key = wl_business_idempotency_key r, of_kind = wl_kind r,
     of_amount = wl_amount_usd_micros r, of_binding = wl_wallet_binding_id r\<rparr>"

definition record_facts :: "WalletRecord \<Rightarrow> op_facts" where
  "record_facts r = \<lparr>of_id = wr_ID r, of_key = wr_BusinessKey r, of_kind = wr_Kind r,
     of_amount = wr_AmountUSDMicros r, of_binding = wr_WalletBindingID r\<rparr>"

lemma record_facts_simps [simp]:
  "of_id (record_facts r) = wr_ID r" "of_key (record_facts r) = wr_BusinessKey r" "of_kind (record_facts r) = wr_Kind r"
  "of_amount (record_facts r) = wr_AmountUSDMicros r" "of_binding (record_facts r) = wr_WalletBindingID r"
  by (simp_all add: record_facts_def)

lemma row_facts_simps [simp]:
  "of_id (row_facts r) = wl_id r" "of_key (row_facts r) = wl_business_idempotency_key r" "of_kind (row_facts r) = wl_kind r"
  "of_amount (row_facts r) = wl_amount_usd_micros r" "of_binding (row_facts r) = wl_wallet_binding_id r"
  by (simp_all add: row_facts_def)

definition binding_facts :: "binding_row \<Rightarrow> string \<times> string" where
  "binding_facts b = (wb_id b, wb_billing_sub2api_user_id b)"

abbreviation known_rows :: "gateway_db \<Rightarrow> op_facts set" where
  "known_rows s \<equiv> row_facts ` set (gd_wallets s)"

abbreviation known_bindings :: "gateway_db \<Rightarrow> (string \<times> string) set" where
  "known_bindings s \<equiv> binding_facts ` set (gd_bindings s)"

definition native_micros :: "op_facts \<Rightarrow> int" where
  "native_micros f = (if of_kind f = ''charge'' then wrap64 (- of_amount f) else of_amount f)"

definition post_of :: "gwlib \<Rightarrow> int \<Rightarrow> op_facts \<Rightarrow> gateway_call" where
  \<comment> \<open>the one adjustment of an operation, to the wallet of subject \<open>u\<close>\<close>
  "post_of lib u f =
     BalancePost u (coalesce_str (gatewayUSDMicrosJSON (of_amount f)))
       (if of_kind f = ''refund'' then ''add'' else ''subtract'')
       (gatewayBalanceNotePrefix @ gatewayAdjustmentCode (gw_go lib) (of_key f))"

definition is_post :: "gateway_call \<Rightarrow> bool" where
  "is_post c \<longleftrightarrow> (case c of BalancePost _ _ _ _ \<Rightarrow> True | _ \<Rightarrow> False)"

definition subject_of :: "(string \<times> string) set \<Rightarrow> op_facts \<Rightarrow> int \<Rightarrow> bool" where
  \<comment> \<open>the wallet an operation is bound to\<close>
  "subject_of bs f u \<longleftrightarrow> (\<exists>billing. (of_binding f, billing) \<in> bs \<and> parseGatewaySubject billing = Some u)"

definition native_evidence :: "(gateway_call \<times> gateway_answer) list \<Rightarrow> (int \<times> string \<times> int) set" where
  \<comment> \<open>the adjustments the answers of the wallet confirm: subject, code, signed amount\<close>
  "native_evidence as =
     {(u, code, m). \<exists>page ty p item entry. (BalanceHistory u page ty, HistoryBody p) \<in> set as \<and> item \<in> set (bp_Items p) \<and>
        item_code ty item = Some code \<and> gatewayConfirmedAdjustment item ty code u = Inr entry \<and> he_Micros entry = m}"

definition refused :: "gateway_answer \<Rightarrow> bool" where
  \<comment> \<open>the wallet answered the \<open>POST\<close> and did not apply it\<close>
  "refused a \<longleftrightarrow> (case a of HttpStatus n \<Rightarrow> n < 500 \<and> n \<noteq> 429 | _ \<Rightarrow> False)"

definition db_ok :: "gateway_db \<Rightarrow> bool" where
  "db_ok s \<longleftrightarrow>
     distinct (map wl_id (gd_wallets s)) \<and> distinct (map wl_business_idempotency_key (gd_wallets s)) \<and>
     list_all wallet_check (gd_wallets s) \<and> distinct (map wb_id (gd_bindings s)) \<and>
     wl_wallet_binding_id ` set (gd_wallets s) \<subseteq> wb_id ` set (gd_bindings s)"

section \<open>Accounts\<close>

datatype post_state = NotPosted | Posted gateway_call "gateway_answer option"

record account =
  ac_seen :: "op_facts set"
  ac_bound :: "(string \<times> string) set"
  ac_own :: "(op_facts \<times> post_state) option"
  ac_known :: "(int \<times> string \<times> int) set"

definition fresh_account :: account where
  "fresh_account = \<lparr>ac_seen = {}, ac_bound = {}, ac_own = None, ac_known = {}\<rparr>"

definition ac_knows :: "account \<Rightarrow> gateway_db \<Rightarrow> bool" where
  "ac_knows g s \<longleftrightarrow> db_ok s \<and> ac_seen g \<subseteq> known_rows s \<and> ac_bound g \<subseteq> known_bindings s"

definition proves :: "gwlib \<Rightarrow> account \<Rightarrow> op_facts \<Rightarrow> bool" where
  \<comment> \<open>the account holds native evidence of the operation's adjustment\<close>
  "proves lib g f \<longleftrightarrow>
     (\<exists>u. subject_of (ac_bound g) f u \<and> (u, gatewayAdjustmentCode (gw_go lib) (of_key f), native_micros f) \<in> ac_known g)"

definition may_settle :: "gwlib \<Rightarrow> account \<Rightarrow> string \<Rightarrow> string \<Rightarrow> bool" where
  "may_settle lib g i st \<longleftrightarrow>
     (st = ''confirmed'' \<and> (\<exists>f \<in> ac_seen g. of_id f = i \<and> proves lib g f)) \<or>
     (\<exists>f p. ac_own g = Some (f, p) \<and> of_id f = i \<and>
        (st = ''unknown'' \<or>
         st = ''rejected'' \<and> (p = NotPosted \<or> (\<exists>c a. p = Posted c (Some a) \<and> refused a))))"

definition refund_fits :: "wallet_row \<Rightarrow> gateway_db \<Rightarrow> bool" where
  \<comment> \<open>a new refund stays within what its charge has left\<close>
  "refund_fits row s \<longleftrightarrow>
     (wl_kind row = ''refund'' \<longrightarrow>
       (\<exists>c \<in> set (gd_wallets s). wl_original_wallet_operation_id row = Some (wl_id c) \<and> wl_kind c = ''charge'' \<and>
          reserved_refunds (wl_id c) s + wl_amount_usd_micros row \<le> wl_amount_usd_micros c))"

inductive wallet_move :: "gwlib \<Rightarrow> account \<Rightarrow> gateway_db \<Rightarrow> wallet_row list \<Rightarrow> bool" for lib g s where
  same: "wallet_move lib g s (gd_wallets s)"
| insert: "wl_status row = ''requested'' \<Longrightarrow> refund_fits row s \<Longrightarrow> wallet_move lib g s (gd_wallets s @ [row])"
| settle: "may_settle lib g i st \<Longrightarrow>
     wallet_move lib g s (update_rows (\<lambda>r. wl_id r = i) (settle_row lib st ext rid code now) (gd_wallets s))"

definition ac_may_db :: "gwlib \<Rightarrow> account \<Rightarrow> gateway_db \<Rightarrow> gateway_db \<Rightarrow> bool" where
  "ac_may_db lib g s s' \<longleftrightarrow> db_ok s' \<and> known_bindings s \<subseteq> known_bindings s' \<and> wallet_move lib g s (gd_wallets s')"

definition learn :: "account \<Rightarrow> gateway_db \<Rightarrow> account" where
  "learn g s = g\<lparr>ac_seen := ac_seen g \<union> known_rows s, ac_bound := ac_bound g \<union> known_bindings s\<rparr>"

definition own_after :: "account \<Rightarrow> gateway_db \<Rightarrow> gateway_db \<Rightarrow> (op_facts \<times> post_state) option" where
  "own_after g s s' =
     (if gd_wallets s' = gd_wallets s then ac_own g
      else if \<exists>row. gd_wallets s' = gd_wallets s @ [row] then Some (row_facts (last (gd_wallets s')), NotPosted)
      else None)"

definition ac_after_db :: "account \<Rightarrow> gateway_db \<Rightarrow> gateway_db \<Rightarrow> account" where
  "ac_after_db g s s' = (learn g s')\<lparr>ac_own := own_after g s s'\<rparr>"

definition ac_after_lost :: "account \<Rightarrow> gateway_db \<Rightarrow> gateway_db \<Rightarrow> account" where
  "ac_after_lost g s s' = (if gd_wallets s' = gd_wallets s then g else g\<lparr>ac_own := None\<rparr>)"

definition ac_may_send :: "gwlib \<Rightarrow> account \<Rightarrow> gateway_call \<Rightarrow> bool" where
  "ac_may_send lib g c \<longleftrightarrow>
     (is_post c \<longrightarrow> (\<exists>f u. ac_own g = Some (f, NotPosted) \<and> subject_of (ac_bound g) f u \<and> c = post_of lib u f))"

definition ac_after_send :: "account \<Rightarrow> gateway_call \<Rightarrow> account" where
  "ac_after_send g c =
     (if is_post c then g\<lparr>ac_own := map_option (\<lambda>(f, p). (f, Posted c None)) (ac_own g)\<rparr> else g)"

definition ac_after_answer :: "account \<Rightarrow> gateway_call \<Rightarrow> gateway_answer \<Rightarrow> account" where
  "ac_after_answer g c a =
     (if is_post c then g\<lparr>ac_own := map_option (\<lambda>(f, p). (f, if p = Posted c None then Posted c (Some a) else p)) (ac_own g)\<rparr>
      else g\<lparr>ac_known := ac_known g \<union> native_evidence [(c, a)]\<rparr>)"

definition gateway_discipline :: "gwlib \<Rightarrow> (account, gateway_db, gateway_call, gateway_answer) discipline" where
  "gateway_discipline lib =
     \<lparr>dc_knows = ac_knows, dc_may_db = ac_may_db lib, dc_after_db = ac_after_db, dc_after_lost = ac_after_lost,
      dc_may_send = ac_may_send lib, dc_after_send = ac_after_send, dc_after_answer = ac_after_answer\<rparr>"

lemma gateway_discipline_simps [simp]:
  "dc_knows (gateway_discipline lib) = ac_knows" "dc_may_db (gateway_discipline lib) = ac_may_db lib"
  "dc_after_db (gateway_discipline lib) = ac_after_db" "dc_after_lost (gateway_discipline lib) = ac_after_lost"
  "dc_may_send (gateway_discipline lib) = ac_may_send lib" "dc_after_send (gateway_discipline lib) = ac_after_send"
  "dc_after_answer (gateway_discipline lib) = ac_after_answer"
  by (simp_all add: gateway_discipline_def)

section \<open>The database\<close>

lemma ac_may_db_same:
  "ac_knows g s \<Longrightarrow> gd_wallets s' = gd_wallets s \<Longrightarrow> gd_bindings s' = gd_bindings s \<Longrightarrow> ac_may_db lib g s s'"
  using wallet_move.same [of lib g s] by (simp add: ac_may_db_def ac_knows_def db_ok_def)

lemma ac_after_same:
  "gd_wallets s' = gd_wallets s \<Longrightarrow> ac_after_db g s s' = learn g s'"
  by (simp add: ac_after_db_def own_after_def learn_def)

lemma ac_lost_same: "gd_wallets s' = gd_wallets s \<Longrightarrow> ac_after_lost g s s' = g"
  by (simp add: ac_after_lost_def)

lemma wp_query:
  assumes "\<And>s. ac_knows g s \<Longrightarrow> Q (Some (f s)) (learn g s)" and "Q None g"
  shows "wp (gateway_discipline lib) (query f) Q g"
  using assms by (auto simp: query_def wp_transaction ac_after_same ac_lost_same intro: ac_may_db_same)

definition learns :: "account \<Rightarrow> account \<Rightarrow> bool" where
  "learns g g' \<longleftrightarrow> ac_seen g \<subseteq> ac_seen g' \<and> ac_bound g \<subseteq> ac_bound g' \<and> ac_known g \<subseteq> ac_known g' \<and> ac_own g' = ac_own g"

lemma learns_refl [simp]: "learns g g"
  by (simp add: learns_def)

lemma learns_trans: "learns g g' \<Longrightarrow> learns g' g'' \<Longrightarrow> learns g g''"
  by (auto simp: learns_def)

lemma learns_learn [simp]: "learns g (learn g s)"
  by (auto simp: learns_def learn_def)

lemma learn_simps [simp]:
  "ac_own (learn g s) = ac_own g" "ac_known (learn g s) = ac_known g"
  "known_rows s \<subseteq> ac_seen (learn g s)" "known_bindings s \<subseteq> ac_bound (learn g s)"
  by (auto simp: learn_def)

lemma subject_of_mono: "subject_of bs f u \<Longrightarrow> bs \<subseteq> bs' \<Longrightarrow> subject_of bs' f u"
  by (auto simp: subject_of_def)

lemma scanWallet_simps [simp]:
  "wr_ID (scanWallet r) = wl_id r" "wr_TenantID (scanWallet r) = wl_tenant_id r"
  "wr_WalletBindingID (scanWallet r) = wl_wallet_binding_id r" "wr_Kind (scanWallet r) = wl_kind r"
  "wr_Status (scanWallet r) = wl_status r" "wr_AmountUSDMicros (scanWallet r) = wl_amount_usd_micros r"
  "wr_BusinessKey (scanWallet r) = wl_business_idempotency_key r"
  by (simp_all add: scanWallet_def)

lemma scan_binding_simps [simp]:
  "bd_ID (scan_binding r) = wb_id r" "bd_BillingSub2APIUserID (scan_binding r) = wb_billing_sub2api_user_id r"
  by (simp_all add: scan_binding_def)

lemma scan_facts: "record_facts (scanWallet r) = row_facts r"
  by (simp add: record_facts_def row_facts_def)

lemma read_known:
  "ReadWalletOperation i s = Some r \<Longrightarrow> record_facts r \<in> known_rows s \<and> wr_ID r = i"
  "ReadWalletOperationByBusinessKey key s = Some r \<Longrightarrow> record_facts r \<in> known_rows s"
  by (auto simp: ReadWalletOperation_def ReadWalletOperationByBusinessKey_def scan_facts dest!: find_SomeD)

lemma binding_known:
  "ReadWalletBinding i s = Some b \<Longrightarrow> (bd_ID b, bd_BillingSub2APIUserID b) \<in> known_bindings s \<and> bd_ID b = i"
  "active_binding tenant s = Some b \<Longrightarrow> (bd_ID b, bd_BillingSub2APIUserID b) \<in> known_bindings s"
  by (auto simp: ReadWalletBinding_def active_binding_def binding_facts_def dest!: find_SomeD)

section \<open>Calls\<close>

declare wp.simps(3,4) [simp del]

lemma native_evidence_append: "native_evidence (as @ bs) = native_evidence as \<union> native_evidence bs"
  by (fastforce simp: native_evidence_def)

lemma native_evidence_none:
  "(\<And>u page ty. c \<noteq> BalanceHistory u page ty) \<Longrightarrow> native_evidence [(c, a)] = {}"
  by (auto simp: native_evidence_def)

lemma wp_other_call:
  assumes "\<not> is_post c" and "\<And>u page ty. c \<noteq> BalanceHistory u page ty" and "\<And>a. wp (gateway_discipline lib) (k a) Q g"
  shows "wp (gateway_discipline lib) (Call c k) Q g"
  using assms by (simp add: wp.simps(4) ac_may_send_def ac_after_send_def ac_after_answer_def native_evidence_none)

lemma wp_authorizeInternal:
  assumes "\<And>r. Q r g"
  shows "wp (gateway_discipline lib) (authorizeInternal req) Q g"
  unfolding authorizeInternal_def
  by (rule wp_other_call) (auto simp: is_post_def assms split: gateway_answer.split option.split)

lemma wp_requireRefundWithoutRebate:
  assumes "\<And>r. Q r g"
  shows "wp (gateway_discipline lib) requireRefundWithoutRebate Q g"
proof -
  have "wp (gateway_discipline lib) (Call AdminSettings (\<lambda>a. Return (f a))) Q g" for f
    by (rule wp_other_call) (auto simp: is_post_def assms)
  then show ?thesis unfolding requireRefundWithoutRebate_def
    by (intro wp_other_call) (auto simp: is_post_def assms split: gateway_answer.split)
qed

lemma wp_history_call:
  assumes "\<And>a. wp (gateway_discipline lib) (k a) Q (g\<lparr>ac_known := ac_known g \<union> native_evidence [(BalanceHistory u page ty, a)]\<rparr>)"
  shows "wp (gateway_discipline lib) (Call (BalanceHistory u page ty) k) Q g"
  using assms by (simp add: wp.simps(4) ac_may_send_def ac_after_send_def ac_after_answer_def is_post_def)

section \<open>Native evidence\<close>

definition found_known :: "account \<Rightarrow> int \<Rightarrow> matches \<Rightarrow> bool" where
  "found_known g u found \<longleftrightarrow> (\<forall>(code, entry) \<in> set found. (u, code, he_Micros entry) \<in> ac_known g)"

lemma match_items_known:
  assumes "match_items targets ty u items found = Inr found'" and "found_known g u found"
    and "\<And>item code entry. item \<in> set items \<Longrightarrow> item_code ty item = Some code \<Longrightarrow>
      gatewayConfirmedAdjustment item ty code u = Inr entry \<Longrightarrow> (u, code, he_Micros entry) \<in> ac_known g"
  shows "found_known g u found'"
  using assms
proof (induction items arbitrary: found)
  case (Cons item items)
  from Cons.prems(1) consider "match_items targets ty u items found = Inr found'"
    | code entry where "item_code ty item = Some code" "gatewayConfirmedAdjustment item ty code u = Inr entry"
        "match_items targets ty u items ((code, entry) # found) = Inr found'"
    by (auto split: option.splits if_splits sum.splits)
  then show ?case
  proof cases
    case 1
    show ?thesis by (rule Cons.IH [OF 1 Cons.prems(2)]) (rule Cons.prems(3), auto)
  next
    case 2
    have "found_known g u ((code, entry) # found)" using Cons.prems(2) Cons.prems(3) [of item] 2 by (simp add: found_known_def)
    from Cons.IH [OF 2(3) this] Cons.prems(3) show ?thesis by auto
  qed
qed simp

lemma wp_history_pages:
  assumes "found_known g u found"
    and "\<And>r g'. learns g g' \<Longrightarrow> (\<And>found'. r = Inr found' \<Longrightarrow> found_known g' u found') \<Longrightarrow> Q r g'"
  shows "wp (gateway_discipline lib) (history_pages targets u ty page found) Q g"
  using assms
proof (induction targets u ty page found arbitrary: g rule: history_pages.induct)
  case (1 targets u ty page found)
  show ?case
  proof (cases "maxGatewayBalanceHistoryPage < page")
    case True
    have "Q (Inl e) g" for e by (rule "1.prems"(2)) auto
    with True show ?thesis by (subst history_pages.simps) simp
  next
    case False
    have "wp (gateway_discipline lib)
        (case page_answer page a of
           Inl err \<Rightarrow> Return (Inl err)
         | Inr p \<Rightarrow> (case match_items targets ty u (bp_Items p) found of
             Inl err \<Rightarrow> Return (Inl err)
           | Inr found' \<Rightarrow> if bp_Pages p \<le> page then Return (Inr found')
               else history_pages targets u ty (page + 1) found')) Q
        (g\<lparr>ac_known := ac_known g \<union> native_evidence [(BalanceHistory u page ty, a)]\<rparr>)" (is "wp _ _ _ ?g") for a
    proof -
      have g: "learns g ?g" by (auto simp: learns_def)
      have e: "Q (Inl e) ?g" for e by (rule "1.prems"(2) [OF g]) simp
      show ?thesis
      proof (cases "\<exists>p found'. page_answer page a = Inr p \<and> match_items targets ty u (bp_Items p) found = Inr found'")
        case True
        then obtain p found' where p: "page_answer page a = Inr p" "match_items targets ty u (bp_Items p) found = Inr found'"
          by blast
        from p(1) have a: "a = HistoryBody p" by (auto simp: page_answer_def split: gateway_answer.splits if_splits)
        have "found_known ?g u found" using "1.prems"(1) by (auto simp: found_known_def)
        then have f: "found_known ?g u found'"
          by (rule match_items_known [OF p(2)]) (auto simp: a native_evidence_def)
        show ?thesis
        proof (cases "bp_Pages p \<le> page")
          case True
          have "Q (Inr found') ?g" by (rule "1.prems"(2) [OF g]) (use f in simp)
          with p True show ?thesis by simp
        next
          case long: False
          have "wp (gateway_discipline lib) (history_pages targets u ty (page + 1) found') Q ?g"
            by (rule "1.IH" [OF False p(1,2) long f]) (auto intro: "1.prems"(2) learns_trans [OF g])
          with p long show ?thesis by simp
        qed
      qed (auto simp: e split: sum.splits)
    qed
    with False show ?thesis by (subst history_pages.simps) (simp only: if_False wp_history_call)
  qed
qed

lemma wp_PositiveBalanceHistoryByCodes:
  assumes "\<And>r g'. learns g g' \<Longrightarrow> (\<And>found'. r = Inr found' \<Longrightarrow> found_known g' u found') \<Longrightarrow> Q r g'"
  shows "wp (gateway_discipline lib) (PositiveBalanceHistoryByCodes configured u codes) Q g"
proof -
  have "wp (gateway_discipline lib) (bind_ok (history_pages codes u ''admin_balance'' 1 [])
      (\<lambda>found. history_pages codes u ''balance'' 1 found)) Q g"
    unfolding wp_bind_ok
  proof (rule wp_history_pages)
    fix r :: "gateway_error + matches" and g'
    assume g': "learns g g'" "\<And>found'. r = Inr found' \<Longrightarrow> found_known g' u found'"
    show "(case r of Inl e \<Rightarrow> Q (Inl e) | Inr found \<Rightarrow> wp (gateway_discipline lib) (history_pages codes u ''balance'' 1 found) Q) g'"
      using g' by (auto intro!: assms wp_history_pages intro: learns_trans split: sum.split)
  qed (simp add: found_known_def)
  moreover have "Q (Inl e) g" for e by (rule assms) auto
  ultimately show ?thesis unfolding PositiveBalanceHistoryByCodes_def
    by (auto simp: is_post_def intro!: wp_other_call split: gateway_answer.split)
qed

section \<open>Sending the adjustment\<close>

lemma contains_prefix: "contains_text (p @ s) p"
  by (auto simp: contains_text_def list_ex_iff has_prefix_iff intro!: bexI [of _ 0])

lemma post_result_reading:
  "post_result u a = Some err \<Longrightarrow> isUnknownAdjustmentError err \<or> refused a"
  by (auto simp: post_result_def isUnknownAdjustmentError_def error_text_def refused_def contains_prefix
      split: gateway_answer.splits if_splits)

lemma wp_post:
  assumes "ac_own g = Some (f, NotPosted)" and "subject_of (ac_bound g) f u" and "c = post_of lib u f"
    and "\<And>a. wp (gateway_discipline lib) (k a) Q (g\<lparr>ac_own := Some (f, Posted c (Some a))\<rparr>)"
  shows "wp (gateway_discipline lib) (Call c k) Q g"
proof -
  have "is_post c" by (simp add: assms(3) post_of_def is_post_def)
  then show ?thesis using assms
    by (auto simp: wp.simps(4) ac_may_send_def ac_after_send_def ac_after_answer_def)
qed

lemma wp_AdjustBalance:
  assumes "ac_own g = Some (f, NotPosted)" and "subject_of (ac_bound g) f u"
    and "code = gatewayAdjustmentCode (gw_go lib) (of_key f)" and "micros = of_amount f"
    and "operation = (if of_kind f = ''refund'' then ''add'' else ''subtract'')"
    and unsent: "\<And>err. Q (Inl err) g"
    and sent: "\<And>r c a. (\<And>err. r = Inl err \<Longrightarrow> isUnknownAdjustmentError err \<or> refused a) \<Longrightarrow>
      Q r (g\<lparr>ac_own := Some (f, Posted c (Some a))\<rparr>)"
  shows "wp (gateway_discipline lib) (AdjustBalance lib configured u code micros operation) Q g"
proof -
  have post: "wp (gateway_discipline lib) (Call (BalancePost u balance operation (gatewayBalanceNotePrefix @ code)) (\<lambda>a.
      Return (case post_result u a of Some err \<Rightarrow> Inl err | None \<Rightarrow> Inr ()))) Q g"
    if "native_amount lib micros = Inr balance" for balance
  proof (rule wp_post [OF assms(1,2)])
    show "BalancePost u balance operation (gatewayBalanceNotePrefix @ code) = post_of lib u f"
      using that assms(3-5) by (auto simp: post_of_def native_amount_def split: option.splits if_splits)
    show "wp (gateway_discipline lib) (Return (case post_result u a of Some err \<Rightarrow> Inl err | None \<Rightarrow> Inr ())) Q
        (g\<lparr>ac_own := Some (f, Posted (BalancePost u balance operation (gatewayBalanceNotePrefix @ code)) (Some a))\<rparr>)" for a
      using post_result_reading [of u a] by (auto intro!: sent split: option.split)
  qed
  have token: "wp (gateway_discipline lib) (if \<not> configured
      then Return (Inl (GatewayStatus (FailedPrecondition, ''the Gateway directory identity is not configured'')))
      else Call DirectoryToken (\<lambda>tok. case tok of
          Token \<Rightarrow> Call (BalancePost u balance operation (gatewayBalanceNotePrefix @ code)) (\<lambda>a.
              Return (case post_result u a of Some err \<Rightarrow> Inl err | None \<Rightarrow> Inr ()))
        | a \<Rightarrow> Return (Inl (GatewayStatus (call_error a))))) Q g"
    if "native_amount lib micros = Inr balance" for balance
    using post [OF that] by (auto simp: unsent is_post_def intro!: wp_other_call split: gateway_answer.split)
  have "wp (gateway_discipline lib) (bind_ok (if operation = ''add'' then requireRefundWithoutRebate else Return (Inr ()))
      (\<lambda>_. p)) Q g" if "wp (gateway_discipline lib) p Q g" for p
    using that by (auto simp: wp_bind_ok unsent intro!: wp_requireRefundWithoutRebate split: sum.split)
  note rebate = this
  show ?thesis
  proof (cases "native_amount lib micros")
    case (Inr balance)
    show ?thesis unfolding AdjustBalance_def Inr sum.case
      by (rule wp_if, simp add: unsent, rule wp_if, simp add: unsent, rule rebate [OF token [OF Inr]])
  qed (simp add: AdjustBalance_def unsent)
qed

section \<open>Settling\<close>

lemma row_facts_settle [simp]: "row_facts (settle_row lib st ext rid code now r) = row_facts r"
  by (simp add: row_facts_def settle_row_def)

lemma settle_row_simps [simp]:
  "wl_id (settle_row lib st ext rid code now r) = wl_id r"
  "wl_business_idempotency_key (settle_row lib st ext rid code now r) = wl_business_idempotency_key r"
  "wl_wallet_binding_id (settle_row lib st ext rid code now r) = wl_wallet_binding_id r"
  "wl_status (settle_row lib st ext rid code now r) = st"
  by (simp_all add: settle_row_def)

lemma settle_wallet_cases:
  obtains "snd (settle_wallet lib i st ext rid code now s) = s"
  | "snd (settle_wallet lib i st ext rid code now s) =
        s\<lparr>gd_wallets := update_rows (\<lambda>r. wl_id r = i) (settle_row lib st ext rid code now) (gd_wallets s)\<rparr>"
    "\<And>r. r \<in> set (gd_wallets s) \<Longrightarrow> wl_id r = i \<Longrightarrow> wallet_check (settle_row lib st ext rid code now r)"
proof (cases "settle_wallet lib i st ext rid code now s")
  case (Pair r s')
  then have "s' = s \<or> s' = s\<lparr>gd_wallets := update_rows (\<lambda>r. wl_id r = i) (settle_row lib st ext rid code now) (gd_wallets s)\<rparr> \<and>
      (\<forall>r \<in> set (gd_wallets s). wl_id r = i \<longrightarrow> wallet_check (settle_row lib st ext rid code now r))"
    by (auto simp: settle_wallet_def split: if_splits sum.splits dest: sql_update_InrD)
  with Pair that show thesis by auto
qed

lemma settle_may_db:
  assumes "ac_knows g s" and "may_settle lib g i st"
  shows "ac_may_db lib g s (snd (settle_wallet lib i st ext rid code now s))"
proof (cases rule: settle_wallet_cases [of lib i st ext rid code now s])
  case 1
  then show ?thesis using assms(1) by (simp add: ac_may_db_same)
next
  case 2
  have "db_ok (snd (settle_wallet lib i st ext rid code now s))"
    using assms(1) 2(2) unfolding 2(1)
    by (auto simp: ac_knows_def db_ok_def map_update_rows list_all_iff set_update_rows)
  with wallet_move.settle [OF assms(2)] show ?thesis by (simp add: ac_may_db_def 2(1))
qed

lemma wp_settled:
  assumes "may_settle lib g i st" and "\<And>r g'. Q r g'"
  shows "wp (gateway_discipline lib) (settled lib i st ext rid code) Q g"
  unfolding settled_def SettleWalletOperation_def wp_bind
  by (auto simp: wp_transaction settle_may_db [OF _ assms(1)] assms(2) wp_bind
      intro!: wp_query split: option.split)

lemma wp_gatewayStoreRead: "(\<And>r g'. Q r g') \<Longrightarrow> wp (gateway_discipline lib) (gatewayStoreRead i) Q g"
  by (auto simp: gatewayStoreRead_def wp_bind intro!: wp_query)

lemma wp_settle_and_read:
  assumes "may_settle lib g i st"
  shows "wp (gateway_discipline lib) (bind_ok (settled lib i st ext rid code) (\<lambda>_. gatewayStoreRead j)) (\<lambda>_ _. True) g"
  unfolding wp_bind_ok by (rule wp_settled [OF assms]) (auto intro!: wp_gatewayStoreRead split: sum.split)

section \<open>Resolving\<close>

lemma native_record: "nativeAdjustmentMicros r = native_micros (record_facts r)"
  by (simp add: nativeAdjustmentMicros_def native_micros_def)

lemma wp_native_history:
  assumes "record_facts record \<in> ac_seen g" and "(wr_WalletBindingID record, bd_BillingSub2APIUserID binding) \<in> ac_bound g"
    and "\<And>history g'. learns g g' \<Longrightarrow>
      (\<And>entry. map_of history (gatewayAdjustmentCode (gw_go (gs_lib e)) (wr_BusinessKey record)) = Some entry \<Longrightarrow>
         he_Micros entry = nativeAdjustmentMicros record \<Longrightarrow> may_settle (gs_lib e) g' (wr_ID record) ''confirmed'') \<Longrightarrow>
      wp (gateway_discipline (gs_lib e)) (k history) (\<lambda>_ _. True) g'"
  shows "wp (gateway_discipline (gs_lib e)) (native_history e record binding k) (\<lambda>_ _. True) g"
proof (cases "parseGatewaySubject (bd_BillingSub2APIUserID binding)")
  case (Some u)
  have "wp (gateway_discipline (gs_lib e)) (k history) (\<lambda>_ _. True) g'"
    if g': "learns g g'" and known: "found_known g' u history" for history g'
  proof (rule assms(3) [OF g'])
    fix entry
    assume h: "map_of history (gatewayAdjustmentCode (gw_go (gs_lib e)) (wr_BusinessKey record)) = Some entry"
      "he_Micros entry = nativeAdjustmentMicros record"
    from known map_of_SomeD [OF h(1)]
    have "(u, gatewayAdjustmentCode (gw_go (gs_lib e)) (wr_BusinessKey record), he_Micros entry) \<in> ac_known g'"
      by (auto simp: found_known_def)
    moreover have "subject_of (ac_bound g') (record_facts record) u"
      using assms(2) g' Some by (auto simp: subject_of_def learns_def)
    ultimately have "proves (gs_lib e) g' (record_facts record)"
      using h(2) by (auto simp: proves_def native_record)
    moreover have "record_facts record \<in> ac_seen g'" using assms(1) g' by (auto simp: learns_def)
    ultimately show "may_settle (gs_lib e) g' (wr_ID record) ''confirmed''"
      by (auto simp: may_settle_def intro!: bexI [of _ "record_facts record"])
  qed
  then show ?thesis unfolding native_history_def Some option.case wp_bind
    by (intro wp_PositiveBalanceHistoryByCodes) (auto split: sum.split)
qed (simp add: native_history_def)

lemma wp_reconcile:
  assumes "record_facts record \<in> ac_seen g" and "(wr_WalletBindingID record, bd_BillingSub2APIUserID binding) \<in> ac_bound g"
  shows "wp (gateway_discipline (gs_lib e)) (reconcileWalletOperation e record binding) (\<lambda>_ _. True) g"
  unfolding reconcileWalletOperation_def Let_def
  by (rule wp_native_history [OF assms]) (auto intro!: wp_settle_and_read split: option.split)

lemma wp_confirm:
  assumes "record_facts record \<in> ac_seen g" and "(wr_WalletBindingID record, bd_BillingSub2APIUserID binding) \<in> ac_bound g"
    and "ac_own g = Some (f, p)" and "of_id f = wr_ID record"
  shows "wp (gateway_discipline (gs_lib e)) (confirmWalletOperation e record binding) (\<lambda>_ _. True) g"
  unfolding confirmWalletOperation_def Let_def
proof (rule wp_native_history [OF assms(1,2)])
  fix history g'
  assume g': "learns g g'" and ev: "\<And>entry. map_of history (gatewayAdjustmentCode (gw_go (gs_lib e)) (wr_BusinessKey record)) = Some entry \<Longrightarrow>
      he_Micros entry = nativeAdjustmentMicros record \<Longrightarrow> may_settle (gs_lib e) g' (wr_ID record) ''confirmed''"
  have "may_settle (gs_lib e) g' (wr_ID record) ''unknown''"
    using g' assms(3,4) by (auto simp: may_settle_def learns_def)
  with ev show "wp (gateway_discipline (gs_lib e))
     (if map_option he_Micros (map_of history (gatewayAdjustmentCode (gw_go (gs_lib e)) (wr_BusinessKey record))) \<noteq> Some (nativeAdjustmentMicros record)
      then bind_ok (settled (gs_lib e) (wr_ID record) ''unknown'' [] [] ''EXTERNAL_OUTCOME_UNKNOWN'') (\<lambda>_. gatewayStoreRead (wr_ID record))
      else bind_ok (settled (gs_lib e) (wr_ID record) ''confirmed'' (gatewayAdjustmentCode (gw_go (gs_lib e)) (wr_BusinessKey record))
            (receipt_name (gw_go (gs_lib e)) record) []) (\<lambda>_. gatewayStoreRead (wr_ID record))) (\<lambda>_ _. True) g'"
    by (auto intro!: wp_settle_and_read)
qed

end
