(* ===== verification/Gateway_Handlers.thy ===== *)
theory Gateway_Handlers
  imports Gateway_Discipline
begin

text \<open>
  Every settlement handler keeps to the discipline of \<open>Gateway_Discipline\<close>, from a fresh account and
  whatever runs beside it: the lemmas follow the handlers of \<open>coordination.go\<close> from the adjustment
  outwards, and end in \<open>gateway_serve_keeps\<close>.
\<close>

section \<open>The adjustment of a new row\<close>

lemma wp_dispatch:
  assumes "record_facts record \<in> ac_seen g" and "(wr_WalletBindingID record, bd_BillingSub2APIUserID binding) \<in> ac_bound g"
    and "ac_own g = Some (record_facts record, NotPosted)"
    and "wt_amount req = wr_AmountUSDMicros record" and "wt_kind req = wr_Kind record"
  shows "wp (gateway_discipline (gs_lib e)) (dispatch_adjustment e req record binding) (\<lambda>_ _. True) g"
proof (cases "parseGatewaySubject (bd_BillingSub2APIUserID binding)")
  case (Some u)
  let ?g = "\<lambda>p. g\<lparr>ac_own := Some (record_facts record, p)\<rparr>"
  have failed: "wp (gateway_discipline (gs_lib e))
     (if isUnknownAdjustmentError err
      then bind_ok (settled (gs_lib e) (wr_ID record) ''unknown'' [] [] ''EXTERNAL_OUTCOME_UNKNOWN'') (\<lambda>_. gatewayStoreRead (wr_ID record))
      else bind_ok (settled (gs_lib e) (wr_ID record) ''rejected'' [] [] (errorCodeForAdjustment err)) (\<lambda>_. gatewayStoreRead (wr_ID record)))
     (\<lambda>_ _. True) (?g p)"
    if "isUnknownAdjustmentError err \<or> p = NotPosted \<or> (\<exists>c a. p = Posted c (Some a) \<and> refused a)" for err p
    using that by (intro wp_if wp_settle_and_read) (auto simp: may_settle_def)
  have own: "g = ?g NotPosted" using assms(3) by simp
  show ?thesis unfolding dispatch_adjustment_def Some option.case wp_bind
  proof (rule wp_AdjustBalance [OF assms(3)])
    show "subject_of (ac_bound g) (record_facts record) u" using assms(2) Some by (auto simp: subject_of_def)
    fix err
    show "wp (gateway_discipline (gs_lib e)) (case Inl err of Inr x \<Rightarrow> confirmWalletOperation e record binding
        | Inl err \<Rightarrow> if isUnknownAdjustmentError err
            then bind_ok (settled (gs_lib e) (wr_ID record) ''unknown'' [] [] ''EXTERNAL_OUTCOME_UNKNOWN'') (\<lambda>_. gatewayStoreRead (wr_ID record))
            else bind_ok (settled (gs_lib e) (wr_ID record) ''rejected'' [] [] (errorCodeForAdjustment err)) (\<lambda>_. gatewayStoreRead (wr_ID record)))
        (\<lambda>_ _. True) g"
      using failed [of err NotPosted] own by simp
  next
    fix r :: "gateway_error + unit" and c a
    assume r: "\<And>err. r = Inl err \<Longrightarrow> isUnknownAdjustmentError err \<or> refused a"
    have "wp (gateway_discipline (gs_lib e)) (confirmWalletOperation e record binding) (\<lambda>_ _. True) (?g (Posted c (Some a)))"
      by (rule wp_confirm) (use assms(1,2) in auto)
    with r failed [of _ "Posted c (Some a)"]
    show "wp (gateway_discipline (gs_lib e)) (case r of Inr x \<Rightarrow> confirmWalletOperation e record binding
        | Inl err \<Rightarrow> if isUnknownAdjustmentError err
            then bind_ok (settled (gs_lib e) (wr_ID record) ''unknown'' [] [] ''EXTERNAL_OUTCOME_UNKNOWN'') (\<lambda>_. gatewayStoreRead (wr_ID record))
            else bind_ok (settled (gs_lib e) (wr_ID record) ''rejected'' [] [] (errorCodeForAdjustment err)) (\<lambda>_. gatewayStoreRead (wr_ID record)))
        (\<lambda>_ _. True) (?g (Posted c (Some a)))"
      by (cases r) auto
  qed (use assms(4,5) in simp_all)
qed (simp add: dispatch_adjustment_def)

lemma wp_resolve_reserved:
  assumes "record_facts record \<in> ac_seen g" and "(bd_ID binding, bd_BillingSub2APIUserID binding) \<in> ac_bound g"
    and new: "\<not> existing \<Longrightarrow> ac_own g = Some (record_facts record, NotPosted) \<and>
      wt_amount req = wr_AmountUSDMicros record \<and> wt_kind req = wr_Kind record"
  shows "wp (gateway_discipline (gs_lib e)) (resolve_reserved e req binding record existing) (\<lambda>_ _. True) g"
proof -
  let ?k = "\<lambda>binding. if wr_Status record \<in> {''confirmed'', ''rejected''} then Return (Inr (WalletOperationMessage record))
       else if existing then reconcileWalletOperation e record binding else dispatch_adjustment e req record binding"
  have k: "wp (gateway_discipline (gs_lib e)) (?k b) (\<lambda>_ _. True) g'"
    if "learns g g'" "(wr_WalletBindingID record, bd_BillingSub2APIUserID b) \<in> ac_bound g'" for b g'
  proof -
    have "record_facts record \<in> ac_seen g'" "ac_own g' = ac_own g" using that(1) assms(1) by (auto simp: learns_def)
    then show ?thesis using that(2) new by (intro wp_if) (auto intro: wp_reconcile wp_dispatch)
  qed
  show ?thesis unfolding resolve_reserved_def wp_bind_ok
  proof (rule wp_if)
    assume "bd_ID binding \<noteq> wr_WalletBindingID record"
    have "wp (gateway_discipline (gs_lib e)) (?k b) (\<lambda>_ _. True) (learn g s)"
      if "ReadWalletBinding (wr_WalletBindingID record) s = Some b" for s b
      using binding_known(1) [OF that] by (intro k learns_learn) (auto simp: learn_def)
    then show "wp (gateway_discipline (gs_lib e))
       (bind_proc (query (ReadWalletBinding (wr_WalletBindingID record))) (\<lambda>r. Return (case r of
          Some (Some b) \<Rightarrow> Inr b | _ \<Rightarrow> Inl (Unavailable, ''original wallet binding unavailable''))))
       (\<lambda>r. case r of Inl e \<Rightarrow> \<lambda>_. True | Inr b \<Rightarrow> wp (gateway_discipline (gs_lib e)) (?k b) (\<lambda>_ _. True)) g"
      unfolding wp_bind by (intro wp_query) (auto split: option.split)
  next
    assume "\<not> bd_ID binding \<noteq> wr_WalletBindingID record"
    then show "wp (gateway_discipline (gs_lib e)) (Return (Inr binding))
       (\<lambda>r. case r of Inl e \<Rightarrow> \<lambda>_. True | Inr b \<Rightarrow> wp (gateway_discipline (gs_lib e)) (?k b) (\<lambda>_ _. True)) g"
      using k [OF learns_refl] assms(2) by simp
  qed
qed

section \<open>Reserving\<close>

lemma reserved_refunds_nonneg: "db_ok s \<Longrightarrow> 0 \<le> reserved_refunds i s"
  unfolding reserved_refunds_def
  by (rule sum_list_nonneg) (auto simp: db_ok_def list_all_iff refunds_of_def wallet_check_def)

lemma refund_binding_fits:
  assumes "refund_binding record s = Inr b" and "db_ok s"
  obtains c where "c \<in> set (gd_wallets s)" "wl_id c = wr_OriginalOperationID record" "wl_kind c = ''charge''"
    "reserved_refunds (wl_id c) s + wr_AmountUSDMicros record \<le> wl_amount_usd_micros c"
proof -
  from assms(1) obtain c where c: "List.find (\<lambda>r. wl_id r = wr_OriginalOperationID record) (gd_wallets s) = Some c"
    and f: "wl_kind c = ''charge''" "int64_range (reserved_refunds (wl_id c) s)"
      "wr_AmountUSDMicros record \<le> wrap64 (wl_amount_usd_micros c - reserved_refunds (wl_id c) s)"
    by (auto simp: refund_binding_def ReadWalletOperation_def split: option.splits if_splits)
  from find_SomeD [OF c] have m: "c \<in> set (gd_wallets s)" "wl_id c = wr_OriginalOperationID record" by simp_all
  from m(1) assms(2) have "0 < wl_amount_usd_micros c" "int64_range (wl_amount_usd_micros c)"
    by (auto simp: db_ok_def list_all_iff wallet_check_def)
  then have "int64_range (wl_amount_usd_micros c - reserved_refunds (wl_id c) s)"
    using f(2) reserved_refunds_nonneg [OF assms(2), of "wl_id c"] by (auto simp: int64_range_def MinInt64_def MaxInt64_def)
  with f(3) have "reserved_refunds (wl_id c) s + wr_AmountUSDMicros record \<le> wl_amount_usd_micros c" by simp
  with m f(1) show thesis by (intro that)
qed

lemma new_wallet_row_simps [simp]:
  "row_facts (new_wallet_row now record) = record_facts record"
  "wl_status (new_wallet_row now record) = ''requested''" "wl_kind (new_wallet_row now record) = wr_Kind record"
  "wl_amount_usd_micros (new_wallet_row now record) = wr_AmountUSDMicros record"
  "wl_original_wallet_operation_id (new_wallet_row now record) = null_if_blank (wr_OriginalOperationID record)"
  "wl_id (new_wallet_row now record) = wr_ID record" "wl_wallet_binding_id (new_wallet_row now record) = wr_WalletBindingID record"
  "wl_business_idempotency_key (new_wallet_row now record) = wr_BusinessKey record"
  by (simp_all add: new_wallet_row_def row_facts_def record_facts_def)

lemma insert_wallet_cases:
  obtains (stopped) err where "insert_wallet lib record now s = (Inl err, s)"
  | (stored) row where "insert_wallet lib record now s =
        (Inr (record\<lparr>wr_Status := ''requested'', wr_CreatedAt := now, wr_UpdatedAt := now\<rparr>, False), s\<lparr>gd_wallets := gd_wallets s @ [row]\<rparr>)"
      "row = new_wallet_row (gw_pg_time lib now) record" "wallet_check row"
      "\<And>r. r \<in> set (gd_wallets s) \<Longrightarrow> \<not> wallet_clash row r" "wl_wallet_binding_id row \<in> wb_id ` set (gd_bindings s)"
proof (cases "insert_wallet lib record now s")
  case (Pair r s')
  then show thesis
    by (cases "\<exists>err. insert_wallet lib record now s = (Inl err, s)", blast intro: stopped)
       (rule stored, auto simp: insert_wallet_def Let_def split: if_splits sum.splits dest: sql_insert_InrD)
qed

lemma ReserveWalletOperation_cases:
  assumes "db_ok s"
  obtains (refused) err where "ReserveWalletOperation lib record now s = (Inl err, s)"
  | (existing) x where "ReserveWalletOperation lib record now s = (Inr (x, True), s)" "record_facts x \<in> known_rows s"
  | (inserted) x row where "ReserveWalletOperation lib record now s = (Inr (x, False), s\<lparr>gd_wallets := gd_wallets s @ [row]\<rparr>)"
      "record_facts x = row_facts row" "wr_Kind x = wr_Kind record" "wr_AmountUSDMicros x = wr_AmountUSDMicros record"
      "wl_status row = ''requested''" "refund_fits row s" "wallet_check row"
      "\<And>r. r \<in> set (gd_wallets s) \<Longrightarrow> \<not> wallet_clash row r" "wl_wallet_binding_id row \<in> wb_id ` set (gd_bindings s)"
proof (cases "ReadWalletOperationByBusinessKey (wr_BusinessKey record) s")
  case (Some x)
  let ?differs = "wr_RequestFingerprint x \<noteq> wr_RequestFingerprint record \<or> wr_TenantID x \<noteq> wr_TenantID record \<or>
    wr_WorkspaceID x \<noteq> wr_WorkspaceID record"
  show thesis
  proof (cases ?differs)
    case True
    with Some show thesis by (intro refused [of ErrGatewayWalletConflict]) (auto simp: ReserveWalletOperation_def)
  next
    case False
    with Some read_known(2) [OF Some] show thesis by (intro existing [of x]) (auto simp: ReserveWalletOperation_def)
  qed
next
  case None
  have new: thesis
    if eq: "ReserveWalletOperation lib record now s = insert_wallet lib x now s"
      and x: "wr_Kind x = wr_Kind record" "wr_AmountUSDMicros x = wr_AmountUSDMicros record"
        "wallet_check (new_wallet_row (gw_pg_time lib now) x) \<Longrightarrow> refund_fits (new_wallet_row (gw_pg_time lib now) x) s" for x
  proof (cases rule: insert_wallet_cases [of lib x now s])
    case (stopped err)
    with eq show thesis by (intro refused [of err]) simp
  next
    case (stored row)
    show thesis using eq x stored by (intro inserted [of "x\<lparr>wr_Status := ''requested'', wr_CreatedAt := now, wr_UpdatedAt := now\<rparr>" row])
      (auto simp: record_facts_def)
  qed
  show thesis
  proof (cases "wr_Kind record = ''refund''")
    case False
    with None show thesis by (intro new [of "record"]) (auto simp: ReserveWalletOperation_def refund_fits_def)
  next
    case True
    show thesis
    proof (cases "refund_binding record s")
      case (Inl err)
      with None True show thesis by (intro refused) (simp add: ReserveWalletOperation_def)
    next
      case (Inr b)
      show thesis
      proof (rule new [of "record\<lparr>wr_WalletBindingID := b\<rparr>"])
        assume chk: "wallet_check (new_wallet_row (gw_pg_time lib now) (record\<lparr>wr_WalletBindingID := b\<rparr>))"
        from Inr assms obtain c where "c \<in> set (gd_wallets s)" "wl_id c = wr_OriginalOperationID record" "wl_kind c = ''charge''"
          "reserved_refunds (wl_id c) s + wr_AmountUSDMicros record \<le> wl_amount_usd_micros c" by (rule refund_binding_fits)
        moreover have "null_if_blank (wr_OriginalOperationID record) = Some (wr_OriginalOperationID record)"
          using chk True by (auto simp: wallet_check_def null_if_blank_def split: if_splits)
        ultimately show "refund_fits (new_wallet_row (gw_pg_time lib now) (record\<lparr>wr_WalletBindingID := b\<rparr>)) s"
          by (auto simp: refund_fits_def intro!: bexI [of _ c])
      qed (use None True Inr in \<open>simp_all add: ReserveWalletOperation_def\<close>)
    qed
  qed
qed

lemma reserve_may_db:
  assumes "ac_knows g s" and "gd_wallets s' = gd_wallets s @ [row]" and "gd_bindings s' = gd_bindings s"
    and "wl_status row = ''requested''" and "refund_fits row s" and "wallet_check row"
    and "\<And>r. r \<in> set (gd_wallets s) \<Longrightarrow> \<not> wallet_clash row r" and "wl_wallet_binding_id row \<in> wb_id ` set (gd_bindings s)"
  shows "ac_may_db lib g s s'"
proof -
  have "db_ok s'" using assms(1-3,6-8)
    by (auto simp: ac_knows_def db_ok_def list_all_iff wallet_clash_def)
  with wallet_move.insert [OF assms(4,5), of lib g] assms(2,3) show ?thesis by (simp add: ac_may_db_def)
qed

lemma wp_reserve_and_resolve:
  assumes "(bd_ID binding, bd_BillingSub2APIUserID binding) \<in> ac_bound g"
  shows "wp (gateway_discipline (gs_lib e)) (reserve_and_resolve e req tenantID binding) (\<lambda>_ _. True) g"
proof -
  let ?tx = "ReserveWalletOperation (gs_lib e) (requested_record (gw_go (gs_lib e)) req tenantID binding)"
  let ?k = "\<lambda>r. case r of
         Some (Inr (record, existing)) \<Rightarrow> resolve_reserved e req binding record existing
       | Some (Inl ErrGatewayWalletConflict) \<Rightarrow>
           Return (Inl (FailedPrecondition, ''wallet command differs from its original execution''))
       | _ \<Rightarrow> Return (Inl (Unavailable, ''Gateway wallet reservation unavailable''))"
  have stop: "wp (gateway_discipline (gs_lib e)) (?k (Some (Inl err))) (\<lambda>_ _. True) g'" for err g'
    by (cases err) simp_all
  have none: "wp (gateway_discipline (gs_lib e)) (?k None) (\<lambda>_ _. True) g'" for g' by simp
  have "ac_may_db (gs_lib e) g s (snd (?tx t s)) \<and>
      wp (gateway_discipline (gs_lib e)) (?k (Some (fst (?tx t s)))) (\<lambda>_ _. True) (ac_after_db g s (snd (?tx t s)))"
    if s: "ac_knows g s" for t s
  proof -
    have ok: "db_ok s" using s by (simp add: ac_knows_def)
    then show ?thesis
    proof (cases rule: ReserveWalletOperation_cases [of s "gs_lib e" "requested_record (gw_go (gs_lib e)) req tenantID binding" t])
      case (refused err)
      with s stop show ?thesis by (simp add: ac_may_db_same)
    next
      case (existing x)
      have "wp (gateway_discipline (gs_lib e)) (resolve_reserved e req binding x True) (\<lambda>_ _. True) (learn g s)"
        by (rule wp_resolve_reserved) (use existing(2) assms in \<open>auto simp: learn_def\<close>)
      with s existing(1) show ?thesis by (simp add: ac_may_db_same ac_after_same)
    next
      case (inserted x row)
      let ?s = "s\<lparr>gd_wallets := gd_wallets s @ [row]\<rparr>"
      have "wp (gateway_discipline (gs_lib e)) (resolve_reserved e req binding x False) (\<lambda>_ _. True) (ac_after_db g s ?s)"
        by (rule wp_resolve_reserved)
          (use inserted(2-4) assms in \<open>auto simp: ac_after_db_def own_after_def learn_def requested_record_def\<close>)
      moreover have "ac_may_db (gs_lib e) g s ?s" by (rule reserve_may_db [OF s]) (use inserted in simp_all)
      ultimately show ?thesis by (simp add: inserted(1))
    qed
  qed
  with none show ?thesis unfolding reserve_and_resolve_def wp_bind wp_transaction by simp
qed

section \<open>The handlers\<close>

lemma wp_read_active_binding:
  assumes "\<And>err g'. Q (Inl err) g'" and "\<And>b g'. (bd_ID b, bd_BillingSub2APIUserID b) \<in> ac_bound g' \<Longrightarrow> Q (Inr b) g'"
  shows "wp (gateway_discipline lib) (read_active_binding tenantID) Q g"
proof -
  have "wp (gateway_discipline lib) (bind_proc (query (bindingVersion tenantID)) (\<lambda>v. Return (case v of
          None \<Rightarrow> Inl (Unavailable, ''Gateway wallet binding unavailable'') | Some n \<Rightarrow> Inr (b\<lparr>bd_Version := n\<rparr>)))) Q (learn g s)"
    if "active_binding tenantID s = Some b" for s b
    using binding_known(2) [OF that] unfolding wp_bind
    by (intro wp_query) (auto intro!: assms simp: learn_def)
  then show ?thesis unfolding read_active_binding_def wp_bind
    by (intro wp_query) (auto simp: assms(1) wp_bind split: option.split)
qed

lemma wp_read_charge_binding:
  assumes "\<And>err g'. Q (Inl err) g'" and "\<And>b g'. (bd_ID b, bd_BillingSub2APIUserID b) \<in> ac_bound g' \<Longrightarrow> Q (Inr b) g'"
  shows "wp (gateway_discipline lib) (read_charge_binding original tenantID workspaceID) Q g"
proof -
  have "wp (gateway_discipline lib) (bind_proc (query (ReadWalletBinding i)) (\<lambda>b. Return (case b of
          Some (Some b) \<Rightarrow> Inr b | _ \<Rightarrow> Inl (Unavailable, ''Gateway wallet binding unavailable'')))) Q g'" for i g'
    unfolding wp_bind
    by (intro wp_query) (auto intro!: assms simp: learn_def split: option.split dest!: binding_known(1))
  then show ?thesis unfolding read_charge_binding_def wp_bind
    by (intro wp_query) (auto simp: assms(1) wp_bind split: option.split)
qed

lemma wp_guarded_charge:
  assumes "\<And>g. wp (gateway_discipline lib) body (\<lambda>_ _. True) g"
  shows "wp (gateway_discipline lib) (guarded_charge c req tenantID body) (\<lambda>_ _. True) g"
proof -
  let ?release = "release_guard tenantID (wt_workspaceID req)"
  have release: "wp (gateway_discipline lib) (deferred ?release p) (\<lambda>_ _. True) g'"
    if "wp (gateway_discipline lib) p (\<lambda>_ _. True) g'" for p :: "(status + WalletOperation) gateway_proc" and g'
    unfolding deferred_def wp_bind
    by (rule wp_mono [OF that])
      (auto simp: wp.simps(3) release_guard_def ac_may_db_same)
  have inner: "wp (gateway_discipline lib) (bind_ok (authorizeWalletWrite c (wt_kind req) (wt_workspaceID req)) (\<lambda>_.
            bind_proc (query (workspaceKeyClosing tenantID (wt_workspaceID req))) (\<lambda>closing.
              case closing of
                None \<Rightarrow> Return (Inl (Unavailable, ''Workspace closeout readback unavailable''))
              | Some True \<Rightarrow> Return (Inl (FailedPrecondition, ''Workspace charging is closed''))
              | Some False \<Rightarrow> body))) (\<lambda>_ _. True) g'" for g'
    unfolding wp_bind_ok authorizeWalletWrite_def
    by (rule wp_authorizeInternal) (auto simp: wp_bind assms intro!: wp_query split: sum.split option.split bool.split)
  show ?thesis unfolding guarded_charge_def wp_bind
    by (auto simp: wp_transaction guardWorkspaceKey_def Let_def ac_may_db_same intro!: release inner)
qed

lemma wp_walletAction: "wp (gateway_discipline (gs_lib e)) (walletAction e req) (\<lambda>_ _. True) g"
proof -
  have allowed: "wp (gateway_discipline lib) (bind_ok (authorizeWalletWrite c kind i) (\<lambda>_. p)) (\<lambda>_ _. True) g'"
    if "wp (gateway_discipline lib) p (\<lambda>_ _. True) g'" for lib c kind i p and g' :: account
    unfolding wp_bind_ok authorizeWalletWrite_def
    by (rule wp_authorizeInternal) (use that in \<open>auto split: sum.split\<close>)
  have refund: "wp (gateway_discipline (gs_lib e)) (bind_ok (read_charge_binding original tenantID i) (reserve_and_resolve e req tenantID))
      (\<lambda>_ _. True) g'" for original tenantID i g'
    unfolding wp_bind_ok by (rule wp_read_charge_binding) (auto intro: wp_reserve_and_resolve)
  have charge: "wp (gateway_discipline (gs_lib e)) (bind_ok (read_active_binding tenantID) (reserve_and_resolve e req tenantID))
      (\<lambda>_ _. True) g'" for tenantID g'
    unfolding wp_bind_ok by (rule wp_read_active_binding) (auto intro: wp_reserve_and_resolve)
  show ?thesis unfolding walletAction_def Let_def
    by (auto simp: wp_unless_error refund charge intro!: allowed wp_guarded_charge split: option.split)
qed

lemma wp_authorizeWalletRead:
  assumes "wp (gateway_discipline lib) p (\<lambda>_ _. True) g"
  shows "wp (gateway_discipline lib) (bind_ok (authorizeWalletRead c i) (\<lambda>_. p)) (\<lambda>_ _. True) g"
  unfolding wp_bind_ok authorizeWalletRead_def
  by (rule wp_authorizeInternal) (use assms in \<open>auto split: sum.split\<close>)

lemma wp_answer_operation:
  assumes "record_facts record \<in> ac_seen g"
  shows "wp (gateway_discipline (gs_lib e)) (answer_operation e r c record) (\<lambda>_ _. True) g"
proof -
  have "wp (gateway_discipline (gs_lib e)) (reconcileWalletOperation e record b) (\<lambda>_ _. True) (learn g s)"
    if "ReadWalletBinding (wr_WalletBindingID record) s = Some b" for s b
    using binding_known(1) [OF that] assms by (intro wp_reconcile) (auto simp: learn_def)
  then have "wp (gateway_discipline (gs_lib e)) (bind_proc (query (ReadWalletBinding (wr_WalletBindingID record))) (\<lambda>b.
          case b of Some (Some binding) \<Rightarrow> reconcileWalletOperation e record binding
          | _ \<Rightarrow> Return (Inr (WalletOperationMessage record)))) (\<lambda>_ _. True) g"
    unfolding wp_bind by (intro wp_query) (auto split: option.split)
  then show ?thesis unfolding answer_operation_def by (auto intro!: wp_authorizeWalletRead)
qed

lemma wp_confirm_fenced:
  assumes "\<And>r g. Q r g"
  shows "wp (gateway_discipline lib) (confirm_fenced r c) Q g"
proof -
  have closing: "wp (gateway_discipline lib) (bind_proc (query f) (\<lambda>x. Return (h x))) Q g'" for f h g'
    unfolding wp_bind by (intro wp_query) (auto simp: assms)
  show ?thesis unfolding confirm_fenced_def Let_def
    by (auto simp: assms wp_bind_ok authorizeWalletRead_def closing intro!: wp_authorizeInternal split: sum.split)
qed

lemma wp_ReadWalletAction: "wp (gateway_discipline (gs_lib e)) (ReadWalletAction e r) (\<lambda>_ _. True) g"
proof -
  have absent: "wp (gateway_discipline (gs_lib e)) (absent_operation r c) (\<lambda>_ _. True) g'" for c g'
    unfolding absent_operation_def by (auto simp: wp_bind intro!: wp_query)
  let ?read = "\<lambda>f c. bind_proc (query f) (\<lambda>q. case q of
       None \<Rightarrow> Return (Inl (Unavailable, ''Gateway wallet readback unavailable''))
     | Some None \<Rightarrow> absent_operation r c
     | Some (Some record) \<Rightarrow> answer_operation e r c record)"
  have read: "wp (gateway_discipline (gs_lib e)) (?read f c) (\<lambda>_ _. True) g'"
    if "\<And>s x. f s = Some x \<Longrightarrow> record_facts x \<in> known_rows s" for f c g'
    unfolding wp_bind using absent that
    by (intro wp_query) (auto simp: learn_def intro!: wp_answer_operation split: option.split)
  have found: "record_facts x \<in> known_rows s"
    if "(if q then ReadWalletOperation i else ReadWalletOperationByBusinessKey key) s = Some x" for q i key s x
    using that read_known by (auto split: if_splits)
  show ?thesis unfolding ReadWalletAction_def
    by (auto simp: wp_unless_error wp_bind_ok intro!: wp_confirm_fenced read [OF found] split: option.split sum.split)
qed

lemma bind_may_db:
  assumes "ac_knows g s"
  shows "ac_may_db lib g s (snd (BindWalletBinding lib b v now s))"
proof (cases "gd_bindings (snd (BindWalletBinding lib b v now s)) = gd_bindings s")
  case True
  have "gd_wallets (snd (BindWalletBinding lib b v now s)) = gd_wallets s"
    by (auto simp: BindWalletBinding_def Let_def split: option.split sum.split)
  with True assms show ?thesis by (simp add: ac_may_db_same)
next
  case False
  let ?rows = "update_rows (\<lambda>r. wb_tenant_id r = bd_TenantID b \<and> wb_revoked_at r = None)
                 (\<lambda>r. r\<lparr>wb_revoked_at := Some (gw_pg_time lib now)\<rparr>) (gd_bindings s)"
  let ?row = "new_binding_row (gw_pg_time lib now) b"
  from False obtain rows where ins: "sql_insert (\<lambda>r. True) binding_clash ?row ?rows = Inr rows"
    and s': "snd (BindWalletBinding lib b v now s) = s\<lparr>gd_bindings := rows\<rparr>"
    by (auto simp: BindWalletBinding_def Let_def split: option.splits if_splits sum.splits)
  note new = sql_insert_InrD [OF ins]
  have same: "map wb_id ?rows = map wb_id (gd_bindings s)" "map binding_facts ?rows = map binding_facts (gd_bindings s)"
    by (rule map_update_rows, simp add: binding_facts_def)+
  from arg_cong [OF same(1), of set] arg_cong [OF same(2), of set]
  have set: "wb_id ` set ?rows = wb_id ` set (gd_bindings s)" "binding_facts ` set ?rows = known_bindings s" by simp_all
  have "wb_id ?row \<notin> wb_id ` set ?rows" using new(3) by (auto simp: binding_clash_def)
  then have "db_ok (s\<lparr>gd_bindings := rows\<rparr>)" using assms same(1) set(1) by (auto simp: new(1) ac_knows_def db_ok_def)
  moreover have "known_bindings s \<subseteq> known_bindings (s\<lparr>gd_bindings := rows\<rparr>)" by (auto simp: new(1) image_Un set(2))
  moreover have "wallet_move lib g s (gd_wallets (s\<lparr>gd_bindings := rows\<rparr>))" using wallet_move.same [of lib g s] by simp
  ultimately show ?thesis unfolding ac_may_db_def s' by blast
qed

lemma wp_BindWallet: "wp (gateway_discipline (gs_lib e)) (BindWallet e r) (\<lambda>_ _. True) g"
proof -
  have directory: "wp (gateway_discipline (gs_lib e)) (directoryIdentity configured subject) Q g'"
    if "\<And>r. Q r g'" for configured subject Q g'
    unfolding directoryIdentity_def
    by (auto simp: that is_post_def intro!: wp_other_call split: option.split gateway_answer.split)
  have stored: "wp (gateway_discipline (gs_lib e)) (bind_proc (transaction (BindWalletBinding (gs_lib e) b v)) (\<lambda>x. Return (h x)))
      (\<lambda>_ _. True) g'" for b v h g'
    unfolding wp_bind by (simp add: wp_transaction bind_may_db)
  show ?thesis unfolding BindWallet_def Let_def
    by (auto simp: wp_unless_error wp_bind_ok authorizeWalletBinding_def stored intro!: directory wp_authorizeInternal
        split: option.split sum.split)
qed

lemma wp_reply:
  "wp D p (\<lambda>_ _. True) g \<Longrightarrow> wp D (bind_proc p (\<lambda>x. Return (f x))) (\<lambda>_ _. True) g"
  unfolding wp_bind by (erule wp_mono) simp

lemma gateway_serve_keeps: "wp (gateway_discipline lib) (gateway_serve lib q) (\<lambda>_ _. True) g"
proof (cases q)
  case (DebitRequest e r)
  then show ?thesis using wp_walletAction [of "e\<lparr>gs_lib := lib\<rparr>"] by (simp add: wp_reply Debit_def)
next
  case (RefundRequest e r)
  then show ?thesis using wp_walletAction [of "e\<lparr>gs_lib := lib\<rparr>"] by (simp add: wp_reply Refund_def)
next
  case (ReadRequest e r)
  then show ?thesis using wp_ReadWalletAction [of "e\<lparr>gs_lib := lib\<rparr>"] by (simp add: wp_reply)
next
  case (BindRequest e r)
  then show ?thesis using wp_BindWallet [of "e\<lparr>gs_lib := lib\<rparr>"] by (simp add: wp_reply)
next
  case (ConnectionLost tenant workspace)
  then show ?thesis by (auto simp: wp.simps(3) release_guard_def ac_may_db_same)
qed

end
