(* ===== verification/Gateway_Machine.thy ===== *)
theory Gateway_Machine
  imports Gateway_Handlers
begin

text \<open>
  The wallet settlement as a system: any number of handlers, interleaved at every statement and call, with
  lost answers and handlers that stop. The invariant relates the accounts of the running handlers, the
  database and the two logs: the adjustments sent belong to distinct stored operations; a confirmed row is
  backed by the wallet's own history; a rejected row has no owner and its adjustment was either never sent or
  refused; the refunds of a charge that were or may still be sent stay within the charge. It holds in every
  reachable world, because the handlers keep to the discipline (\<open>disciplined_service\<close> of \<open>Go_Process\<close>).
\<close>

section \<open>The invariant\<close>

definition owns :: "account \<Rightarrow> op_facts \<Rightarrow> bool" where
  "owns g f \<longleftrightarrow> (\<exists>p. ac_own g = Some (f, p))"

definition apart :: "account \<Rightarrow> account \<Rightarrow> bool" where
  "apart g g' \<longleftrightarrow> (\<forall>f f'. owns g f \<longrightarrow> owns g' f' \<longrightarrow> of_id f \<noteq> of_id f')"

definition refusal :: "gwlib \<Rightarrow> (gateway_call \<times> gateway_answer) list \<Rightarrow> op_facts \<Rightarrow> bool" where
  "refusal lib as f \<longleftrightarrow> (\<exists>u a. (post_of lib u f, a) \<in> set as \<and> refused a)"

definition account_ok :: "gwlib \<Rightarrow> gateway_db \<Rightarrow> string set \<Rightarrow> (gateway_call \<times> gateway_answer) list \<Rightarrow> account \<Rightarrow> bool" where
  "account_ok lib s ids as g \<longleftrightarrow>
     ac_seen g \<subseteq> known_rows s \<and> ac_bound g \<subseteq> known_bindings s \<and> ac_known g \<subseteq> native_evidence as \<and>
     (\<forall>f p. ac_own g = Some (f, p) \<longrightarrow>
        (\<exists>r \<in> set (gd_wallets s). row_facts r = f \<and> wl_status r \<in> {''requested'', ''confirmed''}) \<and>
        (p = NotPosted \<longrightarrow> of_id f \<notin> ids) \<and>
        (\<forall>c x. p = Posted c x \<longrightarrow> (\<exists>u. c = post_of lib u f) \<and> (\<forall>a. x = Some a \<longrightarrow> (c, a) \<in> set as)))"

definition live :: "gwlib \<Rightarrow> account list \<Rightarrow> string set \<Rightarrow> (gateway_call \<times> gateway_answer) list \<Rightarrow> wallet_row \<Rightarrow> bool" where
  \<comment> \<open>the adjustment of the row was sent or may still be sent, and was not refused\<close>
  "live lib gs ids as r \<longleftrightarrow>
     ((\<exists>g \<in> set gs. owns g (row_facts r)) \<or> wl_id r \<in> ids) \<and> \<not> refusal lib as (row_facts r)"

definition backed :: "gwlib \<Rightarrow> gateway_db \<Rightarrow> (gateway_call \<times> gateway_answer) list \<Rightarrow> op_facts \<Rightarrow> bool" where
  "backed lib s as f \<longleftrightarrow> (\<exists>u. subject_of (known_bindings s) f u \<and>
     (u, gatewayAdjustmentCode (gw_go lib) (of_key f), native_micros f) \<in> native_evidence as)"

definition row_ok ::
  "gwlib \<Rightarrow> account list \<Rightarrow> gateway_db \<Rightarrow> string set \<Rightarrow> (gateway_call \<times> gateway_answer) list \<Rightarrow> wallet_row \<Rightarrow> bool" where
  "row_ok lib gs s ids as r \<longleftrightarrow>
     (wl_status r = ''confirmed'' \<longrightarrow> backed lib s as (row_facts r)) \<and>
     (wl_status r = ''rejected'' \<longrightarrow> \<not> live lib gs ids as r)"

definition refund_of :: "string \<Rightarrow> wallet_row \<Rightarrow> bool" where
  "refund_of i r \<longleftrightarrow> wl_original_wallet_operation_id r = Some i \<and> wl_kind r = ''refund''"

definition refunded :: "(wallet_row \<Rightarrow> bool) \<Rightarrow> string \<Rightarrow> wallet_row list \<Rightarrow> int" where
  "refunded p i rows = sum_list (map wl_amount_usd_micros (filter (\<lambda>r. refund_of i r \<and> p r) rows))"

definition refunds_ok :: "(wallet_row \<Rightarrow> bool) \<Rightarrow> wallet_row list \<Rightarrow> bool" where
  "refunds_ok p rows \<longleftrightarrow>
     (\<forall>c \<in> set rows. refunded p (wl_id c) rows \<le> wl_amount_usd_micros c) \<and>
     (\<forall>r \<in> set rows. \<forall>i. refund_of i r \<longrightarrow> i \<in> wl_id ` set rows)"

definition posts_ok :: "gwlib \<Rightarrow> gateway_db \<Rightarrow> (int \<times> op_facts) list \<Rightarrow> gateway_call list \<Rightarrow> bool" where
  "posts_ok lib s ops cs \<longleftrightarrow>
     filter is_post cs = map (\<lambda>(u, f). post_of lib u f) ops \<and> distinct (map (\<lambda>(u, f). of_id f) ops) \<and>
     (\<forall>(u, f) \<in> set ops. f \<in> known_rows s \<and> subject_of (known_bindings s) f u)"

definition posted_ids :: "(int \<times> op_facts) list \<Rightarrow> string set" where
  "posted_ids ops = (\<lambda>(u, f). of_id f) ` set ops"

definition inv_with ::
  "gwlib \<Rightarrow> (int \<times> op_facts) list \<Rightarrow> account list \<Rightarrow> gateway_db \<Rightarrow> gateway_call list \<Rightarrow> (gateway_call \<times> gateway_answer) list \<Rightarrow> bool" where
  "inv_with lib ops gs s cs as \<longleftrightarrow>
     db_ok s \<and> sorted_wrt apart gs \<and> posts_ok lib s ops cs \<and>
     (\<forall>g \<in> set gs. account_ok lib s (posted_ids ops) as g) \<and>
     (\<forall>r \<in> set (gd_wallets s). row_ok lib gs s (posted_ids ops) as r) \<and>
     refunds_ok (live lib gs (posted_ids ops) as) (gd_wallets s)"

definition gateway_inv ::
  "gwlib \<Rightarrow> account list \<Rightarrow> gateway_db \<Rightarrow> gateway_call list \<Rightarrow> (gateway_call \<times> gateway_answer) list \<Rightarrow> bool" where
  "gateway_inv lib gs s cs as \<longleftrightarrow> (\<exists>ops. inv_with lib ops gs s cs as)"

section \<open>Owners\<close>

lemma apart_sym: "apart g g' \<Longrightarrow> apart g' g"
  unfolding apart_def by metis

lemma apart_nth: "sorted_wrt apart gs \<Longrightarrow> i < length gs \<Longrightarrow> j < length gs \<Longrightarrow> i \<noteq> j \<Longrightarrow> apart (gs ! i) (gs ! j)"
  using apart_sym by (metis linorder_neqE_nat sorted_wrt_iff_nth_less)

lemma apart_update:
  assumes "sorted_wrt apart gs" and "\<And>j. j < length gs \<Longrightarrow> j \<noteq> i \<Longrightarrow> apart g (gs ! j)"
  shows "sorted_wrt apart (gs[i := g])"
  unfolding sorted_wrt_iff_nth_less
proof (intro allI impI)
  fix j k
  assume "j < k" and "k < length (gs[i := g])"
  then show "apart (gs[i := g] ! j) (gs[i := g] ! k)"
    using assms(2) [of j] assms(2) [of k] assms(1) apart_sym
    by (cases "j = i"; cases "k = i") (auto simp: sorted_wrt_iff_nth_less)
qed

lemma apart_none: "ac_own g = None \<Longrightarrow> apart g g'"
  by (simp add: apart_def owns_def)

lemma apart_same_own: "apart g g' \<Longrightarrow> owns h = owns g \<Longrightarrow> apart h g'"
  by (simp add: apart_def)

lemma in_update:
  assumes "g \<in> set (gs[i := h])"
  obtains "g = h" | j where "j < length gs" "j \<noteq> i" "g = gs ! j"
proof -
  from assms obtain j where "j < length gs" "g = gs[i := h] ! j" by (auto simp: in_set_conv_nth)
  then show thesis using that(1) that(2) [of j] by (cases "j = i") auto
qed

lemma rows_unique:
  "db_ok s \<Longrightarrow> r \<in> set (gd_wallets s) \<Longrightarrow> r' \<in> set (gd_wallets s) \<Longrightarrow> wl_id r = wl_id r' \<Longrightarrow> r = r'"
  by (simp add: db_ok_def distinct_map inj_on_def)

lemma facts_unique:
  assumes "db_ok s" and "f \<in> known_rows s" and "r \<in> set (gd_wallets s)" and "wl_id r = of_id f"
  shows "row_facts r = f"
  using assms rows_unique [OF assms(1)] by fastforce

section \<open>Liveness of rows\<close>

lemma live_mono:
  assumes "live lib gs' ids' as' r" and "\<And>g. g \<in> set gs' \<Longrightarrow> owns g (row_facts r) \<Longrightarrow> \<exists>g \<in> set gs. owns g (row_facts r)"
    and "wl_id r \<in> ids' \<Longrightarrow> wl_id r \<in> ids \<or> (\<exists>g \<in> set gs. owns g (row_facts r))" and "set as \<subseteq> set as'"
  shows "live lib gs ids as r"
  using assms by (auto simp: live_def refusal_def)

lemma refunded_mono:
  assumes "\<And>r. r \<in> set rows \<Longrightarrow> p r \<Longrightarrow> q r" and "\<And>r. r \<in> set rows \<Longrightarrow> 0 \<le> wl_amount_usd_micros r"
  shows "refunded p i rows \<le> refunded q i rows"
  using assms unfolding refunded_def
proof (induction rows)
  case (Cons r rows)
  then have "refunded p i rows \<le> refunded q i rows" "0 \<le> wl_amount_usd_micros r" by (simp_all add: refunded_def)
  with Cons.prems(1) [of r] show ?case by (auto simp: refunded_def)
qed simp

lemma refunds_ok_mono:
  assumes "refunds_ok q rows" and "\<And>r. r \<in> set rows \<Longrightarrow> p r \<Longrightarrow> q r" and "\<And>r. r \<in> set rows \<Longrightarrow> 0 \<le> wl_amount_usd_micros r"
  shows "refunds_ok p rows"
  using assms(1) refunded_mono [of rows p q, OF assms(2,3)] unfolding refunds_ok_def by (meson order_trans)

lemma amounts_positive: "db_ok s \<Longrightarrow> r \<in> set (gd_wallets s) \<Longrightarrow> 0 < wl_amount_usd_micros r"
  by (auto simp: db_ok_def list_all_iff wallet_check_def)

lemma backed_mono:
  "backed lib s as f \<Longrightarrow> known_bindings s \<subseteq> known_bindings s' \<Longrightarrow> native_evidence as \<subseteq> native_evidence as' \<Longrightarrow>
   backed lib s' as' f"
  unfolding backed_def by (meson subject_of_mono subsetD)

lemma inv_withI_mono:
  \<comment> \<open>a step that leaves the rows, and makes no row live\<close>
  assumes inv: "inv_with lib ops gs s cs as" and "db_ok s'" and "gd_wallets s' = gd_wallets s" and "known_bindings s \<subseteq> known_bindings s'"
    and "sorted_wrt apart gs'" and "posts_ok lib s' ops' cs'"
    and "\<And>g. g \<in> set gs' \<Longrightarrow> account_ok lib s' (posted_ids ops') as' g"
    and live: "\<And>r. r \<in> set (gd_wallets s) \<Longrightarrow> live lib gs' (posted_ids ops') as' r \<Longrightarrow> live lib gs (posted_ids ops) as r"
    and "native_evidence as \<subseteq> native_evidence as'"
  shows "inv_with lib ops' gs' s' cs' as'"
proof -
  from inv have old: "refunds_ok (live lib gs (posted_ids ops) as) (gd_wallets s)" and db: "db_ok s"
    and rows: "\<And>r. r \<in> set (gd_wallets s) \<Longrightarrow> row_ok lib gs s (posted_ids ops) as r" by (simp_all add: inv_with_def)
  have "refunds_ok (live lib gs' (posted_ids ops') as') (gd_wallets s)"
    using old live amounts_positive [OF db, THEN less_imp_le] by (rule refunds_ok_mono)
  moreover have "row_ok lib gs' s' (posted_ids ops') as' r" if "r \<in> set (gd_wallets s)" for r
    using rows [OF that] live [OF that] backed_mono [OF _ assms(4,9)] unfolding row_ok_def by blast
  ultimately show ?thesis using assms(2,3,5-7) by (simp add: inv_with_def)
qed

section \<open>Calls\<close>

lemma native_evidence_mono: "set as \<subseteq> set as' \<Longrightarrow> native_evidence as \<subseteq> native_evidence as'"
  unfolding native_evidence_def by blast

lemma posts_ok_mono:
  "posts_ok lib s ops cs \<Longrightarrow> known_rows s \<subseteq> known_rows s' \<Longrightarrow> known_bindings s \<subseteq> known_bindings s' \<Longrightarrow> posts_ok lib s' ops cs"
  unfolding posts_ok_def using subject_of_mono by fastforce

lemma live_update:
  assumes "live lib (gs[i := g]) ids as' r" and "i < length gs" and "\<And>f. owns g f \<Longrightarrow> owns (gs ! i) f" and "set as \<subseteq> set as'"
  shows "live lib gs ids as r"
  using assms(1)
proof (rule live_mono)
  fix h
  assume "h \<in> set (gs[i := g])" and "owns h (row_facts r)"
  then show "\<exists>g \<in> set gs. owns g (row_facts r)"
    by (cases rule: in_update [of h gs i g]) (use assms(2,3) nth_mem in blast)+
qed (use assms(4) in auto)

lemma account_ok_answers: "account_ok lib s ids as g \<Longrightarrow> set as \<subseteq> set as' \<Longrightarrow> account_ok lib s ids as' g"
  unfolding account_ok_def using native_evidence_mono [of as as'] by blast

lemma inv_spawn:
  assumes "gateway_inv lib gs s cs as"
  shows "gateway_inv lib (gs @ [fresh_account]) s cs as"
proof -
  from assms obtain ops where inv: "inv_with lib ops gs s cs as" by (auto simp: gateway_inv_def)
  have fresh: "\<not> owns fresh_account f" for f by (simp add: owns_def fresh_account_def)
  have "inv_with lib ops (gs @ [fresh_account]) s cs as"
  proof (rule inv_withI_mono [OF inv])
    show "sorted_wrt apart (gs @ [fresh_account])" using inv fresh by (simp add: inv_with_def sorted_wrt_append apart_def)
    show "account_ok lib s (posted_ids ops) as g" if "g \<in> set (gs @ [fresh_account])" for g
      using inv that by (auto simp: inv_with_def account_ok_def fresh_account_def)
    show "live lib gs (posted_ids ops) as r" if "live lib (gs @ [fresh_account]) (posted_ids ops) as r" for r
      using that fresh by (auto simp: live_def)
  qed (use inv in \<open>simp_all add: inv_with_def\<close>)
  then show ?thesis by (auto simp: gateway_inv_def)
qed

lemma inv_end:
  assumes "gateway_inv lib gs s cs as"
  shows "gateway_inv lib (take i gs @ drop (Suc i) gs) s cs as"
proof -
  from assms obtain ops where inv: "inv_with lib ops gs s cs as" by (auto simp: gateway_inv_def)
  have sub: "set (take i gs @ drop (Suc i) gs) \<subseteq> set gs" using set_take_subset set_drop_subset by fastforce
  have "sorted_wrt apart (take i gs @ drop i gs)" using inv by (simp add: inv_with_def)
  then have sorted: "sorted_wrt apart (take i gs @ drop (Suc i) gs)"
    using set_drop_subset_set_drop [of i "Suc i" gs] sorted_wrt_drop [of apart "drop i gs" 1]
    unfolding sorted_wrt_append by (auto simp: subset_iff)
  have "inv_with lib ops (take i gs @ drop (Suc i) gs) s cs as"
  proof (rule inv_withI_mono [OF inv])
    show "account_ok lib s (posted_ids ops) as g" if "g \<in> set (take i gs @ drop (Suc i) gs)" for g
      using inv that sub by (auto simp: inv_with_def)
    show "live lib gs (posted_ids ops) as r" if "live lib (take i gs @ drop (Suc i) gs) (posted_ids ops) as r" for r
      using that by (rule live_mono) (use sub in auto)
  qed (use inv sorted in \<open>simp_all add: inv_with_def\<close>)
  then show ?thesis by (auto simp: gateway_inv_def)
qed

lemma inv_answer:
  assumes "gateway_inv lib gs s cs as" and i: "i < length gs"
  shows "gateway_inv lib (gs[i := ac_after_answer (gs ! i) c a]) s cs (as @ [(c, a)])"
proof -
  let ?g = "ac_after_answer (gs ! i) c a"
  from assms obtain ops where inv: "inv_with lib ops gs s cs as" by (auto simp: gateway_inv_def)
  have own: "owns ?g = owns (gs ! i)" by (auto simp: fun_eq_iff owns_def ac_after_answer_def)
  have acc: "account_ok lib s (posted_ids ops) (as @ [(c, a)]) g" if "g \<in> set gs" for g
    by (rule account_ok_answers [of lib s _ as]) (use inv that in \<open>auto simp: inv_with_def\<close>)
  have ok: "account_ok lib s (posted_ids ops) (as @ [(c, a)]) ?g"
  proof (cases "is_post c")
    case False
    with acc [OF nth_mem [OF i]] show ?thesis by (simp add: account_ok_def ac_after_answer_def native_evidence_append)
  next
    case True
    show ?thesis
    proof (cases "ac_own (gs ! i)")
      case None
      with True acc [OF nth_mem [OF i]] show ?thesis by (simp add: account_ok_def ac_after_answer_def)
    next
      case (Some fp)
      with True acc [OF nth_mem [OF i]] show ?thesis
        by (cases fp) (simp add: account_ok_def ac_after_answer_def)
    qed
  qed
  have "inv_with lib ops (gs[i := ?g]) s cs (as @ [(c, a)])"
  proof (rule inv_withI_mono [OF inv])
    show "sorted_wrt apart (gs[i := ?g])"
      using inv i by (intro apart_update apart_same_own [OF apart_nth own]) (auto simp: inv_with_def)
    show "account_ok lib s (posted_ids ops) (as @ [(c, a)]) g" if "g \<in> set (gs[i := ?g])" for g
      using that by (cases rule: in_update) (use ok acc in auto)
    show "live lib gs (posted_ids ops) as r" if "live lib (gs[i := ?g]) (posted_ids ops) (as @ [(c, a)]) r" for r
      using that i by (rule live_update) (use own in auto)
  qed (use inv in \<open>simp_all add: inv_with_def native_evidence_append\<close>)
  then show ?thesis by (auto simp: gateway_inv_def)
qed

lemma inv_send:
  assumes "gateway_inv lib gs s cs as" and i: "i < length gs" and "ac_may_send lib (gs ! i) c"
  shows "gateway_inv lib (gs[i := ac_after_send (gs ! i) c]) s (cs @ [c]) as"
proof (cases "is_post c")
  case False
  then show ?thesis using assms(1) by (simp add: ac_after_send_def gateway_inv_def inv_with_def posts_ok_def)
next
  case True
  from assms(1) obtain ops where inv: "inv_with lib ops gs s cs as" by (auto simp: gateway_inv_def)
  from True assms(3) obtain f u where f: "ac_own (gs ! i) = Some (f, NotPosted)" "subject_of (ac_bound (gs ! i)) f u" "c = post_of lib u f"
    by (auto simp: ac_may_send_def)
  let ?g = "ac_after_send (gs ! i) c"
  have own: "owns ?g = owns (gs ! i)" by (auto simp: fun_eq_iff owns_def ac_after_send_def)
  from inv i have acc: "account_ok lib s (posted_ids ops) as (gs ! i)" by (simp add: inv_with_def)
  with f have new: "of_id f \<notin> posted_ids ops" "f \<in> known_rows s" "subject_of (known_bindings s) f u"
    by (auto simp: account_ok_def intro: subject_of_mono)
  have ids: "posted_ids (ops @ [(u, f)]) = insert (of_id f) (posted_ids ops)" by (simp add: posted_ids_def)
  have others: "account_ok lib s (posted_ids (ops @ [(u, f)])) as (gs ! j)" if j: "j < length gs" "j \<noteq> i" for j
  proof -
    have "apart (gs ! i) (gs ! j)" using inv i j by (intro apart_nth) (auto simp: inv_with_def)
    with f(1) have "of_id f' \<noteq> of_id f" if "ac_own (gs ! j) = Some (f', p)" for f' p using that by (auto simp: apart_def owns_def)
    moreover have "account_ok lib s (posted_ids ops) as (gs ! j)" using inv j by (simp add: inv_with_def)
    ultimately show ?thesis unfolding account_ok_def ids by auto
  qed
  have "inv_with lib (ops @ [(u, f)]) (gs[i := ?g]) s (cs @ [c]) as"
  proof (rule inv_withI_mono [OF inv])
    show "sorted_wrt apart (gs[i := ?g])"
      using inv i by (intro apart_update apart_same_own [OF apart_nth own]) (auto simp: inv_with_def)
    show "posts_ok lib s (ops @ [(u, f)]) (cs @ [c])"
      using inv new True f(3) by (auto simp: inv_with_def posts_ok_def posted_ids_def)
    have "account_ok lib s (posted_ids (ops @ [(u, f)])) as ?g"
      using acc f True unfolding account_ok_def ac_after_send_def by auto
    then show "account_ok lib s (posted_ids (ops @ [(u, f)])) as g" if "g \<in> set (gs[i := ?g])" for g
      by (cases rule: in_update [OF that]) (use others in auto)
    show "live lib gs (posted_ids ops) as r"
      if r: "r \<in> set (gd_wallets s)" and "live lib (gs[i := ?g]) (posted_ids (ops @ [(u, f)])) as r" for r
    proof -
      have "\<exists>g \<in> set gs. owns g (row_facts r)" if "wl_id r = of_id f"
        using facts_unique [OF _ new(2) r that] inv f(1) i by (auto simp: inv_with_def owns_def intro!: bexI [of _ "gs ! i"])
      with live_update [OF \<open>live lib (gs[i := ?g]) _ as r\<close> i, of as] own show ?thesis
        by (auto simp: live_def ids)
    qed
  qed (use inv in \<open>simp_all add: inv_with_def\<close>)
  then show ?thesis by (auto simp: gateway_inv_def)
qed

section \<open>Statements\<close>

lemma account_ok_db:
  assumes "account_ok lib s ids as g" and "known_rows s \<subseteq> known_rows s'" and "known_bindings s \<subseteq> known_bindings s'"
    and "\<And>r. r \<in> set (gd_wallets s) \<Longrightarrow> owns g (row_facts r) \<Longrightarrow> wl_status r \<in> {''requested'', ''confirmed''} \<Longrightarrow>
      \<exists>r' \<in> set (gd_wallets s'). row_facts r' = row_facts r \<and> wl_status r' \<in> {''requested'', ''confirmed''}"
  shows "account_ok lib s' ids as g"
proof -
  from assms(1) have own: "\<exists>r \<in> set (gd_wallets s). row_facts r = f \<and> wl_status r \<in> {''requested'', ''confirmed''}"
    if "ac_own g = Some (f, p)" for f p using that unfolding account_ok_def by blast
  have "\<exists>r \<in> set (gd_wallets s'). row_facts r = f \<and> wl_status r \<in> {''requested'', ''confirmed''}"
    if f: "ac_own g = Some (f, p)" for f p
  proof -
    from own [OF f] obtain r where "r \<in> set (gd_wallets s)" "row_facts r = f" "wl_status r \<in> {''requested'', ''confirmed''}" by blast
    with assms(4) [of r] f show ?thesis by (auto simp: owns_def)
  qed
  moreover have "ac_seen g \<subseteq> known_rows s'" by (rule subset_trans [OF _ assms(2)]) (use assms(1) in \<open>simp add: account_ok_def\<close>)
  moreover have "ac_bound g \<subseteq> known_bindings s'" by (rule subset_trans [OF _ assms(3)]) (use assms(1) in \<open>simp add: account_ok_def\<close>)
  moreover have "(p = NotPosted \<longrightarrow> of_id f \<notin> ids) \<and>
      (\<forall>c x. p = Posted c x \<longrightarrow> (\<exists>u. c = post_of lib u f) \<and> (\<forall>a. x = Some a \<longrightarrow> (c, a) \<in> set as))"
    if "ac_own g = Some (f, p)" for f p using assms(1) that unfolding account_ok_def by blast
  ultimately show ?thesis using assms(1) unfolding account_ok_def by simp
qed

lemma row_facts_id: "row_facts r = row_facts r' \<Longrightarrow> wl_id r = wl_id r'"
  by (metis row_facts_simps(1))

lemma inv_same:
  assumes "inv_with lib ops gs s cs as" and i: "i < length gs" and "db_ok s'" and w: "gd_wallets s' = gd_wallets s"
    and b: "known_bindings s \<subseteq> known_bindings s'"
    and g: "ac_own g = ac_own (gs ! i)" "account_ok lib s' (posted_ids ops) as g"
  shows "inv_with lib ops (gs[i := g]) s' cs as"
proof (rule inv_withI_mono [OF assms(1,3) w b])
  have own: "owns g = owns (gs ! i)" by (simp add: fun_eq_iff owns_def g(1))
  then show "sorted_wrt apart (gs[i := g])"
    using assms(1) i by (intro apart_update apart_same_own [OF apart_nth own]) (auto simp: inv_with_def)
  show "posts_ok lib s' ops cs" using assms(1) w b by (auto simp: inv_with_def intro: posts_ok_mono)
  have "account_ok lib s' (posted_ids ops) as h" if "h \<in> set gs" for h
    by (rule account_ok_db [of lib s]) (use assms(1) that w b in \<open>auto simp: inv_with_def\<close>)
  with g(2) show "account_ok lib s' (posted_ids ops) as h" if "h \<in> set (gs[i := g])" for h
    by (cases rule: in_update [OF that]) auto
  show "live lib gs (posted_ids ops) as r" if "live lib (gs[i := g]) (posted_ids ops) as r" for r
    using that i by (rule live_update) (use own in auto)
qed simp

lemma reserved_refunded: "reserved_refunds i s = refunded (\<lambda>r. wl_status r \<noteq> ''rejected'') i (gd_wallets s)"
  by (simp add: reserved_refunds_def refunded_def refunds_of_def refund_of_def conj_assoc)

lemma refunded_snoc:
  "refunded p i (rows @ [row]) = refunded p i rows + (if refund_of i row \<and> p row then wl_amount_usd_micros row else 0)"
  by (simp add: refunded_def)

lemma refunds_ok_insert:
  assumes "db_ok s" and "db_ok s'" and w: "gd_wallets s' = gd_wallets s @ [row]" and fits: "refund_fits row s"
    and old: "refunds_ok q (gd_wallets s)" and "\<And>r. r \<in> set (gd_wallets s) \<Longrightarrow> p r \<Longrightarrow> q r \<and> wl_status r \<noteq> ''rejected''"
  shows "refunds_ok p (gd_wallets s')"
proof -
  let ?rows = "gd_wallets s"
  have new: "wl_id row \<notin> wl_id ` set ?rows" using assms(2) w by (simp add: db_ok_def)
  have pos: "0 \<le> wl_amount_usd_micros r" if "r \<in> set ?rows" for r using amounts_positive [OF assms(1) that] by simp
  have within: "refunded p (wl_id c) ?rows \<le> wl_amount_usd_micros c" if "c \<in> set ?rows" for c
    using refunded_mono [of ?rows p q "wl_id c"] assms(6) pos old that by (force simp: refunds_ok_def)
  have original: "\<exists>c \<in> set ?rows. wl_id c = i \<and> refunded p i ?rows + wl_amount_usd_micros row \<le> wl_amount_usd_micros c"
    if "refund_of i row" for i
  proof -
    from fits that obtain c where c: "c \<in> set ?rows" "wl_id c = i"
      "reserved_refunds (wl_id c) s + wl_amount_usd_micros row \<le> wl_amount_usd_micros c"
      by (auto simp: refund_fits_def refund_of_def)
    have "refunded p i ?rows \<le> reserved_refunds i s"
      unfolding reserved_refunded by (rule refunded_mono) (use assms(6) pos in auto)
    with c show ?thesis by auto
  qed
  have "refunded p (wl_id c) (?rows @ [row]) \<le> wl_amount_usd_micros c" if c: "c \<in> set ?rows" for c
  proof (cases "refund_of (wl_id c) row")
    case True
    from original [OF this] rows_unique [OF assms(1)] c show ?thesis
      using within [OF c] by (auto simp: refunded_snoc)
  qed (use within [OF c] in \<open>simp add: refunded_snoc\<close>)
  moreover have "refunded p (wl_id row) (?rows @ [row]) \<le> wl_amount_usd_micros row"
  proof -
    have "\<not> refund_of (wl_id row) r" if "r \<in> set ?rows" for r using old new that by (auto simp: refunds_ok_def)
    then have "refunded p (wl_id row) ?rows = 0" by (simp add: refunded_def filter_False)
    moreover have "\<not> refund_of (wl_id row) row" using original [of "wl_id row"] new by (metis image_eqI)
    moreover have "0 < wl_amount_usd_micros row" using amounts_positive [OF assms(2), of row] w by simp
    ultimately show ?thesis by (simp add: refunded_snoc)
  qed
  moreover have "i \<in> wl_id ` set (?rows @ [row])" if "r \<in> set (?rows @ [row])" "refund_of i r" for r i
    using that old original [of i] by (auto simp: refunds_ok_def)
  ultimately show ?thesis unfolding refunds_ok_def w by auto
qed

lemma inv_insert:
  assumes inv: "inv_with lib ops gs s cs as" and i: "i < length gs" and db: "db_ok s'" and w: "gd_wallets s' = gd_wallets s @ [row]"
    and b: "known_bindings s \<subseteq> known_bindings s'" and row: "wl_status row = ''requested''" "refund_fits row s"
    and g: "ac_own g = None \<or> ac_own g = Some (row_facts row, NotPosted)"
      "ac_seen g \<subseteq> known_rows s'" "ac_bound g \<subseteq> known_bindings s'" "ac_known g \<subseteq> native_evidence as"
  shows "inv_with lib ops (gs[i := g]) s' cs as"
proof -
  have old: "db_ok s" "refunds_ok (live lib gs (posted_ids ops) as) (gd_wallets s)" "posts_ok lib s ops cs"
    and acc: "\<And>h. h \<in> set gs \<Longrightarrow> account_ok lib s (posted_ids ops) as h"
    and rows: "\<And>r. r \<in> set (gd_wallets s) \<Longrightarrow> row_ok lib gs s (posted_ids ops) as r" using inv by (simp_all add: inv_with_def)
  have new: "wl_id row \<notin> wl_id ` set (gd_wallets s)" using db w by (simp add: db_ok_def)
  have known: "known_rows s \<subseteq> known_rows s'" by (auto simp: w)
  have owned: "of_id f \<in> wl_id ` set (gd_wallets s)" if "h \<in> set gs" "owns h f" for h f
    using acc [OF that(1)] that(2) by (fastforce simp: account_ok_def owns_def)
  have fresh: "wl_id row \<notin> posted_ids ops" using old(3) new by (fastforce simp: posts_ok_def posted_ids_def)
  have live: "live lib gs (posted_ids ops) as r"
    if r: "r \<in> set (gd_wallets s)" and "live lib (gs[i := g]) (posted_ids ops) as r" for r
  proof -
    have "row_facts r \<noteq> row_facts row" using new r row_facts_id by (metis image_eqI)
    then have "\<not> owns g (row_facts r)" using g(1) by (auto simp: owns_def)
    then have "\<exists>h \<in> set gs. owns h (row_facts r)" if "h \<in> set (gs[i := g])" "owns h (row_facts r)" for h
      using that(2) by (cases rule: in_update [OF that(1)]) auto
    from live_mono [OF that(2) this] show ?thesis by auto
  qed
  have "posts_ok lib s' ops cs" using old(3) known b by (rule posts_ok_mono)
  moreover have "sorted_wrt apart (gs[i := g])"
  proof (rule apart_update)
    show "apart g (gs ! j)" if "j < length gs" for j
      using g(1) new owned [of "gs ! j"] that by (auto simp: apart_def owns_def dest: row_facts_id)
  qed (use inv in \<open>simp add: inv_with_def\<close>)
  moreover have "account_ok lib s' (posted_ids ops) as h" if "h \<in> set (gs[i := g])" for h
  proof (cases rule: in_update [OF that])
    case 1
    then show ?thesis using g fresh row(1) w by (auto simp: account_ok_def)
  next
    case (2 j)
    show ?thesis by (rule account_ok_db [of lib s]) (use acc 2 known b w in auto)
  qed
  moreover have "row_ok lib (gs[i := g]) s' (posted_ids ops) as r" if "r \<in> set (gd_wallets s')" for r
  proof (cases "r \<in> set (gd_wallets s)")
    case True
    with rows [OF True] live [OF True] backed_mono [OF _ b] show ?thesis unfolding row_ok_def by blast
  qed (use that w row(1) in \<open>simp add: row_ok_def\<close>)
  moreover have "refunds_ok (live lib (gs[i := g]) (posted_ids ops) as) (gd_wallets s')"
    by (rule refunds_ok_insert [OF old(1) db w row(2) old(2)]) (use live rows in \<open>auto simp: row_ok_def\<close>)
  ultimately show ?thesis using db by (simp add: inv_with_def)
qed

lemma refunds_ok_map:
  assumes "\<And>r. wl_id (F r) = wl_id r" and "\<And>r. wl_amount_usd_micros (F r) = wl_amount_usd_micros r"
    and "\<And>i r. refund_of i (F r) = refund_of i r" and "\<And>r. p (F r) = p r"
  shows "refunds_ok p (map F rows) = refunds_ok p rows"
proof -
  have "refunded p i (map F rows) = refunded p i rows" for i
    by (simp add: refunded_def filter_map comp_def assms)
  then show ?thesis by (auto simp: refunds_ok_def assms image_image)
qed

lemma settled_row_ok:
  assumes inv: "inv_with lib ops gs s cs as" and i: "i < length gs" and g: "ac_own g = None"
    and may: "may_settle lib (gs ! i) (wl_id r) st" and r: "r \<in> set (gd_wallets s)"
  shows "(st = ''confirmed'' \<longrightarrow> backed lib s as (row_facts r)) \<and>
    (st = ''rejected'' \<longrightarrow> \<not> live lib (gs[i := g]) (posted_ids ops) as r)"
proof -
  from inv i have db: "db_ok s" and acc: "account_ok lib s (posted_ids ops) as (gs ! i)" by (simp_all add: inv_with_def)
  have "backed lib s as (row_facts r)" if "st = ''confirmed''"
  proof -
    from may that obtain f where f: "f \<in> ac_seen (gs ! i)" "of_id f = wl_id r" "proves lib (gs ! i) f"
      by (auto simp: may_settle_def)
    with acc have "f \<in> known_rows s" by (auto simp: account_ok_def)
    with facts_unique [OF db this r] f(2) have "row_facts r = f" by simp
    moreover from f(3) acc have "backed lib s as f"
      unfolding proves_def backed_def account_ok_def by (meson subject_of_mono subsetD)
    ultimately show ?thesis by simp
  qed
  moreover have "\<not> live lib (gs[i := g]) (posted_ids ops) as r" if "st = ''rejected''"
  proof -
    from may that obtain f p where f: "ac_own (gs ! i) = Some (f, p)" "of_id f = wl_id r"
      "p = NotPosted \<or> (\<exists>c a. p = Posted c (Some a) \<and> refused a)" by (auto simp: may_settle_def)
    with acc have "f \<in> known_rows s" by (fastforce simp: account_ok_def)
    with facts_unique [OF db this r] f(2) have rf: "row_facts r = f" by simp
    have nobody: "\<not> owns h f" if "h \<in> set (gs[i := g])" for h
    proof (cases rule: in_update [OF that])
      case (2 j)
      have "apart (gs ! i) (gs ! j)" using inv i 2 by (intro apart_nth) (auto simp: inv_with_def)
      with f(1) 2(3) show ?thesis by (auto simp: apart_def owns_def)
    qed (simp add: owns_def g)
    from f(3) show ?thesis
    proof
      assume "p = NotPosted"
      with acc f(1,2) have "wl_id r \<notin> posted_ids ops" by (simp add: account_ok_def)
      with nobody rf show ?thesis by (simp add: live_def)
    next
      assume "\<exists>c a. p = Posted c (Some a) \<and> refused a"
      then obtain c a where ca: "p = Posted c (Some a)" "refused a" by blast
      with acc f(1) have "(c, a) \<in> set as" "\<exists>u. c = post_of lib u f" by (simp_all add: account_ok_def)
      with ca(2) rf show ?thesis by (auto simp: live_def refusal_def)
    qed
  qed
  ultimately show ?thesis by blast
qed

lemma inv_settle:
  assumes inv: "inv_with lib ops gs s cs as" and i: "i < length gs" and db: "db_ok s'" and b: "known_bindings s \<subseteq> known_bindings s'"
    and w: "gd_wallets s' = update_rows (\<lambda>r. wl_id r = j) (settle_row lib st ext rid code now) (gd_wallets s)"
    and may: "may_settle lib (gs ! i) j st"
    and g: "ac_own g = None" "ac_seen g \<subseteq> known_rows s'" "ac_bound g \<subseteq> known_bindings s'" "ac_known g \<subseteq> native_evidence as"
  shows "inv_with lib ops (gs[i := g]) s' cs as"
proof -
  define F where "F r = (if wl_id r = j then settle_row lib st ext rid code now r else r)" for r
  have rows': "gd_wallets s' = map F (gd_wallets s)" by (simp add: w update_rows_def F_def)
  have F: "row_facts (F r) = row_facts r" "wl_id (F r) = wl_id r" "wl_amount_usd_micros (F r) = wl_amount_usd_micros r"
    "refund_of k (F r) = refund_of k r" for r k by (simp_all add: F_def settle_row_def row_facts_def refund_of_def)
  have live_F: "live lib hs ids as (F r) = live lib hs ids as r" for hs ids r by (simp add: live_def F)
  have old: "db_ok s" "refunds_ok (live lib gs (posted_ids ops) as) (gd_wallets s)" "posts_ok lib s ops cs"
    and acc: "\<And>h. h \<in> set gs \<Longrightarrow> account_ok lib s (posted_ids ops) as h"
    and rows: "\<And>r. r \<in> set (gd_wallets s) \<Longrightarrow> row_ok lib gs s (posted_ids ops) as r" using inv by (simp_all add: inv_with_def)
  have known: "known_rows s' = known_rows s" by (simp add: rows' image_image F(1))
  have live: "live lib gs (posted_ids ops) as r" if "live lib (gs[i := g]) (posted_ids ops) as r" for r
    using that i by (rule live_update) (simp_all add: owns_def g(1))
  have "sorted_wrt apart (gs[i := g])" using inv g(1) by (intro apart_update apart_none) (simp_all add: inv_with_def)
  moreover have "posts_ok lib s' ops cs" by (rule posts_ok_mono [OF old(3) _ b]) (simp add: known)
  moreover have "account_ok lib s' (posted_ids ops) as h" if "h \<in> set (gs[i := g])" for h
  proof (cases rule: in_update [OF that])
    case 1
    with g show ?thesis by (simp add: account_ok_def)
  next
    case (2 k)
    have ap: "apart (gs ! i) h" using inv i 2 by (auto simp: inv_with_def intro: apart_nth)
    show ?thesis
    proof (rule account_ok_db [of lib s])
      fix r
      assume r: "r \<in> set (gd_wallets s)" "owns h (row_facts r)" "wl_status r \<in> {''requested'', ''confirmed''}"
      have "st = ''confirmed''" if "wl_id r = j"
        using may ap r(2) that by (auto simp: may_settle_def apart_def owns_def)
      then have "wl_status (F r) \<in> {''requested'', ''confirmed''}" using r(3) by (auto simp: F_def)
      with r(1) show "\<exists>r' \<in> set (gd_wallets s'). row_facts r' = row_facts r \<and> wl_status r' \<in> {''requested'', ''confirmed''}"
        by (intro bexI [of _ "F r"]) (auto simp: F(1) rows')
    qed (use acc 2 known b in auto)
  qed
  moreover have "row_ok lib (gs[i := g]) s' (posted_ids ops) as x" if x: "x \<in> set (gd_wallets s')" for x
  proof -
    from x obtain r where r: "r \<in> set (gd_wallets s)" "x = F r" by (auto simp: rows')
    show ?thesis
    proof (cases "wl_id r = j")
      case True
      with may have "may_settle lib (gs ! i) (wl_id r) st" by simp
      from settled_row_ok [OF inv i g(1) this r(1)] True r(2) backed_mono [OF _ b order_refl] show ?thesis
        unfolding row_ok_def r(2) F(1) live_F by (simp add: F_def)
    next
      case False
      with rows [OF r(1)] live [of r] backed_mono [OF _ b, of lib as] show ?thesis
        unfolding row_ok_def r(2) by (auto simp: F_def)
    qed
  qed
  moreover have "refunds_ok (live lib (gs[i := g]) (posted_ids ops) as) (gd_wallets s)"
    using old(2) live amounts_positive [OF old(1), THEN less_imp_le] by (rule refunds_ok_mono)
  then have "refunds_ok (live lib (gs[i := g]) (posted_ids ops) as) (gd_wallets s')"
    unfolding rows' by (subst refunds_ok_map) (simp_all add: F live_F)
  ultimately show ?thesis using db by (simp add: inv_with_def)
qed

section \<open>The service\<close>

lemma subset_via: "X \<subseteq> A \<union> C \<Longrightarrow> A \<subseteq> B \<Longrightarrow> B \<subseteq> C \<Longrightarrow> X \<subseteq> C"
  by blast

lemma inv_move:
  assumes "gateway_inv lib gs s cs as" and i: "i < length gs" and may: "ac_may_db lib (gs ! i) s s'"
    and g: "ac_own g = own_after (gs ! i) s s' \<or> gd_wallets s' \<noteq> gd_wallets s \<and> ac_own g = None"
      "ac_seen g \<subseteq> ac_seen (gs ! i) \<union> known_rows s'" "ac_bound g \<subseteq> ac_bound (gs ! i) \<union> known_bindings s'" "ac_known g = ac_known (gs ! i)"
  shows "gateway_inv lib (gs[i := g]) s' cs as"
proof -
  from assms(1) obtain ops where inv: "inv_with lib ops gs s cs as" by (auto simp: gateway_inv_def)
  from may have db: "db_ok s'" and b: "known_bindings s \<subseteq> known_bindings s'" and move: "wallet_move lib (gs ! i) s (gd_wallets s')"
    by (simp_all add: ac_may_db_def)
  from inv i have acc: "account_ok lib s (posted_ids ops) as (gs ! i)" by (simp add: inv_with_def)
  have knows: "ac_seen g \<subseteq> known_rows s'" "ac_bound g \<subseteq> known_bindings s'" "ac_known g \<subseteq> native_evidence as"
    if grown: "known_rows s \<subseteq> known_rows s'"
  proof -
    from acc have "ac_seen (gs ! i) \<subseteq> known_rows s" "ac_bound (gs ! i) \<subseteq> known_bindings s" "ac_known (gs ! i) \<subseteq> native_evidence as"
      by (simp_all add: account_ok_def)
    then show "ac_seen g \<subseteq> known_rows s'" "ac_bound g \<subseteq> known_bindings s'" "ac_known g \<subseteq> native_evidence as"
      using subset_via [OF g(2) _ grown] subset_via [OF g(3) _ b] g(4) by simp_all
  qed
  from move have "inv_with lib ops (gs[i := g]) s' cs as"
  proof (cases rule: wallet_move.cases)
    case same
    then have own: "ac_own g = ac_own (gs ! i)" using g(1) by (simp add: own_after_def)
    have "account_ok lib s' (posted_ids ops) as (gs ! i)"
      by (rule account_ok_db [OF acc]) (use b same in auto)
    then have "account_ok lib s' (posted_ids ops) as g" using own knows same unfolding account_ok_def by simp
    with inv_same [OF inv i db same b own] show ?thesis by simp
  next
    case (insert row)
    then have "ac_own g = None \<or> ac_own g = Some (row_facts row, NotPosted)" using g(1) by (auto simp: own_after_def)
    with insert knows show ?thesis by (intro inv_insert [OF inv i db insert(1) b insert(2,3)]) auto
  next
    case (settle j st ext rid code now)
    show ?thesis
    proof (cases "gd_wallets s' = gd_wallets s")
      case same: True
      then have own: "ac_own g = ac_own (gs ! i)" using g(1) by (simp add: own_after_def)
      have "account_ok lib s' (posted_ids ops) as (gs ! i)"
        by (rule account_ok_db [OF acc]) (use b same in auto)
      then have "account_ok lib s' (posted_ids ops) as g" using own knows same unfolding account_ok_def by simp
      with inv_same [OF inv i db same b own] show ?thesis by simp
    next
      case False
      have "length (gd_wallets s') = length (gd_wallets s)" by (simp add: settle(1))
      then have "gd_wallets s' \<noteq> gd_wallets s @ [row]" for row by auto
      with False g(1) have own: "ac_own g = None" by (auto simp: own_after_def)
      have "map row_facts (gd_wallets s') = map row_facts (gd_wallets s)" by (simp add: settle(1) map_update_rows)
      from arg_cong [OF this, of set] have "known_rows s \<subseteq> known_rows s'" by simp
      from inv_settle [OF inv i db b settle(1,2) own knows [OF this]] show ?thesis .
    qed
  qed
  then show ?thesis by (auto simp: gateway_inv_def)
qed

lemma inv_knows: "gateway_inv lib gs s cs as \<Longrightarrow> g \<in> set gs \<Longrightarrow> ac_knows g s"
  by (auto simp: gateway_inv_def inv_with_def account_ok_def ac_knows_def)

interpretation gw: disciplined_service "gateway_discipline lib" "gateway_serve lib" fresh_account "gateway_inv lib" for lib
proof
  show "wp (gateway_discipline lib) (gateway_serve lib q) (\<lambda>_ _. True) fresh_account" for q by (rule gateway_serve_keeps)
  show "dc_knows (gateway_discipline lib) g s" if "gateway_inv lib gs s cs as" "g \<in> set gs" for gs s cs as g
    using inv_knows [OF that] by simp
  show "gateway_inv lib (gs @ [fresh_account]) s cs as" if "gateway_inv lib gs s cs as" for gs s cs as
    using that by (rule inv_spawn)
  fix gs s cs as i
  assume inv: "gateway_inv lib gs s cs as"
  show "gateway_inv lib (take k gs @ drop (Suc k) gs) s cs as" for k using inv by (rule inv_end)
  assume i: "i < length gs"
  show "gateway_inv lib (gs[i := dc_after_db (gateway_discipline lib) (gs ! i) s s']) s' cs as"
    if "dc_may_db (gateway_discipline lib) (gs ! i) s s'" for s'
    using that by (intro inv_move [OF inv i]) (simp_all add: ac_after_db_def learn_def)
  show "gateway_inv lib (gs[i := dc_after_lost (gateway_discipline lib) (gs ! i) s s']) s' cs as"
    if "dc_may_db (gateway_discipline lib) (gs ! i) s s'" for s'
    using that by (intro inv_move [OF inv i]) (auto simp: ac_after_lost_def own_after_def)
  show "gateway_inv lib (gs[i := dc_after_send (gateway_discipline lib) (gs ! i) c]) s (cs @ [c]) as"
    if "dc_may_send (gateway_discipline lib) (gs ! i) c" for c
    using inv_send [OF inv i] that by simp
  show "gateway_inv lib (gs[i := dc_after_answer (gateway_discipline lib) (gs ! i) c a]) s cs (as @ [(c, a)])" for c a
    using inv_answer [OF inv i] by simp
qed

lemma start_inv: "db_ok s \<Longrightarrow> gd_wallets s = [] \<Longrightarrow> gateway_inv lib [] s [] []"
  by (auto simp: gateway_inv_def inv_with_def posts_ok_def refunds_ok_def intro!: exI [of _ "[]"])

lemma reachable_with:
  assumes "db_ok s" and "gd_wallets s = []" and "w = fold (act (gateway_serve lib)) cs (start_world s)"
  obtains ops gs where "inv_with lib ops gs (wd_db w) (wd_sent w) (wd_answers w)"
  using gw.reachable_inv [OF start_inv [OF assms(1,2)] assms(3)] by (auto simp: gateway_inv_def)

end
