(* ===== verification/Gateway_Example.thy ===== *)
theory Gateway_Example
  imports Gateway_Machine "HOL-Library.Code_Target_Numeral"
begin

text \<open>
  Two concrete runs of the wallet settlement: a charge that goes through and is partly refunded, and a
  charge whose \<open>POST\<close> times out while a reader confirms it. The wallet, its answers and the order of events
  are the choices of the run.
\<close>

definition ex_gateway_lib :: gwlib where
  "ex_gateway_lib =
     \<lparr>gw_go = sample_lib\<lparr>lib_sha256 := (\<lambda>b. take 64 (b @ replicate 64 CHR ''0''))\<rparr>, gw_float_text = Some, gw_pg_time = (\<lambda>t. t)\<rparr>"

definition ex_gateway_db :: gateway_db where
  "ex_gateway_db =
     \<lparr>gd_bindings = [\<lparr>wb_id = ''b'', wb_tenant_id = ''t'', wb_billing_sub2api_user_id = ''7'', wb_delegation_ref = ''a'',
        wb_verification_evidence_ref = ''a'', wb_bound_at = 1, wb_revoked_at = None\<rparr>],
      gd_wallets = [], gd_store = empty_store ''opl_gateway'', gd_locks = []\<rparr>"

definition ex_gateway_server :: gateway_server where
  "ex_gateway_server = \<lparr>gs_lib = ex_gateway_lib, gs_peer = Some ''workspace'', gs_store = True, gs_directory = True\<rparr>"

definition ex_context :: "string \<Rightarrow> CallContext" where
  "ex_context key =
     \<lparr>ctx_RequestId = ''r'', ctx_IdempotencyKey = key, ctx_AuthorizationContextId = [], ctx_ActorId = ''u'', ctx_SessionId = Some ''s'',
      ctx_Scope = Some (TenantScope ''t''), ctx_AcceptedOperationGrantId = None, ctx_DeadlineAt = None\<rparr>"

definition ex_debit :: gateway_request where
  "ex_debit = DebitRequest ex_gateway_server
     \<lparr>wd_Context = Some (ex_context ''k1''), wd_WorkspaceId = ''w'', wd_ObligationId = ''o'', wd_QuoteAcceptanceId = ''q'',
      wd_AmountUsdMicros = 1500000, wd_Currency = ''USD'', wd_SubscriptionPeriodId = ''p''\<rparr>"

definition ex_refund :: gateway_request where
  "ex_refund = RefundRequest ex_gateway_server
     \<lparr>rf_Context = Some (ex_context ''k2''), rf_WorkspaceId = ''w'', rf_OriginalWalletOperationId = ''wallet-op-k1000000000000000000000000000000'',
      rf_OriginalExternalPaymentReference = [], rf_AmountUsdMicros = 1000000, rf_RefundPolicyVersionId = ''rp'',
      rf_ConfirmedDeletionReceiptId = ''d'', rf_SubscriptionPeriodId = ''p''\<rparr>"

definition ex_read :: gateway_request where
  "ex_read = ReadRequest ex_gateway_server
     \<lparr>wq_Context = Some (ex_context []), wq_WalletOperationId = [], wq_OriginalIdempotencyKey = ''k1'',
      wq_ConfirmClosedAbsence = False, wq_WorkspaceId = []\<rparr>"

definition ex_allowed :: "string \<Rightarrow> gateway_answer" where
  "ex_allowed action = Decision
     \<lparr>ad_Result = ''ALLOWED'', ad_Issuer = ''CLOUD_IDENTITY'', ad_Scope = Some (TenantScope ''t''), ad_ActorId = ''u'',
      ad_SessionId = Some ''s'', ad_AudienceOwner = ''GATEWAY'', ad_Action = action,
      ad_Resource = Some \<lparr>ar_Kind = ''WORKSPACE'', ar_Id = Some ''w''\<rparr>, ad_PermissionVersion = 1,
      ad_IssuedAt = Some (timestamp 1), ad_ExpiresAt = Some (timestamp 90), ad_AcceptedOperationGrantId = None\<rparr>"

definition ex_page :: "gatewayBalanceRecord list \<Rightarrow> gateway_answer" where
  "ex_page items = HistoryBody \<lparr>bp_Items = items, bp_Total = int (length items), bp_Page = 1, bp_PageSize = 100, bp_Pages = 1\<rparr>"

definition ex_item :: "string \<Rightarrow> string \<Rightarrow> gatewayBalanceRecord" where
  "ex_item code amount =
     \<lparr>br_Code = ''n'', br_Notes = gatewayBalanceNotePrefix @ code, br_Type = ''admin_balance'', br_Value = Some amount,
      br_BalanceAppliedValue = None, br_Status = ''used'', br_UsedBy = Some 7, br_UsedAt = Some ''x'', br_CreatedAt = Some ''x''\<rparr>"

definition ex_authorize :: "nat \<Rightarrow> string \<Rightarrow> (gateway_request, gateway_answer) choice list" where
  "ex_authorize i action = [Dispatch i, Answer i (ex_allowed action), Tick i 5]"

definition ex_ask :: "nat \<Rightarrow> gateway_answer \<Rightarrow> (gateway_request, gateway_answer) choice list" where
  "ex_ask i a = [Dispatch i, Answer i Token, Dispatch i, Answer i a]"

definition ex_history :: "nat \<Rightarrow> gatewayBalanceRecord list \<Rightarrow> (gateway_request, gateway_answer) choice list" where
  "ex_history i items = ex_ask i (ex_page items) @ [Dispatch i, Answer i (ex_page [])]"

definition ex_code :: "string \<Rightarrow> string" where
  "ex_code key = gatewayAdjustmentCode (gw_go ex_gateway_lib) key"

definition ex_charge_sent :: "nat \<Rightarrow> gateway_answer \<Rightarrow> (gateway_request, gateway_answer) choice list" where
  \<comment> \<open>a charge up to the answer of its \<open>POST\<close>\<close>
  "ex_charge_sent i a =
     Spawn ex_debit # Tick i 5 # ex_authorize i ''CHARGEACCEPTEDOBLIGATION'' @ [Commit i 5] @ ex_authorize i ''CHARGEACCEPTEDOBLIGATION'' @
     [Commit i 5, Commit i 5, Commit i 5, Commit i 5] @ ex_ask i a"

definition ex_charge_run :: "(gateway_request, gateway_answer) choice list" where
  "ex_charge_run = ex_charge_sent 0 (UserBody 7 ''active'') @ ex_history 0 [ex_item (ex_code ''k1'') ''-1.5''] @
     [Commit 0 6, Commit 0 6, Commit 0 6, Commit 0 6, Finish 0]"

definition ex_refund_run :: "(gateway_request, gateway_answer) choice list" where
  "ex_refund_run = Spawn ex_refund # Tick 0 7 # ex_authorize 0 ''REFUNDCONFIRMEDDELETION'' @
     [Commit 0 7, Commit 0 7, Commit 0 7] @ ex_ask 0 (SettingsBody (Some False) (Some False)) @ ex_ask 0 (UserBody 7 ''active'') @
     ex_history 0 [ex_item (ex_code ''k1'') ''-1.5'', ex_item (ex_code ''k2'') ''1''] @ [Commit 0 8, Commit 0 8, Commit 0 8, Finish 0]"

definition ex_read_run :: "(gateway_request, gateway_answer) choice list" where
  \<comment> \<open>a reader, as the second handler\<close>
  "ex_read_run = Spawn ex_read # Tick 1 7 # Commit 1 7 # ex_authorize 1 ''READWALLETACTION'' @ [Commit 1 7] @
     ex_history 1 [ex_item (ex_code ''k1'') ''-1.5''] @ [Commit 1 8, Commit 1 8, Commit 1 8, Finish 1]"

definition run :: "(gateway_request, gateway_answer) choice list \<Rightarrow> (gateway_db, gateway_call, gateway_answer, gateway_reply) world" where
  "run cs = fold (act (gateway_serve ex_gateway_lib)) cs (start_world ex_gateway_db)"

lemma ex_gateway_db_ok: "db_ok ex_gateway_db" "gd_wallets ex_gateway_db = []"
  by (simp_all add: ex_gateway_db_def db_ok_def)

definition summary :: "(gateway_db, gateway_call, gateway_answer, gateway_reply) world \<Rightarrow> (string \<times> string \<times> string \<times> int \<times> string option) list" where
  "summary w = map (\<lambda>r. (wl_business_idempotency_key r, wl_kind r, wl_status r, wl_amount_usd_micros r,
     wl_original_wallet_operation_id r)) (gd_wallets (wd_db w))"

lemma ex_refunded:
  "summary (run (ex_charge_run @ ex_refund_run)) =
     [(''k1'', ''charge'', ''confirmed'', 1500000, None),
      (''k2'', ''refund'', ''confirmed'', 1000000, Some ''wallet-op-k1000000000000000000000000000000'')]"
  by code_simp

lemma summary_row:
  "(k, kind, st, m, i) \<in> set (summary w) \<Longrightarrow> \<exists>c \<in> set (gd_wallets (wd_db w)). wl_kind c = kind \<and> wl_status c = st"
  by (auto simp: summary_def)

lemma ex_refunded_charge:
  "\<exists>c \<in> set (gd_wallets (wd_db (run (ex_charge_run @ ex_refund_run)))). wl_kind c = ''charge'' \<and> wl_status c = ''confirmed''"
  by (rule summary_row [of "''k1''" _ _ 1500000 None]) (unfold ex_refunded, simp)

definition confirmed_reply :: "gateway_reply \<Rightarrow> bool" where
  "confirmed_reply r \<longleftrightarrow> (case r of OperationReply (Inr m) \<Rightarrow> wo_Status m = ''CONFIRMED'' | _ \<Rightarrow> False)"

definition ex_race :: "(gateway_request, gateway_answer) choice list" where
  "ex_race = ex_charge_sent 0 (TransportFailed ''timeout'') @ ex_read_run"

lemma ex_race_confirmed:
  "map confirmed_reply (wd_replies (run ex_race)) = [True] \<and>
   summary (run ex_race) = [(''k1'', ''charge'', ''confirmed'', 1500000, None)]"
  by code_simp

lemma ex_race_reopened: "summary (run (ex_race @ [Commit 0 9])) = [(''k1'', ''charge'', ''unknown'', 1500000, None)]"
  by code_simp

end
