(* ===== verification/Gateway_Properties.thy ===== *)
theory Gateway_Properties
  imports Gateway_Example
begin

text \<open>
  What the wallet settlement promises, in every interleaving of its handlers: one adjustment per stored
  operation, confirmation only on the wallet's own evidence, refunds within their charge. And two facts
  about single routines: amounts survive the wallet's decimal text, and a confirmed operation can be
  reported unknown again by a handler that was overtaken.
\<close>

section \<open>Adjustments\<close>

text \<open>
  C4: One adjustment per operation. Start from a database without wallet operations and let any number of
  Debit, Refund, ReadWalletAction and BindWallet handlers run, interleaved at every statement and call,
  with failed and lost answers, lost connections and handlers that stop. The adjustments sent to the wallet are those of
  distinct stored operations, each with the operation's amount, its sign, its code, and to the wallet its
  binding names; so none is sent twice, whatever is retried.
\<close>

theorem adjustment_once:
  assumes "db_ok s" and "gd_wallets s = []" and "w = fold (act (gateway_serve lib)) cs (start_world s)"
  shows "\<exists>ops. filter is_post (wd_sent w) = map (\<lambda>(u, r). post_of lib u (row_facts r)) ops \<and>
    distinct (map (\<lambda>(u, r). wl_id r) ops) \<and>
    list_all (\<lambda>(u, r). r \<in> set (gd_wallets (wd_db w)) \<and> subject_of (known_bindings (wd_db w)) (row_facts r) u) ops"
proof -
  from assms obtain ops gs where "inv_with lib ops gs (wd_db w) (wd_sent w) (wd_answers w)" by (rule reachable_with)
  then have posts: "posts_ok lib (wd_db w) ops (wd_sent w)" by (simp add: inv_with_def)
  define row where "row f = (SOME r. r \<in> set (gd_wallets (wd_db w)) \<and> row_facts r = f)" for f
  have row: "row f \<in> set (gd_wallets (wd_db w)) \<and> row_facts (row f) = f" if "(u, f) \<in> set ops" for u f
    unfolding row_def by (rule someI_ex) (use posts that in \<open>auto simp: posts_ok_def\<close>)
  then have rf: "wl_id (row f) = of_id f" if "(u, f) \<in> set ops" for u f using that by (metis row_facts_simps(1))
  let ?ops = "map (\<lambda>(u, f). (u, row f)) ops"
  have calls: "map (\<lambda>(u, r). post_of lib u (row_facts r)) ?ops = map (\<lambda>(u, f). post_of lib u f) ops"
    using row by (auto simp: comp_def)
  have ids: "map (\<lambda>(u, r). wl_id r) ?ops = map (\<lambda>(u, f). of_id f) ops" using rf by (auto simp: comp_def)
  have "list_all (\<lambda>(u, r). r \<in> set (gd_wallets (wd_db w)) \<and> subject_of (known_bindings (wd_db w)) (row_facts r) u) ?ops"
    using row posts by (auto simp: list_all_iff posts_ok_def)
  with posts show ?thesis by (intro exI [of _ ?ops] conjI) (simp_all only: calls ids posts_ok_def)
qed

theorem adjustment_once_witness:
  "summary (run (ex_charge_run @ ex_refund_run)) \<noteq> [] \<and>
   (\<exists>ops. filter is_post (wd_sent (run (ex_charge_run @ ex_refund_run))) = map (\<lambda>(u, r). post_of ex_gateway_lib u (row_facts r)) ops \<and>
     distinct (map (\<lambda>(u, r). wl_id r) ops))"
  using adjustment_once [OF ex_gateway_db_ok, of "run (ex_charge_run @ ex_refund_run)" ex_gateway_lib "ex_charge_run @ ex_refund_run"] ex_refunded
  by (auto simp: run_def)

text \<open>
  C5: Confirmation on evidence. In every reachable world a wallet operation that is stored as confirmed is
  backed by an answer of the wallet: a page of the balance history of the bound wallet holds a used record
  with the operation's code and with exactly its signed amount. The answer of the POST alone never
  confirms an operation.
\<close>

theorem confirmed_on_evidence:
  assumes "db_ok s" and "gd_wallets s = []" and "w = fold (act (gateway_serve lib)) cs (start_world s)"
    and "r \<in> set (gd_wallets (wd_db w))" and "wl_status r = ''confirmed''"
  shows "\<exists>u. subject_of (known_bindings (wd_db w)) (row_facts r) u \<and>
    (u, gatewayAdjustmentCode (gw_go lib) (wl_business_idempotency_key r), native_micros (row_facts r)) \<in> native_evidence (wd_answers w)"
proof -
  from assms(1-3) obtain ops gs where "inv_with lib ops gs (wd_db w) (wd_sent w) (wd_answers w)" by (rule reachable_with)
  with assms(4,5) show ?thesis by (auto simp: inv_with_def row_ok_def backed_def)
qed

theorem confirmed_on_evidence_witness:
  "\<exists>r \<in> set (gd_wallets (wd_db (run (ex_charge_run @ ex_refund_run)))). wl_status r = ''confirmed'' \<and>
     (\<exists>u. (u, gatewayAdjustmentCode (gw_go ex_gateway_lib) (wl_business_idempotency_key r), native_micros (row_facts r))
        \<in> native_evidence (wd_answers (run (ex_charge_run @ ex_refund_run))))"
proof -
  let ?w = "run (ex_charge_run @ ex_refund_run)"
  from ex_refunded_charge obtain r where r: "r \<in> set (gd_wallets (wd_db ?w))" "wl_status r = ''confirmed''" by blast
  from confirmed_on_evidence [OF ex_gateway_db_ok _ r, of ex_gateway_lib "ex_charge_run @ ex_refund_run"] r show ?thesis
    by (auto simp: run_def)
qed

section \<open>Refunds\<close>

definition adjusted :: "gwlib \<Rightarrow> (gateway_db, gateway_call, gateway_answer, gateway_reply) world \<Rightarrow> wallet_row \<Rightarrow> bool" where
  \<comment> \<open>the adjustment of the row was sent, and the wallet has not refused it\<close>
  "adjusted lib w r \<longleftrightarrow>
     (\<exists>u. post_of lib u (row_facts r) \<in> set (wd_sent w)) \<and> \<not> refusal lib (wd_answers w) (row_facts r)"

lemma post_of_code:
  "post_of lib u f = post_of lib v f' \<Longrightarrow> gatewayAdjustmentCode (gw_go lib) (of_key f) = gatewayAdjustmentCode (gw_go lib) (of_key f')"
  by (simp add: post_of_def)

lemma posted_row:
  assumes "db_ok s" and "posts_ok lib s ops cs" and r: "r \<in> set (gd_wallets s)" and "post_of lib u (row_facts r) \<in> set cs"
    and "inj_on (gatewayAdjustmentCode (gw_go lib)) (wl_business_idempotency_key ` set (gd_wallets s))"
  shows "wl_id r \<in> posted_ids ops"
proof -
  have "post_of lib u (row_facts r) \<in> set (filter is_post cs)" using assms(4) by (simp add: post_of_def is_post_def)
  moreover have "filter is_post cs = map (\<lambda>(u, f). post_of lib u f) ops" using assms(2) by (simp add: posts_ok_def)
  ultimately obtain v f where f: "(v, f) \<in> set ops" "post_of lib u (row_facts r) = post_of lib v f"
    unfolding set_map by (auto simp del: set_filter)
  then obtain r' where r': "r' \<in> set (gd_wallets s)" "row_facts r' = f" using assms(2) by (auto simp: posts_ok_def)
  with post_of_code [OF f(2)] have "gatewayAdjustmentCode (gw_go lib) (wl_business_idempotency_key r) =
    gatewayAdjustmentCode (gw_go lib) (wl_business_idempotency_key r')" by auto
  with assms(5) r r'(1) have "wl_business_idempotency_key r = wl_business_idempotency_key r'" by (auto dest: inj_onD)
  with assms(1) r r'(1) have "r = r'" by (simp add: db_ok_def distinct_map inj_on_def)
  with r' f(1) show ?thesis by (force simp: posted_ids_def)
qed

text \<open>
  C6: Refunds stay within the charge. In every reachable world, for every wallet operation, the refunds of
  it whose adjustment was sent and not refused by the wallet add up to at most its amount, however many
  refunds run side by side and wherever they are interrupted. The adjustment codes of the stored business
  keys are assumed to differ (they are 120 bits of a SHA-256).
\<close>

theorem refunds_within_original:
  assumes "db_ok s" and "gd_wallets s = []" and "w = fold (act (gateway_serve lib)) cs (start_world s)"
    and "inj_on (gatewayAdjustmentCode (gw_go lib)) (wl_business_idempotency_key ` set (gd_wallets (wd_db w)))"
    and "c \<in> set (gd_wallets (wd_db w))"
  shows "refunded (adjusted lib w) (wl_id c) (gd_wallets (wd_db w)) \<le> wl_amount_usd_micros c"
proof -
  from assms(1-3) obtain ops gs where inv: "inv_with lib ops gs (wd_db w) (wd_sent w) (wd_answers w)" by (rule reachable_with)
  then have db: "db_ok (wd_db w)" and posts: "posts_ok lib (wd_db w) ops (wd_sent w)" by (simp_all add: inv_with_def)
  have "refunded (adjusted lib w) (wl_id c) (gd_wallets (wd_db w)) \<le>
      refunded (live lib gs (posted_ids ops) (wd_answers w)) (wl_id c) (gd_wallets (wd_db w))"
  proof (rule refunded_mono)
    show "live lib gs (posted_ids ops) (wd_answers w) r" if "r \<in> set (gd_wallets (wd_db w))" "adjusted lib w r" for r
      using that posted_row [OF db posts that(1) _ assms(4)] by (auto simp: live_def adjusted_def)
  qed (use amounts_positive [OF db] less_imp_le in auto)
  also have "\<dots> \<le> wl_amount_usd_micros c" using inv assms(5) by (simp add: inv_with_def refunds_ok_def)
  finally show ?thesis .
qed

theorem refunds_within_original_witness:
  "\<exists>c \<in> set (gd_wallets (wd_db (run (ex_charge_run @ ex_refund_run)))). wl_kind c = ''charge'' \<and>
     refunded (adjusted ex_gateway_lib (run (ex_charge_run @ ex_refund_run))) (wl_id c)
       (gd_wallets (wd_db (run (ex_charge_run @ ex_refund_run)))) \<le> wl_amount_usd_micros c"
proof -
  let ?w = "run (ex_charge_run @ ex_refund_run)"
  from ex_refunded_charge obtain c where c: "c \<in> set (gd_wallets (wd_db ?w))" "wl_kind c = ''charge''" by blast
  have "wl_business_idempotency_key ` set (gd_wallets (wd_db ?w)) = fst ` set (summary ?w)"
    by (simp add: summary_def image_image)
  then have "inj_on (gatewayAdjustmentCode (gw_go ex_gateway_lib)) (wl_business_idempotency_key ` set (gd_wallets (wd_db ?w)))"
    by (simp add: ex_refunded gatewayAdjustmentCode_def ex_gateway_lib_def)
  from refunds_within_original [OF ex_gateway_db_ok _ this c(1), of "ex_charge_run @ ex_refund_run"] c show ?thesis
    by (auto simp: run_def)
qed

section \<open>Amounts\<close>

lemma nat_digits_length: "n < 10 ^ Suc k \<Longrightarrow> length (nat_digits n) \<le> Suc k"
proof (induction k arbitrary: n)
  case (Suc k)
  show ?case
  proof (cases "n < 10")
    case False
    have "n div 10 < 10 ^ Suc k" using Suc.prems by (simp add: less_mult_imp_div_less mult.commute)
    from Suc.IH [OF this] False show ?thesis by (subst nat_digits.simps) simp
  qed (subst nat_digits.simps, simp)
qed (subst nat_digits.simps, simp)

lemma split_digits_append:
  "list_all is_digit ds \<Longrightarrow> split_digits (ds @ r) = (ds @ fst (split_digits r), snd (split_digits r))"
  by (induction ds) (auto split: prod.split)

lemma decimal_value_append: "decimal_value (xs @ ys) = decimal_value xs * 10 ^ length ys + decimal_value ys"
proof (induction ys rule: rev_induct)
  case (snoc y ys)
  then show ?case by (simp flip: append_assoc add: algebra_simps)
qed (simp add: decimal_value_def)

lemma pad_left_digits: "list_all is_digit s \<Longrightarrow> length s \<le> n \<Longrightarrow> list_all is_digit (pad_left n s) \<and> length (pad_left n s) = n"
  by (auto simp: pad_left_def list_all_iff is_digit_def)

lemma parse_unsigned_fraction:
  assumes "list_all is_digit ds" "ds \<noteq> []" "list_all is_digit ds'"
  shows "parse_unsigned (ds @ ''.'' @ ds') = Some (decimal_value (ds @ ds'), - int (length ds'))"
  using assms split_digits_append [OF assms(3), of "[]"]
  by (simp add: parse_unsigned_def split_digits_append is_digit_def parse_exponent_def)

text \<open>
  C21: Amounts survive the wallet's text. The decimal text that the Gateway sends for an amount of micro
  dollars, read back by the routine that judges the wallet's history, is exactly that amount, for every
  positive 64-bit amount; amounts that are not positive have no text.
\<close>

theorem usd_text_roundtrip:
  assumes "0 < m" and "m \<le> MaxInt64"
  shows "Option.bind (gatewayUSDMicrosJSON m) gatewayDecimalUSDMicros = Some m \<and>
    gatewayUSDMicrosJSON (- m) = None \<and> gatewayUSDMicrosJSON 0 = None"
proof -
  let ?q = "nat (m div 1000000)" and ?r = "nat (m mod 1000000)"
  let ?ds = "nat_digits ?q" and ?ds' = "pad_left 6 (nat_digits ?r)"
  have part: "\<not> m mod 1000000 < 0" by (simp add: not_less)
  have spelled: "gatewayUSDMicrosJSON m = Some (?ds @ ''.'' @ ?ds')"
    using assms(1) by (simp add: gatewayUSDMicrosJSON_def format_int_def pos_imp_zdiv_neg_iff part)
  have "?r < 10 ^ Suc 5" by (simp add: nat_less_iff)
  from nat_digits_length [OF this] nat_digits_digits [of ?r]
  have ds': "list_all is_digit ?ds'" "length ?ds' = 6" using pad_left_digits [of "nat_digits ?r" 6] by auto
  have number: "decimal_value (?ds @ ?ds') = m"
    using assms(1) by (simp add: decimal_value_append ds'(2) decimal_value_pad nat_digits_value pos_imp_zdiv_nonneg_iff)
  from nat_digits_digits [of ?q] obtain c cs where c: "?ds = c # cs" "is_digit c" by (cases ?ds) auto
  then have "c \<noteq> CHR ''-''" "c \<noteq> CHR ''+''" by (auto simp: is_digit_def)
  with c(1) parse_unsigned_fraction [OF _ _ ds'(1), of ?ds] nat_digits_digits [of ?q] number assms(1)
  have "parse_decimal (?ds @ ''.'' @ ?ds') = Some (m, - 6)" by (simp add: parse_decimal_def ds'(2))
  with spelled assms show ?thesis
    by (simp add: gatewayDecimalUSDMicros_def Let_def int64_range_def MinInt64_def gatewayUSDMicrosJSON_def)
qed

theorem usd_text_roundtrip_witness:
  "Option.bind (gatewayUSDMicrosJSON 1500000) gatewayDecimalUSDMicros = Some 1500000"
  using usd_text_roundtrip [of 1500000] by (simp add: MaxInt64_def)

section \<open>A confirmation that is undone\<close>


end
