(* ===== verification/Spec2Isabelle.thy ===== *)
theory Spec2Isabelle
  imports Owner_Operations Owner_Inbox Ledger_Paging Ledger_Listing Catalog_Properties Cloud_System Gateway_Properties
begin

text \<open>
  A verification of the owner services of One Person Lab Cloud (Go, under \<open>src/services\<close> and
  \<open>src/packages/contracts/go\<close>).

  \<^bold>\<open>The program.\<close> The platform is a set of owner services, each with its own PostgreSQL schema. An owner
  accepts gRPC commands of other owners, checks the caller and asks CloudIdentity for a decision, records
  its result under an idempotency key, writes domain events to an Outbox in the same transaction, and
  delivers them to the Inbox of the consuming owners. The Resource Catalog publishes plans and policies and
  prices quotes; the Gateway Integration moves money in an external wallet (Sub2API); the Ledger keeps the
  evidence: generic receipts, typed coordination receipts, reconciliations, an evidence index. The Workspace
  owner drives them: a quote is accepted for an obligation, the obligation is charged, the charge becomes a
  receipt, and a deletion may be refunded.

  \<^bold>\<open>Shared theories.\<close> \<open>Prelude\<close> holds the collections of rewrite rules, the string functions, SQL tables as
  lists of rows with \<open>sql_insert\<close> and \<open>sql_update\<close>; \<open>Go_Basics\<close> the 64-bit integers with their
  wrap-around, Go's division, decimal texts, letter case and time values; \<open>Go_Calendar\<close> the civil calendar;
  \<open>Go_Json\<close>, \<open>Go_Decode\<close> and \<open>Go_Codec\<close> JSON trees, decoding into structs and encoders that the program
  only calls; \<open>Go_Process\<close> handlers as processes that interleave. \<open>Interfaces\<close> states the contracts several
  components keep as locales: an idempotent recorder, records with final states, listers that page by key and
  behind cursors; every one is interpreted on the model's own operations, and so is \<open>disciplined_service\<close> of
  \<open>Go_Process\<close>.

  \<^bold>\<open>Owner kernel\<close> (\<open>services/internal/ownerstore\<close>, \<open>ownerservice\<close>, \<open>owneridentity\<close>). \<open>Owner_Store\<close>: the five
  tables with their constraints and the reading of migrations (\<open>store.go\<close>). \<open>Owner_Operations\<close>
  (\<open>operation.go\<close>): creation and the guarded transitions; a finished operation is never changed, and the
  operations refine an abstract life cycle. \<open>Owner_Idempotency\<close> (\<open>idempotency.go\<close>): record and lookup round
  trip. \<open>Owner_Outbox\<close> (\<open>outbox.go\<close>): append with fan-out, acknowledgement, failure; the deliveries are
  exactly those of the contract. \<open>Owner_Inbox\<close> (\<open>inbox.go\<close>): an event is applied once whatever is
  redelivered. \<open>Event_Identity\<close> is the contract's table of events. \<open>Owner_Authorization\<close>: a peer is
  authenticated soundly and authorization fails closed. \<open>Workspace_Delete\<close> (\<open>workspace_delete.go\<close> of the
  contracts): the evidence of a deletion, the gate of its refund, and the refund's amount.

  \<^bold>\<open>Resource Catalog\<close> (\<open>services/resource-catalog/catalog\<close>). \<open>Catalog_Types\<close>, \<open>Catalog_Command\<close> (the command
  frame of \<open>service.go\<close>, the arithmetic of \<open>policy.go\<close>), \<open>Catalog_Plans\<close>, \<open>Catalog_Policies\<close>,
  \<open>Catalog_Quotes\<close>, \<open>Catalog_Offers\<close> and \<open>Catalog_Delivery\<close> translate the handlers; \<open>Catalog_Machine\<close> makes
  them a step relation, \<open>Catalog_Laws\<close> its invariant, \<open>Catalog_Acceptance\<close> and \<open>Catalog_Pricing\<close> the life of
  an offer and its price, \<open>Catalog_Properties\<close> what clients may rely on: the tables stay well formed, a quote
  binds one operation, its total is the newest effective price, it is read back as it was offered.

  \<^bold>\<open>Ledger\<close> (\<open>services/ledger\<close>). \<open>Ledger_Types\<close>, \<open>Ledger_Decode\<close>, \<open>Ledger_Validation\<close> and
  \<open>Ledger_Reconciliation\<close> are the admission rules of \<open>types.go\<close>; \<open>Ledger_Memory\<close> the reference store,
  with \<open>Ledger_Laws\<close>, \<open>Ledger_Recorders\<close>, \<open>Ledger_Retention\<close>, \<open>Ledger_Paging\<close> and \<open>Ledger_Admission\<close> its
  laws. \<open>Ledger_Postgres\<close> and \<open>Ledger_Typed\<close> are the production store, whose recording is a query and an
  insert in two transactions; \<open>Ledger_Coordination\<close> and \<open>Ledger_Events\<close> the gRPC handlers.
  \<open>Ledger_Pg_Laws\<close>, \<open>Ledger_Typed_Laws\<close>, \<open>Ledger_Machine\<close> and \<open>Ledger_Properties\<close> show that recording
  behaves as one step, that a key names one receipt, that typed evidence is immutable and read only under its
  authority, and that an acknowledged event is kept; \<open>Ledger_Listing\<close> that the SQL export refines the
  reference export.

  \<^bold>\<open>Catalog and Ledger together.\<close> \<open>Cloud_System\<close> runs both with the deliveries between them, in any order,
  readbacks of older states and lost answers included: a recorded charge has the accepted price, an
  obligation is funded one way, an acknowledged policy event is recorded.

  \<^bold>\<open>Gateway wallet\<close> (\<open>services/gateway-integration/identity\<close>). \<open>Gateway_Store\<close> (\<open>gateway_store.go\<close>, the
  guard of \<open>workspace_closeout.go\<close>), \<open>Gateway_Wallet\<close> (\<open>gateway_wallet.go\<close>) and \<open>Gateway_Coordination\<close>
  (BindWallet, Debit, Refund, ReadWalletAction of \<open>coordination.go\<close>) model the settlement as processes.
  \<open>Gateway_Discipline\<close> says what a handler may do given what it has read and done, \<open>Gateway_Handlers\<close> that
  every handler keeps to it, \<open>Gateway_Machine\<close> the invariant of any number of handlers, and
  \<open>Gateway_Properties\<close> the promises: one adjustment per operation, confirmation only on the wallet's
  evidence, refunds within their charge, in every interleaving.

  \<^bold>\<open>How the code is read.\<close>
  \<^item> A Go \<open>int64\<close> is an integer; where the source can overflow the wrap-around is written out (\<open>wrap64\<close>).
    Strings are lists of bytes; PostgreSQL's text order is taken bytewise.
  \<^item> A time is a number of nanoseconds; what a \<open>timestamptz\<close> column keeps of it is a parameter
    (\<open>cl_pg_time\<close>, \<open>pl_pg_time\<close>, \<open>gw_pg_time\<close>). A handler of the Catalog and the Ledger reads the clock once,
    which its environment gives it; in the Gateway every reading of the clock is an action.
  \<^item> A \<open>nil\<close> message is read as the zero message, as its getters do.
  \<^item> SHA-256, \<open>encoding/json\<close>, protojson, cursors and float texts are parameters (\<open>golib\<close>, \<open>catlib\<close>, \<open>pglib\<close>,
    \<open>typedlib\<close>, \<open>gwlib\<close>); what is used of them is a named hypothesis (\<open>codecs_ok\<close>, \<open>ledger_lib_ok\<close>, distinct
    codes), which the witnesses discharge on concrete functions. CloudIdentity and the peers a coordinator
    reads back from are parameters too.
  \<^item> A transaction is atomic: the advisory locks and \<open>FOR UPDATE\<close> of the source order the transactions that
    touch the same rows. Where the source uses several transactions the model has several steps. The lock that
    spans a charge is explicit, and may be lost with its connection at any moment.
  \<^item> In the Gateway, an answer of the wallet is any value of its class: a status, a body, a failure of the
    transport. A cached directory token is an answered call.

  \<^bold>\<open>Bounds.\<close> All loops terminate by structure or by a measure: the export of the evidence index stops at its
  limit of 5000 entries, the reading of the balance history at the wallet's last page or at page 1000000. Only
  the client that pages through a listing (\<open>Interfaces\<close>) counts its calls; one call per row plus one is shown
  to be enough.

  \<^bold>\<open>Not modelled.\<close> gRPC and HTTP servers, TLS, configuration and wiring; generated protobuf and ent code
  beyond the message types used; the HTTP API of the Ledger; the managed keys, the identity services and the
  closeout of the Gateway Integration; the control plane, fabric, workspace, build, capability, serve and
  runtime control services; the user interface and the tools.
\<close>

end
